(* ===== verification/Prelude.thy ===== *)
theory Prelude
  imports Main "HOL-Library.Word" "HOL-Library.Monad_Syntax"
begin

text \<open>
  The shared prelude: the machine types of the C code, bounds-checked reads of
  byte arrays, modular \<open>size_t\<close> arithmetic and the bit-level facts on bytes that
  the component theories use.

  A read outside a C object is undefined behaviour. The development makes it
  visible: \<open>rd8\<close> and its relatives return \<^const>\<open>None\<close> for such a read, and
  every routine that reads a received buffer is written over them in the option
  monad, so \<open>f x \<noteq> None\<close> says that the routine never reads out of bounds.
\<close>

unbundle bit_operations_syntax

section \<open>Machine types\<close>

type_synonym u8 = "8 word"
type_synonym u16 = "16 word"
type_synonym u32 = "32 word"
type_synonym u64 = "64 word"
type_synonym bytes = "u8 list"

text \<open>\<open>size_t\<close> on the 32-bit targets of the port: a natural number below
  \<open>2 ^ 32\<close>, with the wrap-around of the addition written out.\<close>

type_synonym size_t = nat

abbreviation SIZE_MAX :: nat where
  "SIZE_MAX \<equiv> 4294967295"

definition size_add :: "size_t \<Rightarrow> size_t \<Rightarrow> size_t" where
  "size_add a b = (a + b) mod 4294967296"

lemma size_add_exact [simp]: "a + b \<le> SIZE_MAX \<Longrightarrow> size_add a b = a + b"
  by (simp add: size_add_def)

lemma size_add_bound [simp]: "size_add a b \<le> SIZE_MAX"
proof -
  have "size_add a b < 4294967296" by (simp add: size_add_def)
  then show ?thesis by simp
qed

lemma size_add_wrap:
  assumes "SIZE_MAX < a + b" "a \<le> SIZE_MAX" "b \<le> SIZE_MAX"
  shows "size_add a b = a + b - 4294967296"
proof -
  have "(a + b) mod 4294967296 = (a + b - 4294967296) mod 4294967296"
    using assms(1) by (simp add: le_mod_geq)
  also have "\<dots> = a + b - 4294967296" using assms by simp
  finally show ?thesis by (simp add: size_add_def)
qed

text \<open>\<open>BIT(x)\<close> of \<open>common.h\<close>.\<close>

abbreviation BIT :: "nat \<Rightarrow> 'a::len word" where
  "BIT n \<equiv> push_bit n 1"

section \<open>Proof collections\<close>

named_theorems byte_simps \<open>rewriting of byte and bit expressions\<close>
named_theorems mem_simps \<open>reads and writes of byte arrays inside their bounds\<close>

section \<open>Bits of bytes\<close>

lemma bit_255_iff [byte_simps]: "bit (255 :: 'a::len word) n \<longleftrightarrow> n < LENGTH('a) \<and> n < 8"
proof -
  have "(255 :: 'a word) = mask 8" by (simp add: mask_eq_exp_minus_1)
  then show ?thesis by (simp only: bit_mask_iff) auto
qed

lemma bit_u8_high [byte_simps]: "8 \<le> n \<Longrightarrow> bit (a :: u8) n = False"
  using bit_imp_le_length [of a n] by auto

lemma bit_u8_high_add [byte_simps]:
  "bit (a :: u8) (8 + n) = False" "bit (a :: u8) (16 + n) = False" "bit (a :: u8) (24 + n) = False"
  by (simp_all add: bit_u8_high)

lemma bit_add_diff [byte_simps]: "bit w (k + (n - k)) = (if k \<le> n then bit w n else bit w k)"
  by simp

lemma unat_u8_le [simp]: "unat (x :: u8) \<le> 255"
  using unsigned_less [of x, where ?'a = nat] by simp

lemma ucast_and_255 [byte_simps]: "ucast (v AND 255 :: 'a::len word) = (ucast v :: u8)"
proof -
  have "bit (v AND 255) n = bit v n" if "n < 8" for n
    using that bit_imp_le_length [of v n] by (subst bit_and_iff, subst bit_255_iff) auto
  then show ?thesis by (intro bit_word_eqI) (simp only: bit_unsigned_iff, auto)
qed

lemma ucast_xor_u8: "ucast (a XOR b :: u8) = (ucast a XOR ucast b :: 'a::len word)"
  by (rule bit_word_eqI) (auto simp: bit_simps)

lemma byte_eqI:
  assumes "bit a 0 = bit b 0" "bit a 1 = bit b 1" "bit a 2 = bit b 2" "bit a 3 = bit b 3"
    "bit a 4 = bit b 4" "bit a 5 = bit b 5" "bit a 6 = bit b 6" "bit a 7 = bit b 7"
  shows "a = (b :: u8)"
proof (rule bit_word_eqI)
  fix n assume "n < LENGTH(8)"
  then consider "n = 0" | "n = 1" | "n = 2" | "n = 3" | "n = 4" | "n = 5" | "n = 6" | "n = 7"
    by fastforce
  then show "bit a n = bit b n" using assms by cases simp_all
qed

lemma unat_and_less: "unat (m :: u8) < k \<Longrightarrow> unat (x AND m) < k"
  using word_and_le1 [of x m] by (simp add: word_le_nat_alt)

section \<open>Bounds-checked reads\<close>

definition rd8 :: "bytes \<Rightarrow> nat \<Rightarrow> u8 option" where
  "rd8 b i = (if i < length b then Some (b ! i) else None)"

text \<open>\<open>rdn b i n\<close> is the object of \<open>n\<close> bytes at offset \<open>i\<close>, as \<open>os_memcpy\<close>
  reads it.\<close>

definition rdn :: "bytes \<Rightarrow> nat \<Rightarrow> nat \<Rightarrow> bytes option" where
  "rdn b i n = (if i + n \<le> length b then Some (take n (drop i b)) else None)"

lemma rd8_in [mem_simps]: "i < length b \<Longrightarrow> rd8 b i = Some (b ! i)"
  by (simp add: rd8_def)

lemma rd8_None_iff: "rd8 b i = None \<longleftrightarrow> length b \<le> i"
  by (simp add: rd8_def)

lemma rdn_in [mem_simps]: "i + n \<le> length b \<Longrightarrow> rdn b i n = Some (take n (drop i b))"
  by (simp add: rdn_def)

lemma rdn_length: "rdn b i n = Some x \<Longrightarrow> length x = n"
  by (auto simp: rdn_def split: if_splits)

lemma rd8_append1 [mem_simps]: "i < length xs \<Longrightarrow> rd8 (xs @ ys) i = Some (xs ! i)"
  by (simp add: rd8_def nth_append)

lemma rd8_append2 [mem_simps]: "rd8 (xs @ ys) (length xs + i) = rd8 ys i"
  by (simp add: rd8_def nth_append)

lemma rd8_Cons [mem_simps]: "rd8 (x # xs) 0 = Some x" "rd8 (x # xs) (Suc i) = rd8 xs i"
  by (simp_all add: rd8_def)

lemma rd8_Nil [mem_simps]: "rd8 [] i = None"
  by (simp add: rd8_def)

text \<open>\<open>os_memcpy(dst + off, src, len)\<close>: the destination after the copy, or
  \<^const>\<open>None\<close> when the copy runs past the destination.\<close>

definition wrn :: "bytes \<Rightarrow> nat \<Rightarrow> bytes \<Rightarrow> bytes option" where
  "wrn dst off src =
     (if off + length src \<le> length dst
      then Some (take off dst @ src @ drop (off + length src) dst) else None)"

lemma wrn_in [mem_simps]:
  "off + length src \<le> length dst \<Longrightarrow>
     wrn dst off src = Some (take off dst @ src @ drop (off + length src) dst)"
  by (simp add: wrn_def)

lemma wrn_length: "wrn dst off src = Some d \<Longrightarrow> length d = length dst"
  by (auto simp: wrn_def split: if_splits)

lemma take_wrn: "wrn dst off src = Some d \<Longrightarrow> take (off + length src) d = take off dst @ src"
  by (auto simp: wrn_def split: if_splits)

section \<open>Computations that return\<close>

text \<open>\<open>returns P x\<close>: the computation \<open>x\<close> does not fault and its result satisfies
  \<open>P\<close>. The rules in \<open>wp\<close> push it through the option monad.\<close>

named_theorems wp \<open>rules for computations that return\<close>

definition returns :: "('a \<Rightarrow> bool) \<Rightarrow> 'a option \<Rightarrow> bool" where
  "returns P x \<longleftrightarrow> (case x of None \<Rightarrow> False | Some y \<Rightarrow> P y)"

lemma returns_Some [wp, simp]: "returns P (Some y) \<longleftrightarrow> P y"
  by (simp add: returns_def)

lemma returns_None [wp, simp]: "\<not> returns P None"
  by (simp add: returns_def)

lemma returns_bind [wp]: "returns P (x \<bind> f) \<longleftrightarrow> returns (\<lambda>y. returns P (f y)) x"
  by (cases x) simp_all

lemma returns_map_option [wp]: "returns P (map_option f x) \<longleftrightarrow> returns (\<lambda>y. P (f y)) x"
  by (cases x) simp_all

lemma returns_if [wp]:
  "returns P (if c then x else y) \<longleftrightarrow> (c \<longrightarrow> returns P x) \<and> (\<not> c \<longrightarrow> returns P y)"
  by simp

lemma returns_case_option [wp]:
  "returns P (case x of None \<Rightarrow> a | Some y \<Rightarrow> f y) \<longleftrightarrow>
     (x = None \<longrightarrow> returns P a) \<and> (\<forall>y. x = Some y \<longrightarrow> returns P (f y))"
  by (cases x) simp_all

lemma returns_rd8 [wp]: "returns P (rd8 b i) \<longleftrightarrow> i < length b \<and> P (b ! i)"
  by (simp add: rd8_def)

lemma returns_rdn [wp]: "returns P (rdn b i n) \<longleftrightarrow> i + n \<le> length b \<and> P (take n (drop i b))"
  by (simp add: rdn_def)

lemma returns_case_prod [wp]: "returns P (case p of (a, b) \<Rightarrow> f a b) \<longleftrightarrow> returns P (f (fst p) (snd p))"
  by (simp add: split_beta)

lemma returns_Let [wp]: "returns P (Let x f) \<longleftrightarrow> returns P (f x)"
  by (simp add: Let_def)

lemma returns_None_cond: "(x = None) = c \<Longrightarrow> returns P x \<longleftrightarrow> \<not> c \<and> (\<forall>v. x = Some v \<longrightarrow> P v)"
  by (cases x) simp_all

lemma returns_iff: "returns P x \<longleftrightarrow> (\<exists>y. x = Some y \<and> P y)"
  by (cases x) simp_all

lemma returns_mono: "returns P x \<Longrightarrow> (\<And>y. x = Some y \<Longrightarrow> P y \<Longrightarrow> Q y) \<Longrightarrow> returns Q x"
  by (cases x) simp_all

lemma returns_conj: "returns P x \<Longrightarrow> returns Q x \<Longrightarrow> returns (\<lambda>y. P y \<and> Q y) x"
  by (cases x) simp_all

text \<open>\<open>yields P x\<close>: the result of \<open>x\<close>, if it does not fault, satisfies \<open>P\<close>. The rules
  in \<open>wlp\<close> are its rewriting rules.\<close>

named_theorems wlp \<open>rules for the results of computations\<close>

definition yields :: "('a \<Rightarrow> bool) \<Rightarrow> 'a option \<Rightarrow> bool" where
  "yields P x \<longleftrightarrow> (\<forall>y. x = Some y \<longrightarrow> P y)"

lemma yields_Some [wlp, simp]: "yields P (Some y) \<longleftrightarrow> P y"
  by (simp add: yields_def)

lemma yields_None [wlp, simp]: "yields P None"
  by (simp add: yields_def)

lemma yields_bind [wlp]: "yields P (x \<bind> f) \<longleftrightarrow> yields (\<lambda>y. yields P (f y)) x"
  by (cases x) simp_all

lemma yields_if [wlp]:
  "yields P (if c then x else y) \<longleftrightarrow> (c \<longrightarrow> yields P x) \<and> (\<not> c \<longrightarrow> yields P y)"
  by simp

lemma yields_case_option [wlp]:
  "yields P (case x of None \<Rightarrow> a | Some y \<Rightarrow> f y) \<longleftrightarrow>
     (x = None \<longrightarrow> yields P a) \<and> (\<forall>y. x = Some y \<longrightarrow> yields P (f y))"
  by (cases x) simp_all

lemma yields_case_prod [wlp]: "yields P (case p of (a, b) \<Rightarrow> f a b) \<longleftrightarrow> yields P (f (fst p) (snd p))"
  by (simp add: split_beta)

lemma yields_Let [wlp]: "yields P (Let x f) \<longleftrightarrow> yields P (f x)"
  by (simp add: Let_def)

lemma yieldsI: "(\<And>y. x = Some y \<Longrightarrow> P y) \<Longrightarrow> yields P x"
  by (simp add: yields_def)

lemma yieldsD: "yields P x \<Longrightarrow> x = Some y \<Longrightarrow> P y"
  by (simp add: yields_def)

lemma yields_mono: "yields Q x \<Longrightarrow> (\<And>y. x = Some y \<Longrightarrow> Q y \<Longrightarrow> P y) \<Longrightarrow> yields P x"
  by (simp add: yields_def)

lemma returns_yields: "x \<noteq> None \<Longrightarrow> yields P x \<Longrightarrow> returns P x"
  by (cases x) simp_all

section \<open>Lists\<close>

lemma take_Suc_nth: "i < length xs \<Longrightarrow> take (Suc i) xs = take i xs @ [xs ! i]"
  by (rule take_Suc_conv_app_nth)

lemma list_eq_nth4: "length xs = 4 \<Longrightarrow> xs = [xs ! 0, xs ! 1, xs ! 2, xs ! 3]"
  by (auto simp: numeral_eq_Suc length_Suc_conv)

text \<open>\<open>os_memcmp(a, b, n)\<close> as a sign: the bytes are compared as unsigned values from
  the front.\<close>

fun os_memcmp :: "bytes \<Rightarrow> bytes \<Rightarrow> int" where
  "os_memcmp (x # xs) (y # ys) = (if x < y then -1 else if y < x then 1 else os_memcmp xs ys)"
| "os_memcmp _ _ = 0"

lemma os_memcmp_eq_0: "length a = length b \<Longrightarrow> os_memcmp a b = 0 \<longleftrightarrow> a = b"
  by (induction a b rule: os_memcmp.induct) auto

lemma os_memcmp_same [simp]: "os_memcmp a a = 0"
  by (simp add: os_memcmp_eq_0)

text \<open>The big-endian value of a byte string.\<close>

fun be_val :: "bytes \<Rightarrow> nat" where
  "be_val [] = 0"
| "be_val (x # xs) = unat x * 256 ^ length xs + be_val xs"

lemma be_val_bound: "be_val xs < 256 ^ length xs"
proof (induction xs)
  case Nil
  then show ?case by simp
next
  case (Cons x xs)
  have "unat x * 256 ^ length xs \<le> 255 * 256 ^ length xs" by (rule mult_right_mono) simp_all
  moreover have "256 ^ length (x # xs) = 255 * 256 ^ length xs + (256 ^ length xs :: nat)" by simp
  ultimately show ?case using Cons by (simp only: be_val.simps)
qed

lemma be_val_Cons_less:
  assumes "unat x < unat y" "length xs = length ys"
  shows "be_val (x # xs) < be_val (y # ys)"
proof -
  have "Suc (unat x) * 256 ^ length xs \<le> unat y * 256 ^ length xs"
    using assms(1) by (intro mult_right_mono) auto
  with be_val_bound [of xs] assms(2) show ?thesis by simp
qed

text \<open>On byte strings of one length, \<open>os_memcmp\<close> orders them as big-endian numbers:
  what the replay-counter comparisons rely on.\<close>

lemma os_memcmp_be_val:
  "length a = length b \<Longrightarrow>
     (os_memcmp a b < 0 \<longleftrightarrow> be_val a < be_val b) \<and> (os_memcmp a b > 0 \<longleftrightarrow> be_val a > be_val b)"
proof (induction a b rule: os_memcmp.induct)
  case (1 x xs y ys)
  then have len: "length xs = length ys" by simp
  consider "x < y" | "y < x" | "x = y" by fastforce
  then show ?case
  proof cases
    case 1
    with be_val_Cons_less [of x y xs ys] len show ?thesis
      by (auto simp: word_less_nat_alt simp del: be_val.simps)
  next
    case 2
    with be_val_Cons_less [of y x ys xs] len show ?thesis
      by (auto simp: word_less_nat_alt simp del: be_val.simps)
  next
    case 3
    with 1 len show ?thesis by simp
  qed
qed auto

section \<open>Reachable states of a component\<close>

text \<open>
  The contract every stateful component of the development is used under: an
  invariant of its initial states that each of its operations keeps, for the events
  \<open>ok\<close> that its callers may cause. The run of a sequence of events then keeps it; the
  components interpret this locale with the step function of the code.
\<close>

locale event_machine =
  fixes step :: "'s \<Rightarrow> 'e \<Rightarrow> 's"
    and ok :: "'e \<Rightarrow> bool"
    and inv :: "'s \<Rightarrow> bool"
  assumes step_inv: "inv s \<Longrightarrow> ok e \<Longrightarrow> inv (step s e)"
begin

lemma run_inv: "inv s \<Longrightarrow> list_all ok es \<Longrightarrow> inv (foldl step s es)"
  by (induction es arbitrary: s) (auto intro: step_inv)

lemma run_prefix_inv: "inv s \<Longrightarrow> list_all ok (xs @ ys) \<Longrightarrow> inv (foldl step s xs)"
  by (simp add: run_inv)

end

end
