(* ===== verification/Base64.thy ===== *)
theory Base64
  imports Prelude
begin

text \<open>
  Base64 and Base64url encoding and decoding, \<open>src/utils/base64.c\<close>. Text is a
  list of bytes; the answer of \<open>os_malloc\<close> is the argument \<open>ok\<close>. The encoder's
  \<open>while\<close> loop is \<open>base64_enc_loop\<close>, the decoder's second \<open>for\<close> loop
  \<open>base64_dec_loop\<close>.
\<close>

definition base64_table :: bytes where
  "base64_table = map of_nat ([65..<91] @ [97..<123] @ [48..<58] @ [43, 47])"

definition base64_url_table :: bytes where
  "base64_url_table = map of_nat ([65..<91] @ [97..<123] @ [48..<58] @ [45, 95])"

definition BASE64_PAD :: u8 where
  "BASE64_PAD = BIT 0"

definition BASE64_LF :: u8 where
  "BASE64_LF = BIT 1"

section \<open>Encoder\<close>

text \<open>The characters of the loop, the remaining input and the final \<open>line_len\<close>.\<close>

fun base64_enc_loop :: "bytes \<Rightarrow> u8 \<Rightarrow> bytes \<Rightarrow> nat \<Rightarrow> bytes \<times> bytes \<times> nat" where
  "base64_enc_loop table add_pad (i0 # i1 # i2 # rest) line_len =
     (let chars = [table ! unat (drop_bit 2 i0 AND 0x3f),
                   table ! unat ((push_bit 4 (i0 AND 0x03) OR drop_bit 4 i1) AND 0x3f),
                   table ! unat ((push_bit 2 (i1 AND 0x0f) OR drop_bit 6 i2) AND 0x3f),
                   table ! unat (i2 AND 0x3f)];
          line_len = line_len + 4;
          (lf, line_len) = (if add_pad AND BASE64_LF \<noteq> 0 \<and> line_len \<ge> 72 then ([10], 0) else ([], line_len));
          (out, rem, ll) = base64_enc_loop table add_pad rest line_len
      in (chars @ lf @ out, rem, ll))"
| "base64_enc_loop table add_pad rem line_len = ([], rem, line_len)"

definition base64_enc_tail :: "bytes \<Rightarrow> u8 \<Rightarrow> bytes \<Rightarrow> bytes" where
  "base64_enc_tail table add_pad rem =
     (case rem of
        [] \<Rightarrow> []
      | i0 # r \<Rightarrow>
          [table ! unat (drop_bit 2 i0 AND 0x3f)] @
          (case r of
             [] \<Rightarrow> [table ! unat (push_bit 4 (i0 AND 0x03) AND 0x3f)] @
                   (if add_pad AND BASE64_PAD \<noteq> 0 then [61] else [])
           | i1 # _ \<Rightarrow> [table ! unat ((push_bit 4 (i0 AND 0x03) OR drop_bit 4 i1) AND 0x3f),
                         table ! unat (push_bit 2 (i1 AND 0x0f) AND 0x3f)]) @
          (if add_pad AND BASE64_PAD \<noteq> 0 then [61] else []))"

definition base64_olen :: "nat \<Rightarrow> u8 \<Rightarrow> nat" where
  "base64_olen len add_pad =
     (let olen = len * 4 div 3 + 4;
          olen = (if add_pad AND BASE64_LF \<noteq> 0 then olen + olen div 72 else olen)
      in olen + 1)"

definition base64_gen_encode :: "bool \<Rightarrow> bytes \<Rightarrow> bytes \<Rightarrow> u8 \<Rightarrow> bytes option" where
  "base64_gen_encode ok src table add_pad =
     (if length src \<ge> SIZE_MAX div 4 then None
      else if base64_olen (length src) add_pad < length src then None
      else if \<not> ok then None
      else
        let (out, rem, line_len) = base64_enc_loop table add_pad src 0;
            line_len = (if rem \<noteq> [] then line_len + 4 else line_len)
        in Some (out @ base64_enc_tail table add_pad rem @
                 (if add_pad AND BASE64_LF \<noteq> 0 \<and> line_len \<noteq> 0 then [10] else [])))"

section \<open>Decoder\<close>

fun base64_set_dtable :: "bytes \<Rightarrow> nat \<Rightarrow> bytes \<Rightarrow> bytes" where
  "base64_set_dtable dtable i [] = dtable"
| "base64_set_dtable dtable i (c # cs) = base64_set_dtable (dtable[unat c := of_nat i]) (Suc i) cs"

definition base64_dtable :: "bytes \<Rightarrow> bytes" where
  "base64_dtable table = (base64_set_dtable (replicate 256 0x80) 0 (take 64 table))[61 := 0]"

fun base64_dec_loop :: "bytes \<Rightarrow> bytes \<Rightarrow> bytes \<Rightarrow> nat \<Rightarrow> bytes \<Rightarrow> bytes option" where
  "base64_dec_loop dtable [] block pad out = Some out"
| "base64_dec_loop dtable (val # vals) block pad out =
     (let tmp = dtable ! unat val in
      if tmp = 0x80 then base64_dec_loop dtable vals block pad out
      else
        let pad = (if val = 61 then pad + 1 else pad);
            block = block @ [tmp]
        in if length block = 4 then
             let out = out @ [push_bit 2 (block ! 0) OR drop_bit 4 (block ! 1),
                              push_bit 4 (block ! 1) OR drop_bit 2 (block ! 2),
                              push_bit 6 (block ! 2) OR block ! 3]
             in if pad \<noteq> 0 then
                  if pad = 1 then Some (take (length out - 1) out)
                  else if pad = 2 then Some (take (length out - 2) out)
                  else None
                else base64_dec_loop dtable vals [] pad out
           else base64_dec_loop dtable vals block pad out)"

definition base64_gen_decode :: "bool \<Rightarrow> bytes \<Rightarrow> bytes \<Rightarrow> bytes option" where
  "base64_gen_decode ok src table =
     (let dtable = base64_dtable table;
          count = length (filter (\<lambda>c. dtable ! unat c \<noteq> 0x80) src)
      in if count = 0 then None
         else
           let extra_pad = (4 - count mod 4) mod 4
           in if \<not> ok then None
              else base64_dec_loop dtable (src @ replicate extra_pad 61) [] 0 [])"

section \<open>Entry points\<close>

definition wpa_base64_encode :: "bool \<Rightarrow> bytes \<Rightarrow> bytes option" where
  "wpa_base64_encode ok src = base64_gen_encode ok src base64_table (BASE64_PAD OR BASE64_LF)"

definition base64_encode_no_lf :: "bool \<Rightarrow> bytes \<Rightarrow> bytes option" where
  "base64_encode_no_lf ok src = base64_gen_encode ok src base64_table BASE64_PAD"

definition base64_url_encode :: "bool \<Rightarrow> bytes \<Rightarrow> bytes option" where
  "base64_url_encode ok src = base64_gen_encode ok src base64_url_table 0"

definition wpa_base64_decode :: "bool \<Rightarrow> bytes \<Rightarrow> bytes option" where
  "wpa_base64_decode ok src = base64_gen_decode ok src base64_table"

definition base64_url_decode :: "bool \<Rightarrow> bytes \<Rightarrow> bytes option" where
  "base64_url_decode ok src = base64_gen_decode ok src base64_url_table"

section \<open>Alphabets\<close>

text \<open>What the round trip needs of an alphabet and its inverse table.\<close>

definition good_alphabet :: "bytes \<Rightarrow> bool" where
  "good_alphabet table \<longleftrightarrow> length table = 64 \<and>
     (\<forall>i < 64. base64_dtable table ! unat (table ! i) = of_nat i \<and> table ! i \<noteq> 61) \<and>
     base64_dtable table ! 10 = 0x80 \<and> base64_dtable table ! 61 = 0"

lemma good_base64_table: "good_alphabet base64_table"
  by code_simp

lemma good_base64_url_table: "good_alphabet base64_url_table"
  by code_simp


lemma alphabet_char:
  assumes "good_alphabet table" "unat s < 64"
  shows "base64_dtable table ! unat (table ! unat (s :: u8)) = s" "table ! unat s \<noteq> 61"
  using assms by (auto simp: good_alphabet_def)

lemma sextet_ne_80: "unat (s :: u8) < 64 \<Longrightarrow> s \<noteq> 0x80"
  by auto

section \<open>Round trip\<close>

lemma sextet_bound: "unat (x AND 0x3f :: u8) < 64"
  by (rule unat_and_less) simp

lemmas sextet_facts = sextet_bound alphabet_char sextet_ne_80

text \<open>The three bytes of a group come back from its four sextets.\<close>

lemma group_bits:
  fixes i0 i1 i2 :: u8
  defines "s0 \<equiv> drop_bit 2 i0 AND 0x3f"
    and "s1 \<equiv> (push_bit 4 (i0 AND 0x03) OR drop_bit 4 i1) AND 0x3f"
    and "s2 \<equiv> (push_bit 2 (i1 AND 0x0f) OR drop_bit 6 i2) AND 0x3f"
    and "s3 \<equiv> i2 AND 0x3f"
  shows "push_bit 2 s0 OR drop_bit 4 s1 = i0" "push_bit 4 s1 OR drop_bit 2 s2 = i1"
    "push_bit 6 s2 OR s3 = i2"
  unfolding s0_def s1_def s2_def s3_def
  by (rule byte_eqI; simp add: bit_simps)+

lemma group_bits_short:
  fixes i0 i1 :: u8
  shows "push_bit 2 (drop_bit 2 i0 AND 0x3f) OR drop_bit 4 (push_bit 4 (i0 AND 0x03) AND 0x3f) = i0"
    "push_bit 4 ((push_bit 4 (i0 AND 0x03) OR drop_bit 4 i1) AND 0x3f) OR
       drop_bit 2 (push_bit 2 (i1 AND 0x0f) AND 0x3f) = i1"
  by (rule byte_eqI; simp add: bit_simps)+

lemma dec_quad:
  assumes "good_alphabet table" "unat s0 < 64" "unat s1 < 64" "unat s2 < 64" "unat s3 < 64"
  shows "base64_dec_loop (base64_dtable table)
      (table ! unat s0 # table ! unat s1 # table ! unat s2 # table ! unat s3 # vals) [] 0 out =
    base64_dec_loop (base64_dtable table) vals [] 0
      (out @ [push_bit 2 s0 OR drop_bit 4 s1, push_bit 4 s1 OR drop_bit 2 s2, push_bit 6 s2 OR s3])"
  using assms by (simp add: Let_def sextet_facts)

lemma dec_lf:
  "good_alphabet table \<Longrightarrow> base64_dec_loop (base64_dtable table) (10 # vals) block pad out =
     base64_dec_loop (base64_dtable table) vals block pad out"
  by (simp add: good_alphabet_def)

text \<open>The last group, with the padding written by the encoder or supplied by the
  decoder, and with the final line feed in between.\<close>

lemma dec_pad1:
  assumes "good_alphabet table" "unat s0 < 64" "unat s1 < 64" "unat s2 < 64" "lf = [] \<or> lf = [10]"
  shows "base64_dec_loop (base64_dtable table)
      (table ! unat s0 # table ! unat s1 # table ! unat s2 # lf @ 61 # vals) [] 0 out =
    Some (out @ [push_bit 2 s0 OR drop_bit 4 s1, push_bit 4 s1 OR drop_bit 2 s2])"
  using assms dec_lf [OF assms(1)]
  by (elim disjE) (simp_all add: Let_def sextet_facts, simp_all add: good_alphabet_def)

lemma dec_pad2:
  assumes "good_alphabet table" "unat s0 < 64" "unat s1 < 64" "lf = [] \<or> lf = [10]"
  shows "base64_dec_loop (base64_dtable table)
      (table ! unat s0 # table ! unat s1 # lf @ 61 # 61 # vals) [] 0 out =
    Some (out @ [push_bit 2 s0 OR drop_bit 4 s1])"
  using assms dec_lf [OF assms(1)]
  by (elim disjE) (simp_all add: Let_def sextet_facts, simp_all add: good_alphabet_def)

abbreviation b64_valid :: "bytes \<Rightarrow> bytes \<Rightarrow> nat" where
  "b64_valid table cs \<equiv> length (filter (\<lambda>c. base64_dtable table ! unat c \<noteq> 0x80) cs)"

lemma enc_loop_decodes:
  assumes "good_alphabet table" "base64_enc_loop table add_pad src line_len = (out, rem, ll)"
  shows "\<exists>done. src = done @ rem \<and> length rem < 3 \<and>
     (\<forall>vals acc. base64_dec_loop (base64_dtable table) (out @ vals) [] 0 acc =
        base64_dec_loop (base64_dtable table) vals [] 0 (acc @ done)) \<and>
     b64_valid table out mod 4 = 0 \<and> (done \<noteq> [] \<longrightarrow> 0 < b64_valid table out)"
  using assms
proof (induction table add_pad src line_len arbitrary: out rem ll rule: base64_enc_loop.induct)
  case (1 tab add_pad i0 i1 i2 rest line_len)
  define chars where "chars = [tab ! unat (drop_bit 2 i0 AND 0x3f),
     tab ! unat ((push_bit 4 (i0 AND 0x03) OR drop_bit 4 i1) AND 0x3f),
     tab ! unat ((push_bit 2 (i1 AND 0x0f) OR drop_bit 6 i2) AND 0x3f), tab ! unat (i2 AND 0x3f)]"
  obtain lf l1 where lf: "(if add_pad AND BASE64_LF \<noteq> 0 \<and> line_len + 4 \<ge> 72 then ([10], 0) else ([], line_len + 4)) = (lf :: bytes, l1)"
    by fastforce
  obtain o1 r1 k1 where rec: "base64_enc_loop tab add_pad rest l1 = (o1, r1, k1)"
    by (cases "base64_enc_loop tab add_pad rest l1")
  have out: "out = chars @ lf @ o1" "rem = r1"
    using "1.prems"(2) lf rec by (auto simp: chars_def Let_def)
  from "1.IH" [OF refl refl lf [symmetric] refl "1.prems"(1) rec] obtain d1 where
    d1: "rest = d1 @ r1" "length r1 < 3" "b64_valid tab o1 mod 4 = 0"
      "\<And>vals acc. base64_dec_loop (base64_dtable tab) (o1 @ vals) [] 0 acc =
        base64_dec_loop (base64_dtable tab) vals [] 0 (acc @ d1)" by auto
  have quad: "base64_dec_loop (base64_dtable tab) (chars @ vals) [] 0 acc =
      base64_dec_loop (base64_dtable tab) vals [] 0 (acc @ [i0, i1, i2])" for vals acc
    unfolding chars_def append_Cons append_Nil
    by (simp only: dec_quad [OF "1.prems"(1) sextet_bound sextet_bound sextet_bound sextet_bound] group_bits)
  have lf_skip: "base64_dec_loop (base64_dtable tab) (lf @ vals) [] 0 acc =
      base64_dec_loop (base64_dtable tab) vals [] 0 acc" for vals acc
    using lf dec_lf [OF "1.prems"(1)] by (auto split: if_splits)
  have lf0: "b64_valid tab lf = 0"
    using lf "1.prems"(1) by (auto simp: good_alphabet_def split: if_splits)
  have c4: "b64_valid tab chars = 4"
    unfolding chars_def using "1.prems"(1) by (simp add: sextet_facts)
  show ?case
    by (rule exI [of _ "[i0, i1, i2] @ d1"]) (use d1 quad lf_skip lf0 c4 out in simp)
qed auto

lemma valid_char: "good_alphabet table \<Longrightarrow> b64_valid table (table ! unat (x AND 0x3f :: u8) # cs) = Suc (b64_valid table cs)"
  using alphabet_char [OF _ sextet_bound] sextet_ne_80 [OF sextet_bound] by simp

lemma valid_pad: "good_alphabet table \<Longrightarrow> b64_valid table (61 # cs) = Suc (b64_valid table cs)"
  by (simp add: good_alphabet_def)

lemma enc_tail_decodes:
  assumes g: "good_alphabet table" and rem: "rem \<noteq> []" "length rem < 3" and lf: "lf = [] \<or> lf = [10]"
    and cs: "cs = base64_enc_tail table add_pad rem"
  shows "0 < b64_valid table cs \<and>
    base64_dec_loop (base64_dtable table)
       (cs @ lf @ replicate ((4 - b64_valid table cs mod 4) mod 4) 61) [] 0 acc = Some (acc @ rem)"
proof -
  have v: "b64_valid table [] = 0" by simp
  have r: "replicate ((4 - 4 mod 4) mod 4) (61 :: u8) = []" "replicate ((4 - 3 mod 4) mod 4) (61 :: u8) = [61]"
    "replicate ((4 - 2 mod 4) mod 4) (61 :: u8) = [61, 61]" by (simp_all add: numeral_2_eq_2)
  note count = valid_char [OF g] valid_pad [OF g] v
  note sb = sextet_bound
  note split = base64_enc_tail_def list.case if_True if_False simp_thms append.simps
  note dec = dec_pad1 [OF g sb sb sb lf] dec_pad1 [OF g sb sb sb disjI1 [OF refl], unfolded append_Nil]
    dec_pad2 [OF g sb sb lf] dec_pad2 [OF g sb sb disjI1 [OF refl], unfolded append_Nil]
  consider i0 where "rem = [i0]" | i0 i1 where "rem = [i0, i1]"
    using rem by (cases rem; cases "tl rem") auto
  then show ?thesis
  proof cases
    case 1
    show ?thesis
    proof (cases "add_pad AND BASE64_PAD = 0")
      case True
      then have c: "cs = [table ! unat (drop_bit 2 i0 AND 0x3f), table ! unat (push_bit 4 (i0 AND 0x03) AND 0x3f)]"
        using cs 1 by (simp only: split)
      have n: "b64_valid table cs = 2" unfolding c count by simp
      show ?thesis unfolding n r unfolding c append.simps 1 by (simp only: dec group_bits_short) simp
    next
      case False
      then have c: "cs = [table ! unat (drop_bit 2 i0 AND 0x3f), table ! unat (push_bit 4 (i0 AND 0x03) AND 0x3f), 61, 61]"
        using cs 1 by (simp only: split)
      have n: "b64_valid table cs = 4" unfolding c count by simp
      show ?thesis unfolding n r unfolding c append.simps 1 by (simp only: dec group_bits_short) simp
    qed
  next
    case 2
    let ?t = "[table ! unat (drop_bit 2 i0 AND 0x3f), table ! unat ((push_bit 4 (i0 AND 0x03) OR drop_bit 4 i1) AND 0x3f),
      table ! unat (push_bit 2 (i1 AND 0x0f) AND 0x3f)]"
    show ?thesis
    proof (cases "add_pad AND BASE64_PAD = 0")
      case True
      then have c: "cs = ?t" using cs 2 by (simp only: split)
      have n: "b64_valid table cs = 3" unfolding c count by simp
      show ?thesis unfolding n r unfolding c append.simps 2 by (simp only: dec group_bits group_bits_short) simp
    next
      case False
      then have c: "cs = ?t @ [61]" using cs 2 by (simp only: split)
      have n: "b64_valid table cs = 4" unfolding c append.simps count by simp
      show ?thesis unfolding n r unfolding c append.simps 2 by (simp only: dec group_bits group_bits_short) simp
    qed
  qed
qed

lemma gen_round_trip:
  assumes g: "good_alphabet table" and ne: "src \<noteq> []" and enc: "base64_gen_encode ok src table add_pad = Some t"
  shows "base64_gen_decode True t table = Some src"
proof -
  obtain out rem ll where loop: "base64_enc_loop table add_pad src 0 = (out, rem, ll)"
    by (cases "base64_enc_loop table add_pad src 0")
  define cs where "cs = base64_enc_tail table add_pad rem"
  obtain lf :: bytes where lf: "lf = [] \<or> lf = [10]" and t: "t = out @ cs @ lf"
    using enc loop by (auto simp: base64_gen_encode_def cs_def split: if_splits)
  from enc_loop_decodes [OF g loop] obtain d where d: "src = d @ rem" "length rem < 3"
    "b64_valid table out mod 4 = 0" "d \<noteq> [] \<Longrightarrow> 0 < b64_valid table out"
    "\<And>vals acc. base64_dec_loop (base64_dtable table) (out @ vals) [] 0 acc =
        base64_dec_loop (base64_dtable table) vals [] 0 (acc @ d)" by auto
  have lf0: "b64_valid table lf = 0" using lf g by (auto simp: good_alphabet_def)
  then have count: "b64_valid table t = b64_valid table out + b64_valid table cs" by (simp add: t)
  have m4: "(b64_valid table out + k) mod 4 = k mod 4" for k using d(3) by presburger
  show ?thesis
  proof (cases "rem = []")
    case True
    then have "cs = []" by (simp add: cs_def base64_enc_tail_def)
    with True d ne lf dec_lf [OF g] count m4 [of 0] show ?thesis
      by (auto simp: base64_gen_decode_def Let_def t simp flip: append_assoc)
  next
    case False
    from enc_tail_decodes [OF g False d(2) lf cs_def] have
      "0 < b64_valid table cs" "base64_dec_loop (base64_dtable table)
       (cs @ lf @ replicate ((4 - b64_valid table cs mod 4) mod 4) 61) [] 0 d = Some (d @ rem)" by auto
    with count m4 d(1,5) show ?thesis
      by (simp add: base64_gen_decode_def Let_def t)
  qed
qed

section \<open>The allocations are large enough\<close>

lemma enc_loop_length:
  assumes "base64_enc_loop table add_pad src line_len = (out, rem, ll)" "line_len mod 4 = 0" "line_len < 72"
    and "add_pad AND BASE64_LF \<noteq> 0"
  shows "length src = 3 * (length src div 3) + length rem \<and> length rem < 3 \<and>
    length out = 4 * (length src div 3) + (line_len + 4 * (length src div 3)) div 72"
  using assms
proof (induction table add_pad src line_len arbitrary: out rem ll rule: base64_enc_loop.induct)
  case (1 tab add_pad i0 i1 i2 rest line_len)
  obtain lf l1 where lf: "(if add_pad AND BASE64_LF \<noteq> 0 \<and> line_len + 4 \<ge> 72 then ([10], 0) else ([], line_len + 4)) = (lf :: bytes, l1)"
    by fastforce
  obtain o1 r1 k1 where rec: "base64_enc_loop tab add_pad rest l1 = (o1, r1, k1)"
    by (cases "base64_enc_loop tab add_pad rest l1")
  have l1: "l1 mod 4 = 0" "l1 < 72" "line_len + 4 = l1 + 72 * length lf"
    using lf "1.prems" by (auto split: if_splits)
  have "length out = 4 + length lf + length o1" "rem = r1"
    using "1.prems"(1) lf rec by (auto simp: Let_def)
  moreover have "length rest = 3 * (length rest div 3) + length r1 \<and> length r1 < 3 \<and>
      length o1 = 4 * (length rest div 3) + (l1 + 4 * (length rest div 3)) div 72"
    using "1.IH" [OF refl refl lf [symmetric] refl rec l1(1,2) "1.prems"(4)] .
  moreover have "line_len + 4 * Suc (length rest div 3) = (l1 + 4 * (length rest div 3)) + length lf * 72"
    using l1(3) by simp
  then have "(line_len + 4 * Suc (length rest div 3)) div 72 =
      (l1 + 4 * (length rest div 3)) div 72 + length lf" by (simp only: div_mult_self1)
  moreover have "length (i0 # i1 # i2 # rest) div 3 = Suc (length rest div 3)" by simp
  ultimately show ?case by simp
qed auto

lemma enc_loop_length_no_lf:
  assumes "base64_enc_loop table add_pad src line_len = (out, rem, ll)" "add_pad AND BASE64_LF = 0"
  shows "length src = 3 * (length src div 3) + length rem \<and> length rem < 3 \<and>
    length out = 4 * (length src div 3)"
  using assms
proof (induction table add_pad src line_len arbitrary: out rem ll rule: base64_enc_loop.induct)
  case (1 tab add_pad i0 i1 i2 rest line_len)
  obtain o1 r1 k1 where rec: "base64_enc_loop tab add_pad rest (line_len + 4) = (o1, r1, k1)"
    by (cases "base64_enc_loop tab add_pad rest (line_len + 4)")
  have "length out = 4 + length o1" "rem = r1" using "1.prems" rec by (auto simp: Let_def)
  moreover have "length rest = 3 * (length rest div 3) + length r1 \<and> length r1 < 3 \<and>
      length o1 = 4 * (length rest div 3)"
    using "1.IH" [OF refl refl _ refl rec "1.prems"(2)] "1.prems"(2) by simp
  moreover have "length (i0 # i1 # i2 # rest) div 3 = Suc (length rest div 3)" by simp
  ultimately show ?case by simp
qed auto

lemma enc_tail_length:
  "length (base64_enc_tail table add_pad rem) \<le> (if rem = [] then 0 else 4)"
  by (auto simp: base64_enc_tail_def split: list.splits)

lemma encode_fits:
  assumes "base64_gen_encode ok src table add_pad = Some t"
  shows "length t + 1 \<le> base64_olen (length src) add_pad"
proof -
  obtain out rem ll where loop: "base64_enc_loop table add_pad src 0 = (out, rem, ll)"
    by (cases "base64_enc_loop table add_pad src 0")
  define g where "g = length src div 3"
  note tl = enc_tail_length [of table add_pad rem]
  show ?thesis
  proof (cases "add_pad AND BASE64_LF = 0")
    case True
    then have "length t = length out + length (base64_enc_tail table add_pad rem)"
      using assms loop by (auto simp: base64_gen_encode_def split: if_splits)
    moreover have src: "length src = 3 * g + length rem" "length out = 4 * g"
      using enc_loop_length_no_lf [OF loop True] by (simp_all add: g_def)
    moreover have "base64_olen (length src) add_pad = length src * 4 div 3 + 5"
      using True by (simp add: base64_olen_def)
    moreover have "4 * g \<le> length src * 4 div 3" using src(1) by simp
    ultimately show ?thesis using tl by (simp split: if_splits)
  next
    case False
    then have "length t \<le> length out + length (base64_enc_tail table add_pad rem) + 1"
      using assms loop by (auto simp: base64_gen_encode_def split: if_splits)
    moreover have src: "length src = 3 * g + length rem" "length rem < 3" "length out = 4 * g + 4 * g div 72"
      using enc_loop_length [OF loop _ _ False] by (simp_all add: g_def)
    moreover have "base64_olen (length src) add_pad = length src * 4 div 3 + 4 + (length src * 4 div 3 + 4) div 72 + 1"
      using False by (simp add: base64_olen_def)
    moreover have "rem = [] \<or> 4 * g + 1 \<le> length src * 4 div 3" using src(1) by (cases rem) auto
    moreover have "4 * g \<le> length src * 4 div 3" using src(1) by simp
    moreover have "4 * g div 72 \<le> (length src * 4 div 3 + 4) div 72"
      using \<open>4 * g \<le> length src * 4 div 3\<close> by (intro div_le_mono) simp
    ultimately show ?thesis using tl by (auto split: if_splits)
  qed
qed

lemma div_4_add: "(4 + n) div 4 = Suc (n div 4)" for n :: nat
  by simp

lemma dec_loop_length:
  assumes "base64_dec_loop dt vals block pad out = Some r" "length block < 4"
  shows "length r \<le> length out + 3 * ((length block + length (filter (\<lambda>c. dt ! unat c \<noteq> 0x80) vals)) div 4)"
  using assms
proof (induction dt vals block pad out rule: base64_dec_loop.induct)
  case (2 dt val vals block pad out)
  show ?case
  proof (cases "dt ! unat val = 0x80")
    case True
    with 2 show ?thesis by (simp add: Let_def)
  next
    case False
    show ?thesis
    proof (cases "length block = 3")
      case True
      with 2 False show ?thesis by (fastforce simp: Let_def div_4_add split: if_splits)
    next
      case nl: False
      with 2 False show ?thesis by (auto simp: Let_def split: if_splits)
    qed
  qed
qed auto

lemma decode_fits:
  assumes "base64_gen_decode ok src table = Some r" "good_alphabet table"
  shows "length r \<le> (b64_valid table src + (4 - b64_valid table src mod 4) mod 4) div 4 * 3"
proof -
  let ?k = "(4 - b64_valid table src mod 4) mod 4"
  have "base64_dec_loop (base64_dtable table) (src @ replicate ?k 61) [] 0 [] = Some r"
    using assms(1) by (auto simp: base64_gen_decode_def Let_def split: if_splits)
  from dec_loop_length [OF this] have
    "length r \<le> 3 * (b64_valid table (src @ replicate ?k 61) div 4)" by simp
  moreover have "b64_valid table (replicate n 61) = n" for n
    using assms(2) by (induction n) (simp_all add: good_alphabet_def)
  ultimately show ?thesis by (simp add: mult.commute)
qed

section \<open>Properties\<close>





end
