(* ===== verification/Byteorder.thy ===== *)
theory Byteorder
  imports Prelude
begin

text \<open>
  The unaligned accessors of \<open>src/utils/common.h\<close>: \<open>WPA_GET_*\<close> read a field of a
  received frame, \<open>WPA_PUT_*\<close> write one. The reads are bounds-checked; the writes
  are given as the bytes stored at the pointer.
\<close>

definition WPA_GET_BE16 :: "bytes \<Rightarrow> nat \<Rightarrow> u16 option" where
  "WPA_GET_BE16 b i = do {
     a0 \<leftarrow> rd8 b i; a1 \<leftarrow> rd8 b (i + 1);
     Some (push_bit 8 (ucast a0) OR ucast a1) }"

definition WPA_PUT_BE16 :: "u16 \<Rightarrow> bytes" where
  "WPA_PUT_BE16 val = [ucast (drop_bit 8 val), ucast (val AND 0xff)]"

definition WPA_GET_LE16 :: "bytes \<Rightarrow> nat \<Rightarrow> u16 option" where
  "WPA_GET_LE16 b i = do {
     a0 \<leftarrow> rd8 b i; a1 \<leftarrow> rd8 b (i + 1);
     Some (push_bit 8 (ucast a1) OR ucast a0) }"

definition WPA_PUT_LE16 :: "u16 \<Rightarrow> bytes" where
  "WPA_PUT_LE16 val = [ucast (val AND 0xff), ucast (drop_bit 8 val)]"

definition WPA_GET_BE24 :: "bytes \<Rightarrow> nat \<Rightarrow> u32 option" where
  "WPA_GET_BE24 b i = do {
     a0 \<leftarrow> rd8 b i; a1 \<leftarrow> rd8 b (i + 1); a2 \<leftarrow> rd8 b (i + 2);
     Some (push_bit 16 (ucast a0) OR push_bit 8 (ucast a1) OR ucast a2) }"

definition WPA_PUT_BE24 :: "u32 \<Rightarrow> bytes" where
  "WPA_PUT_BE24 val =
     [ucast (drop_bit 16 val AND 0xff), ucast (drop_bit 8 val AND 0xff), ucast (val AND 0xff)]"

definition WPA_GET_BE32 :: "bytes \<Rightarrow> nat \<Rightarrow> u32 option" where
  "WPA_GET_BE32 b i = do {
     a0 \<leftarrow> rd8 b i; a1 \<leftarrow> rd8 b (i + 1); a2 \<leftarrow> rd8 b (i + 2); a3 \<leftarrow> rd8 b (i + 3);
     Some (push_bit 24 (ucast a0) OR push_bit 16 (ucast a1) OR push_bit 8 (ucast a2) OR ucast a3) }"

definition WPA_PUT_BE32 :: "u32 \<Rightarrow> bytes" where
  "WPA_PUT_BE32 val =
     [ucast (drop_bit 24 val AND 0xff), ucast (drop_bit 16 val AND 0xff),
      ucast (drop_bit 8 val AND 0xff), ucast (val AND 0xff)]"

definition WPA_GET_LE32 :: "bytes \<Rightarrow> nat \<Rightarrow> u32 option" where
  "WPA_GET_LE32 b i = do {
     a0 \<leftarrow> rd8 b i; a1 \<leftarrow> rd8 b (i + 1); a2 \<leftarrow> rd8 b (i + 2); a3 \<leftarrow> rd8 b (i + 3);
     Some (push_bit 24 (ucast a3) OR push_bit 16 (ucast a2) OR push_bit 8 (ucast a1) OR ucast a0) }"

definition WPA_PUT_LE32 :: "u32 \<Rightarrow> bytes" where
  "WPA_PUT_LE32 val =
     [ucast (val AND 0xff), ucast (drop_bit 8 val AND 0xff),
      ucast (drop_bit 16 val AND 0xff), ucast (drop_bit 24 val AND 0xff)]"

definition WPA_PUT_BE64 :: "u64 \<Rightarrow> bytes" where
  "WPA_PUT_BE64 val =
     [ucast (drop_bit 56 val), ucast (drop_bit 48 val), ucast (drop_bit 40 val),
      ucast (drop_bit 32 val), ucast (drop_bit 24 val), ucast (drop_bit 16 val),
      ucast (drop_bit 8 val), ucast (val AND 0xff)]"

definition WPA_PUT_LE64 :: "u64 \<Rightarrow> bytes" where
  "WPA_PUT_LE64 val =
     [ucast (val AND 0xff), ucast (drop_bit 8 val), ucast (drop_bit 16 val),
      ucast (drop_bit 24 val), ucast (drop_bit 32 val), ucast (drop_bit 40 val),
      ucast (drop_bit 48 val), ucast (drop_bit 56 val)]"

lemmas wpa_get_defs = WPA_GET_BE16_def WPA_GET_LE16_def WPA_GET_BE24_def WPA_GET_BE32_def WPA_GET_LE32_def
lemmas wpa_put_defs = WPA_PUT_BE16_def WPA_PUT_LE16_def WPA_PUT_BE24_def WPA_PUT_BE32_def
  WPA_PUT_LE32_def WPA_PUT_BE64_def WPA_PUT_LE64_def

lemma wpa_put_length [simp]:
  "length (WPA_PUT_BE16 v) = 2" "length (WPA_PUT_LE16 v) = 2" "length (WPA_PUT_BE24 w) = 3"
  "length (WPA_PUT_BE32 w) = 4" "length (WPA_PUT_LE32 w) = 4"
  "length (WPA_PUT_BE64 x) = 8" "length (WPA_PUT_LE64 x) = 8"
  by (simp_all add: wpa_put_defs)

text \<open>The reads succeed exactly inside the buffer.\<close>

lemma wpa_get16_in_bounds [simp]:
  "(WPA_GET_BE16 b i = None) = (length b < i + 2)"
  "(WPA_GET_LE16 b i = None) = (length b < i + 2)"
  by (auto simp: wpa_get_defs rd8_def bind_eq_None_conv split: if_splits)

lemma wpa_get24_in_bounds [simp]: "(WPA_GET_BE24 b i = None) = (length b < i + 3)"
  by (auto simp: wpa_get_defs rd8_def bind_eq_None_conv split: if_splits)

lemma wpa_get32_in_bounds [simp]:
  "(WPA_GET_BE32 b i = None) = (length b < i + 4)"
  "(WPA_GET_LE32 b i = None) = (length b < i + 4)"
  by (auto simp: wpa_get_defs rd8_def bind_eq_None_conv split: if_splits)

lemma returns_get16 [wp]:
  "returns P (WPA_GET_BE16 b i) \<longleftrightarrow> i + 2 \<le> length b \<and> (\<forall>v. WPA_GET_BE16 b i = Some v \<longrightarrow> P v)"
  "returns P (WPA_GET_LE16 b i) \<longleftrightarrow> i + 2 \<le> length b \<and> (\<forall>v. WPA_GET_LE16 b i = Some v \<longrightarrow> P v)"
  by (simp_all add: returns_None_cond [OF wpa_get16_in_bounds(1)]
      returns_None_cond [OF wpa_get16_in_bounds(2)] not_less)

lemma returns_get32 [wp]:
  "returns P (WPA_GET_BE24 b i) \<longleftrightarrow> i + 3 \<le> length b \<and> (\<forall>v. WPA_GET_BE24 b i = Some v \<longrightarrow> P v)"
  "returns P (WPA_GET_BE32 b i) \<longleftrightarrow> i + 4 \<le> length b \<and> (\<forall>v. WPA_GET_BE32 b i = Some v \<longrightarrow> P v)"
  "returns P (WPA_GET_LE32 b i) \<longleftrightarrow> i + 4 \<le> length b \<and> (\<forall>v. WPA_GET_LE32 b i = Some v \<longrightarrow> P v)"
  by (simp_all add: returns_None_cond [OF wpa_get24_in_bounds]
      returns_None_cond [OF wpa_get32_in_bounds(1)] returns_None_cond [OF wpa_get32_in_bounds(2)] not_less)

text \<open>A field written with \<open>WPA_PUT_*\<close> is read back by the matching \<open>WPA_GET_*\<close>,
  wherever it stands in the frame.\<close>

lemma be16_bits: "push_bit 8 (ucast (ucast (drop_bit 8 v) :: u8)) OR ucast (ucast v :: u8) = (v :: u16)"
  by (rule bit_word_eqI) (auto simp: bit_simps byte_simps)

lemma be24_bits:
  "push_bit 16 (ucast (ucast (drop_bit 16 v) :: u8)) OR push_bit 8 (ucast (ucast (drop_bit 8 v) :: u8))
     OR ucast (ucast v :: u8) = (v AND mask 24 :: u32)"
  by (rule bit_word_eqI) (auto simp: bit_simps byte_simps)

lemma be32_bits:
  "push_bit 24 (ucast (ucast (drop_bit 24 v) :: u8)) OR push_bit 16 (ucast (ucast (drop_bit 16 v) :: u8))
     OR push_bit 8 (ucast (ucast (drop_bit 8 v) :: u8)) OR ucast (ucast v :: u8) = (v :: u32)"
  by (rule bit_word_eqI) (auto simp: bit_simps byte_simps)

lemma rd8_put: "rd8 (xs @ y # ys) (length xs) = Some y"
  by (simp add: rd8_def)

lemma rd8_put_off: "k < length zs \<Longrightarrow> rd8 (xs @ zs @ ys) (length xs + k) = Some (zs ! k)"
  by (simp add: rd8_def nth_append)

lemma get_put_BE16: "WPA_GET_BE16 (xs @ WPA_PUT_BE16 v @ ys) (length xs) = Some v"
  using be16_bits [of v]
  by (simp add: wpa_get_defs wpa_put_defs byte_simps rd8_def nth_append)

lemma get_put_LE16: "WPA_GET_LE16 (xs @ WPA_PUT_LE16 v @ ys) (length xs) = Some v"
  using be16_bits [of v]
  by (simp add: wpa_get_defs wpa_put_defs byte_simps rd8_def nth_append)

lemma get_put_BE24: "WPA_GET_BE24 (xs @ WPA_PUT_BE24 v @ ys) (length xs) = Some (v AND mask 24)"
  using be24_bits [of v]
  by (simp add: wpa_get_defs wpa_put_defs byte_simps rd8_def nth_append)

lemma get_put_BE32: "WPA_GET_BE32 (xs @ WPA_PUT_BE32 v @ ys) (length xs) = Some v"
  using be32_bits [of v]
  by (simp add: wpa_get_defs wpa_put_defs byte_simps rd8_def nth_append)

lemma get_put_LE32: "WPA_GET_LE32 (xs @ WPA_PUT_LE32 v @ ys) (length xs) = Some v"
  using be32_bits [of v]
  by (simp add: wpa_get_defs wpa_put_defs byte_simps rd8_def nth_append)

text \<open>The other direction: the field read is the one whose encoding stands there.\<close>

lemma put_get_BE16:
  assumes "WPA_GET_BE16 b i = Some v"
  shows "WPA_PUT_BE16 v = [b ! i, b ! Suc i]"
proof -
  have i: "Suc i < length b"
    using assms by (auto simp: wpa_get_defs rd8_def bind_eq_Some_conv split: if_splits)
  then have "v = push_bit 8 (ucast (b ! i)) OR ucast (b ! Suc i)"
    using assms by (simp add: wpa_get_defs rd8_def)
  then show ?thesis
    by (auto simp: wpa_put_defs byte_simps bit_simps intro!: bit_word_eqI)
qed

lemma unat_BE16_bound: "WPA_GET_BE16 b i = Some v \<Longrightarrow> unat v \<le> 65535"
  using unsigned_less [of v, where ?'a = nat] by simp

end
