(* ===== verification/Wpabuf.thy ===== *)
theory Wpabuf
  imports Byteorder
begin

text \<open>
  The dynamic data buffer of \<open>src/utils/wpabuf.c\<close> and \<open>src/utils/wpabuf.h\<close>.

  A \<open>struct wpabuf\<close> is the record \<open>wpabuf\<close>; \<open>wb_buf\<close> is the storage behind
  \<open>buf->buf\<close>. A function that can reach \<open>wpabuf_overflow()\<close> (which calls
  \<open>abort()\<close>) or write outside the storage returns \<^const>\<open>None\<close> in that case.
  A pointer result that may be NULL is an option of its own. The answer of the
  allocator is the argument \<open>ok\<close> of each function that allocates. The WPA_TRACE
  instrumentation is not compiled in.

  The abstraction is \<open>wb_data\<close>, the bytes written so far; the locale
  \<open>byte_sink\<close> is the contract the message builders rely on, and the wpabuf
  operations are its instance.
\<close>

section \<open>The structure\<close>

record wpabuf =
  wb_size :: size_t
  wb_used :: size_t
  wb_buf :: bytes
  wb_flags :: u32

definition WPABUF_FLAG_EXT_DATA :: u32 where
  "WPABUF_FLAG_EXT_DATA = BIT 0"

abbreviation sizeof_wpabuf :: nat where
  "sizeof_wpabuf \<equiv> 16"

definition wpabuf_len :: "wpabuf \<Rightarrow> size_t" where
  "wpabuf_len buf = wb_used buf"

definition wpabuf_tailroom :: "wpabuf \<Rightarrow> size_t" where
  "wpabuf_tailroom buf = wb_size buf - wb_used buf"

text \<open>\<open>wpabuf_head(buf)\<close> read over \<open>wpabuf_len(buf)\<close> bytes: the data of the buffer.\<close>

definition wb_data :: "wpabuf \<Rightarrow> bytes" where
  "wb_data buf = take (wb_used buf) (wb_buf buf)"

definition wf_wpabuf :: "wpabuf \<Rightarrow> bool" where
  "wf_wpabuf buf \<longleftrightarrow>
     wb_used buf \<le> wb_size buf \<and> length (wb_buf buf) = wb_size buf \<and> wb_size buf \<le> SIZE_MAX"

section \<open>Allocation\<close>

definition wpabuf_alloc :: "bool \<Rightarrow> size_t \<Rightarrow> wpabuf option" where
  "wpabuf_alloc ok len =
     (if ok then Some \<lparr>wb_size = len, wb_used = 0,
                        wb_buf = replicate (size_add sizeof_wpabuf len - sizeof_wpabuf) 0,
                        wb_flags = 0\<rparr>
      else None)"

definition wpabuf_alloc_ext_data :: "bool \<Rightarrow> bytes \<Rightarrow> wpabuf option" where
  "wpabuf_alloc_ext_data ok data =
     (if ok then Some \<lparr>wb_size = length data, wb_used = length data, wb_buf = data,
                        wb_flags = 0 OR WPABUF_FLAG_EXT_DATA\<rparr>
      else None)"

definition wpabuf_set :: "wpabuf \<Rightarrow> bytes \<Rightarrow> wpabuf" where
  "wpabuf_set buf data =
     buf\<lparr>wb_buf := data, wb_flags := WPABUF_FLAG_EXT_DATA,
         wb_size := length data, wb_used := length data\<rparr>"

section \<open>Appending\<close>

text \<open>\<open>wpabuf_put\<close> returns the buffer and the offset of the reserved area.\<close>

definition wpabuf_put :: "wpabuf \<Rightarrow> size_t \<Rightarrow> (wpabuf \<times> nat) option" where
  "wpabuf_put buf len =
     (let tmp = wpabuf_len buf;
          buf' = buf\<lparr>wb_used := size_add (wb_used buf) len\<rparr>
      in if wb_used buf' > wb_size buf' then None else Some (buf', tmp))"

definition wb_write :: "wpabuf \<Rightarrow> nat \<Rightarrow> bytes \<Rightarrow> wpabuf option" where
  "wb_write buf off d = do { x \<leftarrow> wrn (wb_buf buf) off d; Some (buf\<lparr>wb_buf := x\<rparr>) }"

definition wpabuf_put_data :: "wpabuf \<Rightarrow> bytes option \<Rightarrow> wpabuf option" where
  "wpabuf_put_data buf data =
     (case data of None \<Rightarrow> Some buf
      | Some d \<Rightarrow> do { (b, off) \<leftarrow> wpabuf_put buf (length d); wb_write b off d })"

definition wpabuf_put_u8 :: "wpabuf \<Rightarrow> u8 \<Rightarrow> wpabuf option" where
  "wpabuf_put_u8 buf data = do { (b, pos) \<leftarrow> wpabuf_put buf 1; wb_write b pos [data] }"

definition wpabuf_put_le16 :: "wpabuf \<Rightarrow> u16 \<Rightarrow> wpabuf option" where
  "wpabuf_put_le16 buf data = do { (b, pos) \<leftarrow> wpabuf_put buf 2; wb_write b pos (WPA_PUT_LE16 data) }"

definition wpabuf_put_le32 :: "wpabuf \<Rightarrow> u32 \<Rightarrow> wpabuf option" where
  "wpabuf_put_le32 buf data = do { (b, pos) \<leftarrow> wpabuf_put buf 4; wb_write b pos (WPA_PUT_LE32 data) }"

definition wpabuf_put_le64 :: "wpabuf \<Rightarrow> u64 \<Rightarrow> wpabuf option" where
  "wpabuf_put_le64 buf data = do { (b, pos) \<leftarrow> wpabuf_put buf 8; wb_write b pos (WPA_PUT_LE64 data) }"

definition wpabuf_put_be16 :: "wpabuf \<Rightarrow> u16 \<Rightarrow> wpabuf option" where
  "wpabuf_put_be16 buf data = do { (b, pos) \<leftarrow> wpabuf_put buf 2; wb_write b pos (WPA_PUT_BE16 data) }"

definition wpabuf_put_be24 :: "wpabuf \<Rightarrow> u32 \<Rightarrow> wpabuf option" where
  "wpabuf_put_be24 buf data = do { (b, pos) \<leftarrow> wpabuf_put buf 3; wb_write b pos (WPA_PUT_BE24 data) }"

definition wpabuf_put_be32 :: "wpabuf \<Rightarrow> u32 \<Rightarrow> wpabuf option" where
  "wpabuf_put_be32 buf data = do { (b, pos) \<leftarrow> wpabuf_put buf 4; wb_write b pos (WPA_PUT_BE32 data) }"

definition wpabuf_put_be64 :: "wpabuf \<Rightarrow> u64 \<Rightarrow> wpabuf option" where
  "wpabuf_put_be64 buf data = do { (b, pos) \<leftarrow> wpabuf_put buf 8; wb_write b pos (WPA_PUT_BE64 data) }"

definition wpabuf_put_buf :: "wpabuf \<Rightarrow> wpabuf \<Rightarrow> wpabuf option" where
  "wpabuf_put_buf dst src = wpabuf_put_data dst (Some (wb_data src))"

text \<open>\<open>str\<close> is the C string without its terminator, of length \<open>os_strlen(str)\<close>.\<close>

definition wpabuf_put_str :: "wpabuf \<Rightarrow> bytes \<Rightarrow> wpabuf option" where
  "wpabuf_put_str dst str = wpabuf_put_data dst (Some str)"

text \<open>\<open>wpabuf_printf\<close>: the text \<open>vsnprintf\<close> would produce is the argument,
  \<^const>\<open>None\<close> for its error result. It stores at most \<open>size - used\<close> bytes with a
  terminator.\<close>

definition wpabuf_printf :: "wpabuf \<Rightarrow> bytes option \<Rightarrow> wpabuf option" where
  "wpabuf_printf buf txt =
     (let room = wb_size buf - wb_used buf in
      case txt of None \<Rightarrow> None
      | Some res \<Rightarrow>
          if length res \<ge> room then None
          else do { b \<leftarrow> wb_write buf (wb_used buf) (res @ [0]);
                    Some (b\<lparr>wb_used := size_add (wb_used b) (length res)\<rparr>) })"

section \<open>Copies and growth\<close>

definition wpabuf_alloc_copy :: "bool \<Rightarrow> bytes \<Rightarrow> wpabuf option option" where
  "wpabuf_alloc_copy ok data =
     (case wpabuf_alloc ok (length data) of
        None \<Rightarrow> Some None
      | Some buf \<Rightarrow> map_option Some (wpabuf_put_data buf (Some data)))"

definition wpabuf_dup :: "bool \<Rightarrow> wpabuf \<Rightarrow> wpabuf option option" where
  "wpabuf_dup ok src =
     (case wpabuf_alloc ok (wpabuf_len src) of
        None \<Rightarrow> Some None
      | Some buf \<Rightarrow> map_option Some (wpabuf_put_data buf (Some (wb_data src))))"

text \<open>\<open>wpabuf_resize\<close> returns the new value of \<open>*_buf\<close> and the result code. In the
  branch without external data the structure and its storage are one allocation
  of \<open>sizeof(struct wpabuf) + used + add_len\<close> bytes.\<close>

definition wpabuf_resize :: "bool \<Rightarrow> wpabuf option \<Rightarrow> size_t \<Rightarrow> (wpabuf option \<times> int) option" where
  "wpabuf_resize ok bufp add_len =
     (case bufp of
        None \<Rightarrow> (let n = wpabuf_alloc ok add_len in Some (n, if n = None then -1 else 0))
      | Some buf \<Rightarrow>
          if size_add (wb_used buf) add_len > wb_size buf then
            if \<not> ok then Some (Some buf, -1)
            else
              let nlen = (if wb_flags buf AND WPABUF_FLAG_EXT_DATA \<noteq> 0
                          then size_add (wb_used buf) add_len
                          else size_add (size_add sizeof_wpabuf (wb_used buf)) add_len - sizeof_wpabuf);
                  nbuf = take nlen (wb_buf buf @ replicate nlen 0)
              in do { x \<leftarrow> wrn nbuf (wb_used buf) (replicate add_len 0);
                      Some (Some (buf\<lparr>wb_buf := x, wb_size := size_add (wb_used buf) add_len\<rparr>), 0) }
          else Some (Some buf, 0))"

definition wpabuf_concat :: "bool \<Rightarrow> wpabuf option \<Rightarrow> wpabuf option \<Rightarrow> wpabuf option option" where
  "wpabuf_concat ok a b =
     (case b of None \<Rightarrow> Some a
      | Some b' \<Rightarrow>
          let len = (case a of None \<Rightarrow> 0 | Some a' \<Rightarrow> size_add 0 (wpabuf_len a'));
              len = size_add len (wpabuf_len b')
          in case wpabuf_alloc ok len of
               None \<Rightarrow> Some None
             | Some n \<Rightarrow> do {
                 n \<leftarrow> (case a of None \<Rightarrow> Some n | Some a' \<Rightarrow> wpabuf_put_buf n a');
                 n \<leftarrow> wpabuf_put_buf n b';
                 Some (Some n) })"

definition wpabuf_zeropad :: "bool \<Rightarrow> wpabuf option \<Rightarrow> size_t \<Rightarrow> wpabuf option option" where
  "wpabuf_zeropad ok bufp len =
     (case bufp of None \<Rightarrow> Some None
      | Some buf \<Rightarrow>
          let blen = wpabuf_len buf in
          if blen \<ge> len then Some (Some buf)
          else case wpabuf_alloc ok len of
                 None \<Rightarrow> Some None
               | Some ret \<Rightarrow> do {
                   (r, off) \<leftarrow> wpabuf_put ret (len - blen);
                   r \<leftarrow> wb_write r off (replicate (len - blen) 0);
                   r \<leftarrow> wpabuf_put_buf r buf;
                   Some (Some r) })"

text \<open>\<open>wpabuf_cmp\<close> compares the allocated areas, not the data written.\<close>

definition wpabuf_cmp :: "wpabuf option \<Rightarrow> wpabuf option \<Rightarrow> int" where
  "wpabuf_cmp a b =
     (case (a, b) of
        (None, None) \<Rightarrow> 0
      | (Some a', Some b') \<Rightarrow>
          if wb_size a' = wb_size b' then os_memcmp (take (wb_size a') (wb_buf a')) (take (wb_size a') (wb_buf b'))
          else -1
      | _ \<Rightarrow> -1)"

section \<open>Single operations\<close>

lemma wb_data_length [simp]: "wf_wpabuf b \<Longrightarrow> length (wb_data b) = wb_used b"
  by (simp add: wb_data_def wf_wpabuf_def)

lemma wpabuf_alloc_wf:
  "wpabuf_alloc ok len = Some b \<Longrightarrow> len + sizeof_wpabuf \<le> SIZE_MAX \<Longrightarrow>
     wf_wpabuf b \<and> wb_data b = [] \<and> wpabuf_tailroom b = len"
  by (auto simp: wpabuf_alloc_def wf_wpabuf_def wb_data_def wpabuf_tailroom_def split: if_splits)

text \<open>The append of a byte string, which every \<open>wpabuf_put_*\<close> function is an instance of.\<close>

definition wb_append :: "wpabuf \<Rightarrow> bytes \<Rightarrow> wpabuf option" where
  "wb_append buf d = do { (b, off) \<leftarrow> wpabuf_put buf (length d); wb_write b off d }"

lemma wpabuf_put_eq_append:
  "wpabuf_put_data b (Some d) = wb_append b d"
  "wpabuf_put_u8 b v8 = wb_append b [v8]"
  "wpabuf_put_le16 b v16 = wb_append b (WPA_PUT_LE16 v16)"
  "wpabuf_put_le32 b v32 = wb_append b (WPA_PUT_LE32 v32)"
  "wpabuf_put_le64 b v64 = wb_append b (WPA_PUT_LE64 v64)"
  "wpabuf_put_be16 b v16 = wb_append b (WPA_PUT_BE16 v16)"
  "wpabuf_put_be24 b v32 = wb_append b (WPA_PUT_BE24 v32)"
  "wpabuf_put_be32 b v32 = wb_append b (WPA_PUT_BE32 v32)"
  "wpabuf_put_be64 b v64 = wb_append b (WPA_PUT_BE64 v64)"
  "wpabuf_put_buf b c = wb_append b (wb_data c)"
  "wpabuf_put_str b d = wb_append b d"
  by (simp_all add: wb_append_def wpabuf_put_data_def wpabuf_put_u8_def wpabuf_put_le16_def
      wpabuf_put_le32_def wpabuf_put_le64_def wpabuf_put_be16_def wpabuf_put_be24_def
      wpabuf_put_be32_def wpabuf_put_be64_def wpabuf_put_buf_def wpabuf_put_str_def)

lemma wb_append_room:
  assumes "wf_wpabuf b" "length d \<le> wpabuf_tailroom b"
  shows "\<exists>b'. wb_append b d = Some b' \<and> wf_wpabuf b' \<and> wb_data b' = wb_data b @ d \<and>
           wb_size b' = wb_size b \<and> wb_flags b' = wb_flags b"
proof -
  have r: "wb_used b + length d \<le> wb_size b" and m: "wb_size b \<le> SIZE_MAX"
    and l: "length (wb_buf b) = wb_size b"
    using assms by (auto simp: wf_wpabuf_def wpabuf_tailroom_def)
  then have e: "size_add (wb_used b) (length d) = wb_used b + length d" by simp
  show ?thesis
    using r m l e
    by (auto simp: wb_append_def wpabuf_put_def Let_def wpabuf_len_def wb_write_def mem_simps
        wf_wpabuf_def wb_data_def)
qed

lemma wb_append_no_room:
  assumes "wf_wpabuf b" "wpabuf_tailroom b < length d" "wb_used b + length d \<le> SIZE_MAX"
  shows "wpabuf_put b (length d) = None"
  using assms by (auto simp: wpabuf_put_def Let_def wf_wpabuf_def wpabuf_tailroom_def)

lemma wb_append_wf: "wf_wpabuf b \<Longrightarrow> wb_append b d = Some b' \<Longrightarrow> wf_wpabuf b'"
  by (auto simp: wb_append_def wpabuf_put_def Let_def wb_write_def wf_wpabuf_def bind_eq_Some_conv
      dest: wrn_length split: if_splits)

section \<open>The contract of the message builders\<close>

locale byte_sink =
  fixes put :: "'b \<Rightarrow> bytes \<Rightarrow> 'b option"
    and content :: "'b \<Rightarrow> bytes"
    and room :: "'b \<Rightarrow> nat"
    and invar :: "'b \<Rightarrow> bool"
  assumes put_ok: "invar b \<Longrightarrow> length d \<le> room b \<Longrightarrow> \<exists>b'. put b d = Some b'"
    and put_content: "invar b \<Longrightarrow> length d \<le> room b \<Longrightarrow> put b d = Some b' \<Longrightarrow> content b' = content b @ d"
    and put_room: "invar b \<Longrightarrow> length d \<le> room b \<Longrightarrow> put b d = Some b' \<Longrightarrow> room b' = room b - length d"
    and put_invar: "invar b \<Longrightarrow> put b d = Some b' \<Longrightarrow> invar b'"
begin

primrec put_all :: "'b \<Rightarrow> bytes list \<Rightarrow> 'b option" where
  "put_all b [] = Some b"
| "put_all b (d # ds) = do { b' \<leftarrow> put b d; put_all b' ds }"

text \<open>A sequence of appends that fits never faults and leaves the concatenation.\<close>

lemma put_all_fits:
  "invar b \<Longrightarrow> length (concat ds) \<le> room b \<Longrightarrow>
     \<exists>b'. put_all b ds = Some b' \<and> invar b' \<and> content b' = content b @ concat ds \<and>
          room b' = room b - length (concat ds)"
proof (induction ds arbitrary: b)
  case Nil
  then show ?case by simp
next
  case (Cons d ds)
  from Cons.prems have fit: "length d \<le> room b" by simp
  then obtain b1 where b1: "put b d = Some b1" using put_ok Cons.prems(1) by blast
  have inv1: "invar b1" using put_invar [OF Cons.prems(1) b1] .
  have room1: "room b1 = room b - length d" using put_room [OF Cons.prems(1) fit b1] .
  have "length (concat ds) \<le> room b1" using room1 Cons.prems(2) by simp
  from Cons.IH [OF inv1 this] show ?case
    using b1 room1 put_content [OF Cons.prems(1) fit b1] by auto
qed

end

interpretation wb: byte_sink wb_append wb_data wpabuf_tailroom wf_wpabuf
proof
  fix b :: wpabuf and d :: bytes and b'
  assume wf: "wf_wpabuf b"
  { assume fit: "length d \<le> wpabuf_tailroom b"
    from wb_append_room [OF wf fit] show "\<exists>b'. wb_append b d = Some b'" by blast
    assume "wb_append b d = Some b'"
    with wb_append_room [OF wf fit] have
      b': "wf_wpabuf b'" "wb_data b' = wb_data b @ d" "wb_size b' = wb_size b" by auto
    then show "wb_data b' = wb_data b @ d" by simp
    have "wb_used b' = wb_used b + length d" using b' wf wb_data_length [of b'] by simp
    then show "wpabuf_tailroom b' = wpabuf_tailroom b - length d"
      using b'(3) by (simp add: wpabuf_tailroom_def) }
  assume "wb_append b d = Some b'"
  then show "wf_wpabuf b'" using wf by (rule wb_append_wf [rotated])
qed

lemmas wb_put_all_Cons = wb.put_all.simps
lemmas wb_put_all_fits = wb.put_all_fits


text \<open>The append as a rule for computations that return.\<close>

lemma returns_wb_append:
  assumes "wf_wpabuf b" "length d \<le> wpabuf_tailroom b"
    and "\<And>b'. wf_wpabuf b' \<Longrightarrow> wb_data b' = wb_data b @ d \<Longrightarrow> wb_size b' = wb_size b \<Longrightarrow>
           wpabuf_tailroom b' = wpabuf_tailroom b - length d \<Longrightarrow> wb_used b' = wb_used b + length d \<Longrightarrow> P b'"
  shows "returns P (wb_append b d)"
proof -
  obtain b' where b': "wb_append b d = Some b'" "wf_wpabuf b'" "wb_data b' = wb_data b @ d" "wb_size b' = wb_size b"
    using wb_append_room [OF assms(1,2)] by blast
  then have "wb_used b' = wb_used b + length d" using wb_data_length [of b'] assms(1) by simp
  moreover from this have "wpabuf_tailroom b' = wpabuf_tailroom b - length d"
    using b'(4) by (simp add: wpabuf_tailroom_def)
  ultimately show ?thesis using b' assms(3) by simp
qed

section \<open>What the buffer promises\<close>

lemma wb_append_Some_iff:
  assumes "wf_wpabuf b" "length d \<le> SIZE_MAX"
  shows "wb_append b d \<noteq> None \<longleftrightarrow> length d \<le> wpabuf_tailroom b"
proof (cases "length d \<le> wpabuf_tailroom b")
  case True
  with wb_append_room [OF assms(1)] show ?thesis by fastforce
next
  case False
  show ?thesis
  proof (cases "wb_used b + length d \<le> SIZE_MAX")
    case True
    with False wb_append_no_room [OF assms(1), of d] have "wpabuf_put b (length d) = None" by simp
    with False show ?thesis by (simp add: wb_append_def)
  next
    case wrap: False
    have "wb_size b < wb_used b + length d"
      using False assms(1) by (auto simp: wf_wpabuf_def wpabuf_tailroom_def)
    with False show ?thesis using assms
      by (auto simp: wb_append_def wpabuf_put_def wb_write_def wrn_def Let_def wpabuf_len_def wf_wpabuf_def)
  qed
qed

lemma wpabuf_put_None_iff:
  assumes "wf_wpabuf b" "len \<le> SIZE_MAX"
  shows "wpabuf_put b len = None \<longleftrightarrow> wpabuf_tailroom b < len \<and> wb_used b + len \<le> SIZE_MAX"
proof (cases "wb_used b + len \<le> SIZE_MAX")
  case True
  with assms show ?thesis
    by (auto simp: wpabuf_put_def Let_def wf_wpabuf_def wpabuf_tailroom_def)
next
  case False
  then have "size_add (wb_used b) len = wb_used b + len - 4294967296"
    using assms by (intro size_add_wrap) (auto simp: wf_wpabuf_def)
  with False assms show ?thesis
    by (auto simp: wpabuf_put_def Let_def wf_wpabuf_def)
qed

text \<open>C5. Appending to a wpabuf. For a well-formed buffer, \<open>wpabuf_put_data()\<close> completes
  exactly when the data fits in the tail room; it then leaves a well-formed buffer
  of the same size whose data is the old data followed by the new bytes. When the
  data does not fit, the explicit overflow check of \<open>wpabuf_put()\<close> stops it,
  provided \<open>used + len\<close> does not wrap around \<open>size_t\<close>.\<close>

theorem wpabuf_put_data_correct:
  assumes "wf_wpabuf b" "length d \<le> SIZE_MAX"
  shows "(wpabuf_put_data b (Some d) \<noteq> None \<longleftrightarrow> length d \<le> wpabuf_tailroom b) \<and>
     (\<forall>b'. wpabuf_put_data b (Some d) = Some b' \<longrightarrow>
        wf_wpabuf b' \<and> wb_size b' = wb_size b \<and> wb_data b' = wb_data b @ d) \<and>
     (wpabuf_put b (length d) = None \<longleftrightarrow>
        wpabuf_tailroom b < length d \<and> wb_used b + length d \<le> SIZE_MAX)"
proof (intro conjI allI impI)
  show "wpabuf_put_data b (Some d) \<noteq> None \<longleftrightarrow> length d \<le> wpabuf_tailroom b"
    using wb_append_Some_iff [OF assms] by (simp only: wpabuf_put_eq_append)
  show "wpabuf_put b (length d) = None \<longleftrightarrow>
      wpabuf_tailroom b < length d \<and> wb_used b + length d \<le> SIZE_MAX"
    using assms by (rule wpabuf_put_None_iff)
next
  fix b' assume "wpabuf_put_data b (Some d) = Some b'"
  then have b': "wb_append b d = Some b'" by (simp only: wpabuf_put_eq_append)
  with wb_append_Some_iff [OF assms] have "length d \<le> wpabuf_tailroom b" by simp
  with b' wb_append_room [OF assms(1)] show
    "wf_wpabuf b'" "wb_size b' = wb_size b" "wb_data b' = wb_data b @ d" by fastforce+
qed

theorem wpabuf_put_data_correct_witness:
  "\<exists>b'. wpabuf_put_data \<lparr>wb_size = 4, wb_used = 1, wb_buf = [7, 0, 0, 0], wb_flags = 0\<rparr> (Some [8, 9]) = Some b'
     \<and> wb_data b' = [7, 8, 9]"
  using wpabuf_put_data_correct
    [of "\<lparr>wb_size = 4, wb_used = 1, wb_buf = [7, 0, 0, 0], wb_flags = 0\<rparr>" "[8, 9]"]
  by (auto simp: wf_wpabuf_def wpabuf_tailroom_def wb_data_def)

lemma wpabuf_alloc_append:
  assumes "wpabuf_alloc ok (length d) = Some n" "length d + sizeof_wpabuf \<le> SIZE_MAX"
  shows "\<exists>r. wb_append n d = Some r \<and> wf_wpabuf r \<and> wb_data r = d"
  using wpabuf_alloc_wf [OF assms] wb_append_room [of n d] by force

lemma wpabuf_dup_data:
  assumes "wf_wpabuf src" "wb_used src + sizeof_wpabuf \<le> SIZE_MAX"
  shows "\<exists>r. wpabuf_dup True src = Some (Some r) \<and> wf_wpabuf r \<and> wb_data r = wb_data src"
proof -
  obtain n where n: "wpabuf_alloc True (length (wb_data src)) = Some n" by (simp add: wpabuf_alloc_def)
  from wpabuf_alloc_append [OF n] assms
  obtain r where "wb_append n (wb_data src) = Some r" "wf_wpabuf r" "wb_data r = wb_data src" by auto
  with n assms(1) show ?thesis
    by (simp add: wpabuf_dup_def wpabuf_put_eq_append wpabuf_len_def)
qed

text \<open>Concatenation. \<open>wpabuf_concat()\<close> of two well-formed buffers whose lengths fit
  in an allocation returns, when the allocation succeeds, a well-formed buffer with
  the data of the first followed by the data of the second, and never overflows.\<close>

theorem wpabuf_concat_data:
  assumes "wf_wpabuf a" "wf_wpabuf b" "wb_used a + wb_used b + sizeof_wpabuf \<le> SIZE_MAX"
  shows "\<exists>r. wpabuf_concat True (Some a) (Some b) = Some (Some r) \<and> wf_wpabuf r \<and>
           wb_data r = wb_data a @ wb_data b \<and> wpabuf_tailroom r = 0"
proof -
  let ?len = "wb_used a + wb_used b"
  obtain n where n: "wpabuf_alloc True ?len = Some n" by (simp add: wpabuf_alloc_def)
  with assms have wf: "wf_wpabuf n" and d: "wb_data n = []" and t: "wpabuf_tailroom n = ?len"
    using wpabuf_alloc_wf [OF n] by auto
  have "length (concat [wb_data a, wb_data b]) \<le> wpabuf_tailroom n" using t assms by simp
  from wb_put_all_fits [OF wf this] obtain r where
    r: "wb.put_all n [wb_data a, wb_data b] = Some r" "wf_wpabuf r"
      "wb_data r = wb_data a @ wb_data b" "wpabuf_tailroom r = 0"
    using d t assms by auto
  then show ?thesis using n assms
    by (auto simp: wpabuf_concat_def wpabuf_len_def wpabuf_put_eq_append bind_eq_Some_conv)
qed

theorem wpabuf_concat_data_witness:
  "\<exists>r. wpabuf_concat True (Some \<lparr>wb_size = 2, wb_used = 1, wb_buf = [1, 0], wb_flags = 0\<rparr>)
        (Some \<lparr>wb_size = 2, wb_used = 2, wb_buf = [2, 3], wb_flags = 0\<rparr>) = Some (Some r) \<and> wb_data r = [1, 2, 3]"
  using wpabuf_concat_data [of "\<lparr>wb_size = 2, wb_used = 1, wb_buf = [1, 0], wb_flags = 0\<rparr>"
      "\<lparr>wb_size = 2, wb_used = 2, wb_buf = [2, 3], wb_flags = 0\<rparr>"]
  by (auto simp: wf_wpabuf_def wb_data_def)

lemma wpabuf_zeropad_data:
  assumes "wf_wpabuf b" "len + sizeof_wpabuf \<le> SIZE_MAX" "wb_used b < len"
  shows "\<exists>r. wpabuf_zeropad True (Some b) len = Some (Some r) \<and> wf_wpabuf r \<and>
           wb_data r = replicate (len - wb_used b) 0 @ wb_data b"
proof -
  obtain n where n: "wpabuf_alloc True len = Some n" by (simp add: wpabuf_alloc_def)
  with assms have wf: "wf_wpabuf n" and d: "wb_data n = []" and t: "wpabuf_tailroom n = len"
    using wpabuf_alloc_wf [OF n] by auto
  let ?z = "replicate (len - wb_used b) (0 :: u8)"
  have "length (concat [?z, wb_data b]) \<le> wpabuf_tailroom n" using t assms by simp
  from wb_put_all_fits [OF wf this] obtain r where
    r: "wb.put_all n [?z, wb_data b] = Some r" "wf_wpabuf r" "wb_data r = ?z @ wb_data b"
    using d by auto
  then show ?thesis using n assms
    by (auto simp: wpabuf_zeropad_def wpabuf_len_def wpabuf_put_eq_append wb_append_def
        bind_eq_Some_conv Let_def split: prod.splits)
qed

lemma wpabuf_resize_data:
  assumes "wf_wpabuf b" "wb_used b + add_len + sizeof_wpabuf \<le> SIZE_MAX"
  shows "\<exists>r. wpabuf_resize True (Some b) add_len = Some (Some r, 0) \<and> wf_wpabuf r \<and>
           wb_data r = wb_data b \<and> add_len \<le> wpabuf_tailroom r"
  using assms
  by (auto simp: wpabuf_resize_def wf_wpabuf_def wb_data_def wpabuf_tailroom_def Let_def wrn_def)

end
