(* ===== verification/Eap_common.thy ===== *)
theory Eap_common
  imports Wpabuf
begin

text \<open>
  The EAP message helpers shared by peer and server: \<open>src/eap_common/eap_common.c\<close>
  with the header and the constants of \<open>src/eap_common/eap_defs.h\<close>.

  An \<open>enum eap_type\<close> or a Vendor-Id is a 32-bit word, since the code casts received
  octets to these types without a range check. A \<open>const struct wpabuf *msg\<close> is read
  through \<open>wb_data\<close>, the bytes from \<open>wpabuf_head(msg)\<close> of length \<open>wpabuf_len(msg)\<close>;
  a read past them is the outer \<^const>\<open>None\<close>. \<open>erp_parse_tlvs()\<close> is the code built
  with CONFIG_ERP. Pointers into a message are offsets.
\<close>

section \<open>Codes and types\<close>

abbreviation sizeof_eap_hdr :: nat where "sizeof_eap_hdr \<equiv> 4"

definition EAP_CODE_REQUEST :: u8 where "EAP_CODE_REQUEST = 1"
definition EAP_CODE_RESPONSE :: u8 where "EAP_CODE_RESPONSE = 2"
definition EAP_CODE_SUCCESS :: u8 where "EAP_CODE_SUCCESS = 3"
definition EAP_CODE_FAILURE :: u8 where "EAP_CODE_FAILURE = 4"
definition EAP_CODE_INITIATE :: u8 where "EAP_CODE_INITIATE = 5"
definition EAP_CODE_FINISH :: u8 where "EAP_CODE_FINISH = 6"

lemmas eap_code_defs [simp] = EAP_CODE_REQUEST_def EAP_CODE_RESPONSE_def EAP_CODE_SUCCESS_def
  EAP_CODE_FAILURE_def EAP_CODE_INITIATE_def EAP_CODE_FINISH_def

type_synonym eap_type = u32

definition EAP_TYPE_NONE :: eap_type where "EAP_TYPE_NONE = 0"
definition EAP_TYPE_IDENTITY :: eap_type where "EAP_TYPE_IDENTITY = 1"
definition EAP_TYPE_NOTIFICATION :: eap_type where "EAP_TYPE_NOTIFICATION = 2"
definition EAP_TYPE_NAK :: eap_type where "EAP_TYPE_NAK = 3"
definition EAP_TYPE_MD5 :: eap_type where "EAP_TYPE_MD5 = 4"
definition EAP_TYPE_GTC :: eap_type where "EAP_TYPE_GTC = 6"
definition EAP_TYPE_TLS :: eap_type where "EAP_TYPE_TLS = 13"
definition EAP_TYPE_LEAP :: eap_type where "EAP_TYPE_LEAP = 17"
definition EAP_TYPE_PEAP :: eap_type where "EAP_TYPE_PEAP = 25"
definition EAP_TYPE_TNC :: eap_type where "EAP_TYPE_TNC = 38"
definition EAP_TYPE_EXPANDED :: eap_type where "EAP_TYPE_EXPANDED = 254"

definition EAP_VENDOR_IETF :: u32 where "EAP_VENDOR_IETF = 0"
definition EAP_VENDOR_WFA :: u32 where "EAP_VENDOR_WFA = 0x00372A"

lemmas eap_type_defs [simp] = EAP_TYPE_NONE_def EAP_TYPE_IDENTITY_def EAP_TYPE_NOTIFICATION_def
  EAP_TYPE_NAK_def EAP_TYPE_MD5_def EAP_TYPE_GTC_def EAP_TYPE_TLS_def EAP_TYPE_LEAP_def
  EAP_TYPE_PEAP_def EAP_TYPE_TNC_def EAP_TYPE_EXPANDED_def EAP_VENDOR_IETF_def EAP_VENDOR_WFA_def

section \<open>Header validation\<close>

definition eap_hdr_len_valid :: "wpabuf option \<Rightarrow> size_t \<Rightarrow> bool option" where
  "eap_hdr_len_valid msg min_payload =
     (case msg of None \<Rightarrow> Some False
      | Some m \<Rightarrow>
          if wpabuf_len m < sizeof_eap_hdr then Some False
          else do {
            l \<leftarrow> WPA_GET_BE16 (wb_data m) 2;
            let len = unat l;
            Some (\<not> (len < size_add sizeof_eap_hdr min_payload \<or> len > wpabuf_len m)) })"

text \<open>The payload as an offset into the message with its length (\<open>*plen\<close>).\<close>

definition eap_hdr_validate :: "u32 \<Rightarrow> eap_type \<Rightarrow> wpabuf option \<Rightarrow> (nat \<times> size_t) option option" where
  "eap_hdr_validate vendor eap_type msg = do {
     valid \<leftarrow> eap_hdr_len_valid msg 1;
     case msg of None \<Rightarrow> Some None
     | Some m \<Rightarrow>
         if \<not> valid then Some None
         else do {
           l \<leftarrow> WPA_GET_BE16 (wb_data m) 2;
           let len = unat l;
           let pos = sizeof_eap_hdr;
           t \<leftarrow> rd8 (wb_data m) pos;
           if ucast t = EAP_TYPE_EXPANDED then
             if len < sizeof_eap_hdr + 8 then Some None
             else do {
               let pos = pos + 1;
               exp_vendor \<leftarrow> WPA_GET_BE24 (wb_data m) pos;
               let pos = pos + 3;
               exp_type \<leftarrow> WPA_GET_BE32 (wb_data m) pos;
               let pos = pos + 4;
               if exp_vendor \<noteq> vendor \<or> exp_type \<noteq> eap_type then Some None
               else Some (Some (pos, len - sizeof_eap_hdr - 8)) }
           else if vendor \<noteq> EAP_VENDOR_IETF \<or> ucast t \<noteq> eap_type then Some None
           else Some (Some (pos + 1, len - sizeof_eap_hdr - 1)) } }"

section \<open>Building a message\<close>

definition eap_msg_alloc ::
  "bool \<Rightarrow> u32 \<Rightarrow> eap_type \<Rightarrow> size_t \<Rightarrow> u8 \<Rightarrow> u8 \<Rightarrow> wpabuf option option" where
  "eap_msg_alloc ok vendor type payload_len code identifier =
     (let len = size_add (sizeof_eap_hdr + (if vendor = EAP_VENDOR_IETF then 1 else 8)) payload_len in
      case wpabuf_alloc ok len of
        None \<Rightarrow> Some None
      | Some buf \<Rightarrow> do {
          (b, off) \<leftarrow> wpabuf_put buf sizeof_eap_hdr;
          b \<leftarrow> wb_write b off ([code, identifier] @ WPA_PUT_BE16 (of_nat len));
          if vendor = EAP_VENDOR_IETF then
            do { b \<leftarrow> wpabuf_put_u8 b (ucast type); Some (Some b) }
          else do {
            b \<leftarrow> wpabuf_put_u8 b (ucast EAP_TYPE_EXPANDED);
            b \<leftarrow> wpabuf_put_be24 b vendor;
            b \<leftarrow> wpabuf_put_be32 b type;
            Some (Some b) } })"

definition eap_update_len :: "wpabuf \<Rightarrow> wpabuf option" where
  "eap_update_len msg =
     (if wpabuf_len msg < sizeof_eap_hdr then Some msg
      else wb_write msg 2 (WPA_PUT_BE16 (of_nat (wpabuf_len msg))))"

definition eap_get_id :: "wpabuf \<Rightarrow> u8 option" where
  "eap_get_id msg =
     (if wpabuf_len msg < sizeof_eap_hdr then Some 0 else rd8 (wb_data msg) 1)"

definition eap_get_type :: "wpabuf \<Rightarrow> eap_type option" where
  "eap_get_type msg =
     (if wpabuf_len msg < sizeof_eap_hdr + 1 then Some EAP_TYPE_NONE
      else map_option ucast (rd8 (wb_data msg) sizeof_eap_hdr))"

section \<open>ERP TV/TLV attributes\<close>

record erp_tlvs =
  keyname :: "nat option"
  domain :: "nat option"
  keyname_len :: u8
  domain_len :: u8

definition EAP_ERP_TLV_KEYNAME_NAI :: u8 where "EAP_ERP_TLV_KEYNAME_NAI = 1"
definition EAP_ERP_TV_RRK_LIFETIME :: u8 where "EAP_ERP_TV_RRK_LIFETIME = 2"
definition EAP_ERP_TV_RMSK_LIFETIME :: u8 where "EAP_ERP_TV_RMSK_LIFETIME = 3"
definition EAP_ERP_TLV_DOMAIN_NAME :: u8 where "EAP_ERP_TLV_DOMAIN_NAME = 4"

text \<open>The named TLV types of the second group of \<open>case\<close> labels.\<close>

definition erp_tlv_types :: "u8 set" where
  "erp_tlv_types = {4, 1, 5, 6, 128, 129, 130, 131, 132}"

lemmas erp_type_defs = EAP_ERP_TLV_KEYNAME_NAI_def EAP_ERP_TV_RRK_LIFETIME_def
  EAP_ERP_TV_RMSK_LIFETIME_def EAP_ERP_TLV_DOMAIN_NAME_def erp_tlv_types_def

text \<open>One iteration of the loop over \<open>[pos, end)\<close>, where \<open>end\<close> is the end of the
  buffer: the function returns, or goes on at a new position.\<close>

datatype erp_iter = Erp_return int erp_tlvs | Erp_next nat erp_tlvs

definition erp_tlv_body :: "bytes \<Rightarrow> nat \<Rightarrow> (u8 \<Rightarrow> nat \<Rightarrow> erp_iter) \<Rightarrow> erp_tlvs \<Rightarrow> erp_iter option" where
  "erp_tlv_body b pos k tlvs =
     (if pos \<ge> length b then Some (Erp_return (-1) tlvs)
      else do {
        tlv_len \<leftarrow> rd8 b pos;
        let pos = pos + 1;
        if unat tlv_len > length b - pos then Some (Erp_return (-1) tlvs)
        else Some (k tlv_len pos) })"

definition erp_parse_iter :: "bytes \<Rightarrow> nat \<Rightarrow> erp_tlvs \<Rightarrow> bool \<Rightarrow> erp_iter option" where
  "erp_parse_iter b pos tlvs stop_at_keyname = do {
     tlv_type \<leftarrow> rd8 b pos;
     let pos = pos + 1;
     if tlv_type = EAP_ERP_TV_RRK_LIFETIME \<or> tlv_type = EAP_ERP_TV_RMSK_LIFETIME then
       if pos + 4 > length b then Some (Erp_return (-1) tlvs)
       else Some (Erp_next (pos + 4) tlvs)
     else if tlv_type \<in> erp_tlv_types then
       erp_tlv_body b pos (\<lambda>tlv_len pos.
         if tlv_type = EAP_ERP_TLV_KEYNAME_NAI then
           if keyname tlvs \<noteq> None then Erp_return (-1) tlvs
           else let tlvs = tlvs\<lparr>keyname := Some pos, keyname_len := tlv_len\<rparr> in
             if stop_at_keyname then Erp_return 0 tlvs
             else Erp_next (pos + unat tlv_len) tlvs
         else if tlv_type = EAP_ERP_TLV_DOMAIN_NAME then
           Erp_next (pos + unat tlv_len) (tlvs\<lparr>domain := Some pos, domain_len := tlv_len\<rparr>)
         else Erp_next (pos + unat tlv_len) tlvs) tlvs
     else if 128 \<le> tlv_type \<and> tlv_type \<le> 191 then
       erp_tlv_body b pos (\<lambda>tlv_len pos. Erp_next (pos + unat tlv_len) tlvs) tlvs
     else Some (Erp_next (length b) tlvs) }"

lemma erp_parse_iter_progress:
  "pos < length b \<Longrightarrow> erp_parse_iter b pos t stop = Some (Erp_next p t') \<Longrightarrow> pos < p"
  by (auto simp: erp_parse_iter_def erp_tlv_body_def bind_eq_Some_conv Let_def split: if_splits)

function erp_parse_loop :: "bytes \<Rightarrow> nat \<Rightarrow> erp_tlvs \<Rightarrow> bool \<Rightarrow> (int \<times> erp_tlvs) option" where
  "erp_parse_loop b pos tlvs stop_at_keyname =
     (if \<not> pos < length b then Some (0, tlvs)
      else case erp_parse_iter b pos tlvs stop_at_keyname of
             None \<Rightarrow> None
           | Some (Erp_return r t) \<Rightarrow> Some (r, t)
           | Some (Erp_next p t) \<Rightarrow> erp_parse_loop b p t stop_at_keyname)"
  by pat_completeness auto

termination
  by (relation "measure (\<lambda>(b, pos, _, _). length b - pos)")
    (auto dest: erp_parse_iter_progress intro: diff_less_mono2)

definition erp_parse_tlvs :: "bytes \<Rightarrow> bool \<Rightarrow> (int \<times> erp_tlvs) option" where
  "erp_parse_tlvs b stop_at_keyname =
     erp_parse_loop b 0 \<lparr>keyname = None, domain = None, keyname_len = 0, domain_len = 0\<rparr> stop_at_keyname"

section \<open>Lemmas\<close>

declare erp_parse_loop.simps [simp del]

text \<open>The attributes found lie inside the buffer.\<close>

definition erp_tlvs_in :: "bytes \<Rightarrow> erp_tlvs \<Rightarrow> bool" where
  "erp_tlvs_in b t \<longleftrightarrow>
     (case keyname t of None \<Rightarrow> True | Some p \<Rightarrow> p + unat (keyname_len t) \<le> length b) \<and>
     (case domain t of None \<Rightarrow> True | Some p \<Rightarrow> p + unat (domain_len t) \<le> length b)"

primrec iter_tlvs :: "erp_iter \<Rightarrow> erp_tlvs" where
  "iter_tlvs (Erp_return r t) = t"
| "iter_tlvs (Erp_next p t) = t"

lemma erp_tlv_body_safe:
  assumes "\<And>l p. p + unat l \<le> length b \<Longrightarrow> P (k l p)" "P (Erp_return (-1) t)"
  shows "returns P (erp_tlv_body b pos k t)"
  using assms by (auto simp: erp_tlv_body_def wp)

lemma erp_parse_iter_safe:
  assumes "pos < length b" "erp_tlvs_in b t"
  shows "returns (\<lambda>i. erp_tlvs_in b (iter_tlvs i)) (erp_parse_iter b pos t stop)"
  using assms
  by (auto simp: erp_parse_iter_def wp Let_def intro!: erp_tlv_body_safe)
    (auto simp: erp_tlvs_in_def split: option.splits)

lemma erp_parse_loop_safe:
  "erp_tlvs_in b t \<Longrightarrow> returns (\<lambda>(r, t'). erp_tlvs_in b t') (erp_parse_loop b pos t stop)"
proof (induction b pos t stop rule: erp_parse_loop.induct)
  case (1 b pos t stop)
  show ?case
  proof (cases "pos < length b")
    case True
    from erp_parse_iter_safe [OF True "1.prems", of stop] obtain i where
      i: "erp_parse_iter b pos t stop = Some i" "erp_tlvs_in b (iter_tlvs i)"
      by (auto simp: returns_iff)
    show ?thesis
      using i True "1.IH" by (cases i) (auto simp: erp_parse_loop.simps [of b pos])
  qed (use "1.prems" in \<open>simp add: erp_parse_loop.simps\<close>)
qed

text \<open>What a validated message looks like.\<close>

lemma eap_hdr_len_valid_wp [wp]:
  assumes "wf_wpabuf m"
  shows "returns P (eap_hdr_len_valid (Some m) n) \<longleftrightarrow>
     (wb_used m < 4 \<longrightarrow> P False) \<and>
     (\<forall>l. 4 \<le> wb_used m \<longrightarrow> WPA_GET_BE16 (wb_data m) 2 = Some l \<longrightarrow>
        P (size_add 4 n \<le> unat l \<and> unat l \<le> wb_used m))"
  using assms by (auto simp: eap_hdr_len_valid_def wpabuf_len_def wp not_less)

lemma eap_hdr_validate_safe:
  assumes "wf_wpabuf m"
  shows "returns (\<lambda>r. \<forall>pos n. r = Some (pos, n) \<longrightarrow> 5 \<le> pos \<and> pos + n \<le> wb_used m)
     (eap_hdr_validate vendor type (Some m))"
  using assms by (auto simp: eap_hdr_validate_def wp Let_def)

text \<open>The header and Type field that \<open>eap_msg_alloc()\<close> writes.\<close>

definition eap_type_field :: "u32 \<Rightarrow> eap_type \<Rightarrow> bytes" where
  "eap_type_field vendor type =
     (if vendor = EAP_VENDOR_IETF then [ucast type]
      else ucast EAP_TYPE_EXPANDED # WPA_PUT_BE24 vendor @ WPA_PUT_BE32 type)"

definition eap_frame :: "u32 \<Rightarrow> eap_type \<Rightarrow> u8 \<Rightarrow> u8 \<Rightarrow> bytes \<Rightarrow> bytes" where
  "eap_frame vendor type code identifier payload =
     [code, identifier] @ WPA_PUT_BE16 (of_nat (4 + length (eap_type_field vendor type) + length payload)) @
     eap_type_field vendor type @ payload"

lemma take_eap_frame:
  "take (4 + length (eap_type_field vendor type)) (eap_frame vendor type code ident d) @ d =
     eap_frame vendor type code ident d"
  by (simp add: eap_frame_def eap_type_field_def)

lemma eap_msg_alloc_eq:
  assumes "n \<le> 65535"
  shows "eap_msg_alloc ok vendor type n code ident =
    (case wpabuf_alloc ok (4 + length (eap_type_field vendor type) + n) of None \<Rightarrow> Some None
     | Some b \<Rightarrow> map_option Some (wb.put_all b
        ([[code, ident] @ WPA_PUT_BE16 (of_nat (4 + length (eap_type_field vendor type) + n))] @
         (if vendor = 0 then [[ucast type]]
          else [[ucast EAP_TYPE_EXPANDED], WPA_PUT_BE24 vendor, WPA_PUT_BE32 type]))))"
proof -
  have *: "(wpabuf_put b 4 \<bind> (\<lambda>(b, off). wb_write b off ([x, y] @ WPA_PUT_BE16 l) \<bind> f)) =
      (wb_append b ([x, y] @ WPA_PUT_BE16 l) \<bind> f)" for b x y l and f :: "wpabuf \<Rightarrow> wpabuf option option"
    by (cases "wpabuf_put b 4") (auto simp: wb_append_def)
  have **: "map_option Some m = (m \<bind> (\<lambda>b. Some (Some b)))" for m :: "wpabuf option"
    by (cases m) simp_all
  show ?thesis
    unfolding eap_msg_alloc_def Let_def wpabuf_put_eq_append * **
    using assms by (auto simp: eap_type_field_def split: option.splits)
qed

lemma eap_msg_alloc_data:
  assumes "4 + length (eap_type_field vendor type) + length d \<le> 65535"
  shows "\<exists>b. eap_msg_alloc True vendor type (length d) code ident = Some (Some b) \<and> wf_wpabuf b \<and>
     wb_data b = take (4 + length (eap_type_field vendor type)) (eap_frame vendor type code ident d) \<and>
     wpabuf_tailroom b = length d"
proof -
  let ?len = "4 + length (eap_type_field vendor type) + length d"
  obtain n where n: "wpabuf_alloc True ?len = Some n" by (simp add: wpabuf_alloc_def)
  have wf: "wf_wpabuf n" "wb_data n = []" "wpabuf_tailroom n = ?len"
    using wpabuf_alloc_wf [OF n] assms by auto
  let ?ds = "[[code, ident] @ WPA_PUT_BE16 (of_nat ?len)] @
         (if vendor = 0 then [[ucast type]]
          else [[ucast EAP_TYPE_EXPANDED], WPA_PUT_BE24 vendor, WPA_PUT_BE32 type])"
  have "length (concat ?ds) \<le> wpabuf_tailroom n" using wf by (simp add: eap_type_field_def)
  from wb_put_all_fits [OF wf(1) this] obtain b where b: "wb.put_all n ?ds = Some b" "wf_wpabuf b"
      "wb_data b = concat ?ds" "wpabuf_tailroom b = ?len - length (concat ?ds)"
    using wf by auto
  have "eap_msg_alloc True vendor type (length d) code ident = Some (Some b)"
    using eap_msg_alloc_eq [of "length d" True vendor type code ident] assms n b(1) by simp
  moreover have "concat ?ds = take (4 + length (eap_type_field vendor type)) (eap_frame vendor type code ident d)"
    by (simp add: eap_frame_def eap_type_field_def)
  moreover have "?len - length (concat ?ds) = length d" by (simp add: eap_type_field_def)
  ultimately show ?thesis using b by (metis (no_types))
qed

lemma returns_eap_msg_alloc:
  assumes "4 + length (eap_type_field vendor type) + n \<le> 65535" "\<not> ok \<Longrightarrow> P None"
    and "\<And>b. ok \<Longrightarrow> wf_wpabuf b \<Longrightarrow> wpabuf_tailroom b = n \<Longrightarrow>
           wb_data b = [code, ident] @ WPA_PUT_BE16 (of_nat (4 + length (eap_type_field vendor type) + n)) @
             eap_type_field vendor type \<Longrightarrow> P (Some b)"
  shows "returns P (eap_msg_alloc ok vendor type n code ident)"
proof (cases ok)
  case True
  have n: "length (replicate n (0 :: u8)) = n" by simp
  have t: "take (4 + length (eap_type_field vendor type)) (eap_frame vendor type code ident (replicate n 0)) =
      [code, ident] @ WPA_PUT_BE16 (of_nat (4 + length (eap_type_field vendor type) + n)) @ eap_type_field vendor type"
    by (simp add: eap_frame_def eap_type_field_def)
  from eap_msg_alloc_data [of vendor type "replicate n 0" code ident] assms(1)
  obtain b where "eap_msg_alloc True vendor type n code ident = Some (Some b)" "wf_wpabuf b"
    "wb_data b = [code, ident] @ WPA_PUT_BE16 (of_nat (4 + length (eap_type_field vendor type) + n)) @
       eap_type_field vendor type" "wpabuf_tailroom b = n"
    unfolding n t by blast
  with True assms(3) show ?thesis by simp
next
  case False
  then show ?thesis using assms(2) by (simp add: eap_msg_alloc_def wpabuf_alloc_def Let_def)
qed

text \<open>The length field is rewritten to the length of the data.\<close>

lemma returns_eap_update_len:
  assumes "wf_wpabuf m" "4 \<le> wb_used m"
    and "\<And>m'. wf_wpabuf m' \<Longrightarrow> wb_used m' = wb_used m \<Longrightarrow>
           wb_data m' = take 2 (wb_data m) @ WPA_PUT_BE16 (of_nat (wb_used m)) @ drop 4 (wb_data m) \<Longrightarrow> P m'"
  shows "returns P (eap_update_len m)"
proof -
  let ?b = "take 2 (wb_buf m) @ WPA_PUT_BE16 (of_nat (wb_used m)) @ drop 4 (wb_buf m)"
  have l: "length (wb_buf m) = wb_size m" "wb_used m \<le> wb_size m" using assms(1) by (auto simp: wf_wpabuf_def)
  have e: "eap_update_len m = Some (m\<lparr>wb_buf := ?b\<rparr>)"
    using assms(2) l by (simp add: eap_update_len_def wb_write_def wrn_def wpabuf_len_def)
  have d: "wb_data (m\<lparr>wb_buf := ?b\<rparr>) = take 2 (wb_data m) @ WPA_PUT_BE16 (of_nat (wb_used m)) @ drop 4 (wb_data m)"
    using assms(2) l by (simp add: wb_data_def drop_take)
  show ?thesis
    unfolding e returns_Some using assms(1,2) l d by (intro assms(3)) (auto simp: wf_wpabuf_def)
qed

lemma vendor_mask: "vendor < (0x1000000 :: u32) \<Longrightarrow> vendor AND mask 24 = vendor"
  by (simp add: word_less_nat_alt word_unat_eq_iff unsigned_take_bit_eq take_bit_nat_eq_self
      flip: take_bit_eq_mask)

lemma eap_frame_fields:
  fixes d :: bytes
  assumes "4 + length (eap_type_field vendor type) + length d \<le> 65535" "vendor < 0x1000000"
  shows "WPA_GET_BE16 (eap_frame vendor type code ident d) 2 =
      Some (of_nat (4 + length (eap_type_field vendor type) + length d))"
    and "unat (of_nat (4 + length (eap_type_field vendor type) + length d) :: u16) =
      4 + length (eap_type_field vendor type) + length d"
    and "rd8 (eap_frame vendor type code ident d) 4 =
      Some (if vendor = EAP_VENDOR_IETF then ucast type else ucast EAP_TYPE_EXPANDED)"
    and "vendor \<noteq> EAP_VENDOR_IETF \<Longrightarrow> WPA_GET_BE24 (eap_frame vendor type code ident d) 5 = Some vendor"
    and "vendor \<noteq> EAP_VENDOR_IETF \<Longrightarrow> WPA_GET_BE32 (eap_frame vendor type code ident d) 8 = Some type"
proof -
  let ?L = "of_nat (4 + length (eap_type_field vendor type) + length d) :: u16"
  show "WPA_GET_BE16 (eap_frame vendor type code ident d) 2 = Some ?L"
    using get_put_BE16 [of "[code, ident]" ?L "eap_type_field vendor type @ d"]
    by (simp add: eap_frame_def numeral_2_eq_2)
  show "unat ?L = 4 + length (eap_type_field vendor type) + length d"
    using assms(1) by (simp only: unat_of_nat) simp
  have l4: "length ([code, ident] @ WPA_PUT_BE16 ?L) = 4" by simp
  show "rd8 (eap_frame vendor type code ident d) 4 =
      Some (if vendor = EAP_VENDOR_IETF then ucast type else ucast EAP_TYPE_EXPANDED)"
    using rd8_put [of "[code, ident] @ WPA_PUT_BE16 ?L"] l4
    by (auto simp: eap_frame_def eap_type_field_def)
  assume v: "vendor \<noteq> EAP_VENDOR_IETF"
  let ?xs = "[code, ident] @ WPA_PUT_BE16 ?L @ [ucast EAP_TYPE_EXPANDED]"
  have f: "eap_frame vendor type code ident d = ?xs @ WPA_PUT_BE24 vendor @ WPA_PUT_BE32 type @ d"
    "eap_frame vendor type code ident d = (?xs @ WPA_PUT_BE24 vendor) @ WPA_PUT_BE32 type @ d"
    using v by (simp_all add: eap_frame_def eap_type_field_def)
  show "WPA_GET_BE24 (eap_frame vendor type code ident d) 5 = Some vendor"
    using get_put_BE24 [of ?xs vendor "WPA_PUT_BE32 type @ d"] f(1) vendor_mask [OF assms(2)] by simp
  show "WPA_GET_BE32 (eap_frame vendor type code ident d) 8 = Some type"
    using get_put_BE32 [of "?xs @ WPA_PUT_BE24 vendor" type d] f(2) by simp
qed

lemma u8_u32_roundtrip: "type < (256 :: u32) \<Longrightarrow> ucast (ucast type :: u8) = type"
  by (rule word_unat_eq_iff [THEN iffD2]) (simp add: word_less_nat_alt unsigned_ucast_eq
      unsigned_take_bit_eq take_bit_nat_eq_self)

lemma eap_frame_parse:
  assumes "wf_wpabuf m" "wb_data m = eap_frame vendor type code ident d"
    and "4 + length (eap_type_field vendor type) + length d \<le> 65535"
    and "vendor = EAP_VENDOR_IETF \<Longrightarrow> type < 256 \<and> type \<noteq> EAP_TYPE_EXPANDED"
    and "vendor < 0x1000000"
  shows "eap_hdr_validate vendor type (Some m) =
      Some (Some (4 + length (eap_type_field vendor type), length d)) \<and> eap_get_id m = Some ident"
proof -
  note F = eap_frame_fields [OF assms(3,5)]
  have len: "wb_used m = 4 + length (eap_type_field vendor type) + length d"
    using wb_data_length [OF assms(1)] assms(2) by (simp add: eap_frame_def)
  have tf: "1 \<le> length (eap_type_field vendor type)"
    "vendor \<noteq> EAP_VENDOR_IETF \<Longrightarrow> length (eap_type_field vendor type) = 8"
    "vendor = EAP_VENDOR_IETF \<Longrightarrow> length (eap_type_field vendor type) = 1"
    by (simp_all add: eap_type_field_def)
  obtain L where L: "WPA_GET_BE16 (eap_frame vendor type code ident d) 2 = Some L" "unat L = wb_used m"
    using F(1,2) len by metis
  have v: "eap_hdr_len_valid (Some m) (Suc 0) = Some True"
    using len tf(1) by (auto simp: eap_hdr_len_valid_def wpabuf_len_def assms(2) L Let_def)
  have "eap_get_id m = Some ident"
    using len by (simp add: eap_get_id_def wpabuf_len_def assms(2) eap_frame_def rd8_def)
  moreover have "eap_hdr_validate vendor type (Some m) =
      Some (Some (4 + length (eap_type_field vendor type), length d))"
  proof (cases "vendor = EAP_VENDOR_IETF")
    case True
    with assms(4) show ?thesis
      using tf F(3) L u8_u32_roundtrip [of type]
      by (simp add: eap_hdr_validate_def v L len Let_def assms(2))
  next
    case False
    then show ?thesis
      using tf F(3-5) by (simp add: eap_hdr_validate_def v L len Let_def assms(2))
  qed
  ultimately show ?thesis by simp
qed

section \<open>Properties\<close>

text \<open>C8. No out-of-bounds read, and the payload lies in the message. On any well-formed buffer,
  whatever its content, \<open>eap_hdr_validate()\<close> reads only inside the message; when it accepts, the
  payload it returns starts after the Type field and ends inside the received data, at the
  length the header announces.\<close>

theorem eap_hdr_validate_in_bounds:
  assumes "wf_wpabuf m"
  shows "\<exists>r. eap_hdr_validate vendor type (Some m) = Some r \<and>
    (\<forall>pos n. r = Some (pos, n) \<longrightarrow>
       5 \<le> pos \<and> pos + n \<le> wpabuf_len m \<and>
       (\<exists>l. WPA_GET_BE16 (wb_data m) 2 = Some l \<and> pos + n = unat l))"
proof -
  have "returns (\<lambda>r. \<forall>pos n. r = Some (pos, n) \<longrightarrow> 5 \<le> pos \<and> pos + n \<le> wpabuf_len m \<and>
       (\<exists>l. WPA_GET_BE16 (wb_data m) 2 = Some l \<and> pos + n = unat l))
     (eap_hdr_validate vendor type (Some m))"
    using assms by (auto simp: eap_hdr_validate_def wp wpabuf_len_def)
  then show ?thesis by (simp add: returns_iff)
qed

theorem eap_hdr_validate_in_bounds_witness:
  "\<exists>r. eap_hdr_validate 0 4 (Some \<lparr>wb_size = 6, wb_used = 6, wb_buf = [1, 7, 0, 6, 4, 9], wb_flags = 0\<rparr>) = Some r"
  using eap_hdr_validate_in_bounds
    [of "\<lparr>wb_size = 6, wb_used = 6, wb_buf = [1, 7, 0, 6, 4, 9], wb_flags = 0\<rparr>" 0 4]
  by (auto simp: wf_wpabuf_def)

text \<open>C9. Round trip of EAP messages. A message built with \<open>eap_msg_alloc()\<close> and filled with its
  payload is accepted by \<open>eap_hdr_validate()\<close> for the same Vendor-Id and Type, which returns the
  position and length of exactly that payload, and \<open>eap_get_id()\<close> returns the Identifier, for
  legacy Types and for expanded ones.\<close>

theorem eap_msg_round_trip:
  assumes "4 + length (eap_type_field vendor type) + length d \<le> 65535"
    and "vendor = EAP_VENDOR_IETF \<Longrightarrow> type < 256 \<and> type \<noteq> EAP_TYPE_EXPANDED"
    and "vendor < 0x1000000"
  shows "\<exists>b b' pos. eap_msg_alloc True vendor type (length d) code ident = Some (Some b) \<and>
    wpabuf_put_data b (Some d) = Some b' \<and>
    eap_hdr_validate vendor type (Some b') = Some (Some (pos, length d)) \<and>
    rdn (wb_data b') pos (length d) = Some d \<and> eap_get_id b' = Some ident"
proof -
  from eap_msg_alloc_data [OF assms(1), of code ident] obtain b where
    b: "eap_msg_alloc True vendor type (length d) code ident = Some (Some b)" "wf_wpabuf b"
      "wb_data b = take (4 + length (eap_type_field vendor type)) (eap_frame vendor type code ident d)"
      "wpabuf_tailroom b = length d" by blast
  from wb_append_room [OF b(2), of d] b(4) obtain b' where
    b': "wb_append b d = Some b'" "wf_wpabuf b'" "wb_data b' = wb_data b @ d" by auto
  have w: "wb_data b' = eap_frame vendor type code ident d"
    using b(3) b'(3) take_eap_frame by simp
  from eap_frame_parse [OF b'(2) w assms] have
    "eap_hdr_validate vendor type (Some b') = Some (Some (4 + length (eap_type_field vendor type), length d))"
    "eap_get_id b' = Some ident" by auto
  moreover have "rdn (wb_data b') (4 + length (eap_type_field vendor type)) (length d) = Some d"
    by (simp add: w eap_frame_def eap_type_field_def rdn_def)
  ultimately show ?thesis using b(1) b'(1) by (auto simp: wpabuf_put_eq_append)
qed

theorem eap_msg_round_trip_witness:
  "\<exists>b b' pos. eap_msg_alloc True 0x372A 1 2 EAP_CODE_RESPONSE 5 = Some (Some b) \<and>
    wpabuf_put_data b (Some [1, 2]) = Some b' \<and>
    eap_hdr_validate 0x372A 1 (Some b') = Some (Some (pos, 2)) \<and>
    rdn (wb_data b') pos 2 = Some [1, 2] \<and> eap_get_id b' = Some 5"
proof -
  have l: "length [1, 2 :: u8] = 2" by simp
  show ?thesis
    by (rule eap_msg_round_trip [of "0x372A" 1 "[1, 2]" EAP_CODE_RESPONSE 5, unfolded l])
      (simp_all add: eap_type_field_def)
qed

text \<open>C10. ERP attributes. \<open>erp_parse_tlvs()\<close> terminates on every byte string without reading outside
  it, and the key name and domain it reports lie inside the buffer.\<close>

theorem erp_parse_tlvs_in_bounds:
  "\<exists>r t. erp_parse_tlvs b stop = Some (r, t) \<and>
     (\<forall>p. keyname t = Some p \<longrightarrow> p + unat (keyname_len t) \<le> length b) \<and>
     (\<forall>p. domain t = Some p \<longrightarrow> p + unat (domain_len t) \<le> length b)"
proof -
  have "erp_tlvs_in b \<lparr>keyname = None, domain = None, keyname_len = 0, domain_len = 0\<rparr>"
    by (simp add: erp_tlvs_in_def)
  from erp_parse_loop_safe [OF this, of 0 stop] show ?thesis
    by (auto simp: returns_iff erp_parse_tlvs_def erp_tlvs_in_def split: option.splits)
qed

theorem erp_parse_tlvs_in_bounds_witness:
  "\<exists>r t. erp_parse_tlvs [4, 2, 97, 98, 1, 1, 99] False = Some (r, t) \<and>
     (\<forall>p. keyname t = Some p \<longrightarrow> p + unat (keyname_len t) \<le> 7)"
  using erp_parse_tlvs_in_bounds [of "[4, 2, 97, 98, 1, 1, 99]" False] by auto

end
