(* ===== verification/Eapol_vars.thy ===== *)
theory Eapol_vars
  imports Eap_common
begin

text \<open>
  The variables of the EAPOL supplicant that the EAP peer state machine shares with
  it, and the callbacks it reaches them through (\<open>struct eapol_callbacks\<close> in
  \<open>src/eap_peer/eap.h\<close>, \<open>eapol_sm_get_bool()\<close> and its neighbours in
  \<open>src/eapol_supp/eapol_supp_sm.c\<close>).

  Both layers act on an environment: the allocator and the event loop may refuse a
  request, and frames, timers and notifications leave through function pointers. The
  answers of the environment are the stream \<open>answers\<close>, read in the order of the
  requests; what leaves is appended to \<open>trace\<close>.

  The locale \<open>eap_lower_layer\<close> is the contract of the callbacks; the EAPOL functions
  are its instance.
\<close>

section \<open>The network configuration\<close>

text \<open>The fields of \<open>struct eap_peer_config\<close> that the state machines read. \<open>cfg_addr\<close>
  stands for the address of the structure. The array \<open>eap_methods\<close> is the list of its
  entries before the terminating \<open>(EAP_VENDOR_IETF, EAP_TYPE_NONE)\<close>.\<close>

record eap_peer_config =
  cfg_addr :: nat
  identity :: "bytes option"
  anonymous_identity :: "bytes option"
  machine_identity :: "bytes option"
  eap_methods :: "(u32 \<times> u32) list option"
  phase1 :: "bytes option"
  pcsc :: bool
  pending_req_identity :: nat
  pending_req_pin :: nat
  pending_req_passphrase :: nat
  cfg_erp :: bool

section \<open>The shared variables\<close>

datatype supp_result = EAPOL_SUPP_RESULT_FAILURE | EAPOL_SUPP_RESULT_SUCCESS
  | EAPOL_SUPP_RESULT_EXPECTED_FAILURE

datatype effect =
    Notify_status string "string option"
  | Eap_error int
  | Eap_param_needed
  | Eap_notification bytes
  | Eapol_send u8 bytes
  | Port_cb bool
  | Eapol_done
  | Set_wep_key bool u8 bytes
  | Aborted_cached
  | Register_tick
  | Cancel_tick
  | Register_step
  | Supp_cb supp_result

record eapol_vars =
  eapSuccess :: bool
  eapRestart :: bool
  eapFail :: bool
  eapResp :: bool
  eapNoResp :: bool
  eapReq :: bool
  portEnabled :: bool
  altAccept :: bool
  altReject :: bool
  eapTriggerStart :: bool
  idleWhile :: u32
  timer_tick_enabled :: bool
  eapReqData :: "wpabuf option"
  config :: "eap_peer_config option"
  answers :: "nat \<Rightarrow> bool"
  asked :: nat
  trace :: "effect list"

text \<open>One request to the environment.\<close>

definition ask :: "eapol_vars \<Rightarrow> bool \<times> eapol_vars" where
  "ask v = (answers v (asked v), v\<lparr>asked := Suc (asked v)\<rparr>)"

definition emit :: "effect \<Rightarrow> eapol_vars \<Rightarrow> eapol_vars" where
  "emit e v = v\<lparr>trace := trace v @ [e]\<rparr>"

definition eapol_enable_timer_tick :: "eapol_vars \<Rightarrow> eapol_vars" where
  "eapol_enable_timer_tick v =
     (if timer_tick_enabled v then v
      else
        let v = emit Cancel_tick v;
            (ok, v) = ask v
        in if ok then (emit Register_tick v)\<lparr>timer_tick_enabled := True\<rparr> else v)"

section \<open>The callbacks\<close>

datatype eapol_bool_var = EAPOL_eapSuccess | EAPOL_eapRestart | EAPOL_eapFail | EAPOL_eapResp
  | EAPOL_eapNoResp | EAPOL_eapReq | EAPOL_portEnabled | EAPOL_altAccept | EAPOL_altReject
  | EAPOL_eapTriggerStart

datatype eapol_int_var = EAPOL_idleWhile

fun eapol_sm_get_bool :: "eapol_vars \<Rightarrow> eapol_bool_var \<Rightarrow> bool" where
  "eapol_sm_get_bool v EAPOL_eapSuccess = eapSuccess v"
| "eapol_sm_get_bool v EAPOL_eapRestart = eapRestart v"
| "eapol_sm_get_bool v EAPOL_eapFail = eapFail v"
| "eapol_sm_get_bool v EAPOL_eapResp = eapResp v"
| "eapol_sm_get_bool v EAPOL_eapNoResp = eapNoResp v"
| "eapol_sm_get_bool v EAPOL_eapReq = eapReq v"
| "eapol_sm_get_bool v EAPOL_portEnabled = portEnabled v"
| "eapol_sm_get_bool v EAPOL_altAccept = altAccept v"
| "eapol_sm_get_bool v EAPOL_altReject = altReject v"
| "eapol_sm_get_bool v EAPOL_eapTriggerStart = eapTriggerStart v"

fun eapol_sm_set_bool :: "eapol_vars \<Rightarrow> eapol_bool_var \<Rightarrow> bool \<Rightarrow> eapol_vars" where
  "eapol_sm_set_bool v EAPOL_eapSuccess x = v\<lparr>eapSuccess := x\<rparr>"
| "eapol_sm_set_bool v EAPOL_eapRestart x = v\<lparr>eapRestart := x\<rparr>"
| "eapol_sm_set_bool v EAPOL_eapFail x = v\<lparr>eapFail := x\<rparr>"
| "eapol_sm_set_bool v EAPOL_eapResp x = v\<lparr>eapResp := x\<rparr>"
| "eapol_sm_set_bool v EAPOL_eapNoResp x = v\<lparr>eapNoResp := x\<rparr>"
| "eapol_sm_set_bool v EAPOL_eapReq x = v\<lparr>eapReq := x\<rparr>"
| "eapol_sm_set_bool v EAPOL_portEnabled x = v\<lparr>portEnabled := x\<rparr>"
| "eapol_sm_set_bool v EAPOL_altAccept x = v\<lparr>altAccept := x\<rparr>"
| "eapol_sm_set_bool v EAPOL_altReject x = v\<lparr>altReject := x\<rparr>"
| "eapol_sm_set_bool v EAPOL_eapTriggerStart x = v\<lparr>eapTriggerStart := x\<rparr>"

fun eapol_sm_get_int :: "eapol_vars \<Rightarrow> eapol_int_var \<Rightarrow> u32" where
  "eapol_sm_get_int v EAPOL_idleWhile = idleWhile v"

fun eapol_sm_set_int :: "eapol_vars \<Rightarrow> eapol_int_var \<Rightarrow> u32 \<Rightarrow> eapol_vars" where
  "eapol_sm_set_int v EAPOL_idleWhile x =
     (let v = v\<lparr>idleWhile := x\<rparr> in if x > 0 then eapol_enable_timer_tick v else v)"

definition eapol_sm_get_config :: "eapol_vars \<Rightarrow> eap_peer_config option" where
  "eapol_sm_get_config v = config v"

definition eapol_sm_get_eapReqData :: "eapol_vars \<Rightarrow> wpabuf option" where
  "eapol_sm_get_eapReqData v = eapReqData v"

section \<open>Frame lemmas\<close>

text \<open>Nothing but the tick state, the answers consumed and the trace changes when the
  timer is armed.\<close>

lemma enable_timer_tick_frame [simp]:
  "eapSuccess (eapol_enable_timer_tick v) = eapSuccess v"
  "eapRestart (eapol_enable_timer_tick v) = eapRestart v"
  "eapFail (eapol_enable_timer_tick v) = eapFail v"
  "eapResp (eapol_enable_timer_tick v) = eapResp v"
  "eapNoResp (eapol_enable_timer_tick v) = eapNoResp v"
  "eapReq (eapol_enable_timer_tick v) = eapReq v"
  "portEnabled (eapol_enable_timer_tick v) = portEnabled v"
  "altAccept (eapol_enable_timer_tick v) = altAccept v"
  "altReject (eapol_enable_timer_tick v) = altReject v"
  "eapTriggerStart (eapol_enable_timer_tick v) = eapTriggerStart v"
  "idleWhile (eapol_enable_timer_tick v) = idleWhile v"
  "eapReqData (eapol_enable_timer_tick v) = eapReqData v"
  "config (eapol_enable_timer_tick v) = config v"
  by (simp_all add: eapol_enable_timer_tick_def ask_def emit_def Let_def)

lemma emit_frame [simp]:
  "eapSuccess (emit e v) = eapSuccess v" "eapRestart (emit e v) = eapRestart v"
  "eapFail (emit e v) = eapFail v" "eapResp (emit e v) = eapResp v"
  "eapNoResp (emit e v) = eapNoResp v" "eapReq (emit e v) = eapReq v"
  "portEnabled (emit e v) = portEnabled v" "altAccept (emit e v) = altAccept v"
  "altReject (emit e v) = altReject v" "eapTriggerStart (emit e v) = eapTriggerStart v"
  "idleWhile (emit e v) = idleWhile v" "timer_tick_enabled (emit e v) = timer_tick_enabled v"
  "eapReqData (emit e v) = eapReqData v" "config (emit e v) = config v"
  "answers (emit e v) = answers v" "asked (emit e v) = asked v" "trace (emit e v) = trace v @ [e]"
  by (simp_all add: emit_def)

text \<open>The effects the EAP layer may cause, the timer tick included, and the trace of all
  others: frames, the port status, keys and results.\<close>

fun eap_effect :: "effect \<Rightarrow> bool" where
  "eap_effect (Notify_status _ _) = True"
| "eap_effect (Eap_error _) = True"
| "eap_effect Eap_param_needed = True"
| "eap_effect (Eap_notification _) = True"
| "eap_effect Register_tick = True"
| "eap_effect Cancel_tick = True"
| "eap_effect _ = False"

definition lower_trace :: "eapol_vars \<Rightarrow> effect list" where
  "lower_trace v = filter (Not \<circ> eap_effect) (trace v)"

lemma lower_trace_emit [simp]:
  "lower_trace (emit e v) = (if eap_effect e then lower_trace v else lower_trace v @ [e])"
  by (simp add: lower_trace_def)

lemma lower_trace_upd [simp]:
  "lower_trace (v\<lparr>eapSuccess := b\<rparr>) = lower_trace v"
  "lower_trace (v\<lparr>eapRestart := b\<rparr>) = lower_trace v"
  "lower_trace (v\<lparr>eapFail := b\<rparr>) = lower_trace v"
  "lower_trace (v\<lparr>eapResp := b\<rparr>) = lower_trace v"
  "lower_trace (v\<lparr>eapNoResp := b\<rparr>) = lower_trace v"
  "lower_trace (v\<lparr>eapReq := b\<rparr>) = lower_trace v"
  "lower_trace (v\<lparr>portEnabled := b\<rparr>) = lower_trace v"
  "lower_trace (v\<lparr>altAccept := b\<rparr>) = lower_trace v"
  "lower_trace (v\<lparr>altReject := b\<rparr>) = lower_trace v"
  "lower_trace (v\<lparr>eapTriggerStart := b\<rparr>) = lower_trace v"
  "lower_trace (v\<lparr>idleWhile := n\<rparr>) = lower_trace v"
  "lower_trace (v\<lparr>timer_tick_enabled := b\<rparr>) = lower_trace v"
  "lower_trace (v\<lparr>eapReqData := r\<rparr>) = lower_trace v"
  "lower_trace (v\<lparr>config := c\<rparr>) = lower_trace v"
  "lower_trace (v\<lparr>asked := k\<rparr>) = lower_trace v"
  by (simp_all add: lower_trace_def)

lemma lower_trace_ask [simp]: "lower_trace (snd (ask v)) = lower_trace v"
  by (simp add: lower_trace_def ask_def)

lemma lower_trace_tick [simp]: "lower_trace (eapol_enable_timer_tick v) = lower_trace v"
  by (simp add: eapol_enable_timer_tick_def split_beta Let_def lower_trace_def ask_def)

lemma lower_trace_set [simp]:
  "lower_trace (eapol_sm_set_bool v x b) = lower_trace v" "lower_trace (eapol_sm_set_int v y n) = lower_trace v"
proof -
  show "lower_trace (eapol_sm_set_bool v x b) = lower_trace v" by (cases x) (simp_all add: lower_trace_def)
  have "lower_trace (v\<lparr>idleWhile := n\<rparr>) = lower_trace v" by (simp add: lower_trace_def)
  then show "lower_trace (eapol_sm_set_int v y n) = lower_trace v" by (cases y) (simp add: Let_def)
qed

section \<open>The contract of the callbacks\<close>

locale eap_lower_layer =
  fixes get_bool :: "'v \<Rightarrow> eapol_bool_var \<Rightarrow> bool"
    and set_bool :: "'v \<Rightarrow> eapol_bool_var \<Rightarrow> bool \<Rightarrow> 'v"
    and get_int :: "'v \<Rightarrow> eapol_int_var \<Rightarrow> u32"
    and set_int :: "'v \<Rightarrow> eapol_int_var \<Rightarrow> u32 \<Rightarrow> 'v"
    and get_req :: "'v \<Rightarrow> wpabuf option"
  assumes get_set_bool: "get_bool (set_bool v x b) y = (if x = y then b else get_bool v y)"
    and get_bool_set_int: "get_bool (set_int v i n) y = get_bool v y"
    and get_set_int: "get_int (set_int v i n) i = n"
    and get_int_set_bool: "get_int (set_bool v x b) i = get_int v i"
    and get_req_set: "get_req (set_bool v x b) = get_req v" "get_req (set_int v i n) = get_req v"
begin

text \<open>The writes of distinct variables commute, and a sequence of writes is observed
  variable by variable: the order in which a state of the EAP machine sets its outputs
  does not matter to the lower layer.\<close>

lemma set_bool_commute:
  "x \<noteq> y \<Longrightarrow> get_bool (set_bool (set_bool v x a) y b) z = get_bool (set_bool (set_bool v y b) x a) z"
  by (auto simp: get_set_bool)

lemma get_foldl_set:
  "distinct (map fst xs) \<Longrightarrow>
     get_bool (foldl (\<lambda>v (x, b). set_bool v x b) v xs) y =
       (case map_of xs y of None \<Rightarrow> get_bool v y | Some b \<Rightarrow> b)"
proof (induction xs arbitrary: v)
  case (Cons p xs)
  obtain x b where p: "p = (x, b)" by fastforce
  have "x \<notin> dom (map_of xs)" using Cons.prems p by (simp add: dom_map_of_conv_image_fst)
  with Cons p show ?case by (auto simp: get_set_bool split: option.splits)
qed simp

end

interpretation eapol: eap_lower_layer eapol_sm_get_bool eapol_sm_set_bool
  eapol_sm_get_int eapol_sm_set_int eapol_sm_get_eapReqData
proof
  fix v x b y i n
  show "eapol_sm_get_bool (eapol_sm_set_bool v x b) y = (if x = y then b else eapol_sm_get_bool v y)"
    by (cases x; cases y) simp_all
  show "eapol_sm_get_bool (eapol_sm_set_int v i n) y = eapol_sm_get_bool v y"
    by (cases i; cases y) (simp_all add: Let_def)
  show "eapol_sm_get_int (eapol_sm_set_int v i n) i = n"
    by (cases i) (simp add: Let_def)
  show "eapol_sm_get_int (eapol_sm_set_bool v x b) i = eapol_sm_get_int v i"
    by (cases i; cases x) simp_all
  show "eapol_sm_get_eapReqData (eapol_sm_set_bool v x b) = eapol_sm_get_eapReqData v"
    by (cases x) (simp_all add: eapol_sm_get_eapReqData_def)
  show "eapol_sm_get_eapReqData (eapol_sm_set_int v i n) = eapol_sm_get_eapReqData v"
    by (cases i) (simp add: eapol_sm_get_eapReqData_def Let_def)
qed

end
