(* ===== verification/Eap_peer.thy ===== *)
theory Eap_peer
  imports Eapol_vars
begin

text \<open>
  The EAP peer state machine of RFC 4137: \<open>src/eap_peer/eap.c\<close>, with its data from
  \<open>src/eap_peer/eap_i.h\<close> and the method registry of \<open>src/eap_peer/eap_methods.c\<close>.

  The state is the record \<open>eap_sm\<close>. The field \<open>eapol_ctx\<close> holds the variables of
  the lower layer that the code reaches through \<open>sm->eapol_cb\<close>. The EAP methods are
  the function pointers of \<open>struct eap_method\<close>: the list of registered methods is part
  of the parameter \<open>eap_env\<close>, next to SHA-1, and \<open>sm->m\<close> is an index into it. The
  fields of \<open>struct eap_sm\<close> that methods assign are grouped in \<open>meth_vars\<close>: a method
  returns new values for these, for its private data and for its results, and nothing
  else of the state changes in a call.

  A function whose code can call \<open>abort()\<close> or leave the bounds of a buffer returns an
  option, with \<^const>\<open>None\<close> for that fault. The build is the one without CONFIG_ERP,
  PCSC_FUNCS and CONFIG_EAP_PROXY and with the control interface.
\<close>

section \<open>Data\<close>

datatype EapDecision = DECISION_FAIL | DECISION_COND_SUCC | DECISION_UNCOND_SUCC

datatype EapMethodState = METHOD_NONE | METHOD_INIT | METHOD_CONT | METHOD_MAY_CONT | METHOD_DONE

datatype EAP_States = EAP_INITIALIZE | EAP_DISABLED | EAP_IDLE | EAP_RECEIVED | EAP_GET_METHOD
  | EAP_METHOD | EAP_SEND_RESPONSE | EAP_DISCARD | EAP_IDENTITY | EAP_NOTIFICATION
  | EAP_RETRANSMIT | EAP_SUCCESS | EAP_FAILURE

definition EAP_MAX_AUTH_ROUNDS :: nat where "EAP_MAX_AUTH_ROUNDS = 100"
definition EAP_MAX_AUTH_ROUNDS_SHORT :: nat where "EAP_MAX_AUTH_ROUNDS_SHORT = 50"
definition EAP_CLIENT_TIMEOUT_DEFAULT :: u32 where "EAP_CLIENT_TIMEOUT_DEFAULT = 60"

record meth_vars =
  sm_ignore :: bool
  leap_done :: bool
  peap_done :: bool
  ClientTimeout :: u32
  expected_failure :: bool
  ext_cert_check :: bool
  waiting_ext_cert_check :: bool
  use_machine_cred :: bool

record 'p eap_sm =
  EAP_state :: EAP_States
  selectedMethod :: eap_type
  methodState :: EapMethodState
  lastId :: int
  lastRespData :: "wpabuf option"
  decision :: EapDecision
  rxReq :: bool
  rxSuccess :: bool
  rxFailure :: bool
  reqId :: int
  reqMethod :: eap_type
  reqVendor :: u32
  reqVendorMethod :: u32
  allowNotifications :: bool
  eapRespData :: "wpabuf option"
  eapKeyAvailable :: bool
  eapKeyData :: "bytes option"
  eapSessionId :: "bytes option"
  sm_m :: "nat option"
  eap_changed :: bool
  eap_method_priv :: "'p option"
  fast_reauth :: bool
  reauthInit :: bool
  erp_seq :: u32
  rxResp :: bool
  req_sha1 :: bytes
  last_sha1 :: bytes
  workaround :: bool
  num_rounds :: nat
  num_rounds_short :: nat
  force_disabled :: bool
  prev_failure :: bool
  last_config :: "nat option"
  mv :: meth_vars
  eapol_ctx :: eapol_vars

record eap_method_ret =
  ret_ignore :: bool
  ret_methodState :: EapMethodState
  ret_decision :: EapDecision
  ret_allowNotifications :: bool

record 'p eap_method =
  em_vendor :: u32
  em_method :: eap_type
  em_name :: string
  em_init :: "'p eap_sm \<Rightarrow> 'p option \<times> meth_vars"
  em_deinit :: "'p eap_sm \<Rightarrow> 'p option \<Rightarrow> meth_vars"
  em_process :: "'p eap_sm \<Rightarrow> 'p option \<Rightarrow> eap_method_ret \<Rightarrow> wpabuf \<Rightarrow>
                   wpabuf option \<times> eap_method_ret \<times> 'p option \<times> meth_vars"
  em_isKeyAvailable :: "('p eap_sm \<Rightarrow> 'p option \<Rightarrow> bool) option"
  em_getKey :: "('p eap_sm \<Rightarrow> 'p option \<Rightarrow> bytes option) option"
  em_has_reauth_data :: "('p eap_sm \<Rightarrow> 'p option \<Rightarrow> bool) option"
  em_deinit_for_reauth :: "'p eap_sm \<Rightarrow> 'p option \<Rightarrow> 'p option \<times> meth_vars"
  em_init_for_reauth :: "'p eap_sm \<Rightarrow> 'p option \<Rightarrow> 'p option \<times> meth_vars"
  em_get_identity :: "('p eap_sm \<Rightarrow> 'p option \<Rightarrow> bytes option) option"
  em_get_error_code :: "('p option \<Rightarrow> int) option"
  em_getSessionId :: "('p eap_sm \<Rightarrow> 'p option \<Rightarrow> bytes option) option"

record 'p eap_env =
  methods :: "'p eap_method list"
  sha1 :: "bytes \<Rightarrow> bytes"

section \<open>Access to the lower layer\<close>

definition upd_ctx :: "(eapol_vars \<Rightarrow> eapol_vars) \<Rightarrow> 'p eap_sm \<Rightarrow> 'p eap_sm" where
  "upd_ctx f sm = sm\<lparr>eapol_ctx := f (eapol_ctx sm)\<rparr>"

definition eapol_get_bool :: "'p eap_sm \<Rightarrow> eapol_bool_var \<Rightarrow> bool" where
  "eapol_get_bool sm var = eapol_sm_get_bool (eapol_ctx sm) var"

definition eapol_set_bool :: "eapol_bool_var \<Rightarrow> bool \<Rightarrow> 'p eap_sm \<Rightarrow> 'p eap_sm" where
  "eapol_set_bool var value sm = upd_ctx (\<lambda>c. eapol_sm_set_bool c var value) sm"

definition eapol_get_int :: "'p eap_sm \<Rightarrow> eapol_int_var \<Rightarrow> u32" where
  "eapol_get_int sm var = eapol_sm_get_int (eapol_ctx sm) var"

definition eapol_set_int :: "eapol_int_var \<Rightarrow> u32 \<Rightarrow> 'p eap_sm \<Rightarrow> 'p eap_sm" where
  "eapol_set_int var value sm = upd_ctx (\<lambda>c. eapol_sm_set_int c var value) sm"

definition eapol_get_eapReqData :: "'p eap_sm \<Rightarrow> wpabuf option" where
  "eapol_get_eapReqData sm = eapol_sm_get_eapReqData (eapol_ctx sm)"

definition eap_get_config :: "'p eap_sm \<Rightarrow> eap_peer_config option" where
  "eap_get_config sm = eapol_sm_get_config (eapol_ctx sm)"

definition eap_notify_status :: "string \<Rightarrow> string option \<Rightarrow> 'p eap_sm \<Rightarrow> 'p eap_sm" where
  "eap_notify_status status parameter sm = upd_ctx (emit (Notify_status status parameter)) sm"

definition eap_report_error :: "int \<Rightarrow> 'p eap_sm \<Rightarrow> 'p eap_sm" where
  "eap_report_error error_code sm = upd_ctx (emit (Eap_error error_code)) sm"

text \<open>The allocator's answer to the next request.\<close>

definition eap_ask :: "'p eap_sm \<Rightarrow> bool \<times> 'p eap_sm" where
  "eap_ask sm = (let (ok, c) = ask (eapol_ctx sm) in (ok, sm\<lparr>eapol_ctx := c\<rparr>))"

text \<open>\<open>eap_sm_request()\<close> for the identity request, the only one the machine makes itself.\<close>

definition eap_sm_request_identity :: "'p eap_sm \<Rightarrow> 'p eap_sm" where
  "eap_sm_request_identity sm =
     (case eap_get_config sm of
        None \<Rightarrow> sm
      | Some c \<Rightarrow>
          upd_ctx (\<lambda>v. emit Eap_param_needed
            (v\<lparr>config := Some (c\<lparr>pending_req_identity := Suc (pending_req_identity c)\<rparr>)\<rparr>)) sm)"

section \<open>The method registry\<close>

text \<open>Registration: \<open>valid\<close> stands for the checks of the name and the interface version.
  The result is the new list and the return code.\<close>

definition eap_peer_method_register ::
  "'p eap_method list \<Rightarrow> 'p eap_method \<Rightarrow> bool \<Rightarrow> 'p eap_method list \<times> int" where
  "eap_peer_method_register ms meth valid =
     (if \<not> valid then (ms, -1)
      else if \<exists>x \<in> set ms. (em_vendor x = em_vendor meth \<and> em_method x = em_method meth) \<or>
                            em_name x = em_name meth
      then (ms, -2) else (ms @ [meth], 0))"

fun eap_find_method :: "'p eap_method list \<Rightarrow> nat \<Rightarrow> u32 \<Rightarrow> eap_type \<Rightarrow> nat option" where
  "eap_find_method [] i vendor meth = None"
| "eap_find_method (x # xs) i vendor meth =
     (if em_vendor x = vendor \<and> em_method x = meth then Some i
      else eap_find_method xs (Suc i) vendor meth)"

definition eap_peer_get_eap_method :: "'p eap_env \<Rightarrow> u32 \<Rightarrow> eap_type \<Rightarrow> nat option" where
  "eap_peer_get_eap_method E vendor meth = eap_find_method (methods E) 0 vendor meth"

definition eap_peer_get_type :: "'p eap_env \<Rightarrow> string \<Rightarrow> u32 \<times> eap_type" where
  "eap_peer_get_type E name =
     (case find (\<lambda>x. em_name x = name) (methods E) of
        Some x \<Rightarrow> (em_vendor x, em_method x)
      | None \<Rightarrow> (EAP_VENDOR_IETF, EAP_TYPE_NONE))"

definition eap_get_name :: "'p eap_env \<Rightarrow> u32 \<Rightarrow> eap_type \<Rightarrow> string option" where
  "eap_get_name E vendor type =
     (if vendor = EAP_VENDOR_IETF \<and> type = EAP_TYPE_EXPANDED then Some ''expanded''
      else map_option em_name (find (\<lambda>x. em_vendor x = vendor \<and> em_method x = type) (methods E)))"

text \<open>The method \<open>sm->m\<close> points to.\<close>

definition cur_method :: "'p eap_env \<Rightarrow> 'p eap_sm \<Rightarrow> 'p eap_method option" where
  "cur_method E sm =
     (case sm_m sm of None \<Rightarrow> None
      | Some i \<Rightarrow> if i < length (methods E) then Some (methods E ! i) else None)"

definition eap_sm_get_method_name :: "'p eap_env \<Rightarrow> 'p eap_sm \<Rightarrow> string" where
  "eap_sm_get_method_name E sm = (case cur_method E sm of None \<Rightarrow> ''UNKNOWN'' | Some x \<Rightarrow> em_name x)"

definition method_name :: "'p eap_env \<Rightarrow> nat option \<Rightarrow> string" where
  "method_name E i = (case i of None \<Rightarrow> ''unknown'' | Some k \<Rightarrow> em_name (methods E ! k))"

section \<open>Method data\<close>

definition eap_sm_free_key :: "'p eap_sm \<Rightarrow> 'p eap_sm" where
  "eap_sm_free_key sm = sm\<lparr>eapKeyData := None\<rparr>"

definition eap_deinit_prev_method :: "'p eap_env \<Rightarrow> 'p eap_sm \<Rightarrow> 'p eap_sm" where
  "eap_deinit_prev_method E sm =
     (case cur_method E sm of
        None \<Rightarrow> sm
      | Some meth \<Rightarrow>
          if eap_method_priv sm = None then sm
          else sm\<lparr>mv := em_deinit meth sm (eap_method_priv sm), eap_method_priv := None, sm_m := None\<rparr>)"

fun eap_methods_list_has :: "(u32 \<times> u32) list \<Rightarrow> u32 \<Rightarrow> u32 \<Rightarrow> bool" where
  "eap_methods_list_has [] vendor meth = False"
| "eap_methods_list_has ((v, t) # ms) vendor meth =
     (if v = EAP_VENDOR_IETF \<and> t = EAP_TYPE_NONE then False
      else if v = vendor \<and> t = meth then True else eap_methods_list_has ms vendor meth)"

definition eap_config_allowed_method :: "eap_peer_config option \<Rightarrow> u32 \<Rightarrow> u32 \<Rightarrow> bool" where
  "eap_config_allowed_method cfg vendor meth =
     (case cfg of None \<Rightarrow> True
      | Some c \<Rightarrow> (case eap_methods c of None \<Rightarrow> True | Some ms \<Rightarrow> eap_methods_list_has ms vendor meth))"

definition eap_allowed_method :: "'p eap_sm \<Rightarrow> u32 \<Rightarrow> u32 \<Rightarrow> bool" where
  "eap_allowed_method sm vendor meth = eap_config_allowed_method (eap_get_config sm) vendor meth"

definition eap_sm_allowMethod :: "'p eap_env \<Rightarrow> 'p eap_sm \<Rightarrow> u32 \<Rightarrow> eap_type \<Rightarrow> bool" where
  "eap_sm_allowMethod E sm vendor meth =
     (eap_allowed_method sm vendor meth \<and> eap_peer_get_eap_method E vendor meth \<noteq> None)"

definition has_reauth_data :: "'p eap_env \<Rightarrow> 'p eap_sm \<Rightarrow> bool" where
  "has_reauth_data E sm =
     (case cur_method E sm of None \<Rightarrow> False
      | Some meth \<Rightarrow> (case em_has_reauth_data meth of None \<Rightarrow> False | Some f \<Rightarrow> f sm (eap_method_priv sm)))"

section \<open>Responses the machine builds itself\<close>

fun eap_expanded_nak_loop ::
  "'p eap_sm \<Rightarrow> 'p eap_method list \<Rightarrow> wpabuf \<Rightarrow> nat \<Rightarrow> (wpabuf \<times> nat) option" where
  "eap_expanded_nak_loop sm [] resp found = Some (resp, found)"
| "eap_expanded_nak_loop sm (x # xs) resp found =
     (if reqVendor sm = em_vendor x \<and> reqVendorMethod sm = em_method x
      then eap_expanded_nak_loop sm xs resp found
      else if eap_allowed_method sm (em_vendor x) (em_method x) then do {
        resp \<leftarrow> wpabuf_put_u8 resp (ucast EAP_TYPE_EXPANDED);
        resp \<leftarrow> wpabuf_put_be24 resp (em_vendor x);
        resp \<leftarrow> wpabuf_put_be32 resp (em_method x);
        eap_expanded_nak_loop sm xs resp (Suc found) }
      else eap_expanded_nak_loop sm xs resp found)"

definition eap_sm_build_expanded_nak ::
  "'p eap_env \<Rightarrow> 'p eap_sm \<Rightarrow> u8 \<Rightarrow> (wpabuf option \<times> 'p eap_sm) option" where
  "eap_sm_build_expanded_nak E sm ident =
     (let count = length (methods E); (ok, sm) = eap_ask sm in do {
        r \<leftarrow> eap_msg_alloc ok EAP_VENDOR_IETF EAP_TYPE_EXPANDED (8 + 8 * (count + 1)) EAP_CODE_RESPONSE ident;
        case r of None \<Rightarrow> Some (None, sm)
        | Some resp \<Rightarrow> do {
            resp \<leftarrow> wpabuf_put_be24 resp EAP_VENDOR_IETF;
            resp \<leftarrow> wpabuf_put_be32 resp EAP_TYPE_NAK;
            (resp, found) \<leftarrow> eap_expanded_nak_loop sm (methods E) resp 0;
            resp \<leftarrow> (if found = 0 then do {
                        resp \<leftarrow> wpabuf_put_u8 resp (ucast EAP_TYPE_EXPANDED);
                        resp \<leftarrow> wpabuf_put_be24 resp EAP_VENDOR_IETF;
                        wpabuf_put_be32 resp EAP_TYPE_NONE }
                      else Some resp);
            resp \<leftarrow> eap_update_len resp;
            Some (Some resp, sm) } })"

fun eap_nak_loop ::
  "'p eap_sm \<Rightarrow> 'p eap_method list \<Rightarrow> wpabuf \<Rightarrow> nat \<Rightarrow> bool \<Rightarrow> (wpabuf \<times> nat) option" where
  "eap_nak_loop sm [] resp found expanded_found = Some (resp, found)"
| "eap_nak_loop sm (x # xs) resp found expanded_found =
     (if em_vendor x = EAP_VENDOR_IETF \<and> em_method x = reqMethod sm
      then eap_nak_loop sm xs resp found expanded_found
      else if eap_allowed_method sm (em_vendor x) (em_method x) then
        if em_vendor x \<noteq> EAP_VENDOR_IETF then
          if expanded_found then eap_nak_loop sm xs resp found expanded_found
          else do {
            resp \<leftarrow> wpabuf_put_u8 resp (ucast EAP_TYPE_EXPANDED);
            eap_nak_loop sm xs resp (Suc found) True }
        else do {
          resp \<leftarrow> wpabuf_put_u8 resp (ucast (em_method x));
          eap_nak_loop sm xs resp (Suc found) expanded_found }
      else eap_nak_loop sm xs resp found expanded_found)"

definition eap_sm_buildNak :: "'p eap_env \<Rightarrow> 'p eap_sm \<Rightarrow> u8 \<Rightarrow> (wpabuf option \<times> 'p eap_sm) option" where
  "eap_sm_buildNak E sm ident =
     (if methods E = [] then Some (None, sm)
      else if reqMethod sm = EAP_TYPE_EXPANDED then eap_sm_build_expanded_nak E sm ident
      else
        let count = length (methods E); (ok, sm) = eap_ask sm in do {
          r \<leftarrow> eap_msg_alloc ok EAP_VENDOR_IETF EAP_TYPE_NAK (sizeof_eap_hdr + 1 + count + 1) EAP_CODE_RESPONSE ident;
          case r of None \<Rightarrow> Some (None, sm)
          | Some resp \<Rightarrow> do {
              (resp, found) \<leftarrow> eap_nak_loop sm (methods E) resp 0 False;
              resp \<leftarrow> (if found = 0 then wpabuf_put_u8 resp (ucast EAP_TYPE_NONE) else Some resp);
              resp \<leftarrow> eap_update_len resp;
              Some (Some resp, sm) } })"

definition eap_sm_processIdentity :: "wpabuf option \<Rightarrow> 'p eap_sm \<Rightarrow> 'p eap_sm option" where
  "eap_sm_processIdentity req sm =
     (let sm = eap_notify_status ''started'' (Some '''') sm in do {
        _ \<leftarrow> eap_hdr_validate EAP_VENDOR_IETF EAP_TYPE_IDENTITY req;
        Some sm })"

text \<open>The identity chosen for the response, in the order of the code.\<close>

definition eap_select_identity :: "'p eap_env \<Rightarrow> 'p eap_sm \<Rightarrow> eap_peer_config \<Rightarrow> bool \<Rightarrow> bytes option" where
  "eap_select_identity E sm cfg encrypted =
     (let meth_id = (case cur_method E sm of None \<Rightarrow> None
                     | Some meth \<Rightarrow> (case em_get_identity meth of None \<Rightarrow> None
                                     | Some f \<Rightarrow> f sm (eap_method_priv sm)))
      in if meth_id \<noteq> None then meth_id
         else if \<not> encrypted \<and> anonymous_identity cfg \<noteq> None then anonymous_identity cfg
         else if use_machine_cred (mv sm) then machine_identity cfg
         else identity cfg)"

definition eap_sm_buildIdentity ::
  "'p eap_env \<Rightarrow> 'p eap_sm \<Rightarrow> u8 \<Rightarrow> bool \<Rightarrow> (wpabuf option \<times> 'p eap_sm) option" where
  "eap_sm_buildIdentity E sm ident encrypted =
     (case eap_get_config sm of
        None \<Rightarrow> Some (None, sm)
      | Some cfg \<Rightarrow>
          let idn = eap_select_identity E sm cfg encrypted in
          if pcsc cfg then Some (None, sm)
          else case idn of
            None \<Rightarrow> Some (None, eap_sm_request_identity sm)
          | Some d \<Rightarrow>
              let (ok, sm) = eap_ask sm in do {
                r \<leftarrow> eap_msg_alloc ok EAP_VENDOR_IETF EAP_TYPE_IDENTITY (length d) EAP_CODE_RESPONSE ident;
                case r of None \<Rightarrow> Some (None, sm)
                | Some resp \<Rightarrow> do {
                    resp \<leftarrow> wpabuf_put_data resp (Some d);
                    Some (Some resp, sm) } })"

definition isprint :: "u8 \<Rightarrow> bool" where
  "isprint c \<longleftrightarrow> 32 \<le> c \<and> c \<le> 126"

definition eap_sm_processNotify :: "wpabuf option \<Rightarrow> 'p eap_sm \<Rightarrow> 'p eap_sm option" where
  "eap_sm_processNotify req sm = do {
     v \<leftarrow> eap_hdr_validate EAP_VENDOR_IETF EAP_TYPE_NOTIFICATION req;
     case req of None \<Rightarrow> Some sm
     | Some m \<Rightarrow>
         if v = None then Some sm
         else
           let (pos, msg_len) = the v; (ok, sm) = eap_ask sm in
           if \<not> ok then Some sm
           else do {
             d \<leftarrow> rdn (wb_data m) pos msg_len;
             Some (upd_ctx (emit (Eap_notification (map (\<lambda>c. if isprint c then c else 95) d))) sm) } }"

definition eap_sm_buildNotify :: "'p eap_sm \<Rightarrow> u8 \<Rightarrow> (wpabuf option \<times> 'p eap_sm) option" where
  "eap_sm_buildNotify sm ident =
     (let (ok, sm) = eap_ask sm in do {
        r \<leftarrow> eap_msg_alloc ok EAP_VENDOR_IETF EAP_TYPE_NOTIFICATION 0 EAP_CODE_RESPONSE ident;
        Some (r, sm) })"

section \<open>Parsing a received message\<close>

text \<open>Without CONFIG_ERP an EAP-Initiate only asks for a full authentication, and an
  EAP-Finish is ignored.\<close>

definition eap_peer_initiate :: "'p eap_sm \<Rightarrow> 'p eap_sm" where
  "eap_peer_initiate sm = eapol_set_bool EAPOL_eapTriggerStart True sm"

definition eap_peer_finish :: "'p eap_sm \<Rightarrow> 'p eap_sm" where
  "eap_peer_finish sm = sm"

definition eap_failure_error :: "'p eap_env \<Rightarrow> 'p eap_sm \<Rightarrow> 'p eap_sm" where
  "eap_failure_error E sm =
     (case cur_method E sm of None \<Rightarrow> sm
      | Some meth \<Rightarrow>
          (case em_get_error_code meth of None \<Rightarrow> sm
           | Some f \<Rightarrow> let error_code = f (eap_method_priv sm) in
               if error_code \<noteq> -1 then eap_report_error error_code sm else sm))"

definition eap_sm_parse_code ::
  "'p eap_env \<Rightarrow> bytes \<Rightarrow> u8 \<Rightarrow> nat \<Rightarrow> 'p eap_sm \<Rightarrow> 'p eap_sm option" where
  "eap_sm_parse_code E d code plen sm =
     (if code = EAP_CODE_REQUEST then
        if plen < sizeof_eap_hdr + 1 then Some sm
        else do {
          let sm = sm\<lparr>rxReq := True\<rparr>;
          t \<leftarrow> rd8 d sizeof_eap_hdr;
          let sm = sm\<lparr>reqMethod := ucast t\<rparr>;
          if reqMethod sm = EAP_TYPE_EXPANDED then
            if plen < sizeof_eap_hdr + 8 then Some sm
            else do {
              v \<leftarrow> WPA_GET_BE24 d (sizeof_eap_hdr + 1);
              vm \<leftarrow> WPA_GET_BE32 d (sizeof_eap_hdr + 4);
              Some (sm\<lparr>reqVendor := v, reqVendorMethod := vm\<rparr>) }
          else Some sm }
      else if code = EAP_CODE_RESPONSE then
        if selectedMethod sm = EAP_TYPE_LEAP then
          if plen < sizeof_eap_hdr + 1 then Some sm
          else do {
            t \<leftarrow> rd8 d sizeof_eap_hdr;
            Some (sm\<lparr>rxResp := True, reqMethod := ucast t\<rparr>) }
        else Some sm
      else if code = EAP_CODE_SUCCESS then
        Some ((eap_notify_status ''completion'' (Some ''success'') sm)\<lparr>rxSuccess := True\<rparr>)
      else if code = EAP_CODE_FAILURE then
        Some ((eap_failure_error E (eap_notify_status ''completion'' (Some ''failure'') sm))\<lparr>rxFailure := True\<rparr>)
      else if code = EAP_CODE_INITIATE then Some (eap_peer_initiate sm)
      else if code = EAP_CODE_FINISH then Some (eap_peer_finish sm)
      else Some sm)"

definition eap_sm_parseEapReq :: "'p eap_env \<Rightarrow> wpabuf option \<Rightarrow> 'p eap_sm \<Rightarrow> 'p eap_sm option" where
  "eap_sm_parseEapReq E req sm =
     (let sm = sm\<lparr>rxReq := False, rxResp := False, rxSuccess := False, rxFailure := False,
                  reqId := 0, reqMethod := EAP_TYPE_NONE, reqVendor := EAP_VENDOR_IETF,
                  reqVendorMethod := EAP_TYPE_NONE\<rparr>
      in case req of None \<Rightarrow> Some sm
      | Some m \<Rightarrow>
          if wpabuf_len m < sizeof_eap_hdr then Some sm
          else do {
            l \<leftarrow> WPA_GET_BE16 (wb_data m) 2;
            let plen = unat l;
            if plen > wpabuf_len m then Some sm
            else do {
              ident \<leftarrow> rd8 (wb_data m) 1;
              let sm = sm\<lparr>reqId := int (unat ident)\<rparr>;
              sm \<leftarrow> (if workaround sm then do {
                        x \<leftarrow> rdn (wb_data m) 0 plen;
                        Some (sm\<lparr>req_sha1 := sha1 E x\<rparr>) }
                      else Some sm);
              code \<leftarrow> rd8 (wb_data m) 0;
              eap_sm_parse_code E (wb_data m) code plen sm } })"

section \<open>The states\<close>

definition SM_ENTRY_EAP :: "bool \<Rightarrow> EAP_States \<Rightarrow> 'p eap_sm \<Rightarrow> 'p eap_sm" where
  "SM_ENTRY_EAP global st sm =
     (let sm = (if \<not> global \<or> EAP_state sm \<noteq> st then sm\<lparr>eap_changed := True\<rparr> else sm)
      in sm\<lparr>EAP_state := st\<rparr>)"

definition EAP_INITIALIZE_Enter :: "'p eap_env \<Rightarrow> bool \<Rightarrow> 'p eap_sm \<Rightarrow> 'p eap_sm" where
  "EAP_INITIALIZE_Enter E global sm =
     (let sm = SM_ENTRY_EAP global EAP_INITIALIZE sm;
          cfg = map_option cfg_addr (eap_get_config sm);
          sm = (if fast_reauth sm \<and> has_reauth_data E sm \<and> \<not> prev_failure sm \<and> last_config sm = cfg
                then case cur_method E sm of None \<Rightarrow> sm
                     | Some meth \<Rightarrow>
                         let (priv, w) = em_deinit_for_reauth meth sm (eap_method_priv sm)
                         in sm\<lparr>eap_method_priv := priv, mv := w\<rparr>
                else eap_deinit_prev_method E (sm\<lparr>last_config := cfg\<rparr>));
          sm = sm\<lparr>selectedMethod := EAP_TYPE_NONE, methodState := METHOD_NONE,
                  allowNotifications := True, decision := DECISION_FAIL,
                  mv := (mv sm)\<lparr>ClientTimeout := EAP_CLIENT_TIMEOUT_DEFAULT\<rparr>\<rparr>;
          sm = eapol_set_int EAPOL_idleWhile (ClientTimeout (mv sm)) sm;
          sm = eapol_set_bool EAPOL_eapSuccess False sm;
          sm = eapol_set_bool EAPOL_eapFail False sm;
          sm = eap_sm_free_key sm;
          sm = sm\<lparr>eapSessionId := None, eapKeyAvailable := False\<rparr>;
          sm = eapol_set_bool EAPOL_eapRestart False sm;
          sm = sm\<lparr>lastId := -1\<rparr>;
          sm = eapol_set_bool EAPOL_eapResp False sm;
          sm = eapol_set_bool EAPOL_eapNoResp False sm
      in sm\<lparr>mv := (mv sm)\<lparr>sm_ignore := False, expected_failure := False, use_machine_cred := False\<rparr>,
            num_rounds := 0, num_rounds_short := 0, prev_failure := False, reauthInit := False,
            erp_seq := -1\<rparr>)"

definition EAP_DISABLED_Enter :: "bool \<Rightarrow> 'p eap_sm \<Rightarrow> 'p eap_sm" where
  "EAP_DISABLED_Enter global sm =
     (let sm = SM_ENTRY_EAP global EAP_DISABLED sm;
          sm = sm\<lparr>num_rounds := 0, num_rounds_short := 0\<rparr>
      in eapol_set_int EAPOL_idleWhile 0 sm)"

definition EAP_IDLE_Enter :: "bool \<Rightarrow> 'p eap_sm \<Rightarrow> 'p eap_sm" where
  "EAP_IDLE_Enter global sm = SM_ENTRY_EAP global EAP_IDLE sm"

definition EAP_RECEIVED_Enter :: "'p eap_env \<Rightarrow> bool \<Rightarrow> 'p eap_sm \<Rightarrow> 'p eap_sm option" where
  "EAP_RECEIVED_Enter E global sm =
     (let sm = SM_ENTRY_EAP global EAP_RECEIVED sm;
          req = eapol_get_eapReqData sm
      in do {
        sm \<leftarrow> eap_sm_parseEapReq E req sm;
        let sm = sm\<lparr>num_rounds := Suc (num_rounds sm)\<rparr>;
        if (case req of None \<Rightarrow> True | Some m \<Rightarrow> wpabuf_len m < 20)
        then Some (sm\<lparr>num_rounds_short := Suc (num_rounds_short sm)\<rparr>)
        else Some (sm\<lparr>num_rounds_short := 0\<rparr>) })"

text \<open>The part of GET_METHOD after the label \<open>nak\<close>.\<close>

definition get_method_nak :: "'p eap_env \<Rightarrow> 'p eap_sm \<Rightarrow> 'p eap_sm option" where
  "get_method_nak E sm = do {
     (resp, sm) \<leftarrow> eap_sm_buildNak E (sm\<lparr>eapRespData := None\<rparr>) (of_int (reqId sm));
     Some (sm\<lparr>eapRespData := resp\<rparr>) }"

definition EAP_GET_METHOD_Enter :: "'p eap_env \<Rightarrow> bool \<Rightarrow> 'p eap_sm \<Rightarrow> 'p eap_sm option" where
  "EAP_GET_METHOD_Enter E global sm =
     (let sm = SM_ENTRY_EAP global EAP_GET_METHOD sm;
          meth = (if reqMethod sm = EAP_TYPE_EXPANDED then reqVendorMethod sm else reqMethod sm);
          eap_method = eap_peer_get_eap_method E (reqVendor sm) meth
      in if \<not> eap_sm_allowMethod E sm (reqVendor sm) meth then
           get_method_nak E (eap_notify_status ''refuse proposed method'' (Some (method_name E eap_method)) sm)
         else
           let sm = eap_notify_status ''accept proposed method'' (Some (method_name E eap_method)) sm;
               reinit = (fast_reauth sm \<and>
                         (case cur_method E sm of None \<Rightarrow> False
                          | Some c \<Rightarrow> em_vendor c = reqVendor sm \<and> em_method c = meth) \<and>
                         has_reauth_data E sm);
               sm = (if reinit then sm else eap_deinit_prev_method E sm);
               sm = sm\<lparr>selectedMethod := reqMethod sm\<rparr>;
               sm = (if sm_m sm = None then sm\<lparr>sm_m := eap_method\<rparr> else sm)
           in case cur_method E sm of
                None \<Rightarrow> get_method_nak E sm
              | Some c \<Rightarrow>
                  let sm = sm\<lparr>mv := (mv sm)\<lparr>ClientTimeout := EAP_CLIENT_TIMEOUT_DEFAULT\<rparr>\<rparr>;
                      (priv, w) = (if reinit then em_init_for_reauth c sm (eap_method_priv sm)
                                   else em_init c (sm\<lparr>mv := (mv sm)\<lparr>waiting_ext_cert_check := False,
                                                                    ext_cert_check := False\<rparr>\<rparr>));
                      sm = sm\<lparr>eap_method_priv := priv, mv := w\<rparr>
                  in if priv = None then
                       let sm = sm\<lparr>sm_m := None, methodState := METHOD_NONE, selectedMethod := EAP_TYPE_NONE\<rparr>
                       in if reqMethod sm = EAP_TYPE_TLS \<and>
                             (case eap_get_config sm of None \<Rightarrow> False
                              | Some cfg \<Rightarrow> pending_req_pin cfg \<noteq> 0 \<or> pending_req_passphrase cfg \<noteq> 0)
                          then Some sm
                          else get_method_nak E sm
                     else Some (sm\<lparr>methodState := METHOD_INIT\<rparr>))"

text \<open>The keys a method offers after it has processed a request.\<close>

definition method_keys :: "'p eap_method \<Rightarrow> 'p eap_sm \<Rightarrow> 'p eap_sm" where
  "method_keys meth sm =
     (case (em_isKeyAvailable meth, em_getKey meth) of
        (Some av, Some gk) \<Rightarrow>
          if av sm (eap_method_priv sm) then
            let sm = eap_sm_free_key sm;
                sm = sm\<lparr>eapKeyData := gk sm (eap_method_priv sm)\<rparr>;
                sm = sm\<lparr>eapSessionId := None\<rparr>
            in (case em_getSessionId meth of None \<Rightarrow> sm
                | Some gs \<Rightarrow> sm\<lparr>eapSessionId := gs sm (eap_method_priv sm)\<rparr>)
          else sm
      | _ \<Rightarrow> sm)"

definition EAP_METHOD_Enter :: "'p eap_env \<Rightarrow> bool \<Rightarrow> 'p eap_sm \<Rightarrow> 'p eap_sm option" where
  "EAP_METHOD_Enter E global sm =
     (let sm = SM_ENTRY_EAP global EAP_METHOD sm in
      case cur_method E sm of
        None \<Rightarrow> Some sm
      | Some meth \<Rightarrow>
          let req = eapol_get_eapReqData sm;
              min_len = (if em_vendor meth = EAP_VENDOR_IETF \<and> em_method meth = EAP_TYPE_LEAP then 0 else 1)
          in do {
            v \<leftarrow> eap_hdr_len_valid req min_len;
            case req of None \<Rightarrow> Some sm
            | Some r \<Rightarrow>
                if \<not> v then Some sm
                else
                  let ret = \<lparr>ret_ignore = sm_ignore (mv sm), ret_methodState = methodState sm,
                             ret_decision = decision sm, ret_allowNotifications = allowNotifications sm\<rparr>;
                      sm = sm\<lparr>eapRespData := None\<rparr>;
                      (resp, ret, priv, w) = em_process meth sm (eap_method_priv sm) ret r;
                      sm = sm\<lparr>eapRespData := resp, eap_method_priv := priv, mv := w\<lparr>sm_ignore := ret_ignore ret\<rparr>\<rparr>
                  in if sm_ignore (mv sm) then Some sm
                     else Some (method_keys meth
                       (sm\<lparr>methodState := ret_methodState ret, decision := ret_decision ret,
                           allowNotifications := ret_allowNotifications ret\<rparr>)) })"

text \<open>The conditional of SEND_RESPONSE.\<close>

definition save_response :: "'p eap_sm \<Rightarrow> 'p eap_sm option" where
  "save_response sm =
     (case eapRespData sm of
        Some resp \<Rightarrow>
          let sm = (if wpabuf_len resp \<ge> 20 then sm\<lparr>num_rounds_short := 0\<rparr> else sm);
              sm = (if workaround sm then sm\<lparr>last_sha1 := req_sha1 sm\<rparr> else sm);
              sm = sm\<lparr>lastId := reqId sm\<rparr>;
              (ok, sm) = eap_ask sm
          in do {
            d \<leftarrow> wpabuf_dup ok resp;
            Some (eapol_set_bool EAPOL_eapResp True (sm\<lparr>lastRespData := d\<rparr>)) }
      | None \<Rightarrow> Some (sm\<lparr>lastRespData := None\<rparr>))"

definition EAP_SEND_RESPONSE_Enter :: "bool \<Rightarrow> 'p eap_sm \<Rightarrow> 'p eap_sm option" where
  "EAP_SEND_RESPONSE_Enter global sm =
     (let sm = SM_ENTRY_EAP global EAP_SEND_RESPONSE sm in do {
        sm \<leftarrow> save_response sm;
        let sm = eapol_set_bool EAPOL_eapReq False sm;
        let sm = eapol_set_int EAPOL_idleWhile (ClientTimeout (mv sm)) sm;
        Some (sm\<lparr>reauthInit := False\<rparr>) })"

definition EAP_DISCARD_Enter :: "bool \<Rightarrow> 'p eap_sm \<Rightarrow> 'p eap_sm" where
  "EAP_DISCARD_Enter global sm =
     (let sm = SM_ENTRY_EAP global EAP_DISCARD sm;
          sm = eapol_set_bool EAPOL_eapReq False sm
      in eapol_set_bool EAPOL_eapNoResp True sm)"

definition EAP_IDENTITY_Enter :: "'p eap_env \<Rightarrow> bool \<Rightarrow> 'p eap_sm \<Rightarrow> 'p eap_sm option" where
  "EAP_IDENTITY_Enter E global sm =
     (let sm = SM_ENTRY_EAP global EAP_IDENTITY sm;
          req = eapol_get_eapReqData sm
      in do {
        v \<leftarrow> eap_hdr_len_valid req 1;
        if \<not> v then Some sm
        else do {
          sm \<leftarrow> eap_sm_processIdentity req sm;
          (resp, sm) \<leftarrow> eap_sm_buildIdentity E (sm\<lparr>eapRespData := None\<rparr>) (of_int (reqId sm)) False;
          Some (sm\<lparr>eapRespData := resp\<rparr>) } })"

definition EAP_NOTIFICATION_Enter :: "bool \<Rightarrow> 'p eap_sm \<Rightarrow> 'p eap_sm option" where
  "EAP_NOTIFICATION_Enter global sm =
     (let sm = SM_ENTRY_EAP global EAP_NOTIFICATION sm;
          req = eapol_get_eapReqData sm
      in do {
        v \<leftarrow> eap_hdr_len_valid req 1;
        if \<not> v then Some sm
        else do {
          sm \<leftarrow> eap_sm_processNotify req sm;
          (resp, sm) \<leftarrow> eap_sm_buildNotify (sm\<lparr>eapRespData := None\<rparr>) (of_int (reqId sm));
          Some (sm\<lparr>eapRespData := resp\<rparr>) } })"

definition EAP_RETRANSMIT_Enter :: "bool \<Rightarrow> 'p eap_sm \<Rightarrow> 'p eap_sm option" where
  "EAP_RETRANSMIT_Enter global sm =
     (let sm = SM_ENTRY_EAP global EAP_RETRANSMIT sm in
      case lastRespData sm of
        Some r \<Rightarrow> let (ok, sm) = eap_ask sm in do {
                     d \<leftarrow> wpabuf_dup ok r;
                     Some (sm\<lparr>eapRespData := d\<rparr>) }
      | None \<Rightarrow> Some (sm\<lparr>eapRespData := None\<rparr>))"

definition EAP_SUCCESS_Enter :: "bool \<Rightarrow> 'p eap_sm \<Rightarrow> 'p eap_sm" where
  "EAP_SUCCESS_Enter global sm =
     (let sm = SM_ENTRY_EAP global EAP_SUCCESS sm;
          sm = (if eapKeyData sm \<noteq> None then sm\<lparr>eapKeyAvailable := True\<rparr> else sm);
          sm = eapol_set_bool EAPOL_eapSuccess True sm;
          sm = eapol_set_bool EAPOL_eapReq False sm
      in eapol_set_bool EAPOL_eapNoResp True sm)"

definition EAP_FAILURE_Enter :: "bool \<Rightarrow> 'p eap_sm \<Rightarrow> 'p eap_sm" where
  "EAP_FAILURE_Enter global sm =
     (let sm = SM_ENTRY_EAP global EAP_FAILURE sm;
          sm = eapol_set_bool EAPOL_eapFail True sm;
          sm = eapol_set_bool EAPOL_eapReq False sm;
          sm = eapol_set_bool EAPOL_eapNoResp True sm
      in sm\<lparr>prev_failure := True\<rparr>)"

section \<open>The transitions\<close>

definition eap_success_workaround :: "'p eap_sm \<Rightarrow> int \<Rightarrow> int \<Rightarrow> bool" where
  "eap_success_workaround sm rid lid \<longleftrightarrow>
     workaround sm \<and> (rid = (lid + 1) mod 256 \<or> rid = (lid + 2) mod 256)"

definition eap_peer_sm_step_idle :: "'p eap_env \<Rightarrow> 'p eap_sm \<Rightarrow> 'p eap_sm option" where
  "eap_peer_sm_step_idle E sm =
     (if eapol_get_bool sm EAPOL_eapReq then EAP_RECEIVED_Enter E False sm
      else if (eapol_get_bool sm EAPOL_altAccept \<and> decision sm \<noteq> DECISION_FAIL) \<or>
              (eapol_get_int sm EAPOL_idleWhile = 0 \<and> decision sm = DECISION_UNCOND_SUCC)
      then Some (EAP_SUCCESS_Enter False sm)
      else if eapol_get_bool sm EAPOL_altReject \<or>
              (eapol_get_int sm EAPOL_idleWhile = 0 \<and> decision sm \<noteq> DECISION_UNCOND_SUCC) \<or>
              (eapol_get_bool sm EAPOL_altAccept \<and> methodState sm \<noteq> METHOD_CONT \<and> decision sm = DECISION_FAIL)
      then Some (EAP_FAILURE_Enter False sm)
      else if selectedMethod sm = EAP_TYPE_LEAP \<and> leap_done (mv sm) \<and> decision sm \<noteq> DECISION_FAIL \<and>
              methodState sm = METHOD_DONE
      then Some (EAP_SUCCESS_Enter False sm)
      else if selectedMethod sm = EAP_TYPE_PEAP \<and> peap_done (mv sm) \<and> decision sm \<noteq> DECISION_FAIL \<and>
              methodState sm = METHOD_DONE
      then Some (EAP_SUCCESS_Enter False sm)
      else Some sm)"

definition eap_peer_req_is_duplicate :: "'p eap_sm \<Rightarrow> bool" where
  "eap_peer_req_is_duplicate sm =
     (let duplicate = (reqId sm = lastId sm \<and> rxReq sm)
      in if workaround sm \<and> duplicate \<and> os_memcmp (req_sha1 sm) (last_sha1 sm) \<noteq> 0 then False
         else duplicate)"

text \<open>\<open>os_strstr(config->phase1, "allow_canned_success=1")\<close>\<close>

fun is_prefix_of :: "bytes \<Rightarrow> bytes \<Rightarrow> bool" where
  "is_prefix_of [] ys = True"
| "is_prefix_of (x # xs) [] = False"
| "is_prefix_of (x # xs) (y # ys) = (x = y \<and> is_prefix_of xs ys)"

fun has_substring :: "bytes \<Rightarrow> bytes \<Rightarrow> bool" where
  "has_substring [] pat = is_prefix_of pat []"
| "has_substring (c # cs) pat = (is_prefix_of pat (c # cs) \<or> has_substring cs pat)"

definition str_bytes :: "string \<Rightarrow> bytes" where
  "str_bytes s = map (\<lambda>c. of_nat (of_char c)) s"

definition eap_peer_sm_allow_canned :: "'p eap_sm \<Rightarrow> bool" where
  "eap_peer_sm_allow_canned sm =
     (case eap_get_config sm of None \<Rightarrow> False
      | Some cfg \<Rightarrow> (case phase1 cfg of None \<Rightarrow> False
                     | Some p \<Rightarrow> has_substring p (str_bytes ''allow_canned_success=1'')))"

definition eap_peer_sm_step_received :: "'p eap_env \<Rightarrow> 'p eap_sm \<Rightarrow> 'p eap_sm option" where
  "eap_peer_sm_step_received E sm =
     (let duplicate = eap_peer_req_is_duplicate sm;
          id_ok = (reqId sm = lastId sm \<or> eap_success_workaround sm (reqId sm) (lastId sm))
      in
      if rxSuccess sm \<and> decision sm \<noteq> DECISION_FAIL \<and> id_ok then Some (EAP_SUCCESS_Enter False sm)
      else if workaround sm \<and> lastId sm = -1 \<and> rxSuccess sm \<and> \<not> rxFailure sm \<and> \<not> rxReq sm \<and>
              eap_peer_sm_allow_canned sm
      then Some (EAP_SUCCESS_Enter False sm)
      else if workaround sm \<and> lastId sm = -1 \<and> rxFailure sm \<and> \<not> rxReq sm \<and>
              methodState sm \<noteq> METHOD_CONT \<and> eap_peer_sm_allow_canned sm
      then Some (EAP_FAILURE_Enter False sm)
      else if workaround sm \<and> rxSuccess sm \<and> \<not> rxFailure sm \<and> \<not> rxReq sm \<and>
              methodState sm \<noteq> METHOD_CONT \<and> eap_peer_sm_allow_canned sm
      then Some (EAP_SUCCESS_Enter False sm)
      else if methodState sm \<noteq> METHOD_CONT \<and>
              ((rxFailure sm \<and> decision sm \<noteq> DECISION_UNCOND_SUCC) \<or>
               (rxSuccess sm \<and> decision sm = DECISION_FAIL \<and>
                (selectedMethod sm \<noteq> EAP_TYPE_LEAP \<or> methodState sm \<noteq> METHOD_MAY_CONT))) \<and> id_ok
      then Some (EAP_FAILURE_Enter False sm)
      else if rxReq sm \<and> duplicate then EAP_RETRANSMIT_Enter False sm
      else if rxReq sm \<and> \<not> duplicate \<and> reqMethod sm = EAP_TYPE_NOTIFICATION \<and> allowNotifications sm
      then EAP_NOTIFICATION_Enter False sm
      else if rxReq sm \<and> \<not> duplicate \<and> selectedMethod sm = EAP_TYPE_NONE \<and> reqMethod sm = EAP_TYPE_IDENTITY
      then EAP_IDENTITY_Enter E False sm
      else if rxReq sm \<and> \<not> duplicate \<and> selectedMethod sm = EAP_TYPE_NONE \<and>
              reqMethod sm \<noteq> EAP_TYPE_IDENTITY \<and> reqMethod sm \<noteq> EAP_TYPE_NOTIFICATION
      then EAP_GET_METHOD_Enter E False sm
      else if rxReq sm \<and> \<not> duplicate \<and> reqMethod sm = selectedMethod sm \<and> methodState sm \<noteq> METHOD_DONE
      then EAP_METHOD_Enter E False sm
      else if selectedMethod sm = EAP_TYPE_LEAP \<and> (rxSuccess sm \<or> rxResp sm)
      then EAP_METHOD_Enter E False sm
      else if reauthInit sm then EAP_SEND_RESPONSE_Enter False sm
      else Some (EAP_DISCARD_Enter False sm))"

definition eap_peer_sm_step_local :: "'p eap_env \<Rightarrow> 'p eap_sm \<Rightarrow> 'p eap_sm option" where
  "eap_peer_sm_step_local E sm =
     (case EAP_state sm of
        EAP_INITIALIZE \<Rightarrow> Some (EAP_IDLE_Enter False sm)
      | EAP_DISABLED \<Rightarrow>
          if eapol_get_bool sm EAPOL_portEnabled \<and> \<not> force_disabled sm
          then Some (EAP_INITIALIZE_Enter E False sm) else Some sm
      | EAP_IDLE \<Rightarrow> eap_peer_sm_step_idle E sm
      | EAP_RECEIVED \<Rightarrow> eap_peer_sm_step_received E sm
      | EAP_GET_METHOD \<Rightarrow>
          if selectedMethod sm = reqMethod sm then EAP_METHOD_Enter E False sm
          else EAP_SEND_RESPONSE_Enter False sm
      | EAP_METHOD \<Rightarrow>
          if sm_ignore (mv sm) then Some (EAP_DISCARD_Enter False sm)
          else if methodState sm = METHOD_DONE \<and> decision sm = DECISION_FAIL \<and> eapRespData sm = None
          then Some (EAP_FAILURE_Enter False sm)
          else EAP_SEND_RESPONSE_Enter False sm
      | EAP_SEND_RESPONSE \<Rightarrow> Some (EAP_IDLE_Enter False sm)
      | EAP_DISCARD \<Rightarrow> Some (EAP_IDLE_Enter False sm)
      | EAP_IDENTITY \<Rightarrow> EAP_SEND_RESPONSE_Enter False sm
      | EAP_NOTIFICATION \<Rightarrow> EAP_SEND_RESPONSE_Enter False sm
      | EAP_RETRANSMIT \<Rightarrow> EAP_SEND_RESPONSE_Enter False sm
      | EAP_SUCCESS \<Rightarrow> Some sm
      | EAP_FAILURE \<Rightarrow> Some sm)"

definition SM_STEP_EAP :: "'p eap_env \<Rightarrow> 'p eap_sm \<Rightarrow> 'p eap_sm option" where
  "SM_STEP_EAP E sm =
     (if eapol_get_bool sm EAPOL_eapRestart \<and> eapol_get_bool sm EAPOL_portEnabled
      then Some (EAP_INITIALIZE_Enter E True sm)
      else if \<not> eapol_get_bool sm EAPOL_portEnabled \<or> force_disabled sm
      then Some (EAP_DISABLED_Enter True sm)
      else if num_rounds sm > EAP_MAX_AUTH_ROUNDS then
        if num_rounds sm = EAP_MAX_AUTH_ROUNDS + 1
        then Some (EAP_FAILURE_Enter True (sm\<lparr>num_rounds := Suc (num_rounds sm)\<rparr>))
        else Some sm
      else if num_rounds_short sm > EAP_MAX_AUTH_ROUNDS_SHORT then
        if num_rounds_short sm = EAP_MAX_AUTH_ROUNDS_SHORT + 1
        then Some (EAP_FAILURE_Enter True (sm\<lparr>num_rounds_short := Suc (num_rounds_short sm)\<rparr>))
        else Some sm
      else eap_peer_sm_step_local E sm)"

section \<open>What a step leaves alone\<close>

text \<open>\<open>same_vars\<close>: the variables of the lower layer and its trace agree, and the configuration
  up to the count of identity requests, whatever was asked of the environment or traced by EAP.\<close>

definition same_vars :: "eapol_vars \<Rightarrow> eapol_vars \<Rightarrow> bool" where
  "same_vars v c \<longleftrightarrow>
     (\<forall>x. eapol_sm_get_bool c x = eapol_sm_get_bool v x) \<and> idleWhile c = idleWhile v \<and>
     eapReqData c = eapReqData v \<and> lower_trace c = lower_trace v \<and>
     map_option (\<lambda>k. k\<lparr>pending_req_identity := 0\<rparr>) (config c) =
       map_option (\<lambda>k. k\<lparr>pending_req_identity := 0\<rparr>) (config v)"

definition quiet :: "'p eap_sm \<Rightarrow> 'p eap_sm \<Rightarrow> bool" where
  "quiet sm sm' \<longleftrightarrow> sm' = sm\<lparr>eapol_ctx := eapol_ctx sm'\<rparr> \<and> same_vars (eapol_ctx sm) (eapol_ctx sm')"

lemma same_vars_refl [simp]: "same_vars v v"
  by (simp add: same_vars_def)

lemma same_vars_trans: "same_vars a b \<Longrightarrow> same_vars b c \<Longrightarrow> same_vars a c"
  by (auto simp: same_vars_def)

lemma get_bool_emit [simp]: "eapol_sm_get_bool (emit e v) x = eapol_sm_get_bool v x"
  by (cases x) simp_all

lemma same_vars_emit [simp]: "eap_effect e \<Longrightarrow> same_vars v (emit e c) = same_vars v c"
  by (auto simp: same_vars_def)

lemma same_vars_ask [simp]: "same_vars v (snd (ask c)) = same_vars v c"
proof -
  have "eapol_sm_get_bool (snd (ask c)) x = eapol_sm_get_bool c x" for x
    by (cases x) (simp_all add: ask_def)
  moreover have "lower_trace (snd (ask c)) = lower_trace c" by simp
  ultimately show ?thesis by (simp add: same_vars_def del: lower_trace_ask) (simp add: ask_def)
qed

lemma same_vars_config:
  assumes "config c = Some k"
  shows "same_vars v (c\<lparr>config := Some (k\<lparr>pending_req_identity := n\<rparr>)\<rparr>) = same_vars v c"
proof -
  have "eapol_sm_get_bool (c\<lparr>config := x\<rparr>) y = eapol_sm_get_bool c y" for x y
    by (cases y) simp_all
  moreover have "lower_trace (c\<lparr>config := x\<rparr>) = lower_trace c" for x by (simp add: lower_trace_def)
  ultimately show ?thesis using assms by (simp add: same_vars_def)
qed

lemma quiet_refl [simp]: "quiet sm sm"
  by (simp add: quiet_def)

lemma quietE:
  assumes "quiet sm sm'"
  obtains c where "sm' = sm\<lparr>eapol_ctx := c\<rparr>" "same_vars (eapol_ctx sm) c"
  using assms by (auto simp: quiet_def)

lemma quietI: "same_vars (eapol_ctx sm) c \<Longrightarrow> quiet sm (sm\<lparr>eapol_ctx := c\<rparr>)"
  by (simp add: quiet_def)

lemma quiet_trans [trans]: "quiet a b \<Longrightarrow> quiet b c \<Longrightarrow> quiet a c"
  by (erule quietE, erule quietE) (auto simp: quiet_def intro: same_vars_trans)

lemma quiet_ask [simp]: "quiet sm (snd (eap_ask sm))"
  by (simp add: quiet_def eap_ask_def split_beta)

lemma eap_ask_quiet: "eap_ask sm = (ok, sm') \<Longrightarrow> quiet sm sm'"
  using quiet_ask [of sm] by simp

lemma quiet_upd_emit [simp]: "eap_effect e \<Longrightarrow> quiet sm (upd_ctx (emit e) sm)"
  by (auto simp: quiet_def upd_ctx_def)

lemma quiet_notify [simp]: "quiet sm (eap_notify_status a b sm)" "quiet sm (eap_report_error n sm)"
  by (simp_all add: eap_notify_status_def eap_report_error_def)

lemma quiet_request_identity [simp]: "quiet sm (eap_sm_request_identity sm)"
  by (auto simp: eap_sm_request_identity_def quiet_def upd_ctx_def same_vars_config eap_get_config_def
      eapol_sm_get_config_def split: option.splits)

lemma eap_failure_error_quiet [simp]: "quiet sm (eap_failure_error E sm)"
  by (auto simp: eap_failure_error_def Let_def split: option.splits)

lemmas bind_prod_simps = bind_eq_Some_conv split_beta

lemma eap_sm_build_expanded_nak_quiet:
  "eap_sm_build_expanded_nak E sm i = Some (r, sm') \<Longrightarrow> quiet sm sm'"
  by (auto simp: eap_sm_build_expanded_nak_def Let_def bind_prod_simps split: option.splits)

lemma eap_sm_buildNak_quiet: "eap_sm_buildNak E sm i = Some (r, sm') \<Longrightarrow> quiet sm sm'"
  by (auto simp: eap_sm_buildNak_def Let_def bind_prod_simps split: option.splits if_splits
      dest: eap_sm_build_expanded_nak_quiet)

lemma eap_sm_processIdentity_quiet: "eap_sm_processIdentity req sm = Some sm' \<Longrightarrow> quiet sm sm'"
  by (auto simp: eap_sm_processIdentity_def Let_def bind_prod_simps)

lemma eap_sm_buildIdentity_quiet: "eap_sm_buildIdentity E sm i e = Some (r, sm') \<Longrightarrow> quiet sm sm'"
  by (auto simp: eap_sm_buildIdentity_def Let_def bind_prod_simps split: option.splits if_splits)

lemma eap_sm_processNotify_quiet: "eap_sm_processNotify req sm = Some sm' \<Longrightarrow> quiet sm sm'"
proof (erule yieldsD [rotated])
  have *: "quiet sm (upd_ctx (emit (Eap_notification d)) (snd (eap_ask sm)))" for d
    by (rule quiet_trans [OF quiet_ask]) simp
  show "yields (quiet sm) (eap_sm_processNotify req sm)"
    unfolding eap_sm_processNotify_def wlp
    by (rule yieldsI, intro conjI impI allI) (simp_all add: yields_def * )
qed

lemma eap_sm_buildNotify_quiet: "eap_sm_buildNotify sm i = Some (r, sm') \<Longrightarrow> quiet sm sm'"
  by (auto simp: eap_sm_buildNotify_def Let_def bind_prod_simps)

lemmas quiet_rules = eap_ask_quiet eap_sm_buildNak_quiet eap_sm_processIdentity_quiet
  eap_sm_buildIdentity_quiet eap_sm_processNotify_quiet eap_sm_buildNotify_quiet

text \<open>The fields a quiet call leaves.\<close>

lemma quietD:
  assumes "quiet sm sm'"
  shows "EAP_state sm' = EAP_state sm" "eap_changed sm' = eap_changed sm"
    "force_disabled sm' = force_disabled sm" "num_rounds sm' = num_rounds sm"
    "num_rounds_short sm' = num_rounds_short sm" "decision sm' = decision sm"
    "methodState sm' = methodState sm" "selectedMethod sm' = selectedMethod sm"
    "eapRespData sm' = eapRespData sm" "lastRespData sm' = lastRespData sm"
    "reqId sm' = reqId sm" "lastId sm' = lastId sm" "mv sm' = mv sm" "sm_m sm' = sm_m sm"
    "eap_method_priv sm' = eap_method_priv sm" "eapKeyData sm' = eapKeyData sm"
    "eapKeyAvailable sm' = eapKeyAvailable sm" "rxReq sm' = rxReq sm" "reqMethod sm' = reqMethod sm"
    "reqVendor sm' = reqVendor sm" "reqVendorMethod sm' = reqVendorMethod sm"
    "rxSuccess sm' = rxSuccess sm" "rxFailure sm' = rxFailure sm" "workaround sm' = workaround sm"
    "eapol_get_bool sm' x = eapol_get_bool sm x" "eapol_get_int sm' y = eapol_get_int sm y"
    "eapol_get_eapReqData sm' = eapol_get_eapReqData sm"
  using assms
  by (auto elim!: quietE simp: same_vars_def eapol_get_bool_def eapol_get_int_def
      eapol_get_eapReqData_def eapol_sm_get_eapReqData_def) (cases y; simp)

section \<open>Entering a state\<close>

text \<open>The variables the EAP machine only reads, and the part of the trace it does not write.\<close>

definition inputs :: "'p eap_sm \<Rightarrow> bool \<times> bool \<times> bool \<times> wpabuf option \<times> effect list \<times> bool \<times> bool" where
  "inputs sm = (portEnabled (eapol_ctx sm), altAccept (eapol_ctx sm), altReject (eapol_ctx sm),
     eapReqData (eapol_ctx sm), lower_trace (eapol_ctx sm), force_disabled sm, workaround sm)"

lemma quiet_inputs: "quiet sm sm' \<Longrightarrow> inputs sm' = inputs sm"
  by (erule quietE)
    (simp add: inputs_def same_vars_def, metis eapol_sm_get_bool.simps(7,8,9))

lemma quiet_flags:
  assumes "quiet sm sm'"
  shows "eapReq (eapol_ctx sm') = eapReq (eapol_ctx sm)"
    "eapRestart (eapol_ctx sm') = eapRestart (eapol_ctx sm)"
    "eapSuccess (eapol_ctx sm') = eapSuccess (eapol_ctx sm)"
    "eapResp (eapol_ctx sm') = eapResp (eapol_ctx sm)"
    "eapNoResp (eapol_ctx sm') = eapNoResp (eapol_ctx sm)"
  using assms by (auto elim!: quietE simp: same_vars_def) (metis eapol_sm_get_bool.simps)+

lemmas eap_io = eapol_get_bool_def eapol_set_bool_def eapol_get_int_def eapol_set_int_def
  upd_ctx_def SM_ENTRY_EAP_def Let_def

lemma ctx_set_bool [simp]:
  "eapSuccess (eapol_ctx (eapol_set_bool x b sm)) = (if x = EAPOL_eapSuccess then b else eapSuccess (eapol_ctx sm))"
  "eapFail (eapol_ctx (eapol_set_bool x b sm)) = (if x = EAPOL_eapFail then b else eapFail (eapol_ctx sm))"
  "eapReq (eapol_ctx (eapol_set_bool x b sm)) = (if x = EAPOL_eapReq then b else eapReq (eapol_ctx sm))"
  "eapResp (eapol_ctx (eapol_set_bool x b sm)) = (if x = EAPOL_eapResp then b else eapResp (eapol_ctx sm))"
  "eapNoResp (eapol_ctx (eapol_set_bool x b sm)) = (if x = EAPOL_eapNoResp then b else eapNoResp (eapol_ctx sm))"
  "eapRestart (eapol_ctx (eapol_set_bool x b sm)) = (if x = EAPOL_eapRestart then b else eapRestart (eapol_ctx sm))"
  by (cases x; simp add: eapol_set_bool_def upd_ctx_def)+

lemma ctx_set_int [simp]:
  "eapSuccess (eapol_ctx (eapol_set_int y n sm)) = eapSuccess (eapol_ctx sm)"
  "eapFail (eapol_ctx (eapol_set_int y n sm)) = eapFail (eapol_ctx sm)"
  "eapReq (eapol_ctx (eapol_set_int y n sm)) = eapReq (eapol_ctx sm)"
  "eapResp (eapol_ctx (eapol_set_int y n sm)) = eapResp (eapol_ctx sm)"
  "eapNoResp (eapol_ctx (eapol_set_int y n sm)) = eapNoResp (eapol_ctx sm)"
  "eapRestart (eapol_ctx (eapol_set_int y n sm)) = eapRestart (eapol_ctx sm)"
  by (cases y; simp add: eapol_set_int_def upd_ctx_def Let_def)+

lemma eap_set_frame [simp]:
  "EAP_state (eapol_set_bool x b sm) = EAP_state sm" "EAP_state (eapol_set_int y n sm) = EAP_state sm"
  "eapRespData (eapol_set_bool x b sm) = eapRespData sm" "eapRespData (eapol_set_int y n sm) = eapRespData sm"
  "lastRespData (eapol_set_bool x b sm) = lastRespData sm" "lastRespData (eapol_set_int y n sm) = lastRespData sm"
  "eap_method_priv (eapol_set_bool x b sm) = eap_method_priv sm" "eap_method_priv (eapol_set_int y n sm) = eap_method_priv sm"
  "decision (eapol_set_bool x b sm) = decision sm" "decision (eapol_set_int y n sm) = decision sm"
  "mv (eapol_set_bool x b sm) = mv sm" "mv (eapol_set_int y n sm) = mv sm"
  by (simp_all add: eapol_set_bool_def eapol_set_int_def upd_ctx_def)

lemma SM_ENTRY_frame [simp]:
  "eapol_ctx (SM_ENTRY_EAP g st sm) = eapol_ctx sm" "eapRespData (SM_ENTRY_EAP g st sm) = eapRespData sm"
  "lastRespData (SM_ENTRY_EAP g st sm) = lastRespData sm"
  "eap_method_priv (SM_ENTRY_EAP g st sm) = eap_method_priv sm" "decision (SM_ENTRY_EAP g st sm) = decision sm"
  "mv (SM_ENTRY_EAP g st sm) = mv sm" "force_disabled (SM_ENTRY_EAP g st sm) = force_disabled sm"
  "num_rounds (SM_ENTRY_EAP g st sm) = num_rounds sm" "num_rounds_short (SM_ENTRY_EAP g st sm) = num_rounds_short sm"
  by (simp_all add: SM_ENTRY_EAP_def Let_def)

text \<open>\<open>entered\<close>: the state is \<open>st\<close>; the inputs, the pending request and the last
  response are as before.\<close>

definition kept :: "'p eap_sm \<Rightarrow> (bool \<times> bool \<times> bool \<times> wpabuf option \<times> effect list \<times> bool \<times> bool) \<times> bool \<times> bool \<times> bool \<times> bool \<times> wpabuf option" where
  "kept sm = (inputs sm, eapReq (eapol_ctx sm), eapRestart (eapol_ctx sm), eapSuccess (eapol_ctx sm), eap_changed sm,
     lastRespData sm)"

definition entered :: "EAP_States \<Rightarrow> 'p eap_sm \<Rightarrow> 'p eap_sm \<Rightarrow> bool" where
  "entered st sm sm' \<longleftrightarrow> EAP_state sm' = st \<and> kept sm' = kept (sm\<lparr>eap_changed := True\<rparr>)"

lemma quiet_kept: "quiet sm sm' \<Longrightarrow> kept sm' = kept sm"
  by (simp add: kept_def quiet_flags quietD quiet_inputs)

lemma kept_upd [simp]:
  "kept (sm\<lparr>eapRespData := r\<rparr>) = kept sm" "kept (sm\<lparr>selectedMethod := t\<rparr>) = kept sm"
  "kept (sm\<lparr>methodState := ms\<rparr>) = kept sm" "kept (sm\<lparr>sm_m := i\<rparr>) = kept sm"
  "kept (sm\<lparr>mv := w\<rparr>) = kept sm" "kept (sm\<lparr>eap_method_priv := p\<rparr>) = kept sm"
  "kept (sm\<lparr>decision := d\<rparr>) = kept sm" "kept (sm\<lparr>allowNotifications := al\<rparr>) = kept sm"
  "kept (sm\<lparr>num_rounds := n\<rparr>) = kept sm" "kept (sm\<lparr>num_rounds_short := n\<rparr>) = kept sm"
  "kept (sm\<lparr>eapKeyData := k\<rparr>) = kept sm" "kept (sm\<lparr>eapSessionId := k\<rparr>) = kept sm"
  "kept (sm\<lparr>EAP_state := st\<rparr>) = kept sm"
  "kept (sm\<lparr>rxReq := b1\<rparr>) = kept sm" "kept (sm\<lparr>rxResp := b2\<rparr>) = kept sm"
  "kept (sm\<lparr>rxSuccess := b3\<rparr>) = kept sm" "kept (sm\<lparr>rxFailure := b4\<rparr>) = kept sm"
  "kept (sm\<lparr>reqId := i1\<rparr>) = kept sm" "kept (sm\<lparr>reqMethod := t\<rparr>) = kept sm"
  "kept (sm\<lparr>reqVendor := t\<rparr>) = kept sm" "kept (sm\<lparr>reqVendorMethod := t\<rparr>) = kept sm"
  "kept (sm\<lparr>req_sha1 := h\<rparr>) = kept sm" "kept (sm\<lparr>last_sha1 := h\<rparr>) = kept sm"
  "kept (sm\<lparr>lastId := i1\<rparr>) = kept sm"
  by (simp_all add: kept_def inputs_def)

lemma SM_ENTRY_kept [simp]:
  "kept (SM_ENTRY_EAP False st sm) = kept (sm\<lparr>eap_changed := True\<rparr>)" "EAP_state (SM_ENTRY_EAP g st sm) = st"
  by (simp_all add: SM_ENTRY_EAP_def Let_def)

text \<open>\<open>answered\<close>: as \<open>entered\<close>, with the request consumed.\<close>

definition answered :: "EAP_States \<Rightarrow> 'p eap_sm \<Rightarrow> 'p eap_sm \<Rightarrow> bool" where
  "answered st sm sm' \<longleftrightarrow>
     EAP_state sm' = st \<and> inputs sm' = inputs sm \<and> \<not> eapReq (eapol_ctx sm') \<and>
     eapRestart (eapol_ctx sm') = eapRestart (eapol_ctx sm) \<and>
     (EAP_state sm \<noteq> st \<longrightarrow> eap_changed sm')"

lemma deinit_prev_frame [simp]:
  "eapol_ctx (eap_deinit_prev_method E sm) = eapol_ctx sm"
  "EAP_state (eap_deinit_prev_method E sm) = EAP_state sm"
  "force_disabled (eap_deinit_prev_method E sm) = force_disabled sm"
  "workaround (eap_deinit_prev_method E sm) = workaround sm"
  "lastRespData (eap_deinit_prev_method E sm) = lastRespData sm"
  "eap_changed (eap_deinit_prev_method E sm) = eap_changed sm"
  "kept (eap_deinit_prev_method E sm) = kept sm"
  by (simp_all add: eap_deinit_prev_method_def split: option.splits)

lemma INITIALIZE_entered:
  "EAP_state (EAP_INITIALIZE_Enter E g sm) = EAP_INITIALIZE"
  "inputs (EAP_INITIALIZE_Enter E g sm) = inputs sm"
  "\<not> eapRestart (eapol_ctx (EAP_INITIALIZE_Enter E g sm))"
  "eapReq (eapol_ctx (EAP_INITIALIZE_Enter E g sm)) = eapReq (eapol_ctx sm)"
  by (simp_all add: EAP_INITIALIZE_Enter_def eap_io inputs_def eap_sm_free_key_def split_beta
      split: option.splits)

lemma INITIALIZE_changed: "eap_changed (EAP_INITIALIZE_Enter E False sm)"
  by (simp add: EAP_INITIALIZE_Enter_def eap_io eap_sm_free_key_def split_beta split: option.splits)

lemma DISABLED_entered:
  "EAP_state (EAP_DISABLED_Enter g sm) = EAP_DISABLED"
  "inputs (EAP_DISABLED_Enter g sm) = inputs sm"
  "eapRestart (eapol_ctx (EAP_DISABLED_Enter g sm)) = eapRestart (eapol_ctx sm)"
  by (simp_all add: EAP_DISABLED_Enter_def eap_io inputs_def)

lemma IDLE_entered: "entered EAP_IDLE sm (EAP_IDLE_Enter False sm)"
  by (simp add: EAP_IDLE_Enter_def entered_def)

lemma DISCARD_answered: "answered EAP_DISCARD sm (EAP_DISCARD_Enter g sm)"
  by (simp add: EAP_DISCARD_Enter_def eap_io answered_def inputs_def)

lemma SUCCESS_answered: "answered EAP_SUCCESS sm (EAP_SUCCESS_Enter g sm)"
  by (simp add: EAP_SUCCESS_Enter_def eap_io answered_def inputs_def)

lemma FAILURE_answered: "answered EAP_FAILURE sm (EAP_FAILURE_Enter g sm)"
  by (simp add: EAP_FAILURE_Enter_def eap_io answered_def inputs_def)

lemma parse_code_entered:
  "eap_sm_parse_code E d code plen sm = Some sm' \<Longrightarrow> EAP_state sm' = EAP_state sm \<and> kept sm' = kept sm"
  by (auto simp: eap_sm_parse_code_def bind_eq_Some_conv Let_def eap_peer_initiate_def eap_peer_finish_def
      quietD [OF quiet_trans [OF quiet_notify(1) eap_failure_error_quiet]]
      quiet_kept [OF quiet_trans [OF quiet_notify(1) eap_failure_error_quiet]]
      quietD [OF quiet_notify(1)] quiet_kept [OF quiet_notify(1)] split: if_splits)
    (auto simp: kept_def inputs_def eap_io)

lemma parseEapReq_entered:
  "eap_sm_parseEapReq E req sm = Some sm' \<Longrightarrow> EAP_state sm' = EAP_state sm \<and> kept sm' = kept sm"
  by (auto simp: eap_sm_parseEapReq_def bind_eq_Some_conv Let_def split: if_splits option.splits
      dest!: parse_code_entered)

lemma RECEIVED_entered: "EAP_RECEIVED_Enter E False sm = Some sm' \<Longrightarrow> entered EAP_RECEIVED sm sm'"
proof (erule yieldsD [rotated])
  show "yields (entered EAP_RECEIVED sm) (EAP_RECEIVED_Enter E False sm)"
    unfolding EAP_RECEIVED_Enter_def wlp
    by (rule yieldsI) (auto simp: wlp entered_def dest!: parseEapReq_entered)
qed

lemma nak_entered: "get_method_nak E sm = Some sm' \<Longrightarrow> EAP_state sm' = EAP_state sm \<and> kept sm' = kept sm"
  by (auto simp: get_method_nak_def bind_eq_Some_conv dest!: eap_sm_buildNak_quiet)
    (simp_all add: quietD quiet_kept)

lemma yields_nak:
  "(\<And>s. EAP_state s = EAP_state sm \<Longrightarrow> kept s = kept sm \<Longrightarrow> P s) \<Longrightarrow> yields P (get_method_nak E sm)"
  by (rule yieldsI) (auto dest: nak_entered)

lemma GET_METHOD_entered: "EAP_GET_METHOD_Enter E False sm = Some sm' \<Longrightarrow> entered EAP_GET_METHOD sm sm'"
proof (erule yieldsD [rotated])
  show "yields (entered EAP_GET_METHOD sm) (EAP_GET_METHOD_Enter E False sm)"
    unfolding EAP_GET_METHOD_Enter_def wlp
    by (intro conjI impI allI yields_nak; simp add: entered_def
        quiet_kept [OF quiet_notify(1)] quietD [OF quiet_notify(1)] split: if_split)
qed

lemma method_keys_frame [simp]:
  "kept (method_keys meth sm) = kept sm" "EAP_state (method_keys meth sm) = EAP_state sm"
  "decision (method_keys meth sm) = decision sm" "eap_changed (method_keys meth sm) = eap_changed sm"
  "eapRespData (method_keys meth sm) = eapRespData sm" "methodState (method_keys meth sm) = methodState sm"
  by (simp_all add: method_keys_def eap_sm_free_key_def Let_def split: option.splits)

lemma METHOD_entered: "EAP_METHOD_Enter E False sm = Some sm' \<Longrightarrow> entered EAP_METHOD sm sm'"
proof (erule yieldsD [rotated])
  show "yields (entered EAP_METHOD sm) (EAP_METHOD_Enter E False sm)"
    unfolding EAP_METHOD_Enter_def wlp
    by (intro conjI impI allI yieldsI; simp add: wlp entered_def)
qed

lemma IDENTITY_entered: "EAP_IDENTITY_Enter E False sm = Some sm' \<Longrightarrow> entered EAP_IDENTITY sm sm'"
  by (auto simp: EAP_IDENTITY_Enter_def entered_def Let_def bind_prod_simps split: if_splits
      dest!: eap_sm_processIdentity_quiet eap_sm_buildIdentity_quiet) (simp_all add: quietD quiet_kept)

lemma NOTIFICATION_entered: "EAP_NOTIFICATION_Enter False sm = Some sm' \<Longrightarrow> entered EAP_NOTIFICATION sm sm'"
  by (auto simp: EAP_NOTIFICATION_Enter_def entered_def Let_def bind_prod_simps split: if_splits
      dest!: eap_sm_processNotify_quiet eap_sm_buildNotify_quiet) (simp_all add: quietD quiet_kept)

lemma RETRANSMIT_entered: "EAP_RETRANSMIT_Enter False sm = Some sm' \<Longrightarrow> entered EAP_RETRANSMIT sm sm'"
  by (auto simp: EAP_RETRANSMIT_Enter_def entered_def Let_def bind_prod_simps split: if_splits option.splits)
    (simp_all add: quietD [OF quiet_ask] quiet_kept [OF quiet_ask])

lemma answered_finish [simp]:
  "answered EAP_SEND_RESPONSE sm ((eapol_set_int EAPOL_idleWhile n (eapol_set_bool EAPOL_eapReq False s))\<lparr>reauthInit := b\<rparr>)
     \<longleftrightarrow> EAP_state s = EAP_SEND_RESPONSE \<and> inputs s = inputs sm \<and>
         eapRestart (eapol_ctx s) = eapRestart (eapol_ctx sm) \<and>
         (EAP_state sm \<noteq> EAP_SEND_RESPONSE \<longrightarrow> eap_changed s)"
  by (simp add: answered_def eap_io inputs_def)

lemma save_response_frame:
  "save_response s = Some s' \<Longrightarrow>
     EAP_state s' = EAP_state s \<and> inputs s' = inputs s \<and> eapRestart (eapol_ctx s') = eapRestart (eapol_ctx s) \<and>
     eap_changed s' = eap_changed s"
  by (cases "eapRespData s")
    (simp add: save_response_def inputs_def, clarsimp,
     clarsimp simp: save_response_def bind_prod_simps Let_def eap_ask_def ask_def inputs_def eap_io)

lemma SEND_RESPONSE_answered:
  "EAP_SEND_RESPONSE_Enter g sm = Some sm' \<Longrightarrow> answered EAP_SEND_RESPONSE sm sm'"
proof (erule yieldsD [rotated])
  have *: "inputs (SM_ENTRY_EAP g EAP_SEND_RESPONSE sm) = inputs sm"
    "eapRestart (eapol_ctx (SM_ENTRY_EAP g EAP_SEND_RESPONSE sm)) = eapRestart (eapol_ctx sm)"
    "EAP_state sm \<noteq> EAP_SEND_RESPONSE \<Longrightarrow> eap_changed (SM_ENTRY_EAP g EAP_SEND_RESPONSE sm)"
    by (simp_all add: SM_ENTRY_EAP_def inputs_def Let_def)
  show "yields (answered EAP_SEND_RESPONSE sm) (EAP_SEND_RESPONSE_Enter g sm)"
    unfolding EAP_SEND_RESPONSE_Enter_def wlp
    by (rule yieldsI) (auto simp: wlp * dest!: save_response_frame)
qed

section \<open>The step loop\<close>

text \<open>How far the machine is from a state in which it waits.\<close>

fun state_rank :: "bool \<Rightarrow> EAP_States \<Rightarrow> nat" where
  "state_rank req EAP_DISABLED = 20"
| "state_rank req EAP_INITIALIZE = 15"
| "state_rank req EAP_SEND_RESPONSE = (if req then 11 else 5)"
| "state_rank req EAP_DISCARD = (if req then 11 else 5)"
| "state_rank req EAP_IDLE = (if req then 10 else 4)"
| "state_rank req EAP_RECEIVED = 9"
| "state_rank req EAP_GET_METHOD = 8"
| "state_rank req EAP_METHOD = 7"
| "state_rank req EAP_IDENTITY = 6"
| "state_rank req EAP_NOTIFICATION = 6"
| "state_rank req EAP_RETRANSMIT = 6"
| "state_rank req EAP_SUCCESS = 1"
| "state_rank req EAP_FAILURE = 0"

definition eap_rank :: "'p eap_sm \<Rightarrow> nat" where
  "eap_rank sm =
     (let c = eapol_ctx sm in
      (if eapRestart c \<and> portEnabled c then 100 else 0) +
      (if \<not> portEnabled c \<or> force_disabled sm then if EAP_state sm = EAP_DISABLED then 0 else 1
       else state_rank (eapReq c) (EAP_state sm)))"

lemma entered_rank:
  assumes "entered st sm sm'" "\<not> (eapRestart (eapol_ctx sm) \<and> portEnabled (eapol_ctx sm))"
    "portEnabled (eapol_ctx sm)" "\<not> force_disabled sm"
  shows "eap_rank sm' = state_rank (eapReq (eapol_ctx sm)) st"
  using assms by (auto simp: entered_def kept_def inputs_def eap_rank_def Let_def)

lemma answered_rank:
  assumes "answered st sm sm'" "\<not> (eapRestart (eapol_ctx sm) \<and> portEnabled (eapol_ctx sm))"
    "portEnabled (eapol_ctx sm)" "\<not> force_disabled sm"
  shows "eap_rank sm' = state_rank False st"
  using assms by (auto simp: answered_def inputs_def eap_rank_def Let_def)

lemmas entered_rules = RECEIVED_entered GET_METHOD_entered METHOD_entered IDENTITY_entered
  NOTIFICATION_entered RETRANSMIT_entered
lemmas answered_rules = SEND_RESPONSE_answered

text \<open>One iteration: the machine moved to one of the successors of its state, or stayed.\<close>

inductive eap_succ :: "'p eap_env \<Rightarrow> 'p eap_sm \<Rightarrow> 'p eap_sm \<Rightarrow> bool" where
  stay: "eap_succ E sm sm"
| enter: "entered st sm sm' \<Longrightarrow>
    state_rank (eapReq (eapol_ctx sm)) st < state_rank (eapReq (eapol_ctx sm)) (EAP_state sm) \<Longrightarrow> eap_succ E sm sm'"
| answer: "answered st sm sm' \<Longrightarrow> EAP_state sm \<noteq> st \<Longrightarrow>
    state_rank False st < state_rank (eapReq (eapol_ctx sm)) (EAP_state sm) \<Longrightarrow> eap_succ E sm sm'"
| init: "EAP_state sm = EAP_DISABLED \<Longrightarrow> eap_succ E sm (EAP_INITIALIZE_Enter E False sm)"

lemma step_idle_succ:
  assumes "EAP_state sm = EAP_IDLE"
  shows "yields (eap_succ E sm) (eap_peer_sm_step_idle E sm)"
  unfolding eap_peer_sm_step_idle_def wlp
  using assms
  by (auto intro!: yieldsI eap_succ.stay eap_succ.enter [OF RECEIVED_entered]
      eap_succ.answer [OF SUCCESS_answered] eap_succ.answer [OF FAILURE_answered] simp: eap_io)

lemma step_received_succ:
  assumes "EAP_state sm = EAP_RECEIVED"
  shows "yields (eap_succ E sm) (eap_peer_sm_step_received E sm)"
proof -
  have ent: "yields (eap_succ E sm) x" if "\<And>s. x = Some s \<Longrightarrow> entered st sm s"
    "state_rank (eapReq (eapol_ctx sm)) st < 9" for x st
    using that assms by (intro yieldsI eap_succ.enter) auto
  have ans: "yields (eap_succ E sm) x" if "\<And>s. x = Some s \<Longrightarrow> answered st sm s"
    "state_rank False st < 9" "st \<noteq> EAP_RECEIVED" for x st
    using that assms by (intro yieldsI eap_succ.answer) auto
  have fin: "eap_succ E sm (EAP_SUCCESS_Enter False sm)" "eap_succ E sm (EAP_FAILURE_Enter False sm)"
    "eap_succ E sm (EAP_DISCARD_Enter False sm)"
    using assms by (auto intro: eap_succ.answer [OF SUCCESS_answered] eap_succ.answer [OF FAILURE_answered]
        eap_succ.answer [OF DISCARD_answered])
  note rules = fin ent [OF RETRANSMIT_entered] ent [OF NOTIFICATION_entered] ent [OF IDENTITY_entered]
    ent [OF GET_METHOD_entered] ent [OF METHOD_entered] ans [OF SEND_RESPONSE_answered]
  show ?thesis
    unfolding eap_peer_sm_step_received_def Let_def yields_if
    by (simp add: rules del: eap_type_defs)
qed

lemma step_local_succ: "yields (eap_succ E sm) (eap_peer_sm_step_local E sm)"
proof (cases "EAP_state sm")
  case EAP_IDLE
  then show ?thesis by (simp add: eap_peer_sm_step_local_def step_idle_succ)
next
  case EAP_RECEIVED
  then show ?thesis by (simp add: eap_peer_sm_step_local_def step_received_succ)
next
  case EAP_METHOD
  then show ?thesis
    by (auto simp: eap_peer_sm_step_local_def wlp intro!: yieldsI eap_succ.answer [OF DISCARD_answered]
        eap_succ.answer [OF FAILURE_answered] eap_succ.answer [OF SEND_RESPONSE_answered])
next
  case EAP_GET_METHOD
  then show ?thesis
    by (auto simp: eap_peer_sm_step_local_def wlp intro!: yieldsI
        dest: eap_succ.enter [OF METHOD_entered] eap_succ.answer [OF SEND_RESPONSE_answered])
qed (auto simp: eap_peer_sm_step_local_def wlp intro!: yieldsI eap_succ.stay eap_succ.init
    eap_succ.enter [OF IDLE_entered] eap_succ.answer [OF SEND_RESPONSE_answered])

lemma succ_changed:
  assumes "eap_succ E sm sm'" "\<not> eap_changed sm'"
  shows "sm' = sm"
  using assms
  by (cases rule: eap_succ.cases) (auto simp: entered_def answered_def kept_def INITIALIZE_changed)

lemma succ_rank:
  assumes "eap_succ E sm sm'" "sm' \<noteq> sm" "\<not> (eapRestart (eapol_ctx sm) \<and> portEnabled (eapol_ctx sm))"
    "portEnabled (eapol_ctx sm)" "\<not> force_disabled sm"
  shows "eap_rank sm' < eap_rank sm"
  using assms
proof (cases rule: eap_succ.cases)
  case (init)
  have "inputs sm' = inputs sm" using init by (simp add: INITIALIZE_entered)
  then show ?thesis
    using assms(3-5) init INITIALIZE_entered [of E False sm]
    by (auto simp: eap_rank_def Let_def inputs_def)
qed (auto simp: entered_rank answered_rank eap_rank_def [of sm] Let_def)

lemma global_changed:
  assumes "\<not> eap_changed sm"
  shows "eap_changed (EAP_FAILURE_Enter True sm) \<Longrightarrow> EAP_state sm \<noteq> EAP_FAILURE"
    and "eap_changed (EAP_DISABLED_Enter True sm) \<Longrightarrow> EAP_state sm \<noteq> EAP_DISABLED"
  using assms by (auto simp: EAP_FAILURE_Enter_def EAP_DISABLED_Enter_def eap_io)

lemma state_rank_pos: "st \<noteq> EAP_FAILURE \<Longrightarrow> 0 < state_rank r st"
  by (cases st) simp_all

lemma failure_rank:
  assumes "\<not> eap_changed sm" "eap_changed (EAP_FAILURE_Enter True sm)"
    "\<not> (eapRestart (eapol_ctx sm) \<and> portEnabled (eapol_ctx sm))" "portEnabled (eapol_ctx sm)" "\<not> force_disabled sm"
  shows "eap_rank (EAP_FAILURE_Enter True sm) < eap_rank sm"
  using assms global_changed(1) [OF assms(1,2)] answered_rank [OF FAILURE_answered assms(3-5), of True]
  by (simp add: eap_rank_def [of sm] Let_def state_rank_pos)

lemma SM_STEP_rank:
  assumes "SM_STEP_EAP E sm = Some sm'" "\<not> eap_changed sm" "eap_changed sm'"
  shows "eap_rank sm' < eap_rank sm"
proof -
  let ?c = "eapol_ctx sm"
  consider (restart) "eapRestart ?c" "portEnabled ?c" | (off) "\<not> (eapRestart ?c \<and> portEnabled ?c)" "\<not> portEnabled ?c \<or> force_disabled sm"
    | (on) "\<not> (eapRestart ?c \<and> portEnabled ?c)" "portEnabled ?c" "\<not> force_disabled sm" by blast
  then show ?thesis
  proof cases
    case restart
    then have "sm' = EAP_INITIALIZE_Enter E True sm" using assms(1) by (simp add: SM_STEP_EAP_def eap_io)
    then show ?thesis using restart INITIALIZE_entered [of E True sm]
      by (simp add: eap_rank_def Let_def)
  next
    case off
    then have s': "sm' = EAP_DISABLED_Enter True sm"
      using assms(1) by (auto simp: SM_STEP_EAP_def eapol_get_bool_def)
    then have "EAP_state sm \<noteq> EAP_DISABLED" using global_changed(2) [OF assms(2)] assms(3) by simp
    then show ?thesis using off s' DISABLED_entered [of True sm]
      by (auto simp: eap_rank_def Let_def inputs_def)
  next
    case on
    note fail = failure_rank [of "sm\<lparr>num_rounds := n\<rparr>" for n] failure_rank [of "sm\<lparr>num_rounds_short := n\<rparr>" for n]
    have r: "eap_rank (sm\<lparr>num_rounds := n\<rparr>) = eap_rank sm" "eap_rank (sm\<lparr>num_rounds_short := n\<rparr>) = eap_rank sm" for n
      by (simp_all add: eap_rank_def Let_def)
    show ?thesis
    proof (cases "num_rounds sm > EAP_MAX_AUTH_ROUNDS \<or> num_rounds_short sm > EAP_MAX_AUTH_ROUNDS_SHORT")
      case True
      then show ?thesis using assms on fail r
        by (auto simp: SM_STEP_EAP_def eapol_get_bool_def split: if_splits)
    next
      case False
      then have "eap_peer_sm_step_local E sm = Some sm'"
        using assms(1) on by (auto simp: SM_STEP_EAP_def eapol_get_bool_def)
      then have "eap_succ E sm sm'" by (rule yieldsD [OF step_local_succ])
      then show ?thesis using on assms(2,3) by (intro succ_rank) auto
    qed
  qed
qed

lemma eap_rank_changed [simp]: "eap_rank (sm\<lparr>eap_changed := b\<rparr>) = eap_rank sm"
  by (simp add: eap_rank_def Let_def)

function eap_peer_sm_loop :: "'p eap_env \<Rightarrow> 'p eap_sm \<Rightarrow> bool \<Rightarrow> (bool \<times> 'p eap_sm) option" where
  "eap_peer_sm_loop E sm res =
     (case SM_STEP_EAP E (sm\<lparr>eap_changed := False\<rparr>) of
        None \<Rightarrow> None
      | Some sm' \<Rightarrow> if eap_changed sm' then eap_peer_sm_loop E sm' True else Some (res, sm'))"
  by pat_completeness auto

termination
proof (relation "measure (\<lambda>(E, sm, res). eap_rank sm)")
  fix E :: "'p eap_env" and sm :: "'p eap_sm" and sm' and res :: bool
  assume "SM_STEP_EAP E (sm\<lparr>eap_changed := False\<rparr>) = Some sm'" "eap_changed sm'"
  from SM_STEP_rank [OF this(1) _ this(2)] show "((E, sm', True), E, sm, res) \<in> measure (\<lambda>(E, sm, res). eap_rank sm)"
    by simp
qed simp

definition eap_peer_sm_step :: "'p eap_env \<Rightarrow> 'p eap_sm \<Rightarrow> (bool \<times> 'p eap_sm) option" where
  "eap_peer_sm_step E sm = eap_peer_sm_loop E sm False"

declare eap_peer_sm_loop.simps [simp del]

section \<open>The interface of the machine\<close>

text \<open>The zero-allocated structure. The answers asked for are those of the allocation and
  of the two calls of \<open>tls_init()\<close>; the machine runs without the second TLS context.\<close>

definition eap_sm_zero :: "eapol_vars \<Rightarrow> 'p eap_sm" where
  "eap_sm_zero v = \<lparr>EAP_state = EAP_INITIALIZE, selectedMethod = 0, methodState = METHOD_NONE, lastId = 0,
     lastRespData = None, decision = DECISION_FAIL, rxReq = False, rxSuccess = False, rxFailure = False,
     reqId = 0, reqMethod = 0, reqVendor = 0, reqVendorMethod = 0, allowNotifications = False,
     eapRespData = None, eapKeyAvailable = False, eapKeyData = None, eapSessionId = None, sm_m = None,
     eap_changed = False, eap_method_priv = None, fast_reauth = False, reauthInit = False, erp_seq = 0,
     rxResp = False, req_sha1 = replicate 20 0, last_sha1 = replicate 20 0, workaround = False,
     num_rounds = 0, num_rounds_short = 0, force_disabled = False, prev_failure = False, last_config = None,
     mv = \<lparr>sm_ignore = False, leap_done = False, peap_done = False, ClientTimeout = 0,
           expected_failure = False, ext_cert_check = False, waiting_ext_cert_check = False,
           use_machine_cred = False\<rparr>,
     eapol_ctx = v\<rparr>"

definition eap_peer_sm_init :: "eapol_vars \<Rightarrow> 'p eap_sm option" where
  "eap_peer_sm_init v =
     (let (mem, v) = ask v in
      if \<not> mem then None
      else
        let (ssl_ctx, v) = ask v in
        if \<not> ssl_ctx then None
        else
          let (ssl_ctx2, v) = ask v; sm = eap_sm_zero v
          in Some (sm\<lparr>mv := (mv sm)\<lparr>ClientTimeout := EAP_CLIENT_TIMEOUT_DEFAULT\<rparr>\<rparr>))"

definition eap_sm_abort :: "'p eap_sm \<Rightarrow> 'p eap_sm" where
  "eap_sm_abort sm =
     (let sm = sm\<lparr>lastRespData := None\<rparr>;
          sm = sm\<lparr>eapRespData := None\<rparr>;
          sm = eap_sm_free_key sm;
          sm = sm\<lparr>eapSessionId := None\<rparr>
      in eapol_set_bool EAPOL_eapSuccess False sm)"

definition eap_set_fast_reauth :: "bool \<Rightarrow> 'p eap_sm \<Rightarrow> 'p eap_sm" where
  "eap_set_fast_reauth enabled sm = sm\<lparr>fast_reauth := enabled\<rparr>"

definition eap_set_workaround :: "bool \<Rightarrow> 'p eap_sm \<Rightarrow> 'p eap_sm" where
  "eap_set_workaround w sm = sm\<lparr>workaround := w\<rparr>"

definition eap_set_force_disabled :: "bool \<Rightarrow> 'p eap_sm \<Rightarrow> 'p eap_sm" where
  "eap_set_force_disabled disabled sm = sm\<lparr>force_disabled := disabled\<rparr>"

definition eap_key_available :: "'p eap_sm \<Rightarrow> bool" where
  "eap_key_available sm = eapKeyAvailable sm"

definition eap_notify_success :: "'p eap_sm \<Rightarrow> 'p eap_sm" where
  "eap_notify_success sm = sm\<lparr>decision := DECISION_COND_SUCC, EAP_state := EAP_SUCCESS\<rparr>"

definition eap_notify_lower_layer_success :: "'p eap_sm \<Rightarrow> 'p eap_sm" where
  "eap_notify_lower_layer_success sm =
     (if eapol_get_bool sm EAPOL_eapSuccess \<or> decision sm = DECISION_FAIL \<or>
         (methodState sm \<noteq> METHOD_MAY_CONT \<and> methodState sm \<noteq> METHOD_DONE)
      then sm
      else
        let sm = (if eapKeyData sm \<noteq> None then sm\<lparr>eapKeyAvailable := True\<rparr> else sm)
        in eapol_set_bool EAPOL_eapSuccess True sm)"

definition eap_get_eapSessionId :: "'p eap_sm \<Rightarrow> bytes option" where
  "eap_get_eapSessionId sm = eapSessionId sm"

definition eap_get_eapKeyData :: "'p eap_sm \<Rightarrow> bytes option" where
  "eap_get_eapKeyData sm = eapKeyData sm"

definition eap_get_eapRespData :: "'p eap_sm \<Rightarrow> wpabuf option \<times> 'p eap_sm" where
  "eap_get_eapRespData sm = (eapRespData sm, sm\<lparr>eapRespData := None\<rparr>)"

definition eap_invalidate_cached_session :: "'p eap_env \<Rightarrow> 'p eap_sm \<Rightarrow> 'p eap_sm" where
  "eap_invalidate_cached_session E sm = eap_deinit_prev_method E sm"

definition WSC_ID_ENROLLEE :: bytes where
  "WSC_ID_ENROLLEE = str_bytes ''WFA-SimpleConfig-Enrollee-1-0''"

text \<open>The searches of the phase 1 parameters look for the substring anywhere.\<close>

definition eap_is_wps_pbc_enrollee :: "eap_peer_config \<Rightarrow> bool" where
  "eap_is_wps_pbc_enrollee cfg =
     (identity cfg = Some WSC_ID_ENROLLEE \<and>
      (case phase1 cfg of None \<Rightarrow> False | Some p \<Rightarrow> has_substring p (str_bytes ''pbc=1'')))"

definition eap_is_wps_pin_enrollee :: "eap_peer_config \<Rightarrow> bool" where
  "eap_is_wps_pin_enrollee cfg =
     (identity cfg = Some WSC_ID_ENROLLEE \<and>
      (case phase1 cfg of None \<Rightarrow> False | Some p \<Rightarrow> has_substring p (str_bytes ''pin='')))"

definition eap_peer_was_failure_expected :: "'p eap_sm \<Rightarrow> bool" where
  "eap_peer_was_failure_expected sm = expected_failure (mv sm)"

end
