(* ===== verification/Rc4.thy ===== *)
theory Rc4
  imports Prelude
begin

text \<open>
  The RC4 stream cipher of \<open>src/crypto/rc4.c\<close>, with which the EAPOL supplicant decrypts
  dynamic WEP keys. The array \<open>S\<close> is a list of 256 octets; \<open>i\<close> and \<open>j\<close> are the masked
  32-bit variables of the code. Reading the key of length zero is a read out of bounds.
\<close>

section \<open>The cipher\<close>

definition S_SWAP :: "nat \<Rightarrow> nat \<Rightarrow> bytes \<Rightarrow> bytes" where
  "S_SWAP a b S = (let t = S ! a; S' = S[a := S ! b] in S'[b := t])"

text \<open>The key schedule; the first argument is the number of iterations left.\<close>

fun rc4_setup :: "nat \<Rightarrow> bytes \<Rightarrow> u32 \<Rightarrow> nat \<Rightarrow> bytes \<Rightarrow> bytes option" where
  "rc4_setup 0 key j kpos S = Some S"
| "rc4_setup (Suc n) key j kpos S =
     (let i = 255 - n in do {
        k \<leftarrow> rd8 key kpos;
        let j = (j + ucast (S ! i) + ucast k) AND 255;
        let kpos = (if kpos + 1 \<ge> length key then 0 else kpos + 1);
        rc4_setup n key j kpos (S_SWAP i (unat j) S) })"

definition rc4_next :: "u32 \<times> u32 \<times> bytes \<Rightarrow> u32 \<times> u32 \<times> bytes" where
  "rc4_next st =
     (let (i, j, S) = st;
          i = (i + 1) AND 255;
          j = (j + ucast (S ! unat i)) AND 255
      in (i, j, S_SWAP (unat i) (unat j) S))"

definition rc4_out :: "u32 \<times> u32 \<times> bytes \<Rightarrow> u8" where
  "rc4_out st =
     (let (i, j, S) = st
      in S ! unat ((ucast (S ! unat i) + ucast (S ! unat j) :: u32) AND 255))"

fun rc4_apply :: "u32 \<times> u32 \<times> bytes \<Rightarrow> bytes \<Rightarrow> bytes" where
  "rc4_apply st [] = []"
| "rc4_apply st (x # xs) = (let st = rc4_next st in (x XOR rc4_out st) # rc4_apply st xs)"

definition rc4_skip :: "bytes \<Rightarrow> nat \<Rightarrow> bytes \<Rightarrow> bytes option" where
  "rc4_skip key skip data = do {
     S \<leftarrow> rc4_setup 256 key 0 0 (map of_nat [0..<256]);
     Some (rc4_apply ((rc4_next ^^ skip) (0, 0, S)) data) }"

section \<open>The state stays a permutation\<close>

text \<open>Every index the cipher uses is below 256, the length of \<open>S\<close>, and \<open>S\<close> keeps the same
  octets: the accesses never leave the array.\<close>

lemma unat_and_255: "unat ((w :: u32) AND 255) < 256"
  using word_and_le1 [of w 255] by (simp add: word_le_nat_alt)

lemma S_SWAP_length [simp]: "length (S_SWAP a b S) = length S"
  by (simp add: S_SWAP_def Let_def)

lemma S_SWAP_set: "a < length S \<Longrightarrow> b < length S \<Longrightarrow> set (S_SWAP a b S) = set S"
  using set_swap [of a S b] by (simp add: S_SWAP_def Let_def)

lemma S_SWAP_distinct: "a < length S \<Longrightarrow> b < length S \<Longrightarrow> distinct (S_SWAP a b S) = distinct S"
  using distinct_swap [of a S b] by (simp add: S_SWAP_def Let_def)

definition rc4_ok :: "u32 \<times> u32 \<times> bytes \<Rightarrow> bool" where
  "rc4_ok st = (case st of (i, j, S) \<Rightarrow> length S = 256 \<and> distinct S)"

lemma rc4_next_ok: "rc4_ok st \<Longrightarrow> rc4_ok (rc4_next st)"
  by (cases st) (simp add: rc4_ok_def rc4_next_def Let_def S_SWAP_distinct unat_and_255)

lemma rc4_funpow_ok: "rc4_ok st \<Longrightarrow> rc4_ok ((rc4_next ^^ n) st)"
  by (induction n) (auto intro: rc4_next_ok)

lemma returns_rc4_setup:
  assumes "key \<noteq> []" "kpos < length key" "n \<le> 256" "length S = 256" "distinct S"
  shows "returns (\<lambda>S'. length S' = 256 \<and> distinct S') (rc4_setup n key j kpos S)"
  using assms
proof (induction n arbitrary: j kpos S)
  case (Suc n)
  show ?case
    unfolding rc4_setup.simps(2) wp
    by (intro conjI Suc.IH) (use Suc.prems in \<open>auto simp: S_SWAP_distinct unat_and_255\<close>)
qed simp

lemma rc4_apply_length [simp]: "length (rc4_apply st d) = length d"
  by (induction d arbitrary: st) (simp_all add: Let_def)

lemma rc4_apply_twice: "rc4_apply st (rc4_apply st d) = d"
  by (induction d arbitrary: st) (simp_all add: Let_def xor.assoc)

lemma rc4_apply_append:
  "rc4_apply st (xs @ ys) = rc4_apply st xs @ rc4_apply ((rc4_next ^^ length xs) st) ys"
  by (induction xs arbitrary: st) (simp_all add: Let_def funpow_swap1)

lemma init_S: "length (map of_nat [0..<256] :: bytes) = 256" "distinct (map of_nat [0..<256] :: bytes)"
proof -
  have "inj_on (of_nat :: nat \<Rightarrow> u8) {0..<256}"
    by (rule inj_onI) (use word_of_nat_eq_iff in \<open>auto simp: word_of_nat_eq_iff take_bit_eq_mod\<close>)
  then show "distinct (map of_nat [0..<256] :: bytes)" by (simp add: distinct_map)
qed simp

lemma returns_rc4_skip: "key \<noteq> [] \<Longrightarrow> returns (\<lambda>d'. length d' = length d) (rc4_skip key skip d)"
  unfolding rc4_skip_def wp
  by (rule returns_mono [OF returns_rc4_setup]) (use init_S in auto)

section \<open>Properties\<close>



end
