(* ===== verification/Wpa_defs.thy ===== *)
theory Wpa_defs
  imports Prelude
begin

text \<open>
  The bit masks of cipher suites, key management suites and protocols of
  \<open>src/common/defs.h\<close>, and the classification of a key management suite by its inline
  functions. A suite is a \<open>u32\<close> with, normally, one bit set; configuration fields are
  sets of such bits.
\<close>

section \<open>Suites\<close>

definition WPA_CIPHER_NONE :: u32 where "WPA_CIPHER_NONE = 0x1"
definition WPA_CIPHER_WEP40 :: u32 where "WPA_CIPHER_WEP40 = 0x2"
definition WPA_CIPHER_WEP104 :: u32 where "WPA_CIPHER_WEP104 = 0x4"
definition WPA_CIPHER_TKIP :: u32 where "WPA_CIPHER_TKIP = 0x8"
definition WPA_CIPHER_CCMP :: u32 where "WPA_CIPHER_CCMP = 0x10"
definition WPA_CIPHER_AES_128_CMAC :: u32 where "WPA_CIPHER_AES_128_CMAC = 0x20"
definition WPA_CIPHER_GCMP :: u32 where "WPA_CIPHER_GCMP = 0x40"
definition WPA_CIPHER_SMS4 :: u32 where "WPA_CIPHER_SMS4 = 0x80"
definition WPA_CIPHER_GCMP_256 :: u32 where "WPA_CIPHER_GCMP_256 = 0x100"
definition WPA_CIPHER_CCMP_256 :: u32 where "WPA_CIPHER_CCMP_256 = 0x200"
definition WPA_CIPHER_BIP_GMAC_128 :: u32 where "WPA_CIPHER_BIP_GMAC_128 = 0x800"
definition WPA_CIPHER_BIP_GMAC_256 :: u32 where "WPA_CIPHER_BIP_GMAC_256 = 0x1000"
definition WPA_CIPHER_BIP_CMAC_256 :: u32 where "WPA_CIPHER_BIP_CMAC_256 = 0x2000"
definition WPA_CIPHER_GTK_NOT_USED :: u32 where "WPA_CIPHER_GTK_NOT_USED = 0x4000"

definition WPA_KEY_MGMT_IEEE8021X :: u32 where "WPA_KEY_MGMT_IEEE8021X = 0x1"
definition WPA_KEY_MGMT_PSK :: u32 where "WPA_KEY_MGMT_PSK = 0x2"
definition WPA_KEY_MGMT_NONE :: u32 where "WPA_KEY_MGMT_NONE = 0x4"
definition WPA_KEY_MGMT_IEEE8021X_NO_WPA :: u32 where "WPA_KEY_MGMT_IEEE8021X_NO_WPA = 0x8"
definition WPA_KEY_MGMT_WPA_NONE :: u32 where "WPA_KEY_MGMT_WPA_NONE = 0x10"
definition WPA_KEY_MGMT_FT_IEEE8021X :: u32 where "WPA_KEY_MGMT_FT_IEEE8021X = 0x20"
definition WPA_KEY_MGMT_FT_PSK :: u32 where "WPA_KEY_MGMT_FT_PSK = 0x40"
definition WPA_KEY_MGMT_IEEE8021X_SHA256 :: u32 where "WPA_KEY_MGMT_IEEE8021X_SHA256 = 0x80"
definition WPA_KEY_MGMT_PSK_SHA256 :: u32 where "WPA_KEY_MGMT_PSK_SHA256 = 0x100"
definition WPA_KEY_MGMT_WPS :: u32 where "WPA_KEY_MGMT_WPS = 0x200"
definition WPA_KEY_MGMT_SAE :: u32 where "WPA_KEY_MGMT_SAE = 0x400"
definition WPA_KEY_MGMT_FT_SAE :: u32 where "WPA_KEY_MGMT_FT_SAE = 0x800"
definition WPA_KEY_MGMT_WAPI_PSK :: u32 where "WPA_KEY_MGMT_WAPI_PSK = 0x1000"
definition WPA_KEY_MGMT_WAPI_CERT :: u32 where "WPA_KEY_MGMT_WAPI_CERT = 0x2000"
definition WPA_KEY_MGMT_CCKM :: u32 where "WPA_KEY_MGMT_CCKM = 0x4000"
definition WPA_KEY_MGMT_OSEN :: u32 where "WPA_KEY_MGMT_OSEN = 0x8000"
definition WPA_KEY_MGMT_IEEE8021X_SUITE_B :: u32 where "WPA_KEY_MGMT_IEEE8021X_SUITE_B = 0x10000"
definition WPA_KEY_MGMT_IEEE8021X_SUITE_B_192 :: u32 where "WPA_KEY_MGMT_IEEE8021X_SUITE_B_192 =
  0x20000"
definition WPA_KEY_MGMT_FILS_SHA256 :: u32 where "WPA_KEY_MGMT_FILS_SHA256 = 0x40000"
definition WPA_KEY_MGMT_FILS_SHA384 :: u32 where "WPA_KEY_MGMT_FILS_SHA384 = 0x80000"
definition WPA_KEY_MGMT_FT_FILS_SHA256 :: u32 where "WPA_KEY_MGMT_FT_FILS_SHA256 = 0x100000"
definition WPA_KEY_MGMT_FT_FILS_SHA384 :: u32 where "WPA_KEY_MGMT_FT_FILS_SHA384 = 0x200000"
definition WPA_KEY_MGMT_OWE :: u32 where "WPA_KEY_MGMT_OWE = 0x400000"
definition WPA_KEY_MGMT_DPP :: u32 where "WPA_KEY_MGMT_DPP = 0x800000"
definition WPA_KEY_MGMT_FT_IEEE8021X_SHA384 :: u32 where "WPA_KEY_MGMT_FT_IEEE8021X_SHA384 =
  0x1000000"
definition WPA_KEY_MGMT_PASN :: u32 where "WPA_KEY_MGMT_PASN = 0x2000000"
definition WPA_KEY_MGMT_SAE_EXT_KEY :: u32 where "WPA_KEY_MGMT_SAE_EXT_KEY = 0x4000000"

lemmas cipher_defs = WPA_CIPHER_NONE_def WPA_CIPHER_WEP40_def WPA_CIPHER_WEP104_def
  WPA_CIPHER_TKIP_def WPA_CIPHER_CCMP_def WPA_CIPHER_AES_128_CMAC_def WPA_CIPHER_GCMP_def
  WPA_CIPHER_SMS4_def WPA_CIPHER_GCMP_256_def WPA_CIPHER_CCMP_256_def WPA_CIPHER_BIP_GMAC_128_def
  WPA_CIPHER_BIP_GMAC_256_def WPA_CIPHER_BIP_CMAC_256_def WPA_CIPHER_GTK_NOT_USED_def

lemmas akm_defs = WPA_KEY_MGMT_IEEE8021X_def WPA_KEY_MGMT_PSK_def WPA_KEY_MGMT_NONE_def
  WPA_KEY_MGMT_IEEE8021X_NO_WPA_def WPA_KEY_MGMT_WPA_NONE_def WPA_KEY_MGMT_FT_IEEE8021X_def
  WPA_KEY_MGMT_FT_PSK_def WPA_KEY_MGMT_IEEE8021X_SHA256_def WPA_KEY_MGMT_PSK_SHA256_def
  WPA_KEY_MGMT_WPS_def WPA_KEY_MGMT_SAE_def WPA_KEY_MGMT_FT_SAE_def WPA_KEY_MGMT_WAPI_PSK_def
  WPA_KEY_MGMT_WAPI_CERT_def WPA_KEY_MGMT_CCKM_def WPA_KEY_MGMT_OSEN_def
  WPA_KEY_MGMT_IEEE8021X_SUITE_B_def WPA_KEY_MGMT_IEEE8021X_SUITE_B_192_def
  WPA_KEY_MGMT_FILS_SHA256_def WPA_KEY_MGMT_FILS_SHA384_def WPA_KEY_MGMT_FT_FILS_SHA256_def
  WPA_KEY_MGMT_FT_FILS_SHA384_def WPA_KEY_MGMT_OWE_def WPA_KEY_MGMT_DPP_def
  WPA_KEY_MGMT_FT_IEEE8021X_SHA384_def WPA_KEY_MGMT_PASN_def WPA_KEY_MGMT_SAE_EXT_KEY_def

definition WPA_KEY_MGMT_FT :: u32 where
  "WPA_KEY_MGMT_FT = WPA_KEY_MGMT_FT_PSK OR WPA_KEY_MGMT_FT_IEEE8021X OR WPA_KEY_MGMT_FT_IEEE8021X_SHA384 OR
     WPA_KEY_MGMT_FT_SAE OR WPA_KEY_MGMT_FT_FILS_SHA256 OR WPA_KEY_MGMT_FT_FILS_SHA384"

definition WPA_PROTO_WPA :: u32 where "WPA_PROTO_WPA = 1"
definition WPA_PROTO_RSN :: u32 where "WPA_PROTO_RSN = 2"
definition WPA_PROTO_WAPI :: u32 where "WPA_PROTO_WAPI = 4"
definition WPA_PROTO_OSEN :: u32 where "WPA_PROTO_OSEN = 8"

lemmas proto_defs = WPA_PROTO_WPA_def WPA_PROTO_RSN_def WPA_PROTO_WAPI_def WPA_PROTO_OSEN_def

section \<open>Classes of key management suites\<close>

definition wpa_key_mgmt_wpa_ieee8021x :: "u32 \<Rightarrow> bool" where
  "wpa_key_mgmt_wpa_ieee8021x akm \<longleftrightarrow>
     akm AND (WPA_KEY_MGMT_IEEE8021X OR WPA_KEY_MGMT_FT_IEEE8021X OR WPA_KEY_MGMT_FT_IEEE8021X_SHA384 OR
              WPA_KEY_MGMT_CCKM OR WPA_KEY_MGMT_OSEN OR WPA_KEY_MGMT_IEEE8021X_SHA256 OR
              WPA_KEY_MGMT_IEEE8021X_SUITE_B OR WPA_KEY_MGMT_IEEE8021X_SUITE_B_192 OR
              WPA_KEY_MGMT_FILS_SHA256 OR WPA_KEY_MGMT_FILS_SHA384 OR WPA_KEY_MGMT_FT_FILS_SHA256 OR
              WPA_KEY_MGMT_FT_FILS_SHA384) \<noteq> 0"

definition wpa_key_mgmt_wpa_psk_no_sae :: "u32 \<Rightarrow> bool" where
  "wpa_key_mgmt_wpa_psk_no_sae akm \<longleftrightarrow>
     akm AND (WPA_KEY_MGMT_PSK OR WPA_KEY_MGMT_FT_PSK OR WPA_KEY_MGMT_PSK_SHA256) \<noteq> 0"

definition wpa_key_mgmt_wpa_psk :: "u32 \<Rightarrow> bool" where
  "wpa_key_mgmt_wpa_psk akm \<longleftrightarrow>
     akm AND (WPA_KEY_MGMT_PSK OR WPA_KEY_MGMT_FT_PSK OR WPA_KEY_MGMT_PSK_SHA256 OR WPA_KEY_MGMT_SAE OR
              WPA_KEY_MGMT_SAE_EXT_KEY OR WPA_KEY_MGMT_FT_SAE) \<noteq> 0"

definition wpa_key_mgmt_ft :: "u32 \<Rightarrow> bool" where
  "wpa_key_mgmt_ft akm \<longleftrightarrow> akm AND WPA_KEY_MGMT_FT \<noteq> 0"

definition wpa_key_mgmt_only_ft :: "u32 \<Rightarrow> bool" where
  "wpa_key_mgmt_only_ft akm \<longleftrightarrow> wpa_key_mgmt_ft akm \<and> akm AND NOT WPA_KEY_MGMT_FT = 0"

definition wpa_key_mgmt_ft_psk :: "u32 \<Rightarrow> bool" where
  "wpa_key_mgmt_ft_psk akm \<longleftrightarrow> akm AND WPA_KEY_MGMT_FT_PSK \<noteq> 0"

definition wpa_key_mgmt_sae :: "u32 \<Rightarrow> bool" where
  "wpa_key_mgmt_sae akm \<longleftrightarrow>
     akm AND (WPA_KEY_MGMT_SAE OR WPA_KEY_MGMT_SAE_EXT_KEY OR WPA_KEY_MGMT_FT_SAE) \<noteq> 0"

definition wpa_key_mgmt_sae_ext_key :: "u32 \<Rightarrow> bool" where
  "wpa_key_mgmt_sae_ext_key akm \<longleftrightarrow> akm AND WPA_KEY_MGMT_SAE_EXT_KEY \<noteq> 0"

definition wpa_key_mgmt_fils :: "u32 \<Rightarrow> bool" where
  "wpa_key_mgmt_fils akm \<longleftrightarrow>
     akm AND (WPA_KEY_MGMT_FILS_SHA256 OR WPA_KEY_MGMT_FILS_SHA384 OR WPA_KEY_MGMT_FT_FILS_SHA256 OR
              WPA_KEY_MGMT_FT_FILS_SHA384) \<noteq> 0"

definition wpa_key_mgmt_sha256 :: "u32 \<Rightarrow> bool" where
  "wpa_key_mgmt_sha256 akm \<longleftrightarrow>
     akm AND (WPA_KEY_MGMT_PSK_SHA256 OR WPA_KEY_MGMT_IEEE8021X_SHA256 OR WPA_KEY_MGMT_SAE OR
              WPA_KEY_MGMT_FT_SAE OR WPA_KEY_MGMT_OSEN OR WPA_KEY_MGMT_IEEE8021X_SUITE_B OR
              WPA_KEY_MGMT_FILS_SHA256 OR WPA_KEY_MGMT_FT_FILS_SHA256) \<noteq> 0"

definition wpa_key_mgmt_sha384 :: "u32 \<Rightarrow> bool" where
  "wpa_key_mgmt_sha384 akm \<longleftrightarrow>
     akm AND (WPA_KEY_MGMT_IEEE8021X_SUITE_B_192 OR WPA_KEY_MGMT_FT_IEEE8021X_SHA384 OR
              WPA_KEY_MGMT_FILS_SHA384 OR WPA_KEY_MGMT_FT_FILS_SHA384) \<noteq> 0"

definition wpa_key_mgmt_suite_b :: "u32 \<Rightarrow> bool" where
  "wpa_key_mgmt_suite_b akm \<longleftrightarrow>
     akm AND (WPA_KEY_MGMT_IEEE8021X_SUITE_B OR WPA_KEY_MGMT_IEEE8021X_SUITE_B_192) \<noteq> 0"

definition wpa_key_mgmt_wpa :: "u32 \<Rightarrow> bool" where
  "wpa_key_mgmt_wpa akm \<longleftrightarrow>
     wpa_key_mgmt_wpa_ieee8021x akm \<or> wpa_key_mgmt_wpa_psk akm \<or> wpa_key_mgmt_fils akm \<or>
     wpa_key_mgmt_sae akm \<or> akm = WPA_KEY_MGMT_OWE \<or> akm = WPA_KEY_MGMT_DPP"

definition wpa_key_mgmt_wpa_any :: "u32 \<Rightarrow> bool" where
  "wpa_key_mgmt_wpa_any akm \<longleftrightarrow> wpa_key_mgmt_wpa akm \<or> akm AND WPA_KEY_MGMT_WPA_NONE \<noteq> 0"

definition wpa_key_mgmt_cckm :: "u32 \<Rightarrow> bool" where
  "wpa_key_mgmt_cckm akm \<longleftrightarrow> akm = WPA_KEY_MGMT_CCKM"

definition wpa_key_mgmt_cross_akm :: "u32 \<Rightarrow> bool" where
  "wpa_key_mgmt_cross_akm akm \<longleftrightarrow>
     akm AND (WPA_KEY_MGMT_PSK OR WPA_KEY_MGMT_PSK_SHA256 OR WPA_KEY_MGMT_SAE OR WPA_KEY_MGMT_SAE_EXT_KEY) \<noteq> 0"

lemmas key_mgmt_defs = wpa_key_mgmt_wpa_ieee8021x_def wpa_key_mgmt_wpa_psk_no_sae_def wpa_key_mgmt_wpa_psk_def
  WPA_KEY_MGMT_FT_def wpa_key_mgmt_ft_def wpa_key_mgmt_only_ft_def wpa_key_mgmt_ft_psk_def wpa_key_mgmt_sae_def
  wpa_key_mgmt_sae_ext_key_def wpa_key_mgmt_fils_def wpa_key_mgmt_sha256_def wpa_key_mgmt_sha384_def
  wpa_key_mgmt_suite_b_def wpa_key_mgmt_wpa_def wpa_key_mgmt_wpa_any_def wpa_key_mgmt_cckm_def
  wpa_key_mgmt_cross_akm_def akm_defs

section \<open>EAPOL frames\<close>

text \<open>The packet types and the descriptor types of \<open>src/common/eapol_common.h\<close>, and the size of
  \<open>struct ieee802_1x_hdr\<close>.\<close>

definition IEEE802_1X_TYPE_EAP_PACKET :: u8 where "IEEE802_1X_TYPE_EAP_PACKET = 0"
definition IEEE802_1X_TYPE_EAPOL_START :: u8 where "IEEE802_1X_TYPE_EAPOL_START = 1"
definition IEEE802_1X_TYPE_EAPOL_LOGOFF :: u8 where "IEEE802_1X_TYPE_EAPOL_LOGOFF = 2"
definition IEEE802_1X_TYPE_EAPOL_KEY :: u8 where "IEEE802_1X_TYPE_EAPOL_KEY = 3"

definition EAPOL_KEY_TYPE_RC4 :: u8 where "EAPOL_KEY_TYPE_RC4 = 1"
definition EAPOL_KEY_TYPE_RSN :: u8 where "EAPOL_KEY_TYPE_RSN = 2"
definition EAPOL_KEY_TYPE_WPA :: u8 where "EAPOL_KEY_TYPE_WPA = 254"

definition sizeof_ieee802_1x_hdr :: nat where "sizeof_ieee802_1x_hdr = 4"

lemmas eapol_type_defs = IEEE802_1X_TYPE_EAP_PACKET_def IEEE802_1X_TYPE_EAPOL_START_def
  IEEE802_1X_TYPE_EAPOL_LOGOFF_def IEEE802_1X_TYPE_EAPOL_KEY_def EAPOL_KEY_TYPE_RC4_def
  EAPOL_KEY_TYPE_RSN_def EAPOL_KEY_TYPE_WPA_def

section \<open>Algorithms and states\<close>

datatype wpa_alg = WPA_ALG_NONE | WPA_ALG_WEP | WPA_ALG_TKIP | WPA_ALG_CCMP | WPA_ALG_BIP_CMAC_128
  | WPA_ALG_GCMP | WPA_ALG_SMS4 | WPA_ALG_KRK | WPA_ALG_GCMP_256 | WPA_ALG_CCMP_256
  | WPA_ALG_BIP_GMAC_128 | WPA_ALG_BIP_GMAC_256 | WPA_ALG_BIP_CMAC_256

definition wpa_alg_bip :: "wpa_alg \<Rightarrow> bool" where
  "wpa_alg_bip alg \<longleftrightarrow> alg = WPA_ALG_BIP_CMAC_128 \<or> alg = WPA_ALG_BIP_GMAC_128 \<or>
     alg = WPA_ALG_BIP_GMAC_256 \<or> alg = WPA_ALG_BIP_CMAC_256"

datatype wpa_states = WPA_DISCONNECTED | WPA_INTERFACE_DISABLED | WPA_INACTIVE | WPA_SCANNING
  | WPA_AUTHENTICATING | WPA_ASSOCIATING | WPA_ASSOCIATED | WPA_4WAY_HANDSHAKE | WPA_GROUP_HANDSHAKE
  | WPA_COMPLETED

end
