(* ===== verification/Eapol_supp.thy ===== *)
theory Eapol_supp
  imports Eap_peer Rc4 Wpa_defs
begin

text \<open>
  The EAPOL supplicant of IEEE 802.1X-2004: \<open>src/eapol_supp/eapol_supp_sm.c\<close>.

  The record \<open>eapol_sm\<close> holds the three state machines (Supplicant PAE, Key Receive,
  Supplicant Backend), the timers and the statistics. The variables it shares with the EAP
  peer live in \<open>eapol_ctx (eap s)\<close> and are reached by \<open>vars\<close>.

  Callbacks of \<open>struct eapol_ctx\<close> that \<open>wpa_supplicant_init_eapol()\<close> sets are effects
  appended to the trace; the results the code inspects (\<open>confirm_auth_cb\<close>,
  \<open>set_wep_key\<close>, \<open>os_malloc\<close>, \<open>eloop_register_timeout\<close>) are answers of the environment.
  A callback that calls back into the state machine is such a call made by the environment
  after the step. HMAC-MD5 comes from the crypto backend of the build and is a parameter.

  Only \<open>eapol_sm_processKey()\<close> and the EAP layer can fault; the functions that reach them
  return an option.
\<close>

section \<open>Data\<close>

datatype PortStatus = Unauthorized | Authorized

datatype PortControl = Auto | ForceUnauthorized | ForceAuthorized

datatype SUPP_PAE_states = SUPP_PAE_UNKNOWN | SUPP_PAE_DISCONNECTED | SUPP_PAE_LOGOFF
  | SUPP_PAE_CONNECTING | SUPP_PAE_AUTHENTICATING | SUPP_PAE_AUTHENTICATED | SUPP_PAE_HELD
  | SUPP_PAE_RESTART | SUPP_PAE_S_FORCE_AUTH | SUPP_PAE_S_FORCE_UNAUTH

datatype KEY_RX_states = KEY_RX_UNKNOWN | KEY_RX_NO_KEY_RECEIVE | KEY_RX_KEY_RECEIVE

datatype SUPP_BE_states = SUPP_BE_UNKNOWN | SUPP_BE_INITIALIZE | SUPP_BE_IDLE | SUPP_BE_REQUEST
  | SUPP_BE_RECEIVE | SUPP_BE_RESPONSE | SUPP_BE_FAIL | SUPP_BE_TIMEOUT | SUPP_BE_SUCCESS

datatype eapol_cb_status = EAPOL_CB_IN_PROGRESS | EAPOL_CB_SUCCESS | EAPOL_CB_FAILURE

definition IEEE8021X_REPLAY_COUNTER_LEN :: nat where "IEEE8021X_REPLAY_COUNTER_LEN = 8"
definition IEEE8021X_KEY_SIGN_LEN :: nat where "IEEE8021X_KEY_SIGN_LEN = 16"
definition IEEE8021X_KEY_IV_LEN :: nat where "IEEE8021X_KEY_IV_LEN = 16"
definition IEEE8021X_KEY_INDEX_FLAG :: u8 where "IEEE8021X_KEY_INDEX_FLAG = 0x80"
definition IEEE8021X_KEY_INDEX_MASK :: u8 where "IEEE8021X_KEY_INDEX_MASK = 0x03"
definition IEEE8021X_ENCR_KEY_LEN :: nat where "IEEE8021X_ENCR_KEY_LEN = 32"
definition IEEE8021X_SIGN_KEY_LEN :: nat where "IEEE8021X_SIGN_KEY_LEN = 32"

definition EAPOL_REQUIRE_KEY_UNICAST :: u32 where "EAPOL_REQUIRE_KEY_UNICAST = BIT 0"
definition EAPOL_REQUIRE_KEY_BROADCAST :: u32 where "EAPOL_REQUIRE_KEY_BROADCAST = BIT 1"
definition EAPOL_PEER_IS_WPS20_AP :: u32 where "EAPOL_PEER_IS_WPS20_AP = BIT 1"

text \<open>The layout of \<open>struct ieee802_1x_hdr\<close> (version, type, big-endian length) and of
  \<open>struct ieee802_1x_eapol_key\<close> behind it, as offsets into the frame.\<close>

definition sizeof_eapol_key :: nat where "sizeof_eapol_key = 44"
definition off_key_length :: nat where "off_key_length = 5"
definition off_replay_counter :: nat where "off_replay_counter = 7"
definition off_key_iv :: nat where "off_key_iv = 15"
definition off_key_index :: nat where "off_key_index = 31"
definition off_key_signature :: nat where "off_key_signature = 32"

lemmas eapol_key_defs = sizeof_ieee802_1x_hdr_def sizeof_eapol_key_def off_key_length_def
  off_replay_counter_def off_key_iv_def off_key_index_def off_key_signature_def
  IEEE8021X_REPLAY_COUNTER_LEN_def IEEE8021X_KEY_SIGN_LEN_def IEEE8021X_KEY_IV_LEN_def
  IEEE8021X_ENCR_KEY_LEN_def IEEE8021X_SIGN_KEY_LEN_def

record eapol_config =
  accept_802_1x_keys :: bool
  required_keys :: u32
  conf_fast_reauth :: bool
  conf_workaround :: bool
  conf_eap_disabled :: bool
  conf_wps :: u32

record eapol_stats =
  dot1xSuppEapolFramesRx :: u32
  dot1xSuppEapolFramesTx :: u32
  dot1xSuppEapolStartFramesTx :: u32
  dot1xSuppEapolLogoffFramesTx :: u32
  dot1xSuppEapolRespFramesTx :: u32
  dot1xSuppEapolReqIdFramesRx :: u32
  dot1xSuppEapolReqFramesRx :: u32
  dot1xSuppInvalidEapolFramesRx :: u32
  dot1xSuppEapLengthErrorFramesRx :: u32
  dot1xSuppLastEapolFrameVersion :: u32
  dot1xSuppLastEapolFrameSource :: bytes

record 'p eapol_sm =
  authWhile :: u32
  heldWhile :: u32
  startWhen :: u32
  eapolEap :: bool
  initialize :: bool
  keyDone :: bool
  keyRun :: bool
  portControl :: PortControl
  suppPortStatus :: PortStatus
  portValid :: bool
  suppAbort :: bool
  suppFail :: bool
  suppStart :: bool
  suppSuccess :: bool
  suppTimeout :: bool
  SUPP_PAE_state :: SUPP_PAE_states
  userLogoff :: bool
  logoffSent :: bool
  startCount :: u32
  sPortMode :: PortControl
  heldPeriod :: u32
  startPeriod :: u32
  maxStart :: u32
  KEY_RX_state :: KEY_RX_states
  rxKey :: bool
  SUPP_BE_state :: SUPP_BE_states
  authPeriod :: u32
  stats :: eapol_stats
  eapol_changed :: bool
  eap :: "'p eap_sm"
  initial_req :: bool
  last_rx_key :: "bytes option"
  replay_counter_valid :: bool
  last_replay_counter :: bytes
  conf :: eapol_config
  cb_status :: eapol_cb_status
  cached_pmk :: bool
  unicast_key_received :: bool
  broadcast_key_received :: bool
  force_authorized_update :: bool
  preauth :: bool

record 'p eapol_env =
  env_eap :: "'p eap_env"
  hmac_md5 :: "bytes \<Rightarrow> bytes \<Rightarrow> bytes"

section \<open>Access to the shared variables\<close>

definition vars :: "'p eapol_sm \<Rightarrow> eapol_vars" where
  "vars s = eapol_ctx (eap s)"

definition upd_vars :: "(eapol_vars \<Rightarrow> eapol_vars) \<Rightarrow> 'p eapol_sm \<Rightarrow> 'p eapol_sm" where
  "upd_vars f s = s\<lparr>eap := upd_ctx f (eap s)\<rparr>"

definition upd_stats :: "(eapol_stats \<Rightarrow> eapol_stats) \<Rightarrow> 'p eapol_sm \<Rightarrow> 'p eapol_sm" where
  "upd_stats f s = s\<lparr>stats := f (stats s)\<rparr>"

definition eapol_ask :: "'p eapol_sm \<Rightarrow> bool \<times> 'p eapol_sm" where
  "eapol_ask s = (let (ok, v) = ask (vars s) in (ok, upd_vars (\<lambda>_. v) s))"

section \<open>Actions\<close>

definition eapol_sm_txLogoff :: "'p eapol_sm \<Rightarrow> 'p eapol_sm" where
  "eapol_sm_txLogoff s =
     upd_stats (\<lambda>t. t\<lparr>dot1xSuppEapolLogoffFramesTx := dot1xSuppEapolLogoffFramesTx t + 1,
                      dot1xSuppEapolFramesTx := dot1xSuppEapolFramesTx t + 1\<rparr>)
       (upd_vars (emit (Eapol_send IEEE802_1X_TYPE_EAPOL_LOGOFF [])) s)"

definition eapol_sm_txStart :: "'p eapol_sm \<Rightarrow> 'p eapol_sm" where
  "eapol_sm_txStart s =
     upd_stats (\<lambda>t. t\<lparr>dot1xSuppEapolStartFramesTx := dot1xSuppEapolStartFramesTx t + 1,
                      dot1xSuppEapolFramesTx := dot1xSuppEapolFramesTx t + 1\<rparr>)
       (upd_vars (emit (Eapol_send IEEE802_1X_TYPE_EAPOL_START [])) s)"

definition eapol_sm_set_port_authorized :: "'p eapol_sm \<Rightarrow> 'p eapol_sm" where
  "eapol_sm_set_port_authorized s =
     (let cb = (suppPortStatus s \<noteq> Authorized \<or> force_authorized_update s);
          s = s\<lparr>force_authorized_update := False, suppPortStatus := Authorized\<rparr>
      in if cb then upd_vars (emit (Port_cb True)) s else s)"

definition eapol_sm_set_port_unauthorized :: "'p eapol_sm \<Rightarrow> 'p eapol_sm" where
  "eapol_sm_set_port_unauthorized s =
     (let cb = (suppPortStatus s \<noteq> Unauthorized \<or> force_authorized_update s);
          s = s\<lparr>force_authorized_update := False, suppPortStatus := Unauthorized\<rparr>
      in if cb then upd_vars (emit (Port_cb False)) s else s)"

definition eapol_sm_confirm_auth :: "'p eapol_sm \<Rightarrow> bool \<times> 'p eapol_sm" where
  "eapol_sm_confirm_auth s = eapol_ask s"

text \<open>\<open>eapol_sm_notify_lower_layer_success()\<close> as \<open>eapol_sm_processKey()\<close> calls it, from
  inside the step function.\<close>

definition eapol_sm_lower_layer_success :: "'p eapol_sm \<Rightarrow> 'p eapol_sm" where
  "eapol_sm_lower_layer_success s = s\<lparr>eap := eap_notify_lower_layer_success (eap s)\<rparr>"

text \<open>The result code and the octets written to the caller's buffer.\<close>

definition eapol_sm_get_key :: "'p eapol_sm \<Rightarrow> nat \<Rightarrow> int \<times> bytes" where
  "eapol_sm_get_key s len =
     (if \<not> eap_key_available (eap s) then (-1, [])
      else case eap_get_eapKeyData (eap s) of
        None \<Rightarrow> (-1, [])
      | Some k \<Rightarrow> if len > length k then (int (length k), []) else (0, take len k))"

definition eapol_sm_get_session_id :: "'p eapol_sm \<Rightarrow> bytes option" where
  "eapol_sm_get_session_id s =
     (if \<not> eap_key_available (eap s) then None else eap_get_eapSessionId (eap s))"

text \<open>The key material of \<open>eapol_sm_processKey()\<close>: the initialised octets of
  \<open>keydata.encr_key\<close> and \<open>keydata.sign_key\<close> with the two lengths, or \<^const>\<open>None\<close> for
  the early returns.\<close>

definition eapol_key_data :: "'p eapol_sm \<Rightarrow> (bytes \<times> bytes \<times> nat \<times> nat) option" where
  "eapol_key_data s =
     (let (res, k) = eapol_sm_get_key s (IEEE8021X_ENCR_KEY_LEN + IEEE8021X_SIGN_KEY_LEN) in
      if res < 0 then None
      else if res = 16 then
        let (res, k) = eapol_sm_get_key s 16 in
        if res \<noteq> 0 then None else Some (k, k, 16, 16)
      else if res \<noteq> 0 then None
      else Some (take IEEE8021X_ENCR_KEY_LEN k, drop IEEE8021X_ENCR_KEY_LEN k,
                 IEEE8021X_ENCR_KEY_LEN, IEEE8021X_SIGN_KEY_LEN))"

text \<open>The decrypted key: \<open>Some None\<close> for a key data length that does not fit.\<close>

definition eapol_datakey :: "bytes \<Rightarrow> nat \<Rightarrow> nat \<Rightarrow> bytes \<Rightarrow> nat \<Rightarrow> bytes option option" where
  "eapol_datakey frame key_len rx_key_length encr_key encr_key_len =
     (if key_len = rx_key_length then do {
        iv \<leftarrow> rdn frame off_key_iv IEEE8021X_KEY_IV_LEN;
        ek \<leftarrow> rdn encr_key 0 encr_key_len;
        d \<leftarrow> rdn frame (sizeof_ieee802_1x_hdr + sizeof_eapol_key) key_len;
        k \<leftarrow> rc4_skip (iv @ ek) 0 d;
        Some (Some k) }
      else if key_len = 0 then do {
        k \<leftarrow> rdn encr_key 0 rx_key_length;
        Some (Some k) }
      else Some None)"

text \<open>The part of \<open>eapol_sm_processKey()\<close> after the key has been accepted.\<close>

definition eapol_sm_install_key :: "bytes \<Rightarrow> bytes \<Rightarrow> 'p eapol_sm \<Rightarrow> 'p eapol_sm option" where
  "eapol_sm_install_key frame datakey s = do {
     rc \<leftarrow> rdn frame off_replay_counter IEEE8021X_REPLAY_COUNTER_LEN;
     key_index \<leftarrow> rd8 frame off_key_index;
     let s = s\<lparr>replay_counter_valid := True, last_replay_counter := rc\<rparr>;
     let unicast = (key_index AND IEEE8021X_KEY_INDEX_FLAG \<noteq> 0);
     let s = upd_vars (emit (Set_wep_key unicast (key_index AND IEEE8021X_KEY_INDEX_MASK) datakey)) s;
     let (ok, s) = eapol_ask s;
     if \<not> ok then Some s
     else do {
       let s = (if unicast then s\<lparr>unicast_key_received := True\<rparr> else s\<lparr>broadcast_key_received := True\<rparr>);
       if (unicast_key_received s \<or> required_keys (conf s) AND EAPOL_REQUIRE_KEY_UNICAST = 0) \<and>
          (broadcast_key_received s \<or> required_keys (conf s) AND EAPOL_REQUIRE_KEY_BROADCAST = 0)
       then Some (upd_vars (emit Eapol_done) (s\<lparr>portValid := True\<rparr>))
       else Some s } }"

text \<open>\<open>eapol_sm_processKey()\<close>. The signature field is cleared for the computation of the
  message digest, and holds the received signature again on every path that goes on.\<close>

definition eapol_sm_processKey :: "'p eapol_env \<Rightarrow> 'p eapol_sm \<Rightarrow> 'p eapol_sm option" where
  "eapol_sm_processKey E s =
     (case last_rx_key s of
        None \<Rightarrow> Some s
      | Some frame \<Rightarrow>
          if \<not> accept_802_1x_keys (conf s) then Some s
          else if length frame < sizeof_ieee802_1x_hdr + sizeof_eapol_key then Some s
          else do {
            l \<leftarrow> WPA_GET_BE16 frame 2;
            let plen = unat l;
            if sizeof_ieee802_1x_hdr + plen > length frame \<or> plen < sizeof_eapol_key then Some s
            else do {
              rx \<leftarrow> WPA_GET_BE16 frame off_key_length;
              let rx_key_length = unat rx;
              let s = eapol_sm_lower_layer_success s;
              case eapol_key_data s of
                None \<Rightarrow> Some s
              | Some (encr_key, sign_key, encr_key_len, sign_key_len) \<Rightarrow> do {
                  rc \<leftarrow> rdn frame off_replay_counter IEEE8021X_REPLAY_COUNTER_LEN;
                  if replay_counter_valid s \<and> os_memcmp (last_replay_counter s) rc \<ge> 0 then Some s
                  else do {
                    orig_key_sign \<leftarrow> rdn frame off_key_signature IEEE8021X_KEY_SIGN_LEN;
                    cleared \<leftarrow> wrn frame off_key_signature (replicate IEEE8021X_KEY_SIGN_LEN 0);
                    hk \<leftarrow> rdn sign_key 0 sign_key_len;
                    msg \<leftarrow> rdn cleared 0 (sizeof_ieee802_1x_hdr + plen);
                    if orig_key_sign \<noteq> hmac_md5 E hk msg then Some s
                    else do {
                      let key_len = plen - sizeof_eapol_key;
                      if key_len > 32 \<or> rx_key_length > 32 then Some s
                      else do {
                        dk \<leftarrow> eapol_datakey frame key_len rx_key_length encr_key encr_key_len;
                        case dk of
                          None \<Rightarrow> Some s
                        | Some datakey \<Rightarrow> eapol_sm_install_key frame datakey s } } } } } })"

definition eapol_sm_getSuppRsp :: "'p eapol_sm \<Rightarrow> 'p eapol_sm" where
  "eapol_sm_getSuppRsp s = s"

definition eapol_sm_txSuppRsp :: "'p eapol_sm \<Rightarrow> 'p eapol_sm" where
  "eapol_sm_txSuppRsp s =
     (let (resp, e) = eap_get_eapRespData (eap s); s = s\<lparr>eap := e\<rparr> in
      case resp of
        None \<Rightarrow> s
      | Some r \<Rightarrow>
          upd_stats (\<lambda>t.
            let t = (if initial_req s
                     then t\<lparr>dot1xSuppEapolReqIdFramesRx := dot1xSuppEapolReqIdFramesRx t + 1\<rparr>
                     else t\<lparr>dot1xSuppEapolReqFramesRx := dot1xSuppEapolReqFramesRx t + 1\<rparr>)
            in t\<lparr>dot1xSuppEapolRespFramesTx := dot1xSuppEapolRespFramesTx t + 1,
                 dot1xSuppEapolFramesTx := dot1xSuppEapolFramesTx t + 1\<rparr>)
            (upd_vars (emit (Eapol_send IEEE802_1X_TYPE_EAP_PACKET (wb_data r))) s))"

definition eapol_sm_abortSupp :: "'p eapol_sm \<Rightarrow> 'p eapol_sm" where
  "eapol_sm_abortSupp s =
     (let s = s\<lparr>last_rx_key := None\<rparr>;
          s = upd_vars (\<lambda>v. v\<lparr>eapReqData := None\<rparr>) s
      in s\<lparr>eap := eap_sm_abort (eap s)\<rparr>)"

section \<open>The Supplicant PAE state machine\<close>

definition SM_ENTRY_SUPP_PAE :: "bool \<Rightarrow> SUPP_PAE_states \<Rightarrow> 'p eapol_sm \<Rightarrow> 'p eapol_sm" where
  "SM_ENTRY_SUPP_PAE global st s =
     (let s = (if \<not> global \<or> SUPP_PAE_state s \<noteq> st then s\<lparr>eapol_changed := True\<rparr> else s)
      in s\<lparr>SUPP_PAE_state := st\<rparr>)"

definition SUPP_PAE_LOGOFF_Enter :: "bool \<Rightarrow> 'p eapol_sm \<Rightarrow> 'p eapol_sm" where
  "SUPP_PAE_LOGOFF_Enter global s =
     (let s = SM_ENTRY_SUPP_PAE global SUPP_PAE_LOGOFF s;
          s = eapol_sm_txLogoff s;
          s = s\<lparr>logoffSent := True\<rparr>
      in eapol_sm_set_port_unauthorized s)"

definition SUPP_PAE_DISCONNECTED_Enter :: "bool \<Rightarrow> 'p eapol_sm \<Rightarrow> 'p eapol_sm" where
  "SUPP_PAE_DISCONNECTED_Enter global s =
     (let s = SM_ENTRY_SUPP_PAE global SUPP_PAE_DISCONNECTED s;
          s = s\<lparr>sPortMode := Auto, startCount := 0\<rparr>;
          s = upd_vars (\<lambda>v. v\<lparr>eapTriggerStart := False\<rparr>) s;
          s = s\<lparr>logoffSent := False\<rparr>;
          s = eapol_sm_set_port_unauthorized s
      in s\<lparr>suppAbort := True, unicast_key_received := False, broadcast_key_received := False, heldWhile := 0\<rparr>)"

definition SUPP_PAE_CONNECTING_Enter :: "bool \<Rightarrow> 'p eapol_sm \<Rightarrow> 'p eapol_sm" where
  "SUPP_PAE_CONNECTING_Enter global s =
     (let send_start = (SUPP_PAE_state s = SUPP_PAE_CONNECTING \<or> SUPP_PAE_state s = SUPP_PAE_HELD);
          s = SM_ENTRY_SUPP_PAE global SUPP_PAE_CONNECTING s;
          send_start = (send_start \<or> eapTriggerStart (vars s) \<or> preauth s);
          s = upd_vars (\<lambda>v. v\<lparr>eapTriggerStart := False\<rparr>) s;
          s = (if send_start then s\<lparr>startWhen := startPeriod s, startCount := startCount s + 1\<rparr>
               else if conf_wps (conf s) \<noteq> 0 \<and> conf_wps (conf s) AND EAPOL_PEER_IS_WPS20_AP = 0
               then s\<lparr>startWhen := 1\<rparr> else s\<lparr>startWhen := 2\<rparr>);
          s = upd_vars eapol_enable_timer_tick s;
          s = s\<lparr>eapolEap := False\<rparr>
      in if send_start then eapol_sm_txStart s else s)"

definition SUPP_PAE_AUTHENTICATING_Enter :: "bool \<Rightarrow> 'p eapol_sm \<Rightarrow> 'p eapol_sm" where
  "SUPP_PAE_AUTHENTICATING_Enter global s =
     (let s = SM_ENTRY_SUPP_PAE global SUPP_PAE_AUTHENTICATING s
      in s\<lparr>startCount := 0, suppSuccess := False, suppFail := False, suppTimeout := False,
           keyRun := False, keyDone := False, suppStart := True\<rparr>)"

definition SUPP_PAE_HELD_Enter :: "bool \<Rightarrow> 'p eapol_sm \<Rightarrow> 'p eapol_sm" where
  "SUPP_PAE_HELD_Enter global s =
     (let s = SM_ENTRY_SUPP_PAE global SUPP_PAE_HELD s;
          s = s\<lparr>heldWhile := heldPeriod s\<rparr>;
          s = upd_vars eapol_enable_timer_tick s;
          s = eapol_sm_set_port_unauthorized s
      in s\<lparr>cb_status := EAPOL_CB_FAILURE\<rparr>)"

definition SUPP_PAE_AUTHENTICATED_Enter :: "bool \<Rightarrow> 'p eapol_sm \<Rightarrow> 'p eapol_sm" where
  "SUPP_PAE_AUTHENTICATED_Enter global s =
     (let s = SM_ENTRY_SUPP_PAE global SUPP_PAE_AUTHENTICATED s;
          s = eapol_sm_set_port_authorized s
      in s\<lparr>cb_status := EAPOL_CB_SUCCESS\<rparr>)"

definition SUPP_PAE_RESTART_Enter :: "bool \<Rightarrow> 'p eapol_sm \<Rightarrow> 'p eapol_sm" where
  "SUPP_PAE_RESTART_Enter global s =
     (let (already, s) = eapol_sm_confirm_auth s in
      if already then s
      else
        let s = SM_ENTRY_SUPP_PAE global SUPP_PAE_RESTART s;
            s = upd_vars (\<lambda>v. v\<lparr>eapRestart := True\<rparr>) s
        in if altAccept (vars s) then upd_vars (\<lambda>v. v\<lparr>eapSuccess := False, altAccept := False\<rparr>) s else s)"

definition SUPP_PAE_S_FORCE_AUTH_Enter :: "bool \<Rightarrow> 'p eapol_sm \<Rightarrow> 'p eapol_sm" where
  "SUPP_PAE_S_FORCE_AUTH_Enter global s =
     (let s = SM_ENTRY_SUPP_PAE global SUPP_PAE_S_FORCE_AUTH s;
          s = eapol_sm_set_port_authorized s
      in s\<lparr>sPortMode := ForceAuthorized\<rparr>)"

definition SUPP_PAE_S_FORCE_UNAUTH_Enter :: "bool \<Rightarrow> 'p eapol_sm \<Rightarrow> 'p eapol_sm" where
  "SUPP_PAE_S_FORCE_UNAUTH_Enter global s =
     (let s = SM_ENTRY_SUPP_PAE global SUPP_PAE_S_FORCE_UNAUTH s;
          s = eapol_sm_set_port_unauthorized s;
          s = s\<lparr>sPortMode := ForceUnauthorized\<rparr>
      in eapol_sm_txLogoff s)"

text \<open>The cases of the \<open>switch\<close> of SM_STEP(SUPP_PAE).\<close>

definition supp_pae_connecting :: "'p eapol_sm \<Rightarrow> 'p eapol_sm" where
  "supp_pae_connecting s =
     (if startWhen s = 0 \<and> startCount s < maxStart s then SUPP_PAE_CONNECTING_Enter False s
      else if startWhen s = 0 \<and> startCount s \<ge> maxStart s \<and> portValid s
      then SUPP_PAE_AUTHENTICATED_Enter False s
      else if eapSuccess (vars s) \<or> eapFail (vars s) then SUPP_PAE_AUTHENTICATING_Enter False s
      else if eapolEap s then SUPP_PAE_RESTART_Enter False s
      else if startWhen s = 0 \<and> startCount s \<ge> maxStart s \<and> \<not> portValid s then SUPP_PAE_HELD_Enter False s
      else s)"

definition supp_pae_authenticating :: "'p eapol_sm \<Rightarrow> 'p eapol_sm" where
  "supp_pae_authenticating s =
     (let s = (if eapSuccess (vars s) \<and> \<not> portValid s \<and> accept_802_1x_keys (conf s) \<and> required_keys (conf s) = 0
               then upd_vars (emit Eapol_done) (s\<lparr>portValid := True\<rparr>) else s)
      in if eapSuccess (vars s) \<and> portValid s then SUPP_PAE_AUTHENTICATED_Enter False s
         else if eapFail (vars s) \<or> (keyDone s \<and> \<not> portValid s) then SUPP_PAE_HELD_Enter False s
         else if suppTimeout s then SUPP_PAE_CONNECTING_Enter False s
         else if eapTriggerStart (vars s) then SUPP_PAE_CONNECTING_Enter False s
         else s)"

definition supp_pae_local :: "'p eapol_sm \<Rightarrow> 'p eapol_sm" where
  "supp_pae_local s =
     (case SUPP_PAE_state s of
        SUPP_PAE_UNKNOWN \<Rightarrow> s
      | SUPP_PAE_LOGOFF \<Rightarrow> if \<not> userLogoff s then SUPP_PAE_DISCONNECTED_Enter False s else s
      | SUPP_PAE_DISCONNECTED \<Rightarrow> SUPP_PAE_CONNECTING_Enter False s
      | SUPP_PAE_CONNECTING \<Rightarrow> supp_pae_connecting s
      | SUPP_PAE_AUTHENTICATING \<Rightarrow> supp_pae_authenticating s
      | SUPP_PAE_HELD \<Rightarrow>
          if heldWhile s = 0 then SUPP_PAE_CONNECTING_Enter False s
          else if eapolEap s then SUPP_PAE_RESTART_Enter False s else s
      | SUPP_PAE_AUTHENTICATED \<Rightarrow>
          if eapolEap s \<and> portValid s then SUPP_PAE_RESTART_Enter False s
          else if \<not> portValid s then SUPP_PAE_DISCONNECTED_Enter False s else s
      | SUPP_PAE_RESTART \<Rightarrow> if \<not> eapRestart (vars s) then SUPP_PAE_AUTHENTICATING_Enter False s else s
      | SUPP_PAE_S_FORCE_AUTH \<Rightarrow> s
      | SUPP_PAE_S_FORCE_UNAUTH \<Rightarrow> s)"

definition SM_STEP_SUPP_PAE :: "'p eapol_sm \<Rightarrow> 'p eapol_sm" where
  "SM_STEP_SUPP_PAE s =
     (let down = (initialize s \<or> \<not> portEnabled (vars s)) in
      if (userLogoff s \<and> \<not> logoffSent s) \<and> \<not> down then SUPP_PAE_LOGOFF_Enter True s
      else if (portControl s = Auto \<and> sPortMode s \<noteq> portControl s) \<or> down then SUPP_PAE_DISCONNECTED_Enter True s
      else if portControl s = ForceAuthorized \<and> sPortMode s \<noteq> portControl s \<and> \<not> down
      then SUPP_PAE_S_FORCE_AUTH_Enter True s
      else if portControl s = ForceUnauthorized \<and> sPortMode s \<noteq> portControl s \<and> \<not> down
      then SUPP_PAE_S_FORCE_UNAUTH_Enter True s
      else supp_pae_local s)"

section \<open>The Key Receive state machine\<close>

definition SM_ENTRY_KEY_RX :: "bool \<Rightarrow> KEY_RX_states \<Rightarrow> 'p eapol_sm \<Rightarrow> 'p eapol_sm" where
  "SM_ENTRY_KEY_RX global st s =
     (let s = (if \<not> global \<or> KEY_RX_state s \<noteq> st then s\<lparr>eapol_changed := True\<rparr> else s)
      in s\<lparr>KEY_RX_state := st\<rparr>)"

definition KEY_RX_NO_KEY_RECEIVE_Enter :: "bool \<Rightarrow> 'p eapol_sm \<Rightarrow> 'p eapol_sm" where
  "KEY_RX_NO_KEY_RECEIVE_Enter global s = SM_ENTRY_KEY_RX global KEY_RX_NO_KEY_RECEIVE s"

definition KEY_RX_KEY_RECEIVE_Enter :: "'p eapol_env \<Rightarrow> bool \<Rightarrow> 'p eapol_sm \<Rightarrow> 'p eapol_sm option" where
  "KEY_RX_KEY_RECEIVE_Enter E global s = do {
     s \<leftarrow> eapol_sm_processKey E (SM_ENTRY_KEY_RX global KEY_RX_KEY_RECEIVE s);
     Some (s\<lparr>rxKey := False\<rparr>) }"

definition SM_STEP_KEY_RX :: "'p eapol_env \<Rightarrow> 'p eapol_sm \<Rightarrow> 'p eapol_sm option" where
  "SM_STEP_KEY_RX E s =
     (let s = (if initialize s \<or> \<not> portEnabled (vars s) then KEY_RX_NO_KEY_RECEIVE_Enter True s else s) in
      case KEY_RX_state s of
        KEY_RX_UNKNOWN \<Rightarrow> Some s
      | KEY_RX_NO_KEY_RECEIVE \<Rightarrow> if rxKey s then KEY_RX_KEY_RECEIVE_Enter E False s else Some s
      | KEY_RX_KEY_RECEIVE \<Rightarrow> if rxKey s then KEY_RX_KEY_RECEIVE_Enter E False s else Some s)"

section \<open>The Supplicant Backend state machine\<close>

definition SM_ENTRY_SUPP_BE :: "bool \<Rightarrow> SUPP_BE_states \<Rightarrow> 'p eapol_sm \<Rightarrow> 'p eapol_sm" where
  "SM_ENTRY_SUPP_BE global st s =
     (let s = (if \<not> global \<or> SUPP_BE_state s \<noteq> st then s\<lparr>eapol_changed := True\<rparr> else s)
      in s\<lparr>SUPP_BE_state := st\<rparr>)"

definition SUPP_BE_REQUEST_Enter :: "bool \<Rightarrow> 'p eapol_sm \<Rightarrow> 'p eapol_sm" where
  "SUPP_BE_REQUEST_Enter global s =
     (let s = SM_ENTRY_SUPP_BE global SUPP_BE_REQUEST s;
          s = s\<lparr>authWhile := 0\<rparr>;
          s = upd_vars (\<lambda>v. v\<lparr>eapReq := True\<rparr>) s
      in eapol_sm_getSuppRsp s)"

definition SUPP_BE_RESPONSE_Enter :: "bool \<Rightarrow> 'p eapol_sm \<Rightarrow> 'p eapol_sm" where
  "SUPP_BE_RESPONSE_Enter global s =
     (let s = SM_ENTRY_SUPP_BE global SUPP_BE_RESPONSE s;
          s = eapol_sm_txSuppRsp s
      in upd_vars (\<lambda>v. v\<lparr>eapResp := False\<rparr>) s)"

definition SUPP_BE_SUCCESS_Enter :: "bool \<Rightarrow> 'p eapol_sm \<Rightarrow> 'p eapol_sm" where
  "SUPP_BE_SUCCESS_Enter global s =
     (let s = SM_ENTRY_SUPP_BE global SUPP_BE_SUCCESS s;
          s = s\<lparr>keyRun := True, suppSuccess := True\<rparr>
      in if eap_key_available (eap s) then s\<lparr>replay_counter_valid := False\<rparr> else s)"

definition SUPP_BE_FAIL_Enter :: "bool \<Rightarrow> 'p eapol_sm \<Rightarrow> 'p eapol_sm" where
  "SUPP_BE_FAIL_Enter global s =
     (let s = SM_ENTRY_SUPP_BE global SUPP_BE_FAIL s in s\<lparr>suppFail := True\<rparr>)"

definition SUPP_BE_TIMEOUT_Enter :: "bool \<Rightarrow> 'p eapol_sm \<Rightarrow> 'p eapol_sm" where
  "SUPP_BE_TIMEOUT_Enter global s =
     (let s = SM_ENTRY_SUPP_BE global SUPP_BE_TIMEOUT s in s\<lparr>suppTimeout := True\<rparr>)"

definition SUPP_BE_IDLE_Enter :: "bool \<Rightarrow> 'p eapol_sm \<Rightarrow> 'p eapol_sm" where
  "SUPP_BE_IDLE_Enter global s =
     (let s = SM_ENTRY_SUPP_BE global SUPP_BE_IDLE s in s\<lparr>suppStart := False, initial_req := True\<rparr>)"

definition SUPP_BE_INITIALIZE_Enter :: "bool \<Rightarrow> 'p eapol_sm \<Rightarrow> 'p eapol_sm" where
  "SUPP_BE_INITIALIZE_Enter global s =
     (let s = SM_ENTRY_SUPP_BE global SUPP_BE_INITIALIZE s;
          s = eapol_sm_abortSupp s
      in s\<lparr>suppAbort := False, authWhile := 0\<rparr>)"

definition SUPP_BE_RECEIVE_Enter :: "bool \<Rightarrow> 'p eapol_sm \<Rightarrow> 'p eapol_sm" where
  "SUPP_BE_RECEIVE_Enter global s =
     (let s = SM_ENTRY_SUPP_BE global SUPP_BE_RECEIVE s;
          s = s\<lparr>authWhile := authPeriod s\<rparr>;
          s = upd_vars eapol_enable_timer_tick s;
          s = s\<lparr>eapolEap := False\<rparr>;
          s = upd_vars (\<lambda>v. v\<lparr>eapNoResp := False\<rparr>) s
      in s\<lparr>initial_req := False\<rparr>)"

definition supp_be_local :: "'p eapol_sm \<Rightarrow> 'p eapol_sm" where
  "supp_be_local s =
     (case SUPP_BE_state s of
        SUPP_BE_UNKNOWN \<Rightarrow> s
      | SUPP_BE_REQUEST \<Rightarrow>
          if eapResp (vars s) then SUPP_BE_RESPONSE_Enter False s
          else if eapNoResp (vars s) then SUPP_BE_RECEIVE_Enter False s
          else if eapFail (vars s) then SUPP_BE_FAIL_Enter False s
          else if eapSuccess (vars s) then SUPP_BE_SUCCESS_Enter False s else s
      | SUPP_BE_RESPONSE \<Rightarrow> SUPP_BE_RECEIVE_Enter False s
      | SUPP_BE_SUCCESS \<Rightarrow> SUPP_BE_IDLE_Enter False s
      | SUPP_BE_FAIL \<Rightarrow> SUPP_BE_IDLE_Enter False s
      | SUPP_BE_TIMEOUT \<Rightarrow> SUPP_BE_IDLE_Enter False s
      | SUPP_BE_IDLE \<Rightarrow>
          if eapFail (vars s) \<and> suppStart s then SUPP_BE_FAIL_Enter False s
          else if eapolEap s \<and> suppStart s then SUPP_BE_REQUEST_Enter False s
          else if eapSuccess (vars s) \<and> suppStart s then SUPP_BE_SUCCESS_Enter False s else s
      | SUPP_BE_INITIALIZE \<Rightarrow> SUPP_BE_IDLE_Enter False s
      | SUPP_BE_RECEIVE \<Rightarrow>
          if eapolEap s then SUPP_BE_REQUEST_Enter False s
          else if eapFail (vars s) then SUPP_BE_FAIL_Enter False s
          else if authWhile s = 0 then SUPP_BE_TIMEOUT_Enter False s
          else if eapSuccess (vars s) then SUPP_BE_SUCCESS_Enter False s else s)"

definition SM_STEP_SUPP_BE :: "'p eapol_sm \<Rightarrow> 'p eapol_sm" where
  "SM_STEP_SUPP_BE s =
     (if initialize s \<or> suppAbort s then SUPP_BE_INITIALIZE_Enter True s else supp_be_local s)"

section \<open>The step function\<close>

text \<open>One iteration of the loop of \<open>eapol_sm_step()\<close>.\<close>

definition eapol_sm_iter :: "'p eapol_env \<Rightarrow> 'p eapol_sm \<Rightarrow> 'p eapol_sm option" where
  "eapol_sm_iter E s = do {
     let s = SM_STEP_SUPP_PAE (s\<lparr>eapol_changed := False\<rparr>);
     s \<leftarrow> SM_STEP_KEY_RX E s;
     let s = SM_STEP_SUPP_BE s;
     (r, e) \<leftarrow> eap_peer_sm_step (env_eap E) (eap s);
     let s = s\<lparr>eap := e\<rparr>;
     Some (if r then s\<lparr>eapol_changed := True\<rparr> else s) }"

fun eapol_sm_loop :: "nat \<Rightarrow> 'p eapol_env \<Rightarrow> 'p eapol_sm \<Rightarrow> 'p eapol_sm option" where
  "eapol_sm_loop 0 E s = Some s"
| "eapol_sm_loop (Suc n) E s = do {
     s \<leftarrow> eapol_sm_iter E s;
     if \<not> eapol_changed s then Some s else eapol_sm_loop n E s }"

definition eapol_sm_report :: "'p eapol_sm \<Rightarrow> 'p eapol_sm" where
  "eapol_sm_report s =
     (if cb_status s \<noteq> EAPOL_CB_IN_PROGRESS then
        let result = (if cb_status s = EAPOL_CB_SUCCESS then EAPOL_SUPP_RESULT_SUCCESS
                      else if eap_peer_was_failure_expected (eap s) then EAPOL_SUPP_RESULT_EXPECTED_FAILURE
                      else EAPOL_SUPP_RESULT_FAILURE);
            s = s\<lparr>cb_status := EAPOL_CB_IN_PROGRESS\<rparr>
        in upd_vars (emit (Supp_cb result)) s
      else s)"

definition eapol_sm_step :: "'p eapol_env \<Rightarrow> 'p eapol_sm \<Rightarrow> 'p eapol_sm option" where
  "eapol_sm_step E s = do {
     s \<leftarrow> eapol_sm_loop 100 E s;
     let s = (if eapol_changed s then upd_vars (emit Register_step) s else s);
     Some (eapol_sm_report s) }"

definition eapol_sm_step_timeout :: "'p eapol_env \<Rightarrow> 'p eapol_sm \<Rightarrow> 'p eapol_sm option" where
  "eapol_sm_step_timeout E s = eapol_sm_step E s"

section \<open>Timers\<close>

definition dec_timer :: "u32 \<Rightarrow> u32" where
  "dec_timer t = (if t > 0 then t - 1 else t)"

definition eapol_port_timers_tick :: "'p eapol_env \<Rightarrow> 'p eapol_sm \<Rightarrow> 'p eapol_sm option" where
  "eapol_port_timers_tick E s =
     (let s = s\<lparr>authWhile := dec_timer (authWhile s), heldWhile := dec_timer (heldWhile s),
                startWhen := dec_timer (startWhen s)\<rparr>;
          s = upd_vars (\<lambda>v. v\<lparr>idleWhile := dec_timer (idleWhile v)\<rparr>) s;
          s = (if authWhile s OR heldWhile s OR startWhen s OR idleWhile (vars s) \<noteq> 0 then
                 let (ok, s) = eapol_ask s
                 in if ok then upd_vars (emit Register_tick) s
                    else upd_vars (\<lambda>v. v\<lparr>timer_tick_enabled := False\<rparr>) s
               else upd_vars (\<lambda>v. v\<lparr>timer_tick_enabled := False\<rparr>) s)
      in eapol_sm_step E s)"

section \<open>Received frames\<close>

definition eapol_sm_abort_cached :: "'p eapol_sm \<Rightarrow> 'p eapol_sm" where
  "eapol_sm_abort_cached s =
     (let s = s\<lparr>cached_pmk := False, SUPP_PAE_state := SUPP_PAE_CONNECTING\<rparr>;
          s = eapol_sm_set_port_unauthorized s;
          s = s\<lparr>startWhen := 3\<rparr>;
          s = upd_vars eapol_enable_timer_tick s
      in upd_vars (emit Aborted_cached) s)"

text \<open>The payload length after the workaround for a too short EAPOL header (CONFIG_WPS).\<close>

definition eapol_wps_plen :: "'p eapol_sm \<Rightarrow> bytes \<Rightarrow> nat \<Rightarrow> nat option" where
  "eapol_wps_plen s buf plen = do {
     type \<leftarrow> rd8 buf 1;
     if conf_wps (conf s) \<noteq> 0 \<and> conf_workaround (conf s) \<and> plen < length buf - sizeof_ieee802_1x_hdr \<and>
        type = IEEE802_1X_TYPE_EAP_PACKET \<and> length buf - sizeof_ieee802_1x_hdr > sizeof_eap_hdr
     then do {
       l \<leftarrow> WPA_GET_BE16 buf (sizeof_ieee802_1x_hdr + 2);
       let elen = unat l;
       Some (if elen > plen \<and> elen \<le> length buf - sizeof_ieee802_1x_hdr then elen else plen) }
     else Some plen }"

text \<open>The case IEEE802_1X_TYPE_EAP_PACKET.\<close>

definition eapol_rx_eap_packet ::
  "'p eapol_env \<Rightarrow> bytes \<Rightarrow> nat \<Rightarrow> 'p eapol_sm \<Rightarrow> 'p eapol_sm option" where
  "eapol_rx_eap_packet E buf plen s = do {
     skip \<leftarrow> (if conf_workaround (conf s) \<and> plen \<ge> sizeof_eap_hdr then do {
                code \<leftarrow> rd8 buf sizeof_ieee802_1x_hdr;
                Some (code = 10) }
              else Some False);
     if skip then Some s
     else do {
       let s = (if cached_pmk s then eapol_sm_abort_cached s else s);
       let s = upd_vars (\<lambda>v. v\<lparr>eapReqData := None\<rparr>) s;
       let (ok, s) = eapol_ask s;
       d \<leftarrow> rdn buf sizeof_ieee802_1x_hdr plen;
       r \<leftarrow> wpabuf_alloc_copy ok d;
       let s = upd_vars (\<lambda>v. v\<lparr>eapReqData := r\<rparr>) s;
       if r \<noteq> None then eapol_sm_step E (s\<lparr>eapolEap := True\<rparr>) else Some s } }"

text \<open>The case IEEE802_1X_TYPE_EAPOL_KEY.\<close>

definition eapol_rx_key ::
  "'p eapol_env \<Rightarrow> bytes \<Rightarrow> nat \<Rightarrow> 'p eapol_sm \<Rightarrow> (int \<times> 'p eapol_sm) option" where
  "eapol_rx_key E buf plen s =
     (if plen < sizeof_eapol_key then Some (1, s)
      else do {
        ktype \<leftarrow> rd8 buf sizeof_ieee802_1x_hdr;
        if ktype = EAPOL_KEY_TYPE_WPA \<or> ktype = EAPOL_KEY_TYPE_RSN then Some (0, s)
        else if ktype \<noteq> EAPOL_KEY_TYPE_RC4 then Some (1, s)
        else do {
          let s = s\<lparr>last_rx_key := None\<rparr>;
          let (ok, s) = eapol_ask s;
          if \<not> ok then Some (1, s)
          else do {
            d \<leftarrow> rdn buf 0 (sizeof_ieee802_1x_hdr + plen);
            s \<leftarrow> eapol_sm_step E (s\<lparr>last_rx_key := Some d, rxKey := True\<rparr>);
            Some (1, s) } } })"

definition eapol_sm_rx_eapol ::
  "'p eapol_env \<Rightarrow> bytes \<Rightarrow> bytes \<Rightarrow> 'p eapol_sm \<Rightarrow> (int \<times> 'p eapol_sm) option" where
  "eapol_sm_rx_eapol E src buf s =
     (let s = upd_stats (\<lambda>t. t\<lparr>dot1xSuppEapolFramesRx := dot1xSuppEapolFramesRx t + 1\<rparr>) s in
      if length buf < sizeof_ieee802_1x_hdr then
        Some (0, upd_stats (\<lambda>t. t\<lparr>dot1xSuppInvalidEapolFramesRx := dot1xSuppInvalidEapolFramesRx t + 1\<rparr>) s)
      else do {
        version \<leftarrow> rd8 buf 0;
        let s = upd_stats (\<lambda>t. t\<lparr>dot1xSuppLastEapolFrameVersion := ucast version,
                                 dot1xSuppLastEapolFrameSource := src\<rparr>) s;
        l \<leftarrow> WPA_GET_BE16 buf 2;
        let plen = unat l;
        if plen > length buf - sizeof_ieee802_1x_hdr then
          Some (0, upd_stats (\<lambda>t. t\<lparr>dot1xSuppEapLengthErrorFramesRx := dot1xSuppEapLengthErrorFramesRx t + 1\<rparr>) s)
        else do {
          plen \<leftarrow> eapol_wps_plen s buf plen;
          type \<leftarrow> rd8 buf 1;
          if type = IEEE802_1X_TYPE_EAP_PACKET then do {
            s \<leftarrow> eapol_rx_eap_packet E buf plen s;
            Some (1, s) }
          else if type = IEEE802_1X_TYPE_EAPOL_KEY then eapol_rx_key E buf plen s
          else
            Some (1, upd_stats (\<lambda>t. t\<lparr>dot1xSuppInvalidEapolFramesRx := dot1xSuppInvalidEapolFramesRx t + 1\<rparr>) s) } })"

section \<open>Notifications and requests\<close>

definition eapol_sm_configure :: "int \<Rightarrow> int \<Rightarrow> int \<Rightarrow> int \<Rightarrow> 'p eapol_sm \<Rightarrow> 'p eapol_sm" where
  "eapol_sm_configure held auth start max_start s =
     (let s = (if held \<ge> 0 then s\<lparr>heldPeriod := of_int held\<rparr> else s);
          s = (if auth \<ge> 0 then s\<lparr>authPeriod := of_int auth\<rparr> else s);
          s = (if start \<ge> 0 then s\<lparr>startPeriod := of_int start\<rparr> else s)
      in if max_start \<ge> 0 then s\<lparr>maxStart := of_int max_start\<rparr> else s)"

definition eapol_sm_get_method_name :: "'p eapol_env \<Rightarrow> 'p eapol_sm \<Rightarrow> string option" where
  "eapol_sm_get_method_name E s =
     (if SUPP_PAE_state s \<noteq> SUPP_PAE_AUTHENTICATED \<or> suppPortStatus s \<noteq> Authorized then None
      else Some (eap_sm_get_method_name (env_eap E) (eap s)))"

definition eapol_sm_notify_tx_eapol_key :: "'p eapol_sm \<Rightarrow> 'p eapol_sm" where
  "eapol_sm_notify_tx_eapol_key s =
     upd_stats (\<lambda>t. t\<lparr>dot1xSuppEapolFramesTx := dot1xSuppEapolFramesTx t + 1\<rparr>) s"

definition eapol_sm_notify_portEnabled :: "'p eapol_env \<Rightarrow> bool \<Rightarrow> 'p eapol_sm \<Rightarrow> 'p eapol_sm option" where
  "eapol_sm_notify_portEnabled E enabled s =
     (let s = (if portEnabled (vars s) \<noteq> enabled then s\<lparr>force_authorized_update := True\<rparr> else s);
          s = upd_vars (\<lambda>v. v\<lparr>portEnabled := enabled\<rparr>) s
      in eapol_sm_step E s)"

definition eapol_sm_notify_portValid :: "'p eapol_env \<Rightarrow> bool \<Rightarrow> 'p eapol_sm \<Rightarrow> 'p eapol_sm option" where
  "eapol_sm_notify_portValid E valid s = eapol_sm_step E (s\<lparr>portValid := valid\<rparr>)"

definition eapol_sm_notify_eap_success :: "'p eapol_env \<Rightarrow> bool \<Rightarrow> 'p eapol_sm \<Rightarrow> 'p eapol_sm option" where
  "eapol_sm_notify_eap_success E success s =
     (let s = upd_vars (\<lambda>v. v\<lparr>eapSuccess := success, altAccept := success\<rparr>) s;
          s = (if success then s\<lparr>eap := eap_notify_success (eap s)\<rparr> else s)
      in eapol_sm_step E s)"

definition eapol_sm_notify_eap_fail :: "'p eapol_env \<Rightarrow> bool \<Rightarrow> 'p eapol_sm \<Rightarrow> 'p eapol_sm option" where
  "eapol_sm_notify_eap_fail E fail s =
     eapol_sm_step E (upd_vars (\<lambda>v. v\<lparr>eapFail := fail, altReject := fail\<rparr>) s)"

text \<open>\<open>sm->conf.eap_disabled\<close> is not copied: the flag goes to the EAP machine.\<close>

definition eapol_sm_notify_config ::
  "eap_peer_config option \<Rightarrow> eapol_config option \<Rightarrow> 'p eapol_sm \<Rightarrow> 'p eapol_sm" where
  "eapol_sm_notify_config cfg cf s =
     (let s = upd_vars (\<lambda>v. v\<lparr>config := cfg\<rparr>) s in
      case cf of
        None \<Rightarrow> s
      | Some c \<Rightarrow>
          let s = s\<lparr>conf := (conf s)\<lparr>accept_802_1x_keys := accept_802_1x_keys c, required_keys := required_keys c,
                       conf_fast_reauth := conf_fast_reauth c, conf_workaround := conf_workaround c,
                       conf_wps := conf_wps c\<rparr>\<rparr>;
              e = eap_set_fast_reauth (conf_fast_reauth c) (eap s);
              e = eap_set_workaround (conf_workaround c) e;
              e = eap_set_force_disabled (conf_eap_disabled c) e
          in s\<lparr>eap := e\<rparr>)"

definition eapol_sm_notify_logoff :: "'p eapol_env \<Rightarrow> bool \<Rightarrow> 'p eapol_sm \<Rightarrow> 'p eapol_sm option" where
  "eapol_sm_notify_logoff E logoff s =
     (let s = s\<lparr>userLogoff := logoff\<rparr>;
          s = (if \<not> logoff then s\<lparr>startWhen := 0\<rparr> else s)
      in eapol_sm_step E s)"

definition eapol_sm_notify_cached :: "'p eapol_env \<Rightarrow> 'p eapol_sm \<Rightarrow> 'p eapol_sm option" where
  "eapol_sm_notify_cached E s =
     (let s = upd_vars (\<lambda>v. v\<lparr>eapSuccess := True\<rparr>) s
      in eapol_sm_step E (s\<lparr>eap := eap_notify_success (eap s)\<rparr>))"

definition eapol_sm_notify_pmkid_attempt :: "'p eapol_sm \<Rightarrow> 'p eapol_sm" where
  "eapol_sm_notify_pmkid_attempt s = s\<lparr>cached_pmk := True\<rparr>"

definition eapol_sm_notify_portControl :: "'p eapol_env \<Rightarrow> PortControl \<Rightarrow> 'p eapol_sm \<Rightarrow> 'p eapol_sm option" where
  "eapol_sm_notify_portControl E ctrl s = eapol_sm_step E (s\<lparr>portControl := ctrl\<rparr>)"

definition eapol_sm_notify_ctrl_response :: "'p eapol_env \<Rightarrow> 'p eapol_sm \<Rightarrow> 'p eapol_sm option" where
  "eapol_sm_notify_ctrl_response E s =
     (if eapReqData (vars s) \<noteq> None \<and> \<not> eapReq (vars s) then
        eapol_sm_step E (upd_vars (\<lambda>v. v\<lparr>eapReq := True\<rparr>) (s\<lparr>eapolEap := True\<rparr>))
      else Some s)"

definition eapol_sm_notify_pending :: "'p eapol_env \<Rightarrow> 'p eapol_sm \<Rightarrow> 'p eapol_sm option" where
  "eapol_sm_notify_pending E s =
     (if eapReqData (vars s) \<noteq> None \<and> \<not> eapReq (vars s) then
        eapol_sm_step E (upd_vars (\<lambda>v. v\<lparr>eapReq := True\<rparr>) (s\<lparr>eapolEap := True\<rparr>))
      else Some s)"

definition eapol_sm_request_reauth :: "'p eapol_sm \<Rightarrow> 'p eapol_sm" where
  "eapol_sm_request_reauth s =
     (if SUPP_PAE_state s \<noteq> SUPP_PAE_AUTHENTICATED then s else eapol_sm_txStart s)"

definition eapol_sm_notify_lower_layer_success ::
  "'p eapol_env \<Rightarrow> bool \<Rightarrow> 'p eapol_sm \<Rightarrow> 'p eapol_sm option" where
  "eapol_sm_notify_lower_layer_success E in_eapol_sm s =
     (let s = eapol_sm_lower_layer_success s
      in if \<not> in_eapol_sm then eapol_sm_step E s else Some s)"

definition eapol_sm_invalidate_cached_session :: "'p eapol_env \<Rightarrow> 'p eapol_sm \<Rightarrow> 'p eapol_sm" where
  "eapol_sm_invalidate_cached_session E s = s\<lparr>eap := eap_invalidate_cached_session (env_eap E) (eap s)\<rparr>"

definition eapol_sm_failed :: "'p eapol_sm \<Rightarrow> bool" where
  "eapol_sm_failed s = (\<not> eapSuccess (vars s) \<and> eapFail (vars s))"

section \<open>Initialisation\<close>

definition eapol_vars_zero :: "(nat \<Rightarrow> bool) \<Rightarrow> eapol_vars" where
  "eapol_vars_zero env = \<lparr>eapSuccess = False, eapRestart = False, eapFail = False, eapResp = False,
     eapNoResp = False, eapReq = False, portEnabled = False, altAccept = False, altReject = False,
     eapTriggerStart = False, idleWhile = 0, timer_tick_enabled = False, eapReqData = None, config = None,
     answers = env, asked = 0, trace = []\<rparr>"

definition eapol_sm_zero :: "'p eap_sm \<Rightarrow> 'p eapol_sm" where
  "eapol_sm_zero e = \<lparr>authWhile = 0, heldWhile = 0, startWhen = 0, eapolEap = False, initialize = False,
     keyDone = False, keyRun = False, portControl = Auto, suppPortStatus = Unauthorized, portValid = False,
     suppAbort = False, suppFail = False, suppStart = False, suppSuccess = False, suppTimeout = False,
     SUPP_PAE_state = SUPP_PAE_UNKNOWN, userLogoff = False, logoffSent = False, startCount = 0,
     sPortMode = Auto, heldPeriod = 0, startPeriod = 0, maxStart = 0, KEY_RX_state = KEY_RX_UNKNOWN,
     rxKey = False, SUPP_BE_state = SUPP_BE_UNKNOWN, authPeriod = 0,
     stats = \<lparr>dot1xSuppEapolFramesRx = 0, dot1xSuppEapolFramesTx = 0, dot1xSuppEapolStartFramesTx = 0,
              dot1xSuppEapolLogoffFramesTx = 0, dot1xSuppEapolRespFramesTx = 0,
              dot1xSuppEapolReqIdFramesRx = 0, dot1xSuppEapolReqFramesRx = 0,
              dot1xSuppInvalidEapolFramesRx = 0, dot1xSuppEapLengthErrorFramesRx = 0,
              dot1xSuppLastEapolFrameVersion = 0, dot1xSuppLastEapolFrameSource = replicate 6 0\<rparr>,
     eapol_changed = False, eap = e, initial_req = False, last_rx_key = None, replay_counter_valid = False,
     last_replay_counter = replicate 8 0,
     conf = \<lparr>accept_802_1x_keys = False, required_keys = 0, conf_fast_reauth = False, conf_workaround = False,
             conf_eap_disabled = False, conf_wps = 0\<rparr>,
     cb_status = EAPOL_CB_IN_PROGRESS, cached_pmk = False, unicast_key_received = False,
     broadcast_key_received = False, force_authorized_update = False, preauth = False\<rparr>"

text \<open>\<open>eapol_sm_init()\<close>: \<open>Some None\<close> when an allocation or the EAP layer fails. The first answer
  is that of \<open>os_zalloc()\<close>.\<close>

definition eapol_sm_init :: "'p eapol_env \<Rightarrow> bool \<Rightarrow> (nat \<Rightarrow> bool) \<Rightarrow> 'p eapol_sm option option" where
  "eapol_sm_init E ctx_preauth env =
     (let (mem, v) = ask (eapol_vars_zero env) in
      if \<not> mem then Some None
      else case eap_peer_sm_init v of
        None \<Rightarrow> Some None
      | Some e \<Rightarrow> do {
          let s = eapol_sm_zero e;
          let s = s\<lparr>preauth := ctx_preauth, portControl := Auto, heldPeriod := 60, startPeriod := 30,
                    maxStart := 3, authPeriod := 30\<rparr>;
          let s = s\<lparr>force_authorized_update := True, initialize := True\<rparr>;
          s \<leftarrow> eapol_sm_step E s;
          s \<leftarrow> eapol_sm_step E (s\<lparr>initialize := False\<rparr>);
          let (ok, s) = eapol_ask s;
          Some (Some (if ok then upd_vars (\<lambda>v. (emit Register_tick v)\<lparr>timer_tick_enabled := True\<rparr>) s else s)) })"

end
