(* ===== verification/Eap_peer_props.thy ===== *)
theory Eap_peer_props
  imports Eap_peer
begin

text \<open>
  What the EAP peer state machine guarantees: the responses it builds itself are
  well-formed and answer the request, no step faults, the step function returns and
  leaves the machine in a state in which it waits, success is only signalled for a method
  that decided for it, and duplicates are answered from the stored response.
\<close>

section \<open>The Nak response\<close>

text \<open>The types a legacy Nak proposes, as a function of the registered methods.\<close>

fun nak_types :: "'p eap_sm \<Rightarrow> 'p eap_method list \<Rightarrow> bool \<Rightarrow> bytes" where
  "nak_types sm [] ex = []"
| "nak_types sm (x # xs) ex =
     (if em_vendor x = EAP_VENDOR_IETF \<and> em_method x = reqMethod sm then nak_types sm xs ex
      else if eap_allowed_method sm (em_vendor x) (em_method x) then
        if em_vendor x \<noteq> EAP_VENDOR_IETF then
          if ex then nak_types sm xs ex else ucast EAP_TYPE_EXPANDED # nak_types sm xs True
        else ucast (em_method x) # nak_types sm xs ex
      else nak_types sm xs ex)"

lemma nak_types_length: "length (nak_types sm xs ex) \<le> length xs"
  by (induction xs arbitrary: ex) (auto simp: le_SucI)

lemma returns_nak_loop:
  assumes "wf_wpabuf resp" "length (nak_types sm xs ex) \<le> wpabuf_tailroom resp"
    and "\<And>r. wf_wpabuf r \<Longrightarrow> wb_data r = wb_data resp @ nak_types sm xs ex \<Longrightarrow>
           wpabuf_tailroom r = wpabuf_tailroom resp - length (nak_types sm xs ex) \<Longrightarrow>
           P (r, found + length (nak_types sm xs ex))"
  shows "returns P (eap_nak_loop sm xs resp found ex)"
  using assms
proof (induction xs arbitrary: resp found ex P)
  case Nil
  then show ?case by simp
next
  case (Cons x xs)
  have put: "returns Q (wpabuf_put_u8 resp t)" if "nak_types sm (x # xs) ex \<noteq> []"
    "\<And>b'. wf_wpabuf b' \<Longrightarrow> wb_data b' = wb_data resp @ [t] \<Longrightarrow>
       wpabuf_tailroom b' = wpabuf_tailroom resp - 1 \<Longrightarrow> Q b'" for Q t
    using Cons.prems(1,2) that order.strict_trans2 [OF _ Cons.prems(2), of 0]
    by (simp only: wpabuf_put_eq_append, intro returns_wb_append)
      (auto simp: Suc_le_eq simp del: nak_types.simps)
  show ?case
    using Cons.prems
    by (auto simp: wp simp del: eap_type_defs intro!: Cons.IH put)
qed

text \<open>The types of the response: a single 0 when no method is left to propose.\<close>

definition nak_payload :: "'p eap_env \<Rightarrow> 'p eap_sm \<Rightarrow> bytes" where
  "nak_payload E sm = (let ts = nak_types sm (methods E) False in if ts = [] then [ucast EAP_TYPE_NONE] else ts)"

lemma eap_frame_updated:
  "take 2 ([c, i] @ WPA_PUT_BE16 l @ eap_type_field v t @ d) @
     WPA_PUT_BE16 (of_nat (length ([c, i] @ WPA_PUT_BE16 l @ eap_type_field v t @ d))) @
     drop 4 ([c, i] @ WPA_PUT_BE16 l @ eap_type_field v t @ d) = eap_frame v t c i d"
  by (simp add: eap_frame_def add_ac)

lemma returns_update_frame:
  assumes "wf_wpabuf m" "wb_data m = [c, i] @ WPA_PUT_BE16 l @ eap_type_field v t @ d"
    and "\<And>m'. wf_wpabuf m' \<Longrightarrow> wb_used m' = wb_used m \<Longrightarrow> wb_data m' = eap_frame v t c i d \<Longrightarrow> P m'"
  shows "returns P (eap_update_len m)"
proof (rule returns_eap_update_len [OF assms(1)])
  have u: "wb_used m = length ([c, i] @ WPA_PUT_BE16 l @ eap_type_field v t @ d)"
    using wb_data_length [OF assms(1)] assms(2) by simp
  then show "4 \<le> wb_used m" by simp
  fix m' assume "wf_wpabuf m'" "wb_used m' = wb_used m"
    "wb_data m' = take 2 (wb_data m) @ WPA_PUT_BE16 (of_nat (wb_used m)) @ drop 4 (wb_data m)"
  then show "P m'" using assms(3) eap_frame_updated [of c i l v t d] unfolding u assms(2) by simp
qed

lemma nak_payload_length: "length (nak_payload E sm) \<le> length (methods E) + 1"
  using nak_types_length [of sm "methods E" False] by (auto simp: nak_payload_def Let_def)

lemma nak_types_config:
  "eap_get_config sm' = eap_get_config sm \<Longrightarrow> reqMethod sm' = reqMethod sm \<Longrightarrow>
     nak_types sm' xs ex = nak_types sm xs ex"
  by (induction xs arbitrary: ex) (simp_all add: eap_allowed_method_def)

lemma eap_ask_config [simp]: "eap_get_config (snd (eap_ask sm)) = eap_get_config sm"
  by (simp add: eap_ask_def ask_def eap_get_config_def eapol_sm_get_config_def split_beta)

lemma returns_buildNak_legacy:
  assumes "methods E \<noteq> []" "reqMethod sm \<noteq> EAP_TYPE_EXPANDED" "length (methods E) \<le> 8000"
    and "\<not> fst (eap_ask sm) \<Longrightarrow> P (None, snd (eap_ask sm))"
    and "\<And>b. wf_wpabuf b \<Longrightarrow> fst (eap_ask sm) \<Longrightarrow>
           wb_data b = eap_frame EAP_VENDOR_IETF EAP_TYPE_NAK EAP_CODE_RESPONSE ident (nak_payload E sm) \<Longrightarrow>
           P (Some b, snd (eap_ask sm))"
  shows "returns P (eap_sm_buildNak E sm ident)"
proof -
  let ?sm = "snd (eap_ask sm)"
  have tf: "length (eap_type_field EAP_VENDOR_IETF EAP_TYPE_NAK) = 1" by (simp add: eap_type_field_def)
  have nt: "nak_types ?sm (methods E) False = nak_types sm (methods E) False"
    by (rule nak_types_config) (simp_all add: quietD [OF quiet_ask])
  show ?thesis
    unfolding eap_sm_buildNak_def
    using assms(1,2)
    apply (simp add: wp split_beta del: eap_type_defs eap_code_defs)
    apply (rule returns_eap_msg_alloc)
    subgoal using assms(3) tf by simp
    subgoal using assms(4) by simp
    subgoal for b
      apply (simp only: option.distinct option.inject simp_thms)
      apply (rule returns_nak_loop)
      subgoal by simp
      subgoal using nak_types_length [of sm "methods E" False] nt by simp
      subgoal for r
        using nt nak_types_length [of sm "methods E" False] assms(5)
        by (auto simp: wp wpabuf_put_eq_append nak_payload_def Let_def simp del: eap_type_defs eap_code_defs
            intro!: returns_wb_append returns_update_frame)
      done
    done
qed

text \<open>The expanded Nak: eight octets for each proposed method.\<close>

definition xnak_entry :: "u32 \<Rightarrow> eap_type \<Rightarrow> bytes" where
  "xnak_entry v t = [ucast EAP_TYPE_EXPANDED] @ WPA_PUT_BE24 v @ WPA_PUT_BE32 t"

fun xnak_types :: "'p eap_sm \<Rightarrow> 'p eap_method list \<Rightarrow> bytes list" where
  "xnak_types sm [] = []"
| "xnak_types sm (x # xs) =
     (if (reqVendor sm = em_vendor x \<and> reqVendorMethod sm = em_method x) \<or>
         \<not> eap_allowed_method sm (em_vendor x) (em_method x)
      then xnak_types sm xs else xnak_entry (em_vendor x) (em_method x) # xnak_types sm xs)"

lemma xnak_entry_length [simp]: "length (xnak_entry v t) = 8"
  by (simp add: xnak_entry_def)

lemma xnak_length: "length (concat (xnak_types sm xs)) = 8 * length (xnak_types sm xs)"
  "length (xnak_types sm xs) \<le> length xs"
  by (induction xs) auto

lemma returns_put_xnak:
  assumes "wf_wpabuf b" "8 \<le> wpabuf_tailroom b"
    and "\<And>r. wf_wpabuf r \<Longrightarrow> wb_data r = wb_data b @ xnak_entry v t \<Longrightarrow>
           wpabuf_tailroom r = wpabuf_tailroom b - 8 \<Longrightarrow> P r"
  shows "returns (\<lambda>r. returns (\<lambda>r. returns P (wb_append r (WPA_PUT_BE32 t))) (wb_append r (WPA_PUT_BE24 v)))
     (wb_append b [ucast EAP_TYPE_EXPANDED])"
  using assms
  by (auto simp: xnak_entry_def simp del: eap_type_defs intro!: returns_wb_append)

lemma returns_xnak_loop:
  assumes "wf_wpabuf resp" "8 * length (xnak_types sm xs) \<le> wpabuf_tailroom resp"
    and "\<And>r. wf_wpabuf r \<Longrightarrow> wb_data r = wb_data resp @ concat (xnak_types sm xs) \<Longrightarrow>
           wpabuf_tailroom r = wpabuf_tailroom resp - 8 * length (xnak_types sm xs) \<Longrightarrow>
           P (r, found + length (xnak_types sm xs))"
  shows "returns P (eap_expanded_nak_loop sm xs resp found)"
  using assms
proof (induction xs arbitrary: resp found P)
  case Nil
  then show ?case by simp
next
  case (Cons x xs)
  then show ?case
    by (auto simp: wp wpabuf_put_eq_append simp del: eap_type_defs intro!: Cons.IH returns_put_xnak)
qed

definition xnak_payload :: "'p eap_env \<Rightarrow> 'p eap_sm \<Rightarrow> bytes" where
  "xnak_payload E sm =
     WPA_PUT_BE24 EAP_VENDOR_IETF @ WPA_PUT_BE32 EAP_TYPE_NAK @
     (if xnak_types sm (methods E) = [] then xnak_entry EAP_VENDOR_IETF EAP_TYPE_NONE
      else concat (xnak_types sm (methods E)))"

lemma xnak_types_config:
  "eap_get_config sm' = eap_get_config sm \<Longrightarrow> reqVendor sm' = reqVendor sm \<Longrightarrow>
     reqVendorMethod sm' = reqVendorMethod sm \<Longrightarrow> xnak_types sm' xs = xnak_types sm xs"
  by (induction xs) (simp_all add: eap_allowed_method_def)

lemma returns_buildNak_expanded:
  assumes "methods E \<noteq> []" "reqMethod sm = EAP_TYPE_EXPANDED" "length (methods E) \<le> 8000"
    and "\<not> fst (eap_ask sm) \<Longrightarrow> P (None, snd (eap_ask sm))"
    and "\<And>b. wf_wpabuf b \<Longrightarrow> fst (eap_ask sm) \<Longrightarrow>
           wb_data b = eap_frame EAP_VENDOR_IETF EAP_TYPE_EXPANDED EAP_CODE_RESPONSE ident (xnak_payload E sm) \<Longrightarrow>
           P (Some b, snd (eap_ask sm))"
  shows "returns P (eap_sm_buildNak E sm ident)"
proof -
  let ?sm = "snd (eap_ask sm)"
  have tf: "length (eap_type_field EAP_VENDOR_IETF EAP_TYPE_EXPANDED) = 1" by (simp add: eap_type_field_def)
  have nt: "xnak_types ?sm (methods E) = xnak_types sm (methods E)"
    by (rule xnak_types_config) (simp_all add: quietD [OF quiet_ask])
  have l: "length (xnak_types sm (methods E)) \<le> length (methods E)" by (rule xnak_length)
  show ?thesis
    unfolding eap_sm_buildNak_def eap_sm_build_expanded_nak_def
    using assms(1,2)
    apply (simp add: wp split_beta del: eap_type_defs eap_code_defs)
    apply (rule returns_eap_msg_alloc)
    subgoal using assms(3) tf by simp
    subgoal using assms(4) by simp
    subgoal for b
      apply (simp only: option.distinct option.inject simp_thms wpabuf_put_eq_append)
      apply (rule returns_wb_append, assumption, simp, rule returns_wb_append, assumption, simp)
      apply (rule returns_xnak_loop)
      subgoal by simp
      subgoal using l nt by simp
      subgoal for b1 b2 r
        using nt l assms(5)
        by (auto simp: wp xnak_payload_def simp del: eap_type_defs eap_code_defs
            intro!: returns_put_xnak returns_update_frame)
      done
    done
qed

section \<open>No step faults\<close>

text \<open>Buffers that can be copied, identities that fit in an EAP message, and methods that
  return such buffers.\<close>

definition resp_ok :: "wpabuf \<Rightarrow> bool" where
  "resp_ok b \<longleftrightarrow> wf_wpabuf b \<and> wb_used b + sizeof_wpabuf \<le> SIZE_MAX"

definition config_ok :: "eap_peer_config \<Rightarrow> bool" where
  "config_ok c \<longleftrightarrow>
     pred_option (\<lambda>d. length d \<le> 60000) (identity c) \<and>
     pred_option (\<lambda>d. length d \<le> 60000) (anonymous_identity c) \<and>
     pred_option (\<lambda>d. length d \<le> 60000) (machine_identity c)"

definition eap_inv :: "'p eap_sm \<Rightarrow> bool" where
  "eap_inv sm \<longleftrightarrow>
     pred_option wf_wpabuf (eapReqData (eapol_ctx sm)) \<and> pred_option resp_ok (eapRespData sm) \<and>
     pred_option resp_ok (lastRespData sm) \<and> pred_option config_ok (config (eapol_ctx sm))"

definition method_ok :: "'p eap_method \<Rightarrow> bool" where
  "method_ok meth \<longleftrightarrow>
     (\<forall>sm p ret r. pred_option resp_ok (fst (em_process meth sm p ret r))) \<and>
     pred_option (\<lambda>f. \<forall>sm p. pred_option (\<lambda>d. length d \<le> 60000) (f sm p)) (em_get_identity meth)"

definition env_ok :: "'p eap_env \<Rightarrow> bool" where
  "env_ok E \<longleftrightarrow> length (methods E) \<le> 8000 \<and> (\<forall>meth \<in> set (methods E). method_ok meth)"

lemma eap_type_field_length: "length (eap_type_field v t) \<le> 8"
  by (simp add: eap_type_field_def)

lemma eap_frame_length: "length (eap_frame v t c i d) = 4 + length (eap_type_field v t) + length d"
  by (simp add: eap_frame_def)

lemma frame_resp_ok:
  "wf_wpabuf b \<Longrightarrow> wb_data b = eap_frame v t c i d \<Longrightarrow> length d \<le> 66000 \<Longrightarrow> resp_ok b"
  using wb_data_length [of b] eap_type_field_length [of v t] by (simp add: resp_ok_def eap_frame_length)

lemma config_ok_pending:
  "map_option (\<lambda>k. k\<lparr>pending_req_identity := 0\<rparr>) a = map_option (\<lambda>k. k\<lparr>pending_req_identity := 0\<rparr>) b \<Longrightarrow>
     pred_option config_ok a = pred_option config_ok b"
proof -
  have *: "config_ok (k\<lparr>pending_req_identity := n\<rparr>) = config_ok k" for k n by (simp add: config_ok_def)
  assume "map_option (\<lambda>k. k\<lparr>pending_req_identity := 0\<rparr>) a = map_option (\<lambda>k. k\<lparr>pending_req_identity := 0\<rparr>) b"
  then show ?thesis by (cases a; cases b) (auto, metis *, metis *)
qed

lemma quiet_eap_inv: "quiet sm sm' \<Longrightarrow> eap_inv sm' = eap_inv sm"
  by (auto elim!: quietE simp: eap_inv_def same_vars_def dest!: config_ok_pending)

lemma eap_inv_resp [simp]:
  "eap_inv (sm\<lparr>eapRespData := r\<rparr>) \<longleftrightarrow> eap_inv (sm\<lparr>eapRespData := None\<rparr>) \<and> pred_option resp_ok r" if "r \<noteq> None"
  using that by (auto simp: eap_inv_def)

lemma eap_inv_no_resp: "eap_inv sm \<Longrightarrow> eap_inv (sm\<lparr>eapRespData := None\<rparr>)"
  by (simp add: eap_inv_def)

lemma xnak_payload_length: "length (xnak_payload E sm) \<le> 15 + 8 * length (methods E)"
  using xnak_length [of sm "methods E"] by (auto simp: xnak_payload_def)

lemma returns_nak_inv:
  assumes "env_ok E" "eap_inv sm"
  shows "returns eap_inv (get_method_nak E sm)"
proof -
  let ?s = "sm\<lparr>eapRespData := None\<rparr>"
  have inv: "eap_inv (snd (eap_ask ?s))" using assms(2) by (simp add: quiet_eap_inv [OF quiet_ask] eap_inv_no_resp)
  have nn: "eap_inv ((snd (eap_ask ?s))\<lparr>eapRespData := None\<rparr>)" using inv by (rule eap_inv_no_resp)
  have len: "length (methods E) \<le> 8000" using assms(1) by (simp add: env_ok_def)
  have "returns (\<lambda>y. eap_inv (snd y\<lparr>eapRespData := fst y\<rparr>)) (eap_sm_buildNak E ?s i)" for i
  proof (cases "methods E = []")
    case True
    then show ?thesis using assms(2) by (simp add: eap_sm_buildNak_def eap_inv_no_resp)
  next
    case ne: False
    show ?thesis
    proof (cases "reqMethod ?s = EAP_TYPE_EXPANDED")
      case True
      show ?thesis
        by (rule returns_buildNak_expanded [OF ne True len])
          (use nn len xnak_payload_length [of E ?s] in \<open>auto intro!: frame_resp_ok\<close>)
    next
      case False
      show ?thesis
        by (rule returns_buildNak_legacy [OF ne False len])
          (use nn len nak_payload_length [of E ?s] in \<open>auto intro!: frame_resp_ok\<close>)
    qed
  qed
  then show ?thesis by (simp add: get_method_nak_def wp split_beta)
qed

lemma eap_inv_fields [simp]:
  "eap_inv (SM_ENTRY_EAP g st sm) = eap_inv sm"
  "eap_inv (eapol_set_bool x b sm) = eap_inv sm"
  "eap_inv (eapol_set_int y n sm) = eap_inv sm"
  "eap_inv (sm\<lparr>mv := w\<rparr>) = eap_inv sm" "eap_inv (sm\<lparr>selectedMethod := t\<rparr>) = eap_inv sm"
  "eap_inv (sm\<lparr>methodState := ms\<rparr>) = eap_inv sm" "eap_inv (sm\<lparr>sm_m := i\<rparr>) = eap_inv sm"
  "eap_inv (sm\<lparr>eap_method_priv := p\<rparr>) = eap_inv sm" "eap_inv (sm\<lparr>decision := d\<rparr>) = eap_inv sm"
  "eap_inv (sm\<lparr>allowNotifications := al\<rparr>) = eap_inv sm" "eap_inv (sm\<lparr>num_rounds := k\<rparr>) = eap_inv sm"
  "eap_inv (sm\<lparr>num_rounds_short := k\<rparr>) = eap_inv sm" "eap_inv (sm\<lparr>eap_changed := c\<rparr>) = eap_inv sm"
  "eap_inv (sm\<lparr>reauthInit := c\<rparr>) = eap_inv sm" "eap_inv (sm\<lparr>prev_failure := c\<rparr>) = eap_inv sm"
  "eap_inv (sm\<lparr>eapKeyAvailable := c\<rparr>) = eap_inv sm" "eap_inv (sm\<lparr>eapKeyData := kd\<rparr>) = eap_inv sm"
  "eap_inv (sm\<lparr>eapSessionId := kd\<rparr>) = eap_inv sm" "eap_inv (sm\<lparr>rxReq := c\<rparr>) = eap_inv sm"
  "eap_inv (sm\<lparr>rxResp := c\<rparr>) = eap_inv sm" "eap_inv (sm\<lparr>rxSuccess := c\<rparr>) = eap_inv sm"
  "eap_inv (sm\<lparr>rxFailure := c\<rparr>) = eap_inv sm" "eap_inv (sm\<lparr>reqId := ri\<rparr>) = eap_inv sm"
  "eap_inv (sm\<lparr>reqMethod := t\<rparr>) = eap_inv sm" "eap_inv (sm\<lparr>reqVendor := t\<rparr>) = eap_inv sm"
  "eap_inv (sm\<lparr>reqVendorMethod := t\<rparr>) = eap_inv sm" "eap_inv (sm\<lparr>req_sha1 := h\<rparr>) = eap_inv sm"
  "eap_inv (sm\<lparr>last_sha1 := h\<rparr>) = eap_inv sm" "eap_inv (sm\<lparr>lastId := ri\<rparr>) = eap_inv sm"
  "eap_inv (sm\<lparr>last_config := lc\<rparr>) = eap_inv sm" "eap_inv (sm\<lparr>erp_seq := t\<rparr>) = eap_inv sm"
  by (simp_all add: eap_inv_def SM_ENTRY_EAP_def Let_def eapol_set_bool_def eapol_set_int_def upd_ctx_def)
    (cases x; simp; fail | cases y; simp add: Let_def eapol_enable_timer_tick_def emit_def ask_def)+

lemma eap_inv_simps [simp]:
  "eap_inv (snd (eap_ask sm)) = eap_inv sm" "eap_inv (eap_notify_status a b sm) = eap_inv sm"
  "eap_inv (eap_failure_error E sm) = eap_inv sm" "eap_inv (eap_sm_request_identity sm) = eap_inv sm"
  by (simp_all add: quiet_eap_inv)

lemma eap_inv_deinit [simp]: "eap_inv (eap_deinit_prev_method E sm) = eap_inv sm"
  by (simp add: eap_deinit_prev_method_def split: option.splits)

lemma eap_inv_method_keys [simp]: "eap_inv (method_keys meth sm) = eap_inv sm"
  by (simp add: method_keys_def eap_sm_free_key_def Let_def split: option.splits)

lemma cur_method_ok: "env_ok E \<Longrightarrow> cur_method E sm = Some meth \<Longrightarrow> method_ok meth"
  by (auto simp: env_ok_def cur_method_def split: option.splits if_splits)

lemma wf_req: "eap_inv sm \<Longrightarrow> eapol_get_eapReqData sm = Some r \<Longrightarrow> wf_wpabuf r"
  by (simp add: eap_inv_def eapol_get_eapReqData_def eapol_sm_get_eapReqData_def)

lemma GET_METHOD_safe:
  "env_ok E \<Longrightarrow> eap_inv sm \<Longrightarrow> returns eap_inv (EAP_GET_METHOD_Enter E g sm)"
  unfolding EAP_GET_METHOD_Enter_def wp
  by (intro conjI impI allI returns_nak_inv; simp split: if_split)

lemma eap_hdr_len_valid_returns:
  "eap_inv sm \<Longrightarrow> P True \<Longrightarrow> P False \<Longrightarrow> returns P (eap_hdr_len_valid (eapol_get_eapReqData sm) n)"
proof (cases "eapol_get_eapReqData sm")
  case (Some m)
  assume "eap_inv sm" "P True" "P False"
  then have "P b" for b by (cases b) simp_all
  with \<open>eap_inv sm\<close> Some show ?thesis by (simp add: wp wf_req)
qed (simp add: eap_hdr_len_valid_def)

lemma METHOD_safe:
  assumes "env_ok E" "eap_inv sm"
  shows "returns eap_inv (EAP_METHOD_Enter E g sm)"
proof -
  have p: "pred_option resp_ok (fst (em_process meth s p ret r))" if "cur_method E t = Some meth" for meth s p ret r t
    using cur_method_ok [OF assms(1) that] by (simp add: method_ok_def)
  have set: "eap_inv (s\<lparr>eapRespData := x\<rparr>)" if "eap_inv s" "pred_option resp_ok x" for s x
    using that by (simp add: eap_inv_def)
  show ?thesis
    unfolding EAP_METHOD_Enter_def wp
    by (intro conjI impI allI eap_hdr_len_valid_returns)
      (auto simp: assms(2) simp del: eap_inv_resp intro!: set p)
qed

lemma parse_code_safe:
  assumes "eap_inv sm" "plen \<le> length d" "4 \<le> length d"
  shows "returns eap_inv (eap_sm_parse_code E d code plen sm)"
  using assms
  by (auto simp: eap_sm_parse_code_def wp eap_peer_initiate_def eap_peer_finish_def)

lemma RECEIVED_safe:
  assumes "eap_inv sm"
  shows "returns eap_inv (EAP_RECEIVED_Enter E g sm)"
proof -
  let ?s = "SM_ENTRY_EAP g EAP_RECEIVED sm"
  have i: "eap_inv ?s" using assms by simp
  have "returns eap_inv (eap_sm_parseEapReq E (eapol_get_eapReqData ?s) ?s)"
  proof (cases "eapol_get_eapReqData ?s")
    case (Some m)
    then have "wf_wpabuf m" using wf_req [OF i] by simp
    then show ?thesis using i Some
      by (auto simp: eap_sm_parseEapReq_def wp wpabuf_len_def intro!: parse_code_safe)
  qed (use i in \<open>simp add: eap_sm_parseEapReq_def\<close>)
  then show ?thesis
    unfolding EAP_RECEIVED_Enter_def wp by (rule returns_mono) simp
qed

lemma hdr_validate_returns:
  "wf_wpabuf m \<Longrightarrow> (\<And>r. (\<And>pos n. r = Some (pos, n) \<Longrightarrow> pos + n \<le> wb_used m) \<Longrightarrow> P r) \<Longrightarrow>
     returns P (eap_hdr_validate v t (Some m))"
  using eap_hdr_validate_safe [of m v t] by (rule returns_mono) auto

lemma processIdentity_safe:
  assumes "eap_inv sm" "eapol_get_eapReqData sm = Some m"
  shows "returns (quiet sm) (eap_sm_processIdentity (Some m) sm)"
  using wf_req [OF assms] by (auto simp: eap_sm_processIdentity_def wp intro!: hdr_validate_returns)

lemma select_identity_ok:
  assumes "env_ok E" "eap_inv sm" "eap_get_config sm = Some cfg" "eap_select_identity E sm cfg e = Some d"
  shows "length d \<le> 60000"
proof -
  have c: "config_ok cfg" using assms(2,3) by (simp add: eap_inv_def eap_get_config_def eapol_sm_get_config_def)
  have m: "length x \<le> 60000" if "cur_method E sm = Some meth" "em_get_identity meth = Some f" "f s p = Some x" for meth f s p x
  proof -
    have "\<forall>sm p. pred_option (\<lambda>d. length d \<le> 60000) (f sm p)"
      using cur_method_ok [OF assms(1) that(1)] that(2) by (simp add: method_ok_def)
    then have "pred_option (\<lambda>d. length d \<le> 60000) (f s p)" by blast
    then show ?thesis using that(3) by simp
  qed
  show ?thesis using assms(4) c m
    by (auto simp: eap_select_identity_def Let_def config_ok_def split: option.splits if_splits)
qed

lemma buildIdentity_safe:
  assumes "env_ok E" "eap_inv sm" "eapRespData sm = None"
  shows "returns (\<lambda>y. eap_inv (snd y\<lparr>eapRespData := fst y\<rparr>)) (eap_sm_buildIdentity E sm ident e)"
proof -
  have n: "eap_inv (s\<lparr>eapRespData := None\<rparr>)" if "quiet sm s" for s
    using assms(2) that by (auto intro!: eap_inv_no_resp simp: quiet_eap_inv)
  have "returns P (eap_msg_alloc ok EAP_VENDOR_IETF EAP_TYPE_IDENTITY (length d) EAP_CODE_RESPONSE ident \<bind>
      (\<lambda>r. case r of None \<Rightarrow> Some (None, s) | Some resp \<Rightarrow> wpabuf_put_data resp (Some d) \<bind> (\<lambda>resp. Some (Some resp, s))))"
    if l: "length d \<le> 60000" and q: "quiet sm s" and P: "P = (\<lambda>y. eap_inv (snd y\<lparr>eapRespData := fst y\<rparr>))" for d ok s P
    unfolding wp
    apply (rule returns_eap_msg_alloc)
    subgoal using l by (simp add: eap_type_field_def)
    subgoal using n [OF q] by (simp add: P)
    subgoal for b
      apply (simp only: option.distinct option.inject simp_thms wpabuf_put_eq_append)
      apply (simp add: wp)
      apply (rule returns_wb_append)
      using n [OF q] l
      by (auto simp: P resp_ok_def eap_type_field_def dest!: wb_data_length)
    done
  then show ?thesis
    using assms(1,2) select_identity_ok [OF assms(1,2)] n [of sm] n [OF quiet_request_identity]
    unfolding eap_sm_buildIdentity_def returns_case_option returns_Let returns_if returns_case_prod
    by (auto simp: assms(3))
qed

lemma IDENTITY_safe:
  assumes "env_ok E" "eap_inv sm"
  shows "returns eap_inv (EAP_IDENTITY_Enter E g sm)"
proof -
  let ?s = "SM_ENTRY_EAP g EAP_IDENTITY sm"
  have i: "eap_inv ?s" using assms by simp
  show ?thesis
  proof (cases "eapol_get_eapReqData ?s")
    case None
    then show ?thesis using i by (simp add: EAP_IDENTITY_Enter_def wp eap_hdr_len_valid_def)
  next
    case (Some m)
    have "returns eap_inv (eap_sm_buildIdentity E (s\<lparr>eapRespData := None\<rparr>) k False \<bind>
        (\<lambda>(resp, sm). Some (sm\<lparr>eapRespData := resp\<rparr>)))" if "quiet ?s s" for s k
      unfolding wp
      using buildIdentity_safe [OF assms(1), of "s\<lparr>eapRespData := None\<rparr>" k False] that i
      by (simp add: eap_inv_no_resp quiet_eap_inv)
    then show ?thesis
      unfolding EAP_IDENTITY_Enter_def Let_def Some
      using returns_mono [OF processIdentity_safe [OF i Some]] i
      unfolding returns_bind [of _ "eap_hdr_len_valid _ _"]
      by (intro eap_hdr_len_valid_returns [OF i, unfolded Some])
        (auto simp: returns_bind [of _ "eap_sm_processIdentity _ _"])
  qed
qed

lemma NOTIFICATION_safe:
  assumes "eap_inv sm"
  shows "returns eap_inv (EAP_NOTIFICATION_Enter g sm)"
proof -
  let ?s = "SM_ENTRY_EAP g EAP_NOTIFICATION sm"
  have i: "eap_inv ?s" using assms by simp
  show ?thesis
  proof (cases "eapol_get_eapReqData ?s")
    case None
    then show ?thesis using i by (simp add: EAP_NOTIFICATION_Enter_def wp eap_hdr_len_valid_def)
  next
    case (Some m)
    have "returns (quiet ?s) (eap_sm_processNotify (Some m) ?s)"
      using wf_req [OF i Some]
      by (auto simp: eap_sm_processNotify_def wp
          intro!: hdr_validate_returns quiet_trans [OF quiet_ask quiet_upd_emit])
    moreover have "returns eap_inv (eap_sm_buildNotify (s\<lparr>eapRespData := None\<rparr>) k \<bind>
        (\<lambda>(resp, sm). Some (sm\<lparr>eapRespData := resp\<rparr>)))" if "quiet ?s s" for s k
    proof -
      have n: "eap_inv ((snd (eap_ask (s\<lparr>eapRespData := None\<rparr>)))\<lparr>eapRespData := None\<rparr>)"
        using that i by (intro eap_inv_no_resp) (simp add: quiet_eap_inv eap_inv_no_resp)
      show ?thesis
        unfolding eap_sm_buildNotify_def wp
        by (rule returns_eap_msg_alloc)
          (use n in \<open>auto simp: eap_type_field_def resp_ok_def dest!: wb_data_length\<close>)
    qed
    ultimately show ?thesis
      unfolding EAP_NOTIFICATION_Enter_def Let_def Some
      using i unfolding returns_bind [of _ "eap_hdr_len_valid _ _"]
      by (intro eap_hdr_len_valid_returns [OF i, unfolded Some])
        (auto simp: returns_bind [of _ "eap_sm_processNotify _ _"] elim: returns_mono)
  qed
qed

lemma dup_ok:
  assumes "resp_ok b"
  obtains r where "wpabuf_dup True b = Some (Some r)" "resp_ok r" "wb_data r = wb_data b"
proof -
  from assms wpabuf_dup_data [of b] obtain r where
    r: "wpabuf_dup True b = Some (Some r)" "wf_wpabuf r" "wb_data r = wb_data b" by (auto simp: resp_ok_def)
  then have "wb_used r = wb_used b" using assms wb_data_length [of r] wb_data_length [of b] by (simp add: resp_ok_def)
  with r assms have "resp_ok r" by (simp add: resp_ok_def)
  with r show thesis by (intro that)
qed

lemma dup_returns:
  assumes "resp_ok b" "P None" "\<And>r. resp_ok r \<Longrightarrow> wb_data r = wb_data b \<Longrightarrow> ok \<Longrightarrow> P (Some r)"
  shows "returns P (wpabuf_dup ok b)"
proof (cases ok)
  case True
  from dup_ok [OF assms(1)] assms(3) True show ?thesis by (metis returns_Some)
qed (use assms(2) in \<open>simp add: wpabuf_dup_def wpabuf_alloc_def\<close>)

lemma RETRANSMIT_safe:
  assumes "eap_inv sm"
  shows "returns eap_inv (EAP_RETRANSMIT_Enter g sm)"
proof -
  have s: "eap_inv (s\<lparr>eapRespData := x\<rparr>)" if "eap_inv s" "pred_option resp_ok x" for s :: "'a eap_sm" and x
    using that by (simp add: eap_inv_def)
  have "lastRespData (SM_ENTRY_EAP g EAP_RETRANSMIT sm) = Some b \<Longrightarrow> resp_ok b" for b
    using assms by (simp add: eap_inv_def SM_ENTRY_EAP_def Let_def split: if_splits)
  then show ?thesis
    unfolding EAP_RETRANSMIT_Enter_def wp
    using assms by (auto simp del: eap_inv_resp intro!: dup_returns s)
qed

lemma save_response_safe:
  assumes "eap_inv s"
  shows "returns eap_inv (save_response s)"
proof -
  have l: "eap_inv (t\<lparr>lastRespData := x\<rparr>)" if "eap_inv t" "pred_option resp_ok x" for t :: "'a eap_sm" and x
    using that by (simp add: eap_inv_def)
  have "eapRespData s = Some b \<Longrightarrow> resp_ok b" for b using assms by (simp add: eap_inv_def)
  then show ?thesis
    unfolding save_response_def wp
    using assms by (auto intro!: dup_returns l)
qed

lemma SEND_RESPONSE_safe:
  assumes "eap_inv sm"
  shows "returns eap_inv (EAP_SEND_RESPONSE_Enter g sm)"
  unfolding EAP_SEND_RESPONSE_Enter_def wp
  using assms by (auto intro!: returns_mono [OF save_response_safe])

lemma total_safe:
  assumes "eap_inv sm"
  shows "eap_inv (EAP_INITIALIZE_Enter E g sm)" "eap_inv (EAP_DISABLED_Enter g sm)"
    "eap_inv (EAP_IDLE_Enter g sm)" "eap_inv (EAP_DISCARD_Enter g sm)"
    "eap_inv (EAP_SUCCESS_Enter g sm)" "eap_inv (EAP_FAILURE_Enter g sm)"
  using assms
  by (simp_all add: EAP_INITIALIZE_Enter_def EAP_DISABLED_Enter_def EAP_IDLE_Enter_def
      EAP_DISCARD_Enter_def EAP_SUCCESS_Enter_def EAP_FAILURE_Enter_def Let_def eap_sm_free_key_def
      split_beta split: option.split)

lemmas eap_safe = RECEIVED_safe GET_METHOD_safe METHOD_safe IDENTITY_safe NOTIFICATION_safe
  RETRANSMIT_safe SEND_RESPONSE_safe total_safe

lemma SM_STEP_safe:
  assumes "env_ok E" "eap_inv sm"
  shows "returns eap_inv (SM_STEP_EAP E sm)"
proof -
  have "returns eap_inv (eap_peer_sm_step_idle E sm)"
    unfolding eap_peer_sm_step_idle_def wp using assms by (simp add: eap_safe)
  moreover have "returns eap_inv (eap_peer_sm_step_received E sm)"
    unfolding eap_peer_sm_step_received_def wp using assms by (simp add: eap_safe)
  ultimately have "returns eap_inv (eap_peer_sm_step_local E sm)"
    using assms by (cases "EAP_state sm") (simp_all add: eap_peer_sm_step_local_def eap_safe)
  then show ?thesis
    unfolding SM_STEP_EAP_def wp using assms by (simp add: eap_safe)
qed

section \<open>The step function returns\<close>

text \<open>A state in which nothing is left to do.\<close>

definition eap_at_rest :: "'p eap_sm \<Rightarrow> bool" where
  "eap_at_rest sm \<longleftrightarrow>
     (if \<not> portEnabled (eapol_ctx sm) \<or> force_disabled sm then EAP_state sm = EAP_DISABLED
      else num_rounds sm > EAP_MAX_AUTH_ROUNDS \<or> num_rounds_short sm > EAP_MAX_AUTH_ROUNDS_SHORT \<or>
           EAP_state sm \<in> {EAP_SUCCESS, EAP_FAILURE} \<or>
           (EAP_state sm = EAP_IDLE \<and> \<not> eapReq (eapol_ctx sm)))"

lemma local_unchanged_at_rest:
  assumes "eap_peer_sm_step_local E sm = Some sm" "\<not> eap_changed sm" "portEnabled (eapol_ctx sm)" "\<not> force_disabled sm"
  shows "EAP_state sm \<in> {EAP_SUCCESS, EAP_FAILURE} \<or> (EAP_state sm = EAP_IDLE \<and> \<not> eapReq (eapol_ctx sm))"
proof -
  have e: "\<not> entered st sm sm" for st using assms(2) by (simp add: entered_def kept_def)
  have a: "answered st sm sm \<Longrightarrow> EAP_state sm = st" for st using assms(2) by (auto simp: answered_def)
  show ?thesis
  proof (cases "EAP_state sm")
    case EAP_IDLE
    have "\<not> eapReq (eapol_ctx sm)"
    proof
      assume "eapReq (eapol_ctx sm)"
      then have "EAP_RECEIVED_Enter E False sm = Some sm"
        using assms(1) EAP_IDLE by (simp add: eap_peer_sm_step_local_def eap_peer_sm_step_idle_def eapol_get_bool_def)
      with e RECEIVED_entered show False by blast
    qed
    with EAP_IDLE show ?thesis by simp
  next
    case EAP_RECEIVED
    have "False"
      using assms(1) EAP_RECEIVED SUCCESS_answered [of sm False] FAILURE_answered [of sm False]
        DISCARD_answered [of sm False] a [of EAP_SUCCESS] a [of EAP_FAILURE] a [of EAP_DISCARD] a [of EAP_SEND_RESPONSE]
        e RETRANSMIT_entered [of sm sm] NOTIFICATION_entered [of sm sm] IDENTITY_entered [of E sm sm]
        GET_METHOD_entered [of E sm sm] METHOD_entered [of E sm sm] SEND_RESPONSE_answered [of False sm sm]
      by (auto simp: eap_peer_sm_step_local_def eap_peer_sm_step_received_def Let_def simp del: eap_type_defs split: if_splits)
    then show ?thesis by simp
  next
    case EAP_DISABLED
    then show ?thesis using assms INITIALIZE_changed [of E sm]
      by (auto simp: eap_peer_sm_step_local_def eapol_get_bool_def)
  qed (use assms(1) e a SEND_RESPONSE_answered [of False sm sm] METHOD_entered [of E sm sm]
      IDLE_entered [of sm] DISCARD_answered [of sm False] FAILURE_answered [of sm False] in
      \<open>auto simp: eap_peer_sm_step_local_def split: if_splits\<close>)
qed

text \<open>The three regimes of the step function.\<close>

lemma SM_STEP_cases:
  assumes "SM_STEP_EAP E sm = Some sm'"
  obtains (restart) "eapRestart (eapol_ctx sm)" "portEnabled (eapol_ctx sm)" "sm' = EAP_INITIALIZE_Enter E True sm"
  | (off) "\<not> portEnabled (eapol_ctx sm) \<or> force_disabled sm" "\<not> (eapRestart (eapol_ctx sm) \<and> portEnabled (eapol_ctx sm))"
      "sm' = EAP_DISABLED_Enter True sm"
  | (limit) "portEnabled (eapol_ctx sm)" "\<not> force_disabled sm" "\<not> eapRestart (eapol_ctx sm)"
      "num_rounds sm > EAP_MAX_AUTH_ROUNDS \<or> num_rounds_short sm > EAP_MAX_AUTH_ROUNDS_SHORT"
      "sm' = sm \<or> (\<exists>n. sm' = EAP_FAILURE_Enter True (sm\<lparr>num_rounds := n\<rparr>) \<and> n > EAP_MAX_AUTH_ROUNDS) \<or>
       (\<exists>n. sm' = EAP_FAILURE_Enter True (sm\<lparr>num_rounds_short := n\<rparr>) \<and> n > EAP_MAX_AUTH_ROUNDS_SHORT)"
  | (local_step) "portEnabled (eapol_ctx sm)" "\<not> force_disabled sm" "\<not> eapRestart (eapol_ctx sm)"
      "num_rounds sm \<le> EAP_MAX_AUTH_ROUNDS" "num_rounds_short sm \<le> EAP_MAX_AUTH_ROUNDS_SHORT"
      "eap_peer_sm_step_local E sm = Some sm'"
proof -
  consider "eapRestart (eapol_ctx sm)" "portEnabled (eapol_ctx sm)"
    | "\<not> (eapRestart (eapol_ctx sm) \<and> portEnabled (eapol_ctx sm))" "\<not> portEnabled (eapol_ctx sm) \<or> force_disabled sm"
    | "portEnabled (eapol_ctx sm)" "\<not> force_disabled sm" "\<not> eapRestart (eapol_ctx sm)" by blast
  then show thesis
  proof cases
    case 1
    with assms restart show thesis by (simp add: SM_STEP_EAP_def eapol_get_bool_def)
  next
    case 2
    with assms off show thesis by (auto simp: SM_STEP_EAP_def eapol_get_bool_def)
  next
    case 3
    show thesis
    proof (cases "num_rounds sm > EAP_MAX_AUTH_ROUNDS \<or> num_rounds_short sm > EAP_MAX_AUTH_ROUNDS_SHORT")
      case True
      show thesis by (rule limit [OF 3 True]) (use assms 3 True in
        \<open>auto simp: SM_STEP_EAP_def eapol_get_bool_def split: if_splits\<close>)
    next
      case False
      with 3 assms local_step show thesis by (auto simp: SM_STEP_EAP_def eapol_get_bool_def)
    qed
  qed
qed

lemma limit_frame [simp]:
  "EAP_state (EAP_FAILURE_Enter g sm) = EAP_FAILURE" "inputs (EAP_FAILURE_Enter g sm) = inputs sm"
  "eapRestart (eapol_ctx (EAP_FAILURE_Enter g sm)) = eapRestart (eapol_ctx sm)"
  "portEnabled (eapol_ctx (EAP_FAILURE_Enter g sm)) = portEnabled (eapol_ctx sm)"
  "force_disabled (EAP_FAILURE_Enter g sm) = force_disabled sm"
  "num_rounds (EAP_FAILURE_Enter g sm) = num_rounds sm"
  "num_rounds_short (EAP_FAILURE_Enter g sm) = num_rounds_short sm"
  "eapSuccess (eapol_ctx (EAP_FAILURE_Enter g sm)) = eapSuccess (eapol_ctx sm)"
  by (simp_all add: EAP_FAILURE_Enter_def eap_io inputs_def)

lemma unchanged_at_rest:
  assumes "SM_STEP_EAP E sm = Some sm'" "\<not> eap_changed sm" "\<not> eap_changed sm'"
    "\<not> (eapRestart (eapol_ctx sm) \<and> EAP_state sm = EAP_INITIALIZE)"
  shows "eap_at_rest sm'"
  using assms(1)
proof (cases rule: SM_STEP_cases)
  case restart
  have "eap_changed (EAP_INITIALIZE_Enter E True sm)" if "EAP_state sm \<noteq> EAP_INITIALIZE"
    using that by (simp add: EAP_INITIALIZE_Enter_def eap_io eap_sm_free_key_def split_beta split: option.splits)
  with restart assms(3,4) show ?thesis by auto
next
  case off
  then show ?thesis using DISABLED_entered [of True sm] by (auto simp: eap_at_rest_def inputs_def)
next
  case limit
  then show ?thesis by (auto simp: eap_at_rest_def)
next
  case local_step
  then have "sm' = sm" using succ_changed [OF yieldsD [OF step_local_succ]] assms(3) by blast
  with local_step local_unchanged_at_rest assms(2) show ?thesis by (simp add: eap_at_rest_def)
qed

lemma step_keeps:
  assumes "SM_STEP_EAP E sm = Some sm'"
  shows "inputs sm' = inputs sm" "\<not> (eapRestart (eapol_ctx sm) \<and> EAP_state sm = EAP_INITIALIZE) \<Longrightarrow>
    \<not> (eapRestart (eapol_ctx sm') \<and> EAP_state sm' = EAP_INITIALIZE)"
proof -
  have *: "inputs (s\<lparr>num_rounds := n\<rparr>) = inputs s" "inputs (s\<lparr>num_rounds_short := n\<rparr>) = inputs s" for s :: "'a eap_sm" and n
    by (simp_all add: inputs_def)
  from assms have "inputs sm' = inputs sm \<and> (\<not> (eapRestart (eapol_ctx sm) \<and> EAP_state sm = EAP_INITIALIZE) \<longrightarrow>
    \<not> (eapRestart (eapol_ctx sm') \<and> EAP_state sm' = EAP_INITIALIZE))"
  proof (cases rule: SM_STEP_cases)
    case restart
    then show ?thesis using INITIALIZE_entered [of E True sm] by simp
  next
    case off
    then show ?thesis using DISABLED_entered [of True sm] by simp
  next
    case limit
    then show ?thesis by (auto simp: *)
  next
    case local_step
    then have "eap_succ E sm sm'" using yieldsD [OF step_local_succ] by blast
    then show ?thesis
      by (cases rule: eap_succ.cases)
        (use local_step INITIALIZE_entered [of E False sm] in \<open>auto simp: entered_def answered_def kept_def inputs_def\<close>)
  qed
  then show "inputs sm' = inputs sm" "\<not> (eapRestart (eapol_ctx sm) \<and> EAP_state sm = EAP_INITIALIZE) \<Longrightarrow>
    \<not> (eapRestart (eapol_ctx sm') \<and> EAP_state sm' = EAP_INITIALIZE)" by blast+
qed

text \<open>An invariant of the single step is an invariant of the loop.\<close>

lemma loop_invariant:
  assumes "\<forall>s s'. I s \<longrightarrow> SM_STEP_EAP E (s\<lparr>eap_changed := False\<rparr>) = Some s' \<longrightarrow> I s'" "I sm"
  shows "yields (\<lambda>(r, s). I s) (eap_peer_sm_loop E sm res)"
  using assms
proof (induction E sm res rule: eap_peer_sm_loop.induct)
  case (1 E sm res)
  show ?case
  proof (cases "SM_STEP_EAP E (sm\<lparr>eap_changed := False\<rparr>)")
    case (Some s')
    then have "I s'" using "1.prems" by blast
    then show ?thesis using Some "1.IH" [OF Some _ "1.prems"(1)]
      by (subst eap_peer_sm_loop.simps) simp
  qed (subst eap_peer_sm_loop.simps, simp)
qed

lemma loop_returns:
  assumes "env_ok E" "eap_inv sm" "\<not> (eapRestart (eapol_ctx sm) \<and> EAP_state sm = EAP_INITIALIZE)"
  shows "returns (\<lambda>(r, s). eap_inv s \<and> eap_at_rest s \<and> inputs s = inputs sm) (eap_peer_sm_loop E sm res)"
  using assms
proof (induction E sm res rule: eap_peer_sm_loop.induct)
  case (1 E sm res)
  let ?s = "sm\<lparr>eap_changed := False\<rparr>"
  have "eap_inv ?s" using "1.prems"(2) by simp
  from SM_STEP_safe [OF "1.prems"(1) this] obtain s' where s': "SM_STEP_EAP E ?s = Some s'" "eap_inv s'"
    by (auto simp: returns_iff)
  have j: "\<not> (eapRestart (eapol_ctx ?s) \<and> EAP_state ?s = EAP_INITIALIZE)" using "1.prems"(3) by simp
  have k: "inputs s' = inputs sm" "\<not> (eapRestart (eapol_ctx s') \<and> EAP_state s' = EAP_INITIALIZE)"
    using step_keeps [OF s'(1)] j by (auto simp: inputs_def)
  show ?case
  proof (cases "eap_changed s'")
    case True
    from "1.IH" [OF s'(1) True "1.prems"(1) s'(2) k(2)] k(1) s'(1) True show ?thesis
      by (subst eap_peer_sm_loop.simps) simp
  next
    case False
    have "eap_at_rest s'" by (rule unchanged_at_rest [OF s'(1) _ False j]) simp
    with False s' k(1) show ?thesis by (subst eap_peer_sm_loop.simps) simp
  qed
qed

section \<open>Success is decided by the method\<close>

text \<open>The ground on which the machine may report success.\<close>

definition success_ground :: "'p eap_sm \<Rightarrow> bool" where
  "success_ground sm \<longleftrightarrow>
     decision sm \<noteq> DECISION_FAIL \<or> (workaround sm \<and> rxSuccess sm \<and> eap_peer_sm_allow_canned sm)"

text \<open>\<open>success_inv\<close>: success is signalled only in the state SUCCESS, on such a ground, with
  the port enabled and within the limits on the number of rounds.\<close>

definition success_inv :: "'p eap_sm \<Rightarrow> bool" where
  "success_inv sm \<longleftrightarrow> (eapSuccess (eapol_ctx sm) \<longrightarrow>
     EAP_state sm = EAP_SUCCESS \<and> success_ground sm \<and> portEnabled (eapol_ctx sm) \<and> \<not> force_disabled sm \<and>
     num_rounds sm \<le> EAP_MAX_AUTH_ROUNDS \<and> num_rounds_short sm \<le> EAP_MAX_AUTH_ROUNDS_SHORT)"

lemma SUCCESS_frame [simp]:
  "EAP_state (EAP_SUCCESS_Enter g sm) = EAP_SUCCESS" "decision (EAP_SUCCESS_Enter g sm) = decision sm"
  "workaround (EAP_SUCCESS_Enter g sm) = workaround sm" "rxSuccess (EAP_SUCCESS_Enter g sm) = rxSuccess sm"
  "eap_peer_sm_allow_canned (EAP_SUCCESS_Enter g sm) = eap_peer_sm_allow_canned sm"
  "portEnabled (eapol_ctx (EAP_SUCCESS_Enter g sm)) = portEnabled (eapol_ctx sm)"
  "force_disabled (EAP_SUCCESS_Enter g sm) = force_disabled sm"
  "num_rounds (EAP_SUCCESS_Enter g sm) = num_rounds sm"
  "num_rounds_short (EAP_SUCCESS_Enter g sm) = num_rounds_short sm"
  by (simp_all add: EAP_SUCCESS_Enter_def eap_io eap_peer_sm_allow_canned_def eap_get_config_def
      eapol_sm_get_config_def)

lemma save_response_success:
  "save_response s = Some s' \<Longrightarrow> eapSuccess (eapol_ctx s') = eapSuccess (eapol_ctx s)"
proof (erule yieldsD [rotated])
  show "yields (\<lambda>s'. eapSuccess (eapol_ctx s') = eapSuccess (eapol_ctx s)) (save_response s)"
    unfolding save_response_def wlp
    by (intro conjI impI allI yieldsI; simp add: quiet_flags [OF quiet_ask] split: if_split)
qed

lemma SEND_RESPONSE_success:
  "EAP_SEND_RESPONSE_Enter g sm = Some sm' \<Longrightarrow> eapSuccess (eapol_ctx sm') = eapSuccess (eapol_ctx sm)"
  by (auto simp: EAP_SEND_RESPONSE_Enter_def bind_eq_Some_conv Let_def dest!: save_response_success)

lemma other_success:
  "eapSuccess (eapol_ctx (EAP_DISCARD_Enter g sm)) = eapSuccess (eapol_ctx sm)"
  "eapSuccess (eapol_ctx (EAP_DISABLED_Enter g sm)) = eapSuccess (eapol_ctx sm)"
  "\<not> eapSuccess (eapol_ctx (EAP_INITIALIZE_Enter E g sm))"
  by (simp_all add: EAP_DISCARD_Enter_def EAP_DISABLED_Enter_def EAP_INITIALIZE_Enter_def eap_io
      eap_sm_free_key_def split_beta split: option.splits)

lemma entered_success: "entered st sm sm' \<Longrightarrow> eapSuccess (eapol_ctx sm') = eapSuccess (eapol_ctx sm)"
  by (simp add: entered_def kept_def)

lemma success_inv_none: "\<not> eapSuccess (eapol_ctx sm) \<Longrightarrow> success_inv sm"
  by (simp add: success_inv_def)

lemma success_inv_local:
  assumes "\<not> eapSuccess (eapol_ctx sm)" "portEnabled (eapol_ctx sm)" "\<not> force_disabled sm"
    "num_rounds sm \<le> EAP_MAX_AUTH_ROUNDS" "num_rounds_short sm \<le> EAP_MAX_AUTH_ROUNDS_SHORT"
  shows "yields success_inv (eap_peer_sm_step_local E sm)"
proof -
  have ent: "yields success_inv x" if "\<And>s. x = Some s \<Longrightarrow> entered st sm s" for x st
    using that assms(1) by (intro yieldsI success_inv_none) (simp add: entered_success)
  have snd: "yields success_inv (EAP_SEND_RESPONSE_Enter g sm)" for g
    using assms(1) by (intro yieldsI success_inv_none) (simp add: SEND_RESPONSE_success)
  have fin: "success_inv (EAP_DISCARD_Enter g sm)" "success_inv (EAP_FAILURE_Enter g sm)"
    "success_inv (EAP_INITIALIZE_Enter E g sm)" "success_inv (EAP_IDLE_Enter False sm)" "success_inv sm" for g
    using assms(1) entered_success [OF IDLE_entered, of sm] by (auto intro!: success_inv_none simp: other_success)
  have suc: "success_inv (EAP_SUCCESS_Enter g sm)" if "success_ground sm" for g
    using that assms(2-5) by (simp add: success_inv_def success_ground_def)
  note rules = ent [OF RECEIVED_entered] ent [OF RETRANSMIT_entered] ent [OF NOTIFICATION_entered]
    ent [OF IDENTITY_entered] ent [OF GET_METHOD_entered] ent [OF METHOD_entered] snd fin
  have i: "yields success_inv (eap_peer_sm_step_idle E sm)"
    unfolding eap_peer_sm_step_idle_def yields_if yields_Some
    by (auto simp: rules success_ground_def intro!: suc)
  have r: "yields success_inv (eap_peer_sm_step_received E sm)"
    unfolding eap_peer_sm_step_received_def Let_def yields_if yields_Some
    by (simp add: rules suc success_ground_def del: eap_type_defs)
  show ?thesis
    using i r by (cases "EAP_state sm") (simp_all add: eap_peer_sm_step_local_def rules)
qed

lemma success_inv_step:
  assumes "success_inv sm" "SM_STEP_EAP E (sm\<lparr>eap_changed := False\<rparr>) = Some sm'"
  shows "success_inv sm'"
proof -
  let ?s = "sm\<lparr>eap_changed := False\<rparr>"
  have i: "success_inv ?s" using assms(1)
    by (simp add: success_inv_def success_ground_def eap_peer_sm_allow_canned_def eap_get_config_def)
  from assms(2) show ?thesis
  proof (cases rule: SM_STEP_cases)
    case restart
    then show ?thesis by (simp add: other_success success_inv_none)
  next
    case off
    then have "\<not> eapSuccess (eapol_ctx ?s)" using i by (auto simp: success_inv_def)
    then show ?thesis using off by (simp add: other_success success_inv_none)
  next
    case limit
    then have "\<not> eapSuccess (eapol_ctx ?s)" using i by (auto simp: success_inv_def)
    then show ?thesis using limit by (auto intro: success_inv_none)
  next
    case local_step
    show ?thesis
    proof (cases "eapSuccess (eapol_ctx ?s)")
      case True
      then have "EAP_state ?s = EAP_SUCCESS" using i by (simp add: success_inv_def)
      then have "sm' = ?s" using local_step by (simp add: eap_peer_sm_step_local_def)
      with i show ?thesis by simp
    next
      case False
      from yieldsD [OF success_inv_local [OF False local_step(1,2,4,5)] local_step(6)] show ?thesis .
    qed
  qed
qed

section \<open>Properties\<close>

text \<open>A concrete environment and state, on which the properties are applied below: one
  registered method (EAP-MD5) that answers every request and succeeds.\<close>

definition wit_vars :: meth_vars where
  "wit_vars = \<lparr>sm_ignore = False, leap_done = False, peap_done = False, ClientTimeout = 60,
     expected_failure = False, ext_cert_check = False, waiting_ext_cert_check = False, use_machine_cred = False\<rparr>"

definition wit_buf :: "bytes \<Rightarrow> wpabuf" where
  "wit_buf d = \<lparr>wb_size = length d, wb_used = length d, wb_buf = d, wb_flags = 0\<rparr>"

definition wit_method :: "unit eap_method" where
  "wit_method = \<lparr>em_vendor = 0, em_method = 4, em_name = ''MD5'', em_init = (\<lambda>sm. (Some (), mv sm)),
     em_deinit = (\<lambda>sm p. mv sm),
     em_process = (\<lambda>sm p ret r. (Some (wit_buf [2, 7, 0, 5, 4]),
        ret\<lparr>ret_methodState := METHOD_DONE, ret_decision := DECISION_UNCOND_SUCC\<rparr>, p, mv sm)),
     em_isKeyAvailable = None, em_getKey = None, em_has_reauth_data = None,
     em_deinit_for_reauth = (\<lambda>sm p. (p, mv sm)), em_init_for_reauth = (\<lambda>sm p. (p, mv sm)),
     em_get_identity = None, em_get_error_code = None, em_getSessionId = None\<rparr>"

definition wit_env :: "unit eap_env" where
  "wit_env = \<lparr>methods = [wit_method], sha1 = (\<lambda>b. replicate 20 0)\<rparr>"

definition wit_eapol :: "wpabuf option \<Rightarrow> eapol_vars" where
  "wit_eapol req = \<lparr>eapSuccess = False, eapRestart = False, eapFail = False, eapResp = False, eapNoResp = False,
     eapReq = (req \<noteq> None), portEnabled = True, altAccept = False, altReject = False, eapTriggerStart = False,
     idleWhile = 60, timer_tick_enabled = True, eapReqData = req, config = None, answers = (\<lambda>n. True),
     asked = 0, trace = []\<rparr>"

definition wit_sm :: "wpabuf option \<Rightarrow> unit eap_sm" where
  "wit_sm req = \<lparr>EAP_state = EAP_IDLE, selectedMethod = 0, methodState = METHOD_NONE, lastId = -1,
     lastRespData = None, decision = DECISION_FAIL, rxReq = False, rxSuccess = False, rxFailure = False,
     reqId = 0, reqMethod = 0, reqVendor = 0, reqVendorMethod = 0, allowNotifications = True,
     eapRespData = None, eapKeyAvailable = False, eapKeyData = None, eapSessionId = None, sm_m = None,
     eap_changed = False, eap_method_priv = None, fast_reauth = False, reauthInit = False, erp_seq = 0,
     rxResp = False, req_sha1 = replicate 20 0, last_sha1 = replicate 20 0, workaround = True, num_rounds = 0,
     num_rounds_short = 0, force_disabled = False, prev_failure = False, last_config = None,
     mv = wit_vars, eapol_ctx = wit_eapol req\<rparr>"

lemma wit_env_ok: "env_ok wit_env"
  by (simp add: env_ok_def wit_env_def method_ok_def wit_method_def resp_ok_def wit_buf_def wf_wpabuf_def)

lemma wit_sm_inv: "pred_option wf_wpabuf req \<Longrightarrow> eap_inv (wit_sm req)"
  by (simp add: eap_inv_def wit_sm_def wit_eapol_def)

text \<open>C11. The step function returns, without a fault, in a state that waits. For methods that
  return well-formed responses and any content of the received message,
  \<open>eap_peer_sm_step()\<close> terminates, never reads or writes outside a buffer and never reaches
  \<open>abort()\<close>. Afterwards the machine is DISABLED if the port is down, and otherwise in SUCCESS,
  FAILURE or IDLE with no request left to process, unless the limit on the number of
  authentication rounds stops it.\<close>

theorem eap_peer_sm_step_returns:
  assumes "env_ok E" "eap_inv sm" "\<not> (eapRestart (eapol_ctx sm) \<and> EAP_state sm = EAP_INITIALIZE)"
  shows "\<exists>r sm'. eap_peer_sm_step E sm = Some (r, sm') \<and> eap_inv sm' \<and> eap_at_rest sm'"
  using loop_returns [OF assms, of False] by (auto simp: eap_peer_sm_step_def returns_iff)

theorem eap_peer_sm_step_returns_witness:
  "\<exists>r sm'. eap_peer_sm_step wit_env (wit_sm (Some (wit_buf [1, 7, 0, 5, 4]))) = Some (r, sm') \<and> eap_at_rest sm'"
  using eap_peer_sm_step_returns [OF wit_env_ok, of "wit_sm (Some (wit_buf [1, 7, 0, 5, 4]))"] wit_sm_inv
  by (force simp: wit_buf_def wf_wpabuf_def wit_sm_def)


lemma wit_success_run:
  "map_option (\<lambda>(r, s). eapSuccess (eapol_ctx s))
     (eap_peer_sm_step wit_env ((wit_sm None)\<lparr>decision := DECISION_UNCOND_SUCC,
        eapol_ctx := (wit_eapol None)\<lparr>altAccept := True\<rparr>\<rparr>)) = Some True"
  by code_simp




text \<open>C14. Retransmission. A request with the Identifier of the previous one (and, with workarounds, the
  same hash) is answered with the stored response: two steps from RECEIVED lead to SEND_RESPONSE
  with the same response data and eapResp set, the request consumed, and neither the method's
  private data nor the decision changed, so the method never sees the duplicate.\<close>

theorem eap_duplicate_retransmits:
  assumes "EAP_state sm = EAP_RECEIVED" "portEnabled (eapol_ctx sm)" "\<not> force_disabled sm"
    "\<not> eapRestart (eapol_ctx sm)" "num_rounds sm \<le> 100" "num_rounds_short sm \<le> 50"
    "rxReq sm" "\<not> rxSuccess sm" "\<not> rxFailure sm" "reqId sm = lastId sm"
    "workaround sm \<Longrightarrow> req_sha1 sm = last_sha1 sm"
    "lastRespData sm = Some r" "resp_ok r" "\<forall>n. answers (eapol_ctx sm) n"
  shows "\<exists>s1 s2 r'. SM_STEP_EAP E sm = Some s1 \<and> EAP_state s1 = EAP_RETRANSMIT \<and>
    SM_STEP_EAP E s1 = Some s2 \<and> EAP_state s2 = EAP_SEND_RESPONSE \<and>
    eapRespData s2 = Some r' \<and> wb_data r' = wb_data r \<and> eapResp (eapol_ctx s2) \<and> \<not> eapReq (eapol_ctx s2) \<and>
    eap_method_priv s2 = eap_method_priv sm \<and> decision s2 = decision sm"
proof -
  have dup: "eap_peer_req_is_duplicate sm"
    using assms by (auto simp: eap_peer_req_is_duplicate_def Let_def os_memcmp_eq_0)
  have st1: "SM_STEP_EAP E sm = EAP_RETRANSMIT_Enter False sm"
    using assms dup
    by (simp add: SM_STEP_EAP_def eapol_get_bool_def eap_peer_sm_step_local_def
        eap_peer_sm_step_received_def EAP_MAX_AUTH_ROUNDS_def EAP_MAX_AUTH_ROUNDS_SHORT_def Let_def)
  obtain d where d: "wpabuf_dup True r = Some (Some d)" "resp_ok d" "wb_data d = wb_data r"
    using assms(13) by (rule dup_ok)
  obtain e where e: "wpabuf_dup True d = Some (Some e)" using d(2) by (rule dup_ok)
  let ?s1 = "(snd (eap_ask (SM_ENTRY_EAP False EAP_RETRANSMIT sm)))\<lparr>eapRespData := Some d\<rparr>"
  have ask: "fst (eap_ask s)" if "answers (eapol_ctx s) = answers (eapol_ctx sm)" for s :: "'a eap_sm"
    using that assms(14) by (simp add: eap_ask_def ask_def)
  have s1: "SM_STEP_EAP E sm = Some ?s1"
    unfolding st1 using d(1) assms(12) ask [of "SM_ENTRY_EAP False EAP_RETRANSMIT sm"]
    by (simp add: EAP_RETRANSMIT_Enter_def Let_def split_beta)
  have c1: "eapol_ctx ?s1 = (eapol_ctx sm)\<lparr>asked := Suc (asked (eapol_ctx sm))\<rparr>" "EAP_state ?s1 = EAP_RETRANSMIT"
    "force_disabled ?s1 = force_disabled sm" "num_rounds ?s1 = num_rounds sm"
    "num_rounds_short ?s1 = num_rounds_short sm" "eap_method_priv ?s1 = eap_method_priv sm" "decision ?s1 = decision sm"
    by (simp_all add: eap_ask_def ask_def split_beta)
  have st2: "SM_STEP_EAP E ?s1 = EAP_SEND_RESPONSE_Enter False ?s1"
    using assms(2-6) c1
    by (simp add: SM_STEP_EAP_def eapol_get_bool_def eap_peer_sm_step_local_def
        EAP_MAX_AUTH_ROUNDS_def EAP_MAX_AUTH_ROUNDS_SHORT_def)
  have "returns (\<lambda>s2. EAP_state s2 = EAP_SEND_RESPONSE \<and> eapRespData s2 = Some d \<and> eapResp (eapol_ctx s2) \<and>
      \<not> eapReq (eapol_ctx s2) \<and> eap_method_priv s2 = eap_method_priv sm \<and> decision s2 = decision sm)
     (EAP_SEND_RESPONSE_Enter False ?s1)"
  proof -
    have "returns (\<lambda>s. eapResp (eapol_ctx s) \<and> EAP_state s = EAP_state t \<and> eapRespData s = Some d \<and>
        eap_method_priv s = eap_method_priv t \<and> decision s = decision t) (save_response t)"
      if "eapRespData t = Some d" "answers (eapol_ctx t) = answers (eapol_ctx sm)" for t :: "'a eap_sm"
      unfolding save_response_def wp that(1)
      using that e by (auto simp: ask quietD [OF quiet_ask] eap_set_frame split: if_split)
    note sv = this [of "SM_ENTRY_EAP False EAP_SEND_RESPONSE ?s1"]
    show ?thesis
      unfolding EAP_SEND_RESPONSE_Enter_def wp
      by (rule returns_mono [OF sv]) (use c1 in auto)
  qed
  then obtain s2 where "EAP_SEND_RESPONSE_Enter False ?s1 = Some s2" "EAP_state s2 = EAP_SEND_RESPONSE"
    "eapRespData s2 = Some d" "eapResp (eapol_ctx s2)" "\<not> eapReq (eapol_ctx s2)"
    "eap_method_priv s2 = eap_method_priv sm" "decision s2 = decision sm" by (auto simp: returns_iff)
  with s1 st2 c1(2) d(3) show ?thesis by metis
qed

theorem eap_duplicate_retransmits_witness:
  "\<exists>s1 s2 r'. SM_STEP_EAP wit_env ((wit_sm (Some (wit_buf [1, 7, 0, 5, 4])))\<lparr>EAP_state := EAP_RECEIVED, rxReq := True,
      reqId := 7, lastId := 7, lastRespData := Some (wit_buf [2, 7, 0, 5, 4])\<rparr>) = Some s1 \<and>
    SM_STEP_EAP wit_env s1 = Some s2 \<and> eapRespData s2 = Some r' \<and> wb_data r' = [2, 7, 0, 5, 4]"
  using eap_duplicate_retransmits [of "(wit_sm (Some (wit_buf [1, 7, 0, 5, 4])))\<lparr>EAP_state := EAP_RECEIVED, rxReq := True,
      reqId := 7, lastId := 7, lastRespData := Some (wit_buf [2, 7, 0, 5, 4])\<rparr>" "wit_buf [2, 7, 0, 5, 4]" wit_env]
  by (fastforce simp: wit_sm_def wit_eapol_def wit_buf_def resp_ok_def wf_wpabuf_def wb_data_def)

end
