(* ===== verification/Eapol_props.thy ===== *)
theory Eapol_props
  imports Eapol_supp Eap_peer_props
begin

text \<open>
  Properties of the EAPOL supplicant: which states hold the port closed, on what ground it is
  opened and that every change is reported; the protection of EAPOL-Key frames against replay;
  that no received frame and no event makes the machines fault.
\<close>

section \<open>The EAP layer below\<close>

text \<open>A property \<open>K\<close> of all keys the methods hand out is kept by the EAP machine.\<close>

definition key_inv :: "(bytes \<Rightarrow> bool) \<Rightarrow> 'p eap_sm \<Rightarrow> bool" where
  "key_inv K sm = pred_option K (eapKeyData sm)"

definition env_keys :: "(bytes \<Rightarrow> bool) \<Rightarrow> 'p eap_env \<Rightarrow> bool" where
  "env_keys K E \<longleftrightarrow> (\<forall>meth \<in> set (methods E).
     pred_option (\<lambda>f. \<forall>sm p. pred_option K (f sm p)) (em_getKey meth))"

lemma cur_method_keys:
  "env_keys K E \<Longrightarrow> cur_method E sm = Some meth \<Longrightarrow> pred_option (\<lambda>f. \<forall>sm p. pred_option K (f sm p)) (em_getKey meth)"
  by (auto simp: env_keys_def cur_method_def split: option.splits if_splits)

lemma key_SM_ENTRY [simp]: "eapKeyData (SM_ENTRY_EAP g st sm) = eapKeyData sm"
  by (simp add: SM_ENTRY_EAP_def Let_def)

lemma key_set [simp]:
  "eapKeyData (eapol_set_bool x b sm) = eapKeyData sm" "eapKeyData (eapol_set_int y n sm) = eapKeyData sm"
  "eapKeyData (eap_notify_status u v sm) = eapKeyData sm" "eapKeyData (eap_failure_error E sm) = eapKeyData sm"
  "eapKeyData (snd (eap_ask sm)) = eapKeyData sm" "eapKeyData (eap_deinit_prev_method E sm) = eapKeyData sm"
  by (simp_all add: eapol_set_bool_def eapol_set_int_def upd_ctx_def quietD(16) eap_deinit_prev_method_def
      split: option.split)

abbreviation same_key :: "'p eap_sm \<Rightarrow> 'p eap_sm \<Rightarrow> bool" where
  "same_key sm sm' \<equiv> eapKeyData sm' = eapKeyData sm"

lemma total_key:
  "eapKeyData (EAP_INITIALIZE_Enter E g sm) = None" "eapKeyData (EAP_DISABLED_Enter g sm) = eapKeyData sm"
  "eapKeyData (EAP_IDLE_Enter g sm) = eapKeyData sm" "eapKeyData (EAP_DISCARD_Enter g sm) = eapKeyData sm"
  "eapKeyData (EAP_SUCCESS_Enter g sm) = eapKeyData sm" "eapKeyData (EAP_FAILURE_Enter g sm) = eapKeyData sm"
  by (simp_all add: EAP_INITIALIZE_Enter_def EAP_DISABLED_Enter_def EAP_IDLE_Enter_def EAP_DISCARD_Enter_def
      EAP_SUCCESS_Enter_def EAP_FAILURE_Enter_def Let_def eap_sm_free_key_def)

lemma parse_key: "yields (same_key sm) (eap_sm_parseEapReq E req sm)"
  unfolding eap_sm_parseEapReq_def eap_sm_parse_code_def eap_peer_initiate_def eap_peer_finish_def wlp
  by (intro conjI impI allI yieldsI; simp add: wlp; (intro conjI impI allI yieldsI; simp add: wlp)?)

lemma RECEIVED_key: "yields (same_key sm) (EAP_RECEIVED_Enter E g sm)"
  unfolding EAP_RECEIVED_Enter_def wlp
  by (rule yields_mono [OF parse_key]) simp

lemma nak_key: "same_key a b \<Longrightarrow> yields (same_key a) (get_method_nak E b)"
  unfolding get_method_nak_def wlp
  by (rule yieldsI) (auto dest!: eap_sm_buildNak_quiet simp: quietD(16))

lemma GET_METHOD_key: "yields (same_key sm) (EAP_GET_METHOD_Enter E g sm)"
  unfolding EAP_GET_METHOD_Enter_def wlp
  by (intro conjI impI allI nak_key; simp split: if_split)

lemma IDENTITY_key: "yields (same_key sm) (EAP_IDENTITY_Enter E g sm)"
  unfolding EAP_IDENTITY_Enter_def wlp
  by (intro conjI impI allI yieldsI; simp)
    (auto intro!: yieldsI simp: quietD(16) dest!: eap_sm_processIdentity_quiet eap_sm_buildIdentity_quiet)

lemma NOTIFICATION_key: "yields (same_key sm) (EAP_NOTIFICATION_Enter g sm)"
  unfolding EAP_NOTIFICATION_Enter_def wlp
  by (intro conjI impI allI yieldsI; simp)
    (auto intro!: yieldsI simp: quietD(16) dest!: eap_sm_processNotify_quiet eap_sm_buildNotify_quiet)

lemma RETRANSMIT_key: "yields (same_key sm) (EAP_RETRANSMIT_Enter g sm)"
  unfolding EAP_RETRANSMIT_Enter_def wlp
  by (intro conjI impI allI yieldsI; simp)

lemma SEND_RESPONSE_key: "yields (same_key sm) (EAP_SEND_RESPONSE_Enter g sm)"
  unfolding EAP_SEND_RESPONSE_Enter_def save_response_def wlp
  by (intro conjI impI allI yieldsI; simp split: if_split)

lemma METHOD_key: "env_keys K E \<Longrightarrow> key_inv K sm \<Longrightarrow> yields (key_inv K) (EAP_METHOD_Enter E g sm)"
  unfolding EAP_METHOD_Enter_def wlp
  by (intro conjI impI allI yieldsI; simp add: key_inv_def)
    (auto dest!: cur_method_keys simp: method_keys_def eap_sm_free_key_def Let_def split: option.split)

lemma same_key_inv: "yields (same_key sm) x \<Longrightarrow> key_inv K sm \<Longrightarrow> yields (key_inv K) x"
  by (erule yields_mono) (simp add: key_inv_def)

lemmas key_rules = RECEIVED_key GET_METHOD_key IDENTITY_key NOTIFICATION_key RETRANSMIT_key SEND_RESPONSE_key

lemma SM_STEP_key:
  assumes "env_keys K E" "key_inv K sm"
  shows "yields (key_inv K) (SM_STEP_EAP E sm)"
proof -
  note r = key_rules [THEN same_key_inv, OF assms(2)] METHOD_key [OF assms]
  have t: "key_inv K (EAP_INITIALIZE_Enter E g sm)" "key_inv K (EAP_DISABLED_Enter g sm)"
    "key_inv K (EAP_IDLE_Enter g sm)" "key_inv K (EAP_DISCARD_Enter g sm)" "key_inv K (EAP_SUCCESS_Enter g sm)"
    "key_inv K (EAP_FAILURE_Enter g sm)" "key_inv K (EAP_FAILURE_Enter g (sm\<lparr>num_rounds := n\<rparr>))"
    "key_inv K (EAP_FAILURE_Enter g (sm\<lparr>num_rounds_short := n\<rparr>))" for g n
    using assms(2) by (simp_all add: key_inv_def total_key)
  have i: "yields (key_inv K) (eap_peer_sm_step_idle E sm)"
    unfolding eap_peer_sm_step_idle_def yields_if yields_Some by (simp add: r t assms(2))
  have rc: "yields (key_inv K) (eap_peer_sm_step_received E sm)"
    unfolding eap_peer_sm_step_received_def Let_def yields_if yields_Some by (simp add: r t del: eap_type_defs)
  have "yields (key_inv K) (eap_peer_sm_step_local E sm)"
    using i rc by (cases "EAP_state sm") (simp_all add: eap_peer_sm_step_local_def r t assms(2))
  then show ?thesis
    unfolding SM_STEP_EAP_def yields_if yields_Some using assms(2) t by simp
qed

text \<open>A call of \<open>eap_peer_sm_step()\<close>: no fault, the invariants kept, the inputs and the trace
  of the lower layer untouched.\<close>

lemma eap_loop_safe:
  assumes "env_ok E" "eap_inv sm"
  shows "returns (\<lambda>(r, s). eap_inv s) (eap_peer_sm_loop E sm res)"
  using assms
proof (induction E sm res rule: eap_peer_sm_loop.induct)
  case (1 E sm res)
  have "eap_inv (sm\<lparr>eap_changed := False\<rparr>)" using "1.prems"(2) by simp
  from SM_STEP_safe [OF "1.prems"(1) this] obtain s' where
    s': "SM_STEP_EAP E (sm\<lparr>eap_changed := False\<rparr>) = Some s'" "eap_inv s'" by (auto simp: returns_iff)
  show ?case
    using s' "1.IH" [OF s'(1) _ "1.prems"(1) s'(2)] by (subst eap_peer_sm_loop.simps) simp
qed

lemma eap_step_frame: "yields (\<lambda>(r, s). inputs s = inputs sm) (eap_peer_sm_step E sm)"
  unfolding eap_peer_sm_step_def
  by (rule loop_invariant) (auto dest!: step_keeps(1) simp: inputs_def)

lemma eap_step_key:
  assumes "env_keys K E" "key_inv K sm"
  shows "yields (\<lambda>(r, s). key_inv K s) (eap_peer_sm_step E sm)"
  unfolding eap_peer_sm_step_def
proof (rule loop_invariant)
  show "\<forall>s s'. key_inv K s \<longrightarrow> SM_STEP_EAP E (s\<lparr>eap_changed := False\<rparr>) = Some s' \<longrightarrow> key_inv K s'"
    by (auto dest!: yieldsD [OF SM_STEP_key [OF assms(1)], rotated] simp: key_inv_def)
qed (rule assms(2))

lemma returns_eap_step:
  assumes "env_ok E" "eap_inv sm" "env_keys K E" "key_inv K sm"
    "\<And>r s. eap_inv s \<Longrightarrow> key_inv K s \<Longrightarrow> inputs s = inputs sm \<Longrightarrow> P (r, s)"
  shows "returns P (eap_peer_sm_step E sm)"
proof -
  from eap_loop_safe [OF assms(1,2), of False] obtain r s where
    rs: "eap_peer_sm_step E sm = Some (r, s)" "eap_inv s" by (auto simp: eap_peer_sm_step_def returns_iff)
  with yieldsD [OF eap_step_frame rs(1)] yieldsD [OF eap_step_key [OF assms(3,4)] rs(1)] assms(5)
  show ?thesis by simp
qed

section \<open>The port\<close>

text \<open>The last port status reported through \<open>port_cb\<close>.\<close>

definition last_report :: "effect list \<Rightarrow> bool option" where
  "last_report es = fold (\<lambda>e r. case e of Port_cb b \<Rightarrow> Some b | _ \<Rightarrow> r) es None"

lemma last_report_append [simp]:
  "last_report (es @ [e]) = (case e of Port_cb b \<Rightarrow> Some b | _ \<Rightarrow> last_report es)"
  by (cases e) (simp_all add: last_report_def)

fun is_port_cb :: "effect \<Rightarrow> bool" where
  "is_port_cb (Port_cb _) = True"
| "is_port_cb _ = False"

lemma last_report_emit: "\<not> is_port_cb e \<Longrightarrow> last_report (lower_trace (emit e v)) = last_report (lower_trace v)"
  by (cases e) simp_all

definition port_view :: "'p eapol_sm \<Rightarrow> SUPP_PAE_states \<times> PortStatus \<times> bool option" where
  "port_view s = (SUPP_PAE_state s, suppPortStatus s, last_report (lower_trace (vars s)))"

definition closed_states :: "SUPP_PAE_states list" where
  "closed_states = [SUPP_PAE_UNKNOWN, SUPP_PAE_DISCONNECTED, SUPP_PAE_LOGOFF, SUPP_PAE_HELD, SUPP_PAE_S_FORCE_UNAUTH]"

definition port_ok :: "SUPP_PAE_states \<times> PortStatus \<times> bool option \<Rightarrow> bool" where
  "port_ok v = (case v of (st, ps, rep) \<Rightarrow>
     (st \<in> set closed_states \<longrightarrow> ps = Unauthorized) \<and>
     (st \<in> {SUPP_PAE_AUTHENTICATED, SUPP_PAE_S_FORCE_AUTH} \<longrightarrow> ps = Authorized) \<and>
     (rep = Some (ps = Authorized) \<or> (rep = None \<and> ps = Unauthorized)))"

lemmas eapol_io = vars_def upd_vars_def upd_ctx_def upd_stats_def eapol_ask_def split_beta Let_def

lemma port_view_upd [simp]:
  "port_view (upd_stats g s) = port_view s"
  "(\<And>v. lower_trace (f v) = lower_trace v) \<Longrightarrow> port_view (upd_vars f s) = port_view s"
  "\<not> is_port_cb e \<Longrightarrow> port_view (upd_vars (emit e) s) = port_view s"
  "port_view (snd (eapol_ask s)) = port_view s"
  by (simp_all add: port_view_def eapol_io last_report_emit del: lower_trace_emit)

lemma vars_fields [simp]:
  "vars (s\<lparr>authWhile := x0\<rparr>) = vars s"
  "vars (s\<lparr>heldWhile := x1\<rparr>) = vars s"
  "vars (s\<lparr>startWhen := x2\<rparr>) = vars s"
  "vars (s\<lparr>eapolEap := x3\<rparr>) = vars s"
  "vars (s\<lparr>initialize := x4\<rparr>) = vars s"
  "vars (s\<lparr>keyDone := x5\<rparr>) = vars s"
  "vars (s\<lparr>keyRun := x6\<rparr>) = vars s"
  "vars (s\<lparr>portControl := x7\<rparr>) = vars s"
  "vars (s\<lparr>suppPortStatus := x8\<rparr>) = vars s"
  "vars (s\<lparr>portValid := x9\<rparr>) = vars s"
  "vars (s\<lparr>suppAbort := x10\<rparr>) = vars s"
  "vars (s\<lparr>suppFail := x11\<rparr>) = vars s"
  "vars (s\<lparr>suppStart := x12\<rparr>) = vars s"
  "vars (s\<lparr>suppSuccess := x13\<rparr>) = vars s"
  "vars (s\<lparr>suppTimeout := x14\<rparr>) = vars s"
  "vars (s\<lparr>SUPP_PAE_state := x15\<rparr>) = vars s"
  "vars (s\<lparr>userLogoff := x16\<rparr>) = vars s"
  "vars (s\<lparr>logoffSent := x17\<rparr>) = vars s"
  "vars (s\<lparr>startCount := x18\<rparr>) = vars s"
  "vars (s\<lparr>sPortMode := x19\<rparr>) = vars s"
  "vars (s\<lparr>heldPeriod := x20\<rparr>) = vars s"
  "vars (s\<lparr>startPeriod := x21\<rparr>) = vars s"
  "vars (s\<lparr>maxStart := x22\<rparr>) = vars s"
  "vars (s\<lparr>KEY_RX_state := x23\<rparr>) = vars s"
  "vars (s\<lparr>rxKey := x24\<rparr>) = vars s"
  "vars (s\<lparr>SUPP_BE_state := x25\<rparr>) = vars s"
  "vars (s\<lparr>authPeriod := x26\<rparr>) = vars s"
  "vars (s\<lparr>stats := x27\<rparr>) = vars s"
  "vars (s\<lparr>eapol_changed := x28\<rparr>) = vars s"
  "vars (s\<lparr>initial_req := x29\<rparr>) = vars s"
  "vars (s\<lparr>last_rx_key := x30\<rparr>) = vars s"
  "vars (s\<lparr>replay_counter_valid := x31\<rparr>) = vars s"
  "vars (s\<lparr>last_replay_counter := x32\<rparr>) = vars s"
  "vars (s\<lparr>conf := x33\<rparr>) = vars s"
  "vars (s\<lparr>cb_status := x34\<rparr>) = vars s"
  "vars (s\<lparr>cached_pmk := x35\<rparr>) = vars s"
  "vars (s\<lparr>unicast_key_received := x36\<rparr>) = vars s"
  "vars (s\<lparr>broadcast_key_received := x37\<rparr>) = vars s"
  "vars (s\<lparr>force_authorized_update := x38\<rparr>) = vars s"
  "vars (s\<lparr>preauth := x39\<rparr>) = vars s"
  by (simp_all add: vars_def)

lemma port_view_fields [simp]:
  "port_view (s\<lparr>authWhile := t\<rparr>) = port_view s" "port_view (s\<lparr>heldWhile := t\<rparr>) = port_view s"
  "port_view (s\<lparr>startWhen := t\<rparr>) = port_view s" "port_view (s\<lparr>eapolEap := b\<rparr>) = port_view s"
  "port_view (s\<lparr>initialize := b\<rparr>) = port_view s" "port_view (s\<lparr>keyDone := b\<rparr>) = port_view s"
  "port_view (s\<lparr>keyRun := b\<rparr>) = port_view s" "port_view (s\<lparr>portControl := pc\<rparr>) = port_view s"
  "port_view (s\<lparr>portValid := b\<rparr>) = port_view s" "port_view (s\<lparr>suppAbort := b\<rparr>) = port_view s"
  "port_view (s\<lparr>suppFail := b\<rparr>) = port_view s" "port_view (s\<lparr>suppStart := b\<rparr>) = port_view s"
  "port_view (s\<lparr>suppSuccess := b\<rparr>) = port_view s" "port_view (s\<lparr>suppTimeout := b\<rparr>) = port_view s"
  "port_view (s\<lparr>userLogoff := b\<rparr>) = port_view s" "port_view (s\<lparr>logoffSent := b\<rparr>) = port_view s"
  "port_view (s\<lparr>startCount := t\<rparr>) = port_view s" "port_view (s\<lparr>sPortMode := pc\<rparr>) = port_view s"
  "port_view (s\<lparr>KEY_RX_state := kr\<rparr>) = port_view s" "port_view (s\<lparr>rxKey := b\<rparr>) = port_view s"
  "port_view (s\<lparr>SUPP_BE_state := be\<rparr>) = port_view s" "port_view (s\<lparr>eapol_changed := b\<rparr>) = port_view s"
  "port_view (s\<lparr>initial_req := b\<rparr>) = port_view s" "port_view (s\<lparr>last_rx_key := lk\<rparr>) = port_view s"
  "port_view (s\<lparr>replay_counter_valid := b\<rparr>) = port_view s" "port_view (s\<lparr>last_replay_counter := rc\<rparr>) = port_view s"
  "port_view (s\<lparr>conf := cf\<rparr>) = port_view s" "port_view (s\<lparr>cb_status := cs\<rparr>) = port_view s"
  "port_view (s\<lparr>cached_pmk := b\<rparr>) = port_view s" "port_view (s\<lparr>unicast_key_received := b\<rparr>) = port_view s"
  "port_view (s\<lparr>broadcast_key_received := b\<rparr>) = port_view s" "port_view (s\<lparr>force_authorized_update := b\<rparr>) = port_view s"
  "port_view (s\<lparr>heldPeriod := t\<rparr>) = port_view s" "port_view (s\<lparr>startPeriod := t\<rparr>) = port_view s"
  "port_view (s\<lparr>maxStart := t\<rparr>) = port_view s" "port_view (s\<lparr>authPeriod := t\<rparr>) = port_view s"
  by (simp_all add: port_view_def vars_def)

lemma port_view_eap:
  "lower_trace (eapol_ctx e) = lower_trace (vars s) \<Longrightarrow> port_view (s\<lparr>eap := e\<rparr>) = port_view s"
  by (simp add: port_view_def vars_def)

text \<open>The two functions that change the status.\<close>

definition view_set :: "PortStatus \<Rightarrow> bool \<Rightarrow> SUPP_PAE_states \<times> PortStatus \<times> bool option \<Rightarrow>
    SUPP_PAE_states \<times> PortStatus \<times> bool option" where
  "view_set p force v = (case v of (st, ps, rep) \<Rightarrow> (st, p, if ps \<noteq> p \<or> force then Some (p = Authorized) else rep))"

definition view_enter :: "SUPP_PAE_states \<Rightarrow> SUPP_PAE_states \<times> PortStatus \<times> bool option \<Rightarrow>
    SUPP_PAE_states \<times> PortStatus \<times> bool option" where
  "view_enter st v = (st, snd v)"

lemma port_view_set [simp]:
  "port_view (eapol_sm_set_port_unauthorized s) = view_set Unauthorized (force_authorized_update s) (port_view s)"
  "port_view (eapol_sm_set_port_authorized s) = view_set Authorized (force_authorized_update s) (port_view s)"
  by (simp_all add: eapol_sm_set_port_unauthorized_def eapol_sm_set_port_authorized_def port_view_def eapol_io view_set_def)

lemma port_view_SM_ENTRY [simp]:
  "port_view (SM_ENTRY_SUPP_PAE g st s) = view_enter st (port_view s)"
  "port_view (s\<lparr>SUPP_PAE_state := st\<rparr>) = view_enter st (port_view s)"
  by (simp_all add: SM_ENTRY_SUPP_PAE_def Let_def port_view_def view_enter_def vars_def)

lemma tx_frame [simp]:
  "port_view (eapol_sm_txLogoff s) = port_view s" "port_view (eapol_sm_txStart s) = port_view s"
  by (simp_all add: eapol_sm_txLogoff_def eapol_sm_txStart_def)

lemma port_ok_enter:
  assumes "port_ok v"
  shows "st \<in> set closed_states \<Longrightarrow> port_ok (view_set Unauthorized f (view_enter st v))"
    "port_ok (view_enter SUPP_PAE_CONNECTING v)" "port_ok (view_enter SUPP_PAE_AUTHENTICATING v)"
    "port_ok (view_enter SUPP_PAE_RESTART v)"
    "st \<notin> set closed_states \<Longrightarrow> port_ok (view_set Authorized f (view_enter st v))"
    "port_ok (view_set Unauthorized f (view_enter SUPP_PAE_CONNECTING v))"
  using assms by (cases v; force simp: port_ok_def view_set_def view_enter_def closed_states_def)+

lemma port_view_enter:
  assumes "port_ok (port_view s)"
  shows "port_ok (port_view (SUPP_PAE_LOGOFF_Enter g s))" "port_ok (port_view (SUPP_PAE_DISCONNECTED_Enter g s))"
    "port_ok (port_view (SUPP_PAE_CONNECTING_Enter g s))" "port_ok (port_view (SUPP_PAE_AUTHENTICATING_Enter g s))"
    "port_ok (port_view (SUPP_PAE_HELD_Enter g s))" "port_ok (port_view (SUPP_PAE_AUTHENTICATED_Enter g s))"
    "port_ok (port_view (SUPP_PAE_RESTART_Enter g s))" "port_ok (port_view (SUPP_PAE_S_FORCE_AUTH_Enter g s))"
    "port_ok (port_view (SUPP_PAE_S_FORCE_UNAUTH_Enter g s))"
  using assms port_ok_enter [OF assms]
  by (simp_all add: SUPP_PAE_LOGOFF_Enter_def SUPP_PAE_DISCONNECTED_Enter_def SUPP_PAE_CONNECTING_Enter_def
      SUPP_PAE_AUTHENTICATING_Enter_def SUPP_PAE_HELD_Enter_def SUPP_PAE_AUTHENTICATED_Enter_def
      SUPP_PAE_RESTART_Enter_def SUPP_PAE_S_FORCE_AUTH_Enter_def SUPP_PAE_S_FORCE_UNAUTH_Enter_def
      eapol_sm_confirm_auth_def Let_def split_beta closed_states_def)

lemma SM_STEP_PAE_port:
  assumes "port_ok (port_view s)"
  shows "port_ok (port_view (SM_STEP_SUPP_PAE s))"
proof -
  have v: "port_ok (port_view (upd_vars (emit Eapol_done) (s\<lparr>portValid := True\<rparr>)))" using assms by simp
  have l: "port_ok (port_view (supp_pae_local s))"
    using assms v
    by (cases "SUPP_PAE_state s")
      (simp_all add: supp_pae_local_def supp_pae_connecting_def supp_pae_authenticating_def Let_def port_view_enter)
  show ?thesis
    unfolding SM_STEP_SUPP_PAE_def Let_def using assms l by (simp add: port_view_enter)
qed

section \<open>The other machines leave the port alone\<close>

lemma lower_success_ctx [simp]:
  "lower_trace (eapol_ctx (eap_notify_lower_layer_success sm)) = lower_trace (eapol_ctx sm)"
  "lower_trace (eapol_ctx (eap_sm_abort sm)) = lower_trace (eapol_ctx sm)"
  by (simp_all add: eap_notify_lower_layer_success_def eap_sm_abort_def eap_sm_free_key_def Let_def
      eapol_set_bool_def upd_ctx_def)

lemma install_key_port: "yields (\<lambda>s'. port_view s' = port_view s) (eapol_sm_install_key frame dk s)"
  unfolding eapol_sm_install_key_def wlp
  by (intro yieldsI conjI impI allI; simp split: if_split)

section \<open>No step faults\<close>

text \<open>The key material is long enough for \<open>eapol_sm_processKey()\<close>: methods that derive less
  (LEAP) are excluded here.\<close>

definition key64 :: "bytes \<Rightarrow> bool" where
  "key64 k \<longleftrightarrow> 64 \<le> length k"

definition eapol_safe :: "'p eapol_sm \<Rightarrow> bool" where
  "eapol_safe s \<longleftrightarrow> eap_inv (eap s) \<and> key_inv key64 (eap s)"

definition eapol_env_ok :: "'p eapol_env \<Rightarrow> bool" where
  "eapol_env_ok E \<longleftrightarrow> env_ok (env_eap E) \<and> env_keys key64 (env_eap E)"

lemma eapol_safe_upd [simp]:
  "eapol_safe (upd_stats g s) = eapol_safe s"
  "(\<And>v. eapReqData (f v) = eapReqData v) \<Longrightarrow> (\<And>v. config (f v) = config v) \<Longrightarrow> eapol_safe (upd_vars f s) = eapol_safe s"
  "eapol_safe (snd (eapol_ask s)) = eapol_safe s"
  by (simp_all add: eapol_safe_def eap_inv_def key_inv_def eapol_io ask_def)

lemma eapol_safe_field [simp]:
  "eapol_safe (s\<lparr>authWhile := x0\<rparr>) = eapol_safe s"
  "eapol_safe (s\<lparr>heldWhile := x1\<rparr>) = eapol_safe s"
  "eapol_safe (s\<lparr>startWhen := x2\<rparr>) = eapol_safe s"
  "eapol_safe (s\<lparr>eapolEap := x3\<rparr>) = eapol_safe s"
  "eapol_safe (s\<lparr>initialize := x4\<rparr>) = eapol_safe s"
  "eapol_safe (s\<lparr>keyDone := x5\<rparr>) = eapol_safe s"
  "eapol_safe (s\<lparr>keyRun := x6\<rparr>) = eapol_safe s"
  "eapol_safe (s\<lparr>portControl := x7\<rparr>) = eapol_safe s"
  "eapol_safe (s\<lparr>suppPortStatus := x8\<rparr>) = eapol_safe s"
  "eapol_safe (s\<lparr>portValid := x9\<rparr>) = eapol_safe s"
  "eapol_safe (s\<lparr>suppAbort := x10\<rparr>) = eapol_safe s"
  "eapol_safe (s\<lparr>suppFail := x11\<rparr>) = eapol_safe s"
  "eapol_safe (s\<lparr>suppStart := x12\<rparr>) = eapol_safe s"
  "eapol_safe (s\<lparr>suppSuccess := x13\<rparr>) = eapol_safe s"
  "eapol_safe (s\<lparr>suppTimeout := x14\<rparr>) = eapol_safe s"
  "eapol_safe (s\<lparr>SUPP_PAE_state := x15\<rparr>) = eapol_safe s"
  "eapol_safe (s\<lparr>userLogoff := x16\<rparr>) = eapol_safe s"
  "eapol_safe (s\<lparr>logoffSent := x17\<rparr>) = eapol_safe s"
  "eapol_safe (s\<lparr>startCount := x18\<rparr>) = eapol_safe s"
  "eapol_safe (s\<lparr>sPortMode := x19\<rparr>) = eapol_safe s"
  "eapol_safe (s\<lparr>heldPeriod := x20\<rparr>) = eapol_safe s"
  "eapol_safe (s\<lparr>startPeriod := x21\<rparr>) = eapol_safe s"
  "eapol_safe (s\<lparr>maxStart := x22\<rparr>) = eapol_safe s"
  "eapol_safe (s\<lparr>KEY_RX_state := x23\<rparr>) = eapol_safe s"
  "eapol_safe (s\<lparr>rxKey := x24\<rparr>) = eapol_safe s"
  "eapol_safe (s\<lparr>SUPP_BE_state := x25\<rparr>) = eapol_safe s"
  "eapol_safe (s\<lparr>authPeriod := x26\<rparr>) = eapol_safe s"
  "eapol_safe (s\<lparr>stats := x27\<rparr>) = eapol_safe s"
  "eapol_safe (s\<lparr>eapol_changed := x28\<rparr>) = eapol_safe s"
  "eapol_safe (s\<lparr>initial_req := x29\<rparr>) = eapol_safe s"
  "eapol_safe (s\<lparr>last_rx_key := x30\<rparr>) = eapol_safe s"
  "eapol_safe (s\<lparr>replay_counter_valid := x31\<rparr>) = eapol_safe s"
  "eapol_safe (s\<lparr>last_replay_counter := x32\<rparr>) = eapol_safe s"
  "eapol_safe (s\<lparr>conf := x33\<rparr>) = eapol_safe s"
  "eapol_safe (s\<lparr>cb_status := x34\<rparr>) = eapol_safe s"
  "eapol_safe (s\<lparr>cached_pmk := x35\<rparr>) = eapol_safe s"
  "eapol_safe (s\<lparr>unicast_key_received := x36\<rparr>) = eapol_safe s"
  "eapol_safe (s\<lparr>broadcast_key_received := x37\<rparr>) = eapol_safe s"
  "eapol_safe (s\<lparr>force_authorized_update := x38\<rparr>) = eapol_safe s"
  "eapol_safe (s\<lparr>preauth := x39\<rparr>) = eapol_safe s"
  by (simp_all add: eapol_safe_def)

lemma lower_success_key [simp]: "eapKeyData (eap_notify_lower_layer_success sm) = eapKeyData sm"
  by (simp add: eap_notify_lower_layer_success_def Let_def)

lemma lower_success_frame [simp]:
  fixes s :: "'b eapol_sm"
  shows "eapol_safe (eapol_sm_lower_layer_success s) = eapol_safe s"
  "port_view (eapol_sm_lower_layer_success s) = port_view s"
proof -
  have "eap_inv (eap_notify_lower_layer_success sm) = eap_inv sm" for sm :: "'b eap_sm"
    by (simp add: eap_notify_lower_layer_success_def Let_def)
  then show "eapol_safe (eapol_sm_lower_layer_success s) = eapol_safe s"
    by (simp add: eapol_safe_def eapol_sm_lower_layer_success_def key_inv_def)
  show "port_view (eapol_sm_lower_layer_success s) = port_view s"
    by (simp add: eapol_sm_lower_layer_success_def port_view_eap vars_def)
qed

lemma returns_install_key:
  assumes "48 \<le> length frame" "eapol_safe s" "port_ok (port_view s)"
  shows "returns (\<lambda>s'. eapol_safe s' \<and> port_ok (port_view s')) (eapol_sm_install_key frame dk s)"
  unfolding eapol_sm_install_key_def wp
  using assms by (simp add: eapol_key_defs)

lemma key_data_lengths:
  assumes "eapol_safe s" "eapol_key_data s = Some (ek, sk, el, sl)"
  shows "length ek = 32 \<and> length sk = 32 \<and> el = 32 \<and> sl = 32"
proof -
  have "el = 32 \<and> sl = 32 \<and> length ek = 32 \<and> length sk = 32"
    if "eapKeyData (eap s) = Some k" "64 \<le> length k" for k
    using that assms(2)
    by (auto simp: eapol_key_data_def eapol_sm_get_key_def eap_get_eapKeyData_def eapol_key_defs Let_def split: if_splits)
  moreover have "eapKeyData (eap s) \<noteq> None"
    using assms(2) by (auto simp: eapol_key_data_def eapol_sm_get_key_def eap_get_eapKeyData_def Let_def split_beta
        split: if_splits option.splits)
  ultimately show ?thesis using assms(1) by (auto simp: eapol_safe_def key_inv_def key64_def)
qed

lemma returns_datakey:
  assumes "length ek = 32" "el = 32" "rx \<le> 32" "48 + key_len \<le> length frame"
    "P None" "\<And>k. P (Some k)"
  shows "returns P (eapol_datakey frame key_len rx ek el)"
  unfolding eapol_datakey_def wp
  by (intro conjI impI returns_mono [OF returns_rc4_skip])
    (use assms in \<open>auto simp: eapol_key_defs\<close>)

lemma returns_wrn [wp]:
  "returns P (wrn dst off src) \<longleftrightarrow> off + length src \<le> length dst \<and> P (take off dst @ src @ drop (off + length src) dst)"
  by (simp add: wrn_def)

lemma returns_processKey:
  assumes "eapol_safe s" "port_ok (port_view s)"
  shows "returns (\<lambda>s'. eapol_safe s' \<and> port_ok (port_view s')) (eapol_sm_processKey E s)"
proof -
  have l: "length (fst q) = 32 \<and> length (fst (snd q)) = 32 \<and> fst (snd (snd q)) = 32 \<and> snd (snd (snd q)) = 32"
    if "eapol_key_data (eapol_sm_lower_layer_success s) = Some q" for q
    using key_data_lengths [of "eapol_sm_lower_layer_success s" "fst q"] that assms(1) by (cases q) auto
  show ?thesis
    unfolding eapol_sm_processKey_def wp
    apply (intro conjI impI allI)
    using assms
    apply (simp_all add: eapol_key_defs)
    subgoal using l by auto
    subgoal for frame v va q using l [of q] by (auto intro!: returns_datakey returns_install_key)
    done
qed

text \<open>\<open>eapol_good\<close>: nothing can fault and the port is as the state says.\<close>

definition eapol_good :: "'p eapol_sm \<Rightarrow> bool" where
  "eapol_good s \<longleftrightarrow> eapol_safe s \<and> port_ok (port_view s)"

lemma safe_port_set [simp]:
  "eapol_safe (eapol_sm_set_port_unauthorized s) = eapol_safe s"
  "eapol_safe (eapol_sm_set_port_authorized s) = eapol_safe s"
  "eapol_safe (eapol_sm_txLogoff s) = eapol_safe s" "eapol_safe (eapol_sm_txStart s) = eapol_safe s"
  "eapol_safe (SM_ENTRY_SUPP_PAE g st s) = eapol_safe s" "eapol_safe (SM_ENTRY_KEY_RX g kst s) = eapol_safe s"
  "eapol_safe (SM_ENTRY_SUPP_BE g bst s) = eapol_safe s"
  by (simp_all add: eapol_sm_set_port_unauthorized_def eapol_sm_set_port_authorized_def eapol_sm_txLogoff_def
      eapol_sm_txStart_def SM_ENTRY_SUPP_PAE_def SM_ENTRY_KEY_RX_def SM_ENTRY_SUPP_BE_def Let_def)

lemma port_view_SM_ENTRY_other [simp]:
  "port_view (SM_ENTRY_KEY_RX g kst s) = port_view s" "port_view (SM_ENTRY_SUPP_BE g bst s) = port_view s"
  by (simp_all add: SM_ENTRY_KEY_RX_def SM_ENTRY_SUPP_BE_def Let_def)

lemma safe_pae_enter:
  "eapol_safe (SUPP_PAE_LOGOFF_Enter g s) = eapol_safe s" "eapol_safe (SUPP_PAE_DISCONNECTED_Enter g s) = eapol_safe s"
  "eapol_safe (SUPP_PAE_CONNECTING_Enter g s) = eapol_safe s" "eapol_safe (SUPP_PAE_AUTHENTICATING_Enter g s) = eapol_safe s"
  "eapol_safe (SUPP_PAE_HELD_Enter g s) = eapol_safe s" "eapol_safe (SUPP_PAE_AUTHENTICATED_Enter g s) = eapol_safe s"
  "eapol_safe (SUPP_PAE_RESTART_Enter g s) = eapol_safe s" "eapol_safe (SUPP_PAE_S_FORCE_AUTH_Enter g s) = eapol_safe s"
  "eapol_safe (SUPP_PAE_S_FORCE_UNAUTH_Enter g s) = eapol_safe s"
  by (simp_all add: SUPP_PAE_LOGOFF_Enter_def SUPP_PAE_DISCONNECTED_Enter_def SUPP_PAE_CONNECTING_Enter_def
      SUPP_PAE_AUTHENTICATING_Enter_def SUPP_PAE_HELD_Enter_def SUPP_PAE_AUTHENTICATED_Enter_def
      SUPP_PAE_RESTART_Enter_def SUPP_PAE_S_FORCE_AUTH_Enter_def SUPP_PAE_S_FORCE_UNAUTH_Enter_def
      eapol_sm_confirm_auth_def Let_def split_beta)

lemma SM_STEP_PAE_safe: "eapol_safe (SM_STEP_SUPP_PAE s) = eapol_safe s"
proof -
  have "eapol_safe (supp_pae_local s) = eapol_safe s"
    by (cases "SUPP_PAE_state s") (simp_all add: supp_pae_local_def supp_pae_connecting_def
        supp_pae_authenticating_def Let_def safe_pae_enter)
  then show ?thesis unfolding SM_STEP_SUPP_PAE_def Let_def by (simp add: safe_pae_enter)
qed

lemma SM_STEP_PAE_good: "eapol_good s \<Longrightarrow> eapol_good (SM_STEP_SUPP_PAE s)"
  by (simp add: eapol_good_def SM_STEP_PAE_safe SM_STEP_PAE_port)

lemma KEY_RECEIVE_good: "eapol_good s \<Longrightarrow> returns eapol_good (KEY_RX_KEY_RECEIVE_Enter E g s)"
  unfolding KEY_RX_KEY_RECEIVE_Enter_def wp eapol_good_def
  using returns_processKey [of "SM_ENTRY_KEY_RX g KEY_RX_KEY_RECEIVE s" E] by simp

lemma SM_STEP_KEY_RX_good:
  assumes "eapol_good s"
  shows "returns eapol_good (SM_STEP_KEY_RX E s)"
proof -
  let ?s = "if initialize s \<or> \<not> portEnabled (vars s) then KEY_RX_NO_KEY_RECEIVE_Enter True s else s"
  have "eapol_good ?s" using assms by (simp add: KEY_RX_NO_KEY_RECEIVE_Enter_def eapol_good_def)
  then show ?thesis
    by (cases "KEY_RX_state ?s") (simp_all add: SM_STEP_KEY_RX_def Let_def KEY_RECEIVE_good)
qed

lemma txSuppRsp_good [simp]:
  "eapol_safe s \<Longrightarrow> eapol_safe (eapol_sm_txSuppRsp s)" "port_view (eapol_sm_txSuppRsp s) = port_view s"
  by (simp_all add: eapol_sm_txSuppRsp_def eap_get_eapRespData_def Let_def port_view_eap vars_def split: option.split)
    (auto simp: eapol_safe_def eap_inv_no_resp key_inv_def)

lemma abortSupp_good [simp]:
  "eapol_safe s \<Longrightarrow> eapol_safe (eapol_sm_abortSupp s)" "port_view (eapol_sm_abortSupp s) = port_view s"
  by (simp_all add: eapol_sm_abortSupp_def eap_sm_abort_def eap_sm_free_key_def Let_def eapol_safe_def key_inv_def
      eap_inv_def eapol_io eapol_set_bool_def port_view_def)

lemma be_enter_good:
  assumes "eapol_good s"
  shows "eapol_good (SUPP_BE_REQUEST_Enter g s)" "eapol_good (SUPP_BE_RESPONSE_Enter g s)"
    "eapol_good (SUPP_BE_SUCCESS_Enter g s)" "eapol_good (SUPP_BE_FAIL_Enter g s)" "eapol_good (SUPP_BE_TIMEOUT_Enter g s)"
    "eapol_good (SUPP_BE_IDLE_Enter g s)" "eapol_good (SUPP_BE_INITIALIZE_Enter g s)" "eapol_good (SUPP_BE_RECEIVE_Enter g s)"
  using assms
  by (simp_all add: eapol_good_def SUPP_BE_REQUEST_Enter_def SUPP_BE_RESPONSE_Enter_def SUPP_BE_SUCCESS_Enter_def
      SUPP_BE_FAIL_Enter_def SUPP_BE_TIMEOUT_Enter_def SUPP_BE_IDLE_Enter_def SUPP_BE_INITIALIZE_Enter_def
      SUPP_BE_RECEIVE_Enter_def eapol_sm_getSuppRsp_def Let_def)

lemma SM_STEP_BE_good: "eapol_good s \<Longrightarrow> eapol_good (SM_STEP_SUPP_BE s)"
  by (cases "SUPP_BE_state s") (simp_all add: SM_STEP_SUPP_BE_def supp_be_local_def be_enter_good)

lemma iter_good:
  assumes "eapol_env_ok E" "eapol_good s"
  shows "returns eapol_good (eapol_sm_iter E s)"
proof -
  have eap: "returns (\<lambda>y. eapol_good (if fst y then t\<lparr>eap := snd y, eapol_changed := True\<rparr> else t\<lparr>eap := snd y\<rparr>))
      (eap_peer_sm_step (env_eap E) (eap t))" if "eapol_good t" for t
    by (rule returns_eap_step [where K = key64])
      (use that assms(1) in \<open>auto simp: eapol_good_def eapol_safe_def eapol_env_ok_def inputs_def port_view_eap vars_def\<close>)
  have "eapol_good (s\<lparr>eapol_changed := False\<rparr>)" using assms(2) by (simp add: eapol_good_def)
  then have "returns eapol_good (SM_STEP_KEY_RX E (SM_STEP_SUPP_PAE (s\<lparr>eapol_changed := False\<rparr>)))"
    by (intro SM_STEP_KEY_RX_good SM_STEP_PAE_good)
  then show ?thesis
    unfolding eapol_sm_iter_def wp
    by (rule returns_mono) (rule eap [OF SM_STEP_BE_good], simp)
qed

lemma loop_good: "eapol_env_ok E \<Longrightarrow> eapol_good s \<Longrightarrow> returns eapol_good (eapol_sm_loop n E s)"
proof (induction n arbitrary: s)
  case (Suc n)
  from iter_good [OF Suc.prems] show ?case
    by (simp add: wp) (erule returns_mono, simp add: Suc)
qed simp

lemma report_good [simp]: "eapol_good (eapol_sm_report s) = eapol_good s"
  by (simp add: eapol_sm_report_def eapol_good_def Let_def)

lemma emit_good [simp]: "\<not> is_port_cb e \<Longrightarrow> eapol_good (upd_vars (emit e) s) = eapol_good s"
  by (simp add: eapol_good_def)

lemma step_good: "eapol_env_ok E \<Longrightarrow> eapol_good s \<Longrightarrow> returns eapol_good (eapol_sm_step E s)"
  unfolding eapol_sm_step_def wp
  by (rule returns_mono [OF loop_good]) auto

section \<open>Events\<close>

datatype eapol_event =
    Tick | Step_timeout | Rx bytes bytes | Tx_eapol_key | Port_enabled bool | Port_valid bool
  | Eap_success bool | Eap_fail bool | New_config "eap_peer_config option" "eapol_config option"
  | Logoff bool | Cached | Pmkid_attempt | Port_control PortControl | Ctrl_response | Pending
  | Request_reauth | Lower_layer_success | Invalidate_cached | Configure int int int int

fun eapol_handle :: "'p eapol_env \<Rightarrow> eapol_event \<Rightarrow> 'p eapol_sm \<Rightarrow> 'p eapol_sm option" where
  "eapol_handle E Tick s = eapol_port_timers_tick E s"
| "eapol_handle E Step_timeout s = eapol_sm_step_timeout E s"
| "eapol_handle E (Rx src buf) s = map_option snd (eapol_sm_rx_eapol E src buf s)"
| "eapol_handle E Tx_eapol_key s = Some (eapol_sm_notify_tx_eapol_key s)"
| "eapol_handle E (Port_enabled b) s = eapol_sm_notify_portEnabled E b s"
| "eapol_handle E (Port_valid b) s = eapol_sm_notify_portValid E b s"
| "eapol_handle E (Eap_success b) s = eapol_sm_notify_eap_success E b s"
| "eapol_handle E (Eap_fail b) s = eapol_sm_notify_eap_fail E b s"
| "eapol_handle E (New_config cfg cf) s = Some (eapol_sm_notify_config cfg cf s)"
| "eapol_handle E (Logoff b) s = eapol_sm_notify_logoff E b s"
| "eapol_handle E Cached s = eapol_sm_notify_cached E s"
| "eapol_handle E Pmkid_attempt s = Some (eapol_sm_notify_pmkid_attempt s)"
| "eapol_handle E (Port_control pc) s = eapol_sm_notify_portControl E pc s"
| "eapol_handle E Ctrl_response s = eapol_sm_notify_ctrl_response E s"
| "eapol_handle E Pending s = eapol_sm_notify_pending E s"
| "eapol_handle E Request_reauth s = Some (eapol_sm_request_reauth s)"
| "eapol_handle E Lower_layer_success s = eapol_sm_notify_lower_layer_success E False s"
| "eapol_handle E Invalidate_cached s = Some (eapol_sm_invalidate_cached_session E s)"
| "eapol_handle E (Configure a b c d) s = Some (eapol_sm_configure a b c d s)"

text \<open>The identities of a new configuration fit in an EAP message.\<close>

fun event_ok :: "eapol_event \<Rightarrow> bool" where
  "event_ok (New_config cfg cf) = pred_option config_ok cfg"
| "event_ok _ = True"

lemma good_field [simp]:
  "eapol_good (s\<lparr>portValid := b\<rparr>) = eapol_good s" "eapol_good (s\<lparr>portControl := pc\<rparr>) = eapol_good s"
  "eapol_good (s\<lparr>userLogoff := b\<rparr>) = eapol_good s" "eapol_good (s\<lparr>startWhen := t\<rparr>) = eapol_good s"
  "eapol_good (s\<lparr>eapolEap := b\<rparr>) = eapol_good s" "eapol_good (s\<lparr>cached_pmk := b\<rparr>) = eapol_good s"
  "eapol_good (s\<lparr>force_authorized_update := b\<rparr>) = eapol_good s" "eapol_good (s\<lparr>rxKey := b\<rparr>) = eapol_good s"
  "eapol_good (s\<lparr>last_rx_key := k\<rparr>) = eapol_good s" "eapol_good (s\<lparr>heldPeriod := t\<rparr>) = eapol_good s"
  "eapol_good (s\<lparr>startPeriod := t\<rparr>) = eapol_good s" "eapol_good (s\<lparr>authPeriod := t\<rparr>) = eapol_good s"
  "eapol_good (s\<lparr>maxStart := t\<rparr>) = eapol_good s" "eapol_good (s\<lparr>initialize := b\<rparr>) = eapol_good s"
  "eapol_good (s\<lparr>authWhile := t\<rparr>) = eapol_good s" "eapol_good (s\<lparr>heldWhile := t\<rparr>) = eapol_good s"
  "eapol_good (upd_stats g s) = eapol_good s" "eapol_good (snd (eapol_ask s)) = eapol_good s"
  "eapol_good (eapol_sm_txStart s) = eapol_good s" "eapol_good (eapol_sm_lower_layer_success s) = eapol_good s"
  by (simp_all add: eapol_good_def)

lemma good_upd_vars [simp]:
  "(\<And>v. eapReqData (f v) = eapReqData v) \<Longrightarrow> (\<And>v. config (f v) = config v) \<Longrightarrow>
   (\<And>v. lower_trace (f v) = lower_trace v) \<Longrightarrow> eapol_good (upd_vars f s) = eapol_good s"
  by (simp add: eapol_good_def)

lemma good_req: "eapol_good s \<Longrightarrow> pred_option wf_wpabuf r \<Longrightarrow> eapol_good (upd_vars (\<lambda>v. v\<lparr>eapReqData := r\<rparr>) s)"
  by (simp add: eapol_good_def) (simp add: eapol_safe_def eap_inv_def key_inv_def eapol_io)

lemma good_notify_success: "eapol_good s \<Longrightarrow> eapol_good (s\<lparr>eap := eap_notify_success (eap s)\<rparr>)"
  by (simp add: eapol_good_def eapol_safe_def eap_notify_success_def key_inv_def port_view_def vars_def eap_inv_def)

lemma good_abort_cached: "eapol_good s \<Longrightarrow> eapol_good (eapol_sm_abort_cached s)"
  using port_ok_enter(6) [of "port_view s"] by (simp add: eapol_sm_abort_cached_def Let_def eapol_good_def)

lemma alloc_copy_wf:
  assumes "length d \<le> 65535" "P None" "\<And>b. wf_wpabuf b \<Longrightarrow> P (Some b)"
  shows "returns P (wpabuf_alloc_copy ok d)"
proof (cases ok)
  case True
  then obtain b where b: "wpabuf_alloc ok (length d) = Some b" by (simp add: wpabuf_alloc_def)
  with wpabuf_alloc_wf [OF b] assms(1) have "wf_wpabuf b" "wpabuf_tailroom b = length d" by simp_all
  then show ?thesis
    using b assms(3) by (simp add: wpabuf_alloc_copy_def wp wpabuf_put_eq_append)
      (rule returns_wb_append, auto)
qed (simp add: wpabuf_alloc_copy_def wpabuf_alloc_def assms(2))

lemma rx_eap_packet_good:
  assumes "eapol_env_ok E" "eapol_good s" "4 + plen \<le> length buf" "plen \<le> 65535"
  shows "returns eapol_good (eapol_rx_eap_packet E buf plen s)"
proof -
  have g: "eapol_good (upd_vars (\<lambda>v. v\<lparr>eapReqData := r\<rparr>) (snd (eapol_ask (upd_vars (\<lambda>v. v\<lparr>eapReqData := None\<rparr>)
      (if cached_pmk s then eapol_sm_abort_cached s else s)))))" if "pred_option wf_wpabuf r" for r
    using assms(2) that by (intro good_req) (auto intro: good_req good_abort_cached)
  show ?thesis
    unfolding eapol_rx_eap_packet_def wp eapol_key_defs
    using assms g [of None] g [of "Some b" for b]
    by (auto intro!: alloc_copy_wf step_good)
qed

lemma rx_key_good:
  assumes "eapol_env_ok E" "eapol_good s" "4 + plen \<le> length buf"
  shows "returns (\<lambda>(r, s). eapol_good s) (eapol_rx_key E buf plen s)"
  unfolding eapol_rx_key_def wp eapol_key_defs
  using assms by (auto intro!: returns_mono [OF step_good])

lemma wps_plen_bound:
  assumes "4 \<le> length buf" "4 + plen \<le> length buf" "plen \<le> 65535"
    "\<And>p. 4 + p \<le> length buf \<Longrightarrow> p \<le> 65535 \<Longrightarrow> P p"
  shows "returns P (eapol_wps_plen s buf plen)"
proof -
  have "unat (x :: u16) \<le> 65535" for x using unsigned_less [of x, where ?'a = nat] by simp
  then show ?thesis
    unfolding eapol_wps_plen_def wp eapol_key_defs using assms by auto
qed

lemma rx_eapol_good:
  assumes "eapol_env_ok E" "eapol_good s"
  shows "returns (\<lambda>(r, s). eapol_good s) (eapol_sm_rx_eapol E src buf s)"
proof -
  have u: "unat (x :: u16) \<le> 65535" for x using unsigned_less [of x, where ?'a = nat] by simp
  show ?thesis
    unfolding eapol_sm_rx_eapol_def wp eapol_key_defs
    using assms u
    by (auto intro!: wps_plen_bound rx_key_good returns_mono [OF rx_eap_packet_good])
qed

lemma config_good: "eapol_good s \<Longrightarrow> pred_option config_ok cfg \<Longrightarrow> eapol_good (eapol_sm_notify_config cfg cf s)"
  by (auto simp: eapol_sm_notify_config_def Let_def eap_set_fast_reauth_def eap_set_workaround_def
      eap_set_force_disabled_def eapol_good_def eapol_safe_def key_inv_def eap_inv_def port_view_def eapol_io
      split: option.split)

lemma tick_good: "eapol_env_ok E \<Longrightarrow> eapol_good s \<Longrightarrow> returns eapol_good (eapol_port_timers_tick E s)"
  unfolding eapol_port_timers_tick_def Let_def split_beta by (rule step_good) simp_all

lemma configure_good: "eapol_good (eapol_sm_configure a b c d s) = eapol_good s"
  by (simp add: eapol_sm_configure_def Let_def)

lemma invalidate_good: "eapol_good s \<Longrightarrow> eapol_good (eapol_sm_invalidate_cached_session E s)"
  by (simp add: eapol_sm_invalidate_cached_session_def eap_invalidate_cached_session_def eapol_good_def
      eapol_safe_def key_inv_def port_view_eap vars_def)

lemma handle_good:
  assumes "eapol_env_ok E" "eapol_good s" "event_ok ev"
  shows "returns eapol_good (eapol_handle E ev s)"
  using assms
  by (cases ev)
    (auto simp: wp eapol_sm_step_timeout_def eapol_sm_notify_tx_eapol_key_def eapol_sm_notify_portEnabled_def
      eapol_sm_notify_portValid_def eapol_sm_notify_eap_success_def eapol_sm_notify_eap_fail_def
      eapol_sm_notify_logoff_def eapol_sm_notify_cached_def eapol_sm_notify_pmkid_attempt_def
      eapol_sm_notify_portControl_def eapol_sm_notify_ctrl_response_def eapol_sm_notify_pending_def
      eapol_sm_request_reauth_def eapol_sm_notify_lower_layer_success_def Let_def split_beta configure_good
      intro!: step_good tick_good good_notify_success config_good invalidate_good
      returns_mono [OF rx_eapol_good])

text \<open>The run of a sequence of events, from a machine that is up.\<close>

definition eapol_event_step ::
  "'p eapol_env \<times> 'p eapol_sm option \<Rightarrow> eapol_event \<Rightarrow> 'p eapol_env \<times> 'p eapol_sm option" where
  "eapol_event_step st ev = (case st of (E, s) \<Rightarrow> (E, s \<bind> eapol_handle E ev))"

definition eapol_run_inv :: "'p eapol_env \<times> 'p eapol_sm option \<Rightarrow> bool" where
  "eapol_run_inv st = (case st of (E, s) \<Rightarrow> eapol_env_ok E \<and> returns eapol_good s)"

interpretation supp: event_machine eapol_event_step event_ok eapol_run_inv
proof
  fix st :: "'p eapol_env \<times> 'p eapol_sm option" and ev
  assume "eapol_run_inv st" "event_ok ev"
  then show "eapol_run_inv (eapol_event_step st ev)"
    by (cases st) (auto simp: eapol_run_inv_def eapol_event_step_def wp intro: handle_good elim!: returns_mono)
qed

definition eapol_run :: "'p eapol_env \<Rightarrow> eapol_event list \<Rightarrow> 'p eapol_sm \<Rightarrow> 'p eapol_sm option" where
  "eapol_run E es s = snd (foldl eapol_event_step (E, Some s) es)"

lemma run_fst: "fst (foldl eapol_event_step st es) = fst st"
  by (induction es arbitrary: st) (simp_all add: eapol_event_step_def split_beta)

lemma run_good:
  assumes "eapol_env_ok E" "eapol_good s" "list_all event_ok es"
  shows "returns eapol_good (eapol_run E es s)"
  using supp.run_inv [of "(E, Some s)" es] assms run_fst [of "(E, Some s)" es]
  by (simp add: eapol_run_inv_def eapol_run_def split_beta)

lemma init_good:
  assumes "eapol_env_ok E"
  shows "returns (\<lambda>r. pred_option eapol_good r) (eapol_sm_init E pre env)"
proof -
  have z: "eapol_good ((eapol_sm_zero e)\<lparr>preauth := b1, portControl := Auto, heldPeriod := 60, startPeriod := 30,
      maxStart := 3, authPeriod := 30\<rparr>\<lparr>force_authorized_update := True, initialize := True\<rparr>)"
    if "e = (eap_sm_zero v)\<lparr>mv := w\<rparr>" "eapReqData v = None" "config v = None" "trace v = []" for e b1 v w
    using that by (simp add: eapol_good_def eapol_safe_def eapol_sm_zero_def eap_sm_zero_def eap_inv_def key_inv_def
        port_ok_def port_view_def vars_def lower_trace_def last_report_def)
  show ?thesis
    unfolding eapol_sm_init_def eap_peer_sm_init_def wp
    by (auto simp: Let_def split_beta ask_def eapol_vars_zero_def simp del: good_field
        intro!: returns_mono [OF step_good [OF assms]] z)      (simp_all add: good_field)
qed

section \<open>On what ground the port opens\<close>

lemma status_frame [simp]:
  "suppPortStatus (SM_ENTRY_SUPP_PAE g st s) = suppPortStatus s" "suppPortStatus (upd_vars f s) = suppPortStatus s"
  "suppPortStatus (upd_stats h s) = suppPortStatus s" "suppPortStatus (snd (eapol_ask s)) = suppPortStatus s"
  "suppPortStatus (eapol_sm_txLogoff s) = suppPortStatus s" "suppPortStatus (eapol_sm_txStart s) = suppPortStatus s"
  "suppPortStatus (eapol_sm_set_port_unauthorized s) = Unauthorized"
  "suppPortStatus (eapol_sm_set_port_authorized s) = Authorized"
  by (simp_all add: SM_ENTRY_SUPP_PAE_def eapol_sm_txLogoff_def eapol_sm_txStart_def eapol_io
      eapol_sm_set_port_unauthorized_def eapol_sm_set_port_authorized_def)

lemma status_enter [simp]:
  "suppPortStatus (SUPP_PAE_LOGOFF_Enter g s) = Unauthorized" "suppPortStatus (SUPP_PAE_DISCONNECTED_Enter g s) = Unauthorized"
  "suppPortStatus (SUPP_PAE_CONNECTING_Enter g s) = suppPortStatus s" "suppPortStatus (SUPP_PAE_AUTHENTICATING_Enter g s) = suppPortStatus s"
  "suppPortStatus (SUPP_PAE_HELD_Enter g s) = Unauthorized" "suppPortStatus (SUPP_PAE_AUTHENTICATED_Enter g s) = Authorized"
  "suppPortStatus (SUPP_PAE_RESTART_Enter g s) = suppPortStatus s" "suppPortStatus (SUPP_PAE_S_FORCE_AUTH_Enter g s) = Authorized"
  "suppPortStatus (SUPP_PAE_S_FORCE_UNAUTH_Enter g s) = Unauthorized"
  by (simp_all add: SUPP_PAE_LOGOFF_Enter_def SUPP_PAE_DISCONNECTED_Enter_def SUPP_PAE_CONNECTING_Enter_def
      SUPP_PAE_AUTHENTICATING_Enter_def SUPP_PAE_HELD_Enter_def SUPP_PAE_AUTHENTICATED_Enter_def
      SUPP_PAE_RESTART_Enter_def SUPP_PAE_S_FORCE_AUTH_Enter_def SUPP_PAE_S_FORCE_UNAUTH_Enter_def
      eapol_sm_confirm_auth_def Let_def split_beta)

lemma vars_emit [simp]: "vars (upd_vars f s) = f (vars s)"
  by (simp add: eapol_io)

lemma local_opens_iff:
  assumes "suppPortStatus s = Unauthorized"
  shows "suppPortStatus (supp_pae_local s) = Authorized \<longleftrightarrow>
     (SUPP_PAE_state s = SUPP_PAE_CONNECTING \<and> startWhen s = 0 \<and> startCount s \<ge> maxStart s \<and> portValid s) \<or>
     (SUPP_PAE_state s = SUPP_PAE_AUTHENTICATING \<and> eapSuccess (vars s) \<and>
      (portValid s \<or> (accept_802_1x_keys (conf s) \<and> required_keys (conf s) = 0)))"
  using assms
proof (cases "SUPP_PAE_state s")
  case SUPP_PAE_AUTHENTICATING
  have "portValid (upd_vars f s) = portValid s" for f by (simp add: eapol_io)
  moreover have "portValid (upd_vars f (s\<lparr>portValid := True\<rparr>))" for f by (simp add: eapol_io)
  ultimately show ?thesis using SUPP_PAE_AUTHENTICATING assms
    by (auto simp: supp_pae_local_def supp_pae_authenticating_def Let_def)
qed (auto simp: supp_pae_local_def supp_pae_connecting_def)

section \<open>The port stays shut without a valid port\<close>

text \<open>What opening the port rests on inside a call of \<open>eapol_sm_step()\<close>.\<close>

definition open_ground :: "'p eapol_sm \<Rightarrow> bool" where
  "open_ground s \<longleftrightarrow> (suppPortStatus s = Authorized \<longrightarrow> portValid s \<or> sPortMode s = ForceAuthorized)"

lemma ground_frame [simp]:
  "open_ground (upd_vars f s) = open_ground s" "open_ground (upd_stats h s) = open_ground s"
  "open_ground (snd (eapol_ask s)) = open_ground s" "open_ground (s\<lparr>eap := e\<rparr>) = open_ground s"
  "open_ground (s\<lparr>eapol_changed := b\<rparr>) = open_ground s" "open_ground (s\<lparr>SUPP_PAE_state := st\<rparr>) = open_ground s"
  "open_ground (SM_ENTRY_SUPP_PAE g st s) = open_ground s" "open_ground (SM_ENTRY_KEY_RX g kst s) = open_ground s"
  "open_ground (SM_ENTRY_SUPP_BE g bst s) = open_ground s"
  by (simp_all add: open_ground_def eapol_io SM_ENTRY_SUPP_PAE_def SM_ENTRY_KEY_RX_def SM_ENTRY_SUPP_BE_def)

lemma ground_fields [simp]:
  "open_ground (s\<lparr>authWhile := w\<rparr>) = open_ground s"
  "open_ground (s\<lparr>keyRun := b\<rparr>) = open_ground s"
  "open_ground (s\<lparr>suppSuccess := b\<rparr>) = open_ground s"
  "open_ground (s\<lparr>replay_counter_valid := b\<rparr>) = open_ground s"
  "open_ground (s\<lparr>last_replay_counter := rc\<rparr>) = open_ground s"
  "open_ground (s\<lparr>suppFail := b\<rparr>) = open_ground s"
  "open_ground (s\<lparr>suppTimeout := b\<rparr>) = open_ground s"
  "open_ground (s\<lparr>suppStart := b\<rparr>) = open_ground s"
  "open_ground (s\<lparr>initial_req := b\<rparr>) = open_ground s"
  "open_ground (s\<lparr>suppAbort := b\<rparr>) = open_ground s"
  "open_ground (s\<lparr>eapolEap := b\<rparr>) = open_ground s"
  "open_ground (s\<lparr>rxKey := b\<rparr>) = open_ground s"
  "open_ground (s\<lparr>last_rx_key := k\<rparr>) = open_ground s"
  "open_ground (s\<lparr>cb_status := c\<rparr>) = open_ground s"
  "open_ground (s\<lparr>unicast_key_received := b\<rparr>) = open_ground s"
  "open_ground (s\<lparr>broadcast_key_received := b\<rparr>) = open_ground s"
  "open_ground (s\<lparr>portValid := True\<rparr>)"
  by (simp_all add: open_ground_def)

lemma ground_unauth: "suppPortStatus s = Unauthorized \<Longrightarrow> open_ground s"
  by (simp add: open_ground_def)

lemma mode_frame [simp]:
  "sPortMode (SUPP_PAE_S_FORCE_AUTH_Enter g s) = ForceAuthorized"
  "portValid (SUPP_PAE_AUTHENTICATED_Enter g s) = portValid s"
  "open_ground (SUPP_PAE_CONNECTING_Enter g s) = open_ground s"
  "open_ground (SUPP_PAE_AUTHENTICATING_Enter g s) = open_ground s"
  "open_ground (SUPP_PAE_RESTART_Enter g s) = open_ground s"
  by (simp_all add: open_ground_def SUPP_PAE_CONNECTING_Enter_def SUPP_PAE_AUTHENTICATING_Enter_def
      SUPP_PAE_RESTART_Enter_def SUPP_PAE_S_FORCE_AUTH_Enter_def SUPP_PAE_AUTHENTICATED_Enter_def
      eapol_sm_confirm_auth_def eapol_sm_txStart_def eapol_io SM_ENTRY_SUPP_PAE_def eapol_sm_set_port_authorized_def)

lemma ground_pae_enter:
  "open_ground (SUPP_PAE_LOGOFF_Enter g s)" "open_ground (SUPP_PAE_DISCONNECTED_Enter g s)"
  "open_ground (SUPP_PAE_HELD_Enter g s)" "open_ground (SUPP_PAE_S_FORCE_AUTH_Enter g s)"
  "open_ground (SUPP_PAE_S_FORCE_UNAUTH_Enter g s)" "portValid s \<Longrightarrow> open_ground (SUPP_PAE_AUTHENTICATED_Enter g s)"
  by (simp_all add: open_ground_def)

lemma ground_PAE: "open_ground s \<Longrightarrow> open_ground (SM_STEP_SUPP_PAE s)"
proof -
  assume g: "open_ground s"
  have pv: "portValid (upd_vars f t) = portValid t" for f and t :: "'a eapol_sm" by (simp add: eapol_io)
  from g have "open_ground (supp_pae_local s)"
    by (cases "SUPP_PAE_state s") (simp_all add: supp_pae_local_def supp_pae_connecting_def
        supp_pae_authenticating_def Let_def ground_pae_enter pv)
  then show ?thesis unfolding SM_STEP_SUPP_PAE_def Let_def by (simp add: ground_pae_enter)
qed

text \<open>The frame carries the HMAC-MD5 of its own content, computed with the key of the session
  over the frame with the signature field cleared.\<close>

definition key_signed :: "'p eapol_env \<Rightarrow> 'p eapol_sm \<Rightarrow> bytes \<Rightarrow> bool" where
  "key_signed E s frame \<longleftrightarrow>
     (\<exists>l ek sk el sl. WPA_GET_BE16 frame 2 = Some l \<and> 4 + unat l \<le> length frame \<and>
        eapol_key_data (eapol_sm_lower_layer_success s) = Some (ek, sk, el, sl) \<and>
        take 16 (drop 32 frame) =
          hmac_md5 E (take sl sk) (take (4 + unat l) (take 32 frame @ replicate 16 0 @ drop 48 frame)))"

definition key_fresh :: "'p eapol_sm \<Rightarrow> bytes \<Rightarrow> bool" where
  "key_fresh s frame \<longleftrightarrow> (replay_counter_valid s \<longrightarrow> os_memcmp (last_replay_counter s) (take 8 (drop 7 frame)) < 0)"

lemma lower_success_fields [simp]:
  "replay_counter_valid (eapol_sm_lower_layer_success s) = replay_counter_valid s"
  "last_replay_counter (eapol_sm_lower_layer_success s) = last_replay_counter s"
  "last_rx_key (eapol_sm_lower_layer_success s) = last_rx_key s"
  "conf (eapol_sm_lower_layer_success s) = conf s"
  "open_ground (eapol_sm_lower_layer_success s) = open_ground s"
  "lower_trace (vars (eapol_sm_lower_layer_success s)) = lower_trace (vars s)"
  by (simp_all add: eapol_sm_lower_layer_success_def) (simp add: vars_def)

text \<open>The three outcomes of \<open>eapol_sm_processKey()\<close>.\<close>

lemma processKey_cases:
  assumes "eapol_sm_processKey E s = Some s'"
  obtains (ignored) "s' = s"
  | (rejected) "s' = eapol_sm_lower_layer_success s"
  | (installed) frame dk where "last_rx_key s = Some frame" "accept_802_1x_keys (conf s)" "48 \<le> length frame"
      "key_fresh s frame" "key_signed E s frame"
      "eapol_sm_install_key frame dk (eapol_sm_lower_layer_success s) = Some s'"
proof -
  have "yields (\<lambda>s'. s' = s \<or> s' = eapol_sm_lower_layer_success s \<or>
     (\<exists>frame dk. last_rx_key s = Some frame \<and> accept_802_1x_keys (conf s) \<and> 48 \<le> length frame \<and>
        key_fresh s frame \<and> key_signed E s frame \<and>
        eapol_sm_install_key frame dk (eapol_sm_lower_layer_success s) = Some s')) (eapol_sm_processKey E s)"
    unfolding eapol_sm_processKey_def wlp
    apply (intro yieldsI conjI impI allI)
    apply simp_all
    subgoal for frame l rx q
      by (cases q) (auto simp: key_fresh_def key_signed_def rdn_def wrn_def eapol_key_defs split: if_splits)
    done
  from yieldsD [OF this assms] that show thesis by blast
qed

lemma ground_processKey:
  assumes "open_ground s"
  shows "yields open_ground (eapol_sm_processKey E s)"
proof (rule yieldsI)
  fix s' assume p: "eapol_sm_processKey E s = Some s'"
  have i: "open_ground t \<Longrightarrow> yields open_ground (eapol_sm_install_key fr dk t)" for fr dk and t :: "'a eapol_sm"
    unfolding eapol_sm_install_key_def wlp by (intro yieldsI conjI impI allI; simp split: if_split)
  from p show "open_ground s'"
    by (cases rule: processKey_cases) (use assms in \<open>auto dest: yieldsD [OF i, rotated]\<close>)
qed

lemma ground_KEY_RX: "open_ground s \<Longrightarrow> yields open_ground (SM_STEP_KEY_RX E s)"
proof -
  assume g: "open_ground s"
  have r: "yields open_ground (KEY_RX_KEY_RECEIVE_Enter E b t)" if "open_ground t" for b t
    unfolding KEY_RX_KEY_RECEIVE_Enter_def wlp
    by (rule yields_mono [OF ground_processKey]) (use that in simp_all)
  let ?s = "if initialize s \<or> \<not> portEnabled (vars s) then KEY_RX_NO_KEY_RECEIVE_Enter True s else s"
  have "open_ground ?s" using g by (simp add: KEY_RX_NO_KEY_RECEIVE_Enter_def)
  then show ?thesis by (cases "KEY_RX_state ?s") (simp_all add: SM_STEP_KEY_RX_def Let_def r)
qed

lemma ground_BE: "open_ground (SM_STEP_SUPP_BE s) = open_ground s"
proof -
  have t: "open_ground (eapol_sm_txSuppRsp t) = open_ground t" "open_ground (eapol_sm_abortSupp t) = open_ground t"
    for t :: "'a eapol_sm"
    by (simp_all add: eapol_sm_txSuppRsp_def eapol_sm_abortSupp_def split_beta Let_def split: option.split)
  show ?thesis
    by (cases "SUPP_BE_state s") (simp_all add: SM_STEP_SUPP_BE_def supp_be_local_def SUPP_BE_REQUEST_Enter_def
        SUPP_BE_RESPONSE_Enter_def SUPP_BE_SUCCESS_Enter_def SUPP_BE_FAIL_Enter_def SUPP_BE_TIMEOUT_Enter_def
        SUPP_BE_IDLE_Enter_def SUPP_BE_INITIALIZE_Enter_def SUPP_BE_RECEIVE_Enter_def eapol_sm_getSuppRsp_def
        Let_def t)
qed

lemma ground_iter: "open_ground s \<Longrightarrow> yields open_ground (eapol_sm_iter E s)"
  unfolding eapol_sm_iter_def wlp
  by (rule yields_mono [OF ground_KEY_RX [OF ground_PAE]]) (auto intro: yieldsI simp: ground_BE)

lemma ground_loop: "open_ground s \<Longrightarrow> yields open_ground (eapol_sm_loop n E s)"
proof (induction n arbitrary: s)
  case (Suc n)
  show ?case
    unfolding eapol_sm_loop.simps wlp
    by (rule yields_mono [OF ground_iter [OF Suc.prems]]) (simp add: Suc.IH)
qed simp

lemma ground_step: "open_ground s \<Longrightarrow> yields open_ground (eapol_sm_step E s)"
proof -
  have r: "open_ground (eapol_sm_report t) = open_ground t" for t :: "'a eapol_sm"
    by (simp add: eapol_sm_report_def Let_def)
  show "open_ground s \<Longrightarrow> yields open_ground (eapol_sm_step E s)"
    unfolding eapol_sm_step_def wlp by (rule yields_mono [OF ground_loop]) (simp_all add: r)
qed

section \<open>Replayed keys\<close>

lemma install_key_counter:
  assumes "eapol_sm_install_key frame dk s = Some s'"
  shows "replay_counter_valid s'" "last_replay_counter s' = take 8 (drop 7 frame)" "last_rx_key s' = last_rx_key s"
    "conf s' = conf s" "15 \<le> length frame"
proof -
  have f: "replay_counter_valid (snd (eapol_ask t)) = replay_counter_valid t"
    "last_replay_counter (snd (eapol_ask t)) = last_replay_counter t" "last_rx_key (snd (eapol_ask t)) = last_rx_key t"
    "conf (snd (eapol_ask t)) = conf t" "replay_counter_valid (upd_vars h t) = replay_counter_valid t"
    "last_replay_counter (upd_vars h t) = last_replay_counter t" "last_rx_key (upd_vars h t) = last_rx_key t"
    "conf (upd_vars h t) = conf t" for t :: "'a eapol_sm" and h
    by (simp_all add: eapol_io)
  have "yields (\<lambda>s'. replay_counter_valid s' \<and> last_replay_counter s' = take 8 (drop 7 frame) \<and>
      last_rx_key s' = last_rx_key s \<and> conf s' = conf s \<and> 15 \<le> length frame) (eapol_sm_install_key frame dk s)"
    unfolding eapol_sm_install_key_def wlp
    by (intro yieldsI conjI impI allI; simp add: f rdn_def eapol_key_defs split: if_splits)
  from yieldsD [OF this assms] show "replay_counter_valid s'" "last_replay_counter s' = take 8 (drop 7 frame)"
    "last_rx_key s' = last_rx_key s" "conf s' = conf s" "15 \<le> length frame" by simp_all
qed

lemma key_fresh_increases:
  assumes "key_fresh s frame" "replay_counter_valid s" "length (last_replay_counter s) = 8" "15 \<le> length frame"
  shows "be_val (last_replay_counter s) < be_val (take 8 (drop 7 frame))"
  using assms os_memcmp_be_val [of "last_replay_counter s" "take 8 (drop 7 frame)"] by (simp add: key_fresh_def)

lemma stale_not_fresh:
  "replay_counter_valid s \<Longrightarrow> last_replay_counter s = take 8 (drop 7 frame) \<Longrightarrow> \<not> key_fresh s frame"
  by (simp add: key_fresh_def)

section \<open>Properties\<close>

definition wit_eapol_env :: "unit eapol_env" where
  "wit_eapol_env = \<lparr>env_eap = wit_env, hmac_md5 = (\<lambda>k d. replicate 16 7)\<rparr>"

definition wit_eapol_sm :: "unit eapol_sm" where
  "wit_eapol_sm = (eapol_sm_zero ((wit_sm None)\<lparr>eapKeyAvailable := True, eapKeyData := Some (replicate 64 1)\<rparr>))
     \<lparr>SUPP_PAE_state := SUPP_PAE_AUTHENTICATING, KEY_RX_state := KEY_RX_NO_KEY_RECEIVE, SUPP_BE_state := SUPP_BE_IDLE,
      heldPeriod := 60, startPeriod := 30, maxStart := 3, authPeriod := 30\<rparr>"

lemma wit_eapol_env_ok: "eapol_env_ok wit_eapol_env"
  using wit_env_ok by (simp add: eapol_env_ok_def wit_eapol_env_def env_keys_def wit_env_def wit_method_def)


lemma wit_init: "map_option (\<lambda>r. r = None) (eapol_sm_init wit_eapol_env False (\<lambda>n. True)) = Some False"
  by code_simp


text \<open>C17. When the port opens. In a step of the Supplicant PAE machine from an unauthorized port,
  the port becomes authorized exactly when the port is enabled and no logoff is pending and either
  the administrator forces it, or EAP has succeeded in AUTHENTICATING and the keys are in place
  (or none are required on a network that accepts 802.1X keys), or in CONNECTING the last
  EAPOL-Start timed out without an answer on a port that is valid.\<close>

theorem eapol_port_opens_iff:
  assumes "suppPortStatus s = Unauthorized"
  shows "suppPortStatus (SM_STEP_SUPP_PAE s) = Authorized \<longleftrightarrow>
    portEnabled (vars s) \<and> \<not> initialize s \<and> \<not> (userLogoff s \<and> \<not> logoffSent s) \<and>
    (if sPortMode s \<noteq> portControl s then portControl s = ForceAuthorized
     else (SUPP_PAE_state s = SUPP_PAE_CONNECTING \<and> startWhen s = 0 \<and> startCount s \<ge> maxStart s \<and> portValid s) \<or>
          (SUPP_PAE_state s = SUPP_PAE_AUTHENTICATING \<and> eapSuccess (vars s) \<and>
           (portValid s \<or> (accept_802_1x_keys (conf s) \<and> required_keys (conf s) = 0))))"
  using local_opens_iff [OF assms]
  by (cases "portControl s") (auto simp: SM_STEP_SUPP_PAE_def Let_def assms)

theorem eapol_port_opens_iff_witness:
  "suppPortStatus (SM_STEP_SUPP_PAE (upd_vars (\<lambda>v. v\<lparr>eapSuccess := True\<rparr>) (wit_eapol_sm\<lparr>portValid := True\<rparr>))) = Authorized"
  using eapol_port_opens_iff [of "upd_vars (\<lambda>v. v\<lparr>eapSuccess := True\<rparr>) (wit_eapol_sm\<lparr>portValid := True\<rparr>)"]
  by (simp add: wit_eapol_sm_def eapol_sm_zero_def upd_vars_def upd_ctx_def vars_def wit_sm_def wit_eapol_def)

text \<open>C18. No way around the key check. If a call of \<open>eapol_sm_step()\<close> turns an unauthorized port
  authorized, then the port is valid, that is, the external key handshake or the required EAPOL-Key
  frames have completed, or the administrator has forced the port open.\<close>

theorem eapol_step_opens_valid:
  assumes "eapol_sm_step E s = Some s'" "suppPortStatus s = Unauthorized" "suppPortStatus s' = Authorized"
  shows "portValid s' \<or> sPortMode s' = ForceAuthorized"
  using yieldsD [OF ground_step [OF ground_unauth [OF assms(2)]] assms(1)] assms(3) by (simp add: open_ground_def)

lemma wit_open_run:
  "map_option (\<lambda>s. suppPortStatus s = Authorized) (eapol_sm_step wit_eapol_env
     (upd_vars (\<lambda>v. v\<lparr>eapSuccess := True\<rparr>) (wit_eapol_sm\<lparr>portValid := True\<rparr>))) = Some True"
  by code_simp

theorem eapol_step_opens_valid_witness:
  "\<exists>s'. eapol_sm_step wit_eapol_env (upd_vars (\<lambda>v. v\<lparr>eapSuccess := True\<rparr>) (wit_eapol_sm\<lparr>portValid := True\<rparr>)) = Some s' \<and>
     (portValid s' \<or> sPortMode s' = ForceAuthorized)"
proof -
  from wit_open_run obtain s' where s': "eapol_sm_step wit_eapol_env
     (upd_vars (\<lambda>v. v\<lparr>eapSuccess := True\<rparr>) (wit_eapol_sm\<lparr>portValid := True\<rparr>)) = Some s'" "suppPortStatus s' = Authorized"
    by auto
  with eapol_step_opens_valid [OF s'(1) _ s'(2)] show ?thesis
    by (simp add: wit_eapol_sm_def eapol_sm_zero_def)
qed


definition wit_key_frame :: "nat \<Rightarrow> bytes \<Rightarrow> bytes" where
  "wit_key_frame rxlen d = [1, 3, 0, 44 + of_nat (length d), 1, 0, of_nat rxlen] @ [0, 0, 0, 0, 0, 0, 0, 5] @
     replicate 16 9 @ [0x81] @ replicate 16 7 @ d"

lemma wit_key_run:
  "map_option (\<lambda>s. lower_trace (vars s) \<noteq> lower_trace (vars wit_eapol_sm))
     (eapol_sm_processKey wit_eapol_env (wit_eapol_sm\<lparr>last_rx_key := Some (wit_key_frame 5 []),
        conf := (conf wit_eapol_sm)\<lparr>accept_802_1x_keys := True\<rparr>\<rparr>)) = Some True"
  by code_simp


text \<open>C20. The octets of the key that are not there. With a master key of only 16 octets, as LEAP
  derives, a correctly signed EAPOL-Key frame without key data that asks for a key of more than 16
  octets makes \<open>eapol_sm_processKey()\<close> copy octets of \<open>keydata.encr_key\<close> that were never written:
  the model faults on every such frame.\<close>

theorem eapol_leap_key_uninitialised:
  assumes "last_rx_key s = Some frame" "accept_802_1x_keys (conf s)" "length frame = 48"
    "WPA_GET_BE16 frame 2 = Some 44" "WPA_GET_BE16 frame 5 = Some rx" "16 < unat rx" "unat rx \<le> 32"
    "eapKeyAvailable (eap s)" "eapKeyData (eap s) = Some k" "length k = 16" "\<not> replay_counter_valid s"
    "take 16 (drop 32 frame) = hmac_md5 E k (take 32 frame @ replicate 16 0)"
  shows "eapol_sm_processKey E s = None"
proof -
  let ?t = "eapol_sm_lower_layer_success s"
  have av: "eapKeyAvailable (eap ?t)" "eapKeyData (eap ?t) = Some k"
    using assms(8,9) by (simp_all add: eapol_sm_lower_layer_success_def eap_notify_lower_layer_success_def Let_def
        eapol_set_bool_def upd_ctx_def)
  then have kd: "eapol_key_data ?t = Some (k, k, 16, 16)"
    using assms(10) by (simp add: eapol_key_data_def eapol_sm_get_key_def eap_key_available_def eap_get_eapKeyData_def
        eapol_key_defs)
  have dk: "eapol_datakey frame 0 (unat rx) k 16 = None"
    using assms(6,10) by (simp add: eapol_datakey_def rdn_def)
  have "length (take 16 (drop 32 frame)) = 16" using assms(3) by simp
  then have "length (hmac_md5 E k (take 32 frame @ replicate 16 0)) = 16" using assms(12) by simp
  then show ?thesis
    using assms kd dk
    by (simp add: eapol_sm_processKey_def eapol_key_defs rdn_def wrn_def Let_def)
qed

theorem eapol_leap_key_uninitialised_witness:
  "eapol_sm_processKey wit_eapol_env (wit_eapol_sm\<lparr>last_rx_key := Some (wit_key_frame 32 []),
     conf := (conf wit_eapol_sm)\<lparr>accept_802_1x_keys := True\<rparr>,
     eap := (eap wit_eapol_sm)\<lparr>eapKeyData := Some (replicate 16 1)\<rparr>\<rparr>) = None"
  by (rule eapol_leap_key_uninitialised [where frame = "wit_key_frame 32 []" and rx = 32 and k = "replicate 16 1"])
    code_simp+

end
