(* ===== verification/Pmksa_cache.thy ===== *)
theory Pmksa_cache
  imports Wpa_defs
begin

text \<open>
  The RSN PMKSA cache (\<open>src/rsn_supp/pmksa_cache.c\<close>, \<open>pmksa_cache.h\<close>) with the callbacks
  that \<open>src/rsn_supp/wpa.c\<close> registers with it, and the PMKID derivations of
  \<open>src/common/wpa_common.c\<close> it calls.

  The cache is a singly linked list of allocated entries, and \<open>sm->cur_pmksa\<close> points
  into it. The model keeps that: \<open>pmksa\<close> is the list of the addresses of the entries in
  the order of the \<open>next\<close> pointers, \<open>pmksa_heap\<close> maps the addresses of allocated entries
  to their contents, and every access through a pointer is a lookup that fails for an
  entry that has been freed. Unlinking an entry removes its address from the list,
  freeing it removes it from the heap. An operation that returns \<^const>\<open>None\<close> has used or
  freed an entry after it was freed.

  The record \<open>rsn_sm\<close> holds the part of \<open>struct wpa_sm\<close> that the cache uses; the
  handshake extends it. A key with its length (\<open>pmk\<close>, \<open>pmk_len\<close>) is the list of its octets;
  addresses and PMKIDs are lists of 6 and 16 octets; \<open>network_ctx\<close> pointers are numbers
  with 0 for \<open>NULL\<close>. The allocator's answers come from the stream \<open>rsn_answers\<close>: a request is
  refused, or gets the address of the stream unless that is in use. Calls out of the
  component are appended to \<open>rsn_trace\<close>. \<open>clock\<close> is what \<open>os_get_reltime()\<close> reports; it
  does not advance during one operation. \<open>os_time_t\<close> is \<open>uint64_t\<close> in \<open>utils/os.h\<close>.
\<close>

section \<open>Data\<close>

definition PMKID_LEN :: nat where "PMKID_LEN = 16"
definition PMK_LEN :: nat where "PMK_LEN = 32"
definition PMK_LEN_SUITE_B_192 :: nat where "PMK_LEN_SUITE_B_192 = 48"
definition PMK_LEN_MAX :: nat where "PMK_LEN_MAX = 64"
definition pmksa_cache_max_entries :: int where "pmksa_cache_max_entries = 32"
definition WLAN_REASON_UNSPECIFIED :: u16 where "WLAN_REASON_UNSPECIFIED = 1"

record rsn_pmksa_cache_entry =
  pe_pmkid :: bytes
  pe_pmk :: bytes
  pe_expiration :: u64
  pe_akmp :: u32
  pe_aa :: bytes
  pe_fils_cache_id :: "bytes option"
  pe_reauth_time :: u64
  pe_network_ctx :: nat
  pe_opportunistic :: bool
  pe_external :: bool

datatype pmksa_free_reason = PMKSA_FREE | PMKSA_REPLACE | PMKSA_EXPIRE

text \<open>The calls out of the RSN supplicant: callbacks of \<open>struct wpa_sm_ctx\<close>,
  notifications to the EAPOL state machine, and timers of the event loop that carry no
  time the model needs. The last argument of \<open>Set_key\<close> is whether the driver accepts the key.\<close>

datatype rsn_effect =
    Add_pmkid nat bytes bytes "bytes option" bytes u32 u8 u32
  | Remove_pmkid nat bytes bytes "bytes option"
  | Deauthenticate u16
  | Reconnect
  | Set_state wpa_states
  | Set_key wpa_alg "bytes option" u32 bool bytes bytes u32 bool
  | Ether_send bytes bytes
  | Mlme_setprotection bytes nat
  | Cancel_auth_timeout
  | Store_ptk bytes u32 u32
  | Key_mgmt_set_pmk bytes
  | Set_rekey_offload bytes bytes bytes
  | Transition_disable u8
  | Rekey_timer u32
  | Cancel_rekey_timer
  | Start_preauth_timer
  | Cancel_preauth_timer
  | Preauth_deinit
  | Eapol_request_reauth
  | Eapol_notify_cached
  | Eapol_notify_portValid bool
  | Eapol_notify_eap_success bool
  | Eapol_notify_eap_fail bool
  | Eapol_notify_lower_layer_success
  | Eapol_notify_tx_eapol_key

record rsn_sm =
  pmksa_heap :: "nat \<Rightarrow> rsn_pmksa_cache_entry option"
  pmksa :: "nat list"
  pmksa_count :: int
  expire_timer :: "u32 option"
  reauth_timer :: "u32 option"
  cur_pmksa :: "nat option"
  pmk :: bytes
  own_addr :: bytes
  bssid :: bytes
  dot11RSNAConfigPMKLifetime :: u32
  dot11RSNAConfigPMKReauthThreshold :: u32
  clock :: u64
  rsn_answers :: "nat \<Rightarrow> nat option"
  rsn_asked :: nat
  rsn_trace :: "rsn_effect list"

definition rsn_emit :: "rsn_effect \<Rightarrow> 'z rsn_sm_scheme \<Rightarrow> 'z rsn_sm_scheme" where
  "rsn_emit e s = s\<lparr>rsn_trace := rsn_trace s @ [e]\<rparr>"

definition rsn_ask :: "'z rsn_sm_scheme \<Rightarrow> bool \<times> 'z rsn_sm_scheme" where
  "rsn_ask s = (rsn_answers s (rsn_asked s) \<noteq> None, s\<lparr>rsn_asked := Suc (rsn_asked s)\<rparr>)"

text \<open>\<open>os_zalloc(sizeof(struct rsn_pmksa_cache_entry))\<close>: any address that no allocated
  entry has.\<close>

definition pmksa_zalloc :: "'z rsn_sm_scheme \<Rightarrow> nat option \<times> 'z rsn_sm_scheme" where
  "pmksa_zalloc s =
     (case rsn_answers s (rsn_asked s) of
        None \<Rightarrow> (None, s\<lparr>rsn_asked := Suc (rsn_asked s)\<rparr>)
      | Some a \<Rightarrow> (Some (if pmksa_heap s a = None then a else Suc (fold max (pmksa s) 0)),
                   s\<lparr>rsn_asked := Suc (rsn_asked s)\<rparr>))"

section \<open>PMKIDs\<close>

text \<open>The keyed hashes belong to the crypto backend; \<^const>\<open>None\<close> is their failure.\<close>

record rsn_crypto =
  hmac_sha1 :: "bytes \<Rightarrow> bytes \<Rightarrow> bytes option"
  hmac_sha256 :: "bytes \<Rightarrow> bytes \<Rightarrow> bytes option"
  hmac_sha384 :: "bytes \<Rightarrow> bytes \<Rightarrow> bytes option"

text \<open>The documented lengths of the keyed hashes, which \<open>rsn_pmkid()\<close> relies on without a
  check.\<close>

definition crypto_ok :: "'y rsn_crypto_scheme \<Rightarrow> bool" where
  "crypto_ok C \<longleftrightarrow>
     (\<forall>k d. returns (\<lambda>h. length h = 20) (hmac_sha1 C k d)) \<and>
     (\<forall>k d. returns (\<lambda>h. length h = 32) (hmac_sha256 C k d)) \<and>
     (\<forall>k d. returns (\<lambda>h. length h = 48) (hmac_sha384 C k d))"

definition pmk_name :: bytes where
  "pmk_name = [0x50, 0x4d, 0x4b, 0x20, 0x4e, 0x61, 0x6d, 0x65]"

text \<open>\<open>rsn_pmkid()\<close> ignores a failure of the hash and copies what the stack array
  \<open>hash\<close> holds: the model fails there.\<close>

definition rsn_pmkid :: "'z rsn_crypto_scheme \<Rightarrow> bytes \<Rightarrow> bytes \<Rightarrow> bytes \<Rightarrow> u32 \<Rightarrow> bytes option" where
  "rsn_pmkid C k aa spa akmp = do {
     hash \<leftarrow> (if wpa_key_mgmt_sha384 akmp then hmac_sha384 C k (pmk_name @ aa @ spa)
              else if wpa_key_mgmt_sha256 akmp then hmac_sha256 C k (pmk_name @ aa @ spa)
              else hmac_sha1 C k (pmk_name @ aa @ spa));
     rdn hash 0 PMKID_LEN }"

text \<open>The Suite B variants report the failure; the result is \<^const>\<open>None\<close> then, and the
  inner one is what a short hash would be.\<close>

definition rsn_pmkid_suite_b :: "'z rsn_crypto_scheme \<Rightarrow> bytes \<Rightarrow> bytes \<Rightarrow> bytes \<Rightarrow> bytes option option" where
  "rsn_pmkid_suite_b C kck aa spa =
     (case hmac_sha256 C kck (pmk_name @ aa @ spa) of None \<Rightarrow> Some None
      | Some hash \<Rightarrow> map_option Some (rdn hash 0 PMKID_LEN))"

definition rsn_pmkid_suite_b_192 :: "'z rsn_crypto_scheme \<Rightarrow> bytes \<Rightarrow> bytes \<Rightarrow> bytes \<Rightarrow> bytes option option" where
  "rsn_pmkid_suite_b_192 C kck aa spa =
     (case hmac_sha384 C kck (pmk_name @ aa @ spa) of None \<Rightarrow> Some None
      | Some hash \<Rightarrow> map_option Some (rdn hash 0 PMKID_LEN))"

section \<open>The callbacks of the WPA state machine\<close>

definition pmksa_cache_clear_current :: "'z rsn_sm_scheme \<Rightarrow> 'z rsn_sm_scheme" where
  "pmksa_cache_clear_current s = s\<lparr>cur_pmksa := None\<rparr>"

definition pmksa_cache_get_current :: "'z rsn_sm_scheme \<Rightarrow> nat option" where
  "pmksa_cache_get_current s = cur_pmksa s"

definition wpa_sm_pmksa_free_cb ::
  "nat \<Rightarrow> rsn_pmksa_cache_entry \<Rightarrow> pmksa_free_reason \<Rightarrow> 'z rsn_sm_scheme \<Rightarrow> 'z rsn_sm_scheme" where
  "wpa_sm_pmksa_free_cb a e reason s =
     (let (deauth, s) =
            (if cur_pmksa s = Some a then (reason \<noteq> PMKSA_REPLACE, pmksa_cache_clear_current s)
             else (False, s));
          (deauth, s) =
            (if reason = PMKSA_EXPIRE \<and> pmk s = pe_pmk e then (True, pmksa_cache_clear_current s)
             else (deauth, s))
      in if deauth then rsn_emit (Deauthenticate WLAN_REASON_UNSPECIFIED) (s\<lparr>pmk := []\<rparr>) else s)"

definition wpa_sm_pmksa_is_current_cb :: "nat \<Rightarrow> 'z rsn_sm_scheme \<Rightarrow> bool" where
  "wpa_sm_pmksa_is_current_cb a s \<longleftrightarrow> cur_pmksa s = Some a"

section \<open>Freeing and looking up entries\<close>

definition pmksa_cache_free_entry ::
  "nat \<Rightarrow> pmksa_free_reason \<Rightarrow> 'z rsn_sm_scheme \<Rightarrow> 'z rsn_sm_scheme option" where
  "pmksa_cache_free_entry a reason s = do {
     e \<leftarrow> pmksa_heap s a;
     let s = rsn_emit (Remove_pmkid (pe_network_ctx e) (pe_aa e) (pe_pmkid e) (pe_fils_cache_id e)) s;
     let s = s\<lparr>pmksa_count := pmksa_count s - 1\<rparr>;
     let s = wpa_sm_pmksa_free_cb a e reason s;
     Some (s\<lparr>pmksa_heap := (pmksa_heap s)(a := None)\<rparr>) }"

definition pmksa_unlink :: "nat \<Rightarrow> 'z rsn_sm_scheme \<Rightarrow> 'z rsn_sm_scheme" where
  "pmksa_unlink a s = s\<lparr>pmksa := remove1 a (pmksa s)\<rparr>"

definition pmksa_match :: "bytes option \<Rightarrow> bytes option \<Rightarrow> nat \<Rightarrow> u32 \<Rightarrow> rsn_pmksa_cache_entry \<Rightarrow> bool" where
  "pmksa_match aa pmkid ctx akmp e \<longleftrightarrow>
     (aa = None \<or> aa = Some (pe_aa e)) \<and> (pmkid = None \<or> pmkid = Some (pe_pmkid e)) \<and>
     (akmp = 0 \<or> akmp = pe_akmp e) \<and> (ctx = 0 \<or> ctx = pe_network_ctx e)"

fun pmksa_find ::
  "(rsn_pmksa_cache_entry \<Rightarrow> bool) \<Rightarrow> nat list \<Rightarrow> 'z rsn_sm_scheme \<Rightarrow> nat option option" where
  "pmksa_find P [] s = Some None"
| "pmksa_find P (a # as) s = do {
     e \<leftarrow> pmksa_heap s a;
     if P e then Some (Some a) else pmksa_find P as s }"

definition pmksa_cache_get ::
  "bytes option \<Rightarrow> bytes option \<Rightarrow> nat \<Rightarrow> u32 \<Rightarrow> 'z rsn_sm_scheme \<Rightarrow> nat option option" where
  "pmksa_cache_get aa pmkid ctx akmp s = pmksa_find (pmksa_match aa pmkid ctx akmp) (pmksa s) s"

definition pmksa_cache_get_fils_cache_id :: "nat \<Rightarrow> bytes \<Rightarrow> 'z rsn_sm_scheme \<Rightarrow> nat option option" where
  "pmksa_cache_get_fils_cache_id ctx cache_id s =
     pmksa_find (\<lambda>e. ctx = pe_network_ctx e \<and> pe_fils_cache_id e = Some cache_id) (pmksa s) s"

definition pmksa_cache_head :: "'z rsn_sm_scheme \<Rightarrow> nat option" where
  "pmksa_cache_head s = (case pmksa s of [] \<Rightarrow> None | a # _ \<Rightarrow> Some a)"

section \<open>Expiration\<close>

definition register_expire :: "u32 \<Rightarrow> 'z rsn_sm_scheme \<Rightarrow> 'z rsn_sm_scheme" where
  "register_expire sec s = (let (ok, s) = rsn_ask s in if ok then s\<lparr>expire_timer := Some sec\<rparr> else s)"

definition register_reauth :: "u32 \<Rightarrow> 'z rsn_sm_scheme \<Rightarrow> 'z rsn_sm_scheme" where
  "register_reauth sec s = (let (ok, s) = rsn_ask s in if ok then s\<lparr>reauth_timer := Some sec\<rparr> else s)"

text \<open>The assignment of a time difference to the \<open>int\<close> variable \<open>sec\<close>, kept as the 32 bits
  of the variable.\<close>

definition sec_of :: "u64 \<Rightarrow> u64 \<Rightarrow> u32" where
  "sec_of t now = ucast (t - now)"

definition pmksa_expire_sec :: "nat \<Rightarrow> nat list \<Rightarrow> rsn_pmksa_cache_entry \<Rightarrow> 'z rsn_sm_scheme \<Rightarrow> u32 option" where
  "pmksa_expire_sec a as e s =
     (let sec = sec_of (pe_expiration e) (clock s)
      in if sint sec < 0 then
           if wpa_key_mgmt_sae (pe_akmp e) \<and> wpa_sm_pmksa_is_current_cb a s then
             case as of [] \<Rightarrow> Some 600
             | b # _ \<Rightarrow> do {
                 e' \<leftarrow> pmksa_heap s b;
                 let sec = sec_of (pe_expiration e') (clock s);
                 Some (if sint sec < 0 then 0 else if sint sec > 600 then 600 else sec) }
           else Some 0
         else Some sec)"

definition pmksa_cache_set_expiration :: "'z rsn_sm_scheme \<Rightarrow> 'z rsn_sm_scheme option" where
  "pmksa_cache_set_expiration s =
     (let s = s\<lparr>expire_timer := None, reauth_timer := None\<rparr>
      in case pmksa s of [] \<Rightarrow> Some s
         | a # as \<Rightarrow> do {
             e \<leftarrow> pmksa_heap s a;
             sec \<leftarrow> pmksa_expire_sec a as e s;
             let s = register_expire (sec + 1) s;
             cur \<leftarrow> (case cur_pmksa s of Some c \<Rightarrow> Some (Some c)
                     | None \<Rightarrow> pmksa_cache_get (Some (bssid s)) None 0 0 s);
             case cur of None \<Rightarrow> Some s
             | Some c \<Rightarrow> do {
                 ce \<leftarrow> pmksa_heap s c;
                 if \<not> wpa_key_mgmt_sae (pe_akmp ce) then
                   let sec = sec_of (pe_reauth_time e) (clock s)
                   in Some (register_reauth (if sint sec < 0 then 0 else sec) s)
                 else Some s } })"

fun pmksa_expire_loop :: "u64 \<Rightarrow> nat list \<Rightarrow> 'z rsn_sm_scheme \<Rightarrow> 'z rsn_sm_scheme option" where
  "pmksa_expire_loop now [] s = Some s"
| "pmksa_expire_loop now (a # as) s = do {
     e \<leftarrow> pmksa_heap s a;
     if pe_expiration e \<le> now then
       if wpa_key_mgmt_sae (pe_akmp e) \<and> wpa_sm_pmksa_is_current_cb a s then pmksa_expire_loop now as s
       else do {
         s \<leftarrow> pmksa_cache_free_entry a PMKSA_EXPIRE (pmksa_unlink a s);
         pmksa_expire_loop now as s }
     else Some s }"

definition pmksa_cache_expire :: "'z rsn_sm_scheme \<Rightarrow> 'z rsn_sm_scheme option" where
  "pmksa_cache_expire s = do {
     s \<leftarrow> pmksa_expire_loop (clock s) (pmksa s) s;
     pmksa_cache_set_expiration s }"

definition pmksa_cache_reauth :: "'z rsn_sm_scheme \<Rightarrow> 'z rsn_sm_scheme" where
  "pmksa_cache_reauth s = rsn_emit Eapol_request_reauth (s\<lparr>cur_pmksa := None\<rparr>)"

section \<open>Flushing\<close>

definition pmksa_flush_match :: "nat \<Rightarrow> bytes option \<Rightarrow> bool \<Rightarrow> rsn_pmksa_cache_entry \<Rightarrow> bool" where
  "pmksa_flush_match ctx k external_only e \<longleftrightarrow>
     (pe_network_ctx e = ctx \<or> ctx = 0) \<and> (k = None \<or> k = Some (pe_pmk e)) \<and>
     (\<not> external_only \<or> pe_external e)"

fun pmksa_flush_loop ::
  "(rsn_pmksa_cache_entry \<Rightarrow> bool) \<Rightarrow> nat list \<Rightarrow> nat \<Rightarrow> 'z rsn_sm_scheme \<Rightarrow> (nat \<times> 'z rsn_sm_scheme) option"
where
  "pmksa_flush_loop P [] removed s = Some (removed, s)"
| "pmksa_flush_loop P (a # as) removed s = do {
     e \<leftarrow> pmksa_heap s a;
     if P e then do {
       s \<leftarrow> pmksa_cache_free_entry a PMKSA_FREE (pmksa_unlink a s);
       pmksa_flush_loop P as (Suc removed) s }
     else pmksa_flush_loop P as removed s }"

definition pmksa_cache_flush ::
  "nat \<Rightarrow> bytes option \<Rightarrow> bool \<Rightarrow> 'z rsn_sm_scheme \<Rightarrow> 'z rsn_sm_scheme option" where
  "pmksa_cache_flush ctx k external_only s = do {
     (removed, s) \<leftarrow> pmksa_flush_loop (pmksa_flush_match ctx k external_only) (pmksa s) 0 s;
     if removed \<noteq> 0 then pmksa_cache_set_expiration s else Some s }"

section \<open>Adding entries\<close>

fun pmksa_insert :: "u64 \<Rightarrow> nat \<Rightarrow> nat list \<Rightarrow> 'z rsn_sm_scheme \<Rightarrow> nat list option" where
  "pmksa_insert ex a [] s = Some [a]"
| "pmksa_insert ex a (p # ps) s = do {
     e \<leftarrow> pmksa_heap s p;
     if pe_expiration e > ex then Some (a # p # ps)
     else map_option ((#) p) (pmksa_insert ex a ps s) }"

text \<open>The old entry for the same authenticator: it is replaced unless it holds the
  same PMK and PMKID.\<close>

definition pmksa_cache_replace :: "nat \<Rightarrow> rsn_pmksa_cache_entry \<Rightarrow> 'z rsn_sm_scheme \<Rightarrow> 'z rsn_sm_scheme option" where
  "pmksa_cache_replace pos e s = do {
     p \<leftarrow> pmksa_heap s pos;
     let s = pmksa_unlink pos s;
     s \<leftarrow> (if \<not> pe_opportunistic p then pmksa_cache_flush (pe_network_ctx e) (Some (pe_pmk p)) False s
           else Some s);
     pmksa_cache_free_entry pos PMKSA_REPLACE s }"

definition pmksa_cache_make_room :: "'z rsn_sm_scheme \<Rightarrow> 'z rsn_sm_scheme option" where
  "pmksa_cache_make_room s =
     (if pmksa_count s \<ge> pmksa_cache_max_entries then
        case pmksa s of [] \<Rightarrow> Some s
        | h # t \<Rightarrow>
            if cur_pmksa s = Some h then
              case t of [] \<Rightarrow> Some (s\<lparr>pmksa := [h]\<rparr>)
              | p # r \<Rightarrow> pmksa_cache_free_entry p PMKSA_FREE (s\<lparr>pmksa := h # r\<rparr>)
            else pmksa_cache_free_entry h PMKSA_FREE (s\<lparr>pmksa := t\<rparr>)
      else Some s)"

definition pmksa_cache_link :: "nat \<Rightarrow> rsn_pmksa_cache_entry \<Rightarrow> 'z rsn_sm_scheme \<Rightarrow> 'z rsn_sm_scheme option" where
  "pmksa_cache_link a e s = do {
     l \<leftarrow> pmksa_insert (pe_expiration e) a (pmksa s) s;
     let s = s\<lparr>pmksa := l\<rparr>;
     s \<leftarrow> (if hd l = a then pmksa_cache_set_expiration s else Some s);
     let s = s\<lparr>pmksa_count := pmksa_count s + 1\<rparr>;
     Some (rsn_emit (Add_pmkid (pe_network_ctx e) (pe_aa e) (pe_pmkid e) (pe_fils_cache_id e) (pe_pmk e)
       (dot11RSNAConfigPMKLifetime s) (ucast (dot11RSNAConfigPMKReauthThreshold s)) (pe_akmp e)) s) }"

text \<open>\<open>a\<close> is the address of the new entry, allocated by the caller.\<close>

definition pmksa_cache_add_entry :: "nat \<Rightarrow> 'z rsn_sm_scheme \<Rightarrow> (nat \<times> 'z rsn_sm_scheme) option" where
  "pmksa_cache_add_entry a s = do {
     e \<leftarrow> pmksa_heap s a;
     old \<leftarrow> pmksa_find (\<lambda>p. pe_aa e = pe_aa p) (pmksa s) s;
     reuse \<leftarrow> (case old of None \<Rightarrow> Some False
               | Some pos \<Rightarrow> map_option (\<lambda>p. pe_pmk p = pe_pmk e \<and> pe_pmkid p = pe_pmkid e) (pmksa_heap s pos));
     if reuse then Some (the old, s\<lparr>pmksa_heap := (pmksa_heap s)(a := None)\<rparr>)
     else do {
       s \<leftarrow> (case old of None \<Rightarrow> Some s | Some pos \<Rightarrow> pmksa_cache_replace pos e s);
       s \<leftarrow> pmksa_cache_make_room s;
       s \<leftarrow> pmksa_cache_link a e s;
       Some (a, s) } }"

definition pmksa_entry_pmkid ::
  "'y rsn_crypto_scheme \<Rightarrow> bytes \<Rightarrow> bytes option \<Rightarrow> bytes option \<Rightarrow> bytes \<Rightarrow> bytes \<Rightarrow> u32 \<Rightarrow> bytes option" where
  "pmksa_entry_pmkid C k pmkid kck aa spa akmp =
     (case pmkid of Some p \<Rightarrow> Some p
      | None \<Rightarrow>
          if akmp = WPA_KEY_MGMT_IEEE8021X_SUITE_B_192
          then map_option (\<lambda>r. case r of None \<Rightarrow> replicate PMKID_LEN 0 | Some p \<Rightarrow> p)
                 (rsn_pmkid_suite_b_192 C (the kck) aa spa)
          else if wpa_key_mgmt_suite_b akmp
          then map_option (\<lambda>r. case r of None \<Rightarrow> replicate PMKID_LEN 0 | Some p \<Rightarrow> p)
                 (rsn_pmkid_suite_b C (the kck) aa spa)
          else rsn_pmkid C k aa spa akmp)"

definition pmksa_cache_add ::
  "'y rsn_crypto_scheme \<Rightarrow> bytes \<Rightarrow> bytes option \<Rightarrow> bytes option \<Rightarrow> bytes \<Rightarrow> bytes \<Rightarrow> nat \<Rightarrow> u32 \<Rightarrow>
   bytes option \<Rightarrow> 'z rsn_sm_scheme \<Rightarrow> (nat option \<times> 'z rsn_sm_scheme) option" where
  "pmksa_cache_add C k pmkid kck aa spa ctx akmp cache_id s =
     (if length k > PMK_LEN_MAX then Some (None, s)
      else if wpa_key_mgmt_suite_b akmp \<and> kck = None then Some (None, s)
      else case pmksa_zalloc s of (None, s) \<Rightarrow> Some (None, s)
      | (Some a, s) \<Rightarrow> do {
          pid \<leftarrow> pmksa_entry_pmkid C k pmkid kck aa spa akmp;
          let e = \<lparr>pe_pmkid = pid, pe_pmk = k,
                   pe_expiration = clock s + ucast (dot11RSNAConfigPMKLifetime s),
                   pe_akmp = akmp, pe_aa = aa, pe_fils_cache_id = cache_id,
                   pe_reauth_time = clock s + ucast (dot11RSNAConfigPMKLifetime s *
                                       dot11RSNAConfigPMKReauthThreshold s div 100),
                   pe_network_ctx = ctx, pe_opportunistic = False, pe_external = False\<rparr>;
          (r, s) \<leftarrow> pmksa_cache_add_entry a (s\<lparr>pmksa_heap := (pmksa_heap s)(a := Some e)\<rparr>);
          Some (Some r, s) })"

section \<open>Opportunistic key caching\<close>

definition pmksa_cache_clone_entry ::
  "'y rsn_crypto_scheme \<Rightarrow> nat \<Rightarrow> bytes \<Rightarrow> 'z rsn_sm_scheme \<Rightarrow> (nat option \<times> 'z rsn_sm_scheme) option" where
  "pmksa_cache_clone_entry C old aa s = do {
     e \<leftarrow> pmksa_heap s old;
     let pmkid = (if wpa_key_mgmt_sae (pe_akmp e) \<or> wpa_key_mgmt_fils (pe_akmp e) then Some (pe_pmkid e) else None);
     (r, s) \<leftarrow> pmksa_cache_add C (pe_pmk e) pmkid None aa (own_addr s) (pe_network_ctx e) (pe_akmp e)
                (pe_fils_cache_id e) s;
     case r of None \<Rightarrow> Some (None, s)
     | Some n \<Rightarrow> do {
         ne \<leftarrow> pmksa_heap s n;
         Some (Some n, s\<lparr>pmksa_heap := (pmksa_heap s)(n \<mapsto>
           ne\<lparr>pe_expiration := pe_expiration e, pe_reauth_time := pe_reauth_time e, pe_opportunistic := True\<rparr>)\<rparr>) } }"

definition pmksa_okc_match :: "nat \<Rightarrow> u32 \<Rightarrow> u64 \<Rightarrow> rsn_pmksa_cache_entry \<Rightarrow> bool" where
  "pmksa_okc_match ctx akmp now e \<longleftrightarrow>
     pe_network_ctx e = ctx \<and> (akmp = 0 \<or> pe_akmp e = akmp) \<and>
     \<not> (wpa_key_mgmt_sae (pe_akmp e) \<and> pe_reauth_time e < now)"

definition pmksa_cache_get_opportunistic ::
  "'y rsn_crypto_scheme \<Rightarrow> nat \<Rightarrow> bytes \<Rightarrow> u32 \<Rightarrow> 'z rsn_sm_scheme \<Rightarrow> (nat option \<times> 'z rsn_sm_scheme) option" where
  "pmksa_cache_get_opportunistic C ctx aa akmp s =
     (if ctx = 0 then Some (None, s)
      else do {
        r \<leftarrow> pmksa_find (pmksa_okc_match ctx akmp (clock s)) (pmksa s) s;
        case r of None \<Rightarrow> Some (None, s) | Some old \<Rightarrow> pmksa_cache_clone_entry C old aa s })"

section \<open>The current entry\<close>

definition pmksa_current_try ::
  "bool \<Rightarrow> ('z rsn_sm_scheme \<Rightarrow> (nat option \<times> 'z rsn_sm_scheme) option) \<Rightarrow> 'z rsn_sm_scheme \<Rightarrow> 'z rsn_sm_scheme option" where
  "pmksa_current_try c f s =
     (if cur_pmksa s = None \<and> c then do { (r, s) \<leftarrow> f s; Some (s\<lparr>cur_pmksa := r\<rparr>) } else Some s)"

definition pmksa_cache_set_current ::
  "'y rsn_crypto_scheme \<Rightarrow> bytes option \<Rightarrow> bytes option \<Rightarrow> nat \<Rightarrow> bool \<Rightarrow> bytes option \<Rightarrow> u32 \<Rightarrow>
   'z rsn_sm_scheme \<Rightarrow> (int \<times> 'z rsn_sm_scheme) option" where
  "pmksa_cache_set_current C pmkid bss ctx try_opportunistic fils_cache_id akmp s = do {
     let s = s\<lparr>cur_pmksa := None\<rparr>;
     s \<leftarrow> pmksa_current_try (pmkid \<noteq> None) (\<lambda>s. map_option (\<lambda>r. (r, s)) (pmksa_cache_get None pmkid ctx akmp s)) s;
     s \<leftarrow> pmksa_current_try (bss \<noteq> None) (\<lambda>s. map_option (\<lambda>r. (r, s)) (pmksa_cache_get bss None ctx akmp s)) s;
     s \<leftarrow> pmksa_current_try (try_opportunistic \<and> bss \<noteq> None)
            (pmksa_cache_get_opportunistic C ctx (the bss) akmp) s;
     s \<leftarrow> pmksa_current_try (fils_cache_id \<noteq> None)
            (\<lambda>s. map_option (\<lambda>r. (r, s)) (pmksa_cache_get_fils_cache_id ctx (the fils_cache_id) s)) s;
     case cur_pmksa s of None \<Rightarrow> Some (-1, s)
     | Some c \<Rightarrow> do {
         e \<leftarrow> pmksa_heap s c;
         if wpa_key_mgmt_sae (pe_akmp e) \<and> pe_reauth_time e < clock s then Some (-1, s\<lparr>cur_pmksa := None\<rparr>)
         else Some (0, s) } }"

section \<open>Start, stop and reconfiguration\<close>

definition pmksa_cache_init :: "'z rsn_sm_scheme \<Rightarrow> 'z rsn_sm_scheme" where
  "pmksa_cache_init s =
     s\<lparr>pmksa_heap := (\<lambda>_. None), pmksa := [], pmksa_count := 0, expire_timer := None, reauth_timer := None\<rparr>"

definition pmksa_cache_deinit :: "'z rsn_sm_scheme \<Rightarrow> 'z rsn_sm_scheme option" where
  "pmksa_cache_deinit s =
     pmksa_cache_set_expiration
       (s\<lparr>pmksa := [], pmksa_heap := fold (\<lambda>a h. h(a := None)) (pmksa s) (pmksa_heap s)\<rparr>)"

definition pmksa_reconfig_entry :: "rsn_pmksa_cache_entry \<Rightarrow> 'z rsn_sm_scheme \<Rightarrow> 'z rsn_sm_scheme" where
  "pmksa_reconfig_entry e s =
     (if pe_expiration e - clock s < 1 \<or> pe_reauth_time e - clock s < 1 then s
      else
        let life_time = (ucast (pe_expiration e - clock s) :: u32);
            reauth_threshold = (ucast ((pe_reauth_time e - clock s) * 100 div ucast life_time) :: u8)
        in if reauth_threshold = 0 then s
           else rsn_emit (Add_pmkid (pe_network_ctx e) (pe_aa e) (pe_pmkid e) (pe_fils_cache_id e) (pe_pmk e)
                  life_time reauth_threshold (pe_akmp e)) s)"

fun pmksa_reconfig_loop :: "nat list \<Rightarrow> 'z rsn_sm_scheme \<Rightarrow> 'z rsn_sm_scheme option" where
  "pmksa_reconfig_loop [] s = Some s"
| "pmksa_reconfig_loop (a # as) s = do {
     e \<leftarrow> pmksa_heap s a;
     pmksa_reconfig_loop as (pmksa_reconfig_entry e s) }"

definition pmksa_cache_reconfig :: "'z rsn_sm_scheme \<Rightarrow> 'z rsn_sm_scheme option" where
  "pmksa_cache_reconfig s = pmksa_reconfig_loop (pmksa s) s"

end
