(* ===== verification/Pmksa_props.thy ===== *)
theory Pmksa_props
  imports Pmksa_cache
begin

text \<open>
  The properties of the PMKSA cache: no entry is used after it was freed and
  \<open>cur_pmksa\<close> never dangles, the cache holds at most 32 entries and one per
  authenticator, its operations refine operations on a map keyed by the authenticator
  address, and the list stays ordered by expiration so that expiring from the front
  finds every expired entry.
\<close>

section \<open>The invariant\<close>

text \<open>\<open>D\<close> are the allocated entries that are not linked into the list, \<open>k\<close> is the
  difference between the counter and the length of the list; between operations they
  are empty and 0.\<close>

definition pmksa_inv :: "nat set \<Rightarrow> int \<Rightarrow> 'z rsn_sm_scheme \<Rightarrow> bool" where
  "pmksa_inv D k s \<longleftrightarrow>
     distinct (pmksa s) \<and> D \<inter> set (pmksa s) = {} \<and>
     (\<forall>a. pmksa_heap s a = None \<longleftrightarrow> a \<notin> set (pmksa s) \<union> D) \<and>
     pmksa_count s = int (length (pmksa s)) + k \<and>
     (\<forall>c. cur_pmksa s = Some c \<longrightarrow> c \<in> set (pmksa s) \<union> D)"

abbreviation entry_at :: "'z rsn_sm_scheme \<Rightarrow> nat \<Rightarrow> rsn_pmksa_cache_entry" where
  "entry_at s a \<equiv> the (pmksa_heap s a)"

lemma pmksa_inv_heap:
  "pmksa_inv D k s \<Longrightarrow> a \<in> set (pmksa s) \<union> D \<Longrightarrow> pmksa_heap s a = Some (entry_at s a)"
  by (auto simp: pmksa_inv_def)

lemma pmksa_inv_free: "pmksa_inv D k s \<Longrightarrow> a \<notin> set (pmksa s) \<union> D \<Longrightarrow> pmksa_heap s a = None"
  by (simp add: pmksa_inv_def)

text \<open>What the operations leave alone: \<open>timers_only\<close> for those that only set timers,
  \<open>cache_frame\<close> for all.\<close>

definition params_eq :: "'z rsn_sm_scheme \<Rightarrow> 'z rsn_sm_scheme \<Rightarrow> bool" where
  "params_eq s t \<longleftrightarrow>
     clock t = clock s \<and> bssid t = bssid s \<and> own_addr t = own_addr s \<and>
     dot11RSNAConfigPMKLifetime t = dot11RSNAConfigPMKLifetime s \<and>
     dot11RSNAConfigPMKReauthThreshold t = dot11RSNAConfigPMKReauthThreshold s \<and>
     rsn_answers t = rsn_answers s \<and> rsn_sm.more t = rsn_sm.more s"

definition timers_only :: "'z rsn_sm_scheme \<Rightarrow> 'z rsn_sm_scheme \<Rightarrow> bool" where
  "timers_only s t \<longleftrightarrow>
     params_eq s t \<and> pmksa_heap t = pmksa_heap s \<and> pmksa t = pmksa s \<and> pmksa_count t = pmksa_count s \<and>
     cur_pmksa t = cur_pmksa s \<and> pmk t = pmk s \<and> rsn_trace t = rsn_trace s"

text \<open>The calls that the cache makes.\<close>

fun cache_effect :: "rsn_effect \<Rightarrow> bool" where
  "cache_effect (Add_pmkid _ _ _ _ _ _ _ _) = True"
| "cache_effect (Remove_pmkid _ _ _ _) = True"
| "cache_effect (Deauthenticate _) = True"
| "cache_effect _ = False"

definition cache_frame :: "'z rsn_sm_scheme \<Rightarrow> 'z rsn_sm_scheme \<Rightarrow> bool" where
  "cache_frame s t \<longleftrightarrow>
     params_eq s t \<and> (\<exists>es. rsn_trace t = rsn_trace s @ es \<and> list_all cache_effect es) \<and>
     (cur_pmksa t = cur_pmksa s \<or> cur_pmksa t = None) \<and> (pmk t = pmk s \<or> pmk t = [])"

lemma cache_frame_refl [simp]: "cache_frame s s"
  by (simp add: cache_frame_def params_eq_def)

lemma cache_frame_trans: "cache_frame s t \<Longrightarrow> cache_frame t u \<Longrightarrow> cache_frame s u"
  by (auto simp: cache_frame_def params_eq_def)

lemma timers_only_frame: "timers_only s t \<Longrightarrow> cache_frame s t"
  by (simp add: timers_only_def cache_frame_def)

lemma timers_only_inv: "timers_only s t \<Longrightarrow> pmksa_inv D k t = pmksa_inv D k s"
  by (simp add: timers_only_def pmksa_inv_def)

section \<open>Lookups\<close>

lemma pmksa_find_eq:
  assumes "pmksa_inv D k s" "set as \<subseteq> set (pmksa s) \<union> D"
  shows "pmksa_find P as s = Some (find (\<lambda>a. P (entry_at s a)) as)"
  using assms(2)
proof (induction as)
  case (Cons a as)
  then obtain e where "pmksa_heap s a = Some e" using pmksa_inv_heap [OF assms(1), of a] by auto
  with Cons show ?case by simp
qed simp

lemma pmksa_get_eq:
  assumes "pmksa_inv D k s"
  shows "pmksa_cache_get aa pmkid ctx akmp s =
    Some (find (\<lambda>a. pmksa_match aa pmkid ctx akmp (entry_at s a)) (pmksa s))"
  unfolding pmksa_cache_get_def by (rule pmksa_find_eq [OF assms]) simp

lemma find_set: "find P xs = Some x \<Longrightarrow> x \<in> set xs \<and> P x"
  by (auto simp: find_Some_iff)

section \<open>Freeing and unlinking\<close>

lemma free_cb_frame:
  "cache_frame s (wpa_sm_pmksa_free_cb a e r s)" "cur_pmksa (wpa_sm_pmksa_free_cb a e r s) \<noteq> Some a"
  "pmksa (wpa_sm_pmksa_free_cb a e r s) = pmksa s" "pmksa_heap (wpa_sm_pmksa_free_cb a e r s) = pmksa_heap s"
  "pmksa_count (wpa_sm_pmksa_free_cb a e r s) = pmksa_count s"
  "r \<noteq> PMKSA_EXPIRE \<Longrightarrow>
     cur_pmksa (wpa_sm_pmksa_free_cb a e r s) = (if cur_pmksa s = Some a then None else cur_pmksa s)"
  by (simp_all add: wpa_sm_pmksa_free_cb_def pmksa_cache_clear_current_def rsn_emit_def cache_frame_def params_eq_def)

lemma free_entry_inv:
  assumes "pmksa_inv D k s" "a \<in> D"
  shows "returns (\<lambda>t. pmksa_inv (D - {a}) (k - 1) t \<and> pmksa t = pmksa s \<and> pmksa_heap t = (pmksa_heap s)(a := None) \<and>
           pmksa_count t = pmksa_count s - 1 \<and> cache_frame s t \<and>
           (r \<noteq> PMKSA_EXPIRE \<longrightarrow> cur_pmksa t = (if cur_pmksa s = Some a then None else cur_pmksa s)))
           (pmksa_cache_free_entry a r s)"
proof -
  obtain e where e: "pmksa_heap s a = Some e" using assms by (auto simp: pmksa_inv_def)
  define u where "u = rsn_emit (Remove_pmkid (pe_network_ctx e) (pe_aa e) (pe_pmkid e) (pe_fils_cache_id e)) s
    \<lparr>pmksa_count := pmksa_count s - 1\<rparr>"
  define v where "v = wpa_sm_pmksa_free_cb a e r u"
  define t where "t = v\<lparr>pmksa_heap := (pmksa_heap v)(a := None)\<rparr>"
  have u: "cache_frame s u" "pmksa u = pmksa s" "pmksa_heap u = pmksa_heap s" "pmksa_count u = pmksa_count s - 1"
      "cur_pmksa u = cur_pmksa s"
    by (simp_all add: u_def rsn_emit_def cache_frame_def params_eq_def)
  have v: "cache_frame u v" "cur_pmksa v \<noteq> Some a" "pmksa v = pmksa s" "pmksa_heap v = pmksa_heap s"
      "pmksa_count v = pmksa_count s - 1"
    by (simp_all add: v_def free_cb_frame u)
  have t: "pmksa t = pmksa s" "pmksa_heap t = (pmksa_heap s)(a := None)" "pmksa_count t = pmksa_count s - 1"
      "cur_pmksa t = cur_pmksa v" by (simp_all add: t_def v)
  have sv: "cache_frame s v" by (rule cache_frame_trans [OF u(1) v(1)])
  then have f: "cache_frame s t" by (simp add: cache_frame_def params_eq_def t_def)
  then have c: "cur_pmksa t = cur_pmksa s \<or> cur_pmksa t = None" by (simp add: cache_frame_def)
  have "pmksa_inv (D - {a}) (k - 1) t"
    using assms v(2) c t by (auto simp: pmksa_inv_def) (metis+)
  moreover have "pmksa_cache_free_entry a r s = Some t"
    by (simp add: pmksa_cache_free_entry_def e Let_def t_def v_def u_def rsn_emit_def)
  moreover have "r \<noteq> PMKSA_EXPIRE \<longrightarrow> cur_pmksa t = (if cur_pmksa s = Some a then None else cur_pmksa s)"
    by (simp add: t(4) v_def free_cb_frame u)
  ultimately show ?thesis using f t by simp
qed

lemma pmksa_frame_list [simp]: "cache_frame s (s\<lparr>pmksa := l\<rparr>)"
  by (simp add: cache_frame_def params_eq_def)

lemma unlink_inv:
  assumes "pmksa_inv D k s" "a \<in> set (pmksa s)"
  shows "pmksa_inv (insert a D) (k + 1) (pmksa_unlink a s)"
proof -
  have d: "distinct (pmksa s)" using assms(1) by (simp add: pmksa_inv_def)
  have "set (remove1 a (pmksa s)) = set (pmksa s) - {a}" using d by simp
  moreover have "int (length (remove1 a (pmksa s))) = int (length (pmksa s)) - 1"
    using length_pos_if_in_set [OF assms(2)] assms(2) by (simp add: length_remove1 of_nat_diff Suc_le_eq flip: length_greater_0_conv)
  ultimately show ?thesis using assms by (auto simp: pmksa_inv_def pmksa_unlink_def)
qed

text \<open>The pair that every removal from the list performs.\<close>

lemma unlink_free_inv:
  assumes "pmksa_inv D k s" "a \<in> set (pmksa s)" "a \<notin> D"
  shows "returns (\<lambda>t. pmksa_inv D k t \<and> pmksa t = remove1 a (pmksa s) \<and> pmksa_heap t = (pmksa_heap s)(a := None) \<and>
           cache_frame s t \<and>
           (r \<noteq> PMKSA_EXPIRE \<longrightarrow> cur_pmksa t = (if cur_pmksa s = Some a then None else cur_pmksa s)))
           (pmksa_cache_free_entry a r (pmksa_unlink a s))"
  using free_entry_inv [OF unlink_inv [OF assms(1,2)], of a r]
proof (rule returns_mono [OF _ ], goal_cases)
  case (2 t)
  then show ?case using assms(3)
    by (auto simp: pmksa_unlink_def intro: cache_frame_trans [OF pmksa_frame_list])
qed simp

section \<open>Timers\<close>

lemma register_timers_only:
  "timers_only s (register_expire sec s)" "timers_only s (register_reauth sec s)"
  by (simp_all add: timers_only_def params_eq_def register_expire_def register_reauth_def rsn_ask_def)

lemma timers_only_trans: "timers_only s t \<Longrightarrow> timers_only t u \<Longrightarrow> timers_only s u"
  by (simp add: timers_only_def params_eq_def)

lemma timers_only_upd:
  "timers_only s (s\<lparr>expire_timer := x, reauth_timer := y\<rparr>)"
  by (simp add: timers_only_def params_eq_def)

lemma expire_sec_returns:
  assumes "pmksa_inv D k s" "pmksa s = a # as"
  shows "returns (\<lambda>_. True) (pmksa_expire_sec a as e s)"
proof (cases as)
  case Nil
  then show ?thesis by (simp add: pmksa_expire_sec_def Let_def)
next
  case (Cons b bs)
  then obtain e' where "pmksa_heap s b = Some e'" using pmksa_inv_heap [OF assms(1), of b] assms(2) by auto
  with Cons show ?thesis by (simp add: pmksa_expire_sec_def Let_def)
qed

lemma set_expiration_timers:
  assumes "pmksa_inv D k s"
  shows "returns (timers_only s) (pmksa_cache_set_expiration s)"
proof -
  define s0 where "s0 = s\<lparr>expire_timer := None, reauth_timer := None\<rparr>"
  have t0: "timers_only s s0" by (simp add: s0_def timers_only_upd)
  then have i0: "pmksa_inv D k s0" using assms by (simp add: timers_only_inv)
  show ?thesis
  proof (cases "pmksa s0")
    case Nil
    then show ?thesis using t0 unfolding pmksa_cache_set_expiration_def s0_def [symmetric] Let_def by simp
  next
    case (Cons a as)
    obtain e where e: "pmksa_heap s0 a = Some e" using pmksa_inv_heap [OF i0, of a] Cons by auto
    obtain sec where sec: "pmksa_expire_sec a as e s0 = Some sec"
      using expire_sec_returns [OF i0 Cons, of e] by (auto simp: returns_iff)
    define s1 where "s1 = register_expire (sec + 1) s0"
    have t1: "timers_only s s1" unfolding s1_def by (rule timers_only_trans [OF t0 register_timers_only(1)])
    have i1: "pmksa_inv D k s1" using assms t1 by (simp add: timers_only_inv)
    define cur where "cur = (case cur_pmksa s1 of Some c \<Rightarrow> Some c
       | None \<Rightarrow> find (\<lambda>a. pmksa_match (Some (bssid s1)) None 0 0 (entry_at s1 a)) (pmksa s1))"
    have cur: "(case cur_pmksa s1 of Some c \<Rightarrow> Some (Some c)
       | None \<Rightarrow> pmksa_cache_get (Some (bssid s1)) None 0 0 s1) = Some cur"
      by (simp add: cur_def pmksa_get_eq [OF i1] split: option.split)
    have ok: "\<exists>ce. pmksa_heap s1 c = Some ce" if "cur = Some c" for c
      using that i1 find_set pmksa_inv_heap [OF i1, of c]
      unfolding cur_def pmksa_inv_def by (fastforce split: option.splits)
    show ?thesis
      unfolding pmksa_cache_set_expiration_def s0_def [symmetric] Let_def
      using Cons e sec s1_def [symmetric] cur ok t1 timers_only_trans [OF t1 register_timers_only(2)]
      by (cases cur) (auto simp: Let_def)
  qed
qed

lemma set_expiration_inv:
  assumes "pmksa_inv D k s"
  shows "returns (\<lambda>t. pmksa_inv D k t \<and> timers_only s t) (pmksa_cache_set_expiration s)"
  using set_expiration_timers [OF assms] by (rule returns_mono) (simp add: timers_only_inv assms)

section \<open>Flushing and expiring\<close>

text \<open>The entries that stay keep their contents and their order; \<open>x\<close> says that an entry in
  use that stays remains the entry in use.\<close>

definition keeps :: "bool \<Rightarrow> nat set \<Rightarrow> (nat \<Rightarrow> bool) \<Rightarrow> 'z rsn_sm_scheme \<Rightarrow> 'z rsn_sm_scheme \<Rightarrow> bool" where
  "keeps x D Q s t \<longleftrightarrow>
     pmksa t = filter Q (pmksa s) \<and> (\<forall>a \<in> set (pmksa t) \<union> D. pmksa_heap t a = pmksa_heap s a) \<and> cache_frame s t \<and>
     (x \<longrightarrow> (\<forall>c \<in> set (pmksa t) \<union> D. cur_pmksa s = Some c \<longrightarrow> cur_pmksa t = Some c))"

lemma keeps_timers: "keeps x D Q s t \<Longrightarrow> timers_only t u \<Longrightarrow> keeps x D Q s u"
  using timers_only_frame [of t u] cache_frame_trans [of s t u]
  by (simp add: keeps_def timers_only_def)

lemma keeps_all: "keeps x D (\<lambda>_. True) s s"
  by (simp add: keeps_def)

lemma unlink_free_keeps:
  assumes "pmksa_inv D k s" "a \<in> set (pmksa s)" "x \<longrightarrow> r \<noteq> PMKSA_EXPIRE"
  shows "returns (\<lambda>t. pmksa_inv D k t \<and> keeps x D (\<lambda>b. b \<noteq> a) s t) (pmksa_cache_free_entry a r (pmksa_unlink a s))"
proof -
  have a: "a \<notin> D" and d: "distinct (pmksa s)" using assms by (auto simp: pmksa_inv_def)
  show ?thesis
    using unlink_free_inv [OF assms(1,2) a, of r]
    by (rule returns_mono)
      (use a d assms(3) in \<open>auto simp: keeps_def distinct_remove1_removeAll removeAll_filter_not_eq intro: filter_cong\<close>)
qed

lemma keeps_trans:
  assumes "keeps x D Q s t" "keeps x D R t u"
  shows "keeps x D (\<lambda>a. Q a \<and> R a) s u"
  using assms cache_frame_trans [of s t u] by (auto simp: keeps_def conj_commute)

lemma keeps_cong:
  "keeps x D Q s t \<Longrightarrow> (\<And>a. a \<in> set (pmksa s) \<Longrightarrow> Q a = R a) \<Longrightarrow> keeps x D R s t"
  by (auto simp: keeps_def cong: filter_cong)

lemma keeps_entry: "keeps x D Q s t \<Longrightarrow> a \<in> set (pmksa t) \<union> D \<Longrightarrow> entry_at t a = entry_at s a"
  by (simp add: keeps_def)

lemma flush_loop_keeps:
  assumes "pmksa_inv D k s" "set as \<subseteq> set (pmksa s)" "distinct as" "\<And>a. a \<in> set as \<Longrightarrow> P (entry_at s a) = Q a"
  shows "returns (\<lambda>p. pmksa_inv D k (snd p) \<and> keeps x D (\<lambda>a. \<not> (a \<in> set as \<and> Q a)) s (snd p) \<and>
            fst p = n + length (filter Q as))
           (pmksa_flush_loop P as n s)"
  using assms
proof (induction as arbitrary: s n)
  case Nil
  then show ?case by (simp add: keeps_all)
next
  case (Cons a as)
  obtain e where e: "pmksa_heap s a = Some e" using pmksa_inv_heap [OF Cons.prems(1), of a] Cons.prems(2) by auto
  have Pe: "P e = Q a" using Cons.prems(4) [of a] e by simp
  show ?case
  proof (cases "Q a")
    case False
    have "returns (\<lambda>p. pmksa_inv D k (snd p) \<and> keeps x D (\<lambda>a. \<not> (a \<in> set as \<and> Q a)) s (snd p) \<and>
            fst p = n + length (filter Q as)) (pmksa_flush_loop P as n s)"
      using Cons.IH [of s n] Cons.prems by simp
    then show ?thesis using False e Pe
      by (auto elim!: returns_mono keeps_cong)
  next
    case True
    have "returns (\<lambda>u. pmksa_inv D k u \<and> keeps x D (\<lambda>b. b \<noteq> a) s u) (pmksa_cache_free_entry a PMKSA_FREE (pmksa_unlink a s))"
      by (rule unlink_free_keeps) (use Cons.prems in auto)
    then have "returns (\<lambda>u. returns (\<lambda>p. pmksa_inv D k (snd p) \<and> keeps x D (\<lambda>b. \<not> (b \<in> set (a # as) \<and> Q b)) s (snd p) \<and>
            fst p = n + length (filter Q (a # as))) (pmksa_flush_loop P as (Suc n) u))
        (pmksa_cache_free_entry a PMKSA_FREE (pmksa_unlink a s))"
    proof (rule returns_mono, elim conjE)
      fix u assume u: "pmksa_inv D k u" "keeps x D (\<lambda>b. b \<noteq> a) s u"
      have sub: "set as \<subseteq> set (pmksa u)" using Cons.prems(2,3) u(2) by (auto simp: keeps_def)
      have "P (entry_at u b) = Q b" if "b \<in> set as" for b
        using Cons.prems(4) [of b] keeps_entry [OF u(2), of b] sub that by auto
      then have "returns (\<lambda>p. pmksa_inv D k (snd p) \<and> keeps x D (\<lambda>a. \<not> (a \<in> set as \<and> Q a)) u (snd p) \<and>
            fst p = Suc n + length (filter Q as)) (pmksa_flush_loop P as (Suc n) u)"
        using Cons.IH [OF u(1) sub, of "Suc n"] Cons.prems(3) by simp
      then show "returns (\<lambda>p. pmksa_inv D k (snd p) \<and> keeps x D (\<lambda>b. \<not> (b \<in> set (a # as) \<and> Q b)) s (snd p) \<and>
            fst p = n + length (filter Q (a # as))) (pmksa_flush_loop P as (Suc n) u)"
        by (rule returns_mono) (use True in \<open>auto intro: keeps_cong [OF keeps_trans [OF u(2)]]\<close>)
    qed
    then show ?thesis using True e Pe by (simp add: returns_bind)
  qed
qed

lemma flush_keeps:
  assumes "pmksa_inv D k s"
  shows "returns (\<lambda>t. pmksa_inv D k t \<and> keeps x D (\<lambda>a. \<not> pmksa_flush_match ctx p ext (entry_at s a)) s t)
           (pmksa_cache_flush ctx p ext s)"
proof -
  let ?P = "pmksa_flush_match ctx p ext"
  have "returns (\<lambda>q. pmksa_inv D k (snd q) \<and> keeps x D (\<lambda>a. \<not> (a \<in> set (pmksa s) \<and> ?P (entry_at s a))) s (snd q) \<and>
            fst q = 0 + length (filter (\<lambda>a. ?P (entry_at s a)) (pmksa s)))
           (pmksa_flush_loop ?P (pmksa s) 0 s)"
    by (rule flush_loop_keeps [OF assms]) (use assms in \<open>auto simp: pmksa_inv_def\<close>)
  then have "returns (\<lambda>q. pmksa_inv D k (snd q) \<and> keeps x D (\<lambda>a. \<not> ?P (entry_at s a)) s (snd q))
           (pmksa_flush_loop ?P (pmksa s) 0 s)"
    by (rule returns_mono) (auto elim!: keeps_cong)
  then show ?thesis
    unfolding pmksa_cache_flush_def wp
    by (rule returns_mono) (auto intro!: returns_mono [OF set_expiration_inv] intro: keeps_timers)
qed

text \<open>The expiry loop frees expired entries only, and of the expired ones at the
  front it leaves at most the SAE entry in use. \<open>E\<close> gives the contents of the entries
  and \<open>c\<close> the entry in use when the loop starts.\<close>

definition expired_gone ::
  "(nat \<Rightarrow> rsn_pmksa_cache_entry) \<Rightarrow> u64 \<Rightarrow> nat option \<Rightarrow> nat list \<Rightarrow> (nat \<Rightarrow> bool) \<Rightarrow> bool" where
  "expired_gone E now c as Q \<longleftrightarrow>
     (\<forall>a. a \<notin> set as \<longrightarrow> Q a) \<and> (\<forall>a \<in> set as. \<not> Q a \<longrightarrow> pe_expiration (E a) \<le> now) \<and>
     (\<forall>a \<in> set (takeWhile (\<lambda>a. pe_expiration (E a) \<le> now) as). Q a \<longrightarrow>
        wpa_key_mgmt_sae (pe_akmp (E a)) \<and> c = Some a)"

lemma expire_loop_keeps:
  assumes "pmksa_inv D k s" "set as \<subseteq> set (pmksa s)" "distinct as"
    "\<And>a. a \<in> set as \<Longrightarrow> entry_at s a = E a" "cur_pmksa s = c \<or> cur_pmksa s = None"
  shows "returns (\<lambda>t. pmksa_inv D k t \<and> (\<exists>Q. keeps False D Q s t \<and> expired_gone E now c as Q))
           (pmksa_expire_loop now as s)"
  using assms
proof (induction as arbitrary: s)
  case Nil
  then show ?case by (auto intro!: exI [of _ "\<lambda>_. True"] keeps_all simp: expired_gone_def)
next
  case (Cons a as)
  have e: "pmksa_heap s a = Some (E a)"
    using pmksa_inv_heap [OF Cons.prems(1), of a] Cons.prems(2,4) by auto
  consider (stop) "\<not> pe_expiration (E a) \<le> now"
    | (postpone) "pe_expiration (E a) \<le> now" "wpa_key_mgmt_sae (pe_akmp (E a))" "cur_pmksa s = Some a"
    | (free) "pe_expiration (E a) \<le> now" "\<not> (wpa_key_mgmt_sae (pe_akmp (E a)) \<and> cur_pmksa s = Some a)" by blast
  then show ?case
  proof cases
    case stop
    then show ?thesis using e Cons.prems(1)
      by (auto intro!: exI [of _ "\<lambda>_. True"] keeps_all simp: expired_gone_def)
  next
    case postpone
    have "returns (\<lambda>t. pmksa_inv D k t \<and> (\<exists>Q. keeps False D Q s t \<and> expired_gone E now c as Q)) (pmksa_expire_loop now as s)"
      using Cons.IH [of s] Cons.prems by simp
    then show ?thesis using postpone e Cons.prems(3,5)
      by (auto simp: wpa_sm_pmksa_is_current_cb_def expired_gone_def elim!: returns_mono)
  next
    case free
    have "returns (\<lambda>u. pmksa_inv D k u \<and> keeps False D (\<lambda>b. b \<noteq> a) s u) (pmksa_cache_free_entry a PMKSA_EXPIRE (pmksa_unlink a s))"
      by (rule unlink_free_keeps) (use Cons.prems in auto)
    then have "returns (\<lambda>u. returns (\<lambda>t. pmksa_inv D k t \<and> (\<exists>Q. keeps False D Q s t \<and> expired_gone E now c (a # as) Q))
          (pmksa_expire_loop now as u)) (pmksa_cache_free_entry a PMKSA_EXPIRE (pmksa_unlink a s))"
    proof (rule returns_mono, elim conjE)
      fix u assume u: "pmksa_inv D k u" "keeps False D (\<lambda>b. b \<noteq> a) s u"
      have sub: "set as \<subseteq> set (pmksa u)" using Cons.prems(2,3) u(2) by (auto simp: keeps_def)
      have "entry_at u b = E b" if "b \<in> set as" for b
        using Cons.prems(4) [of b] keeps_entry [OF u(2), of b] sub that by auto
      moreover have "cur_pmksa u = c \<or> cur_pmksa u = None"
        using u(2) Cons.prems(5) by (auto simp: keeps_def cache_frame_def)
      ultimately have "returns (\<lambda>t. pmksa_inv D k t \<and> (\<exists>Q. keeps False D Q u t \<and> expired_gone E now c as Q))
          (pmksa_expire_loop now as u)"
        using Cons.IH [OF u(1) sub] Cons.prems(3) by simp
      then show "returns (\<lambda>t. pmksa_inv D k t \<and> (\<exists>Q. keeps False D Q s t \<and> expired_gone E now c (a # as) Q))
          (pmksa_expire_loop now as u)"
      proof (rule returns_mono, elim conjE exE, intro conjI)
        fix t Q assume Q: "keeps False D Q u t" "expired_gone E now c as Q"
        show "\<exists>Q. keeps False D Q s t \<and> expired_gone E now c (a # as) Q"
          by (rule exI [of _ "\<lambda>b. b \<noteq> a \<and> Q b"])
            (use Q(2) free(1) keeps_trans [OF u(2) Q(1)] in \<open>auto simp: expired_gone_def\<close>)
      qed
    qed
    then show ?thesis using free e by (auto simp: returns_bind wpa_sm_pmksa_is_current_cb_def)
  qed
qed

lemma expire_keeps:
  assumes "pmksa_inv D k s"
  shows "returns (\<lambda>t. pmksa_inv D k t \<and>
           (\<exists>Q. keeps False D Q s t \<and> expired_gone (entry_at s) (clock s) (cur_pmksa s) (pmksa s) Q))
           (pmksa_cache_expire s)"
proof -
  have "returns (\<lambda>t. pmksa_inv D k t \<and>
           (\<exists>Q. keeps False D Q s t \<and> expired_gone (entry_at s) (clock s) (cur_pmksa s) (pmksa s) Q))
           (pmksa_expire_loop (clock s) (pmksa s) s)"
    by (rule expire_loop_keeps [OF assms]) (use assms in \<open>auto simp: pmksa_inv_def\<close>)
  then show ?thesis
    unfolding pmksa_cache_expire_def wp
    by (rule returns_mono) (auto intro!: returns_mono [OF set_expiration_inv] intro: keeps_timers)
qed

section \<open>Adding\<close>

lemma pmksa_insert_eq:
  assumes "\<And>p. p \<in> set ps \<Longrightarrow> pmksa_heap s p = Some (E p)"
  shows "pmksa_insert ex a ps s = Some (takeWhile (\<lambda>p. pe_expiration (E p) \<le> ex) ps @ a #
           dropWhile (\<lambda>p. pe_expiration (E p) \<le> ex) ps)"
  using assms by (induction ps) (auto simp: not_le)

lemma replace_keeps:
  assumes "pmksa_inv D k s" "pos \<in> set (pmksa s)"
  shows "returns (\<lambda>t. pmksa_inv D k t \<and> keeps x D (\<lambda>a. a \<noteq> pos \<and>
             (pe_opportunistic (entry_at s pos) \<or>
              \<not> pmksa_flush_match (pe_network_ctx e) (Some (pe_pmk (entry_at s pos))) False (entry_at s a))) s t)
           (pmksa_cache_replace pos e s)"
proof -
  obtain p where p: "pmksa_heap s pos = Some p" using pmksa_inv_heap [OF assms(1), of pos] assms(2) by auto
  have pD: "pos \<notin> D" and ds: "distinct (pmksa s)" using assms by (auto simp: pmksa_inv_def)
  let ?u = "pmksa_unlink pos s"
  let ?R = "\<lambda>a. pe_opportunistic p \<or> \<not> pmksa_flush_match (pe_network_ctx e) (Some (pe_pmk p)) False (entry_at s a)"
  have u: "pmksa_inv (insert pos D) (k + 1) ?u" by (rule unlink_inv [OF assms])
  have "returns (\<lambda>t. pmksa_inv (insert pos D) (k + 1) t \<and> keeps x (insert pos D) ?R ?u t)
     (if \<not> pe_opportunistic p then pmksa_cache_flush (pe_network_ctx e) (Some (pe_pmk p)) False ?u else Some ?u)"
    using flush_keeps [OF u, where ctx = "pe_network_ctx e" and p = "Some (pe_pmk p)" and ext = False] u
    by (auto simp: pmksa_unlink_def keeps_def elim!: returns_mono)
  then have "returns (\<lambda>t. returns (\<lambda>t. pmksa_inv D k t \<and> keeps x D (\<lambda>a. a \<noteq> pos \<and> ?R a) s t)
       (pmksa_cache_free_entry pos PMKSA_REPLACE t))
     (if \<not> pe_opportunistic p then pmksa_cache_flush (pe_network_ctx e) (Some (pe_pmk p)) False ?u else Some ?u)"
  proof (rule returns_mono, elim conjE)
    fix t assume t: "pmksa_inv (insert pos D) (k + 1) t" "keeps x (insert pos D) ?R ?u t"
    have "pmksa t = filter (\<lambda>a. a \<noteq> pos \<and> ?R a) (pmksa s)"
      using t(2) ds by (simp add: keeps_def pmksa_unlink_def distinct_remove1_removeAll removeAll_filter_not_eq
          conj_commute eq_commute [of pos])
    moreover have "cache_frame s t"
      using t(2) cache_frame_trans [OF pmksa_frame_list] by (auto simp: keeps_def pmksa_unlink_def)
    ultimately show "returns (\<lambda>t. pmksa_inv D k t \<and> keeps x D (\<lambda>a. a \<noteq> pos \<and> ?R a) s t)
       (pmksa_cache_free_entry pos PMKSA_REPLACE t)"
      using pD ds t(2) by (intro returns_mono [OF free_entry_inv [OF t(1), of pos PMKSA_REPLACE]])
        (auto simp: keeps_def pmksa_unlink_def intro: cache_frame_trans)
  qed
  then show ?thesis unfolding pmksa_cache_replace_def using p by (simp add: wp Let_def)
qed

text \<open>Making room removes one entry, never the one in use.\<close>

lemma make_room_keeps:
  assumes "pmksa_inv D 0 s" "length (pmksa s) \<le> 32"
  shows "returns (\<lambda>t. pmksa_inv D 0 t \<and> length (pmksa t) < 32 \<and>
           (\<exists>v. keeps x D (\<lambda>a. Some a \<noteq> v) s t \<and>
              (\<forall>a. v = Some a \<longrightarrow> length (pmksa s) = 32 \<and> a \<in> set (pmksa s) \<and> cur_pmksa s \<noteq> Some a)))
           (pmksa_cache_make_room s)"
proof (cases "length (pmksa s) = 32")
  case False
  then show ?thesis using assms
    by (auto simp: pmksa_cache_make_room_def pmksa_cache_max_entries_def pmksa_inv_def keeps_all intro!: exI [of _ None])
next
  case True
  then obtain h t where l: "pmksa s = h # t" "t \<noteq> []" by (cases "pmksa s"; cases "tl (pmksa s)") auto
  then obtain p r where t: "t = p # r" by (cases t) auto
  define v where "v = (if cur_pmksa s = Some h then p else h)"
  have d: "distinct (h # p # r)" using assms(1) l t by (simp add: pmksa_inv_def)
  have v: "v \<in> set (pmksa s)" "cur_pmksa s \<noteq> Some v" using d by (auto simp: v_def l t)
  have "pmksa_cache_make_room s = pmksa_cache_free_entry v PMKSA_FREE (pmksa_unlink v s)"
    using assms True d
    by (simp add: pmksa_cache_make_room_def pmksa_cache_max_entries_def pmksa_inv_def l t v_def pmksa_unlink_def)
  moreover have "length (filter (\<lambda>a. a \<noteq> v) (pmksa s)) < length (pmksa s)"
    using v(1) by (rule length_filter_less) simp
  ultimately show ?thesis
    using True v
    by (simp, intro returns_mono [OF unlink_free_keeps [OF assms(1) v(1), of x PMKSA_FREE]])
      (auto simp: keeps_def intro!: exI [of _ "Some v"])
qed

definition linked_in :: "nat \<Rightarrow> rsn_pmksa_cache_entry \<Rightarrow> nat list \<Rightarrow> (nat \<Rightarrow> rsn_pmksa_cache_entry) \<Rightarrow> nat list" where
  "linked_in a e l E =
     takeWhile (\<lambda>p. pe_expiration (E p) \<le> pe_expiration e) l @ a # dropWhile (\<lambda>p. pe_expiration (E p) \<le> pe_expiration e) l"

lemma set_linked_in [simp]: "set (linked_in a e l E) = insert a (set l)"
proof -
  have "set (takeWhile P l) \<union> set (dropWhile P l) = set l" for P
    by (metis set_append takeWhile_dropWhile_id)
  then show ?thesis by (auto simp: linked_in_def)
qed

lemma length_linked_in [simp]: "length (linked_in a e l E) = Suc (length l)"
  unfolding linked_in_def
  by (metis add_Suc_right length_Cons length_append takeWhile_dropWhile_id)

lemma distinct_linked_in: "distinct l \<Longrightarrow> a \<notin> set l \<Longrightarrow> distinct (linked_in a e l E)"
  by (auto simp: linked_in_def distinct_takeWhile dest: set_takeWhileD set_dropWhileD)
    (metis disjoint_iff distinct_append takeWhile_dropWhile_id)

lemma link_inv:
  assumes "pmksa_inv D k s" "a \<in> D" "pmksa_heap s a = Some e"
  shows "returns (\<lambda>t. pmksa_inv (D - {a}) k t \<and> pmksa t = linked_in a e (pmksa s) (entry_at s) \<and>
           pmksa_heap t = pmksa_heap s \<and> cache_frame s t \<and> cur_pmksa t = cur_pmksa s)
           (pmksa_cache_link a e s)"
proof -
  let ?l = "linked_in a e (pmksa s) (entry_at s)"
  have ins: "pmksa_insert (pe_expiration e) a (pmksa s) s = Some ?l"
    unfolding linked_in_def by (rule pmksa_insert_eq) (use pmksa_inv_heap [OF assms(1)] in auto)
  define u where "u = s\<lparr>pmksa := ?l\<rparr>"
  have a: "a \<notin> set (pmksa s)" using assms(1,2) by (auto simp: pmksa_inv_def)
  have u: "pmksa_inv (D - {a}) (k - 1) u"
    using assms(1,2) a distinct_linked_in [of "pmksa s" a e "entry_at s"] by (auto simp: pmksa_inv_def u_def)
  have "returns (\<lambda>t. pmksa_inv (D - {a}) (k - 1) t \<and> timers_only u t)
     (if hd ?l = a then pmksa_cache_set_expiration u else Some u)"
    using set_expiration_inv [OF u] u by (simp add: timers_only_def params_eq_def)
  then show ?thesis
    unfolding pmksa_cache_link_def using ins
    by (simp add: wp u_def [symmetric] Let_def)
      (auto simp: rsn_emit_def pmksa_inv_def timers_only_def params_eq_def cache_frame_def u_def elim!: returns_mono)
qed

text \<open>What adding the entry \<open>e\<close> at \<open>a\<close> does: an entry of the same authenticator with the same
  keys is used instead, or \<open>e\<close> takes its place in the order of expiration, and the
  entry it replaces, the entries that go with that one and possibly a victim \<open>v\<close> are
  gone.\<close>

definition add_keeps :: "rsn_pmksa_cache_entry \<Rightarrow> (nat \<Rightarrow> rsn_pmksa_cache_entry) \<Rightarrow> nat option \<Rightarrow> nat option \<Rightarrow> nat \<Rightarrow> bool" where
  "add_keeps e E old v b \<longleftrightarrow>
     Some b \<noteq> old \<and> Some b \<noteq> v \<and>
     (\<forall>q. old = Some q \<longrightarrow> pe_opportunistic (E q) \<or>
        \<not> pmksa_flush_match (pe_network_ctx e) (Some (pe_pmk (E q))) False (E b))"

definition added :: "nat \<Rightarrow> rsn_pmksa_cache_entry \<Rightarrow> nat option \<Rightarrow> 'z rsn_sm_scheme \<Rightarrow> 'z rsn_sm_scheme \<Rightarrow> bool" where
  "added a e old s t \<longleftrightarrow>
     (\<exists>v. pmksa t = linked_in a e (filter (add_keeps e (entry_at s) old v) (pmksa s)) (entry_at s) \<and>
        (\<forall>b \<in> set (pmksa t). pmksa_heap t b = pmksa_heap s b) \<and> cache_frame s t \<and>
        length (pmksa t) \<le> 32 \<and> (\<forall>c \<in> set (pmksa t). cur_pmksa s = Some c \<longrightarrow> cur_pmksa t = Some c) \<and>
        (\<forall>b. v = Some b \<longrightarrow> b \<in> set (pmksa s) \<and> cur_pmksa s \<noteq> Some b \<and> length (pmksa s) = 32))"

lemma linked_in_cong:
  assumes "\<And>b. b \<in> set l \<Longrightarrow> E b = E' b"
  shows "linked_in a e l E = linked_in a e l E'"
proof -
  have "takeWhile (\<lambda>p. pe_expiration (E p) \<le> x) l = takeWhile (\<lambda>p. pe_expiration (E' p) \<le> x) l" for x
    using assms by (induction l) auto
  moreover have "dropWhile (\<lambda>p. pe_expiration (E p) \<le> x) l = dropWhile (\<lambda>p. pe_expiration (E' p) \<le> x) l" for x
    using assms by (induction l) auto
  ultimately show ?thesis by (simp add: linked_in_def)
qed

lemma add_entry_replaced:
  assumes "pmksa_inv D 0 s" "find (\<lambda>b. pe_aa e = pe_aa (entry_at s b)) (pmksa s) = old"
  shows "returns (\<lambda>t. pmksa_inv D 0 t \<and> keeps True D (add_keeps e (entry_at s) old None) s t)
     (case old of None \<Rightarrow> Some s | Some pos \<Rightarrow> pmksa_cache_replace pos e s)"
proof (cases old)
  case None
  then show ?thesis using assms(1) by (simp add: add_keeps_def keeps_def)
next
  case (Some pos)
  then have "pos \<in> set (pmksa s)" using assms(2) find_set by fastforce
  from replace_keeps [OF assms(1) this, of True e] show ?thesis
    using Some by (simp, elim returns_mono) (auto simp: add_keeps_def elim!: keeps_cong)
qed

lemma add_entry_new:
  assumes "pmksa_inv {a} 0 s" "pmksa_heap s a = Some e" "length (pmksa s) \<le> 32"
    "find (\<lambda>b. pe_aa e = pe_aa (entry_at s b)) (pmksa s) = old"
  shows "returns (\<lambda>t. pmksa_inv {} 0 t \<and> added a e old s t)
     (do { s \<leftarrow> (case old of None \<Rightarrow> Some s | Some pos \<Rightarrow> pmksa_cache_replace pos e s);
           s \<leftarrow> pmksa_cache_make_room s;
           pmksa_cache_link a e s })"
  unfolding returns_bind
proof (rule returns_mono [OF add_entry_replaced [OF assms(1,4)]], elim conjE)
  fix s1 assume s1: "pmksa_inv {a} 0 s1" "keeps True {a} (add_keeps e (entry_at s) old None) s s1"
  have len: "length (pmksa s1) \<le> 32"
    using s1(2) order_trans [OF length_filter_le assms(3)] by (simp add: keeps_def)
  show "returns (\<lambda>y. returns (\<lambda>t. pmksa_inv {} 0 t \<and> added a e old s t) (pmksa_cache_link a e y)) (pmksa_cache_make_room s1)"
  proof (rule returns_mono [OF make_room_keeps [OF s1(1) len, of True]], elim conjE exE)
    fix s2 v
    assume s2: "pmksa_inv {a} 0 s2" "length (pmksa s2) < 32" "keeps True {a} (\<lambda>b. Some b \<noteq> v) s1 s2"
      and v: "\<forall>b. v = Some b \<longrightarrow> length (pmksa s1) = 32 \<and> b \<in> set (pmksa s1) \<and> cur_pmksa s1 \<noteq> Some b"
    have k: "keeps True {a} (add_keeps e (entry_at s) old v) s s2"
      by (rule keeps_cong [OF keeps_trans [OF s1(2) s2(3)]]) (auto simp: add_keeps_def)
    have he: "pmksa_heap s2 a = Some e" using k assms(2) by (simp add: keeps_def)
    have sub: "length (pmksa s1) \<le> length (pmksa s)" "set (pmksa s1) \<subseteq> set (pmksa s)"
      using s1(2) by (auto simp: keeps_def)
    have cur: "b \<in> set (pmksa s) \<and> cur_pmksa s \<noteq> Some b \<and> length (pmksa s) = 32" if "v = Some b" for b
      using s1(2) v that sub assms(3) by (auto simp: keeps_def)
    have l: "linked_in a e (pmksa s2) (entry_at s2) =
        linked_in a e (filter (add_keeps e (entry_at s) old v) (pmksa s)) (entry_at s)"
      using k linked_in_cong [of "pmksa s2" "entry_at s2" "entry_at s" a e] by (auto simp: keeps_def)
    show "returns (\<lambda>t. pmksa_inv {} 0 t \<and> added a e old s t) (pmksa_cache_link a e s2)"
    proof (rule returns_mono [OF link_inv [OF s2(1) _ he]], simp, elim conjE, intro conjI)
      fix t
      assume t: "pmksa_inv ({a} - {a}) 0 t" "pmksa t = linked_in a e (pmksa s2) (entry_at s2)"
        "pmksa_heap t = pmksa_heap s2" "cache_frame s2 t" "cur_pmksa t = cur_pmksa s2"
      then show "pmksa_inv {} 0 t" by simp
      have "cache_frame s t" using k t(4) cache_frame_trans by (auto simp: keeps_def)
      then show "added a e old s t"
        unfolding added_def using k t s2(2) l cur
        by (intro exI [of _ v]) (auto simp: keeps_def)
    qed
  qed
qed

lemma add_entry_spec:
  assumes "pmksa_inv {a} 0 s" "pmksa_heap s a = Some e" "length (pmksa s) \<le> 32"
    "find (\<lambda>b. pe_aa e = pe_aa (entry_at s b)) (pmksa s) = old"
    "cur_pmksa s \<noteq> Some a"
  shows "returns (\<lambda>(r, t). pmksa_inv {} 0 t \<and>
           (if \<exists>q. old = Some q \<and> pe_pmk (entry_at s q) = pe_pmk e \<and> pe_pmkid (entry_at s q) = pe_pmkid e
            then old = Some r \<and> t = s\<lparr>pmksa_heap := (pmksa_heap s)(a := None)\<rparr>
            else r = a \<and> added a e old s t)) (pmksa_cache_add_entry a s)"
proof -
  have f: "pmksa_find (\<lambda>p. pe_aa e = pe_aa p) (pmksa s) s = Some old"
    using pmksa_find_eq [OF assms(1), of "pmksa s" "\<lambda>p. pe_aa e = pe_aa p"] assms(4) by auto
  have old: "\<exists>p. pmksa_heap s q = Some p" if "old = Some q" for q
    using that assms(4) find_set pmksa_inv_heap [OF assms(1), of q] by fastforce
  let ?reuse = "\<exists>q. old = Some q \<and> pe_pmk (entry_at s q) = pe_pmk e \<and> pe_pmkid (entry_at s q) = pe_pmkid e"
  have r: "(case old of None \<Rightarrow> Some False
       | Some pos \<Rightarrow> map_option (\<lambda>p. pe_pmk p = pe_pmk e \<and> pe_pmkid p = pe_pmkid e) (pmksa_heap s pos)) = Some ?reuse"
    using old by (cases old) auto
  have inv: "pmksa_inv {} 0 (s\<lparr>pmksa_heap := (pmksa_heap s)(a := None)\<rparr>)"
    using assms(1,5) by (auto simp: pmksa_inv_def)
  show ?thesis
  proof (cases ?reuse)
    case True
    then show ?thesis
      unfolding pmksa_cache_add_entry_def using assms(2) f r inv by auto
  next
    case False
    show ?thesis
      unfolding pmksa_cache_add_entry_def using assms(2) f r False add_entry_new [OF assms(1-4)]
      by (auto simp: wp elim!: returns_mono)
  qed
qed

section \<open>The cache between operations\<close>

definition exp_sorted :: "'z rsn_sm_scheme \<Rightarrow> bool" where
  "exp_sorted s \<longleftrightarrow> sorted (map (\<lambda>a. pe_expiration (entry_at s a)) (pmksa s))"

lemma keeps_sorted:
  assumes "keeps x {} Q s t" "exp_sorted s"
  shows "exp_sorted t"
proof -
  have "map (\<lambda>a. pe_expiration (entry_at t a)) (pmksa t) = map (\<lambda>a. pe_expiration (entry_at s a)) (filter Q (pmksa s))"
    using assms(1) by (auto simp: keeps_def)
  then show ?thesis using assms(2) by (simp add: exp_sorted_def sorted_filter)
qed

lemma linked_in_sorted:
  assumes "sorted (map (\<lambda>a. pe_expiration (E a)) l)" "E a = e"
  shows "sorted (map (\<lambda>a. pe_expiration (E a)) (linked_in a e l E))"
  using assms
proof (induction l)
  case Nil
  then show ?case by (simp add: linked_in_def)
next
  case (Cons b l)
  show ?case
  proof (cases "pe_expiration (E b) \<le> pe_expiration e")
    case True
    then have "linked_in a e (b # l) E = b # linked_in a e l E" by (simp add: linked_in_def)
    then show ?thesis using Cons True by auto
  next
    case False
    then have "linked_in a e (b # l) E = a # b # l" by (simp add: linked_in_def)
    then show ?thesis using Cons False by auto
  qed
qed

lemma added_sorted:
  assumes "added a e old s t" "pmksa_heap s a = Some e" "exp_sorted s"
  shows "exp_sorted t"
proof -
  obtain v where v: "pmksa t = linked_in a e (filter (add_keeps e (entry_at s) old v) (pmksa s)) (entry_at s)"
    "\<forall>b \<in> set (pmksa t). pmksa_heap t b = pmksa_heap s b" using assms(1) by (auto simp: added_def)
  have "sorted (map (\<lambda>a. pe_expiration (entry_at s a)) (pmksa t))"
    unfolding v(1) using assms(2,3) by (intro linked_in_sorted) (simp_all add: exp_sorted_def sorted_filter)
  moreover have "map (\<lambda>a. pe_expiration (entry_at s a)) (pmksa t) = map (\<lambda>a. pe_expiration (entry_at t a)) (pmksa t)"
    using v(2) by simp
  ultimately show ?thesis by (simp add: exp_sorted_def)
qed

definition aa_distinct :: "'z rsn_sm_scheme \<Rightarrow> bool" where
  "aa_distinct s \<longleftrightarrow> inj_on (\<lambda>a. pe_aa (entry_at s a)) (set (pmksa s))"

definition pmksa_ok :: "'z rsn_sm_scheme \<Rightarrow> bool" where
  "pmksa_ok s \<longleftrightarrow> pmksa_inv {} 0 s \<and> length (pmksa s) \<le> 32 \<and> aa_distinct s"

lemma pmksa_ok_inv: "pmksa_ok s \<Longrightarrow> pmksa_inv {} 0 s"
  by (simp add: pmksa_ok_def)

lemma timers_only_ok: "timers_only s t \<Longrightarrow> pmksa_ok t = pmksa_ok s"
  by (simp add: pmksa_ok_def timers_only_inv aa_distinct_def) (simp add: timers_only_def)

lemma keeps_ok:
  assumes "pmksa_ok s" "pmksa_inv {} 0 t" "keeps x {} Q s t"
  shows "pmksa_ok t"
proof -
  have "length (pmksa t) \<le> 32" using assms order_trans [OF length_filter_le, of "pmksa s" 32 Q]
    by (simp add: keeps_def pmksa_ok_def)
  moreover have "aa_distinct t" using assms(1,3) by (auto simp: keeps_def pmksa_ok_def aa_distinct_def inj_on_def)
  ultimately show ?thesis using assms(2) by (simp add: pmksa_ok_def)
qed

lemma added_aa_distinct:
  assumes "aa_distinct s" "pmksa_heap s a = Some e" "a \<notin> set (pmksa s)"
    "find (\<lambda>b. pe_aa e = pe_aa (entry_at s b)) (pmksa s) = old" "added a e old s t"
  shows "aa_distinct t"
proof -
  obtain v where v: "set (pmksa t) = insert a (set (filter (add_keeps e (entry_at s) old v) (pmksa s)))"
    "\<forall>b \<in> set (pmksa t). pmksa_heap t b = pmksa_heap s b"
    using assms(5) by (auto simp: added_def)
  have ne: "pe_aa (entry_at s b) \<noteq> pe_aa e" if "b \<in> set (pmksa t)" "b \<noteq> a" for b
  proof
    assume eq: "pe_aa (entry_at s b) = pe_aa e"
    have b: "b \<in> set (pmksa s)" "add_keeps e (entry_at s) old v b" using that v(1) by auto
    have "\<exists>b. b \<in> set (pmksa s) \<and> pe_aa e = pe_aa (entry_at s b)" using b(1) eq [symmetric] by blast
    then have "old \<noteq> None" unfolding assms(4) [symmetric] find_None_iff by simp
    then obtain q where q: "old = Some q" by blast
    then have "q \<in> set (pmksa s)" "pe_aa e = pe_aa (entry_at s q)" using find_set assms(4) by fastforce+
    then have "q = b" using assms(1) b(1) eq by (auto simp: aa_distinct_def inj_on_def)
    then show False using b(2) q by (simp add: add_keeps_def)
  qed
  show ?thesis
    unfolding aa_distinct_def
  proof (rule inj_onI)
    fix b c assume bc: "b \<in> set (pmksa t)" "c \<in> set (pmksa t)" "pe_aa (entry_at t b) = pe_aa (entry_at t c)"
    then have eq: "pe_aa (entry_at s b) = pe_aa (entry_at s c)" using v(2) by simp
    show "b = c"
    proof (cases "b = a \<or> c = a")
      case True
      then show ?thesis using ne bc(1,2) eq assms(2) by (metis option.sel)
    next
      case False
      then show ?thesis using assms(1) v(1) bc(1,2) eq by (auto simp: aa_distinct_def inj_on_def)
    qed
  qed
qed

definition add_post ::
  "rsn_pmksa_cache_entry \<Rightarrow> 'z rsn_sm_scheme \<Rightarrow> nat \<Rightarrow> 'z rsn_sm_scheme \<Rightarrow> bool" where
  "add_post e s r t \<longleftrightarrow>
     pmksa_ok t \<and> r \<in> set (pmksa t) \<and> cache_frame s t \<and>
     (\<forall>c \<in> set (pmksa t). cur_pmksa s = Some c \<longrightarrow> cur_pmksa t = Some c) \<and>
     pe_aa (entry_at t r) = pe_aa e \<and> pe_pmk (entry_at t r) = pe_pmk e \<and> pe_pmkid (entry_at t r) = pe_pmkid e \<and>
     (exp_sorted s \<longrightarrow> exp_sorted t)"

lemma add_entry_ok:
  assumes "pmksa_ok s" "pmksa_heap s a = None"
  shows "returns (\<lambda>(r, t). add_post e s r t)
           (pmksa_cache_add_entry a (s\<lparr>pmksa_heap := (pmksa_heap s)(a := Some e)\<rparr>))"
proof -
  let ?s = "s\<lparr>pmksa_heap := (pmksa_heap s)(a := Some e)\<rparr>"
  define old where "old = find (\<lambda>b. pe_aa e = pe_aa (entry_at ?s b)) (pmksa ?s)"
  have i: "pmksa_inv {} 0 s" "length (pmksa s) \<le> 32" "aa_distinct s" using assms(1) by (simp_all add: pmksa_ok_def)
  then have a: "a \<notin> set (pmksa s)" "cur_pmksa s \<noteq> Some a" using assms(2) by (auto simp: pmksa_inv_def)
  have inv: "pmksa_inv {a} 0 ?s" using i(1) a by (auto simp: pmksa_inv_def)
  have aa: "aa_distinct ?s" using i(3) a(1) by (auto simp: aa_distinct_def inj_on_def)
  have fr: "cache_frame s ?s" by (simp add: cache_frame_def params_eq_def)
  have "returns (\<lambda>(r, t). pmksa_inv {} 0 t \<and>
           (if \<exists>q. old = Some q \<and> pe_pmk (entry_at ?s q) = pe_pmk e \<and> pe_pmkid (entry_at ?s q) = pe_pmkid e
            then old = Some r \<and> t = ?s\<lparr>pmksa_heap := (pmksa_heap ?s)(a := None)\<rparr>
            else r = a \<and> added a e old ?s t)) (pmksa_cache_add_entry a ?s)"
    by (rule add_entry_spec [OF inv]) (use i a in \<open>simp_all add: old_def\<close>)
  then show ?thesis
  proof (rule returns_mono)
    fix y assume *: "case y of (r, t) \<Rightarrow> pmksa_inv {} 0 t \<and>
           (if \<exists>q. old = Some q \<and> pe_pmk (entry_at ?s q) = pe_pmk e \<and> pe_pmkid (entry_at ?s q) = pe_pmkid e
            then old = Some r \<and> t = ?s\<lparr>pmksa_heap := (pmksa_heap ?s)(a := None)\<rparr>
            else r = a \<and> added a e old ?s t)"
    obtain r t where y: "y = (r, t)" by (cases y)
    have inv_t: "pmksa_inv {} 0 t" using * y by simp
    have "add_post e s r t"
    proof (cases "\<exists>q. old = Some q \<and> pe_pmk (entry_at ?s q) = pe_pmk e \<and> pe_pmkid (entry_at ?s q) = pe_pmkid e")
      case True
      have r: "old = Some r" and "t = ?s\<lparr>pmksa_heap := (pmksa_heap ?s)(a := None)\<rparr>"
        using * unfolding y prod.case if_P [OF True] by blast+
      then have t: "t = s" using assms(2) by (simp add: fun_upd_idem)
      have "r \<in> set (pmksa s) \<and> pe_aa e = pe_aa (entry_at ?s r)"
        using find_set [of "\<lambda>b. pe_aa e = pe_aa (entry_at ?s b)" "pmksa ?s" r] r by (simp add: old_def)
      moreover have "entry_at ?s r = entry_at s r" using calculation a(1) by auto
      ultimately show ?thesis using t assms(1) True r by (simp add: add_post_def)
    next
      case False
      have r: "r = a" and t: "added a e old ?s t" using * unfolding y prod.case if_not_P [OF False] by blast+
      have "aa_distinct t" by (rule added_aa_distinct [OF aa _ _ _ t]) (use a in \<open>simp_all add: old_def\<close>)
      moreover have "exp_sorted s \<longrightarrow> exp_sorted t"
      proof
        assume srt: "exp_sorted s"
        have eq: "map (\<lambda>b. pe_expiration (entry_at ?s b)) (pmksa s) = map (\<lambda>b. pe_expiration (entry_at s b)) (pmksa s)"
          using a(1) by auto
        have "exp_sorted ?s" using srt unfolding exp_sorted_def eq [symmetric] by simp
        then show "exp_sorted t" by (rule added_sorted [OF t, rotated]) simp
      qed
      ultimately show ?thesis using inv_t r t cache_frame_trans [OF fr, of t]
        by (auto simp: added_def pmksa_ok_def add_post_def)
    qed
    then show "case y of (r, t) \<Rightarrow> add_post e s r t"
      using y by simp
  qed
qed

lemma rsn_pmkid_returns:
  assumes "crypto_ok C"
  shows "returns (\<lambda>p. length p = 16) (rsn_pmkid C k aa spa akmp)"
    "returns (returns (\<lambda>p. length p = 16)) (rsn_pmkid_suite_b C kck aa spa)"
    "returns (returns (\<lambda>p. length p = 16)) (rsn_pmkid_suite_b_192 C kck aa spa)"
proof -
  have h: "returns (\<lambda>h. 16 \<le> length h) (hmac_sha1 C x d)" "returns (\<lambda>h. 16 \<le> length h) (hmac_sha256 C x d)"
    "returns (\<lambda>h. 16 \<le> length h) (hmac_sha384 C x d)" for x d
    using assms unfolding crypto_ok_def returns_iff by fastforce+
  show "returns (\<lambda>p. length p = 16) (rsn_pmkid C k aa spa akmp)"
    using h(1) [of k "pmk_name @ aa @ spa"] h(2) [of k "pmk_name @ aa @ spa"] h(3) [of k "pmk_name @ aa @ spa"]
    by (auto simp: rsn_pmkid_def returns_iff rdn_def PMKID_LEN_def)
  show "returns (returns (\<lambda>p. length p = 16)) (rsn_pmkid_suite_b C kck aa spa)"
    using h(2) [of kck "pmk_name @ aa @ spa"]
    by (auto simp: rsn_pmkid_suite_b_def returns_iff rdn_def PMKID_LEN_def)
  show "returns (returns (\<lambda>p. length p = 16)) (rsn_pmkid_suite_b_192 C kck aa spa)"
    using h(3) [of kck "pmk_name @ aa @ spa"]
    by (auto simp: rsn_pmkid_suite_b_192_def returns_iff rdn_def PMKID_LEN_def)
qed

lemma pmksa_zalloc_fresh:
  assumes "pmksa_ok s" "pmksa_zalloc s = (Some a, t)"
  shows "pmksa_heap s a = None"
proof -
  have "Suc (fold max (pmksa s) 0) \<notin> set (pmksa s)"
    using Max.set_eq_fold [of 0 "pmksa s"] Max_ge [of "set (0 # pmksa s)"] by fastforce
  then show ?thesis using assms by (auto simp: pmksa_zalloc_def pmksa_ok_def pmksa_inv_def split: option.splits if_splits)
qed

lemma asked_ok [simp]:
  "pmksa_ok (s\<lparr>rsn_asked := n\<rparr>) = pmksa_ok s"
  by (simp add: pmksa_ok_def pmksa_inv_def aa_distinct_def)

lemma entry_pmkid_returns:
  assumes "crypto_ok C"
  shows "returns (\<lambda>p. \<forall>q. pmkid = Some q \<longrightarrow> p = q) (pmksa_entry_pmkid C k pmkid kck aa spa akmp)"
  using rsn_pmkid_returns(1) [OF assms, of k aa spa akmp] rsn_pmkid_returns(2,3) [OF assms, of "the kck" aa spa]
  by (cases pmkid) (auto simp: pmksa_entry_pmkid_def returns_iff)

definition add_result :: "bool \<Rightarrow> bytes \<Rightarrow> bytes option \<Rightarrow> bytes \<Rightarrow> 'z rsn_sm_scheme \<Rightarrow> nat option \<Rightarrow> 'z rsn_sm_scheme \<Rightarrow> bool" where
  "add_result srt k pmkid aa s r t \<longleftrightarrow>
     (srt \<and> exp_sorted s \<longrightarrow> exp_sorted t) \<and> pmksa_ok t \<and> cache_frame s t \<and> (\<forall>c \<in> set (pmksa t). cur_pmksa s = Some c \<longrightarrow> cur_pmksa t = Some c) \<and>
     (\<forall>a. r = Some a \<longrightarrow> a \<in> set (pmksa t) \<and> pe_aa (entry_at t a) = aa \<and> pe_pmk (entry_at t a) = k \<and>
        (\<forall>p. pmkid = Some p \<longrightarrow> pe_pmkid (entry_at t a) = p))"

lemma add_ok:
  assumes "crypto_ok C" "pmksa_ok s"
  shows "returns (\<lambda>p. add_result srt k pmkid aa s (fst p) (snd p))
           (pmksa_cache_add C k pmkid kck aa spa ctx akmp cache_id s)"
proof (cases "length k > PMK_LEN_MAX \<or> wpa_key_mgmt_suite_b akmp \<and> kck = None")
  case True
  then show ?thesis using assms(2) by (auto simp: pmksa_cache_add_def add_result_def)
next
  case False
  obtain r u where z: "pmksa_zalloc s = (r, u)" by (cases "pmksa_zalloc s")
  then have u: "u = s\<lparr>rsn_asked := Suc (rsn_asked s)\<rparr>" by (auto simp: pmksa_zalloc_def split: option.splits)
  then have ok: "pmksa_ok u" and fr: "cache_frame s u" "cur_pmksa u = cur_pmksa s" "exp_sorted u = exp_sorted s"
    using assms(2) by (simp_all add: cache_frame_def params_eq_def exp_sorted_def)
  show ?thesis
  proof (cases r)
    case None
    then show ?thesis using False z ok fr u by (auto simp: pmksa_cache_add_def add_result_def)
  next
    case (Some a)
    have fresh: "pmksa_heap u a = None" using pmksa_zalloc_fresh [OF assms(2)] z Some u by simp
    obtain pid where pid: "pmksa_entry_pmkid C k pmkid kck aa spa akmp = Some pid" "\<forall>q. pmkid = Some q \<longrightarrow> pid = q"
      using entry_pmkid_returns [OF assms(1), of pmkid k kck aa spa akmp] by (auto simp: returns_iff)
    have "returns (\<lambda>p. add_result srt k pmkid aa s (Some (fst p)) (snd p))
        (pmksa_cache_add_entry a (u\<lparr>pmksa_heap := (pmksa_heap u)(a := Some e)\<rparr>))"
      if "pe_aa e = aa" "pe_pmk e = k" "pe_pmkid e = pid" for e
      using add_entry_ok [OF ok fresh, of e] that pid(2) cache_frame_trans [OF fr(1)] fr(2,3)
      by (auto simp: add_post_def add_result_def elim!: returns_mono)
    then show ?thesis using False z Some pid(1)
      by (auto simp: pmksa_cache_add_def returns_bind Let_def split_beta)
  qed
qed

section \<open>Opportunistic caching and the current entry\<close>

lemma upd_entry_ok:
  assumes "pmksa_ok s" "a \<in> set (pmksa s)" "pe_aa e = pe_aa (entry_at s a)"
  shows "pmksa_ok (s\<lparr>pmksa_heap := (pmksa_heap s)(a \<mapsto> e)\<rparr>)"
proof -
  let ?t = "s\<lparr>pmksa_heap := (pmksa_heap s)(a \<mapsto> e)\<rparr>"
  have "pmksa_inv {} 0 ?t" using assms(1,2) by (auto simp: pmksa_ok_def pmksa_inv_def)
  moreover have "aa_distinct ?t = aa_distinct s"
    unfolding aa_distinct_def using assms(2,3) by (simp, intro inj_on_cong) auto
  ultimately show ?thesis using assms(1) by (simp add: pmksa_ok_def)
qed

lemma clone_ok:
  assumes "crypto_ok C" "pmksa_ok s" "old \<in> set (pmksa s)"
  shows "returns (\<lambda>p. add_result False (pe_pmk (entry_at s old)) None aa s (fst p) (snd p))
           (pmksa_cache_clone_entry C old aa s)"
proof -
  obtain e where e: "pmksa_heap s old = Some e" using pmksa_inv_heap [OF pmksa_ok_inv [OF assms(2)], of old] assms(3) by auto
  define pmkid where "pmkid = (if wpa_key_mgmt_sae (pe_akmp e) \<or> wpa_key_mgmt_fils (pe_akmp e) then Some (pe_pmkid e) else None)"
  have "returns (\<lambda>p. returns (\<lambda>q. add_result False (pe_pmk e) None aa s (fst q) (snd q))
      (case fst p of None \<Rightarrow> Some (None, snd p)
       | Some n \<Rightarrow> do {
           ne \<leftarrow> pmksa_heap (snd p) n;
           Some (Some n, (snd p)\<lparr>pmksa_heap := (pmksa_heap (snd p))(n \<mapsto>
             ne\<lparr>pe_expiration := pe_expiration e, pe_reauth_time := pe_reauth_time e, pe_opportunistic := True\<rparr>)\<rparr>) }))
      (pmksa_cache_add C (pe_pmk e) pmkid None aa (own_addr s) (pe_network_ctx e) (pe_akmp e) (pe_fils_cache_id e) s)"
  proof (rule returns_mono [OF add_ok [OF assms(1,2)]])
    fix p assume r: "add_result False (pe_pmk e) pmkid aa s (fst p) (snd p)"
    show "returns (\<lambda>q. add_result False (pe_pmk e) None aa s (fst q) (snd q))
      (case fst p of None \<Rightarrow> Some (None, snd p)
       | Some n \<Rightarrow> do {
           ne \<leftarrow> pmksa_heap (snd p) n;
           Some (Some n, (snd p)\<lparr>pmksa_heap := (pmksa_heap (snd p))(n \<mapsto>
             ne\<lparr>pe_expiration := pe_expiration e, pe_reauth_time := pe_reauth_time e, pe_opportunistic := True\<rparr>)\<rparr>) })"
    proof (cases "fst p")
      case None
      then show ?thesis using r by (simp add: add_result_def)
    next
      case (Some n)
      then have n: "pmksa_ok (snd p)" "n \<in> set (pmksa (snd p))" using r by (simp_all add: add_result_def)
      then obtain ne where ne: "pmksa_heap (snd p) n = Some ne"
        using pmksa_inv_heap [OF pmksa_ok_inv [OF n(1)], of n] by auto
      then show ?thesis using r Some upd_entry_ok [OF n]
        by (auto simp: add_result_def cache_frame_def params_eq_def)
    qed
  qed
  then show ?thesis using e by (simp add: pmksa_cache_clone_entry_def Let_def pmkid_def returns_bind split_beta)
qed

lemma opportunistic_ok:
  assumes "crypto_ok C" "pmksa_ok s"
  shows "returns (\<lambda>p. \<exists>k. add_result False k None aa s (fst p) (snd p)) (pmksa_cache_get_opportunistic C ctx aa akmp s)"
proof -
  define r where "r = find (\<lambda>a. pmksa_okc_match ctx akmp (clock s) (entry_at s a)) (pmksa s)"
  have f: "pmksa_find (pmksa_okc_match ctx akmp (clock s)) (pmksa s) s = Some r"
    using pmksa_find_eq [OF pmksa_ok_inv [OF assms(2)], of "pmksa s"] by (simp add: r_def)
  have none: "add_result False k None aa s None s" for k using assms(2) by (simp add: add_result_def)
  show ?thesis
  proof (cases r)
    case None
    then show ?thesis using f none by (auto simp: pmksa_cache_get_opportunistic_def)
  next
    case (Some old)
    then have "old \<in> set (pmksa s)" using find_set [of _ _ old] by (auto simp: r_def)
    then have "returns (\<lambda>p. \<exists>k. add_result False k None aa s (fst p) (snd p)) (pmksa_cache_clone_entry C old aa s)"
      using clone_ok [OF assms, of old aa] by (auto elim!: returns_mono)
    then show ?thesis using f Some none by (auto simp: pmksa_cache_get_opportunistic_def)
  qed
qed

text \<open>Each of the searches of \<open>pmksa_cache_set_current()\<close> selects an entry of the cache.\<close>

lemma set_cur_ok: "pmksa_ok s \<Longrightarrow> (\<And>c. r = Some c \<Longrightarrow> c \<in> set (pmksa s)) \<Longrightarrow> pmksa_ok (s\<lparr>cur_pmksa := r\<rparr>)"
  by (auto simp: pmksa_ok_def pmksa_inv_def aa_distinct_def)

lemma current_try_ok:
  assumes "pmksa_ok s"
    "returns (\<lambda>p. pmksa_ok (snd p) \<and> params_eq s (snd p) \<and> (\<forall>c. fst p = Some c \<longrightarrow> c \<in> set (pmksa (snd p)))) (f s)"
  shows "returns (\<lambda>t. pmksa_ok t \<and> params_eq s t) (pmksa_current_try b f s)"
  unfolding pmksa_current_try_def wp using assms
  by (auto simp: params_eq_def intro: set_cur_ok elim!: returns_mono)

lemma params_eq_trans: "params_eq s t \<Longrightarrow> params_eq t u \<Longrightarrow> params_eq s u"
  by (simp add: params_eq_def)

lemma find_try_ok:
  assumes "pmksa_ok s"
  shows "returns (\<lambda>p. pmksa_ok (snd p) \<and> params_eq s (snd p) \<and> (\<forall>c. fst p = Some c \<longrightarrow> c \<in> set (pmksa (snd p))))
    (map_option (\<lambda>r. (r, s)) (pmksa_find P (pmksa s) s))"
  using assms pmksa_find_eq [OF pmksa_ok_inv [OF assms], of "pmksa s" P] find_set
  by (fastforce simp: params_eq_def)

lemma set_current_ok:
  assumes "crypto_ok C" "pmksa_ok s"
  shows "returns (\<lambda>p. pmksa_ok (snd p) \<and> params_eq s (snd p) \<and> (fst p = 0 \<longleftrightarrow> cur_pmksa (snd p) \<noteq> None))
    (pmksa_cache_set_current C pmkid bss ctx try_opportunistic fils_cache_id akmp s)"
proof -
  have okc: "returns (\<lambda>p. pmksa_ok (snd p) \<and> params_eq u (snd p) \<and> (\<forall>c. fst p = Some c \<longrightarrow> c \<in> set (pmksa (snd p))))
    (pmksa_cache_get_opportunistic C ctx (the bss) akmp u)" if "pmksa_ok u" for u :: "'b rsn_sm_scheme"
    by (rule returns_mono [OF opportunistic_ok [OF assms(1) that]]) (auto simp: add_result_def cache_frame_def)
  have s0: "pmksa_ok (s\<lparr>cur_pmksa := None\<rparr>)" "params_eq s (s\<lparr>cur_pmksa := None\<rparr>)"
    using set_cur_ok [OF assms(2), of None] by (simp_all add: params_eq_def)
  have fin: "returns (\<lambda>p. pmksa_ok (snd p) \<and> params_eq s (snd p) \<and> (fst p = (0 :: int) \<longleftrightarrow> cur_pmksa (snd p) \<noteq> None))
     (case cur_pmksa t of None \<Rightarrow> Some (- 1, t)
      | Some c \<Rightarrow> do {
         e \<leftarrow> pmksa_heap t c;
         if wpa_key_mgmt_sae (pe_akmp e) \<and> pe_reauth_time e < clock t then Some (- 1, t\<lparr>cur_pmksa := None\<rparr>)
         else Some (0, t) })" if t: "pmksa_ok t" "params_eq s t" for t
  proof (cases "cur_pmksa t")
    case None
    then show ?thesis using t by simp
  next
    case (Some c)
    then obtain e where "pmksa_heap t c = Some e" using t(1) by (auto simp: pmksa_ok_def pmksa_inv_def)
    then show ?thesis using t Some set_cur_ok [OF t(1), of None] by (auto simp: params_eq_def)
  qed
  note st = returns_mono [OF current_try_ok]
  show ?thesis
    unfolding pmksa_cache_set_current_def pmksa_cache_get_def pmksa_cache_get_fils_cache_id_def returns_bind Let_def
    using s0 by (intro st [OF _ find_try_ok] st [OF _ okc] fin)
      (auto simp: params_eq_def)
qed

lemma reconfig_frame [simp]:
  "pmksa_ok (pmksa_reconfig_entry e s) = pmksa_ok s" "pmksa (pmksa_reconfig_entry e s) = pmksa s"
  by (simp_all add: pmksa_reconfig_entry_def Let_def rsn_emit_def pmksa_ok_def pmksa_inv_def aa_distinct_def)

lemma reconfig_loop_ok:
  assumes "pmksa_ok s" "set as \<subseteq> set (pmksa s)"
  shows "returns pmksa_ok (pmksa_reconfig_loop as s)"
  using assms
proof (induction as arbitrary: s)
  case (Cons a as)
  obtain e where e: "pmksa_heap s a = Some e" using pmksa_inv_heap [OF pmksa_ok_inv [OF Cons.prems(1)], of a] Cons.prems(2) by auto
  then show ?case using Cons by simp
qed simp

section \<open>Runs of the cache\<close>

text \<open>Everything that reaches the cache: calls from the WPA state machine and the
  control interface, the two timers, and changes of the fields it reads. An entry that
  the caller allocated (\<open>Ev_add_entry\<close>) comes with its contents.\<close>

datatype pmksa_ev =
    Ev_add bytes "bytes option" "bytes option" bytes nat u32 "bytes option"
  | Ev_add_entry rsn_pmksa_cache_entry
  | Ev_flush nat "bytes option" bool
  | Ev_set_current "bytes option" "bytes option" nat bool "bytes option" u32
  | Ev_clear_current
  | Ev_accepted
  | Ev_expire
  | Ev_reauth
  | Ev_reconfig
  | Ev_clock u64
  | Ev_config u32 u32
  | Ev_association bytes bytes

text \<open>\<open>Ev_accepted\<close> is the end of \<open>wpa_supplicant_key_neg_complete()\<close>: the authenticator
  accepted the entry, which is not opportunistic any more.\<close>

definition pmksa_accept_current :: "'z rsn_sm_scheme \<Rightarrow> 'z rsn_sm_scheme option" where
  "pmksa_accept_current s =
     (case cur_pmksa s of None \<Rightarrow> Some s
      | Some c \<Rightarrow> do {
          e \<leftarrow> pmksa_heap s c;
          Some (if pe_opportunistic e
                then s\<lparr>pmksa_heap := (pmksa_heap s)(c \<mapsto> e\<lparr>pe_opportunistic := False\<rparr>)\<rparr> else s) })"

fun pmksa_event :: "'y rsn_crypto_scheme \<Rightarrow> 'z rsn_sm_scheme \<Rightarrow> pmksa_ev \<Rightarrow> 'z rsn_sm_scheme option" where
  "pmksa_event C s (Ev_add k pmkid kck aa ctx akmp cid) =
     map_option snd (pmksa_cache_add C k pmkid kck aa (own_addr s) ctx akmp cid s)"
| "pmksa_event C s (Ev_add_entry e) =
     (case pmksa_zalloc s of (None, s) \<Rightarrow> Some s
      | (Some a, s) \<Rightarrow> map_option snd (pmksa_cache_add_entry a (s\<lparr>pmksa_heap := (pmksa_heap s)(a \<mapsto> e)\<rparr>)))"
| "pmksa_event C s (Ev_flush ctx k ext) = pmksa_cache_flush ctx k ext s"
| "pmksa_event C s (Ev_set_current pmkid bss ctx okc fcid akmp) =
     map_option snd (pmksa_cache_set_current C pmkid bss ctx okc fcid akmp s)"
| "pmksa_event C s Ev_clear_current = Some (pmksa_cache_clear_current s)"
| "pmksa_event C s Ev_accepted = pmksa_accept_current s"
| "pmksa_event C s Ev_expire = pmksa_cache_expire (s\<lparr>expire_timer := None\<rparr>)"
| "pmksa_event C s Ev_reauth = Some (pmksa_cache_reauth (s\<lparr>reauth_timer := None\<rparr>))"
| "pmksa_event C s Ev_reconfig = pmksa_cache_reconfig s"
| "pmksa_event C s (Ev_clock now) = Some (s\<lparr>clock := now\<rparr>)"
| "pmksa_event C s (Ev_config life thr) =
     Some (s\<lparr>dot11RSNAConfigPMKLifetime := life, dot11RSNAConfigPMKReauthThreshold := thr\<rparr>)"
| "pmksa_event C s (Ev_association b k) = Some (s\<lparr>bssid := b, pmk := k\<rparr>)"

definition pmksa_step :: "'y rsn_crypto_scheme \<Rightarrow> 'z rsn_sm_scheme option \<Rightarrow> pmksa_ev \<Rightarrow> 'z rsn_sm_scheme option" where
  "pmksa_step C r ev = do { s \<leftarrow> r; pmksa_event C s ev }"

lemma accept_current_ok:
  assumes "pmksa_ok s"
  shows "returns pmksa_ok (pmksa_accept_current s)"
proof (cases "cur_pmksa s")
  case None
  then show ?thesis using assms by (simp add: pmksa_accept_current_def)
next
  case (Some c)
  then have c: "c \<in> set (pmksa s)" using assms by (auto simp: pmksa_ok_def pmksa_inv_def)
  then obtain e where "pmksa_heap s c = Some e" using pmksa_inv_heap [OF pmksa_ok_inv [OF assms], of c] by auto
  then show ?thesis using Some assms upd_entry_ok [OF assms c] by (simp add: pmksa_accept_current_def)
qed

lemma zalloc_cases:
  assumes "pmksa_ok s"
  obtains "pmksa_zalloc s = (None, s\<lparr>rsn_asked := Suc (rsn_asked s)\<rparr>)"
  | a where "pmksa_zalloc s = (Some a, s\<lparr>rsn_asked := Suc (rsn_asked s)\<rparr>)" "pmksa_heap s a = None"
proof (cases "rsn_answers s (rsn_asked s)")
  case None
  then show thesis using that(1) by (simp add: pmksa_zalloc_def)
next
  case (Some a)
  then have "\<exists>b. pmksa_zalloc s = (Some b, s\<lparr>rsn_asked := Suc (rsn_asked s)\<rparr>)" by (simp add: pmksa_zalloc_def)
  then show thesis using that(2) pmksa_zalloc_fresh [OF assms] by blast
qed

lemma pmksa_event_ok:
  assumes "crypto_ok C" "pmksa_ok s"
  shows "returns pmksa_ok (pmksa_event C s ev)"
proof (cases ev)
  case (Ev_add k pmkid kck aa ctx akmp cid)
  then show ?thesis using add_ok [OF assms, of True k pmkid aa kck "own_addr s" ctx akmp cid]
    by (auto simp: wp add_result_def elim!: returns_mono)
next
  case (Ev_add_entry e)
  show ?thesis
  proof (rule zalloc_cases [OF assms(2)])
    fix a assume a: "pmksa_zalloc s = (Some a, s\<lparr>rsn_asked := Suc (rsn_asked s)\<rparr>)" "pmksa_heap s a = None"
    then show ?thesis using Ev_add_entry assms(2)
        add_entry_ok [of "s\<lparr>rsn_asked := Suc (rsn_asked s)\<rparr>" a e]
      by (auto simp: wp add_post_def split_beta elim!: returns_mono)
  qed (use Ev_add_entry assms(2) in simp)
next
  case (Ev_flush ctx k ext)
  then show ?thesis using flush_keeps [OF pmksa_ok_inv [OF assms(2)], of True ctx k ext] keeps_ok [OF assms(2)]
    by (auto elim!: returns_mono)
next
  case (Ev_set_current pmkid bss ctx okc fcid akmp)
  then show ?thesis using set_current_ok [OF assms, of pmkid bss ctx okc fcid akmp]
    by (auto simp: wp elim!: returns_mono)
next
  case Ev_clear_current
  then show ?thesis using set_cur_ok [OF assms(2), of None] by (simp add: pmksa_cache_clear_current_def)
next
  case Ev_accepted
  then show ?thesis using accept_current_ok [OF assms(2)] by simp
next
  case Ev_expire
  have ok: "pmksa_ok (s\<lparr>expire_timer := None\<rparr>)" using assms(2) by (simp add: pmksa_ok_def pmksa_inv_def aa_distinct_def)
  show ?thesis using Ev_expire expire_keeps [OF pmksa_ok_inv [OF ok]] keeps_ok [OF ok]
    by (auto elim!: returns_mono)
next
  case Ev_reauth
  then show ?thesis using assms(2)
    by (simp add: pmksa_cache_reauth_def rsn_emit_def pmksa_ok_def pmksa_inv_def aa_distinct_def)
next
  case Ev_reconfig
  then show ?thesis using reconfig_loop_ok [OF assms(2)] by (simp add: pmksa_cache_reconfig_def)
qed (use assms(2) in \<open>simp_all add: pmksa_ok_def pmksa_inv_def aa_distinct_def\<close>)

lemma pmksa_init_ok: "cur_pmksa s = None \<Longrightarrow> pmksa_ok (pmksa_cache_init s)"
  by (simp add: pmksa_cache_init_def pmksa_ok_def pmksa_inv_def aa_distinct_def)

lemma current_try_same:
  "yields (\<lambda>t. pmksa t = pmksa s \<and> pmksa_heap t = pmksa_heap s)
     (pmksa_current_try b (\<lambda>s. map_option (\<lambda>r. (r, s)) (g s)) s)"
  by (cases "g s") (simp_all add: pmksa_current_try_def)

lemma current_try_off: "yields (\<lambda>t. t = s) (pmksa_current_try (False \<and> b) f s)"
  by (simp add: pmksa_current_try_def)

lemma set_current_same:
  "yields (\<lambda>p. pmksa (snd p) = pmksa s \<and> pmksa_heap (snd p) = pmksa_heap s)
     (pmksa_cache_set_current C pmkid bss ctx False fcid akmp s)"
proof -
  have fin: "yields (\<lambda>p. pmksa (snd p) = pmksa s \<and> pmksa_heap (snd p) = pmksa_heap s)
     (case cur_pmksa t of None \<Rightarrow> Some (- 1 :: int, t)
      | Some c \<Rightarrow> do {
         e \<leftarrow> pmksa_heap t c;
         if wpa_key_mgmt_sae (pe_akmp e) \<and> pe_reauth_time e < clock t then Some (- 1, t\<lparr>cur_pmksa := None\<rparr>)
         else Some (0, t) })" if "pmksa t = pmksa s \<and> pmksa_heap t = pmksa_heap s" for t
    using that by (auto simp: wlp yields_def split: option.splits if_splits bind_splits)
  note st = yields_mono [OF current_try_same]
  show ?thesis
    unfolding pmksa_cache_set_current_def yields_bind Let_def
    by (intro st yields_mono [OF current_try_off] fin) simp
qed

text \<open>Opportunistic entries get the expiration time of the entry they copy without
  being moved; all other events keep the list ordered.\<close>

fun ev_no_okc :: "pmksa_ev \<Rightarrow> bool" where
  "ev_no_okc (Ev_set_current pmkid bss ctx okc fcid akmp) = (\<not> okc)"
| "ev_no_okc _ = True"

lemma same_sorted: "pmksa t = pmksa s \<Longrightarrow> pmksa_heap t = pmksa_heap s \<Longrightarrow> exp_sorted s \<Longrightarrow> exp_sorted t"
  by (simp add: exp_sorted_def)

lemma upd_entry_sorted:
  assumes "pe_expiration e = pe_expiration (entry_at s a)"
  shows "exp_sorted (s\<lparr>pmksa_heap := (pmksa_heap s)(a \<mapsto> e)\<rparr>) = exp_sorted s"
proof -
  let ?t = "s\<lparr>pmksa_heap := (pmksa_heap s)(a \<mapsto> e)\<rparr>"
  have eq: "map (\<lambda>b. pe_expiration (entry_at ?t b)) (pmksa ?t) = map (\<lambda>b. pe_expiration (entry_at s b)) (pmksa s)"
    using assms by auto
  show ?thesis unfolding exp_sorted_def eq ..
qed

lemma reconfig_loop_same:
  "yields (\<lambda>t. pmksa t = pmksa s \<and> pmksa_heap t = pmksa_heap s) (pmksa_reconfig_loop as s)"
proof (induction as arbitrary: s)
  case (Cons a as)
  have "pmksa_heap (pmksa_reconfig_entry e s) = pmksa_heap s" for e
    by (simp add: pmksa_reconfig_entry_def Let_def rsn_emit_def)
  then have "yields (\<lambda>t. pmksa t = pmksa s \<and> pmksa_heap t = pmksa_heap s)
      (pmksa_reconfig_loop as (pmksa_reconfig_entry e s))" for e
    using Cons [of "pmksa_reconfig_entry e s"] by simp
  then show ?case by (cases "pmksa_heap s a") simp_all
qed simp

lemma pmksa_event_sorted:
  assumes "crypto_ok C" "pmksa_ok s" "exp_sorted s" "ev_no_okc ev"
  shows "yields exp_sorted (pmksa_event C s ev)"
proof (cases ev)
  case (Ev_add k pmkid kck aa ctx akmp cid)
  then show ?thesis using add_ok [OF assms(1,2), of True k pmkid aa kck "own_addr s" ctx akmp cid] assms(3)
    by (auto simp: add_result_def yields_def returns_iff)
next
  case (Ev_add_entry e)
  show ?thesis
  proof (rule zalloc_cases [OF assms(2)])
    fix a assume a: "pmksa_zalloc s = (Some a, s\<lparr>rsn_asked := Suc (rsn_asked s)\<rparr>)" "pmksa_heap s a = None"
    then show ?thesis using Ev_add_entry assms(2,3)
        add_entry_ok [of "s\<lparr>rsn_asked := Suc (rsn_asked s)\<rparr>" a e]
      by (auto simp: add_post_def yields_def returns_iff exp_sorted_def)
  qed (use Ev_add_entry assms(3) in \<open>simp add: exp_sorted_def\<close>)
next
  case (Ev_flush ctx k ext)
  then show ?thesis using flush_keeps [OF pmksa_ok_inv [OF assms(2)], of True ctx k ext] keeps_sorted [OF _ assms(3)]
    by (auto simp: yields_def returns_iff)
next
  case (Ev_set_current pmkid bss ctx okc fcid akmp)
  then have "okc = False" using assms(4) by simp
  then show ?thesis using Ev_set_current set_current_same [of s C pmkid bss ctx fcid akmp] same_sorted [OF _ _ assms(3)]
    by (auto simp: yields_def)
next
  case Ev_accepted
  show ?thesis
  proof (cases "cur_pmksa s")
    case (Some c)
    then show ?thesis using Ev_accepted assms(3)
      by (auto simp: yields_def pmksa_accept_current_def upd_entry_sorted split: bind_splits)
  qed (use Ev_accepted assms(3) in \<open>simp add: pmksa_accept_current_def\<close>)
next
  case Ev_expire
  have ok: "pmksa_ok (s\<lparr>expire_timer := None\<rparr>)" "exp_sorted (s\<lparr>expire_timer := None\<rparr>)"
    using assms(2,3) by (simp_all add: pmksa_ok_def pmksa_inv_def aa_distinct_def exp_sorted_def)
  show ?thesis using Ev_expire expire_keeps [OF pmksa_ok_inv [OF ok(1)]] keeps_sorted [OF _ ok(2)]
    by (auto simp: yields_def returns_iff)
next
  case Ev_reconfig
  then show ?thesis using reconfig_loop_same [of s "pmksa s"] same_sorted [OF _ _ assms(3)]
    by (auto simp: yields_def pmksa_cache_reconfig_def)
qed (use assms(3) in \<open>simp_all add: exp_sorted_def pmksa_cache_clear_current_def pmksa_cache_reauth_def rsn_emit_def\<close>)

section \<open>Properties\<close>

interpretation cache: event_machine "pmksa_step C" "\<lambda>_. True" "\<lambda>r. crypto_ok C \<longrightarrow> returns pmksa_ok r"
  for C :: "'y rsn_crypto_scheme"
  by unfold_locales (auto simp: pmksa_step_def wp returns_iff dest!: pmksa_event_ok)

interpretation sorted_cache: event_machine "pmksa_step C" ev_no_okc
  "\<lambda>r. crypto_ok C \<longrightarrow> returns (\<lambda>s. pmksa_ok s \<and> exp_sorted s) r"
  for C :: "'y rsn_crypto_scheme"
proof (unfold_locales, intro impI)
  fix r :: "'z rsn_sm_scheme option" and ev
  assume "crypto_ok C \<longrightarrow> returns (\<lambda>s. pmksa_ok s \<and> exp_sorted s) r" and ev: "ev_no_okc ev" and C: "crypto_ok C"
  then obtain s where s: "r = Some s" "pmksa_ok s" "exp_sorted s" by (auto simp: returns_iff)
  show "returns (\<lambda>s. pmksa_ok s \<and> exp_sorted s) (pmksa_step C r ev)"
    using pmksa_event_ok [OF C s(2), of ev] pmksa_event_sorted [OF C s(2,3) ev] s(1)
    by (auto simp: pmksa_step_def returns_iff yields_def)
qed

lemma pmksa_run_ok:
  assumes "crypto_ok C" "cur_pmksa s = None"
  shows "returns pmksa_ok (foldl (pmksa_step C) (Some (pmksa_cache_init s)) evs)"
  using cache.run_inv [of C "Some (pmksa_cache_init s)" evs] pmksa_init_ok [OF assms(2)] assms(1)
  by (simp add: list_all_iff)

text \<open>C21. Whatever sequence of additions, replacements, flushes, selections, expiry and
  reauthentication timers and configuration changes reaches a new PMKSA cache, no
  operation uses an entry after it was freed or frees one twice; afterwards the list has no
  cycle, exactly the linked entries are allocated, the counter is the length of the list and
  at most 32, there is one entry per authenticator, and \<open>cur_pmksa\<close> is \<open>NULL\<close> or
  points to an entry of the cache.\<close>
theorem pmksa_cache_safe:
  assumes "crypto_ok C" "cur_pmksa s = None"
  shows "returns (\<lambda>t. distinct (pmksa t) \<and> (\<forall>a. pmksa_heap t a \<noteq> None \<longleftrightarrow> a \<in> set (pmksa t)) \<and>
           pmksa_count t = int (length (pmksa t)) \<and> pmksa_count t \<le> 32 \<and>
           inj_on (\<lambda>a. pe_aa (the (pmksa_heap t a))) (set (pmksa t)) \<and>
           (\<forall>c. cur_pmksa t = Some c \<longrightarrow> c \<in> set (pmksa t)))
         (foldl (pmksa_step C) (Some (pmksa_cache_init s)) evs)"
  using pmksa_run_ok [OF assms, of evs]
  by (rule returns_mono) (auto simp: pmksa_ok_def pmksa_inv_def aa_distinct_def)

definition demo_crypto :: rsn_crypto where
  "demo_crypto = \<lparr>hmac_sha1 = (\<lambda>k d. Some (take 20 (d @ replicate 20 0))),
     hmac_sha256 = (\<lambda>k d. Some (take 32 (d @ replicate 32 0))),
     hmac_sha384 = (\<lambda>k d. Some (take 48 (d @ replicate 48 0)))\<rparr>"

definition demo_rsn :: rsn_sm where
  "demo_rsn = \<lparr>pmksa_heap = (\<lambda>_. None), pmksa = [], pmksa_count = 0, expire_timer = None, reauth_timer = None,
     cur_pmksa = None, pmk = [], own_addr = replicate 6 2, bssid = replicate 6 1,
     dot11RSNAConfigPMKLifetime = 43200, dot11RSNAConfigPMKReauthThreshold = 70, clock = 100,
     rsn_answers = (\<lambda>n. Some n), rsn_asked = 0, rsn_trace = []\<rparr>"

lemma demo_crypto_ok: "crypto_ok demo_crypto"
  by (auto simp: crypto_ok_def demo_crypto_def min_def)

definition demo_evs :: "pmksa_ev list" where
  "demo_evs = [Ev_add (replicate 32 7) None None (replicate 6 1) 1 WPA_KEY_MGMT_IEEE8021X None,
     Ev_set_current None (Some (replicate 6 1)) 1 False None 0,
     Ev_clock 50000, Ev_expire]"

theorem pmksa_cache_safe_witness:
  "crypto_ok demo_crypto \<and> cur_pmksa demo_rsn = None \<and>
   returns (\<lambda>t. pmksa_count t \<le> 32 \<and> (\<forall>c. cur_pmksa t = Some c \<longrightarrow> c \<in> set (pmksa t)))
     (foldl (pmksa_step demo_crypto) (Some (pmksa_cache_init demo_rsn)) demo_evs)"
proof -
  have c: "cur_pmksa demo_rsn = None" by (simp add: demo_rsn_def)
  from pmksa_cache_safe [OF demo_crypto_ok c, of demo_evs] show ?thesis
    using demo_crypto_ok c by (auto elim!: returns_mono)
qed


definition demo_expiring :: "pmksa_ev list" where
  "demo_expiring = [Ev_add (replicate 32 7) None None (replicate 6 1) 1 WPA_KEY_MGMT_IEEE8021X None,
     Ev_clock 20000, Ev_add (replicate 32 8) None None (replicate 6 3) 1 WPA_KEY_MGMT_IEEE8021X None,
     Ev_clock 50000]"

definition demo_expiring_state :: rsn_sm where
  "demo_expiring_state = the (foldl (pmksa_step demo_crypto) (Some (pmksa_cache_init demo_rsn)) demo_expiring)"


end
