(* ===== verification/Pmksa_spec.thy ===== *)
theory Pmksa_spec
  imports Pmksa_props
begin

text \<open>
  What the PMKSA cache promises to the WPA state machine, as operations on a map from
  authenticator addresses to entries, and the proof that the linked list implements
  them. The abstract addition is a relation: which entry makes room for a new one is
  left open, except that it is never the one in use.
\<close>

section \<open>The abstract cache\<close>

definition cache_map :: "'z rsn_sm_scheme \<Rightarrow> bytes \<Rightarrow> rsn_pmksa_cache_entry option" where
  "cache_map s x = map_option (entry_at s) (find (\<lambda>a. pe_aa (entry_at s a) = x) (pmksa s))"

definition current_aa :: "'z rsn_sm_scheme \<Rightarrow> bytes option" where
  "current_aa s = map_option (\<lambda>c. pe_aa (entry_at s c)) (cur_pmksa s)"

definition same_keys :: "rsn_pmksa_cache_entry \<Rightarrow> rsn_pmksa_cache_entry \<Rightarrow> bool" where
  "same_keys p e \<longleftrightarrow> pe_pmk p = pe_pmk e \<and> pe_pmkid p = pe_pmkid e"

text \<open>An entry goes with the one that is replaced when both rest on the same PMK of the
  network and that PMK has been used with the authenticator.\<close>

definition stale :: "(bytes \<Rightarrow> rsn_pmksa_cache_entry option) \<Rightarrow> rsn_pmksa_cache_entry \<Rightarrow> rsn_pmksa_cache_entry \<Rightarrow> bool" where
  "stale m e q \<longleftrightarrow>
     (case m (pe_aa e) of None \<Rightarrow> False
      | Some p \<Rightarrow> \<not> pe_opportunistic p \<and> pmksa_flush_match (pe_network_ctx e) (Some (pe_pmk p)) False q)"

definition spec_keep :: "(bytes \<Rightarrow> rsn_pmksa_cache_entry option) \<Rightarrow> (rsn_pmksa_cache_entry \<Rightarrow> bool) \<Rightarrow>
    bytes \<Rightarrow> rsn_pmksa_cache_entry option" where
  "spec_keep m P x = (case m x of None \<Rightarrow> None | Some q \<Rightarrow> if P q then Some q else None)"

inductive pmksa_add_spec :: "(bytes \<Rightarrow> rsn_pmksa_cache_entry option) \<Rightarrow> bytes option \<Rightarrow> rsn_pmksa_cache_entry \<Rightarrow>
    (bytes \<Rightarrow> rsn_pmksa_cache_entry option) \<Rightarrow> bool"
  for m cur e where
  Reuse: "m (pe_aa e) = Some p \<Longrightarrow> same_keys p e \<Longrightarrow> pmksa_add_spec m cur e m"
| Insert: "(\<And>p. m (pe_aa e) = Some p \<Longrightarrow> \<not> same_keys p e) \<Longrightarrow>
    pmksa_add_spec m cur e ((spec_keep m (\<lambda>q. \<not> stale m e q))(pe_aa e \<mapsto> e))"
| Insert_full: "(\<And>p. m (pe_aa e) = Some p \<Longrightarrow> \<not> same_keys p e) \<Longrightarrow> card (dom m) = 32 \<Longrightarrow> cur \<noteq> Some victim \<Longrightarrow>
    pmksa_add_spec m cur e ((spec_keep m (\<lambda>q. \<not> stale m e q \<and> pe_aa q \<noteq> victim))(pe_aa e \<mapsto> e))"

inductive_cases pmksa_add_specE: "pmksa_add_spec m cur e m'"

section \<open>The list as a map\<close>

lemma aa_eqD:
  assumes "pmksa_ok s" "a \<in> set (pmksa s)" "b \<in> set (pmksa s)" "pe_aa (entry_at s a) = pe_aa (entry_at s b)"
  shows "a = b"
proof -
  have "inj_on (\<lambda>a. pe_aa (entry_at s a)) (set (pmksa s))" using assms(1) by (simp add: pmksa_ok_def aa_distinct_def)
  from inj_onD [OF this assms(4,2,3)] show ?thesis .
qed

lemma cache_map_Some:
  assumes "pmksa_ok s"
  shows "cache_map s x = Some e \<longleftrightarrow> (\<exists>a \<in> set (pmksa s). entry_at s a = e \<and> pe_aa e = x)"
proof
  assume "cache_map s x = Some e"
  then obtain a where a: "find (\<lambda>a. pe_aa (entry_at s a) = x) (pmksa s) = Some a" "entry_at s a = e"
    by (auto simp: cache_map_def)
  then show "\<exists>a \<in> set (pmksa s). entry_at s a = e \<and> pe_aa e = x" using find_set [OF a(1)] by auto
next
  assume "\<exists>a \<in> set (pmksa s). entry_at s a = e \<and> pe_aa e = x"
  then obtain a where a: "a \<in> set (pmksa s)" "entry_at s a = e" "pe_aa e = x" by blast
  have "find (\<lambda>a. pe_aa (entry_at s a) = x) (pmksa s) \<noteq> None"
    unfolding find_None_iff using a by auto
  then obtain b where b: "find (\<lambda>a. pe_aa (entry_at s a) = x) (pmksa s) = Some b" by blast
  then have "b \<in> set (pmksa s) \<and> pe_aa (entry_at s b) = x" using find_set [OF b] by simp
  then have "b = a" using a aa_eqD [OF assms, of b a] by simp
  then show "cache_map s x = Some e" using a b by (simp add: cache_map_def)
qed

lemma cache_map_eqI:
  assumes "\<And>x e. m x = Some e \<longleftrightarrow> m' x = Some e"
  shows "m = m'"
proof
  show "m x = m' x" for x using assms by (metis option.exhaust)
qed

lemma spec_keep_Some: "spec_keep m P x = Some q \<longleftrightarrow> m x = Some q \<and> P q"
  by (auto simp: spec_keep_def split: option.splits)

lemma dom_cache_map: "pmksa_ok s \<Longrightarrow> dom (cache_map s) = (\<lambda>a. pe_aa (entry_at s a)) ` set (pmksa s)"
  by (auto simp: dom_def cache_map_Some)

lemma card_cache_map: "pmksa_ok s \<Longrightarrow> card (dom (cache_map s)) = length (pmksa s)"
  unfolding dom_cache_map
  by (subst card_image) (auto simp: pmksa_ok_def aa_distinct_def pmksa_inv_def distinct_card)

text \<open>Removing entries restricts the map.\<close>

lemma keeps_map:
  assumes "pmksa_ok s" "pmksa_ok t" "keeps x {} (\<lambda>a. P (entry_at s a)) s t"
  shows "cache_map t = spec_keep (cache_map s) P"
proof (rule cache_map_eqI)
  fix y e
  have "cache_map t y = Some e \<longleftrightarrow> (\<exists>a \<in> set (pmksa s). P (entry_at s a) \<and> entry_at s a = e \<and> pe_aa e = y)"
    using assms(3) by (auto simp: cache_map_Some [OF assms(2)] keeps_def)
  also have "\<dots> \<longleftrightarrow> spec_keep (cache_map s) P y = Some e"
    by (auto simp: spec_keep_Some cache_map_Some [OF assms(1)])
  finally show "cache_map t y = Some e \<longleftrightarrow> spec_keep (cache_map s) P y = Some e" .
qed

section \<open>Refinement\<close>

lemma find_old:
  assumes "pmksa_ok s"
  shows "find (\<lambda>b. pe_aa e = pe_aa (entry_at s b)) (pmksa s) = None \<longleftrightarrow> cache_map s (pe_aa e) = None"
    "find (\<lambda>b. pe_aa e = pe_aa (entry_at s b)) (pmksa s) = Some q \<longleftrightarrow>
       q \<in> set (pmksa s) \<and> cache_map s (pe_aa e) = Some (entry_at s q) \<and> pe_aa (entry_at s q) = pe_aa e"
proof -
  have eq: "(\<lambda>b. pe_aa e = pe_aa (entry_at s b)) = (\<lambda>b. pe_aa (entry_at s b) = pe_aa e)" by auto
  show "find (\<lambda>b. pe_aa e = pe_aa (entry_at s b)) (pmksa s) = None \<longleftrightarrow> cache_map s (pe_aa e) = None"
    unfolding eq by (simp add: cache_map_def)
  show "find (\<lambda>b. pe_aa e = pe_aa (entry_at s b)) (pmksa s) = Some q \<longleftrightarrow>
       q \<in> set (pmksa s) \<and> cache_map s (pe_aa e) = Some (entry_at s q) \<and> pe_aa (entry_at s q) = pe_aa e"
  proof
    assume f: "find (\<lambda>b. pe_aa e = pe_aa (entry_at s b)) (pmksa s) = Some q"
    then show "q \<in> set (pmksa s) \<and> cache_map s (pe_aa e) = Some (entry_at s q) \<and> pe_aa (entry_at s q) = pe_aa e"
      using find_set [OF f] unfolding eq by (simp add: cache_map_def)
  next
    assume q: "q \<in> set (pmksa s) \<and> cache_map s (pe_aa e) = Some (entry_at s q) \<and> pe_aa (entry_at s q) = pe_aa e"
    then obtain b where b: "find (\<lambda>b. pe_aa (entry_at s b) = pe_aa e) (pmksa s) = Some b"
      by (auto simp: cache_map_def)
    then have "b = q" using find_set [OF b] aa_eqD [OF assms, of b q] q by simp
    then show "find (\<lambda>b. pe_aa e = pe_aa (entry_at s b)) (pmksa s) = Some q" using b unfolding eq by simp
  qed
qed

lemma add_keeps_iff:
  assumes "pmksa_ok s" "b \<in> set (pmksa s)" "old = find (\<lambda>b. pe_aa e = pe_aa (entry_at s b)) (pmksa s)"
  shows "add_keeps e (entry_at s) old v b \<longleftrightarrow>
     pe_aa (entry_at s b) \<noteq> pe_aa e \<and> Some b \<noteq> v \<and> \<not> stale (cache_map s) e (entry_at s b)"
proof (cases old)
  case None
  then have n: "cache_map s (pe_aa e) = None" using assms(3) find_old(1) [OF assms(1), of e] by simp
  then have "pe_aa (entry_at s b) \<noteq> pe_aa e"
    using cache_map_Some [OF assms(1), of "pe_aa e" "entry_at s b"] assms(2) by auto
  then show ?thesis using None n by (simp add: add_keeps_def stale_def)
next
  case (Some q)
  then have q: "q \<in> set (pmksa s)" "cache_map s (pe_aa e) = Some (entry_at s q)" "pe_aa (entry_at s q) = pe_aa e"
    using assms(3) find_old(2) [OF assms(1), of e q] by simp_all
  have "b = q \<longleftrightarrow> pe_aa (entry_at s b) = pe_aa e" using q aa_eqD [OF assms(1,2) q(1)] by auto
  then show ?thesis using Some q by (auto simp: add_keeps_def stale_def)
qed

lemma added_map_Some:
  assumes "pmksa_ok s" "pmksa_ok t" "a \<notin> set (pmksa s)" "old = find (\<lambda>b. pe_aa e = pe_aa (entry_at s b)) (pmksa s)"
    "set (pmksa t) = insert a {b \<in> set (pmksa s). add_keeps e (entry_at s) old v b}"
    "entry_at t a = e" "\<And>b. b \<in> set (pmksa t) \<Longrightarrow> b \<noteq> a \<Longrightarrow> entry_at t b = entry_at s b"
  shows "cache_map t x = Some q \<longleftrightarrow>
     (if x = pe_aa e then q = e
      else \<exists>b \<in> set (pmksa s). entry_at s b = q \<and> pe_aa q = x \<and> Some b \<noteq> v \<and> \<not> stale (cache_map s) e q)"
proof -
  have "cache_map t x = Some q \<longleftrightarrow>
     (q = e \<and> x = pe_aa e) \<or> (\<exists>b \<in> set (pmksa s). add_keeps e (entry_at s) old v b \<and> entry_at s b = q \<and> pe_aa q = x)"
  proof -
    have "(\<exists>b \<in> set (pmksa t). entry_at t b = q \<and> pe_aa q = x) \<longleftrightarrow>
        (entry_at t a = q \<and> pe_aa q = x) \<or>
        (\<exists>b \<in> {b \<in> set (pmksa s). add_keeps e (entry_at s) old v b}. entry_at t b = q \<and> pe_aa q = x)"
      unfolding assms(5) by blast
    moreover have "entry_at t b = entry_at s b" if "b \<in> {b \<in> set (pmksa s). add_keeps e (entry_at s) old v b}" for b
      using assms(3,5,7) that by blast
    ultimately show ?thesis unfolding cache_map_Some [OF assms(2)] assms(6) by auto
  qed
  also have "\<dots> \<longleftrightarrow> (if x = pe_aa e then q = e
      else \<exists>b \<in> set (pmksa s). entry_at s b = q \<and> pe_aa q = x \<and> Some b \<noteq> v \<and> \<not> stale (cache_map s) e q)"
    using add_keeps_iff [OF assms(1) _ assms(4)] by auto
  finally show ?thesis .
qed

lemma added_spec:
  assumes "pmksa_ok s" "pmksa_ok t" "a \<notin> set (pmksa s)" "old = find (\<lambda>b. pe_aa e = pe_aa (entry_at s b)) (pmksa s)"
    "\<And>q. old = Some q \<Longrightarrow> \<not> same_keys (entry_at s q) e"
    "added a e old (s\<lparr>pmksa_heap := (pmksa_heap s)(a \<mapsto> e)\<rparr>) t"
  shows "pmksa_add_spec (cache_map s) (current_aa s) e (cache_map t)"
proof -
  let ?s = "s\<lparr>pmksa_heap := (pmksa_heap s)(a \<mapsto> e)\<rparr>"
  obtain v where v: "pmksa t = linked_in a e (filter (add_keeps e (entry_at ?s) old v) (pmksa s)) (entry_at ?s)"
    "\<forall>b \<in> set (pmksa t). pmksa_heap t b = pmksa_heap ?s b"
    "\<forall>b. v = Some b \<longrightarrow> b \<in> set (pmksa s) \<and> cur_pmksa s \<noteq> Some b \<and> length (pmksa s) = 32"
    using assms(6) by (auto simp: added_def)
  have eq: "add_keeps e (entry_at ?s) old v b = add_keeps e (entry_at s) old v b" if "b \<in> set (pmksa s)" for b
  proof -
    have "\<forall>q. old = Some q \<longrightarrow> q \<noteq> a" using assms(3,4) find_old(2) [OF assms(1), of e] by auto
    moreover have "b \<noteq> a" using that assms(3) by blast
    ultimately show ?thesis by (auto simp: add_keeps_def)
  qed
  have set: "set (pmksa t) = insert a {b \<in> set (pmksa s). add_keeps e (entry_at s) old v b}"
    unfolding v(1) using eq by auto
  have ent: "entry_at t a = e" "\<And>b. b \<in> set (pmksa t) \<Longrightarrow> b \<noteq> a \<Longrightarrow> entry_at t b = entry_at s b"
    using v(2) set by simp_all
  note mS = added_map_Some [OF assms(1-4) set ent]
  have new: "\<not> same_keys p e" if p: "cache_map s (pe_aa e) = Some p" for p
  proof -
    obtain q where "old = Some q" using p find_old(1) [OF assms(1), of e] assms(4) by (cases old) auto
    then show ?thesis using assms(4,5) find_old(2) [OF assms(1), of e q] p by simp
  qed
  show ?thesis
  proof (cases v)
    case None
    have "cache_map t = (spec_keep (cache_map s) (\<lambda>q. \<not> stale (cache_map s) e q))(pe_aa e \<mapsto> e)"
      by (rule cache_map_eqI) (auto simp: None mS spec_keep_Some cache_map_Some [OF assms(1)])
    then show ?thesis using pmksa_add_spec.Insert [of "cache_map s" e "current_aa s"] new by simp
  next
    case (Some b)
    then have b: "b \<in> set (pmksa s)" "cur_pmksa s \<noteq> Some b" "length (pmksa s) = 32" using v(3) by simp_all
    have "cache_map t = (spec_keep (cache_map s) (\<lambda>q. \<not> stale (cache_map s) e q \<and> pe_aa q \<noteq> pe_aa (entry_at s b)))
        (pe_aa e \<mapsto> e)"
      using aa_eqD [OF assms(1) _ b(1)]
      by (intro cache_map_eqI) (auto simp: Some mS spec_keep_Some cache_map_Some [OF assms(1)])
    moreover have "current_aa s \<noteq> Some (pe_aa (entry_at s b))"
    proof
      assume "current_aa s = Some (pe_aa (entry_at s b))"
      then obtain c where c: "cur_pmksa s = Some c" "pe_aa (entry_at s c) = pe_aa (entry_at s b)" by (auto simp: current_aa_def)
      then have "c \<in> set (pmksa s)" using assms(1) by (auto simp: pmksa_ok_def pmksa_inv_def)
      then show False using aa_eqD [OF assms(1) _ b(1), of c] c b(2) by simp
    qed
    ultimately show ?thesis
      using pmksa_add_spec.Insert_full [of "cache_map s" e "current_aa s" "pe_aa (entry_at s b)"] new b(3)
        card_cache_map [OF assms(1)] by simp
  qed
qed

text \<open>C23. Adding an entry to the linked list implements the abstract addition to a map
  keyed by the authenticator: an entry with the same PMK and PMKID is used again, otherwise
  the new entry replaces the one of its authenticator, the entries of the network derived from
  the replaced PMK go with it unless that PMK was never confirmed, and a full cache gives up
  one other entry that is not in use. The returned entry is the one the map has for the
  authenticator.\<close>
theorem pmksa_add_refines:
  assumes "pmksa_ok s" "pmksa_heap s a = None"
  shows "returns (\<lambda>(r, t). pmksa_add_spec (cache_map s) (current_aa s) e (cache_map t) \<and>
            cache_map t (pe_aa e) = Some (the (pmksa_heap t r)))
           (pmksa_cache_add_entry a (s\<lparr>pmksa_heap := (pmksa_heap s)(a \<mapsto> e)\<rparr>))"
proof -
  let ?s = "s\<lparr>pmksa_heap := (pmksa_heap s)(a \<mapsto> e)\<rparr>"
  define old where "old = find (\<lambda>b. pe_aa e = pe_aa (entry_at s b)) (pmksa s)"
  have a: "a \<notin> set (pmksa s)" "cur_pmksa s \<noteq> Some a" "length (pmksa s) \<le> 32"
    using assms by (auto simp: pmksa_ok_def pmksa_inv_def)
  have inv: "pmksa_inv {a} 0 ?s" using assms a by (auto simp: pmksa_ok_def pmksa_inv_def)
  have f: "find (\<lambda>b. pe_aa e = pe_aa (entry_at ?s b)) (pmksa ?s) = old"
    unfolding old_def using a(1) by (auto intro: find_cong)
  have old: "q \<in> set (pmksa s)" "entry_at ?s q = entry_at s q" "cache_map s (pe_aa e) = Some (entry_at s q)"
    if "old = Some q" for q
    using that find_old(2) [OF assms(1), of e q] a(1) by (auto simp: old_def)
  have "pmksa_heap ?s a = Some e" "length (pmksa ?s) \<le> 32" "cur_pmksa ?s \<noteq> Some a" using a by simp_all
  from returns_conj [OF add_entry_spec [OF inv this(1,2) f this(3)] add_entry_ok [OF assms, of e]]
  show ?thesis
  proof (rule returns_mono, unfold case_prod_beta, elim conjE)
    fix y assume y: "add_post e s (fst y) (snd y)"
      and c: "if \<exists>q. old = Some q \<and> pe_pmk (entry_at ?s q) = pe_pmk e \<and> pe_pmkid (entry_at ?s q) = pe_pmkid e
            then old = Some (fst y) \<and> snd y = ?s\<lparr>pmksa_heap := (pmksa_heap ?s)(a := None)\<rparr>
            else fst y = a \<and> added a e old ?s (snd y)"
    have ok: "pmksa_ok (snd y)" "fst y \<in> set (pmksa (snd y))" "pe_aa (entry_at (snd y) (fst y)) = pe_aa e"
      using y by (simp_all add: add_post_def)
    have "pmksa_add_spec (cache_map s) (current_aa s) e (cache_map (snd y))"
    proof (cases "\<exists>q. old = Some q \<and> pe_pmk (entry_at ?s q) = pe_pmk e \<and> pe_pmkid (entry_at ?s q) = pe_pmkid e")
      case True
      then have "snd y = s" using c assms(2) by (simp add: fun_upd_idem)
      moreover obtain q where "old = Some q" "same_keys (entry_at s q) e"
        using True old(2) by (auto simp: same_keys_def)
      ultimately show ?thesis using pmksa_add_spec.Reuse [of "cache_map s" e] old(3) by simp
    next
      case False
      then show ?thesis using c old(2) by (intro added_spec [OF assms(1) ok(1) a(1) old_def]) (auto simp: same_keys_def)
    qed
    then show "pmksa_add_spec (cache_map s) (current_aa s) e (cache_map (snd y)) \<and>
        cache_map (snd y) (pe_aa e) = Some (the (pmksa_heap (snd y) (fst y)))"
      using cache_map_Some [OF ok(1)] ok(2,3) by auto
  qed
qed

definition demo_cached :: rsn_sm where
  "demo_cached = the (foldl (pmksa_step demo_crypto) (Some (pmksa_cache_init demo_rsn))
     [Ev_add (replicate 32 7) None None (replicate 6 1) 1 WPA_KEY_MGMT_IEEE8021X None,
      Ev_add (replicate 32 7) None None (replicate 6 3) 1 WPA_KEY_MGMT_IEEE8021X None])"

definition demo_entry :: rsn_pmksa_cache_entry where
  "demo_entry = \<lparr>pe_pmkid = replicate 16 9, pe_pmk = replicate 32 9, pe_expiration = 1000, pe_akmp = WPA_KEY_MGMT_IEEE8021X,
     pe_aa = replicate 6 1, pe_fils_cache_id = None, pe_reauth_time = 700, pe_network_ctx = 1,
     pe_opportunistic = False, pe_external = False\<rparr>"

lemma demo_cached_ok: "pmksa_ok demo_cached"
proof -
  have c: "cur_pmksa demo_rsn = None" by (simp add: demo_rsn_def)
  show ?thesis using pmksa_run_ok [OF demo_crypto_ok c] unfolding demo_cached_def returns_iff by (metis option.sel)
qed

theorem pmksa_add_refines_witness:
  "pmksa demo_cached = [0, 3] \<and> pmksa_heap demo_cached 9 = None \<and>
   returns (\<lambda>(r, t). pmksa_add_spec (cache_map demo_cached) (current_aa demo_cached) demo_entry (cache_map t) \<and>
       cache_map t (pe_aa demo_entry) = Some (the (pmksa_heap t r)))
     (pmksa_cache_add_entry 9 (demo_cached\<lparr>pmksa_heap := (pmksa_heap demo_cached)(9 \<mapsto> demo_entry)\<rparr>)) \<and>
   map_option (\<lambda>(r, t). (r, pmksa t))
     (pmksa_cache_add_entry 9 (demo_cached\<lparr>pmksa_heap := (pmksa_heap demo_cached)(9 \<mapsto> demo_entry)\<rparr>)) = Some (9, [9])"
proof -
  have 1: "pmksa demo_cached = [0, 3]" by code_simp
  have 2: "pmksa_heap demo_cached 9 = None" by code_simp
  have 3: "map_option (\<lambda>(r, t). (r, pmksa t))
     (pmksa_cache_add_entry 9 (demo_cached\<lparr>pmksa_heap := (pmksa_heap demo_cached)(9 \<mapsto> demo_entry)\<rparr>)) = Some (9, [9])"
    by code_simp
  from 1 2 3 pmksa_add_refines [OF demo_cached_ok 2, of demo_entry] show ?thesis by blast
qed



section \<open>Expired entries at reconfiguration\<close>

text \<open>C25. \<open>pmksa_cache_reconfig()\<close> means to skip an entry that has expired or whose
  reauthentication time has passed, but \<open>os_time_t\<close> is unsigned and the difference of the times
  is never negative: an entry whose reauthentication time has passed goes to the driver
  again, with a reauthentication threshold that is the low octet of a wrapped quotient, and if
  the entry itself has expired with a lifetime of more than 68 years.\<close>
theorem pmksa_reconfig_revives:
  assumes "pe_reauth_time e < clock s" "pe_expiration e < clock s" "clock s - pe_expiration e < 0x80000000"
    "(ucast ((pe_reauth_time e - clock s) * 100 div ucast (ucast (pe_expiration e - clock s) :: u32)) :: u8) \<noteq> 0"
  shows "\<exists>life_time thr. rsn_trace (pmksa_reconfig_entry e s) = rsn_trace s @
       [Add_pmkid (pe_network_ctx e) (pe_aa e) (pe_pmkid e) (pe_fils_cache_id e) (pe_pmk e) life_time thr (pe_akmp e)] \<and>
     life_time > 0x7fffffff"
proof -
  define d where "d = clock s - pe_expiration e"
  have d: "0 < d" "d < 0x80000000" using assms(2,3) by (auto simp: d_def word_neq_0_conv [symmetric])
  have eq: "pe_expiration e - clock s = - d" by (simp add: d_def)
  have "pe_expiration e \<noteq> clock s" "pe_reauth_time e \<noteq> clock s" using assms(1,2) by auto
  then have ne: "\<not> pe_expiration e - clock s < 1" "\<not> pe_reauth_time e - clock s < 1"
    by (simp_all add: word_less_1)
  have u: "0 < uint d" "uint d < 0x80000000" using d by (simp_all add: word_less_def)
  then have "uint (ucast (- d) :: u32) = (2 ^ 64 - uint d) mod 2 ^ 32"
    by (simp add: unsigned_ucast_eq uint_word_ariths zmod_zminus1_eq_if take_bit_eq_mod)
  also have "\<dots> = ((2 ^ 32 - uint d) + (2 ^ 32 - 1) * 2 ^ 32) mod 2 ^ 32" by simp
  also have "\<dots> = 2 ^ 32 - uint d" using u by (subst mod_mult_self1) (simp add: zmod_zminus1_eq_if)
  finally have "(ucast (- d) :: u32) > 0x7fffffff" using u by (simp add: word_less_def)
  then show ?thesis using assms(4) ne by (simp add: pmksa_reconfig_entry_def Let_def rsn_emit_def eq)
qed

definition demo_expired :: rsn_sm where
  "demo_expired = demo_rsn\<lparr>clock := 1100\<rparr>"

theorem pmksa_reconfig_revives_witness:
  "pe_expiration demo_entry < clock demo_expired \<and>
   (\<exists>life_time thr. rsn_trace (pmksa_reconfig_entry demo_entry demo_expired) = rsn_trace demo_expired @
       [Add_pmkid 1 (replicate 6 1) (replicate 16 9) None (replicate 32 9) life_time thr WPA_KEY_MGMT_IEEE8021X] \<and>
     life_time > 0x7fffffff)"
proof -
  have "pe_reauth_time demo_entry < clock demo_expired" "pe_expiration demo_entry < clock demo_expired"
    "clock demo_expired - pe_expiration demo_entry < 0x80000000"
    "(ucast ((pe_reauth_time demo_entry - clock demo_expired) * 100 div
        ucast (ucast (pe_expiration demo_entry - clock demo_expired) :: u32)) :: u8) \<noteq> 0"
    by code_simp+
  from pmksa_reconfig_revives [OF this] show ?thesis by (simp add: demo_entry_def demo_expired_def demo_rsn_def)
qed

end
