(* ===== verification/Kdf.thy ===== *)
theory Kdf
  imports Pmksa_cache Byteorder
begin

text \<open>
  The key derivation functions of \<open>src/crypto/sha1-prf.c\<close>, \<open>sha256-prf.c\<close>,
  \<open>sha384-prf.c\<close> and \<open>sha512-prf.c\<close>, over the keyed hashes of the crypto backend.

  A hash over a vector of blocks is the hash of their concatenation. A call of a
  derivation function writes into a caller's buffer: the result is \<^const>\<open>None\<close> when it
  writes or reads out of bounds, \<open>Some None\<close> when the code returns an error and
  \<open>Some (Some buf)\<close> with the buffer after a success. The three functions over SHA-256,
  SHA-384 and SHA-512 have one text, with another hash and length.
\<close>

section \<open>The crypto backend\<close>

text \<open>\<open>aes_encrypt_init()\<close> may refuse a key, hence the options of the block functions.\<close>

record wpa_crypto = rsn_crypto +
  hmac_md5 :: "bytes \<Rightarrow> bytes \<Rightarrow> bytes option"
  hmac_sha512 :: "bytes \<Rightarrow> bytes \<Rightarrow> bytes option"
  omac1_aes_128 :: "bytes \<Rightarrow> bytes \<Rightarrow> bytes option"
  aes_encrypt :: "bytes \<Rightarrow> (bytes \<Rightarrow> bytes) option"
  aes_decrypt :: "bytes \<Rightarrow> (bytes \<Rightarrow> bytes) option"

definition MD5_MAC_LEN :: nat where "MD5_MAC_LEN = 16"
definition SHA1_MAC_LEN :: nat where "SHA1_MAC_LEN = 20"
definition SHA256_MAC_LEN :: nat where "SHA256_MAC_LEN = 32"
definition SHA384_MAC_LEN :: nat where "SHA384_MAC_LEN = 48"
definition SHA512_MAC_LEN :: nat where "SHA512_MAC_LEN = 64"

lemmas mac_len_defs = MD5_MAC_LEN_def SHA1_MAC_LEN_def SHA256_MAC_LEN_def SHA384_MAC_LEN_def
  SHA512_MAC_LEN_def

section \<open>The derivation functions\<close>

text \<open>The loop that all of them run: a counter of their own width, a keyed hash \<open>H\<close> of the
  block that the counter selects, and a last, cut block. The result has the final \<open>pos\<close>. The
  length of a hash is never 0; the guard makes the function total.\<close>

function prf_loop ::
  "('a::len word \<Rightarrow> bytes option) \<Rightarrow> nat \<Rightarrow> nat \<Rightarrow> 'a word \<Rightarrow> nat \<Rightarrow> bytes \<Rightarrow> (nat \<times> bytes) option option" where
  "prf_loop H mac_len buf_len counter pos buf =
     (if pos < buf_len \<and> mac_len \<noteq> 0 then
        let plen = buf_len - pos
        in case H counter of None \<Rightarrow> Some None
           | Some hash \<Rightarrow>
               if plen \<ge> mac_len then do {
                 buf \<leftarrow> wrn buf pos hash;
                 prf_loop H mac_len buf_len (counter + 1) (pos + mac_len) buf }
               else do {
                 h \<leftarrow> rdn hash 0 plen;
                 buf \<leftarrow> wrn buf pos h;
                 Some (Some (pos + plen, buf)) }
      else Some (Some (pos, buf)))"
  by pat_completeness auto
termination
  by (relation "measure (\<lambda>(H, mac_len, buf_len, counter, pos, buf). buf_len - pos)") auto

declare prf_loop.simps [simp del]

text \<open>The PRF of IEEE 802.11i. The label is given without its terminating NUL, which the code
  hashes; the counter is one octet.\<close>

definition sha1_prf ::
  "'z rsn_crypto_scheme \<Rightarrow> bytes \<Rightarrow> bytes \<Rightarrow> bytes \<Rightarrow> bytes \<Rightarrow> nat \<Rightarrow> bytes option option" where
  "sha1_prf C key label data buf buf_len =
     map_option (map_option snd)
       (prf_loop (\<lambda>counter :: u8. hmac_sha1 C key (label @ [0] @ data @ [counter])) SHA1_MAC_LEN buf_len 0 0 buf)"

text \<open>The key derivation function of IEEE 802.11, with \<open>hmac\<close> the hash with its key.\<close>

definition sha_prf_bits ::
  "(bytes \<Rightarrow> bytes option) \<Rightarrow> nat \<Rightarrow> bytes \<Rightarrow> bytes \<Rightarrow> bytes \<Rightarrow> nat \<Rightarrow> bytes option option" where
  "sha_prf_bits hmac mac_len label data buf buf_len_bits = do {
     let buf_len = (buf_len_bits + 7) div 8;
     let length_le = WPA_PUT_LE16 (of_nat buf_len_bits);
     r \<leftarrow> prf_loop (\<lambda>counter :: u16. hmac (WPA_PUT_LE16 counter @ label @ data @ length_le)) mac_len buf_len 1 0 buf;
     case r of None \<Rightarrow> Some None
     | Some (pos, buf) \<Rightarrow>
         if buf_len_bits mod 8 \<noteq> 0 then do {
           let m = push_bit (8 - buf_len_bits mod 8) (0xff :: u8);
           x \<leftarrow> rd8 buf (pos - 1);
           buf \<leftarrow> wrn buf (pos - 1) [x AND m];
           Some (Some buf) }
         else Some (Some buf) }"

definition sha256_prf_bits ::
  "'z rsn_crypto_scheme \<Rightarrow> bytes \<Rightarrow> bytes \<Rightarrow> bytes \<Rightarrow> bytes \<Rightarrow> nat \<Rightarrow> bytes option option" where
  "sha256_prf_bits C key = sha_prf_bits (hmac_sha256 C key) SHA256_MAC_LEN"

definition sha256_prf ::
  "'z rsn_crypto_scheme \<Rightarrow> bytes \<Rightarrow> bytes \<Rightarrow> bytes \<Rightarrow> bytes \<Rightarrow> nat \<Rightarrow> bytes option option" where
  "sha256_prf C key label data buf buf_len = sha256_prf_bits C key label data buf (buf_len * 8)"

definition sha384_prf_bits ::
  "'z rsn_crypto_scheme \<Rightarrow> bytes \<Rightarrow> bytes \<Rightarrow> bytes \<Rightarrow> bytes \<Rightarrow> nat \<Rightarrow> bytes option option" where
  "sha384_prf_bits C key = sha_prf_bits (hmac_sha384 C key) SHA384_MAC_LEN"

definition sha384_prf ::
  "'z rsn_crypto_scheme \<Rightarrow> bytes \<Rightarrow> bytes \<Rightarrow> bytes \<Rightarrow> bytes \<Rightarrow> nat \<Rightarrow> bytes option option" where
  "sha384_prf C key label data buf buf_len = sha384_prf_bits C key label data buf (buf_len * 8)"

definition sha512_prf_bits ::
  "'z wpa_crypto_scheme \<Rightarrow> bytes \<Rightarrow> bytes \<Rightarrow> bytes \<Rightarrow> bytes \<Rightarrow> nat \<Rightarrow> bytes option option" where
  "sha512_prf_bits C key = sha_prf_bits (hmac_sha512 C key) SHA512_MAC_LEN"

definition sha512_prf ::
  "'z wpa_crypto_scheme \<Rightarrow> bytes \<Rightarrow> bytes \<Rightarrow> bytes \<Rightarrow> bytes \<Rightarrow> nat \<Rightarrow> bytes option option" where
  "sha512_prf C key label data buf buf_len = sha512_prf_bits C key label data buf (buf_len * 8)"

section \<open>The loops compute the concatenation of the blocks\<close>

text \<open>The reference: hash blocks \<open>H 0\<close>, \<open>H 1\<close>, \dots\ one after the other, cut to the length asked
  for. The loops are unfolded along it with \<open>stream_out\<close>, the output from block \<open>k\<close> on.\<close>

fun blocks :: "(nat \<Rightarrow> bytes) \<Rightarrow> nat \<Rightarrow> nat \<Rightarrow> bytes" where
  "blocks H k 0 = []"
| "blocks H k (Suc n) = H k @ blocks H (Suc k) n"

definition stream_out :: "(nat \<Rightarrow> bytes) \<Rightarrow> nat \<Rightarrow> nat \<Rightarrow> bytes" where
  "stream_out H k n = take n (blocks H k n)"

lemma blocks_length: "(\<And>i. length (H i) = m) \<Longrightarrow> length (blocks H k n) = n * m"
  by (induction n arbitrary: k) simp_all

lemma blocks_take:
  assumes "\<And>i. length (H i) = m" "0 < m" "n \<le> j * m" "n \<le> j' * m"
  shows "take n (blocks H k j) = take n (blocks H k j')"
  using assms(3,4)
proof (induction j arbitrary: n k j')
  case (Suc j)
  show ?case
  proof (cases j')
    case (Suc i)
    have "n - m \<le> j * m" "n - m \<le> i * m" using Suc.prems \<open>j' = Suc i\<close> by auto
    from Suc.IH [OF this, of "Suc k"] show ?thesis by (simp add: Suc assms(1))
  qed (use Suc.prems in simp)
qed (use assms in simp)

lemma stream_out_length: "(\<And>i. length (H i) = m) \<Longrightarrow> 0 < m \<Longrightarrow> length (stream_out H k n) = n"
  by (simp add: stream_out_def blocks_length)

lemma stream_out_short:
  assumes "\<And>i. length (H i) = m" "n \<le> m"
  shows "stream_out H k n = take n (H k)"
  using assms by (cases n) (simp_all add: stream_out_def)

lemma stream_out_step:
  assumes "\<And>i. length (H i) = m" "0 < m" "m \<le> n"
  shows "stream_out H k n = H k @ stream_out H (Suc k) (n - m)"
proof (cases n)
  case (Suc j)
  have "n - m \<le> j * m" using assms(2,3) Suc by (cases m) auto
  then have "take (n - m) (blocks H (Suc k) j) = take (n - m) (blocks H (Suc k) (n - m))"
    using assms(1,2) by (intro blocks_take [of H m]) auto
  with assms Suc show ?thesis by (simp add: stream_out_def)
qed (use assms in simp)

definition overwrite :: "bytes \<Rightarrow> nat \<Rightarrow> bytes \<Rightarrow> bytes" where
  "overwrite b pos x = take pos b @ x @ drop (pos + length x) b"

lemma wrn_overwrite: "pos + length x \<le> length b \<Longrightarrow> wrn b pos x = Some (overwrite b pos x)"
  by (simp add: wrn_def overwrite_def)

lemma overwrite_length [simp]: "pos + length x \<le> length b \<Longrightarrow> length (overwrite b pos x) = length b"
  by (simp add: overwrite_def)

lemma overwrite_append:
  "pos + length x + length y \<le> length b \<Longrightarrow>
     overwrite (overwrite b pos x) (pos + length x) y = overwrite b pos (x @ y)"
  by (simp add: overwrite_def ac_simps drop_append)

lemma overwrite_Nil [simp]: "overwrite b pos [] = b"
  by (simp add: overwrite_def)

lemma prf_loop_eq:
  fixes H :: "'a::len word \<Rightarrow> bytes option"
  assumes H: "\<And>i. H (of_nat i) = Some (B i)" "\<And>i. length (B i) = m" "0 < m"
    and "pos \<le> buf_len" "buf_len \<le> length buf"
  shows "prf_loop H m buf_len (of_nat k) pos buf =
           Some (Some (buf_len, overwrite buf pos (stream_out B k (buf_len - pos))))"
  using assms(4,5)
proof (induction "buf_len - pos" arbitrary: pos k buf rule: less_induct)
  case less
  show ?case
  proof (cases "pos < buf_len")
    case False
    with less.prems show ?thesis by (subst prf_loop.simps) (simp add: stream_out_def)
  next
    case True
    show ?thesis
    proof (cases "buf_len - pos \<ge> m")
      case big: True
      define b' where "b' = overwrite buf pos (B k)"
      have room: "pos + m \<le> buf_len" using big True by simp
      have w: "wrn buf pos (B k) = Some b'" using room less.prems H(2) by (simp add: b'_def wrn_overwrite)
      have "prf_loop H m buf_len (of_nat (Suc k)) (pos + m) b' =
          Some (Some (buf_len, overwrite b' (pos + m) (stream_out B (Suc k) (buf_len - (pos + m)))))"
        by (rule less.hyps) (use room less.prems H(2,3) True in \<open>simp_all add: b'_def\<close>)
      also have "overwrite b' (pos + m) (stream_out B (Suc k) (buf_len - (pos + m))) =
          overwrite buf pos (stream_out B k (buf_len - pos))"
        using overwrite_append [of pos "B k" "stream_out B (Suc k) (buf_len - (pos + m))" buf]
          stream_out_step [of B m "buf_len - pos" k] stream_out_length [of B m] room less.prems H(2,3) big
        by (simp add: b'_def)
      finally show ?thesis using True big H(1,3) w by (subst prf_loop.simps) (simp add: Let_def add.commute)
    next
      case small: False
      then have "stream_out B k (buf_len - pos) = take (buf_len - pos) (B k)"
        using H(2) by (intro stream_out_short [of B m]) auto
      then show ?thesis using True small H less.prems
        by (subst prf_loop.simps) (simp add: Let_def rdn_def wrn_overwrite)
    qed
  qed
qed

lemma prf_loop_fails:
  fixes H :: "'a::len word \<Rightarrow> bytes option"
  assumes "\<And>c h. H c = Some h \<Longrightarrow> length h = m" "pos \<le> buf_len" "buf_len \<le> length buf" "0 < m"
  shows "returns (\<lambda>r. \<forall>p b. r = Some (p, b) \<longrightarrow> p = buf_len \<and> length b = length buf) (prf_loop H m buf_len c pos buf)"
  using assms(2,3)
proof (induction "buf_len - pos" arbitrary: pos c buf rule: less_induct)
  case less
  show ?case
  proof (cases "pos < buf_len")
    case False
    with less.prems show ?thesis by (subst prf_loop.simps) simp
  next
    case True
    show ?thesis
    proof (cases "H c")
      case (Some h)
      have l: "length h = m" using assms(1) Some by blast
      have "returns (\<lambda>r. \<forall>p b. r = Some (p, b) \<longrightarrow> p = buf_len \<and> length b = length buf)
          (prf_loop H m buf_len (c + 1) (pos + m) (overwrite buf pos h))" if "m \<le> buf_len - pos"
        using less.hyps [of "pos + m" "overwrite buf pos h" "c + 1"] that l True less.prems assms(4) by simp
      then show ?thesis using True Some l less.prems assms(4)
        by (subst prf_loop.simps) (simp add: Let_def rdn_def wrn_overwrite)
    qed (use True assms(4) in \<open>subst prf_loop.simps, simp\<close>)
  qed
qed

text \<open>The documented lengths of the results of the crypto backend.\<close>

definition wpa_crypto_ok :: "'y wpa_crypto_scheme \<Rightarrow> bool" where
  "wpa_crypto_ok C \<longleftrightarrow>
     crypto_ok C \<and>
     (\<forall>k d. returns (\<lambda>h. length h = MD5_MAC_LEN) (hmac_md5 C k d)) \<and>
     (\<forall>k d. returns (\<lambda>h. length h = SHA512_MAC_LEN) (hmac_sha512 C k d)) \<and>
     (\<forall>k d. returns (\<lambda>h. length h = 16) (omac1_aes_128 C k d))"

lemma hash_the: "returns (\<lambda>h. length h = n) x \<Longrightarrow> x = Some (the x) \<and> length (the x) = n"
  by (cases x) simp_all

lemma sha1_prf_eq:
  assumes "crypto_ok C" "buf_len \<le> length buf"
  shows "sha1_prf C key label data buf buf_len =
    Some (Some (stream_out (\<lambda>i. the (hmac_sha1 C key (label @ [0] @ data @ [of_nat i]))) 0 buf_len @ drop buf_len buf))"
proof -
  have h: "hmac_sha1 C key d = Some (the (hmac_sha1 C key d)) \<and> length (the (hmac_sha1 C key d)) = SHA1_MAC_LEN" for d
    by (rule hash_the) (use assms in \<open>simp add: crypto_ok_def SHA1_MAC_LEN_def\<close>)
  show ?thesis
    using prf_loop_eq [where k = 0 and pos = 0 and m = SHA1_MAC_LEN and buf = buf and buf_len = buf_len and
        H = "\<lambda>c :: u8. hmac_sha1 C key (label @ [0] @ data @ [c])" and
        B = "\<lambda>i. the (hmac_sha1 C key (label @ [0] @ data @ [of_nat i]))"] h assms(2)
      stream_out_length [of "\<lambda>i. the (hmac_sha1 C key (label @ [0] @ data @ [of_nat i]))" SHA1_MAC_LEN 0 buf_len]
    by (simp add: sha1_prf_def SHA1_MAC_LEN_def overwrite_def)
qed

definition kdf_block :: "(bytes \<Rightarrow> bytes option) \<Rightarrow> bytes \<Rightarrow> bytes \<Rightarrow> nat \<Rightarrow> nat \<Rightarrow> bytes" where
  "kdf_block hmac label data bits i =
     the (hmac (WPA_PUT_LE16 (of_nat i) @ label @ data @ WPA_PUT_LE16 (of_nat bits)))"

lemma sha_prf_bits_eq:
  assumes "\<And>d. returns (\<lambda>h. length h = m) (hmac d)" "0 < m" "n \<le> length buf"
  shows "sha_prf_bits hmac m label data buf (n * 8) =
    Some (Some (stream_out (kdf_block hmac label data (n * 8)) 1 n @ drop n buf))"
proof -
  have h: "hmac d = Some (the (hmac d)) \<and> length (the (hmac d)) = m" for d
    by (rule hash_the) (rule assms(1))
  have "prf_loop (\<lambda>counter :: u16. hmac (WPA_PUT_LE16 counter @ label @ data @ WPA_PUT_LE16 (of_nat (n * 8))))
      m n 1 0 buf = Some (Some (n, overwrite buf 0 (stream_out (kdf_block hmac label data (n * 8)) 1 n)))"
    using prf_loop_eq [where k = 1 and pos = 0 and m = m and buf = buf and buf_len = n and
        H = "\<lambda>counter :: u16. hmac (WPA_PUT_LE16 counter @ label @ data @ WPA_PUT_LE16 (of_nat (n * 8)))" and
        B = "kdf_block hmac label data (n * 8)"] h assms(2,3) by (simp add: kdf_block_def)
  moreover have "length (stream_out (kdf_block hmac label data (n * 8)) 1 n) = n"
    by (rule stream_out_length [of _ m]) (use h assms(2) in \<open>simp_all add: kdf_block_def\<close>)
  ultimately show ?thesis using assms(3) by (simp add: sha_prf_bits_def overwrite_def)
qed

lemma sha_prf_length:
  assumes "\<And>d. returns (\<lambda>h. length h = m) (hmac d)" "0 < m" "n \<le> length buf"
  shows "returns (returns (\<lambda>b. length b = length buf)) (sha_prf_bits hmac m label data buf (n * 8))"
proof -
  have "length (kdf_block hmac label data (n * 8) i) = m" for i
    unfolding kdf_block_def using hash_the [OF assms(1)] by blast
  then show ?thesis using assms(2,3) sha_prf_bits_eq [OF assms, where label = label and data = data]
    by (simp add: stream_out_length [of _ m])
qed


definition toy_hash :: "nat \<Rightarrow> bytes \<Rightarrow> bytes \<Rightarrow> bytes option" where
  "toy_hash n k d = Some (map (\<lambda>i. of_nat i + sum_list k + sum_list d) [0..<n])"

definition toy_crypto :: wpa_crypto where
  "toy_crypto = \<lparr>hmac_sha1 = toy_hash 20, hmac_sha256 = toy_hash 32, hmac_sha384 = toy_hash 48,
     hmac_md5 = toy_hash 16, hmac_sha512 = toy_hash 64, omac1_aes_128 = toy_hash 16,
     aes_encrypt = (\<lambda>k. Some (map (\<lambda>x. x XOR 0x5a))), aes_decrypt = (\<lambda>k. Some (map (\<lambda>x. x XOR 0x5a)))\<rparr>"

lemma toy_crypto_ok: "wpa_crypto_ok toy_crypto"
  by (simp add: wpa_crypto_ok_def crypto_ok_def toy_crypto_def toy_hash_def mac_len_defs)


end
