(* ===== verification/Aes_wrap.thy ===== *)
theory Aes_wrap
  imports Kdf
begin

text \<open>
  The AES Key Wrap algorithm of \<open>src/crypto/aes-wrap.c\<close> and \<open>aes-unwrap.c\<close> (RFC 3394),
  which protects the key data of EAPOL-Key frames. The block cipher is a parameter: the
  encryption and the decryption of one 16-octet block under the key encryption key.

  The working state is the pair of the 8-octet register \<open>a\<close> and the array \<open>r\<close> of \<open>8 * n\<close>
  octets, both in the caller's output buffer; the result of the functions is the content
  of that buffer, \<open>Some None\<close> for the error return, and \<^const>\<open>None\<close> when the input is
  shorter than the code reads.
\<close>

section \<open>The algorithm\<close>

definition AES_BLOCK_SIZE :: nat where "AES_BLOCK_SIZE = 16"

text \<open>The four exclusive-or assignments to \<open>a[7]\<close>, \<open>a[6]\<close>, \<open>a[5]\<close> and \<open>a[4]\<close>.\<close>

definition xor_counter :: "u32 \<Rightarrow> bytes \<Rightarrow> bytes" where
  "xor_counter t a =
     (let a = a[7 := a ! 7 XOR ucast t];
          a = a[6 := a ! 6 XOR ucast (drop_bit 8 t)];
          a = a[5 := a ! 5 XOR ucast (drop_bit 16 t)]
      in a[4 := a ! 4 XOR ucast (drop_bit 24 t)])"

definition aes_wrap_step :: "(bytes \<Rightarrow> bytes) \<Rightarrow> nat \<Rightarrow> nat \<Rightarrow> nat \<Rightarrow> bytes \<times> bytes \<Rightarrow> bytes \<times> bytes" where
  "aes_wrap_step E n j i s =
     (let (a, r) = s;
          b = E (a @ take 8 (drop (8 * (i - 1)) r));
          t = of_nat (n * j + i)
      in (xor_counter t (take 8 b), overwrite r (8 * (i - 1)) (drop 8 b)))"

definition aes_wrap :: "'z wpa_crypto_scheme \<Rightarrow> bytes \<Rightarrow> nat \<Rightarrow> bytes \<Rightarrow> bytes option option" where
  "aes_wrap C kek n plain = do {
     r \<leftarrow> rdn plain 0 (8 * n);
     case aes_encrypt C kek of None \<Rightarrow> Some None
     | Some E \<Rightarrow>
         let (a, r) = fold (\<lambda>j. fold (aes_wrap_step E n j) [1..<Suc n]) [0..<6] (replicate 8 0xa6, r)
         in Some (Some (a @ r)) }"

definition aes_unwrap_step :: "(bytes \<Rightarrow> bytes) \<Rightarrow> nat \<Rightarrow> nat \<Rightarrow> nat \<Rightarrow> bytes \<times> bytes \<Rightarrow> bytes \<times> bytes" where
  "aes_unwrap_step D n j i s =
     (let (a, r) = s;
          t = of_nat (n * j + i);
          b = D (xor_counter t a @ take 8 (drop (8 * (i - 1)) r))
      in (take 8 b, overwrite r (8 * (i - 1)) (drop 8 b)))"

definition aes_unwrap :: "'z wpa_crypto_scheme \<Rightarrow> bytes \<Rightarrow> nat \<Rightarrow> bytes \<Rightarrow> bytes option option" where
  "aes_unwrap C kek n cipher = do {
     a \<leftarrow> rdn cipher 0 8;
     r \<leftarrow> rdn cipher 8 (8 * n);
     case aes_decrypt C kek of None \<Rightarrow> Some None
     | Some D \<Rightarrow>
         let (a, r) = fold (\<lambda>j. fold (aes_unwrap_step D n j) (rev [1..<Suc n])) (rev [0..<6]) (a, r)
         in Some (if list_all (\<lambda>x. x = 0xa6) a then Some r else None) }"

section \<open>Each step is undone by its counterpart\<close>

lemma xor_counter_length [simp]: "length (xor_counter t a) = length a"
  by (simp add: xor_counter_def Let_def)

lemma xor_counter_twice: "length a = 8 \<Longrightarrow> xor_counter t (xor_counter t a) = a"
  by (auto simp: xor_counter_def Let_def xor.assoc length_Suc_conv numeral_eq_Suc)

definition block_ok :: "(bytes \<Rightarrow> bytes) \<Rightarrow> (bytes \<Rightarrow> bytes) \<Rightarrow> bool" where
  "block_ok E D \<longleftrightarrow>
     (\<forall>b. length b = AES_BLOCK_SIZE \<longrightarrow>
        length (E b) = AES_BLOCK_SIZE \<and> length (D b) = AES_BLOCK_SIZE \<and> D (E b) = b \<and> E (D b) = b)"

definition wrap_state :: "nat \<Rightarrow> bytes \<times> bytes \<Rightarrow> bool" where
  "wrap_state n s \<longleftrightarrow> length (fst s) = 8 \<and> length (snd s) = 8 * n"

lemma overwrite_slice:
  "pos + length x \<le> length b \<Longrightarrow> take (length x) (drop pos (overwrite b pos x)) = x"
  by (simp add: overwrite_def)

lemma overwrite_back:
  "pos + k \<le> length b \<Longrightarrow> length x = k \<Longrightarrow> overwrite (overwrite b pos x) pos (take k (drop pos b)) = b"
  by (simp add: overwrite_def) (metis append_take_drop_id drop_drop add.commute)

lemma wrap_index: "i \<in> set [1..<Suc n] \<Longrightarrow> 8 * (i - 1) + 8 \<le> 8 * n"
  by auto

lemma wrap_step_inv:
  assumes "block_ok E D" "i \<in> set [1..<Suc n]" "wrap_state n s"
  shows "wrap_state n (aes_wrap_step E n j i s) \<and> aes_unwrap_step D n j i (aes_wrap_step E n j i s) = s"
    and "wrap_state n (aes_unwrap_step D n j i s) \<and> aes_wrap_step E n j i (aes_unwrap_step D n j i s) = s"
proof -
  obtain a r where s: "s = (a, r)" "length a = 8" "length r = 8 * n"
    using assms(3) by (cases s) (auto simp: wrap_state_def)
  note idx = wrap_index [OF assms(2)]
  define q where "q = 8 * (i - 1)"
  define t :: u32 where "t = of_nat (n * j + i)"
  have q: "q + 8 \<le> length r" using idx s(3) by (simp add: q_def)
  define R where "R = take 8 (drop q r)"
  have R: "length R = 8" using q by (simp add: R_def)
  have ok: "length (E (x @ y)) = 16 \<and> length (D (x @ y)) = 16 \<and> D (E (x @ y)) = x @ y \<and> E (D (x @ y)) = x @ y"
    if "length x = 8" "length y = 8" for x y
    using assms(1) that by (simp add: block_ok_def AES_BLOCK_SIZE_def)
  have slice: "take 8 (drop q (overwrite r q y)) = y" "overwrite (overwrite r q y) q R = r" if "length y = 8" for y
    using overwrite_slice [of q y r] overwrite_back [of q 8 r y] q that by (simp_all add: R_def)
  have wrap: "aes_wrap_step E n j i (x, y) =
      (xor_counter t (take 8 (E (x @ take 8 (drop q y)))), overwrite y q (drop 8 (E (x @ take 8 (drop q y)))))" for x y
    by (simp only: aes_wrap_step_def Let_def prod.case flip: q_def t_def)
  have unwrap: "aes_unwrap_step D n j i (x, y) =
      (take 8 (D (xor_counter t x @ take 8 (drop q y))), overwrite y q (drop 8 (D (xor_counter t x @ take 8 (drop q y)))))"
    for x y
    by (simp only: aes_unwrap_step_def Let_def prod.case flip: q_def t_def)
  show "wrap_state n (aes_wrap_step E n j i s) \<and> aes_unwrap_step D n j i (aes_wrap_step E n j i s) = s"
    using ok [OF s(2) R] q s slice [of "drop 8 (E (a @ R))"]
    by (simp add: wrap unwrap wrap_state_def xor_counter_twice R flip: R_def)
  show "wrap_state n (aes_unwrap_step D n j i s) \<and> aes_wrap_step E n j i (aes_unwrap_step D n j i s) = s"
    using ok [of "xor_counter t a" R] R q s slice [of "drop 8 (D (xor_counter t a @ R))"]
    by (simp add: wrap unwrap wrap_state_def xor_counter_twice flip: R_def)
qed

text \<open>Running a loop and then its inverse over the reversed range is the identity.\<close>

lemma fold_inverse:
  assumes "\<And>x s. x \<in> set xs \<Longrightarrow> P s \<Longrightarrow> P (f x s) \<and> g x (f x s) = s" "P s"
  shows "P (fold f xs s) \<and> fold g (rev xs) (fold f xs s) = s"
  using assms
proof (induction xs arbitrary: s)
  case (Cons x xs)
  from Cons.prems have "P (f x s)" "g x (f x s) = s" by simp_all
  with Cons.IH [of "f x s"] Cons.prems(1) show ?case by simp
qed simp

lemma wrap_loops_inverse:
  assumes "block_ok E D" "wrap_state n s"
  shows "wrap_state n (fold (\<lambda>j. fold (aes_wrap_step E n j) [1..<Suc n]) [0..<6] s) \<and>
      fold (\<lambda>j. fold (aes_unwrap_step D n j) (rev [1..<Suc n])) (rev [0..<6])
        (fold (\<lambda>j. fold (aes_wrap_step E n j) [1..<Suc n]) [0..<6] s) = s"
    and "wrap_state n (fold (\<lambda>j. fold (aes_unwrap_step D n j) (rev [1..<Suc n])) (rev [0..<6]) s) \<and>
      fold (\<lambda>j. fold (aes_wrap_step E n j) [1..<Suc n]) [0..<6]
        (fold (\<lambda>j. fold (aes_unwrap_step D n j) (rev [1..<Suc n])) (rev [0..<6]) s) = s"
proof -
  have i: "wrap_state n (fold (aes_wrap_step E n j) [1..<Suc n] u) \<and>
      fold (aes_unwrap_step D n j) (rev [1..<Suc n]) (fold (aes_wrap_step E n j) [1..<Suc n] u) = u"
    if "wrap_state n u" for j u
    using fold_inverse [of "[1..<Suc n]" "wrap_state n" "aes_wrap_step E n j" "aes_unwrap_step D n j" u]
      wrap_step_inv(1) [OF assms(1)] that by simp
  have i': "wrap_state n (fold (aes_unwrap_step D n j) (rev [1..<Suc n]) u) \<and>
      fold (aes_wrap_step E n j) [1..<Suc n] (fold (aes_unwrap_step D n j) (rev [1..<Suc n]) u) = u"
    if "wrap_state n u" for j u
    using fold_inverse [of "rev [1..<Suc n]" "wrap_state n" "aes_unwrap_step D n j" "aes_wrap_step E n j" u]
      wrap_step_inv(2) [OF assms(1)] that by simp
  show "wrap_state n (fold (\<lambda>j. fold (aes_wrap_step E n j) [1..<Suc n]) [0..<6] s) \<and>
      fold (\<lambda>j. fold (aes_unwrap_step D n j) (rev [1..<Suc n])) (rev [0..<6])
        (fold (\<lambda>j. fold (aes_wrap_step E n j) [1..<Suc n]) [0..<6] s) = s"
    using fold_inverse [of "[0..<6]" "wrap_state n" "\<lambda>j. fold (aes_wrap_step E n j) [1..<Suc n]"
        "\<lambda>j. fold (aes_unwrap_step D n j) (rev [1..<Suc n])" s] i assms(2) by simp
  show "wrap_state n (fold (\<lambda>j. fold (aes_unwrap_step D n j) (rev [1..<Suc n])) (rev [0..<6]) s) \<and>
      fold (\<lambda>j. fold (aes_wrap_step E n j) [1..<Suc n]) [0..<6]
        (fold (\<lambda>j. fold (aes_unwrap_step D n j) (rev [1..<Suc n])) (rev [0..<6]) s) = s"
    using fold_inverse [of "rev [0..<6]" "wrap_state n" "\<lambda>j. fold (aes_unwrap_step D n j) (rev [1..<Suc n])"
        "\<lambda>j. fold (aes_wrap_step E n j) [1..<Suc n]" s] i' assms(2) by simp
qed

lemma all_a6: "length a = 8 \<Longrightarrow> list_all (\<lambda>x. x = 0xa6) a \<longleftrightarrow> a = replicate 8 (0xa6 :: u8)"
  by (auto simp: list_all_length intro: nth_equalityI)

text \<open>C27. AES Key Wrap is a bijection between keys of \<open>n\<close> blocks and the wrapped keys that
  \<open>aes_unwrap()\<close> accepts: unwrapping succeeds with a key exactly when the cipher text is the
  wrapping of that key. In particular unwrapping inverts wrapping, and every change of a
  wrapped key is either refused or is the wrapping of another key.\<close>

theorem aes_wrap_unwrap:
  assumes "aes_encrypt C kek = Some E" "aes_decrypt C kek = Some D" "block_ok E D"
    and "length c = 8 * n + 8" "length p = 8 * n"
  shows "aes_unwrap C kek n c = Some (Some p) \<longleftrightarrow> aes_wrap C kek n p = Some (Some c)"
proof -
  define W where "W = fold (\<lambda>j. fold (aes_wrap_step E n j) [1..<Suc n]) [0..<6]"
  define U where "U = fold (\<lambda>j. fold (aes_unwrap_step D n j) (rev [1..<Suc n])) (rev [0..<6])"
  define s where "s = (take 8 c, drop 8 c)"
  define z where "z = (replicate 8 (0xa6 :: u8), p)"
  have st: "wrap_state n s" "wrap_state n z" using assms(4,5) by (simp_all add: s_def z_def wrap_state_def)
  have UW: "U (W z) = z" "wrap_state n (W z)"
    using wrap_loops_inverse(1) [OF assms(3) st(2)] by (simp_all add: W_def U_def)
  have WU: "W (U s) = s" "wrap_state n (U s)"
    using wrap_loops_inverse(2) [OF assms(3) st(1)] by (simp_all add: W_def U_def)
  have "aes_unwrap C kek n c = Some (Some p) \<longleftrightarrow> U s = z"
  proof -
    obtain a r where ar: "U s = (a, r)" by fastforce
    then have "aes_unwrap C kek n c = Some (if list_all (\<lambda>x. x = 0xa6) a then Some r else None)"
      using assms(2,4) by (simp add: aes_unwrap_def rdn_def s_def U_def)
    with ar all_a6 [of a] WU(2) show ?thesis by (auto simp: wrap_state_def z_def)
  qed
  also have "\<dots> \<longleftrightarrow> W z = s" using UW(1) WU(1) by metis
  also have "\<dots> \<longleftrightarrow> aes_wrap C kek n p = Some (Some c)"
  proof -
    obtain a r where ar: "W z = (a, r)" by fastforce
    then have "aes_wrap C kek n p = Some (Some (a @ r))"
      using assms(1,5) by (simp add: aes_wrap_def rdn_def z_def W_def)
    with ar UW(2) show ?thesis by (auto simp: wrap_state_def s_def)
  qed
  finally show ?thesis .
qed

lemma toy_block: "aes_encrypt toy_crypto k = Some (map (\<lambda>x. x XOR 0x5a))" "aes_decrypt toy_crypto k = Some (map (\<lambda>x. x XOR 0x5a))"
  "block_ok (map (\<lambda>x. x XOR 0x5a)) (map (\<lambda>x. x XOR 0x5a))"
  by (simp_all add: toy_crypto_def block_ok_def AES_BLOCK_SIZE_def xor.assoc comp_def)

theorem aes_wrap_unwrap_witness:
  "aes_unwrap toy_crypto [] 1
     [0xa6, 0xa6, 0xa6, 0xa6, 0xa6, 0xa6, 0xa6, 0xa1, 1, 2, 3, 4, 5, 6, 7, 8] = Some (Some [1, 2, 3, 4, 5, 6, 7, 8])"
proof -
  have "aes_wrap toy_crypto [] 1 [1, 2, 3, 4, 5, 6, 7, 8] =
      Some (Some [0xa6, 0xa6, 0xa6, 0xa6, 0xa6, 0xa6, 0xa6, 0xa1, 1, 2, 3, 4, 5, 6, 7, 8])" by code_simp
  then show ?thesis
    using aes_wrap_unwrap [OF toy_block, of "[0xa6, 0xa6, 0xa6, 0xa6, 0xa6, 0xa6, 0xa6, 0xa1, 1, 2, 3, 4, 5, 6, 7, 8]" 1
        "[1, 2, 3, 4, 5, 6, 7, 8]" "[]"] by simp
qed

end
