(* ===== verification/Wpa_common.thy ===== *)
theory Wpa_common
  imports Aes_wrap
begin

text \<open>
  The functions of \<open>src/common/wpa_common.c\<close> that the key handshake is built on: suite
  selectors and cipher suites, the lengths of the parts of a PTK, the EAPOL-Key MIC and the
  derivation of the PTK.

  The model follows the configuration of the port: \<open>CONFIG_SAE\<close>, \<open>CONFIG_SUITEB\<close>,
  \<open>CONFIG_SUITEB192\<close>, \<open>CONFIG_SHA384\<close> and \<open>CONFIG_SHA512\<close> are defined, \<open>CONFIG_IEEE80211R\<close>,
  \<open>CONFIG_FILS\<close>, \<open>CONFIG_OWE\<close>, \<open>CONFIG_DPP\<close>, \<open>CONFIG_HS20\<close>, \<open>CONFIG_PASN\<close>, \<open>CONFIG_FIPS\<close> and
  \<open>CONFIG_NO_TKIP\<close> are not. The structure \<open>wpa_ptk\<close> keeps its fixed-size arrays beside the
  lengths in use, as in C.
\<close>

section \<open>Constants\<close>

definition ETH_ALEN :: nat where "ETH_ALEN = 6"

definition WPA_REPLAY_COUNTER_LEN :: nat where "WPA_REPLAY_COUNTER_LEN = 8"
definition WPA_NONCE_LEN :: nat where "WPA_NONCE_LEN = 32"
definition WPA_KEY_RSC_LEN :: nat where "WPA_KEY_RSC_LEN = 8"
definition WPA_GTK_MAX_LEN :: nat where "WPA_GTK_MAX_LEN = 32"
definition WPA_IGTK_MAX_LEN :: nat where "WPA_IGTK_MAX_LEN = 32"
definition WPA_BIGTK_MAX_LEN :: nat where "WPA_BIGTK_MAX_LEN = 32"
definition WPA_IGTK_KDE_PREFIX_LEN :: nat where "WPA_IGTK_KDE_PREFIX_LEN = 8"
definition WPA_BIGTK_KDE_PREFIX_LEN :: nat where "WPA_BIGTK_KDE_PREFIX_LEN = 8"
definition WPA_EAPOL_KEY_MIC_MAX_LEN :: nat where "WPA_EAPOL_KEY_MIC_MAX_LEN = 32"
definition WPA_KCK_MAX_LEN :: nat where "WPA_KCK_MAX_LEN = 32"
definition WPA_KEK_MAX_LEN :: nat where "WPA_KEK_MAX_LEN = 64"
definition WPA_TK_MAX_LEN :: nat where "WPA_TK_MAX_LEN = 32"
definition WPA_KDK_MAX_LEN :: nat where "WPA_KDK_MAX_LEN = 32"
definition RSN_SELECTOR_LEN :: nat where "RSN_SELECTOR_LEN = 4"
definition WPA_SELECTOR_LEN :: nat where "WPA_SELECTOR_LEN = 4"

lemmas wpa_len_defs = WPA_REPLAY_COUNTER_LEN_def WPA_NONCE_LEN_def WPA_KEY_RSC_LEN_def
  WPA_GTK_MAX_LEN_def WPA_IGTK_MAX_LEN_def WPA_BIGTK_MAX_LEN_def WPA_IGTK_KDE_PREFIX_LEN_def
  WPA_BIGTK_KDE_PREFIX_LEN_def WPA_EAPOL_KEY_MIC_MAX_LEN_def WPA_KCK_MAX_LEN_def WPA_KEK_MAX_LEN_def
  WPA_TK_MAX_LEN_def WPA_KDK_MAX_LEN_def RSN_SELECTOR_LEN_def WPA_SELECTOR_LEN_def

definition WPA_KEY_INFO_TYPE_MASK :: u16 where "WPA_KEY_INFO_TYPE_MASK = BIT 0 OR BIT 1 OR BIT 2"
definition WPA_KEY_INFO_TYPE_AKM_DEFINED :: u16 where "WPA_KEY_INFO_TYPE_AKM_DEFINED = 0"
definition WPA_KEY_INFO_TYPE_HMAC_MD5_RC4 :: u16 where "WPA_KEY_INFO_TYPE_HMAC_MD5_RC4 = BIT 0"
definition WPA_KEY_INFO_TYPE_HMAC_SHA1_AES :: u16 where "WPA_KEY_INFO_TYPE_HMAC_SHA1_AES = BIT 1"
definition WPA_KEY_INFO_TYPE_AES_128_CMAC :: u16 where "WPA_KEY_INFO_TYPE_AES_128_CMAC = 3"
definition WPA_KEY_INFO_KEY_TYPE :: u16 where "WPA_KEY_INFO_KEY_TYPE = BIT 3"
definition WPA_KEY_INFO_KEY_INDEX_MASK :: u16 where "WPA_KEY_INFO_KEY_INDEX_MASK = BIT 4 OR BIT 5"
definition WPA_KEY_INFO_INSTALL :: u16 where "WPA_KEY_INFO_INSTALL = BIT 6"
definition WPA_KEY_INFO_TXRX :: u16 where "WPA_KEY_INFO_TXRX = BIT 6"
definition WPA_KEY_INFO_ACK :: u16 where "WPA_KEY_INFO_ACK = BIT 7"
definition WPA_KEY_INFO_MIC :: u16 where "WPA_KEY_INFO_MIC = BIT 8"
definition WPA_KEY_INFO_SECURE :: u16 where "WPA_KEY_INFO_SECURE = BIT 9"
definition WPA_KEY_INFO_ERROR :: u16 where "WPA_KEY_INFO_ERROR = BIT 10"
definition WPA_KEY_INFO_REQUEST :: u16 where "WPA_KEY_INFO_REQUEST = BIT 11"
definition WPA_KEY_INFO_ENCR_KEY_DATA :: u16 where "WPA_KEY_INFO_ENCR_KEY_DATA = BIT 12"
definition WPA_KEY_INFO_SMK_MESSAGE :: u16 where "WPA_KEY_INFO_SMK_MESSAGE = BIT 13"
definition WPA_KEY_INFO_KEY_INDEX_SHIFT :: nat where "WPA_KEY_INFO_KEY_INDEX_SHIFT = 4"

lemmas key_info_defs = WPA_KEY_INFO_TYPE_MASK_def WPA_KEY_INFO_TYPE_AKM_DEFINED_def
  WPA_KEY_INFO_TYPE_HMAC_MD5_RC4_def WPA_KEY_INFO_TYPE_HMAC_SHA1_AES_def
  WPA_KEY_INFO_TYPE_AES_128_CMAC_def WPA_KEY_INFO_KEY_TYPE_def WPA_KEY_INFO_KEY_INDEX_MASK_def
  WPA_KEY_INFO_INSTALL_def WPA_KEY_INFO_TXRX_def WPA_KEY_INFO_ACK_def WPA_KEY_INFO_MIC_def
  WPA_KEY_INFO_SECURE_def WPA_KEY_INFO_ERROR_def WPA_KEY_INFO_REQUEST_def WPA_KEY_INFO_ENCR_KEY_DATA_def
  WPA_KEY_INFO_SMK_MESSAGE_def WPA_KEY_INFO_KEY_INDEX_SHIFT_def

definition WPA_CAPABILITY_PREAUTH :: u16 where "WPA_CAPABILITY_PREAUTH = BIT 0"
definition WPA_CAPABILITY_NO_PAIRWISE :: u16 where "WPA_CAPABILITY_NO_PAIRWISE = BIT 1"
definition WPA_CAPABILITY_MFPR :: u16 where "WPA_CAPABILITY_MFPR = BIT 6"
definition WPA_CAPABILITY_MFPC :: u16 where "WPA_CAPABILITY_MFPC = BIT 7"
definition WPA_CAPABILITY_PEERKEY_ENABLED :: u16 where "WPA_CAPABILITY_PEERKEY_ENABLED = BIT 9"
definition WPA_CAPABILITY_SPP_A_MSDU_CAPABLE :: u16 where "WPA_CAPABILITY_SPP_A_MSDU_CAPABLE = BIT 10"
definition WPA_CAPABILITY_SPP_A_MSDU_REQUIRED :: u16 where "WPA_CAPABILITY_SPP_A_MSDU_REQUIRED = BIT 11"
definition WPA_CAPABILITY_PBAC :: u16 where "WPA_CAPABILITY_PBAC = BIT 12"
definition WPA_CAPABILITY_EXT_KEY_ID_FOR_UNICAST :: u16 where "WPA_CAPABILITY_EXT_KEY_ID_FOR_UNICAST = BIT 13"
definition WPA_CAPABILITY_OCVC :: u16 where "WPA_CAPABILITY_OCVC = BIT 14"

lemmas capability_defs = WPA_CAPABILITY_PREAUTH_def WPA_CAPABILITY_NO_PAIRWISE_def
  WPA_CAPABILITY_MFPR_def WPA_CAPABILITY_MFPC_def WPA_CAPABILITY_PEERKEY_ENABLED_def
  WPA_CAPABILITY_SPP_A_MSDU_CAPABLE_def WPA_CAPABILITY_SPP_A_MSDU_REQUIRED_def WPA_CAPABILITY_PBAC_def
  WPA_CAPABILITY_EXT_KEY_ID_FOR_UNICAST_def WPA_CAPABILITY_OCVC_def

definition RSN_SELECTOR :: "u8 \<Rightarrow> u8 \<Rightarrow> u8 \<Rightarrow> u8 \<Rightarrow> u32" where
  "RSN_SELECTOR a b c d = push_bit 24 (ucast a) OR push_bit 16 (ucast b) OR push_bit 8 (ucast c) OR ucast d"

definition WPA_AUTH_KEY_MGMT_NONE :: u32 where "WPA_AUTH_KEY_MGMT_NONE = RSN_SELECTOR 0x00 0x50 0xf2 0"
definition WPA_AUTH_KEY_MGMT_UNSPEC_802_1X :: u32 where "WPA_AUTH_KEY_MGMT_UNSPEC_802_1X = RSN_SELECTOR 0x00 0x50 0xf2 1"
definition WPA_AUTH_KEY_MGMT_PSK_OVER_802_1X :: u32 where "WPA_AUTH_KEY_MGMT_PSK_OVER_802_1X = RSN_SELECTOR 0x00 0x50 0xf2 2"
definition WPA_AUTH_KEY_MGMT_CCKM :: u32 where "WPA_AUTH_KEY_MGMT_CCKM = RSN_SELECTOR 0x00 0x40 0x96 0"
definition WPA_CIPHER_SUITE_NONE :: u32 where "WPA_CIPHER_SUITE_NONE = RSN_SELECTOR 0x00 0x50 0xf2 0"
definition WPA_CIPHER_SUITE_TKIP :: u32 where "WPA_CIPHER_SUITE_TKIP = RSN_SELECTOR 0x00 0x50 0xf2 2"
definition WPA_CIPHER_SUITE_CCMP :: u32 where "WPA_CIPHER_SUITE_CCMP = RSN_SELECTOR 0x00 0x50 0xf2 4"
definition RSN_AUTH_KEY_MGMT_UNSPEC_802_1X :: u32 where "RSN_AUTH_KEY_MGMT_UNSPEC_802_1X = RSN_SELECTOR 0x00 0x0f 0xac 1"
definition RSN_AUTH_KEY_MGMT_PSK_OVER_802_1X :: u32 where "RSN_AUTH_KEY_MGMT_PSK_OVER_802_1X = RSN_SELECTOR 0x00 0x0f 0xac 2"
definition RSN_AUTH_KEY_MGMT_FT_802_1X :: u32 where "RSN_AUTH_KEY_MGMT_FT_802_1X = RSN_SELECTOR 0x00 0x0f 0xac 3"
definition RSN_AUTH_KEY_MGMT_FT_PSK :: u32 where "RSN_AUTH_KEY_MGMT_FT_PSK = RSN_SELECTOR 0x00 0x0f 0xac 4"
definition RSN_AUTH_KEY_MGMT_802_1X_SHA256 :: u32 where "RSN_AUTH_KEY_MGMT_802_1X_SHA256 = RSN_SELECTOR 0x00 0x0f 0xac 5"
definition RSN_AUTH_KEY_MGMT_PSK_SHA256 :: u32 where "RSN_AUTH_KEY_MGMT_PSK_SHA256 = RSN_SELECTOR 0x00 0x0f 0xac 6"
definition RSN_AUTH_KEY_MGMT_TPK_HANDSHAKE :: u32 where "RSN_AUTH_KEY_MGMT_TPK_HANDSHAKE = RSN_SELECTOR 0x00 0x0f 0xac 7"
definition RSN_AUTH_KEY_MGMT_SAE :: u32 where "RSN_AUTH_KEY_MGMT_SAE = RSN_SELECTOR 0x00 0x0f 0xac 8"
definition RSN_AUTH_KEY_MGMT_FT_SAE :: u32 where "RSN_AUTH_KEY_MGMT_FT_SAE = RSN_SELECTOR 0x00 0x0f 0xac 9"
definition RSN_AUTH_KEY_MGMT_802_1X_SUITE_B :: u32 where "RSN_AUTH_KEY_MGMT_802_1X_SUITE_B = RSN_SELECTOR 0x00 0x0f 0xac 11"
definition RSN_AUTH_KEY_MGMT_802_1X_SUITE_B_192 :: u32 where "RSN_AUTH_KEY_MGMT_802_1X_SUITE_B_192 = RSN_SELECTOR 0x00 0x0f 0xac 12"
definition RSN_AUTH_KEY_MGMT_FT_802_1X_SHA384 :: u32 where "RSN_AUTH_KEY_MGMT_FT_802_1X_SHA384 = RSN_SELECTOR 0x00 0x0f 0xac 13"
definition RSN_AUTH_KEY_MGMT_FILS_SHA256 :: u32 where "RSN_AUTH_KEY_MGMT_FILS_SHA256 = RSN_SELECTOR 0x00 0x0f 0xac 14"
definition RSN_AUTH_KEY_MGMT_FILS_SHA384 :: u32 where "RSN_AUTH_KEY_MGMT_FILS_SHA384 = RSN_SELECTOR 0x00 0x0f 0xac 15"
definition RSN_AUTH_KEY_MGMT_FT_FILS_SHA256 :: u32 where "RSN_AUTH_KEY_MGMT_FT_FILS_SHA256 = RSN_SELECTOR 0x00 0x0f 0xac 16"
definition RSN_AUTH_KEY_MGMT_FT_FILS_SHA384 :: u32 where "RSN_AUTH_KEY_MGMT_FT_FILS_SHA384 = RSN_SELECTOR 0x00 0x0f 0xac 17"
definition RSN_AUTH_KEY_MGMT_OWE :: u32 where "RSN_AUTH_KEY_MGMT_OWE = RSN_SELECTOR 0x00 0x0f 0xac 18"
definition RSN_AUTH_KEY_MGMT_PASN :: u32 where "RSN_AUTH_KEY_MGMT_PASN = RSN_SELECTOR 0x00 0x0f 0xac 21"
definition RSN_AUTH_KEY_MGMT_SAE_EXT_KEY :: u32 where "RSN_AUTH_KEY_MGMT_SAE_EXT_KEY = RSN_SELECTOR 0x00 0x0f 0xac 24"
definition RSN_AUTH_KEY_MGMT_CCKM :: u32 where "RSN_AUTH_KEY_MGMT_CCKM = RSN_SELECTOR 0x00 0x40 0x96 0x00"
definition RSN_AUTH_KEY_MGMT_OSEN :: u32 where "RSN_AUTH_KEY_MGMT_OSEN = RSN_SELECTOR 0x50 0x6f 0x9a 0x01"
definition RSN_AUTH_KEY_MGMT_DPP :: u32 where "RSN_AUTH_KEY_MGMT_DPP = RSN_SELECTOR 0x50 0x6f 0x9a 0x02"
definition RSN_CIPHER_SUITE_NONE :: u32 where "RSN_CIPHER_SUITE_NONE = RSN_SELECTOR 0x00 0x0f 0xac 0"
definition RSN_CIPHER_SUITE_WEP40 :: u32 where "RSN_CIPHER_SUITE_WEP40 = RSN_SELECTOR 0x00 0x0f 0xac 1"
definition RSN_CIPHER_SUITE_TKIP :: u32 where "RSN_CIPHER_SUITE_TKIP = RSN_SELECTOR 0x00 0x0f 0xac 2"
definition RSN_CIPHER_SUITE_CCMP :: u32 where "RSN_CIPHER_SUITE_CCMP = RSN_SELECTOR 0x00 0x0f 0xac 4"
definition RSN_CIPHER_SUITE_WEP104 :: u32 where "RSN_CIPHER_SUITE_WEP104 = RSN_SELECTOR 0x00 0x0f 0xac 5"
definition RSN_CIPHER_SUITE_AES_128_CMAC :: u32 where "RSN_CIPHER_SUITE_AES_128_CMAC = RSN_SELECTOR 0x00 0x0f 0xac 6"
definition RSN_CIPHER_SUITE_NO_GROUP_ADDRESSED :: u32 where "RSN_CIPHER_SUITE_NO_GROUP_ADDRESSED = RSN_SELECTOR 0x00 0x0f 0xac 7"
definition RSN_CIPHER_SUITE_GCMP :: u32 where "RSN_CIPHER_SUITE_GCMP = RSN_SELECTOR 0x00 0x0f 0xac 8"
definition RSN_CIPHER_SUITE_GCMP_256 :: u32 where "RSN_CIPHER_SUITE_GCMP_256 = RSN_SELECTOR 0x00 0x0f 0xac 9"
definition RSN_CIPHER_SUITE_CCMP_256 :: u32 where "RSN_CIPHER_SUITE_CCMP_256 = RSN_SELECTOR 0x00 0x0f 0xac 10"
definition RSN_CIPHER_SUITE_BIP_GMAC_128 :: u32 where "RSN_CIPHER_SUITE_BIP_GMAC_128 = RSN_SELECTOR 0x00 0x0f 0xac 11"
definition RSN_CIPHER_SUITE_BIP_GMAC_256 :: u32 where "RSN_CIPHER_SUITE_BIP_GMAC_256 = RSN_SELECTOR 0x00 0x0f 0xac 12"
definition RSN_CIPHER_SUITE_BIP_CMAC_256 :: u32 where "RSN_CIPHER_SUITE_BIP_CMAC_256 = RSN_SELECTOR 0x00 0x0f 0xac 13"
definition RSN_CIPHER_SUITE_SMS4 :: u32 where "RSN_CIPHER_SUITE_SMS4 = RSN_SELECTOR 0x00 0x14 0x72 1"
definition RSN_CIPHER_SUITE_CKIP :: u32 where "RSN_CIPHER_SUITE_CKIP = RSN_SELECTOR 0x00 0x40 0x96 0"
definition RSN_CIPHER_SUITE_CKIP_CMIC :: u32 where "RSN_CIPHER_SUITE_CKIP_CMIC = RSN_SELECTOR 0x00 0x40 0x96 1"
definition RSN_CIPHER_SUITE_CMIC :: u32 where "RSN_CIPHER_SUITE_CMIC = RSN_SELECTOR 0x00 0x40 0x96 2"
definition RSN_CIPHER_SUITE_KRK :: u32 where "RSN_CIPHER_SUITE_KRK = RSN_SELECTOR 0x00 0x40 0x96 255"
definition RSN_KEY_DATA_GROUPKEY :: u32 where "RSN_KEY_DATA_GROUPKEY = RSN_SELECTOR 0x00 0x0f 0xac 1"
definition RSN_KEY_DATA_MAC_ADDR :: u32 where "RSN_KEY_DATA_MAC_ADDR = RSN_SELECTOR 0x00 0x0f 0xac 3"
definition RSN_KEY_DATA_PMKID :: u32 where "RSN_KEY_DATA_PMKID = RSN_SELECTOR 0x00 0x0f 0xac 4"
definition RSN_KEY_DATA_IGTK :: u32 where "RSN_KEY_DATA_IGTK = RSN_SELECTOR 0x00 0x0f 0xac 9"
definition RSN_KEY_DATA_KEYID :: u32 where "RSN_KEY_DATA_KEYID = RSN_SELECTOR 0x00 0x0f 0xac 10"
definition RSN_KEY_DATA_MULTIBAND_GTK :: u32 where "RSN_KEY_DATA_MULTIBAND_GTK = RSN_SELECTOR 0x00 0x0f 0xac 11"
definition RSN_KEY_DATA_MULTIBAND_KEYID :: u32 where "RSN_KEY_DATA_MULTIBAND_KEYID = RSN_SELECTOR 0x00 0x0f 0xac 12"
definition RSN_KEY_DATA_OCI :: u32 where "RSN_KEY_DATA_OCI = RSN_SELECTOR 0x00 0x0f 0xac 13"
definition RSN_KEY_DATA_BIGTK :: u32 where "RSN_KEY_DATA_BIGTK = RSN_SELECTOR 0x00 0x0f 0xac 14"
definition WFA_KEY_DATA_IP_ADDR_REQ :: u32 where "WFA_KEY_DATA_IP_ADDR_REQ = RSN_SELECTOR 0x50 0x6f 0x9a 4"
definition WFA_KEY_DATA_IP_ADDR_ALLOC :: u32 where "WFA_KEY_DATA_IP_ADDR_ALLOC = RSN_SELECTOR 0x50 0x6f 0x9a 5"
definition WFA_KEY_DATA_TRANSITION_DISABLE :: u32 where "WFA_KEY_DATA_TRANSITION_DISABLE = RSN_SELECTOR 0x50 0x6f 0x9a 0x20"
definition WFA_KEY_DATA_DPP :: u32 where "WFA_KEY_DATA_DPP = RSN_SELECTOR 0x50 0x6f 0x9a 0x21"
definition WPA_OUI_TYPE :: u32 where "WPA_OUI_TYPE = RSN_SELECTOR 0x00 0x50 0xf2 1"

lemmas selector_defs = WPA_AUTH_KEY_MGMT_NONE_def WPA_AUTH_KEY_MGMT_UNSPEC_802_1X_def
  WPA_AUTH_KEY_MGMT_PSK_OVER_802_1X_def WPA_AUTH_KEY_MGMT_CCKM_def WPA_CIPHER_SUITE_NONE_def
  WPA_CIPHER_SUITE_TKIP_def WPA_CIPHER_SUITE_CCMP_def RSN_AUTH_KEY_MGMT_UNSPEC_802_1X_def
  RSN_AUTH_KEY_MGMT_PSK_OVER_802_1X_def RSN_AUTH_KEY_MGMT_FT_802_1X_def RSN_AUTH_KEY_MGMT_FT_PSK_def
  RSN_AUTH_KEY_MGMT_802_1X_SHA256_def RSN_AUTH_KEY_MGMT_PSK_SHA256_def
  RSN_AUTH_KEY_MGMT_TPK_HANDSHAKE_def RSN_AUTH_KEY_MGMT_SAE_def RSN_AUTH_KEY_MGMT_FT_SAE_def
  RSN_AUTH_KEY_MGMT_802_1X_SUITE_B_def RSN_AUTH_KEY_MGMT_802_1X_SUITE_B_192_def
  RSN_AUTH_KEY_MGMT_FT_802_1X_SHA384_def RSN_AUTH_KEY_MGMT_FILS_SHA256_def
  RSN_AUTH_KEY_MGMT_FILS_SHA384_def RSN_AUTH_KEY_MGMT_FT_FILS_SHA256_def
  RSN_AUTH_KEY_MGMT_FT_FILS_SHA384_def RSN_AUTH_KEY_MGMT_OWE_def RSN_AUTH_KEY_MGMT_PASN_def
  RSN_AUTH_KEY_MGMT_SAE_EXT_KEY_def RSN_AUTH_KEY_MGMT_CCKM_def RSN_AUTH_KEY_MGMT_OSEN_def
  RSN_AUTH_KEY_MGMT_DPP_def RSN_CIPHER_SUITE_NONE_def RSN_CIPHER_SUITE_WEP40_def
  RSN_CIPHER_SUITE_TKIP_def RSN_CIPHER_SUITE_CCMP_def RSN_CIPHER_SUITE_WEP104_def
  RSN_CIPHER_SUITE_AES_128_CMAC_def RSN_CIPHER_SUITE_NO_GROUP_ADDRESSED_def RSN_CIPHER_SUITE_GCMP_def
  RSN_CIPHER_SUITE_GCMP_256_def RSN_CIPHER_SUITE_CCMP_256_def RSN_CIPHER_SUITE_BIP_GMAC_128_def
  RSN_CIPHER_SUITE_BIP_GMAC_256_def RSN_CIPHER_SUITE_BIP_CMAC_256_def RSN_CIPHER_SUITE_SMS4_def
  RSN_CIPHER_SUITE_CKIP_def RSN_CIPHER_SUITE_CKIP_CMIC_def RSN_CIPHER_SUITE_CMIC_def
  RSN_CIPHER_SUITE_KRK_def RSN_KEY_DATA_GROUPKEY_def RSN_KEY_DATA_MAC_ADDR_def RSN_KEY_DATA_PMKID_def
  RSN_KEY_DATA_IGTK_def RSN_KEY_DATA_KEYID_def RSN_KEY_DATA_MULTIBAND_GTK_def
  RSN_KEY_DATA_MULTIBAND_KEYID_def RSN_KEY_DATA_OCI_def RSN_KEY_DATA_BIGTK_def
  WFA_KEY_DATA_IP_ADDR_REQ_def WFA_KEY_DATA_IP_ADDR_ALLOC_def WFA_KEY_DATA_TRANSITION_DISABLE_def
  WFA_KEY_DATA_DPP_def WPA_OUI_TYPE_def

section \<open>Suite selectors\<close>

definition rsn_selector_to_bitfield :: "u32 \<Rightarrow> u32" where
  "rsn_selector_to_bitfield v =
     (if v = RSN_CIPHER_SUITE_NONE then WPA_CIPHER_NONE
      else if v = RSN_CIPHER_SUITE_TKIP then WPA_CIPHER_TKIP
      else if v = RSN_CIPHER_SUITE_CCMP then WPA_CIPHER_CCMP
      else if v = RSN_CIPHER_SUITE_AES_128_CMAC then WPA_CIPHER_AES_128_CMAC
      else if v = RSN_CIPHER_SUITE_GCMP then WPA_CIPHER_GCMP
      else if v = RSN_CIPHER_SUITE_CCMP_256 then WPA_CIPHER_CCMP_256
      else if v = RSN_CIPHER_SUITE_GCMP_256 then WPA_CIPHER_GCMP_256
      else if v = RSN_CIPHER_SUITE_BIP_GMAC_128 then WPA_CIPHER_BIP_GMAC_128
      else if v = RSN_CIPHER_SUITE_BIP_GMAC_256 then WPA_CIPHER_BIP_GMAC_256
      else if v = RSN_CIPHER_SUITE_BIP_CMAC_256 then WPA_CIPHER_BIP_CMAC_256
      else if v = RSN_CIPHER_SUITE_NO_GROUP_ADDRESSED then WPA_CIPHER_GTK_NOT_USED
      else 0)"

definition rsn_key_mgmt_to_bitfield :: "u32 \<Rightarrow> u32" where
  "rsn_key_mgmt_to_bitfield v =
     (if v = RSN_AUTH_KEY_MGMT_UNSPEC_802_1X then WPA_KEY_MGMT_IEEE8021X
      else if v = RSN_AUTH_KEY_MGMT_PSK_OVER_802_1X then WPA_KEY_MGMT_PSK
      else if v = RSN_AUTH_KEY_MGMT_802_1X_SHA256 then WPA_KEY_MGMT_IEEE8021X_SHA256
      else if v = RSN_AUTH_KEY_MGMT_PSK_SHA256 then WPA_KEY_MGMT_PSK_SHA256
      else if v = RSN_AUTH_KEY_MGMT_SAE then WPA_KEY_MGMT_SAE
      else if v = RSN_AUTH_KEY_MGMT_SAE_EXT_KEY then WPA_KEY_MGMT_SAE_EXT_KEY
      else if v = RSN_AUTH_KEY_MGMT_FT_SAE then WPA_KEY_MGMT_FT_SAE
      else if v = RSN_AUTH_KEY_MGMT_802_1X_SUITE_B then WPA_KEY_MGMT_IEEE8021X_SUITE_B
      else if v = RSN_AUTH_KEY_MGMT_802_1X_SUITE_B_192 then WPA_KEY_MGMT_IEEE8021X_SUITE_B_192
      else if v = RSN_AUTH_KEY_MGMT_FILS_SHA256 then WPA_KEY_MGMT_FILS_SHA256
      else if v = RSN_AUTH_KEY_MGMT_FILS_SHA384 then WPA_KEY_MGMT_FILS_SHA384
      else if v = RSN_AUTH_KEY_MGMT_FT_FILS_SHA256 then WPA_KEY_MGMT_FT_FILS_SHA256
      else if v = RSN_AUTH_KEY_MGMT_FT_FILS_SHA384 then WPA_KEY_MGMT_FT_FILS_SHA384
      else if v = RSN_AUTH_KEY_MGMT_OSEN then WPA_KEY_MGMT_OSEN
      else 0)"

definition wpa_selector_to_bitfield :: "u32 \<Rightarrow> u32" where
  "wpa_selector_to_bitfield v =
     (if v = WPA_CIPHER_SUITE_NONE then WPA_CIPHER_NONE
      else if v = WPA_CIPHER_SUITE_TKIP then WPA_CIPHER_TKIP
      else if v = WPA_CIPHER_SUITE_CCMP then WPA_CIPHER_CCMP
      else 0)"

definition wpa_key_mgmt_to_bitfield :: "u32 \<Rightarrow> u32" where
  "wpa_key_mgmt_to_bitfield v =
     (if v = WPA_AUTH_KEY_MGMT_UNSPEC_802_1X then WPA_KEY_MGMT_IEEE8021X
      else if v = WPA_AUTH_KEY_MGMT_PSK_OVER_802_1X then WPA_KEY_MGMT_PSK
      else if v = WPA_AUTH_KEY_MGMT_NONE then WPA_KEY_MGMT_WPA_NONE
      else 0)"

definition wpa_akm_to_suite :: "u32 \<Rightarrow> u32" where
  "wpa_akm_to_suite akm =
     (if akm AND WPA_KEY_MGMT_FT_IEEE8021X_SHA384 \<noteq> 0 then RSN_AUTH_KEY_MGMT_FT_802_1X_SHA384
      else if akm AND WPA_KEY_MGMT_FT_IEEE8021X \<noteq> 0 then RSN_AUTH_KEY_MGMT_FT_802_1X
      else if akm AND WPA_KEY_MGMT_FT_PSK \<noteq> 0 then RSN_AUTH_KEY_MGMT_FT_PSK
      else if akm AND WPA_KEY_MGMT_IEEE8021X_SHA256 \<noteq> 0 then RSN_AUTH_KEY_MGMT_802_1X_SHA256
      else if akm AND WPA_KEY_MGMT_IEEE8021X \<noteq> 0 then RSN_AUTH_KEY_MGMT_UNSPEC_802_1X
      else if akm AND WPA_KEY_MGMT_PSK_SHA256 \<noteq> 0 then RSN_AUTH_KEY_MGMT_PSK_SHA256
      else if akm AND WPA_KEY_MGMT_PSK \<noteq> 0 then RSN_AUTH_KEY_MGMT_PSK_OVER_802_1X
      else if akm AND WPA_KEY_MGMT_CCKM \<noteq> 0 then RSN_AUTH_KEY_MGMT_CCKM
      else if akm AND WPA_KEY_MGMT_OSEN \<noteq> 0 then RSN_AUTH_KEY_MGMT_OSEN
      else if akm AND WPA_KEY_MGMT_IEEE8021X_SUITE_B \<noteq> 0 then RSN_AUTH_KEY_MGMT_802_1X_SUITE_B
      else if akm AND WPA_KEY_MGMT_IEEE8021X_SUITE_B_192 \<noteq> 0 then RSN_AUTH_KEY_MGMT_802_1X_SUITE_B_192
      else if akm AND WPA_KEY_MGMT_FILS_SHA256 \<noteq> 0 then RSN_AUTH_KEY_MGMT_FILS_SHA256
      else if akm AND WPA_KEY_MGMT_FILS_SHA384 \<noteq> 0 then RSN_AUTH_KEY_MGMT_FILS_SHA384
      else if akm AND WPA_KEY_MGMT_FT_FILS_SHA256 \<noteq> 0 then RSN_AUTH_KEY_MGMT_FT_FILS_SHA256
      else if akm AND WPA_KEY_MGMT_FT_FILS_SHA384 \<noteq> 0 then RSN_AUTH_KEY_MGMT_FT_FILS_SHA384
      else if akm AND WPA_KEY_MGMT_SAE \<noteq> 0 then RSN_AUTH_KEY_MGMT_SAE
      else if akm AND WPA_KEY_MGMT_SAE_EXT_KEY \<noteq> 0 then RSN_AUTH_KEY_MGMT_SAE_EXT_KEY
      else if akm AND WPA_KEY_MGMT_FT_SAE \<noteq> 0 then RSN_AUTH_KEY_MGMT_FT_SAE
      else if akm AND WPA_KEY_MGMT_OWE \<noteq> 0 then RSN_AUTH_KEY_MGMT_OWE
      else if akm AND WPA_KEY_MGMT_DPP \<noteq> 0 then RSN_AUTH_KEY_MGMT_DPP
      else 0)"

definition wpa_cipher_to_suite :: "u32 \<Rightarrow> u32 \<Rightarrow> u32" where
  "wpa_cipher_to_suite proto cipher =
     (if cipher AND WPA_CIPHER_CCMP_256 \<noteq> 0 then RSN_CIPHER_SUITE_CCMP_256
      else if cipher AND WPA_CIPHER_GCMP_256 \<noteq> 0 then RSN_CIPHER_SUITE_GCMP_256
      else if cipher AND WPA_CIPHER_CCMP \<noteq> 0 then (if proto = WPA_PROTO_RSN then RSN_CIPHER_SUITE_CCMP else WPA_CIPHER_SUITE_CCMP)
      else if cipher AND WPA_CIPHER_GCMP \<noteq> 0 then RSN_CIPHER_SUITE_GCMP
      else if cipher AND WPA_CIPHER_TKIP \<noteq> 0 then (if proto = WPA_PROTO_RSN then RSN_CIPHER_SUITE_TKIP else WPA_CIPHER_SUITE_TKIP)
      else if cipher AND WPA_CIPHER_NONE \<noteq> 0 then (if proto = WPA_PROTO_RSN then RSN_CIPHER_SUITE_NONE else WPA_CIPHER_SUITE_NONE)
      else if cipher AND WPA_CIPHER_GTK_NOT_USED \<noteq> 0 then RSN_CIPHER_SUITE_NO_GROUP_ADDRESSED
      else if cipher AND WPA_CIPHER_AES_128_CMAC \<noteq> 0 then RSN_CIPHER_SUITE_AES_128_CMAC
      else if cipher AND WPA_CIPHER_BIP_GMAC_128 \<noteq> 0 then RSN_CIPHER_SUITE_BIP_GMAC_128
      else if cipher AND WPA_CIPHER_BIP_GMAC_256 \<noteq> 0 then RSN_CIPHER_SUITE_BIP_GMAC_256
      else if cipher AND WPA_CIPHER_BIP_CMAC_256 \<noteq> 0 then RSN_CIPHER_SUITE_BIP_CMAC_256
      else 0)"

text \<open>The functions that write the selectors of a set of ciphers return their number; the
  model returns the octets, and their number is a fourth of the length.\<close>

definition rsn_cipher_put_suites :: "u32 \<Rightarrow> bytes" where
  "rsn_cipher_put_suites ciphers =
     (if ciphers AND WPA_CIPHER_CCMP_256 \<noteq> 0 then WPA_PUT_BE32 RSN_CIPHER_SUITE_CCMP_256 else []) @
     (if ciphers AND WPA_CIPHER_GCMP_256 \<noteq> 0 then WPA_PUT_BE32 RSN_CIPHER_SUITE_GCMP_256 else []) @
     (if ciphers AND WPA_CIPHER_CCMP \<noteq> 0 then WPA_PUT_BE32 RSN_CIPHER_SUITE_CCMP else []) @
     (if ciphers AND WPA_CIPHER_GCMP \<noteq> 0 then WPA_PUT_BE32 RSN_CIPHER_SUITE_GCMP else []) @
     (if ciphers AND WPA_CIPHER_TKIP \<noteq> 0 then WPA_PUT_BE32 RSN_CIPHER_SUITE_TKIP else []) @
     (if ciphers AND WPA_CIPHER_NONE \<noteq> 0 then WPA_PUT_BE32 RSN_CIPHER_SUITE_NONE else [])"

definition wpa_cipher_put_suites :: "u32 \<Rightarrow> bytes" where
  "wpa_cipher_put_suites ciphers =
     (if ciphers AND WPA_CIPHER_CCMP \<noteq> 0 then WPA_PUT_BE32 WPA_CIPHER_SUITE_CCMP else []) @
     (if ciphers AND WPA_CIPHER_TKIP \<noteq> 0 then WPA_PUT_BE32 WPA_CIPHER_SUITE_TKIP else []) @
     (if ciphers AND WPA_CIPHER_NONE \<noteq> 0 then WPA_PUT_BE32 WPA_CIPHER_SUITE_NONE else [])"

section \<open>Cipher suites\<close>

definition wpa_cipher_key_len :: "u32 \<Rightarrow> nat" where
  "wpa_cipher_key_len cipher =
     (if cipher \<in> {WPA_CIPHER_CCMP_256, WPA_CIPHER_GCMP_256, WPA_CIPHER_BIP_GMAC_256, WPA_CIPHER_BIP_CMAC_256} then 32
      else if cipher \<in> {WPA_CIPHER_CCMP, WPA_CIPHER_GCMP, WPA_CIPHER_AES_128_CMAC, WPA_CIPHER_BIP_GMAC_128} then 16
      else if cipher = WPA_CIPHER_TKIP then 32
      else 0)"

definition wpa_cipher_rsc_len :: "u32 \<Rightarrow> nat" where
  "wpa_cipher_rsc_len cipher =
     (if cipher \<in> {WPA_CIPHER_CCMP_256, WPA_CIPHER_GCMP_256, WPA_CIPHER_CCMP, WPA_CIPHER_GCMP, WPA_CIPHER_TKIP}
      then 6 else 0)"

definition wpa_cipher_to_alg :: "u32 \<Rightarrow> wpa_alg" where
  "wpa_cipher_to_alg cipher =
     (if cipher = WPA_CIPHER_CCMP_256 then WPA_ALG_CCMP_256
      else if cipher = WPA_CIPHER_GCMP_256 then WPA_ALG_GCMP_256
      else if cipher = WPA_CIPHER_CCMP then WPA_ALG_CCMP
      else if cipher = WPA_CIPHER_GCMP then WPA_ALG_GCMP
      else if cipher = WPA_CIPHER_TKIP then WPA_ALG_TKIP
      else if cipher = WPA_CIPHER_AES_128_CMAC then WPA_ALG_BIP_CMAC_128
      else if cipher = WPA_CIPHER_BIP_GMAC_128 then WPA_ALG_BIP_GMAC_128
      else if cipher = WPA_CIPHER_BIP_GMAC_256 then WPA_ALG_BIP_GMAC_256
      else if cipher = WPA_CIPHER_BIP_CMAC_256 then WPA_ALG_BIP_CMAC_256
      else WPA_ALG_NONE)"

definition wpa_cipher_valid_pairwise :: "u32 \<Rightarrow> bool" where
  "wpa_cipher_valid_pairwise cipher \<longleftrightarrow>
     cipher = WPA_CIPHER_CCMP_256 \<or> cipher = WPA_CIPHER_GCMP_256 \<or> cipher = WPA_CIPHER_CCMP \<or>
     cipher = WPA_CIPHER_GCMP \<or> cipher = WPA_CIPHER_TKIP"

definition wpa_cipher_valid_group :: "u32 \<Rightarrow> bool" where
  "wpa_cipher_valid_group cipher \<longleftrightarrow> wpa_cipher_valid_pairwise cipher \<or> cipher = WPA_CIPHER_GTK_NOT_USED"

definition wpa_cipher_valid_mgmt_group :: "u32 \<Rightarrow> bool" where
  "wpa_cipher_valid_mgmt_group cipher \<longleftrightarrow>
     cipher = WPA_CIPHER_GTK_NOT_USED \<or> cipher = WPA_CIPHER_AES_128_CMAC \<or> cipher = WPA_CIPHER_BIP_GMAC_128 \<or>
     cipher = WPA_CIPHER_BIP_GMAC_256 \<or> cipher = WPA_CIPHER_BIP_CMAC_256"

text \<open>The choice of one cipher out of a set; \<^const>\<open>None\<close> is the result \<open>-1\<close>.\<close>

definition wpa_pick_pairwise_cipher :: "u32 \<Rightarrow> bool \<Rightarrow> u32 option" where
  "wpa_pick_pairwise_cipher ciphers none_allowed =
     (if ciphers AND WPA_CIPHER_CCMP_256 \<noteq> 0 then Some WPA_CIPHER_CCMP_256
      else if ciphers AND WPA_CIPHER_GCMP_256 \<noteq> 0 then Some WPA_CIPHER_GCMP_256
      else if ciphers AND WPA_CIPHER_CCMP \<noteq> 0 then Some WPA_CIPHER_CCMP
      else if ciphers AND WPA_CIPHER_GCMP \<noteq> 0 then Some WPA_CIPHER_GCMP
      else if ciphers AND WPA_CIPHER_TKIP \<noteq> 0 then Some WPA_CIPHER_TKIP
      else if none_allowed \<and> ciphers AND WPA_CIPHER_NONE \<noteq> 0 then Some WPA_CIPHER_NONE
      else None)"

definition wpa_pick_group_cipher :: "u32 \<Rightarrow> u32 option" where
  "wpa_pick_group_cipher ciphers =
     (if ciphers AND WPA_CIPHER_CCMP_256 \<noteq> 0 then Some WPA_CIPHER_CCMP_256
      else if ciphers AND WPA_CIPHER_GCMP_256 \<noteq> 0 then Some WPA_CIPHER_GCMP_256
      else if ciphers AND WPA_CIPHER_CCMP \<noteq> 0 then Some WPA_CIPHER_CCMP
      else if ciphers AND WPA_CIPHER_GCMP \<noteq> 0 then Some WPA_CIPHER_GCMP
      else if ciphers AND WPA_CIPHER_GTK_NOT_USED \<noteq> 0 then Some WPA_CIPHER_GTK_NOT_USED
      else if ciphers AND WPA_CIPHER_TKIP \<noteq> 0 then Some WPA_CIPHER_TKIP
      else None)"

definition wpa_select_ap_group_cipher :: "u32 \<Rightarrow> u32 \<Rightarrow> u32 \<Rightarrow> u32" where
  "wpa_select_ap_group_cipher wpa wpa_pairwise rsn_pairwise =
     (let pairwise = (if wpa AND 1 \<noteq> 0 then wpa_pairwise else 0) OR (if wpa AND 2 \<noteq> 0 then rsn_pairwise else 0)
      in if pairwise AND WPA_CIPHER_TKIP \<noteq> 0 then WPA_CIPHER_TKIP
         else if pairwise AND (WPA_CIPHER_CCMP OR WPA_CIPHER_GCMP) = WPA_CIPHER_GCMP then WPA_CIPHER_GCMP
         else if pairwise AND (WPA_CIPHER_GCMP_256 OR WPA_CIPHER_CCMP OR WPA_CIPHER_GCMP) = WPA_CIPHER_GCMP_256
         then WPA_CIPHER_GCMP_256
         else if pairwise AND (WPA_CIPHER_CCMP_256 OR WPA_CIPHER_CCMP OR WPA_CIPHER_GCMP) = WPA_CIPHER_CCMP_256
         then WPA_CIPHER_CCMP_256
         else WPA_CIPHER_CCMP)"

definition wpa_default_rsn_cipher :: "int \<Rightarrow> u32" where
  "wpa_default_rsn_cipher freq = (if freq > 56160 then WPA_CIPHER_GCMP else WPA_CIPHER_CCMP)"

definition wpa_compare_rsn_ie :: "bytes option \<Rightarrow> bytes option \<Rightarrow> bool" where
  "wpa_compare_rsn_ie ie1 ie2 =
     (case (ie1, ie2) of (Some a, Some b) \<Rightarrow> length a = length b \<and> os_memcmp a b = 0 | _ \<Rightarrow> False)"

section \<open>Lengths of keys and MICs\<close>

definition wpa_kck_len :: "u32 \<Rightarrow> nat \<Rightarrow> nat" where
  "wpa_kck_len akmp pmk_len =
     (if akmp \<in> {WPA_KEY_MGMT_IEEE8021X_SUITE_B_192, WPA_KEY_MGMT_FT_IEEE8021X_SHA384} then 24
      else if akmp \<in> {WPA_KEY_MGMT_FILS_SHA256, WPA_KEY_MGMT_FT_FILS_SHA256, WPA_KEY_MGMT_FILS_SHA384,
                      WPA_KEY_MGMT_FT_FILS_SHA384} then 0
      else if akmp \<in> {WPA_KEY_MGMT_DPP, WPA_KEY_MGMT_OWE, WPA_KEY_MGMT_SAE_EXT_KEY} then pmk_len div 2
      else 16)"

definition wpa_kek_len :: "u32 \<Rightarrow> nat \<Rightarrow> nat" where
  "wpa_kek_len akmp pmk_len =
     (if akmp \<in> {WPA_KEY_MGMT_FILS_SHA384, WPA_KEY_MGMT_FT_FILS_SHA384} then 64
      else if akmp \<in> {WPA_KEY_MGMT_IEEE8021X_SUITE_B_192, WPA_KEY_MGMT_FILS_SHA256, WPA_KEY_MGMT_FT_FILS_SHA256,
                      WPA_KEY_MGMT_FT_IEEE8021X_SHA384} then 32
      else if akmp \<in> {WPA_KEY_MGMT_DPP, WPA_KEY_MGMT_OWE, WPA_KEY_MGMT_SAE_EXT_KEY}
      then if pmk_len \<le> 32 then 16 else 32
      else 16)"

definition wpa_mic_len :: "u32 \<Rightarrow> nat \<Rightarrow> nat" where
  "wpa_mic_len akmp pmk_len =
     (if akmp \<in> {WPA_KEY_MGMT_IEEE8021X_SUITE_B_192, WPA_KEY_MGMT_FT_IEEE8021X_SHA384} then 24
      else if akmp \<in> {WPA_KEY_MGMT_FILS_SHA256, WPA_KEY_MGMT_FILS_SHA384, WPA_KEY_MGMT_FT_FILS_SHA256,
                      WPA_KEY_MGMT_FT_FILS_SHA384} then 0
      else if akmp \<in> {WPA_KEY_MGMT_DPP, WPA_KEY_MGMT_OWE, WPA_KEY_MGMT_SAE_EXT_KEY} then pmk_len div 2
      else 16)"

definition wpa_use_akm_defined :: "u32 \<Rightarrow> bool" where
  "wpa_use_akm_defined akmp \<longleftrightarrow>
     akmp = WPA_KEY_MGMT_OSEN \<or> akmp = WPA_KEY_MGMT_OWE \<or> akmp = WPA_KEY_MGMT_DPP \<or>
     akmp = WPA_KEY_MGMT_FT_IEEE8021X_SHA384 \<or> wpa_key_mgmt_sae akmp \<or> wpa_key_mgmt_suite_b akmp \<or>
     wpa_key_mgmt_fils akmp"

definition wpa_use_cmac :: "u32 \<Rightarrow> bool" where
  "wpa_use_cmac akmp \<longleftrightarrow>
     akmp = WPA_KEY_MGMT_OSEN \<or> akmp = WPA_KEY_MGMT_OWE \<or> akmp = WPA_KEY_MGMT_DPP \<or> wpa_key_mgmt_ft akmp \<or>
     wpa_key_mgmt_sha256 akmp \<or> wpa_key_mgmt_sae akmp \<or> wpa_key_mgmt_suite_b akmp"

definition wpa_use_aes_key_wrap :: "u32 \<Rightarrow> bool" where
  "wpa_use_aes_key_wrap akmp \<longleftrightarrow>
     akmp = WPA_KEY_MGMT_OSEN \<or> akmp = WPA_KEY_MGMT_OWE \<or> akmp = WPA_KEY_MGMT_DPP \<or> wpa_key_mgmt_ft akmp \<or>
     wpa_key_mgmt_sha256 akmp \<or> wpa_key_mgmt_sae akmp \<or> wpa_key_mgmt_suite_b akmp"

section \<open>The EAPOL-Key MIC\<close>

text \<open>\<open>key\<close> is the array of the KCK and \<open>key_len\<close> the octets of it in use; the AES functions
  read 16 octets whatever \<open>key_len\<close> is. The result is what the code writes to \<open>mic\<close>.\<close>

definition mic_of :: "bytes option \<Rightarrow> nat \<Rightarrow> bytes option option" where
  "mic_of hash n = (case hash of None \<Rightarrow> Some None | Some h \<Rightarrow> map_option Some (rdn h 0 n))"

definition mic_omac1 :: "'z wpa_crypto_scheme \<Rightarrow> bytes \<Rightarrow> bytes \<Rightarrow> bytes option option" where
  "mic_omac1 C key buf = do { k \<leftarrow> rdn key 0 16; Some (omac1_aes_128 C k buf) }"

definition wpa_eapol_key_mic ::
  "'z wpa_crypto_scheme \<Rightarrow> bytes \<Rightarrow> nat \<Rightarrow> u32 \<Rightarrow> u16 \<Rightarrow> bytes \<Rightarrow> bytes option option" where
  "wpa_eapol_key_mic C key key_len akmp ver buf =
     (if key_len = 0 then Some None
      else do {
        k \<leftarrow> rdn key 0 key_len;
        if ver = WPA_KEY_INFO_TYPE_HMAC_MD5_RC4 then Some (hmac_md5 C k buf)
        else if ver = WPA_KEY_INFO_TYPE_HMAC_SHA1_AES then mic_of (hmac_sha1 C k buf) MD5_MAC_LEN
        else if ver = WPA_KEY_INFO_TYPE_AES_128_CMAC then mic_omac1 C key buf
        else if ver = WPA_KEY_INFO_TYPE_AKM_DEFINED then
          if akmp = WPA_KEY_MGMT_SAE \<or> akmp = WPA_KEY_MGMT_FT_SAE then mic_omac1 C key buf
          else if akmp = WPA_KEY_MGMT_SAE_EXT_KEY then
            if key_len = 128 div 8 then mic_of (hmac_sha256 C k buf) key_len
            else if key_len = 192 div 8 then mic_of (hmac_sha384 C k buf) key_len
            else if key_len = 256 div 8 then mic_of (hmac_sha512 C k buf) key_len
            else Some None
          else if akmp = WPA_KEY_MGMT_IEEE8021X_SUITE_B then mic_of (hmac_sha256 C k buf) MD5_MAC_LEN
          else if akmp = WPA_KEY_MGMT_IEEE8021X_SUITE_B_192 then mic_of (hmac_sha384 C k buf) 24
          else Some None
        else Some None })"

section \<open>The pairwise transient key\<close>

record wpa_ptk =
  kck :: bytes
  kek :: bytes
  tk :: bytes
  kck2 :: bytes
  kek2 :: bytes
  kdk :: bytes
  kck_len :: nat
  kek_len :: nat
  tk_len :: nat
  kck2_len :: nat
  kek2_len :: nat
  kdk_len :: nat
  installed :: bool

text \<open>What \<open>os_memset(ptk, 0, sizeof(*ptk))\<close> leaves.\<close>

definition zero_ptk :: wpa_ptk where
  "zero_ptk = \<lparr>kck = replicate WPA_KCK_MAX_LEN 0, kek = replicate WPA_KEK_MAX_LEN 0, tk = replicate WPA_TK_MAX_LEN 0,
     kck2 = replicate WPA_KCK_MAX_LEN 0, kek2 = replicate WPA_KEK_MAX_LEN 0, kdk = replicate WPA_KDK_MAX_LEN 0,
     kck_len = 0, kek_len = 0, tk_len = 0, kck2_len = 0, kek2_len = 0, kdk_len = 0, installed = False\<rparr>"

definition MAX_Z_LEN :: nat where "MAX_Z_LEN = 66"

text \<open>The buffer \<open>data\<close>: the lower address, the higher one, the lower nonce, the higher one.\<close>

definition ptk_data :: "bytes \<Rightarrow> bytes \<Rightarrow> bytes \<Rightarrow> bytes \<Rightarrow> bytes \<Rightarrow> bytes" where
  "ptk_data addr1 addr2 nonce1 nonce2 z =
     (if os_memcmp addr1 addr2 < 0 then addr1 @ addr2 else addr2 @ addr1) @
     (if os_memcmp nonce1 nonce2 < 0 then nonce1 @ nonce2 else nonce2 @ nonce1) @ z"

definition ptk_prf ::
  "'z wpa_crypto_scheme \<Rightarrow> u32 \<Rightarrow> bytes \<Rightarrow> bytes \<Rightarrow> bytes \<Rightarrow> bytes \<Rightarrow> nat \<Rightarrow> bytes option option" where
  "ptk_prf C akmp k label data tmp ptk_len =
     (if wpa_key_mgmt_sha384 akmp then sha384_prf C k label data tmp ptk_len
      else if wpa_key_mgmt_sha256 akmp then sha256_prf C k label data tmp ptk_len
      else if wpa_key_mgmt_sae_ext_key akmp then
        if length k = 32 then sha256_prf C k label data tmp ptk_len
        else if length k = 48 then sha384_prf C k label data tmp ptk_len
        else if length k = 64 then sha512_prf C k label data tmp ptk_len
        else Some None
      else sha1_prf C k label data tmp ptk_len)"

definition ptk_fill :: "bytes \<Rightarrow> wpa_ptk \<Rightarrow> wpa_ptk option" where
  "ptk_fill tmp ptk = do {
     x \<leftarrow> rdn tmp 0 (kck_len ptk);
     new_kck \<leftarrow> wrn (kck ptk) 0 x;
     x \<leftarrow> rdn tmp (kck_len ptk) (kek_len ptk);
     new_kek \<leftarrow> wrn (kek ptk) 0 x;
     x \<leftarrow> rdn tmp (kck_len ptk + kek_len ptk) (tk_len ptk);
     new_tk \<leftarrow> wrn (tk ptk) 0 x;
     x \<leftarrow> rdn tmp (kck_len ptk + kek_len ptk + tk_len ptk) (kdk_len ptk);
     new_kdk \<leftarrow> wrn (kdk ptk) 0 x;
     Some (ptk\<lparr>kck := new_kck, kek := new_kek, tk := new_tk, kdk := new_kdk, kek2_len := 0, kck2_len := 0\<rparr>) }"

text \<open>The result is whether the code returns 0, and the structure. The PMK is the list of its
  octets in use, the optional \<open>z\<close> the list of its octets, empty for none.\<close>

definition wpa_pmk_to_ptk ::
  "'z wpa_crypto_scheme \<Rightarrow> bytes \<Rightarrow> bytes \<Rightarrow> bytes \<Rightarrow> bytes \<Rightarrow> bytes \<Rightarrow> bytes \<Rightarrow> wpa_ptk \<Rightarrow> u32 \<Rightarrow> u32 \<Rightarrow> bytes \<Rightarrow>
   nat \<Rightarrow> (bool \<times> wpa_ptk) option" where
  "wpa_pmk_to_ptk C k label addr1 addr2 nonce1 nonce2 ptk akmp cipher z kdklen =
     (if k = [] then Some (False, ptk)
      else if length z > MAX_Z_LEN then Some (False, ptk)
      else if kdklen > WPA_KDK_MAX_LEN then Some (False, ptk)
      else
        let data = ptk_data addr1 addr2 nonce1 nonce2 z;
            ptk = ptk\<lparr>kck_len := wpa_kck_len akmp (length k), kek_len := wpa_kek_len akmp (length k),
                      tk_len := wpa_cipher_key_len cipher, kdk_len := kdklen\<rparr>
        in if tk_len ptk = 0 then Some (False, ptk)
           else do {
             let ptk_len = kck_len ptk + kek_len ptk + tk_len ptk + kdk_len ptk;
             let tmp = replicate (WPA_KCK_MAX_LEN + WPA_KEK_MAX_LEN + WPA_TK_MAX_LEN + WPA_KDK_MAX_LEN) 0;
             r \<leftarrow> ptk_prf C akmp k label data tmp ptk_len;
             case r of None \<Rightarrow> Some (False, ptk)
             | Some tmp \<Rightarrow> map_option (Pair True) (ptk_fill tmp ptk) })"

section \<open>Both ends derive the same key\<close>

lemma os_memcmp_swap: "length a = length b \<Longrightarrow> os_memcmp b a = - os_memcmp a b"
  by (induction a b rule: os_memcmp.induct) (auto simp: word_less_nat_alt)

lemma lower_first_commute:
  assumes "length a = length b"
  shows "(if os_memcmp a b < 0 then a @ b else b @ a) = (if os_memcmp b a < 0 then b @ a else a @ b)"
  using os_memcmp_swap [OF assms] os_memcmp_eq_0 [OF assms] by (cases "os_memcmp a b = 0") auto

lemma ptk_data_commute:
  assumes "length a1 = length a2" "length n1 = length n2"
  shows "ptk_data a1 a2 n1 n2 z = ptk_data a2 a1 n2 n1 z"
  unfolding ptk_data_def lower_first_commute [OF assms(1)] lower_first_commute [OF assms(2)] ..

definition ptk_wf :: "wpa_ptk \<Rightarrow> bool" where
  "ptk_wf p \<longleftrightarrow>
     length (kck p) = WPA_KCK_MAX_LEN \<and> length (kek p) = WPA_KEK_MAX_LEN \<and> length (tk p) = WPA_TK_MAX_LEN \<and>
     length (kdk p) = WPA_KDK_MAX_LEN \<and>
     kck_len p \<le> WPA_KCK_MAX_LEN \<and> kek_len p \<le> WPA_KEK_MAX_LEN \<and> tk_len p \<le> WPA_TK_MAX_LEN \<and>
     kdk_len p \<le> WPA_KDK_MAX_LEN"

lemma zero_ptk_wf [simp]: "ptk_wf zero_ptk"
  by (simp add: ptk_wf_def zero_ptk_def)

text \<open>The octets of a PTK in the order in which the derivation function produces them.\<close>

definition ptk_octets :: "wpa_ptk \<Rightarrow> bytes" where
  "ptk_octets p = take (kck_len p) (kck p) @ take (kek_len p) (kek p) @ take (tk_len p) (tk p) @ take (kdk_len p) (kdk p)"

lemma wpa_cipher_key_len_cases: "wpa_cipher_key_len c \<in> {0, 16, 32}"
  by (simp add: wpa_cipher_key_len_def)

lemma wpa_key_lens_bound:
  assumes "n \<le> PMK_LEN_MAX"
  shows "wpa_kck_len akmp n \<le> WPA_KCK_MAX_LEN" "wpa_kek_len akmp n \<le> WPA_KEK_MAX_LEN"
  using assms by (auto simp: wpa_kck_len_def wpa_kek_len_def wpa_len_defs PMK_LEN_MAX_def)

lemma wpa_cipher_key_len_bound [simp]: "wpa_cipher_key_len c \<le> WPA_TK_MAX_LEN"
  by (simp add: wpa_cipher_key_len_def WPA_TK_MAX_LEN_def)

lemma ptk_fill_returns:
  assumes "ptk_wf p" "kck_len p + kek_len p + tk_len p + kdk_len p \<le> length tmp"
  shows "returns (\<lambda>q. ptk_wf q \<and> installed q = installed p \<and>
           kck_len q = kck_len p \<and> kek_len q = kek_len p \<and> tk_len q = tk_len p \<and> kdk_len q = kdk_len p \<and>
           ptk_octets q = take (kck_len p + kek_len p + tk_len p + kdk_len p) tmp) (ptk_fill tmp p)"
proof -
  define a b c d where "a = kck_len p" and "b = kek_len p" and "c = tk_len p" and "d = kdk_len p"
  have le: "a + b + c + d \<le> length tmp" using assms(2) by (simp add: a_def b_def c_def d_def)
  define x y z w where "x = take a tmp" and "y = take b (drop a tmp)" and "z = take c (drop (a + b) tmp)"
    and "w = take d (drop (a + b + c) tmp)"
  have l: "length x = a" "length y = b" "length z = c" "length w = d"
    using le by (simp_all add: x_def y_def z_def w_def)
  have "take (a + b + c + d) tmp = x @ y @ z @ w"
    by (simp add: x_def y_def z_def w_def take_add)
  moreover have "ptk_fill tmp p = Some (p\<lparr>kck := x @ drop a (kck p), kek := y @ drop b (kek p), tk := z @ drop c (tk p),
      kdk := w @ drop d (kdk p), kek2_len := 0, kck2_len := 0\<rparr>)"
    using le l assms(1) unfolding ptk_fill_def
    by (simp add: rdn_def wrn_def ptk_wf_def x_def [symmetric] y_def [symmetric] z_def [symmetric] w_def [symmetric]
        flip: a_def b_def c_def d_def)
  ultimately show ?thesis using l assms(1)
    by (simp add: ptk_wf_def ptk_octets_def flip: a_def b_def c_def d_def)
qed

lemma ptk_prf_returns:
  assumes "wpa_crypto_ok C" "n \<le> length tmp"
  shows "returns (\<lambda>r. (r = None \<longleftrightarrow> wpa_key_mgmt_sae_ext_key akmp \<and> \<not> wpa_key_mgmt_sha384 akmp \<and>
             \<not> wpa_key_mgmt_sha256 akmp \<and> length k \<notin> {32, 48, 64}) \<and>
           (\<forall>t. r = Some t \<longrightarrow> length t = length tmp)) (ptk_prf C akmp k label data tmp n)"
proof -
  have "length (the (hmac_sha1 C k d)) = SHA1_MAC_LEN" for d
    using assms(1) hash_the [of SHA1_MAC_LEN "hmac_sha1 C k d"]
    by (simp add: wpa_crypto_ok_def crypto_ok_def SHA1_MAC_LEN_def)
  then have "returns (returns (\<lambda>b. length b = length tmp)) (sha1_prf C k label data tmp n)"
    using assms sha1_prf_eq [of C n tmp k label data]
      stream_out_length [of "\<lambda>i. the (hmac_sha1 C k (label @ [0] @ data @ [of_nat i]))" SHA1_MAC_LEN 0 n]
    by (simp add: wpa_crypto_ok_def SHA1_MAC_LEN_def)
  moreover have "returns (returns (\<lambda>b. length b = length tmp)) (sha256_prf C k label data tmp n)"
    "returns (returns (\<lambda>b. length b = length tmp)) (sha384_prf C k label data tmp n)"
    "returns (returns (\<lambda>b. length b = length tmp)) (sha512_prf C k label data tmp n)"
    using assms unfolding sha256_prf_def sha256_prf_bits_def sha384_prf_def sha384_prf_bits_def
      sha512_prf_def sha512_prf_bits_def
    by (intro sha_prf_length; simp add: wpa_crypto_ok_def crypto_ok_def mac_len_defs)+
  ultimately show ?thesis unfolding ptk_prf_def returns_iff by auto
qed

text \<open>C28. The derivation of the PTK never leaves a buffer and succeeds exactly for a PMK, a
  cipher and an AKM it supports; the KCK, the KEK, the TK and the KDK are then consecutive
  pieces of the output of the derivation function, inside their arrays, and whether the key
  is installed does not change. The two ends of the handshake, which pass the addresses and
  the nonces in opposite order, derive the same key.\<close>

theorem wpa_ptk_derivation:
  assumes "wpa_crypto_ok C" "ptk_wf p" "length k \<le> PMK_LEN_MAX"
    and "length a1 = ETH_ALEN" "length a2 = ETH_ALEN" "length n1 = WPA_NONCE_LEN" "length n2 = WPA_NONCE_LEN"
  shows "returns (\<lambda>(ok, q). ptk_wf q \<and> installed q = installed p \<and>
      (ok \<longleftrightarrow> k \<noteq> [] \<and> length z \<le> MAX_Z_LEN \<and> kdklen \<le> WPA_KDK_MAX_LEN \<and> wpa_cipher_key_len cipher \<noteq> 0 \<and>
        \<not> (wpa_key_mgmt_sae_ext_key akmp \<and> \<not> wpa_key_mgmt_sha384 akmp \<and> \<not> wpa_key_mgmt_sha256 akmp \<and>
           length k \<notin> {32, 48, 64})) \<and>
      (ok \<longrightarrow> kck_len q = wpa_kck_len akmp (length k) \<and> kek_len q = wpa_kek_len akmp (length k) \<and>
        tk_len q = wpa_cipher_key_len cipher \<and> kdk_len q = kdklen \<and>
        returns (returns (\<lambda>t. ptk_octets q = take (kck_len q + kek_len q + tk_len q + kdk_len q) t))
          (ptk_prf C akmp k label (ptk_data a1 a2 n1 n2 z) (replicate 160 0)
             (kck_len q + kek_len q + tk_len q + kdk_len q))))
      (wpa_pmk_to_ptk C k label a1 a2 n1 n2 p akmp cipher z kdklen) \<and>
    wpa_pmk_to_ptk C k label a2 a1 n2 n1 p akmp cipher z kdklen =
      wpa_pmk_to_ptk C k label a1 a2 n1 n2 p akmp cipher z kdklen"
  (is "returns ?P ?d \<and> _")
proof
  define q where "q = p\<lparr>kck_len := wpa_kck_len akmp (length k), kek_len := wpa_kek_len akmp (length k),
      tk_len := wpa_cipher_key_len cipher, kdk_len := kdklen\<rparr>"
  define n where "n = kck_len q + kek_len q + tk_len q + kdk_len q"
  show "returns ?P ?d"
  proof (cases "k \<noteq> [] \<and> length z \<le> MAX_Z_LEN \<and> kdklen \<le> WPA_KDK_MAX_LEN")
    case False
    then show ?thesis using assms(2) by (auto simp: wpa_pmk_to_ptk_def)
  next
    case True
    have q: "ptk_wf q" "installed q = installed p" "tk_len q = wpa_cipher_key_len cipher"
      using assms(2) wpa_key_lens_bound [OF assms(3), where akmp = akmp] True
      by (simp_all add: q_def ptk_wf_def)
    then have n: "n \<le> 160" by (simp add: n_def ptk_wf_def wpa_len_defs)
    show ?thesis
    proof (cases "tk_len q = 0")
      case tk0: True
      then show ?thesis using True q by (simp add: wpa_pmk_to_ptk_def Let_def q_def)
    next
      case tk: False
      have d: "?d = ptk_prf C akmp k label (ptk_data a1 a2 n1 n2 z) (replicate 160 0) n \<bind>
          (\<lambda>r. case r of None \<Rightarrow> Some (False, q) | Some t \<Rightarrow> map_option (Pair True) (ptk_fill t q))"
        using True tk by (simp add: wpa_pmk_to_ptk_def Let_def n_def wpa_len_defs flip: q_def)
      obtain r where r: "ptk_prf C akmp k label (ptk_data a1 a2 n1 n2 z) (replicate 160 0) n = Some r"
        "r = None \<longleftrightarrow> wpa_key_mgmt_sae_ext_key akmp \<and> \<not> wpa_key_mgmt_sha384 akmp \<and> \<not> wpa_key_mgmt_sha256 akmp \<and>
           length k \<notin> {32, 48, 64}" "\<And>t. r = Some t \<Longrightarrow> length t = 160"
        using ptk_prf_returns [OF assms(1), of n "replicate 160 0" akmp k label "ptk_data a1 a2 n1 n2 z"] n
        unfolding returns_iff by auto
      show ?thesis
      proof (cases r)
        case None
        then show ?thesis using r tk True q unfolding d by simp
      next
        case (Some t)
        have "returns (\<lambda>q'. ptk_wf q' \<and> installed q' = installed q \<and> kck_len q' = kck_len q \<and> kek_len q' = kek_len q \<and>
            tk_len q' = tk_len q \<and> kdk_len q' = kdk_len q \<and> ptk_octets q' = take n t) (ptk_fill t q)"
          using ptk_fill_returns [OF q(1), of t] r(3) [OF Some] n by (simp add: n_def)
        then show ?thesis using r Some True tk q unfolding d returns_map_option
          by (auto simp: returns_iff q_def n_def)
      qed
    qed
  qed
  show "wpa_pmk_to_ptk C k label a2 a1 n2 n1 p akmp cipher z kdklen = ?d"
    using ptk_data_commute [of a1 a2 n1 n2 z] assms(4-7) by (simp add: wpa_pmk_to_ptk_def)
qed

theorem wpa_ptk_derivation_witness:
  "wpa_crypto_ok toy_crypto \<and>
   returns (\<lambda>(ok, q). ok \<and> tk_len q = 16 \<and> kck_len q = 16)
     (wpa_pmk_to_ptk toy_crypto (replicate 32 7) [] (replicate 6 1) (replicate 6 2) (replicate 32 3) (replicate 32 4)
        zero_ptk WPA_KEY_MGMT_PSK WPA_CIPHER_CCMP [] 0) \<and>
   wpa_pmk_to_ptk toy_crypto (replicate 32 7) [] (replicate 6 2) (replicate 6 1) (replicate 32 4) (replicate 32 3)
        zero_ptk WPA_KEY_MGMT_PSK WPA_CIPHER_CCMP [] 0 =
     wpa_pmk_to_ptk toy_crypto (replicate 32 7) [] (replicate 6 1) (replicate 6 2) (replicate 32 3) (replicate 32 4)
        zero_ptk WPA_KEY_MGMT_PSK WPA_CIPHER_CCMP [] 0"
proof -
  note t = wpa_ptk_derivation [OF toy_crypto_ok zero_ptk_wf, of "replicate 32 7" "replicate 6 1" "replicate 6 2"
      "replicate 32 3" "replicate 32 4" "[]" 0 WPA_CIPHER_CCMP WPA_KEY_MGMT_PSK "[]"]
  show ?thesis using t toy_crypto_ok unfolding returns_iff
    by (auto simp: wpa_len_defs PMK_LEN_MAX_def ETH_ALEN_def MAX_Z_LEN_def wpa_cipher_key_len_def cipher_defs
        wpa_kck_len_def akm_defs wpa_key_mgmt_sae_ext_key_def)
qed

end
