(* ===== verification/Wpa_kde.thy ===== *)
theory Wpa_kde
  imports Wpa_common
begin

text \<open>
  The parser of the key data of EAPOL-Key frames, \<open>wpa_parse_kde_ies()\<close> of
  \<open>src/common/wpa_common.c\<close>. The structure \<open>wpa_eapol_ie_parse\<close> holds pointers into the key
  data: the model keeps a pointer with a length as a slice, the offset in the key data and the
  length, and a pointer without a length as its offset.

  The key data are the octets of the list and nothing more: a read at or behind the end is a
  read out of bounds and makes the parser return \<^const>\<open>None\<close>.
\<close>

section \<open>Data\<close>

type_synonym slice = "nat \<times> nat"

definition size_sub :: "size_t \<Rightarrow> size_t \<Rightarrow> size_t" where
  "size_sub a b = (a + 4294967296 - b) mod 4294967296"

definition WLAN_EID_SUPP_RATES :: u8 where "WLAN_EID_SUPP_RATES = 1"
definition WLAN_EID_SUPPORTED_CHANNELS :: u8 where "WLAN_EID_SUPPORTED_CHANNELS = 36"
definition WLAN_EID_HT_CAP :: u8 where "WLAN_EID_HT_CAP = 45"
definition WLAN_EID_QOS :: u8 where "WLAN_EID_QOS = 46"
definition WLAN_EID_RSN :: u8 where "WLAN_EID_RSN = 48"
definition WLAN_EID_EXT_SUPP_RATES :: u8 where "WLAN_EID_EXT_SUPP_RATES = 50"
definition WLAN_EID_MOBILITY_DOMAIN :: u8 where "WLAN_EID_MOBILITY_DOMAIN = 54"
definition WLAN_EID_FAST_BSS_TRANSITION :: u8 where "WLAN_EID_FAST_BSS_TRANSITION = 55"
definition WLAN_EID_TIMEOUT_INTERVAL :: u8 where "WLAN_EID_TIMEOUT_INTERVAL = 56"
definition WLAN_EID_SUPPORTED_OPERATING_CLASSES :: u8 where "WLAN_EID_SUPPORTED_OPERATING_CLASSES = 59"
definition WLAN_EID_LINK_ID :: u8 where "WLAN_EID_LINK_ID = 101"
definition WLAN_EID_EXT_CAPAB :: u8 where "WLAN_EID_EXT_CAPAB = 127"
definition WLAN_EID_VHT_CAP :: u8 where "WLAN_EID_VHT_CAP = 191"
definition WLAN_EID_VHT_AID :: u8 where "WLAN_EID_VHT_AID = 197"
definition WLAN_EID_VENDOR_SPECIFIC :: u8 where "WLAN_EID_VENDOR_SPECIFIC = 221"
definition WLAN_EID_RSNX :: u8 where "WLAN_EID_RSNX = 244"
definition WLAN_EID_EXTENSION :: u8 where "WLAN_EID_EXTENSION = 255"
definition WLAN_EID_EXT_HE_CAPABILITIES :: u8 where "WLAN_EID_EXT_HE_CAPABILITIES = 35"
definition WLAN_EID_EXT_HE_6GHZ_BAND_CAP :: u8 where "WLAN_EID_EXT_HE_6GHZ_BAND_CAP = 59"
definition WLAN_TIMEOUT_REASSOC_DEADLINE :: u8 where "WLAN_TIMEOUT_REASSOC_DEADLINE = 1"
definition WLAN_TIMEOUT_KEY_LIFETIME :: u8 where "WLAN_TIMEOUT_KEY_LIFETIME = 2"
definition WMM_OUI_TYPE :: u8 where "WMM_OUI_TYPE = 2"
definition WMM_OUI_SUBTYPE_INFORMATION_ELEMENT :: u8 where "WMM_OUI_SUBTYPE_INFORMATION_ELEMENT = 0"
definition WMM_OUI_SUBTYPE_PARAMETER_ELEMENT :: u8 where "WMM_OUI_SUBTYPE_PARAMETER_ELEMENT = 1"
definition OUI_MICROSOFT :: u32 where "OUI_MICROSOFT = 0x0050f2"
definition OUI_WFA :: u32 where "OUI_WFA = 0x506f9a"
definition OSEN_IE_VENDOR_TYPE :: u32 where "OSEN_IE_VENDOR_TYPE = 0x506f9a12"
definition RSNE_OVERRIDE_IE_VENDOR_TYPE :: u32 where "RSNE_OVERRIDE_IE_VENDOR_TYPE = 0x506f9a29"
definition RSNE_OVERRIDE_2_IE_VENDOR_TYPE :: u32 where "RSNE_OVERRIDE_2_IE_VENDOR_TYPE = 0x506f9a2a"
definition RSNXE_OVERRIDE_IE_VENDOR_TYPE :: u32 where "RSNXE_OVERRIDE_IE_VENDOR_TYPE = 0x506f9a2b"
definition RSN_SELECTION_IE_VENDOR_TYPE :: u32 where "RSN_SELECTION_IE_VENDOR_TYPE = 0x506f9a2c"

lemmas eid_defs = WLAN_EID_SUPP_RATES_def WLAN_EID_SUPPORTED_CHANNELS_def WLAN_EID_HT_CAP_def
  WLAN_EID_QOS_def WLAN_EID_RSN_def WLAN_EID_EXT_SUPP_RATES_def WLAN_EID_MOBILITY_DOMAIN_def
  WLAN_EID_FAST_BSS_TRANSITION_def WLAN_EID_TIMEOUT_INTERVAL_def
  WLAN_EID_SUPPORTED_OPERATING_CLASSES_def WLAN_EID_LINK_ID_def WLAN_EID_EXT_CAPAB_def
  WLAN_EID_VHT_CAP_def WLAN_EID_VHT_AID_def WLAN_EID_VENDOR_SPECIFIC_def WLAN_EID_RSNX_def
  WLAN_EID_EXTENSION_def WLAN_EID_EXT_HE_CAPABILITIES_def WLAN_EID_EXT_HE_6GHZ_BAND_CAP_def
  WLAN_TIMEOUT_REASSOC_DEADLINE_def WLAN_TIMEOUT_KEY_LIFETIME_def WMM_OUI_TYPE_def
  WMM_OUI_SUBTYPE_INFORMATION_ELEMENT_def WMM_OUI_SUBTYPE_PARAMETER_ELEMENT_def

lemmas vendor_defs = OUI_MICROSOFT_def OUI_WFA_def OSEN_IE_VENDOR_TYPE_def
  RSNE_OVERRIDE_IE_VENDOR_TYPE_def RSNE_OVERRIDE_2_IE_VENDOR_TYPE_def RSNXE_OVERRIDE_IE_VENDOR_TYPE_def
  RSN_SELECTION_IE_VENDOR_TYPE_def

record wpa_eapol_ie_parse =
  ie_wpa_ie :: "slice option"
  ie_rsn_ie :: "slice option"
  ie_pmkid :: "nat option"
  ie_key_id :: "nat option"
  ie_gtk :: "slice option"
  ie_mac_addr :: "slice option"
  ie_igtk :: "slice option"
  ie_bigtk :: "slice option"
  ie_mdie :: "slice option"
  ie_ftie :: "slice option"
  ie_ip_addr_req :: "nat option"
  ie_ip_addr_alloc :: "nat option"
  ie_transition_disable :: "slice option"
  ie_dpp_kde :: "slice option"
  ie_oci :: "slice option"
  ie_osen :: "slice option"
  ie_rsnxe :: "slice option"
  ie_reassoc_deadline :: "nat option"
  ie_key_lifetime :: "nat option"
  ie_lnkid :: "slice option"
  ie_ext_capab :: "slice option"
  ie_supp_rates :: "slice option"
  ie_ext_supp_rates :: "slice option"
  ie_ht_capabilities :: "nat option"
  ie_vht_capabilities :: "nat option"
  ie_he_capabilities :: "slice option"
  ie_he_6ghz_capabilities :: "nat option"
  ie_supp_channels :: "slice option"
  ie_supp_oper_classes :: "slice option"
  ie_qosinfo :: u8
  ie_aid :: u16
  ie_wmm :: "slice option"
  ie_rsn_selection :: "slice option"
  ie_rsne_override :: "slice option"
  ie_rsne_override_2 :: "slice option"
  ie_rsnxe_override :: "slice option"

definition ie_zero :: wpa_eapol_ie_parse where
  "ie_zero = \<lparr>ie_wpa_ie = None, ie_rsn_ie = None,
     ie_pmkid = None, ie_key_id = None, ie_gtk = None, ie_mac_addr = None, ie_igtk = None, ie_bigtk = None, ie_mdie
     = None, ie_ftie = None, ie_ip_addr_req = None, ie_ip_addr_alloc = None, ie_transition_disable = None,
     ie_dpp_kde = None, ie_oci = None, ie_osen = None, ie_rsnxe = None, ie_reassoc_deadline = None, ie_key_lifetime
     = None, ie_lnkid = None, ie_ext_capab = None, ie_supp_rates = None, ie_ext_supp_rates = None,
     ie_ht_capabilities = None, ie_vht_capabilities = None, ie_he_capabilities = None, ie_he_6ghz_capabilities =
     None, ie_supp_channels = None, ie_supp_oper_classes = None, ie_qosinfo = 0, ie_aid = 0, ie_wmm = None,
     ie_rsn_selection = None, ie_rsne_override = None, ie_rsne_override_2 = None, ie_rsnxe_override = None\<rparr>"

section \<open>Vendor-specific elements\<close>

definition wpa_parse_vendor_specific :: "bytes \<Rightarrow> nat \<Rightarrow> wpa_eapol_ie_parse \<Rightarrow> wpa_eapol_ie_parse option" where
  "wpa_parse_vendor_specific buf pos ie = do {
     l \<leftarrow> rd8 buf (pos + 1);
     if l < 4 then Some ie
     else do {
       oui \<leftarrow> WPA_GET_BE24 buf (pos + 2);
       ty \<leftarrow> rd8 buf (pos + 5);
       if oui = OUI_MICROSOFT \<and> ty = WMM_OUI_TYPE \<and> l > 4 then do {
         sub \<leftarrow> rd8 buf (pos + 6);
         if sub = WMM_OUI_SUBTYPE_INFORMATION_ELEMENT \<or> sub = WMM_OUI_SUBTYPE_PARAMETER_ELEMENT
         then Some (ie\<lparr>ie_wmm := Some (pos + 2, unat l)\<rparr>)
         else Some ie }
       else Some ie } }"

text \<open>The result is the value the code returns, 0, 1 or 2, and the structure. The tests of the
  code read the selector only when their length condition holds, except the last four: for
  every element with data it is read.\<close>

definition wpa_ie_version :: "bytes \<Rightarrow> nat \<Rightarrow> u8 \<Rightarrow> u32 \<Rightarrow> bool option" where
  "wpa_ie_version buf pos l sel =
     (if l \<ge> 6 \<and> sel = WPA_OUI_TYPE then do {
        a \<leftarrow> rd8 buf (pos + 6);
        b \<leftarrow> rd8 buf (pos + 7);
        Some (a = 1 \<and> b = 0) }
      else Some False)"

definition wpa_parse_generic :: "bytes \<Rightarrow> nat \<Rightarrow> wpa_eapol_ie_parse \<Rightarrow> (nat \<times> wpa_eapol_ie_parse) option" where
  "wpa_parse_generic buf pos ie = do {
     l \<leftarrow> rd8 buf (pos + 1);
     if l = 0 then Some (1, ie)
     else do {
       sel \<leftarrow> WPA_GET_BE32 buf (pos + 2);
       wpa1 \<leftarrow> wpa_ie_version buf pos l sel;
       let whole = (pos, unat l + 2);
       let data = (pos + 6, unat l - 4);
       if wpa1 then Some (0, ie\<lparr>ie_wpa_ie := Some whole\<rparr>)
       else if l \<ge> 4 \<and> sel = OSEN_IE_VENDOR_TYPE then Some (0, ie\<lparr>ie_osen := Some whole\<rparr>)
       else if l \<ge> 20 \<and> sel = RSN_KEY_DATA_PMKID then Some (0, ie\<lparr>ie_pmkid := Some (pos + 6)\<rparr>)
       else if l \<ge> 6 \<and> sel = RSN_KEY_DATA_KEYID then Some (0, ie\<lparr>ie_key_id := Some (pos + 6)\<rparr>)
       else if l > 6 \<and> sel = RSN_KEY_DATA_GROUPKEY then Some (0, ie\<lparr>ie_gtk := Some data\<rparr>)
       else if l > 6 \<and> sel = RSN_KEY_DATA_MAC_ADDR then Some (0, ie\<lparr>ie_mac_addr := Some data\<rparr>)
       else if l > 6 \<and> sel = RSN_KEY_DATA_IGTK then Some (0, ie\<lparr>ie_igtk := Some data\<rparr>)
       else if l > 6 \<and> sel = RSN_KEY_DATA_BIGTK then Some (0, ie\<lparr>ie_bigtk := Some data\<rparr>)
       else if l \<ge> 5 \<and> sel = WFA_KEY_DATA_IP_ADDR_REQ then Some (0, ie\<lparr>ie_ip_addr_req := Some (pos + 6)\<rparr>)
       else if l \<ge> 16 \<and> sel = WFA_KEY_DATA_IP_ADDR_ALLOC then Some (0, ie\<lparr>ie_ip_addr_alloc := Some (pos + 6)\<rparr>)
       else if l > 6 \<and> sel = RSN_KEY_DATA_OCI then Some (0, ie\<lparr>ie_oci := Some data\<rparr>)
       else if l \<ge> 5 \<and> sel = WFA_KEY_DATA_TRANSITION_DISABLE then Some (0, ie\<lparr>ie_transition_disable := Some data\<rparr>)
       else if l \<ge> 6 \<and> sel = WFA_KEY_DATA_DPP then Some (0, ie\<lparr>ie_dpp_kde := Some data\<rparr>)
       else if sel = RSNE_OVERRIDE_IE_VENDOR_TYPE then Some (0, ie\<lparr>ie_rsne_override := Some whole\<rparr>)
       else if sel = RSNE_OVERRIDE_2_IE_VENDOR_TYPE then Some (0, ie\<lparr>ie_rsne_override_2 := Some whole\<rparr>)
       else if sel = RSNXE_OVERRIDE_IE_VENDOR_TYPE then Some (0, ie\<lparr>ie_rsnxe_override := Some whole\<rparr>)
       else if sel = RSN_SELECTION_IE_VENDOR_TYPE
       then Some (0, ie\<lparr>ie_rsn_selection := Some (pos + 6, size_sub (unat l) 4)\<rparr>)
       else Some (2, ie) } }"

section \<open>The elements of the key data\<close>

text \<open>One iteration of the loop for an element with the identifier \<open>i\<close> and the length \<open>l\<close> at
  \<open>pos\<close> that is complete; the Boolean of the result says whether the loop goes on.\<close>

definition kde_element :: "bytes \<Rightarrow> nat \<Rightarrow> u8 \<Rightarrow> u8 \<Rightarrow> wpa_eapol_ie_parse \<Rightarrow> (bool \<times> wpa_eapol_ie_parse) option" where
  "kde_element buf pos i l ie =
     (let whole = (pos, unat l + 2)
      in if i = WLAN_EID_RSN then Some (True, ie\<lparr>ie_rsn_ie := Some whole\<rparr>)
         else if i = WLAN_EID_RSNX then Some (True, ie\<lparr>ie_rsnxe := Some whole\<rparr>)
         else if i = WLAN_EID_MOBILITY_DOMAIN then Some (True, ie\<lparr>ie_mdie := Some whole\<rparr>)
         else if i = WLAN_EID_FAST_BSS_TRANSITION then Some (True, ie\<lparr>ie_ftie := Some whole\<rparr>)
         else if i = WLAN_EID_TIMEOUT_INTERVAL \<and> l \<ge> 5 then do {
           t \<leftarrow> rd8 buf (pos + 2);
           if t = WLAN_TIMEOUT_REASSOC_DEADLINE then Some (True, ie\<lparr>ie_reassoc_deadline := Some pos\<rparr>)
           else if t = WLAN_TIMEOUT_KEY_LIFETIME then Some (True, ie\<lparr>ie_key_lifetime := Some pos\<rparr>)
           else Some (True, ie) }
         else if i = WLAN_EID_LINK_ID then Some (True, if l \<ge> 18 then ie\<lparr>ie_lnkid := Some whole\<rparr> else ie)
         else if i = WLAN_EID_EXT_CAPAB then Some (True, ie\<lparr>ie_ext_capab := Some whole\<rparr>)
         else if i = WLAN_EID_SUPP_RATES then Some (True, ie\<lparr>ie_supp_rates := Some whole\<rparr>)
         else if i = WLAN_EID_EXT_SUPP_RATES then Some (True, ie\<lparr>ie_ext_supp_rates := Some whole\<rparr>)
         else if i = WLAN_EID_HT_CAP \<and> l \<ge> 26 then Some (True, ie\<lparr>ie_ht_capabilities := Some (pos + 2)\<rparr>)
         else if i = WLAN_EID_VHT_AID then
           if l \<ge> 2 then do { v \<leftarrow> WPA_GET_LE16 buf (pos + 2); Some (True, ie\<lparr>ie_aid := v AND 0x3fff\<rparr>) }
           else Some (True, ie)
         else if i = WLAN_EID_VHT_CAP \<and> l \<ge> 12 then Some (True, ie\<lparr>ie_vht_capabilities := Some (pos + 2)\<rparr>)
         else if i = WLAN_EID_EXTENSION \<and> l \<ge> 3 then do {
           x \<leftarrow> rd8 buf (pos + 2);
           if l \<ge> 18 \<and> x = WLAN_EID_EXT_HE_CAPABILITIES
           then Some (True, ie\<lparr>ie_he_capabilities := Some (pos + 3, unat l - 1)\<rparr>)
           else if x = WLAN_EID_EXT_HE_6GHZ_BAND_CAP
           then Some (True, ie\<lparr>ie_he_6ghz_capabilities := Some (pos + 3)\<rparr>)
           else Some (True, ie) }
         else if i = WLAN_EID_QOS \<and> l \<ge> 1 then do { v \<leftarrow> rd8 buf (pos + 2); Some (True, ie\<lparr>ie_qosinfo := v\<rparr>) }
         else if i = WLAN_EID_SUPPORTED_CHANNELS then Some (True, ie\<lparr>ie_supp_channels := Some (pos + 2, unat l)\<rparr>)
         else if i = WLAN_EID_SUPPORTED_OPERATING_CLASSES then
           Some (True, if l \<ge> 2 \<and> l \<le> 253 then ie\<lparr>ie_supp_oper_classes := Some (pos + 2, unat l)\<rparr> else ie)
         else if i = WLAN_EID_VENDOR_SPECIFIC then do {
           (ret, ie) \<leftarrow> wpa_parse_generic buf pos ie;
           if ret = 1 then Some (False, ie)
           else if ret = 2 then do { ie \<leftarrow> wpa_parse_vendor_specific buf pos ie; Some (True, ie) }
           else Some (True, ie) }
         else Some (True, ie))"

function kde_loop :: "bytes \<Rightarrow> nat \<Rightarrow> wpa_eapol_ie_parse \<Rightarrow> (bool \<times> wpa_eapol_ie_parse) option" where
  "kde_loop buf pos ie =
     (if length buf > pos + 1 then do {
        i \<leftarrow> rd8 buf pos;
        l \<leftarrow> rd8 buf (pos + 1);
        if i = 0xdd \<and> (Suc pos = length buf \<or> l = 0) then Some (True, ie)
        else if 2 + unat l > length buf - pos then Some (False, ie)
        else do {
          (m, ie) \<leftarrow> kde_element buf pos i l ie;
          if m then kde_loop buf (pos + 2 + unat l) ie else Some (True, ie) } }
      else Some (True, ie))"
  by pat_completeness auto
termination
  by (relation "measure (\<lambda>(buf, pos, ie). length buf - pos)") auto

declare kde_loop.simps [simp del]

text \<open>The Boolean of the result is whether the code returns 0.\<close>

definition wpa_parse_kde_ies :: "bytes \<Rightarrow> (bool \<times> wpa_eapol_ie_parse) option" where
  "wpa_parse_kde_ies buf = kde_loop buf 0 ie_zero"

definition wpa_supplicant_parse_ies :: "bytes \<Rightarrow> (bool \<times> wpa_eapol_ie_parse) option" where
  "wpa_supplicant_parse_ies buf = wpa_parse_kde_ies buf"

section \<open>Where the parser stays inside the key data\<close>

text \<open>The parsed positions stay in the key data: every slice of the structure, with the octets
  the tests of the parser guarantee behind a pointer without a length.\<close>

definition slice_in :: "bytes \<Rightarrow> slice \<Rightarrow> bool" where
  "slice_in buf x \<longleftrightarrow> fst x + snd x \<le> length buf"

definition ie_ok :: "bytes \<Rightarrow> wpa_eapol_ie_parse \<Rightarrow> bool" where
  "ie_ok buf ie \<longleftrightarrow>
     pred_option (slice_in buf) (ie_wpa_ie ie) \<and>
     pred_option (slice_in buf) (ie_rsn_ie ie) \<and>
     pred_option (\<lambda>p. slice_in buf (p, 16)) (ie_pmkid ie) \<and>
     pred_option (\<lambda>p. slice_in buf (p, 2)) (ie_key_id ie) \<and>
     pred_option (slice_in buf) (ie_gtk ie) \<and>
     pred_option (slice_in buf) (ie_mac_addr ie) \<and>
     pred_option (slice_in buf) (ie_igtk ie) \<and>
     pred_option (slice_in buf) (ie_bigtk ie) \<and>
     pred_option (slice_in buf) (ie_mdie ie) \<and>
     pred_option (slice_in buf) (ie_ftie ie) \<and>
     pred_option (\<lambda>p. slice_in buf (p, 1)) (ie_ip_addr_req ie) \<and>
     pred_option (\<lambda>p. slice_in buf (p, 12)) (ie_ip_addr_alloc ie) \<and>
     pred_option (slice_in buf) (ie_transition_disable ie) \<and>
     pred_option (slice_in buf) (ie_dpp_kde ie) \<and>
     pred_option (slice_in buf) (ie_oci ie) \<and>
     pred_option (slice_in buf) (ie_osen ie) \<and>
     pred_option (slice_in buf) (ie_rsnxe ie) \<and>
     pred_option (\<lambda>p. slice_in buf (p, 7)) (ie_reassoc_deadline ie) \<and>
     pred_option (\<lambda>p. slice_in buf (p, 7)) (ie_key_lifetime ie) \<and>
     pred_option (slice_in buf) (ie_lnkid ie) \<and>
     pred_option (slice_in buf) (ie_ext_capab ie) \<and>
     pred_option (slice_in buf) (ie_supp_rates ie) \<and>
     pred_option (slice_in buf) (ie_ext_supp_rates ie) \<and>
     pred_option (\<lambda>p. slice_in buf (p, 26)) (ie_ht_capabilities ie) \<and>
     pred_option (\<lambda>p. slice_in buf (p, 12)) (ie_vht_capabilities ie) \<and>
     pred_option (slice_in buf) (ie_he_capabilities ie) \<and>
     pred_option (\<lambda>p. slice_in buf (p, 2)) (ie_he_6ghz_capabilities ie) \<and>
     pred_option (slice_in buf) (ie_supp_channels ie) \<and>
     pred_option (slice_in buf) (ie_supp_oper_classes ie) \<and>
     pred_option (slice_in buf) (ie_wmm ie) \<and>
     pred_option (slice_in buf) (ie_rsn_selection ie) \<and>
     pred_option (slice_in buf) (ie_rsne_override ie) \<and>
     pred_option (slice_in buf) (ie_rsne_override_2 ie) \<and>
     pred_option (slice_in buf) (ie_rsnxe_override ie)"

text \<open>The elements the loop visits, and whether one of them is a vendor-specific element of one
  to three octets: too short for the selector the parser reads.\<close>

function kde_visit :: "(nat \<Rightarrow> u8 \<Rightarrow> u8 \<Rightarrow> bool) \<Rightarrow> bytes \<Rightarrow> nat \<Rightarrow> bool" where
  "kde_visit P buf pos =
     (if length buf > pos + 1 \<and> \<not> (buf ! pos = 0xdd \<and> buf ! (pos + 1) = 0) \<and>
         2 + unat (buf ! (pos + 1)) \<le> length buf - pos
      then P pos (buf ! pos) (buf ! (pos + 1)) \<or> kde_visit P buf (pos + 2 + unat (buf ! (pos + 1)))
      else False)"
  by pat_completeness auto
termination
  by (relation "measure (\<lambda>(P, buf, pos). length buf - pos)") auto

declare kde_visit.simps [simp del]

definition short_vendor :: "nat \<Rightarrow> u8 \<Rightarrow> u8 \<Rightarrow> bool" where
  "short_vendor pos i l \<longleftrightarrow> i = WLAN_EID_VENDOR_SPECIFIC \<and> unat l < 4"

definition cut_vendor :: "bytes \<Rightarrow> nat \<Rightarrow> u8 \<Rightarrow> u8 \<Rightarrow> bool" where
  "cut_vendor buf pos i l \<longleftrightarrow> i = WLAN_EID_VENDOR_SPECIFIC \<and> length buf < pos + 6"

lemma ie_zero_ok [simp]: "ie_ok buf ie_zero"
  by (simp add: ie_ok_def ie_zero_def)

lemma wpa_ie_version_returns: "pos + 2 + unat l \<le> length buf \<Longrightarrow> returns (\<lambda>_. True) (wpa_ie_version buf pos l sel)"
  by (auto simp: wpa_ie_version_def wp word_le_nat_alt)

lemma parse_vendor_specific_returns:
  assumes "pos + 2 + unat l \<le> length buf" "l = buf ! (pos + 1)" "pos + 1 < length buf" "ie_ok buf ie"
  shows "returns (ie_ok buf) (wpa_parse_vendor_specific buf pos ie)"
  using assms by (auto simp: wpa_parse_vendor_specific_def wp word_le_nat_alt word_less_nat_alt ie_ok_def slice_in_def)

lemma size_sub_exact: "b \<le> a \<Longrightarrow> a \<le> SIZE_MAX \<Longrightarrow> size_sub a b = a - b"
  by (simp add: size_sub_def le_mod_geq)

text \<open>What \<open>wpa_parse_generic()\<close> needs: the selector lies in the key data. What it guarantees
  beyond the code it returns needs an element with a complete selector.\<close>

lemma wpa_parse_generic_None:
  assumes "pos + 2 + unat l \<le> length buf" "l = buf ! (pos + 1)" "pos + 1 < length buf" "l \<noteq> 0"
  shows "wpa_parse_generic buf pos ie = None \<longleftrightarrow> length buf < pos + 6"
proof -
  obtain v where "wpa_ie_version buf pos l sel = Some (v sel)" for sel
    using wpa_ie_version_returns [OF assms(1)] unfolding returns_iff by metis
  note v = this
  have l: "rd8 buf (pos + 1) = Some l" using assms(2,3) by (simp add: rd8_def)
  show ?thesis
  proof (cases "WPA_GET_BE32 buf (pos + 2)")
    case None
    then have "length buf < pos + 6" using wpa_get32_in_bounds(1) [of buf "pos + 2"] by simp
    then show ?thesis unfolding wpa_parse_generic_def l bind.bind_lunit if_not_P [OF assms(4)] None by simp
  next
    case (Some sel)
    then have "\<not> length buf < pos + 6" using wpa_get32_in_bounds(1) [of buf "pos + 2"] by simp
    moreover have "returns (\<lambda>_. True) (wpa_parse_generic buf pos ie)"
      unfolding wpa_parse_generic_def l bind.bind_lunit if_not_P [OF assms(4)] Some v Let_def by simp
    ultimately show ?thesis by (auto simp: returns_iff)
  qed
qed

lemma wpa_parse_generic_returns:
  assumes "pos + 2 + unat l \<le> length buf" "l = buf ! (pos + 1)" "4 \<le> unat l" "ie_ok buf ie"
  shows "returns (\<lambda>(ret, ie'). ie_ok buf ie') (wpa_parse_generic buf pos ie)"
proof -
  obtain v where v: "wpa_ie_version buf pos l sel = Some (v sel)" for sel
    using wpa_ie_version_returns [OF assms(1)] unfolding returns_iff by metis
  obtain sel where sel: "WPA_GET_BE32 buf (pos + 2) = Some sel"
    using assms(1,3) wpa_get32_in_bounds(1) [of buf "pos + 2"] by (cases "WPA_GET_BE32 buf (pos + 2)") auto
  have l: "rd8 buf (pos + 1) = Some l" "l \<noteq> 0" "size_sub (unat l) 4 = unat l - 4"
    using assms(1-3) size_sub_exact [of 4 "unat l"] order_trans [OF unat_u8_le [of l], of SIZE_MAX]
    by (auto simp: rd8_def)
  have s: "slice_in buf (pos, unat l + 2)" "slice_in buf (pos + 6, unat l - 4)"
    "l \<ge> 20 \<Longrightarrow> slice_in buf (pos + 6, 16)" "l \<ge> 6 \<Longrightarrow> slice_in buf (pos + 6, 2)"
    "l \<ge> 5 \<Longrightarrow> slice_in buf (pos + 6, 1)" "l \<ge> 16 \<Longrightarrow> slice_in buf (pos + 6, 12)"
    using assms(1,3) by (auto simp: slice_in_def word_le_nat_alt)
  show ?thesis
    using assms(4) s unfolding wpa_parse_generic_def l(1) bind.bind_lunit if_not_P [OF l(2)] sel v Let_def l(3) ie_ok_def
    by simp
qed

lemma kde_element_returns:
  assumes "pos + 2 + unat l \<le> length buf" "l = buf ! (pos + 1)" "\<not> short_vendor pos i l" "ie_ok buf ie"
  shows "returns (\<lambda>(m, ie'). ie_ok buf ie') (kde_element buf pos i l ie)"
proof (cases "i = WLAN_EID_VENDOR_SPECIFIC")
  case True
  then have l: "4 \<le> unat l" using assms(3) by (simp add: short_vendor_def)
  obtain ret ie' where g: "wpa_parse_generic buf pos ie = Some (ret, ie')" "ie_ok buf ie'"
    using wpa_parse_generic_returns [OF assms(1,2) l assms(4)] by (auto simp: returns_iff)
  show ?thesis
    using parse_vendor_specific_returns [OF assms(1,2) _ g(2)] assms(1) l g True
    by (auto simp: kde_element_def eid_defs returns_iff)
next
  case False
  have s: "slice_in buf (pos, unat l + 2)" "slice_in buf (pos + 2, unat l)"
    "l \<ge> 5 \<Longrightarrow> slice_in buf (pos, 7)" "l \<ge> 26 \<Longrightarrow> slice_in buf (pos + 2, 26)" "l \<ge> 12 \<Longrightarrow> slice_in buf (pos + 2, 12)"
    "l \<ge> 18 \<Longrightarrow> slice_in buf (pos + 3, unat l - 1)" "l \<ge> 3 \<Longrightarrow> slice_in buf (pos + 3, 2)"
    and r: "l \<ge> 1 \<Longrightarrow> pos + 2 < length buf" "l \<ge> 2 \<Longrightarrow> pos + 2 + 2 \<le> length buf" "l \<ge> 5 \<Longrightarrow> pos + 2 < length buf"
      "l \<ge> 3 \<Longrightarrow> pos + 2 < length buf"
    using assms(1) by (auto simp: slice_in_def word_le_nat_alt)
  show ?thesis using assms(4) s r False unfolding kde_element_def ie_ok_def Let_def wp
    by simp
qed

lemma kde_element_None:
  assumes "pos + 2 + unat l \<le> length buf" "l = buf ! (pos + 1)" "\<not> (i = WLAN_EID_VENDOR_SPECIFIC \<and> l = 0)"
  shows "kde_element buf pos i l ie = None \<longleftrightarrow> cut_vendor buf pos i l"
proof (cases "i = WLAN_EID_VENDOR_SPECIFIC")
  case True
  have l: "pos + 1 < length buf" "l \<noteq> 0" using assms(1,3) True by auto
  have "returns (\<lambda>_. True) (wpa_parse_vendor_specific buf pos ie')" for ie'
    using assms(1,2) l(1) by (auto simp: wpa_parse_vendor_specific_def wp word_le_nat_alt word_less_nat_alt)
  then have vs: "wpa_parse_vendor_specific buf pos ie' \<noteq> None" for ie' by (auto simp: returns_iff)
  have e: "kde_element buf pos i l ie = wpa_parse_generic buf pos ie \<bind> (\<lambda>(ret, ie).
      if ret = 1 then Some (False, ie)
      else if ret = 2 then do { ie \<leftarrow> wpa_parse_vendor_specific buf pos ie; Some (True, ie) }
      else Some (True, ie))"
    by (simp add: kde_element_def True eid_defs)
  show ?thesis
  proof (cases "wpa_parse_generic buf pos ie")
    case None
    then show ?thesis using e True wpa_parse_generic_None [OF assms(1,2) l, of ie] by (simp add: cut_vendor_def)
  next
    case (Some x)
    obtain y where "wpa_parse_vendor_specific buf pos (snd x) = Some y" using vs by blast
    then have "kde_element buf pos i l ie \<noteq> None" unfolding e Some by (cases x) auto
    moreover have "\<not> length buf < pos + 6" using Some wpa_parse_generic_None [OF assms(1,2) l, of ie] by simp
    ultimately show ?thesis by (simp add: cut_vendor_def)
  qed
next
  case False
  have r: "l \<ge> 1 \<Longrightarrow> pos + 2 < length buf" "l \<ge> 2 \<Longrightarrow> pos + 2 + 2 \<le> length buf" "l \<ge> 5 \<Longrightarrow> pos + 2 < length buf"
      "l \<ge> 3 \<Longrightarrow> pos + 2 < length buf"
    using assms(1) by (auto simp: word_le_nat_alt)
  have "returns (\<lambda>_. True) (kde_element buf pos i l ie)"
    using r False unfolding kde_element_def Let_def wp by simp
  with False show ?thesis by (auto simp: cut_vendor_def returns_iff)
qed

lemma yields_True: "yields (\<lambda>_. True) x"
  by (simp add: yields_def)

lemma yields_rd8: "yields P (rd8 b i) \<longleftrightarrow> (i < length b \<longrightarrow> P (b ! i))"
  by (simp add: rd8_def)

lemma kde_element_more:
  assumes "l = buf ! (pos + 1)" "kde_element buf pos i l ie = Some (m, ie')" "\<not> (i = WLAN_EID_VENDOR_SPECIFIC \<and> l = 0)"
  shows m
proof -
  have "yields (\<lambda>y. fst y \<noteq> 1) (wpa_parse_generic buf pos ie)" if "l \<noteq> 0"
    using that assms(1) unfolding wpa_parse_generic_def Let_def wlp by (simp add: yields_rd8 yields_True)
  then have "yields fst (kde_element buf pos i l ie)"
    using assms(3) unfolding kde_element_def Let_def wlp by (auto simp: yields_True case_prod_beta)
  with assms(2) show ?thesis by (simp add: yields_def)
qed

lemma kde_loop_None: "kde_loop buf pos ie = None \<longleftrightarrow> kde_visit (cut_vendor buf) buf pos"
proof (induction "length buf - pos" arbitrary: pos ie rule: less_induct)
  case less
  show ?case
  proof (cases "pos + 1 < length buf")
    case False
    then show ?thesis by (subst kde_loop.simps, subst kde_visit.simps) simp
  next
    case True
    define i l where "i = buf ! pos" and "l = buf ! Suc pos"
    have r: "rd8 buf pos = Some i" "rd8 buf (Suc pos) = Some l" using True by (simp_all add: rd8_def i_def l_def)
    have l': "l = buf ! (pos + 1)" by (simp add: l_def)
    have dd: "(i = 0xdd) = (i = WLAN_EID_VENDOR_SPECIFIC)" by (simp add: WLAN_EID_VENDOR_SPECIFIC_def)
    show ?thesis
    proof (cases "i = 0xdd \<and> l = 0 \<or> 2 + unat l > length buf - pos")
      case stop: True
      have "kde_loop buf pos ie \<noteq> None"
        using True stop by (subst kde_loop.simps) (auto simp: r)
      moreover have "\<not> kde_visit (cut_vendor buf) buf pos"
        using stop by (subst kde_visit.simps) (auto simp flip: i_def l_def)
      ultimately show ?thesis by simp
    next
      case go: False
      then have n: "\<not> (i = WLAN_EID_VENDOR_SPECIFIC \<and> l = 0)" "pos + 2 + unat l \<le> length buf" using dd True by auto
      have rec: "kde_loop buf (pos + 2 + unat l) ie' = None \<longleftrightarrow> kde_visit (cut_vendor buf) buf (pos + 2 + unat l)" for ie'
        using less.hyps [of "pos + 2 + unat l" ie'] True by simp
      have v: "kde_visit (cut_vendor buf) buf pos \<longleftrightarrow>
          cut_vendor buf pos i l \<or> kde_visit (cut_vendor buf) buf (pos + 2 + unat l)"
        using True go n by (subst kde_visit.simps) (simp flip: i_def l_def)
      have e: "kde_loop buf pos ie = kde_element buf pos i l ie \<bind>
          (\<lambda>(m, ie). if m then kde_loop buf (pos + 2 + unat l) ie else Some (True, ie))"
        using True go r by (subst kde_loop.simps) auto
      note none = kde_element_None [OF n(2) l' n(1), of ie]
      show ?thesis
      proof (cases "kde_element buf pos i l ie")
        case None
        then show ?thesis using none unfolding e v by simp
      next
        case (Some x)
        then obtain ie' where x: "kde_element buf pos i l ie = Some (True, ie')"
          using kde_element_more [OF l' _ n(1), of ie] by (cases x) auto
        then have "\<not> cut_vendor buf pos i l" using none by simp
        then show ?thesis using rec [of ie'] unfolding e v x by simp
      qed
    qed
  qed
qed

lemma kde_loop_ok:
  assumes "\<not> kde_visit short_vendor buf pos" "ie_ok buf ie"
  shows "returns (\<lambda>(ok, ie'). ie_ok buf ie') (kde_loop buf pos ie)"
  using assms
proof (induction "length buf - pos" arbitrary: pos ie rule: less_induct)
  case less
  define i l where "i = buf ! pos" and "l = buf ! Suc pos"
  show ?case
  proof (cases "pos + 1 < length buf \<and> \<not> (i = 0xdd \<and> l = 0) \<and> 2 + unat l \<le> length buf - pos")
    case False
    then show ?thesis using less.prems(2)
      by (subst kde_loop.simps) (auto simp: rd8_def i_def l_def)
  next
    case True
    have n: "\<not> short_vendor pos i l" "\<not> kde_visit short_vendor buf (pos + 2 + unat l)"
      using less.prems(1) True by (subst (asm) kde_visit.simps, simp flip: i_def l_def)+
    have l': "l = buf ! (pos + 1)" by (simp add: l_def)
    have b: "pos + 2 + unat l \<le> length buf" using True by linarith
    obtain m ie' where e: "kde_element buf pos i l ie = Some (m, ie')" "ie_ok buf ie'"
      using kde_element_returns [OF b l' n(1) less.prems(2)] by (auto simp: returns_iff)
    have "returns (\<lambda>(ok, ie'). ie_ok buf ie') (kde_loop buf (pos + 2 + unat l) ie')"
      using less.hyps [OF _ n(2) e(2)] b by simp
    then show ?thesis using True e less.prems(2)
      by (subst kde_loop.simps) (simp add: rd8_def flip: i_def l_def)
  qed
qed

text \<open>C29. On key data whose vendor-specific elements are empty or hold a whole selector, the
  parser terminates without a read out of bounds, and every position it reports, with its
  length, lies inside the key data.\<close>

theorem kde_parse_in_bounds:
  assumes "\<not> kde_visit short_vendor kd 0"
  shows "returns (\<lambda>(ok, ie). ie_ok kd ie) (wpa_parse_kde_ies kd)"
  using kde_loop_ok [OF assms, of ie_zero] by (simp add: wpa_parse_kde_ies_def)

theorem kde_parse_in_bounds_witness:
  "\<not> kde_visit short_vendor [0xdd, 6, 0, 0x0f, 0xac, 10, 1, 0, 0xdd, 0] 0 \<and>
   returns (\<lambda>(ok, ie). ie_ok [0xdd, 6, 0, 0x0f, 0xac, 10, 1, 0, 0xdd, 0] ie)
     (wpa_parse_kde_ies [0xdd, 6, 0, 0x0f, 0xac, 10, 1, 0, 0xdd, 0])"
proof -
  have "\<not> kde_visit short_vendor [0xdd, 6, 0, 0x0f, 0xac, 10, 1, 0, 0xdd, 0] 0" by code_simp
  then show ?thesis using kde_parse_in_bounds by blast
qed

text \<open>C30. The parser reads behind the end of the key data exactly when it reaches a
  vendor-specific element of at least one octet with fewer than four octets of the key data
  behind its header: the tests for the RSN override elements read the selector without the
  length check that all other tests have. The key data \<open>dd 01 00\<close> are an example.\<close>

theorem kde_parse_overread:
  "(wpa_parse_kde_ies kd = None \<longleftrightarrow> kde_visit (cut_vendor kd) kd 0) \<and> wpa_parse_kde_ies [0xdd, 1, 0] = None"
proof -
  have "kde_visit (cut_vendor [0xdd, 1, 0]) [0xdd, 1, 0] 0" by code_simp
  then show ?thesis by (simp add: wpa_parse_kde_ies_def kde_loop_None)
qed

end
