(* ===== verification/Wpa_sm.thy ===== *)
theory Wpa_sm
  imports Wpa_kde Rc4 Pmksa_props
begin

text \<open>
  The supplicant's side of the 4-way handshake and of the group key handshake:
  \<open>src/rsn_supp/wpa.c\<close> with the callbacks of \<open>src/rsn_supp/wpa_i.h\<close>.

  The record \<open>wpa_sm\<close> extends the PMKSA cache's part of \<open>struct wpa_sm\<close>. Keys with a length
  (\<open>gtk\<close>, \<open>igtk\<close>, \<open>bigtk\<close>) are the octets in use, empty after \<open>os_memset()\<close>; an allocated
  element with its length is an optional list. The parameters that
  \<open>wpa_sm_set_param()\<close> and \<open>wpa_sm_set_config()\<close> set are the record \<open>sm_conf\<close>, the elements of
  the AP are the record \<open>ap\<close>, and what the callbacks report is the record \<open>ctx\<close>: the
  network, the BSSID of the driver, the elements of the AP in the scan results, the key of the
  EAPOL state machine, random numbers. Calls out of the component are appended to
  \<open>rsn_trace\<close>; whether an allocation or a callback succeeds comes from \<open>rsn_answers\<close>.

  A received frame is a list of octets; reads and writes of the copy the code makes of it
  are bounds-checked, so an operation that returns \<^const>\<open>None\<close> has left a buffer or used a
  freed cache entry. \<open>struct wpa_eapol_key\<close> has no padding: its fields are at fixed offsets
  behind the four octets of the 802.1X header, the MIC follows at offset 81.

  The model follows the configuration of the port named in \<open>Wpa_common\<close>; \<open>CONFIG_OCV\<close>,
  \<open>CONFIG_TDLS\<close>, \<open>CONFIG_P2P\<close> and \<open>CONFIG_TESTING_OPTIONS\<close> are not defined, \<open>CONFIG_WNM\<close> is.
\<close>

section \<open>Data\<close>

definition WLAN_REASON_IE_IN_4WAY_DIFFERS :: u16 where "WLAN_REASON_IE_IN_4WAY_DIFFERS = 17"
definition MLME_SETPROTECTION_PROTECT_TYPE_RX :: nat where "MLME_SETPROTECTION_PROTECT_TYPE_RX = 1"
definition MLME_SETPROTECTION_PROTECT_TYPE_RX_TX :: nat where "MLME_SETPROTECTION_PROTECT_TYPE_RX_TX = 3"
definition WLAN_RSNX_CAPAB_SECURE_LTF :: nat where "WLAN_RSNX_CAPAB_SECURE_LTF = 8"
definition WNM_SLEEP_SUBELEM_GTK :: u8 where "WNM_SLEEP_SUBELEM_GTK = 0"
definition WNM_SLEEP_SUBELEM_IGTK :: u8 where "WNM_SLEEP_SUBELEM_IGTK = 1"
definition WNM_SLEEP_SUBELEM_BIGTK :: u8 where "WNM_SLEEP_SUBELEM_BIGTK = 2"
definition RSN_SELECTION_RSNE :: u8 where "RSN_SELECTION_RSNE = 0"
definition RSN_SELECTION_RSNE_OVERRIDE :: u8 where "RSN_SELECTION_RSNE_OVERRIDE = 1"
definition RSN_SELECTION_RSNE_OVERRIDE_2 :: u8 where "RSN_SELECTION_RSNE_OVERRIDE_2 = 2"

definition KEY_FLAG_MODIFY :: u32 where "KEY_FLAG_MODIFY = BIT 0"
definition KEY_FLAG_DEFAULT :: u32 where "KEY_FLAG_DEFAULT = BIT 1"
definition KEY_FLAG_RX :: u32 where "KEY_FLAG_RX = BIT 2"
definition KEY_FLAG_TX :: u32 where "KEY_FLAG_TX = BIT 3"
definition KEY_FLAG_GROUP :: u32 where "KEY_FLAG_GROUP = BIT 4"
definition KEY_FLAG_PAIRWISE :: u32 where "KEY_FLAG_PAIRWISE = BIT 5"
definition KEY_FLAG_PMK :: u32 where "KEY_FLAG_PMK = BIT 6"
definition KEY_FLAG_RX_TX :: u32 where "KEY_FLAG_RX_TX = KEY_FLAG_RX OR KEY_FLAG_TX"
definition KEY_FLAG_GROUP_RX_TX_DEFAULT :: u32 where
  "KEY_FLAG_GROUP_RX_TX_DEFAULT = KEY_FLAG_GROUP OR KEY_FLAG_RX_TX OR KEY_FLAG_DEFAULT"
definition KEY_FLAG_GROUP_RX :: u32 where "KEY_FLAG_GROUP_RX = KEY_FLAG_GROUP OR KEY_FLAG_RX"
definition KEY_FLAG_PAIRWISE_RX_TX_MODIFY :: u32 where
  "KEY_FLAG_PAIRWISE_RX_TX_MODIFY = KEY_FLAG_PAIRWISE OR KEY_FLAG_RX_TX OR KEY_FLAG_MODIFY"

lemmas key_flag_defs = KEY_FLAG_MODIFY_def KEY_FLAG_DEFAULT_def KEY_FLAG_RX_def KEY_FLAG_TX_def KEY_FLAG_GROUP_def
  KEY_FLAG_PAIRWISE_def KEY_FLAG_PMK_def KEY_FLAG_RX_TX_def KEY_FLAG_GROUP_RX_TX_DEFAULT_def KEY_FLAG_GROUP_RX_def
  KEY_FLAG_PAIRWISE_RX_TX_MODIFY_def

definition broadcast_ether_addr :: bytes where "broadcast_ether_addr = replicate 6 0xff"
definition null_rsc :: bytes where "null_rsc = replicate 8 0"

definition is_zero_ether_addr :: "bytes \<Rightarrow> bool" where
  "is_zero_ether_addr a \<longleftrightarrow> list_all (\<lambda>x. x = 0) a"

datatype wpa_rsn_override = RSN_OVERRIDE_NOT_USED | RSN_OVERRIDE_RSNE | RSN_OVERRIDE_RSNE_OVERRIDE
  | RSN_OVERRIDE_RSNE_OVERRIDE_2

record wpa_sm_conf =
  network_ctx :: nat
  allowed_pairwise_cipher :: u32
  proactive_key_caching :: u32
  eap_workaround :: u32
  ssid :: bytes
  wpa_ptk_rekey :: u32
  wpa_rsc_relaxation :: bool
  owe_ptk_workaround :: bool
  force_kdk_derivation :: bool
  beacon_prot :: bool
  dot11RSNAConfigSATimeout :: u32
  proto :: u32
  pairwise_cipher :: u32
  group_cipher :: u32
  key_mgmt :: u32
  mgmt_group_cipher :: u32
  rsn_enabled :: bool
  mfp :: u32
  ocv :: u32
  sae_pwe :: u32
  sae_pk :: bool
  secure_ltf :: bool
  secure_rtt :: bool
  prot_range_neg :: bool
  wpa_deny_ptk0_rekey :: bool
  ext_key_id :: bool
  rsn_override :: wpa_rsn_override
  rsn_override_support :: bool

record ap_ies =
  ap_wpa_ie :: "bytes option"
  ap_rsn_ie :: "bytes option"
  ap_rsnxe :: "bytes option"
  ap_rsne_override :: "bytes option"
  ap_rsne_override_2 :: "bytes option"
  ap_rsnxe_override :: "bytes option"

record wpa_sm_ctx =
  ctx_network :: nat
  ctx_bssid :: "bytes option"
  ctx_beacon :: "bool \<times> ap_ies"
  ctx_eapol :: bool
  ctx_eapol_key :: "nat \<Rightarrow> bytes option"
  ctx_candidates :: bool
  ctx_preauth_bssid :: bytes
  ctx_eapol_version :: u8
  ctx_random :: "nat \<Rightarrow> bytes option"

record wpa_sm = rsn_sm +
  ptk :: wpa_ptk
  tptk :: wpa_ptk
  ptk_set :: bool
  tptk_set :: bool
  msg_3_of_4_ok :: bool
  snonce :: bytes
  anonce :: bytes
  renew_snonce :: bool
  rx_replay_counter :: bytes
  rx_replay_counter_set :: bool
  request_counter :: bytes
  gtk :: bytes
  gtk_wnm_sleep :: bytes
  igtk :: bytes
  igtk_wnm_sleep :: bytes
  bigtk :: bytes
  bigtk_wnm_sleep :: bytes
  use_ext_key_id :: bool
  keyidx_active :: u32
  dot11RSNA4WayHandshakeFailures :: u32
  assoc_wpa_ie :: "bytes option"
  assoc_wpa_ie_len :: nat
  assoc_rsnxe :: "bytes option"
  ap :: ap_ies
  sm_conf :: wpa_sm_conf
  wpa_state :: wpa_states
  nonce_draws :: nat
  ctx :: wpa_sm_ctx

text \<open>The fields of a received \<open>struct wpa_eapol_key\<close> that the code reads.\<close>

record wpa_eapol_key =
  ek_type :: u8
  ek_key_info :: u16
  ek_key_length :: bytes
  ek_replay_counter :: bytes
  ek_key_nonce :: bytes
  ek_key_iv :: bytes
  ek_key_rsc :: bytes

definition sizeof_wpa_eapol_key :: nat where "sizeof_wpa_eapol_key = 77"
definition off_mic :: nat where "off_mic = 81"

lemmas wpa_frame_defs = sizeof_ieee802_1x_hdr_def sizeof_wpa_eapol_key_def off_mic_def

definition eapol_key_at :: "bytes \<Rightarrow> wpa_eapol_key option" where
  "eapol_key_at b = do {
     ty \<leftarrow> rd8 b 4;
     info \<leftarrow> WPA_GET_BE16 b 5;
     len \<leftarrow> rdn b 7 2;
     ctr \<leftarrow> rdn b 9 WPA_REPLAY_COUNTER_LEN;
     nonce \<leftarrow> rdn b 17 WPA_NONCE_LEN;
     iv \<leftarrow> rdn b 49 16;
     rsc \<leftarrow> rdn b 65 WPA_KEY_RSC_LEN;
     Some \<lparr>ek_type = ty, ek_key_info = info, ek_key_length = len, ek_replay_counter = ctr, ek_key_nonce = nonce,
           ek_key_iv = iv, ek_key_rsc = rsc\<rparr> }"

abbreviation pmk_len :: "wpa_sm \<Rightarrow> nat" where
  "pmk_len s \<equiv> length (pmk s)"

abbreviation sm_proto_rsn :: "wpa_sm \<Rightarrow> bool" where
  "sm_proto_rsn s \<equiv> proto (sm_conf s) = WPA_PROTO_RSN \<or> proto (sm_conf s) = WPA_PROTO_OSEN"

definition info_bit :: "u16 \<Rightarrow> u16 \<Rightarrow> bool" where
  "info_bit info m \<longleftrightarrow> info AND m \<noteq> 0"

section \<open>Callbacks\<close>

definition wpa_sm_set_state :: "wpa_states \<Rightarrow> wpa_sm \<Rightarrow> wpa_sm" where
  "wpa_sm_set_state st s = rsn_emit (Set_state st) (s\<lparr>wpa_state := st\<rparr>)"

definition wpa_sm_deauthenticate :: "u16 \<Rightarrow> wpa_sm \<Rightarrow> wpa_sm" where
  "wpa_sm_deauthenticate reason s = rsn_emit (Deauthenticate reason) s"

definition wpa_sm_set_key ::
  "wpa_alg \<Rightarrow> bytes option \<Rightarrow> u32 \<Rightarrow> bool \<Rightarrow> bytes \<Rightarrow> bytes \<Rightarrow> u32 \<Rightarrow> wpa_sm \<Rightarrow> bool \<times> wpa_sm" where
  "wpa_sm_set_key alg addr idx tx seq key flag s =
     (let (ok, s) = rsn_ask s in (ok, rsn_emit (Set_key alg addr idx tx seq key flag ok) s))"

definition wpa_sm_ether_send :: "bytes \<Rightarrow> bytes \<Rightarrow> wpa_sm \<Rightarrow> bool \<times> wpa_sm" where
  "wpa_sm_ether_send dest buf s = rsn_ask (rsn_emit (Ether_send dest buf) s)"

text \<open>\<open>wpa_alloc_eapol()\<close> of \<open>wpa_supplicant/wpas_glue.c\<close>, without data: \<open>data_len\<close> is cut to
  16 bits by the type of its parameter.\<close>

definition wpa_alloc_eapol :: "u8 \<Rightarrow> nat \<Rightarrow> wpa_sm \<Rightarrow> bytes option \<times> wpa_sm" where
  "wpa_alloc_eapol ty data_len s =
     (let (ok, s) = rsn_ask s;
          n = (of_nat data_len :: u16)
      in if ok then (Some ([ctx_eapol_version (ctx s), ty] @ WPA_PUT_BE16 n @ replicate (unat n) 0), s) else (None, s))"

definition wpa_sm_get_ap_rsne :: "wpa_sm \<Rightarrow> bytes option" where
  "wpa_sm_get_ap_rsne s =
     (if rsn_override (sm_conf s) = RSN_OVERRIDE_RSNE_OVERRIDE then ap_rsne_override (ap s)
      else if rsn_override (sm_conf s) = RSN_OVERRIDE_RSNE_OVERRIDE_2 then ap_rsne_override_2 (ap s)
      else ap_rsn_ie (ap s))"

definition wpa_sm_rsn_overriding_supported :: "wpa_sm \<Rightarrow> bool" where
  "wpa_sm_rsn_overriding_supported s \<longleftrightarrow> rsn_override_support (sm_conf s) \<and> wpa_sm_get_ap_rsne s \<noteq> None"

section \<open>Sending EAPOL-Key frames\<close>

text \<open>The MIC goes to offset 81 of the frame; \<open>key_mic\<close> says whether the caller passes its
  address. The Boolean of the result is whether the code returns a value that is not negative.\<close>

definition wpa_eapol_key_dest :: "bytes \<Rightarrow> wpa_sm \<Rightarrow> bytes \<times> wpa_sm" where
  "wpa_eapol_key_dest dest s =
     (if is_zero_ether_addr dest \<and> is_zero_ether_addr (bssid s)
      then case ctx_bssid (ctx s) of None \<Rightarrow> (dest, s) | Some b \<Rightarrow> (b, s\<lparr>bssid := b\<rparr>)
      else (dest, s))"

definition wpa_eapol_key_send ::
  "'z wpa_crypto_scheme \<Rightarrow> wpa_ptk \<Rightarrow> u16 \<Rightarrow> bytes \<Rightarrow> bytes \<Rightarrow> bool \<Rightarrow> wpa_sm \<Rightarrow> (bool \<times> wpa_sm) option" where
  "wpa_eapol_key_send C p ver dest msg key_mic s = do {
     let mic_len = wpa_mic_len (key_mgmt (sm_conf s)) (pmk_len s);
     let (dest, s) = wpa_eapol_key_dest dest s;
     if mic_len = 0 then Some (False, s)
     else if key_mic \<and> kck_len p = 0 then Some (False, s)
     else do {
       r \<leftarrow> (if key_mic then wpa_eapol_key_mic C (kck p) (kck_len p) (key_mgmt (sm_conf s)) ver msg
             else Some (Some []));
       case r of None \<Rightarrow> Some (False, s)
       | Some mic \<Rightarrow> do {
           msg \<leftarrow> wrn msg off_mic mic;
           let (ok, s) = wpa_sm_ether_send dest msg s;
           Some (ok, rsn_emit Eapol_notify_tx_eapol_key s) } } }"

text \<open>The fields of a frame that the supplicant builds: the descriptor type, the key
  information, the key length, the replay counter and the length of the key data.\<close>

definition eapol_key_reply :: "wpa_sm \<Rightarrow> u16 \<Rightarrow> bytes \<Rightarrow> bytes \<Rightarrow> nat \<Rightarrow> bytes \<Rightarrow> bytes \<Rightarrow> bytes option" where
  "eapol_key_reply s info klen ctr mic_len kd b = do {
     b \<leftarrow> wrn b 4 [if sm_proto_rsn s then EAPOL_KEY_TYPE_RSN else EAPOL_KEY_TYPE_WPA];
     b \<leftarrow> wrn b 5 (WPA_PUT_BE16 info);
     b \<leftarrow> wrn b 7 klen;
     b \<leftarrow> wrn b 9 ctr;
     b \<leftarrow> wrn b (off_mic + mic_len) (WPA_PUT_BE16 (of_nat (length kd)));
     wrn b (off_mic + mic_len + 2) kd }"

definition reply_key_length :: "wpa_eapol_key \<Rightarrow> wpa_sm \<Rightarrow> bytes" where
  "reply_key_length key s = (if sm_proto_rsn s then [0, 0] else ek_key_length key)"

fun inc_rev :: "bytes \<Rightarrow> bytes" where
  "inc_rev [] = []"
| "inc_rev (x # xs) = (if x + 1 \<noteq> 0 then (x + 1) # xs else 0 # inc_rev xs)"

definition inc_byte_array :: "bytes \<Rightarrow> bytes" where
  "inc_byte_array c = rev (inc_rev (rev c))"

definition key_request_ver :: "wpa_sm_conf \<Rightarrow> u16" where
  "key_request_ver c =
     (if wpa_use_akm_defined (key_mgmt c) then WPA_KEY_INFO_TYPE_AKM_DEFINED
      else if wpa_key_mgmt_ft (key_mgmt c) \<or> wpa_key_mgmt_sha256 (key_mgmt c) then WPA_KEY_INFO_TYPE_AES_128_CMAC
      else if pairwise_cipher c \<noteq> WPA_CIPHER_TKIP then WPA_KEY_INFO_TYPE_HMAC_SHA1_AES
      else WPA_KEY_INFO_TYPE_HMAC_MD5_RC4)"

definition wpa_sm_key_request :: "'z wpa_crypto_scheme \<Rightarrow> bool \<Rightarrow> bool \<Rightarrow> wpa_sm \<Rightarrow> wpa_sm option" where
  "wpa_sm_key_request C err pw s =
     (if pw \<and> wpa_deny_ptk0_rekey (sm_conf s) \<and> \<not> use_ext_key_id s \<and> wpa_state s = WPA_COMPLETED
      then Some (rsn_emit Reconnect s)
      else case ctx_bssid (ctx s) of None \<Rightarrow> Some s
      | Some dst \<Rightarrow> do {
          let ver = key_request_ver (sm_conf s);
          let mic_len = wpa_mic_len (key_mgmt (sm_conf s)) (pmk_len s);
          case wpa_alloc_eapol IEEE802_1X_TYPE_EAPOL_KEY (sizeof_wpa_eapol_key + mic_len + 2) s of
            (None, s) \<Rightarrow> Some s
          | (Some rbuf, s) \<Rightarrow> do {
              let info = WPA_KEY_INFO_REQUEST OR ver OR (if ptk_set s then WPA_KEY_INFO_SECURE else 0) OR
                    (if ptk_set s \<and> mic_len \<noteq> 0 then WPA_KEY_INFO_MIC else 0) OR
                    (if err then WPA_KEY_INFO_ERROR else 0) OR (if pw then WPA_KEY_INFO_KEY_TYPE else 0);
              rbuf \<leftarrow> eapol_key_reply s info [0, 0] (request_counter s) mic_len [] rbuf;
              let s = s\<lparr>request_counter := inc_byte_array (request_counter s)\<rparr>;
              (ok, s) \<leftarrow> wpa_eapol_key_send C (ptk s) ver dst rbuf (info_bit info WPA_KEY_INFO_MIC) s;
              Some s } })"

definition wpa_sm_rekey_ptk :: "'z wpa_crypto_scheme \<Rightarrow> wpa_sm \<Rightarrow> wpa_sm option" where
  "wpa_sm_rekey_ptk C s = wpa_sm_key_request C False True s"

section \<open>The PMK\<close>

definition wpa_sm_set_pmk_from_pmksa :: "wpa_sm \<Rightarrow> wpa_sm option" where
  "wpa_sm_set_pmk_from_pmksa s =
     (case cur_pmksa s of None \<Rightarrow> Some (s\<lparr>pmk := []\<rparr>)
      | Some c \<Rightarrow> do { e \<leftarrow> pmksa_heap s c; Some (s\<lparr>pmk := pe_pmk e\<rparr>) })"

definition wpa_sm_set_pmk ::
  "'z wpa_crypto_scheme \<Rightarrow> bytes \<Rightarrow> bytes option \<Rightarrow> bytes option \<Rightarrow> wpa_sm \<Rightarrow> wpa_sm option" where
  "wpa_sm_set_pmk C k pmkid aa s =
     (if length k > PMK_LEN_MAX then None
      else
        let s = s\<lparr>pmk := k\<rparr>
        in case aa of None \<Rightarrow> Some s
           | Some a \<Rightarrow> do {
               (sa, s) \<leftarrow> pmksa_cache_add C k pmkid None a (own_addr s) (network_ctx (sm_conf s)) (key_mgmt (sm_conf s)) None s;
               Some (s\<lparr>cur_pmksa := sa\<rparr>) })"

definition wpa_supplicant_key_mgmt_set_pmk :: "wpa_sm \<Rightarrow> wpa_sm" where
  "wpa_supplicant_key_mgmt_set_pmk s = snd (rsn_ask (rsn_emit (Key_mgmt_set_pmk (pmk s)) s))"

text \<open>The key of the EAPOL state machine: 48 or 32 octets, or the 16 octets of EAP-LEAP.\<close>

definition eapol_get_pmk :: "wpa_sm \<Rightarrow> bytes option" where
  "eapol_get_pmk s =
     (if wpa_key_mgmt_sha384 (key_mgmt (sm_conf s)) then ctx_eapol_key (ctx s) PMK_LEN_SUITE_B_192
      else case ctx_eapol_key (ctx s) PMK_LEN of Some k \<Rightarrow> Some k | None \<Rightarrow> ctx_eapol_key (ctx s) 16)"

text \<open>A new PMK goes to the cache, except for the suites whose PMKID needs the KCK.\<close>

definition get_pmk_add :: "'z wpa_crypto_scheme \<Rightarrow> bytes \<Rightarrow> wpa_sm \<Rightarrow> (nat option \<times> wpa_sm) option" where
  "get_pmk_add C src s =
     (let akm = key_mgmt (sm_conf s)
      in if proto (sm_conf s) = WPA_PROTO_RSN \<and> \<not> wpa_key_mgmt_suite_b akm \<and> \<not> wpa_key_mgmt_ft akm
         then pmksa_cache_add C (pmk s) None None src (own_addr s) (network_ctx (sm_conf s)) akm None s
         else Some (None, s))"

text \<open>The comparison of the new entry \<open>sa\<close> with the PMKID: the new value of \<open>abort_cached\<close>, or
  \<^const>\<open>None\<close> for the result -1, and the current entry.\<close>

definition get_pmk_match ::
  "bytes \<Rightarrow> bytes option \<Rightarrow> bool \<Rightarrow> nat option \<Rightarrow> wpa_sm \<Rightarrow> (bool option \<times> nat option) option" where
  "get_pmk_match src pmkid abort_cached sa s = do {
     known \<leftarrow> (if cur_pmksa s = None \<and> pmkid \<noteq> None
               then map_option (\<lambda>r. r \<noteq> None) (pmksa_cache_get (Some src) pmkid 0 0 s) else Some False);
     let cur = (if cur_pmksa s = None then sa else cur_pmksa s);
     if known then Some (Some False, cur)
     else if sa \<noteq> None \<and> cur_pmksa s = None \<and> pmkid \<noteq> None then Some (None, None)
     else Some (Some abort_cached, cur) }"

definition get_pmk_eapol ::
  "'z wpa_crypto_scheme \<Rightarrow> bytes \<Rightarrow> bytes option \<Rightarrow> bool \<Rightarrow> wpa_sm \<Rightarrow> (bool option \<times> wpa_sm) option" where
  "get_pmk_eapol C src pmkid abort_cached s =
     (case eapol_get_pmk s of
        None \<Rightarrow>
          if cur_pmksa s \<noteq> None then Some (Some True, s\<lparr>cur_pmksa := None\<rparr>)
          else if \<not> abort_cached then Some (None, s)
          else Some (Some abort_cached, s)
      | Some k \<Rightarrow> do {
          (sa, s) \<leftarrow> get_pmk_add C src (wpa_supplicant_key_mgmt_set_pmk (s\<lparr>pmk := k\<rparr>));
          (r, cur) \<leftarrow> get_pmk_match src pmkid abort_cached sa s;
          Some (r, s\<lparr>cur_pmksa := cur\<rparr>) })"

text \<open>The request for a full EAP authentication at the end of \<open>wpa_supplicant_get_pmk()\<close>.\<close>

definition get_pmk_abort :: "bool \<Rightarrow> wpa_sm \<Rightarrow> int \<times> wpa_sm" where
  "get_pmk_abort abort_cached s =
     (let akm = key_mgmt (sm_conf s)
      in if abort_cached \<and> wpa_key_mgmt_wpa_ieee8021x akm \<and> \<not> wpa_key_mgmt_suite_b akm \<and> \<not> wpa_key_mgmt_ft akm \<and>
            akm \<noteq> WPA_KEY_MGMT_OSEN
         then case wpa_alloc_eapol IEEE802_1X_TYPE_EAPOL_START 0 s of
                (None, s) \<Rightarrow> (-1, s)
              | (Some buf, s) \<Rightarrow>
                  let s = rsn_emit (Eapol_notify_eap_fail False) (rsn_emit (Eapol_notify_eap_fail True) s)
                  in (-2, snd (wpa_sm_ether_send (bssid s) buf s))
         else (0, s))"

text \<open>The entry for the PMKID of the message: whether none was found, and the state.\<close>

definition get_pmk_lookup :: "bytes \<Rightarrow> bytes option \<Rightarrow> wpa_sm \<Rightarrow> (bool \<times> wpa_sm) option" where
  "get_pmk_lookup src pmkid s =
     (if pmkid \<noteq> None \<and> cur_pmksa s = None
      then map_option (\<lambda>r. (r = None, s\<lparr>cur_pmksa := r\<rparr>)) (pmksa_cache_get (Some src) pmkid 0 0 s)
      else Some (False, s))"

definition get_pmk_hit :: "bytes option \<Rightarrow> wpa_sm \<Rightarrow> bool option" where
  "get_pmk_hit pmkid s =
     (case (pmkid, cur_pmksa s) of (Some p, Some c) \<Rightarrow> map_option (\<lambda>e. p = pe_pmkid e) (pmksa_heap s c)
      | _ \<Rightarrow> Some False)"

definition wpa_supplicant_get_pmk ::
  "'z wpa_crypto_scheme \<Rightarrow> bytes \<Rightarrow> bytes option \<Rightarrow> wpa_sm \<Rightarrow> (int \<times> wpa_sm) option" where
  "wpa_supplicant_get_pmk C src pmkid s = do {
     (abort_cached, s) \<leftarrow> get_pmk_lookup src pmkid s;
     hit \<leftarrow> get_pmk_hit pmkid s;
     if hit then do {
       s \<leftarrow> wpa_sm_set_pmk_from_pmksa s;
       Some (get_pmk_abort abort_cached (rsn_emit Eapol_notify_cached s)) }
     else if wpa_key_mgmt_wpa_ieee8021x (key_mgmt (sm_conf s)) \<and> ctx_eapol (ctx s) then do {
       (r, s) \<leftarrow> get_pmk_eapol C src pmkid abort_cached s;
       Some (case r of None \<Rightarrow> (-1, s) | Some a \<Rightarrow> get_pmk_abort a s) }
     else Some (get_pmk_abort abort_cached s) }"

section \<open>Messages 1 and 2 of the 4-way handshake\<close>

definition rsn_selection_ie :: "wpa_rsn_override \<Rightarrow> bytes" where
  "rsn_selection_ie v =
     [WLAN_EID_VENDOR_SPECIFIC, 5] @ WPA_PUT_BE32 RSN_SELECTION_IE_VENDOR_TYPE @
     [case v of RSN_OVERRIDE_RSNE_OVERRIDE \<Rightarrow> RSN_SELECTION_RSNE_OVERRIDE
      | RSN_OVERRIDE_RSNE_OVERRIDE_2 \<Rightarrow> RSN_SELECTION_RSNE_OVERRIDE_2 | _ \<Rightarrow> RSN_SELECTION_RSNE]"

definition wpa_supplicant_send_2_of_4 ::
  "'z wpa_crypto_scheme \<Rightarrow> bytes \<Rightarrow> wpa_eapol_key \<Rightarrow> u16 \<Rightarrow> bytes \<Rightarrow> bytes option \<Rightarrow> wpa_ptk \<Rightarrow> wpa_sm \<Rightarrow>
   (bool \<times> wpa_sm) option" where
  "wpa_supplicant_send_2_of_4 C dst key ver nonce wpa_ie p s =
     (case wpa_ie of None \<Rightarrow> Some (False, s)
      | Some ie \<Rightarrow> do {
          let over = rsn_override (sm_conf s);
          let (ok, s) = (if over \<noteq> RSN_OVERRIDE_NOT_USED then rsn_ask s else (True, s));
          if \<not> ok then Some (False, s)
          else do {
            let ie = (if over \<noteq> RSN_OVERRIDE_NOT_USED then ie @ rsn_selection_ie over else ie);
            let mic_len = wpa_mic_len (key_mgmt (sm_conf s)) (pmk_len s);
            case wpa_alloc_eapol IEEE802_1X_TYPE_EAPOL_KEY (sizeof_wpa_eapol_key + mic_len + 2 + length ie) s of
              (None, s) \<Rightarrow> Some (False, s)
            | (Some rbuf, s) \<Rightarrow> do {
                let info = ver OR WPA_KEY_INFO_KEY_TYPE OR
                      (if mic_len \<noteq> 0 then WPA_KEY_INFO_MIC else WPA_KEY_INFO_ENCR_KEY_DATA);
                rbuf \<leftarrow> eapol_key_reply s info (reply_key_length key s) (ek_replay_counter key) mic_len ie rbuf;
                rbuf \<leftarrow> wrn rbuf 17 nonce;
                wpa_eapol_key_send C p ver dst rbuf True s } } })"

text \<open>\<open>ieee802_11_rsnx_capab()\<close> of \<open>src/common/ieee802_11_common.c\<close> on the element at the start
  of a buffer.\<close>

definition ieee802_11_rsnx_capab_len :: "bytes \<Rightarrow> nat \<Rightarrow> nat \<Rightarrow> nat \<Rightarrow> bool option" where
  "ieee802_11_rsnx_capab_len b off rsnxe_len capab =
     (if rsnxe_len = 0 then Some False
      else do {
        x \<leftarrow> rd8 b off;
        let flen = unat (x AND 0x0f) + 1;
        if flen > rsnxe_len then Some False
        else do {
          xs \<leftarrow> rdn b off (min flen 4);
          let capabs = fold (\<lambda>i c. c OR push_bit (8 * i) (ucast (xs ! i))) [0..<length xs] (0 :: u32);
          Some (bit capabs capab) } })"

definition ieee802_11_rsnx_capab :: "bytes option \<Rightarrow> nat \<Rightarrow> bool option" where
  "ieee802_11_rsnx_capab rsnxe capab =
     (case rsnxe of None \<Rightarrow> Some False
      | Some b \<Rightarrow> do {
          i \<leftarrow> rd8 b 0;
          l \<leftarrow> rd8 b 1;
          if i = WLAN_EID_VENDOR_SPECIFIC \<and> l \<ge> 5 then ieee802_11_rsnx_capab_len b 6 (unat l - 4) capab
          else ieee802_11_rsnx_capab_len b 2 (unat l) capab })"

definition ptk_label :: bytes where
  "ptk_label = map (of_char :: char \<Rightarrow> u8) ''Pairwise key expansion''"

definition wpa_derive_ptk ::
  "'z wpa_crypto_scheme \<Rightarrow> wpa_eapol_key \<Rightarrow> wpa_ptk \<Rightarrow> wpa_sm \<Rightarrow> (bool \<times> wpa_ptk) option" where
  "wpa_derive_ptk C key p s = do {
     ltf \<leftarrow> (if \<not> force_kdk_derivation (sm_conf s) \<and> secure_ltf (sm_conf s)
             then ieee802_11_rsnx_capab (ap_rsnxe (ap s)) WLAN_RSNX_CAPAB_SECURE_LTF else Some False);
     let kdklen = (if force_kdk_derivation (sm_conf s) \<or> ltf then WPA_KDK_MAX_LEN else 0);
     wpa_pmk_to_ptk C (pmk s) ptk_label (own_addr s) (bssid s) (snonce s) (ek_key_nonce key) p
       (key_mgmt (sm_conf s)) (pairwise_cipher (sm_conf s)) [] kdklen }"

definition rsn_set_snonce_cookie :: "bytes \<Rightarrow> bytes option" where
  "rsn_set_snonce_cookie n = wrn n (WPA_NONCE_LEN - 6) (WPA_PUT_BE24 OUI_WFA @ WPA_PUT_BE24 0x000029)"

definition rsn_is_snonce_cookie :: "bytes \<Rightarrow> bool option" where
  "rsn_is_snonce_cookie n = do {
     a \<leftarrow> WPA_GET_BE24 n (WPA_NONCE_LEN - 6);
     b \<leftarrow> WPA_GET_BE24 n (WPA_NONCE_LEN - 3);
     Some (a = OUI_WFA \<and> b = 0x000029) }"

text \<open>A new SNonce when one is due; the Boolean is whether the code goes on.\<close>

definition renew_nonce :: "wpa_sm \<Rightarrow> (bool \<times> wpa_sm) option" where
  "renew_nonce s =
     (if renew_snonce s then
        let s = s\<lparr>nonce_draws := Suc (nonce_draws s)\<rparr>
        in case ctx_random (ctx s) (nonce_draws s - 1) of None \<Rightarrow> Some (False, s)
           | Some n \<Rightarrow> do {
               n \<leftarrow> (if wpa_sm_rsn_overriding_supported s then rsn_set_snonce_cookie n else Some n);
               Some (True, s\<lparr>snonce := n, renew_snonce := False\<rparr>) }
      else Some (True, s))"

definition swap_mic_keys :: "bytes \<Rightarrow> bytes option" where
  "swap_mic_keys t = do {
     a \<leftarrow> rdn t 16 8;
     b \<leftarrow> rdn t 24 8;
     t \<leftarrow> wrn t 16 b;
     wrn t 24 a }"

definition own_wpa_ie :: "wpa_sm \<Rightarrow> bytes option" where
  "own_wpa_ie s =
     (case assoc_wpa_ie s of None \<Rightarrow> if assoc_wpa_ie_len s = 0 then Some [] else None
      | Some b \<Rightarrow> rdn b 0 (assoc_wpa_ie_len s))"

text \<open>The parts of the handler for message 1 behind the SNonce, the temporary PTK and the reply; the
  Boolean is false for the jumps to \<open>failed\<close>.\<close>

definition process_1_of_4_derive ::
  "'z wpa_crypto_scheme \<Rightarrow> wpa_eapol_key \<Rightarrow> wpa_sm \<Rightarrow> (bool \<times> wpa_sm) option" where
  "process_1_of_4_derive C key s = do {
     (ok, p) \<leftarrow> wpa_derive_ptk C key (tptk s) s;
     if \<not> ok then Some (False, s\<lparr>tptk := p\<rparr>)
     else do {
       t \<leftarrow> (if pairwise_cipher (sm_conf s) = WPA_CIPHER_TKIP then swap_mic_keys (tk p) else Some (tk p));
       Some (True, s\<lparr>tptk := p\<lparr>tk := t\<rparr>, tptk_set := True\<rparr>) } }"

definition process_1_of_4_send ::
  "'z wpa_crypto_scheme \<Rightarrow> wpa_eapol_key \<Rightarrow> u16 \<Rightarrow> wpa_sm \<Rightarrow> (bool \<times> wpa_sm) option" where
  "process_1_of_4_send C key ver s =
     (let (ok, s) = rsn_ask s
      in if \<not> ok then Some (False, s)
         else do {
           ie \<leftarrow> own_wpa_ie s;
           let kde = ie @ (case assoc_rsnxe s of None \<Rightarrow> [] | Some x \<Rightarrow> x);
           (ok, s) \<leftarrow> wpa_supplicant_send_2_of_4 C (bssid s) key ver (snonce s) (Some kde) (tptk s) s;
           if ok then Some (True, s\<lparr>anonce := ek_key_nonce key\<rparr>) else Some (False, s) })"

definition process_1_of_4_reply ::
  "'z wpa_crypto_scheme \<Rightarrow> wpa_eapol_key \<Rightarrow> u16 \<Rightarrow> wpa_sm \<Rightarrow> (bool \<times> wpa_sm) option" where
  "process_1_of_4_reply C key ver s = do {
     (ok, s) \<leftarrow> process_1_of_4_derive C key s;
     if \<not> ok then Some (False, s) else process_1_of_4_send C key ver s }"

definition process_1_of_4_pmkid :: "bytes \<Rightarrow> wpa_sm \<Rightarrow> (bool \<times> bytes option) option" where
  "process_1_of_4_pmkid key_data s =
     (if sm_proto_rsn s then do {
        (ok, ie) \<leftarrow> wpa_supplicant_parse_ies key_data;
        if \<not> ok then Some (False, None)
        else case ie_pmkid ie of None \<Rightarrow> Some (True, None)
          | Some p \<Rightarrow> map_option (\<lambda>x. (True, Some x)) (rdn key_data p PMKID_LEN) }
      else Some (True, None))"

definition handshake_failed :: "bool \<times> wpa_sm \<Rightarrow> wpa_sm" where
  "handshake_failed r = (if fst r then snd r else wpa_sm_deauthenticate WLAN_REASON_UNSPECIFIED (snd r))"

definition wpa_supplicant_process_1_of_4 ::
  "'z wpa_crypto_scheme \<Rightarrow> bytes \<Rightarrow> wpa_eapol_key \<Rightarrow> u16 \<Rightarrow> bytes \<Rightarrow> wpa_sm \<Rightarrow> wpa_sm option" where
  "wpa_supplicant_process_1_of_4 C src key ver key_data s =
     (if ctx_network (ctx s) = 0 then Some s
      else if wpa_deny_ptk0_rekey (sm_conf s) \<and> \<not> use_ext_key_id s \<and> wpa_state s = WPA_COMPLETED
      then Some (rsn_emit Reconnect s)
      else do {
        let s = wpa_sm_set_state WPA_4WAY_HANDSHAKE s;
        (ok, pmkid) \<leftarrow> process_1_of_4_pmkid key_data s;
        if \<not> ok then Some (handshake_failed (False, s))
        else do {
          (res, s) \<leftarrow> wpa_supplicant_get_pmk C src pmkid s;
          if res = -2 then Some s
          else if res \<noteq> 0 then Some (handshake_failed (False, s))
          else do {
            (ok, s) \<leftarrow> renew_nonce s;
            if \<not> ok then Some (handshake_failed (False, s))
            else map_option handshake_failed (process_1_of_4_reply C key ver s) } } })"

section \<open>Installing keys\<close>

definition wpa_supplicant_key_neg_complete :: "bytes \<Rightarrow> bool \<Rightarrow> wpa_sm \<Rightarrow> wpa_sm option" where
  "wpa_supplicant_key_neg_complete addr secure s =
     (let s = wpa_sm_set_state WPA_COMPLETED (rsn_emit Cancel_auth_timeout s);
          akm = key_mgmt (sm_conf s);
          s = (if secure then
                 let s = rsn_emit (Eapol_notify_portValid True)
                           (rsn_emit (Mlme_setprotection addr MLME_SETPROTECTION_PROTECT_TYPE_RX_TX) s);
                     s = (if wpa_key_mgmt_wpa_psk akm \<or> akm = WPA_KEY_MGMT_DPP \<or> akm = WPA_KEY_MGMT_OWE
                          then rsn_emit (Eapol_notify_eap_success True) s else s)
                 in if ctx_candidates (ctx s) then rsn_emit Start_preauth_timer s else s
               else s)
      in pmksa_accept_current s)"

text \<open>Behind a successful installation the TK is not needed any more.\<close>

definition install_ptk_done :: "u32 \<Rightarrow> wpa_sm \<Rightarrow> wpa_sm" where
  "install_ptk_done cipher s =
     (let s = rsn_emit (Store_ptk (bssid s) cipher (dot11RSNAConfigPMKLifetime s)) s;
          s = s\<lparr>ptk := (ptk s)\<lparr>tk := replicate WPA_TK_MAX_LEN 0, tk_len := 0, installed := True\<rparr>\<rparr>
      in if wpa_ptk_rekey (sm_conf s) \<noteq> 0
         then rsn_emit (Rekey_timer (wpa_ptk_rekey (sm_conf s))) (rsn_emit Cancel_rekey_timer s) else s)"

definition wpa_supplicant_install_ptk :: "wpa_eapol_key \<Rightarrow> u32 \<Rightarrow> wpa_sm \<Rightarrow> (bool \<times> wpa_sm) option" where
  "wpa_supplicant_install_ptk key flag s =
     (let cipher = pairwise_cipher (sm_conf s);
          keylen = wpa_cipher_key_len cipher
      in if installed (ptk s) then Some (True, s)
         else if cipher = WPA_CIPHER_NONE then Some (True, s)
         else if \<not> wpa_cipher_valid_pairwise cipher then Some (False, s)
         else if keylen \<le> 0 \<or> keylen \<noteq> tk_len (ptk s) then Some (False, s)
         else do {
           seq \<leftarrow> rdn (if sm_proto_rsn s then null_rsc else ek_key_rsc key) 0 (wpa_cipher_rsc_len cipher);
           k \<leftarrow> rdn (tk (ptk s)) 0 keylen;
           let (ok, s) = wpa_sm_set_key (wpa_cipher_to_alg cipher) (Some (bssid s)) (keyidx_active s) True seq k
                           (KEY_FLAG_PAIRWISE OR flag) s;
           Some (ok, if ok then install_ptk_done cipher s else s) })"

definition wpa_supplicant_activate_ptk :: "wpa_sm \<Rightarrow> bool \<times> wpa_sm" where
  "wpa_supplicant_activate_ptk s =
     wpa_sm_set_key WPA_ALG_NONE (Some (bssid s)) (keyidx_active s) False [] [] KEY_FLAG_PAIRWISE_RX_TX_MODIFY s"

definition wpa_supplicant_check_group_cipher :: "u32 \<Rightarrow> nat \<Rightarrow> nat \<Rightarrow> (nat \<times> wpa_alg) option" where
  "wpa_supplicant_check_group_cipher cipher keylen maxkeylen =
     (if wpa_cipher_to_alg cipher = WPA_ALG_NONE then None
      else if keylen \<noteq> wpa_cipher_key_len cipher \<or> maxkeylen < wpa_cipher_key_len cipher then None
      else Some (wpa_cipher_rsc_len cipher, wpa_cipher_to_alg cipher))"

record wpa_gtk_data =
  gd_alg :: wpa_alg
  gd_tx :: bool
  gd_key_rsc_len :: nat
  gd_keyidx :: u32
  gd_gtk :: bytes
  gd_gtk_len :: nat

definition zero_gd :: wpa_gtk_data where
  "zero_gd = \<lparr>gd_alg = WPA_ALG_NONE, gd_tx = False, gd_key_rsc_len = 0, gd_keyidx = 0, gd_gtk = replicate 32 0,
     gd_gtk_len = 0\<rparr>"

definition install_gtk_key :: "wpa_gtk_data \<Rightarrow> wpa_sm \<Rightarrow> bytes option" where
  "install_gtk_key gd s =
     (if group_cipher (sm_conf s) = WPA_CIPHER_TKIP then do {
        a \<leftarrow> rdn (gd_gtk gd) 0 16;
        b \<leftarrow> rdn (gd_gtk gd) 24 8;
        c \<leftarrow> rdn (gd_gtk gd) 16 8;
        rdn (a @ b @ c) 0 (gd_gtk_len gd) }
      else rdn (gd_gtk gd) 0 (gd_gtk_len gd))"

definition wpa_supplicant_install_gtk ::
  "wpa_gtk_data \<Rightarrow> bytes \<Rightarrow> bool \<Rightarrow> wpa_sm \<Rightarrow> (bool \<times> wpa_sm) option" where
  "wpa_supplicant_install_gtk gd rsc wnm_sleep s = do {
     g \<leftarrow> rdn (gd_gtk gd) 0 (gd_gtk_len gd);
     if gtk s = g \<or> gtk_wnm_sleep s = g then Some (True, s)
     else do {
       k \<leftarrow> install_gtk_key gd s;
       seq \<leftarrow> rdn rsc 0 (gd_key_rsc_len gd);
       let (ok, s) =
         (if pairwise_cipher (sm_conf s) = WPA_CIPHER_NONE
          then wpa_sm_set_key (gd_alg gd) None (gd_keyidx gd) True seq k KEY_FLAG_GROUP_RX_TX_DEFAULT s
          else wpa_sm_set_key (gd_alg gd) (Some broadcast_ether_addr) (gd_keyidx gd) (gd_tx gd) seq k KEY_FLAG_GROUP_RX s);
       if \<not> ok then Some (False, s)
       else Some (True, if wnm_sleep then s\<lparr>gtk_wnm_sleep := g\<rparr> else s\<lparr>gtk := g\<rparr>) } }"

definition wpa_supplicant_gtk_tx_bit_workaround :: "bool \<Rightarrow> wpa_sm \<Rightarrow> bool" where
  "wpa_supplicant_gtk_tx_bit_workaround tx s =
     (if tx \<and> pairwise_cipher (sm_conf s) \<noteq> WPA_CIPHER_NONE then False else tx)"

definition wpa_supplicant_rsc_relaxation :: "bytes \<Rightarrow> wpa_sm \<Rightarrow> bool option" where
  "wpa_supplicant_rsc_relaxation rsc s =
     (if \<not> wpa_rsc_relaxation (sm_conf s) then Some False
      else if wpa_cipher_rsc_len (group_cipher (sm_conf s)) = 6 then do {
        r0 \<leftarrow> rd8 rsc 0;
        r5 \<leftarrow> rd8 rsc 5;
        r6 \<leftarrow> rd8 rsc 6;
        r7 \<leftarrow> rd8 rsc 7;
        Some ((r5 \<noteq> 0 \<and> r0 = 0) \<or> r6 \<noteq> 0 \<or> r7 \<noteq> 0) }
      else Some False)"

text \<open>The RSC that goes with a group key.\<close>

definition gtk_rsc :: "wpa_eapol_key \<Rightarrow> wpa_sm \<Rightarrow> bytes option" where
  "gtk_rsc key s = map_option (\<lambda>r. if r then null_rsc else ek_key_rsc key) (wpa_supplicant_rsc_relaxation (ek_key_rsc key) s)"

text \<open>\<open>g\<close> is the GTK KDE, the data of the element: key ID, Tx bit, a reserved octet and the key.\<close>

definition wpa_supplicant_pairwise_gtk :: "wpa_eapol_key \<Rightarrow> bytes \<Rightarrow> wpa_sm \<Rightarrow> (bool \<times> wpa_sm) option" where
  "wpa_supplicant_pairwise_gtk key g s =
     (if length g < 2 \<or> length g - 2 > 32 then Some (False, s)
      else do {
        b \<leftarrow> rd8 g 0;
        gk \<leftarrow> wrn (replicate 32 0) 0 (drop 2 g);
        rsc \<leftarrow> gtk_rsc key s;
        let gd = zero_gd\<lparr>gd_keyidx := ucast (b AND 3),
                          gd_tx := wpa_supplicant_gtk_tx_bit_workaround (b AND BIT 2 \<noteq> 0) s,
                          gd_gtk := gk, gd_gtk_len := length g - 2\<rparr>;
        if group_cipher (sm_conf s) = WPA_CIPHER_GTK_NOT_USED then Some (True, s)
        else case wpa_supplicant_check_group_cipher (group_cipher (sm_conf s)) (length g - 2) (length g - 2) of
               None \<Rightarrow> Some (False, s)
             | Some (rsc_len, alg) \<Rightarrow>
                 wpa_supplicant_install_gtk (gd\<lparr>gd_key_rsc_len := rsc_len, gd_alg := alg\<rparr>) rsc False s })"

text \<open>\<open>struct wpa_igtk_kde\<close> and \<open>struct wpa_bigtk_kde\<close> at the start of a buffer: two octets of key
  ID, six of packet number, and the key. A key in use is not installed again.\<close>

definition key_in_use :: "bytes \<Rightarrow> nat \<Rightarrow> bytes \<Rightarrow> bytes \<Rightarrow> bool option" where
  "key_in_use b len k1 k2 =
     (if length k1 = len \<or> length k2 = len then map_option (\<lambda>k. k1 = k \<or> k2 = k) (rdn b 8 len) else Some False)"

definition wpa_supplicant_install_igtk :: "bytes \<Rightarrow> bool \<Rightarrow> wpa_sm \<Rightarrow> (bool \<times> wpa_sm) option" where
  "wpa_supplicant_install_igtk b wnm_sleep s = do {
     let len = wpa_cipher_key_len (mgmt_group_cipher (sm_conf s));
     keyidx \<leftarrow> WPA_GET_LE16 b 0;
     used \<leftarrow> key_in_use b len (igtk s) (igtk_wnm_sleep s);
     if used then Some (True, s)
     else if keyidx > 4095 then Some (False, s)
     else do {
       pn \<leftarrow> rdn b 2 6;
       k \<leftarrow> rdn b 8 len;
       let (ok, s) = wpa_sm_set_key (wpa_cipher_to_alg (mgmt_group_cipher (sm_conf s))) (Some broadcast_ether_addr)
                       (ucast keyidx) False pn k KEY_FLAG_GROUP_RX s;
       if \<not> ok \<and> \<not> (keyidx = 0x0400 \<or> keyidx = 0x0500) then Some (False, s)
       else Some (True, if wnm_sleep then s\<lparr>igtk_wnm_sleep := k\<rparr> else s\<lparr>igtk := k\<rparr>) } }"

definition wpa_supplicant_install_bigtk :: "bytes \<Rightarrow> bool \<Rightarrow> wpa_sm \<Rightarrow> (bool \<times> wpa_sm) option" where
  "wpa_supplicant_install_bigtk b wnm_sleep s = do {
     let len = wpa_cipher_key_len (mgmt_group_cipher (sm_conf s));
     keyidx \<leftarrow> WPA_GET_LE16 b 0;
     used \<leftarrow> key_in_use b len (bigtk s) (bigtk_wnm_sleep s);
     if used then Some (True, s)
     else if keyidx < 6 \<or> keyidx > 7 then Some (False, s)
     else do {
       pn \<leftarrow> rdn b 2 6;
       k \<leftarrow> rdn b 8 len;
       let (ok, s) = wpa_sm_set_key (wpa_cipher_to_alg (mgmt_group_cipher (sm_conf s))) (Some broadcast_ether_addr)
                       (ucast keyidx) False pn k KEY_FLAG_GROUP_RX s;
       if \<not> ok then Some (False, s)
       else Some (True, if wnm_sleep then s\<lparr>bigtk_wnm_sleep := k\<rparr> else s\<lparr>bigtk := k\<rparr>) } }"

definition ie_slice :: "bytes \<Rightarrow> slice option \<Rightarrow> bytes option option" where
  "ie_slice b x = (case x of None \<Rightarrow> Some None | Some (p, n) \<Rightarrow> map_option Some (rdn b p n))"

definition ieee80211w_set_igtk :: "bytes \<Rightarrow> wpa_eapol_ie_parse \<Rightarrow> wpa_sm \<Rightarrow> (bool \<times> wpa_sm) option" where
  "ieee80211w_set_igtk key_data ie s = do {
     i \<leftarrow> ie_slice key_data (ie_igtk ie);
     case i of None \<Rightarrow> Some (True, s)
     | Some b \<Rightarrow> if length b \<noteq> WPA_IGTK_KDE_PREFIX_LEN + wpa_cipher_key_len (mgmt_group_cipher (sm_conf s))
                 then Some (False, s) else wpa_supplicant_install_igtk b False s }"

definition ieee80211w_set_bigtk :: "bytes \<Rightarrow> wpa_eapol_ie_parse \<Rightarrow> wpa_sm \<Rightarrow> (bool \<times> wpa_sm) option" where
  "ieee80211w_set_bigtk key_data ie s = do {
     i \<leftarrow> ie_slice key_data (ie_bigtk ie);
     case i of None \<Rightarrow> Some (True, s)
     | Some b \<Rightarrow> if \<not> beacon_prot (sm_conf s) then Some (True, s)
                 else if length b \<noteq> WPA_BIGTK_KDE_PREFIX_LEN + wpa_cipher_key_len (mgmt_group_cipher (sm_conf s))
                 then Some (False, s) else wpa_supplicant_install_bigtk b False s }"

definition ieee80211w_set_keys :: "bytes \<Rightarrow> wpa_eapol_ie_parse \<Rightarrow> wpa_sm \<Rightarrow> (bool \<times> wpa_sm) option" where
  "ieee80211w_set_keys key_data ie s =
     (let cipher = mgmt_group_cipher (sm_conf s)
      in if \<not> wpa_cipher_valid_mgmt_group cipher \<or> cipher = WPA_CIPHER_GTK_NOT_USED then Some (True, s)
         else do {
           (ok, s) \<leftarrow> ieee80211w_set_igtk key_data ie s;
           if \<not> ok then Some (False, s) else ieee80211w_set_bigtk key_data ie s })"

section \<open>Messages 3 and 4 of the 4-way handshake\<close>

definition wpa_handle_ext_key_id :: "bytes \<Rightarrow> wpa_eapol_ie_parse \<Rightarrow> wpa_sm \<Rightarrow> (bool \<times> wpa_sm) option" where
  "wpa_handle_ext_key_id key_data ie s = do {
     k \<leftarrow> (case ie_key_id ie of None \<Rightarrow> Some None | Some p \<Rightarrow> map_option (\<lambda>x. Some (x AND 3)) (rd8 key_data p));
     if ext_key_id (sm_conf s) then
       case k of None \<Rightarrow> Some (\<not> use_ext_key_id s, s\<lparr>keyidx_active := 0\<rparr>)
       | Some x \<Rightarrow> if x > 1 then Some (False, s)
                   else Some (True, s\<lparr>keyidx_active := ucast x, use_ext_key_id := True\<rparr>)
     else if k \<noteq> None \<and> k \<noteq> Some 0 then Some (False, s)
     else Some (True, s\<lparr>keyidx_active := 0, use_ext_key_id := False\<rparr>) }"

definition wpa_report_ie_mismatch :: "wpa_sm \<Rightarrow> wpa_sm" where
  "wpa_report_ie_mismatch s = wpa_sm_deauthenticate WLAN_REASON_IE_IN_4WAY_DIFFERS s"

definition wpa_sm_get_beacon_ie :: "wpa_sm \<Rightarrow> bool \<times> wpa_sm" where
  "wpa_sm_get_beacon_ie s = (fst (ctx_beacon (ctx s)), s\<lparr>ap := snd (ctx_beacon (ctx s))\<rparr>)"

definition wpa_supplicant_validate_ie :: "bytes \<Rightarrow> wpa_eapol_ie_parse \<Rightarrow> wpa_sm \<Rightarrow> (bool \<times> wpa_sm) option" where
  "wpa_supplicant_validate_ie key_data ie s = do {
     let (found, s) = (if ap_wpa_ie (ap s) = None \<and> ap_rsn_ie (ap s) = None then wpa_sm_get_beacon_ie s else (True, s));
     if \<not> found then Some (False, s)
     else do {
       wpa_ie \<leftarrow> ie_slice key_data (ie_wpa_ie ie);
       rsn_ie \<leftarrow> ie_slice key_data (ie_rsn_ie ie);
       rsnxe \<leftarrow> ie_slice key_data (ie_rsnxe ie);
       over \<leftarrow> ie_slice key_data (ie_rsne_override ie);
       over2 \<leftarrow> ie_slice key_data (ie_rsne_override_2 ie);
       xover \<leftarrow> ie_slice key_data (ie_rsnxe_override ie);
       let a = ap s;
       let pr = proto (sm_conf s);
       if wpa_ie = None \<and> rsn_ie = None \<and> (ap_wpa_ie a \<noteq> None \<or> ap_rsn_ie a \<noteq> None)
       then Some (False, wpa_report_ie_mismatch s)
       else if (wpa_ie \<noteq> None \<and> ap_wpa_ie a \<noteq> None \<and> wpa_ie \<noteq> ap_wpa_ie a) \<or>
               (rsn_ie \<noteq> None \<and> ap_rsn_ie a \<noteq> None \<and> \<not> wpa_compare_rsn_ie (ap_rsn_ie a) rsn_ie)
       then Some (False, wpa_report_ie_mismatch s)
       else if pr = WPA_PROTO_WPA \<and> rsn_ie \<noteq> None \<and> ap_rsn_ie a = None \<and> rsn_enabled (sm_conf s)
       then Some (False, wpa_report_ie_mismatch s)
       else if pr = WPA_PROTO_RSN \<and> ap_rsnxe a \<noteq> rsnxe
       then Some (False, wpa_sm_deauthenticate WLAN_REASON_IE_IN_4WAY_DIFFERS s)
       else if pr = WPA_PROTO_RSN \<and> wpa_sm_rsn_overriding_supported s \<and>
               (ap_rsne_override a \<noteq> over \<or> ap_rsne_override_2 a \<noteq> over2 \<or> ap_rsnxe_override a \<noteq> xover)
       then Some (False, wpa_sm_deauthenticate WLAN_REASON_IE_IN_4WAY_DIFFERS s)
       else Some (True, s) } }"

definition wpa_supplicant_send_4_of_4 ::
  "'z wpa_crypto_scheme \<Rightarrow> bytes \<Rightarrow> wpa_eapol_key \<Rightarrow> u16 \<Rightarrow> u16 \<Rightarrow> wpa_ptk \<Rightarrow> wpa_sm \<Rightarrow> (bool \<times> wpa_sm) option" where
  "wpa_supplicant_send_4_of_4 C dst key ver info p s =
     (let mic_len = wpa_mic_len (key_mgmt (sm_conf s)) (pmk_len s)
      in case wpa_alloc_eapol IEEE802_1X_TYPE_EAPOL_KEY (sizeof_wpa_eapol_key + mic_len + 2) s of
           (None, s) \<Rightarrow> Some (False, s)
         | (Some rbuf, s) \<Rightarrow> do {
             let info = (info AND WPA_KEY_INFO_SECURE) OR ver OR WPA_KEY_INFO_KEY_TYPE OR
                   (if mic_len \<noteq> 0 then WPA_KEY_INFO_MIC else WPA_KEY_INFO_ENCR_KEY_DATA);
             rbuf \<leftarrow> eapol_key_reply s info (reply_key_length key s) (ek_replay_counter key) mic_len [] rbuf;
             wpa_eapol_key_send C p ver dst rbuf True s })"

text \<open>The handler for message 3 in three parts: the checks, the reply with the installation of the
  PTK, and the group keys. A part is given the state and returns whether the code goes on.\<close>

definition process_3_of_4_check ::
  "wpa_eapol_key \<Rightarrow> bytes \<Rightarrow> wpa_eapol_ie_parse \<Rightarrow> wpa_sm \<Rightarrow> (bool \<times> wpa_sm) option" where
  "process_3_of_4_check key key_data ie s =
     (let encr = info_bit (ek_key_info key) WPA_KEY_INFO_ENCR_KEY_DATA;
          mgmt = mgmt_group_cipher (sm_conf s)
      in if ie_gtk ie \<noteq> None \<and> \<not> encr then Some (False, s)
         else if ie_igtk ie \<noteq> None \<and> \<not> encr then Some (False, s)
         else if mgmt \<noteq> WPA_CIPHER_GTK_NOT_USED \<and> wpa_cipher_valid_mgmt_group mgmt \<and>
                 (case ie_igtk ie of None \<Rightarrow> False | Some x \<Rightarrow> snd x \<noteq> WPA_IGTK_KDE_PREFIX_LEN + wpa_cipher_key_len mgmt)
         then Some (False, s)
         else do {
           (ok, s) \<leftarrow> wpa_supplicant_validate_ie key_data ie s;
           if \<not> ok then Some (False, s)
           else do {
             (ok, s) \<leftarrow> wpa_handle_ext_key_id key_data ie s;
             if \<not> ok then Some (False, s)
             else if anonce s \<noteq> ek_key_nonce key then Some (False, s)
             else do {
               keylen \<leftarrow> WPA_GET_BE16 (ek_key_length key) 0;
               Some (unat keylen = wpa_cipher_key_len (pairwise_cipher (sm_conf s)), s) } } })"

text \<open>With an Extended Key ID the PTK is installed for reception before the reply and activated
  behind it, otherwise it is installed behind the reply.\<close>

definition process_3_of_4_early :: "wpa_eapol_key \<Rightarrow> wpa_sm \<Rightarrow> (bool \<times> wpa_sm) option" where
  "process_3_of_4_early key s =
     (if use_ext_key_id s then wpa_supplicant_install_ptk key KEY_FLAG_RX s else Some (True, s))"

definition process_3_of_4_install :: "wpa_eapol_key \<Rightarrow> wpa_sm \<Rightarrow> (bool \<times> wpa_sm) option" where
  "process_3_of_4_install key s =
     (if info_bit (ek_key_info key) WPA_KEY_INFO_INSTALL
      then if use_ext_key_id s then Some (wpa_supplicant_activate_ptk s)
           else wpa_supplicant_install_ptk key KEY_FLAG_RX_TX s
      else Some (True, s))"

definition process_3_of_4_secure :: "wpa_eapol_key \<Rightarrow> wpa_sm \<Rightarrow> wpa_sm" where
  "process_3_of_4_secure key s =
     (if info_bit (ek_key_info key) WPA_KEY_INFO_SECURE
      then rsn_emit (Eapol_notify_portValid True)
             (rsn_emit (Mlme_setprotection (bssid s) MLME_SETPROTECTION_PROTECT_TYPE_RX) s)
      else s)"

definition process_3_of_4_ptk ::
  "'z wpa_crypto_scheme \<Rightarrow> wpa_eapol_key \<Rightarrow> u16 \<Rightarrow> wpa_sm \<Rightarrow> (bool \<times> wpa_sm) option" where
  "process_3_of_4_ptk C key ver s = do {
     (ok, s) \<leftarrow> process_3_of_4_early key s;
     if \<not> ok then Some (False, s)
     else do {
       (ok, s) \<leftarrow> wpa_supplicant_send_4_of_4 C (bssid s) key ver (ek_key_info key) (ptk s) s;
       if \<not> ok then Some (False, s)
       else do {
         (ok, s) \<leftarrow> process_3_of_4_install key (s\<lparr>renew_snonce := True\<rparr>);
         if \<not> ok then Some (False, s)
         else Some (True, wpa_sm_set_state WPA_GROUP_HANDSHAKE (process_3_of_4_secure key s)) } } }"

definition wpa_sm_set_rekey_offload :: "wpa_sm \<Rightarrow> wpa_sm" where
  "wpa_sm_set_rekey_offload s =
     rsn_emit (Set_rekey_offload (take (kek_len (ptk s)) (kek (ptk s))) (take (kck_len (ptk s)) (kck (ptk s)))
       (rx_replay_counter s)) s"

text \<open>The PMKSA entry of the Suite B suites, whose PMKID needs the KCK.\<close>

definition process_3_of_4_suite_b :: "'z wpa_crypto_scheme \<Rightarrow> wpa_sm \<Rightarrow> wpa_sm option" where
  "process_3_of_4_suite_b C s =
     (if proto (sm_conf s) = WPA_PROTO_RSN \<and> wpa_key_mgmt_suite_b (key_mgmt (sm_conf s)) \<and> cur_pmksa s = None then do {
        k \<leftarrow> rdn (kck (ptk s)) 0 (kck_len (ptk s));
        (sa, s) \<leftarrow> pmksa_cache_add C (pmk s) None (Some k) (bssid s) (own_addr s) (network_ctx (sm_conf s))
                    (key_mgmt (sm_conf s)) None s;
        Some (if cur_pmksa s = None then s\<lparr>cur_pmksa := sa\<rparr> else s) }
      else Some s)"

definition process_3_of_4_gtk :: "wpa_eapol_key \<Rightarrow> bytes option \<Rightarrow> wpa_sm \<Rightarrow> (bool \<times> wpa_sm) option" where
  "process_3_of_4_gtk key g s =
     (if group_cipher (sm_conf s) = WPA_CIPHER_GTK_NOT_USED then Some (True, s)
      else case g of None \<Rightarrow> Some (proto (sm_conf s) \<noteq> WPA_PROTO_RSN, s)
           | Some b \<Rightarrow> wpa_supplicant_pairwise_gtk key b s)"

definition process_3_of_4_done ::
  "'z wpa_crypto_scheme \<Rightarrow> wpa_eapol_key \<Rightarrow> bytes option \<Rightarrow> u8 option \<Rightarrow> wpa_sm \<Rightarrow> wpa_sm option" where
  "process_3_of_4_done C key g td s = do {
     s \<leftarrow> (if group_cipher (sm_conf s) = WPA_CIPHER_GTK_NOT_USED \<or> g \<noteq> None
           then wpa_supplicant_key_neg_complete (bssid s) (info_bit (ek_key_info key) WPA_KEY_INFO_SECURE) s
           else Some s);
     s \<leftarrow> process_3_of_4_suite_b C (if g \<noteq> None then wpa_sm_set_rekey_offload s else s);
     let s = (case td of None \<Rightarrow> s | Some b \<Rightarrow> rsn_emit (Transition_disable b) s);
     Some (s\<lparr>msg_3_of_4_ok := True\<rparr>) }"

definition process_3_of_4_group ::
  "'z wpa_crypto_scheme \<Rightarrow> wpa_eapol_key \<Rightarrow> bytes \<Rightarrow> wpa_eapol_ie_parse \<Rightarrow> wpa_sm \<Rightarrow> (bool \<times> wpa_sm) option" where
  "process_3_of_4_group C key key_data ie s = do {
     g \<leftarrow> ie_slice key_data (ie_gtk ie);
     (ok, s) \<leftarrow> process_3_of_4_gtk key g s;
     if \<not> ok then Some (False, s)
     else do {
       (ok, s) \<leftarrow> ieee80211w_set_keys key_data ie s;
       if \<not> ok then Some (False, s)
       else do {
         td \<leftarrow> (case ie_transition_disable ie of None \<Rightarrow> Some None
                | Some x \<Rightarrow> map_option Some (rd8 key_data (fst x)));
         map_option (Pair True) (process_3_of_4_done C key g td s) } } }"

definition wpa_supplicant_process_3_of_4 ::
  "'z wpa_crypto_scheme \<Rightarrow> wpa_eapol_key \<Rightarrow> u16 \<Rightarrow> bytes \<Rightarrow> wpa_sm \<Rightarrow> wpa_sm option" where
  "wpa_supplicant_process_3_of_4 C key ver key_data s = do {
     let s = wpa_sm_set_state WPA_4WAY_HANDSHAKE s;
     (ok, ie) \<leftarrow> wpa_supplicant_parse_ies key_data;
     if \<not> ok then Some (handshake_failed (False, s))
     else do {
       (ok, s) \<leftarrow> process_3_of_4_check key key_data ie s;
       if \<not> ok then Some (handshake_failed (False, s))
       else do {
         (ok, s) \<leftarrow> process_3_of_4_ptk C key ver s;
         if \<not> ok then Some (handshake_failed (False, s))
         else map_option handshake_failed (process_3_of_4_group C key key_data ie s) } } }"

section \<open>The group key handshake\<close>

text \<open>The result of the two ways to get the group key out of message 1: the key data, or
  \<^const>\<open>None\<close> for a failure.\<close>

definition wpa_supplicant_process_1_of_2_rsn ::
  "bytes \<Rightarrow> u16 \<Rightarrow> wpa_sm \<Rightarrow> (wpa_gtk_data option \<times> wpa_sm) option" where
  "wpa_supplicant_process_1_of_2_rsn key_data info s = do {
     (ok, ie) \<leftarrow> wpa_supplicant_parse_ies key_data;
     if \<not> ok then Some (None, s)
     else do {
       g \<leftarrow> ie_slice key_data (ie_gtk ie);
       case g of None \<Rightarrow> Some (None, s)
       | Some b \<Rightarrow>
           if \<not> info_bit info WPA_KEY_INFO_ENCR_KEY_DATA then Some (None, s)
           else if length b < 2 then Some (None, s)
           else if length b - 2 > 32 then Some (None, s)
           else case wpa_supplicant_check_group_cipher (group_cipher (sm_conf s)) (length b - 2) (length b - 2) of
                  None \<Rightarrow> Some (None, s)
                | Some (rsc_len, alg) \<Rightarrow> do {
                    x \<leftarrow> rd8 b 0;
                    gk \<leftarrow> wrn (replicate 32 0) 0 (drop 2 b);
                    let gd = \<lparr>gd_alg = alg, gd_tx = wpa_supplicant_gtk_tx_bit_workaround (x AND BIT 2 \<noteq> 0) s,
                              gd_key_rsc_len = rsc_len, gd_keyidx = ucast (x AND 3), gd_gtk = gk,
                              gd_gtk_len = length b - 2\<rparr>;
                    (ok, s) \<leftarrow> ieee80211w_set_keys key_data ie s;
                    Some (Some gd, s) } } }"

definition process_1_of_2_wpa_gtk ::
  "'z wpa_crypto_scheme \<Rightarrow> wpa_eapol_key \<Rightarrow> bytes \<Rightarrow> u16 \<Rightarrow> nat \<Rightarrow> wpa_sm \<Rightarrow> bytes option option" where
  "process_1_of_2_wpa_gtk C key key_data ver maxkeylen s =
     (if ver = WPA_KEY_INFO_TYPE_HMAC_MD5_RC4 \<and> kek_len (ptk s) = 16 then
        if length key_data > 32 then Some None
        else do {
          k \<leftarrow> rdn (kek (ptk s)) 0 16;
          d \<leftarrow> rc4_skip (ek_key_iv key @ k) 256 key_data;
          map_option Some (wrn (replicate 32 0) 0 d) }
      else if ver = WPA_KEY_INFO_TYPE_HMAC_SHA1_AES then
        if maxkeylen mod 8 \<noteq> 0 then Some None
        else if maxkeylen > 32 then Some None
        else do {
          k \<leftarrow> rdn (kek (ptk s)) 0 (kek_len (ptk s));
          r \<leftarrow> aes_unwrap C k (maxkeylen div 8) key_data;
          case r of None \<Rightarrow> Some None | Some d \<Rightarrow> map_option Some (wrn (replicate 32 0) 0 d) }
      else Some None)"

definition wpa_supplicant_process_1_of_2_wpa ::
  "'z wpa_crypto_scheme \<Rightarrow> wpa_eapol_key \<Rightarrow> bytes \<Rightarrow> u16 \<Rightarrow> u16 \<Rightarrow> wpa_sm \<Rightarrow> wpa_gtk_data option option" where
  "wpa_supplicant_process_1_of_2_wpa C key key_data info ver s = do {
     gtk_len \<leftarrow> WPA_GET_BE16 (ek_key_length key) 0;
     if ver = WPA_KEY_INFO_TYPE_HMAC_SHA1_AES \<and> length key_data < 8 then Some None
     else
       let maxkeylen = (if ver = WPA_KEY_INFO_TYPE_HMAC_SHA1_AES then length key_data - 8 else length key_data)
       in if unat gtk_len > maxkeylen then Some None
          else case wpa_supplicant_check_group_cipher (group_cipher (sm_conf s)) (unat gtk_len) maxkeylen of
                 None \<Rightarrow> Some None
               | Some (rsc_len, alg) \<Rightarrow> do {
                   g \<leftarrow> process_1_of_2_wpa_gtk C key key_data ver maxkeylen s;
                   Some (map_option (\<lambda>gk. \<lparr>gd_alg = alg,
                     gd_tx = wpa_supplicant_gtk_tx_bit_workaround (info_bit info WPA_KEY_INFO_TXRX) s,
                     gd_key_rsc_len = rsc_len,
                     gd_keyidx = ucast (drop_bit WPA_KEY_INFO_KEY_INDEX_SHIFT (info AND WPA_KEY_INFO_KEY_INDEX_MASK)),
                     gd_gtk = gk, gd_gtk_len = unat gtk_len\<rparr>) g) } }"

definition wpa_supplicant_send_2_of_2 ::
  "'z wpa_crypto_scheme \<Rightarrow> wpa_eapol_key \<Rightarrow> u16 \<Rightarrow> u16 \<Rightarrow> wpa_sm \<Rightarrow> (bool \<times> wpa_sm) option" where
  "wpa_supplicant_send_2_of_2 C key ver info s =
     (let mic_len = wpa_mic_len (key_mgmt (sm_conf s)) (pmk_len s)
      in case wpa_alloc_eapol IEEE802_1X_TYPE_EAPOL_KEY (sizeof_wpa_eapol_key + mic_len + 2) s of
           (None, s) \<Rightarrow> Some (False, s)
         | (Some rbuf, s) \<Rightarrow> do {
             let info = (info AND WPA_KEY_INFO_KEY_INDEX_MASK) OR ver OR WPA_KEY_INFO_SECURE OR
                   (if mic_len \<noteq> 0 then WPA_KEY_INFO_MIC else WPA_KEY_INFO_ENCR_KEY_DATA);
             rbuf \<leftarrow> eapol_key_reply s info (reply_key_length key s) (ek_replay_counter key) mic_len [] rbuf;
             wpa_eapol_key_send C (ptk s) ver (bssid s) rbuf True s })"

definition process_1_of_2_install ::
  "'z wpa_crypto_scheme \<Rightarrow> wpa_eapol_key \<Rightarrow> u16 \<Rightarrow> wpa_gtk_data \<Rightarrow> bool \<Rightarrow> wpa_sm \<Rightarrow> (bool \<times> wpa_sm) option" where
  "process_1_of_2_install C key ver gd rekey s = do {
     rsc \<leftarrow> gtk_rsc key s;
     (ok, s) \<leftarrow> wpa_supplicant_install_gtk gd rsc False s;
     if \<not> ok then Some (False, s)
     else do {
       (ok, s) \<leftarrow> wpa_supplicant_send_2_of_2 C key ver (ek_key_info key) s;
       if \<not> ok then Some (False, s)
       else do {
         s \<leftarrow> (if rekey then Some (wpa_sm_set_state WPA_COMPLETED (rsn_emit Cancel_auth_timeout s))
               else wpa_supplicant_key_neg_complete (bssid s) (info_bit (ek_key_info key) WPA_KEY_INFO_SECURE) s);
         Some (True, wpa_sm_set_rekey_offload s) } } }"

definition wpa_supplicant_process_1_of_2 ::
  "'z wpa_crypto_scheme \<Rightarrow> wpa_eapol_key \<Rightarrow> bytes \<Rightarrow> u16 \<Rightarrow> wpa_sm \<Rightarrow> wpa_sm option" where
  "wpa_supplicant_process_1_of_2 C key key_data ver s =
     (if \<not> msg_3_of_4_ok s then Some (handshake_failed (False, s))
      else do {
        let rekey = (wpa_state s = WPA_COMPLETED);
        (g, s) \<leftarrow> (if sm_proto_rsn s then wpa_supplicant_process_1_of_2_rsn key_data (ek_key_info key) s
                   else map_option (\<lambda>g. (g, s)) (wpa_supplicant_process_1_of_2_wpa C key key_data (ek_key_info key) ver s));
        let s = wpa_sm_set_state WPA_GROUP_HANDSHAKE s;
        case g of None \<Rightarrow> Some (handshake_failed (False, s))
        | Some gd \<Rightarrow> map_option handshake_failed (process_1_of_2_install C key ver gd rekey s) })"

section \<open>Received EAPOL-Key frames\<close>

text \<open>One check of the MIC: the MIC field is cleared, the MIC of the whole frame is written to
  it and compared with the received one. The result is whether they agree, and the buffer.\<close>

definition check_mic ::
  "'z wpa_crypto_scheme \<Rightarrow> wpa_ptk \<Rightarrow> u32 \<Rightarrow> u16 \<Rightarrow> nat \<Rightarrow> bytes \<Rightarrow> bytes \<Rightarrow> (bool \<times> bytes) option" where
  "check_mic C p akmp ver mic_len mic buf = do {
     buf \<leftarrow> wrn buf off_mic (replicate mic_len 0);
     r \<leftarrow> wpa_eapol_key_mic C (kck p) (kck_len p) akmp ver buf;
     case r of None \<Rightarrow> Some (False, buf)
     | Some m \<Rightarrow> do {
         buf \<leftarrow> wrn buf off_mic m;
         x \<leftarrow> rdn buf off_mic mic_len;
         Some (x = mic, buf) } }"

definition wpa_supplicant_verify_eapol_key_mic ::
  "'z wpa_crypto_scheme \<Rightarrow> wpa_eapol_key \<Rightarrow> u16 \<Rightarrow> bytes \<Rightarrow> wpa_sm \<Rightarrow> (bool \<times> bytes \<times> wpa_sm) option" where
  "wpa_supplicant_verify_eapol_key_mic C key ver buf s = do {
     let akmp = key_mgmt (sm_conf s);
     let mic_len = wpa_mic_len akmp (pmk_len s);
     mic \<leftarrow> rdn buf off_mic mic_len;
     (ok, buf) \<leftarrow> (if tptk_set s then check_mic C (tptk s) akmp ver mic_len mic buf else Some (False, buf));
     let s = (if ok then s\<lparr>tptk_set := False, ptk_set := True, ptk := tptk s, tptk := zero_ptk, renew_snonce := True\<rparr>
              else s);
     (ok, buf) \<leftarrow> (if \<not> ok \<and> ptk_set s then check_mic C (ptk s) akmp ver mic_len mic buf else Some (ok, buf));
     if \<not> ok then Some (False, buf, s)
     else Some (True, buf, s\<lparr>rx_replay_counter := ek_replay_counter key, rx_replay_counter_set := True\<rparr>) }"

text \<open>The result is the decrypted key data, or \<^const>\<open>None\<close> for a failure.\<close>

definition wpa_supplicant_decrypt_key_data ::
  "'z wpa_crypto_scheme \<Rightarrow> wpa_eapol_key \<Rightarrow> u16 \<Rightarrow> bytes \<Rightarrow> wpa_sm \<Rightarrow> (bytes option \<times> wpa_sm) option" where
  "wpa_supplicant_decrypt_key_data C key ver key_data s =
     (if \<not> ptk_set s then Some (None, s)
      else if ver = WPA_KEY_INFO_TYPE_HMAC_MD5_RC4 \<and> kek_len (ptk s) = 16 then do {
        k \<leftarrow> rdn (kek (ptk s)) 0 16;
        d \<leftarrow> rc4_skip (ek_key_iv key @ k) 256 key_data;
        Some (Some d, s) }
      else if ver = WPA_KEY_INFO_TYPE_HMAC_SHA1_AES \<or> ver = WPA_KEY_INFO_TYPE_AES_128_CMAC \<or>
              wpa_use_aes_key_wrap (key_mgmt (sm_conf s)) then
        if length key_data < 8 \<or> length key_data mod 8 \<noteq> 0 then Some (None, s)
        else
          let (ok, s) = rsn_ask s
          in if \<not> ok then Some (None, s)
             else do {
               k \<leftarrow> rdn (kek (ptk s)) 0 (kek_len (ptk s));
               d \<leftarrow> aes_unwrap C k ((length key_data - 8) div 8) key_data;
               Some (d, s) }
      else Some (None, s))"

text \<open>The version of the key descriptor that the configuration admits.\<close>

definition rx_ver_ok :: "u16 \<Rightarrow> wpa_sm_conf \<Rightarrow> bool" where
  "rx_ver_ok info c \<longleftrightarrow>
     (let ver = info AND WPA_KEY_INFO_TYPE_MASK;
          akm = key_mgmt c;
          defined = wpa_use_akm_defined akm
      in (ver = WPA_KEY_INFO_TYPE_HMAC_MD5_RC4 \<or> ver = WPA_KEY_INFO_TYPE_AES_128_CMAC \<or>
          ver = WPA_KEY_INFO_TYPE_HMAC_SHA1_AES \<or> defined) \<and>
         (defined \<longrightarrow> ver = WPA_KEY_INFO_TYPE_AKM_DEFINED) \<and>
         (if wpa_key_mgmt_sha256 akm then ver = WPA_KEY_INFO_TYPE_AES_128_CMAC \<or> defined
          else if pairwise_cipher c = WPA_CIPHER_CCMP \<and> \<not> defined \<and> ver \<noteq> WPA_KEY_INFO_TYPE_HMAC_SHA1_AES
          then (group_cipher c \<noteq> WPA_CIPHER_CCMP \<and> \<not> info_bit info WPA_KEY_INFO_KEY_TYPE) \<or>
               ver = WPA_KEY_INFO_TYPE_AES_128_CMAC
          else \<not> (pairwise_cipher c = WPA_CIPHER_GCMP \<and> \<not> defined \<and> ver \<noteq> WPA_KEY_INFO_TYPE_HMAC_SHA1_AES)))"

text \<open>What the code does with an authenticated or plain frame; 1 when it was processed, -1
  when it is dropped.\<close>

definition rx_eapol_dispatch ::
  "'z wpa_crypto_scheme \<Rightarrow> bytes \<Rightarrow> wpa_eapol_key \<Rightarrow> nat \<Rightarrow> bytes \<Rightarrow> wpa_sm \<Rightarrow> (int \<times> wpa_sm) option" where
  "rx_eapol_dispatch C src key mic_len key_data s =
     (let info = ek_key_info key;
          ver = info AND WPA_KEY_INFO_TYPE_MASK;
          mic = info_bit info WPA_KEY_INFO_MIC;
          encr = info_bit info WPA_KEY_INFO_ENCR_KEY_DATA
      in if info_bit info WPA_KEY_INFO_KEY_TYPE then
           if info_bit info WPA_KEY_INFO_KEY_INDEX_MASK then Some (-1, s)
           else if mic \<or> encr then map_option (Pair 1) (wpa_supplicant_process_3_of_4 C key ver key_data s)
           else map_option (Pair 1) (wpa_supplicant_process_1_of_4 C src key ver key_data s)
         else if (mic_len \<noteq> 0 \<and> mic) \<or> (mic_len = 0 \<and> encr)
         then map_option (Pair 1) (wpa_supplicant_process_1_of_2 C key key_data ver s)
         else Some (1, s))"

text \<open>The checks of a frame, its authentication and the decryption of its key data: the key data,
  or \<^const>\<open>None\<close> for a frame that is dropped.\<close>

definition rx_eapol_open ::
  "'z wpa_crypto_scheme \<Rightarrow> bytes \<Rightarrow> wpa_eapol_key \<Rightarrow> nat \<Rightarrow> nat \<Rightarrow> wpa_sm \<Rightarrow> (bytes option \<times> wpa_sm) option" where
  "rx_eapol_open C tmp key mic_len kdl s = do {
     let info = ek_key_info key;
     let ver = info AND WPA_KEY_INFO_TYPE_MASK;
     let s = rsn_emit Eapol_notify_lower_layer_success s;
     if \<not> rx_ver_ok info (sm_conf s) then Some (None, s)
     else if rx_replay_counter_set s \<and> os_memcmp (ek_replay_counter key) (rx_replay_counter s) \<le> 0 then Some (None, s)
     else if info_bit info WPA_KEY_INFO_SMK_MESSAGE then Some (None, s)
     else if \<not> info_bit info WPA_KEY_INFO_ACK then Some (None, s)
     else if info_bit info WPA_KEY_INFO_REQUEST then Some (None, s)
     else do {
       (ok, tmp, s) \<leftarrow> (if info_bit info WPA_KEY_INFO_MIC then wpa_supplicant_verify_eapol_key_mic C key ver tmp s
                        else Some (True, tmp, s));
       if \<not> ok then Some (None, s)
       else do {
         key_data \<leftarrow> rdn tmp (off_mic + mic_len + 2) kdl;
         if sm_proto_rsn s \<and> info_bit info WPA_KEY_INFO_ENCR_KEY_DATA \<and> mic_len \<noteq> 0 then
           if \<not> info_bit info WPA_KEY_INFO_MIC then Some (None, s)
           else wpa_supplicant_decrypt_key_data C key ver key_data s
         else Some (Some key_data, s) } } }"

text \<open>The checks of the headers on the copy \<open>tmp\<close> of the frame: the value to return, or the copy
  with the key descriptor and the length of the key data.\<close>

definition rx_eapol_mic_len :: "wpa_sm \<Rightarrow> nat option" where
  "rx_eapol_mic_len s = do {
     n \<leftarrow> (case cur_pmksa s of Some c \<Rightarrow> if pmk s = [] then map_option (\<lambda>e. length (pe_pmk e)) (pmksa_heap s c)
                                         else Some (pmk_len s)
           | None \<Rightarrow> Some (pmk_len s));
     Some (wpa_mic_len (key_mgmt (sm_conf s)) n) }"

definition rx_eapol_frame ::
  "bytes \<Rightarrow> nat \<Rightarrow> wpa_sm \<Rightarrow> ((int + bytes \<times> wpa_eapol_key \<times> nat) \<times> wpa_sm) option" where
  "rx_eapol_frame buf mic_len s = do {
     let keyhdrlen = sizeof_wpa_eapol_key + mic_len + 2;
     if length buf < sizeof_ieee802_1x_hdr + keyhdrlen then Some (Inl 0, s)
     else do {
       ty \<leftarrow> rd8 buf 1;
       plen \<leftarrow> WPA_GET_BE16 buf 2;
       if ty \<noteq> IEEE802_1X_TYPE_EAPOL_KEY then Some (Inl 0, s)
       else if unat plen > length buf - sizeof_ieee802_1x_hdr \<or> unat plen < keyhdrlen then Some (Inl 0, s)
       else
         let (ok, s) = rsn_ask s
         in if \<not> ok then Some (Inl (-1), s)
            else do {
              tmp \<leftarrow> rdn buf 0 (unat plen + sizeof_ieee802_1x_hdr);
              key \<leftarrow> eapol_key_at tmp;
              if ek_type key \<noteq> EAPOL_KEY_TYPE_WPA \<and> ek_type key \<noteq> EAPOL_KEY_TYPE_RSN then Some (Inl 0, s)
              else do {
                kdl \<leftarrow> WPA_GET_BE16 tmp (off_mic + mic_len);
                if unat kdl > unat plen - keyhdrlen then Some (Inl (-1), s)
                else Some (Inr (tmp, key, unat kdl), s) } } } }"

text \<open>The result is 1 for a frame that was processed, 0 for a frame that is not a WPA EAPOL-Key
  frame, -1 for a failure.\<close>

definition wpa_sm_rx_eapol :: "'z wpa_crypto_scheme \<Rightarrow> bytes \<Rightarrow> bytes \<Rightarrow> wpa_sm \<Rightarrow> (int \<times> wpa_sm) option" where
  "wpa_sm_rx_eapol C src buf s = do {
     mic_len \<leftarrow> rx_eapol_mic_len s;
     (r, s) \<leftarrow> rx_eapol_frame buf mic_len s;
     case r of Inl v \<Rightarrow> Some (v, s)
     | Inr (tmp, key, kdl) \<Rightarrow> do {
         (d, s) \<leftarrow> rx_eapol_open C tmp key mic_len kdl s;
         case d of None \<Rightarrow> Some (-1, s) | Some key_data \<Rightarrow> rx_eapol_dispatch C src key mic_len key_data s } }"

section \<open>Association, configuration and keys from outside\<close>

definition wpa_sm_drop_sa :: "wpa_sm \<Rightarrow> wpa_sm" where
  "wpa_sm_drop_sa s =
     s\<lparr>ptk_set := False, tptk_set := False, pmk := [], ptk := zero_ptk, tptk := zero_ptk,
       gtk := [], gtk_wnm_sleep := [], igtk := [], igtk_wnm_sleep := []\<rparr>"

definition wpa_sm_notify_assoc :: "bytes \<Rightarrow> wpa_sm \<Rightarrow> wpa_sm" where
  "wpa_sm_notify_assoc bss s =
     (let s = s\<lparr>bssid := bss, rx_replay_counter := replicate WPA_REPLAY_COUNTER_LEN 0, rx_replay_counter_set := False,
                renew_snonce := True\<rparr>;
          s = (if ctx_preauth_bssid (ctx s) = bss then rsn_emit Preauth_deinit s else s)
      in s\<lparr>ptk_set := False, ptk := zero_ptk, tptk_set := False, tptk := zero_ptk, gtk := [], gtk_wnm_sleep := [],
           igtk := [], igtk_wnm_sleep := [], keyidx_active := 0\<rparr>)"

definition wpa_sm_notify_disassoc :: "wpa_sm \<Rightarrow> wpa_sm" where
  "wpa_sm_notify_disassoc s =
     (let s = rsn_emit Preauth_deinit (rsn_emit Cancel_rekey_timer (rsn_emit Cancel_preauth_timer s));
          s = pmksa_cache_clear_current s;
          s = (if wpa_state s = WPA_4WAY_HANDSHAKE
               then s\<lparr>dot11RSNA4WayHandshakeFailures := dot11RSNA4WayHandshakeFailures s + 1\<rparr> else s);
          s = wpa_sm_drop_sa s
      in s\<lparr>keyidx_active := 0, msg_3_of_4_ok := False, bssid := replicate ETH_ALEN 0\<rparr>)"

text \<open>The state of \<open>os_zalloc()\<close> with the defaults of \<open>wpa_sm_init()\<close>: the clock, the answers of
  the environment and what the callbacks report are given.\<close>

definition zero_conf :: wpa_sm_conf where
  "zero_conf = \<lparr>network_ctx = 0, allowed_pairwise_cipher = 0, proactive_key_caching = 0, eap_workaround = 0, ssid = [],
     wpa_ptk_rekey = 0, wpa_rsc_relaxation = False, owe_ptk_workaround = False, force_kdk_derivation = False,
     beacon_prot = False, dot11RSNAConfigSATimeout = 60, proto = 0, pairwise_cipher = 0, group_cipher = 0, key_mgmt = 0,
     mgmt_group_cipher = 0, rsn_enabled = False, mfp = 0, ocv = 0, sae_pwe = 0, sae_pk = False, secure_ltf = False,
     secure_rtt = False, prot_range_neg = False, wpa_deny_ptk0_rekey = False, ext_key_id = False,
     rsn_override = RSN_OVERRIDE_NOT_USED, rsn_override_support = False\<rparr>"

definition no_ap :: ap_ies where
  "no_ap = \<lparr>ap_wpa_ie = None, ap_rsn_ie = None, ap_rsnxe = None, ap_rsne_override = None, ap_rsne_override_2 = None,
     ap_rsnxe_override = None\<rparr>"

definition wpa_sm_init :: "u64 \<Rightarrow> (nat \<Rightarrow> nat option) \<Rightarrow> wpa_sm_ctx \<Rightarrow> wpa_sm" where
  "wpa_sm_init now answers c =
     pmksa_cache_init
       \<lparr>pmksa_heap = (\<lambda>_. None), pmksa = [], pmksa_count = 0, expire_timer = None, reauth_timer = None, cur_pmksa = None,
        pmk = [], own_addr = replicate ETH_ALEN 0, bssid = replicate ETH_ALEN 0, dot11RSNAConfigPMKLifetime = 43200,
        dot11RSNAConfigPMKReauthThreshold = 70, clock = now, rsn_answers = answers, rsn_asked = 0, rsn_trace = [],
        ptk = zero_ptk, tptk = zero_ptk, ptk_set = False, tptk_set = False, msg_3_of_4_ok = False,
        snonce = replicate WPA_NONCE_LEN 0, anonce = replicate WPA_NONCE_LEN 0, renew_snonce = True,
        rx_replay_counter = replicate WPA_REPLAY_COUNTER_LEN 0, rx_replay_counter_set = False,
        request_counter = replicate WPA_REPLAY_COUNTER_LEN 0, gtk = [], gtk_wnm_sleep = [], igtk = [],
        igtk_wnm_sleep = [], bigtk = [], bigtk_wnm_sleep = [], use_ext_key_id = False, keyidx_active = 0,
        dot11RSNA4WayHandshakeFailures = 0, assoc_wpa_ie = None, assoc_wpa_ie_len = 0, assoc_rsnxe = None, ap = no_ap,
        sm_conf = zero_conf, wpa_state = WPA_DISCONNECTED, nonce_draws = 0, ctx = c\<rparr>"

definition wpa_sm_set_own_addr :: "bytes \<Rightarrow> wpa_sm \<Rightarrow> wpa_sm" where
  "wpa_sm_set_own_addr addr s = s\<lparr>own_addr := addr\<rparr>"

text \<open>The values that \<open>wpa_sm_set_param()\<close> gets for \<open>WPA_PARAM_RSN_OVERRIDE\<close> are those of
  \<open>enum wpa_rsn_override\<close>.\<close>

datatype wpa_sm_conf_params = RSNA_PMK_LIFETIME | RSNA_PMK_REAUTH_THRESHOLD | RSNA_SA_TIMEOUT | WPA_PARAM_PROTO
  | WPA_PARAM_PAIRWISE | WPA_PARAM_GROUP | WPA_PARAM_KEY_MGMT | WPA_PARAM_MGMT_GROUP | WPA_PARAM_RSN_ENABLED
  | WPA_PARAM_MFP | WPA_PARAM_OCV | WPA_PARAM_SAE_PWE | WPA_PARAM_SAE_PK | WPA_PARAM_DENY_PTK0_REKEY
  | WPA_PARAM_EXT_KEY_ID | WPA_PARAM_USE_EXT_KEY_ID | WPA_PARAM_RSN_OVERRIDE | WPA_PARAM_RSN_OVERRIDE_SUPPORT

definition rsn_override_of :: "u32 \<Rightarrow> wpa_rsn_override" where
  "rsn_override_of v =
     (if v = 1 then RSN_OVERRIDE_RSNE else if v = 2 then RSN_OVERRIDE_RSNE_OVERRIDE
      else if v = 3 then RSN_OVERRIDE_RSNE_OVERRIDE_2 else RSN_OVERRIDE_NOT_USED)"

fun wpa_sm_set_param :: "wpa_sm_conf_params \<Rightarrow> u32 \<Rightarrow> wpa_sm \<Rightarrow> bool \<times> wpa_sm" where
  "wpa_sm_set_param RSNA_PMK_LIFETIME v s =
     (if v > 0 then (True, s\<lparr>dot11RSNAConfigPMKLifetime := v\<rparr>) else (False, s))"
| "wpa_sm_set_param RSNA_PMK_REAUTH_THRESHOLD v s =
     (if v > 0 \<and> v \<le> 100 then (True, s\<lparr>dot11RSNAConfigPMKReauthThreshold := v\<rparr>) else (False, s))"
| "wpa_sm_set_param RSNA_SA_TIMEOUT v s =
     (if v > 0 then (True, s\<lparr>sm_conf := (sm_conf s)\<lparr>dot11RSNAConfigSATimeout := v\<rparr>\<rparr>) else (False, s))"
| "wpa_sm_set_param WPA_PARAM_PROTO v s = (True, s\<lparr>sm_conf := (sm_conf s)\<lparr>proto := v\<rparr>\<rparr>)"
| "wpa_sm_set_param WPA_PARAM_PAIRWISE v s = (True, s\<lparr>sm_conf := (sm_conf s)\<lparr>pairwise_cipher := v\<rparr>\<rparr>)"
| "wpa_sm_set_param WPA_PARAM_GROUP v s = (True, s\<lparr>sm_conf := (sm_conf s)\<lparr>group_cipher := v\<rparr>\<rparr>)"
| "wpa_sm_set_param WPA_PARAM_KEY_MGMT v s = (True, s\<lparr>sm_conf := (sm_conf s)\<lparr>key_mgmt := v\<rparr>\<rparr>)"
| "wpa_sm_set_param WPA_PARAM_MGMT_GROUP v s = (True, s\<lparr>sm_conf := (sm_conf s)\<lparr>mgmt_group_cipher := v\<rparr>\<rparr>)"
| "wpa_sm_set_param WPA_PARAM_RSN_ENABLED v s = (True, s\<lparr>sm_conf := (sm_conf s)\<lparr>rsn_enabled := v \<noteq> 0\<rparr>\<rparr>)"
| "wpa_sm_set_param WPA_PARAM_MFP v s = (True, s\<lparr>sm_conf := (sm_conf s)\<lparr>mfp := v\<rparr>\<rparr>)"
| "wpa_sm_set_param WPA_PARAM_OCV v s = (True, s\<lparr>sm_conf := (sm_conf s)\<lparr>ocv := v\<rparr>\<rparr>)"
| "wpa_sm_set_param WPA_PARAM_SAE_PWE v s = (True, s\<lparr>sm_conf := (sm_conf s)\<lparr>sae_pwe := v\<rparr>\<rparr>)"
| "wpa_sm_set_param WPA_PARAM_SAE_PK v s = (True, s\<lparr>sm_conf := (sm_conf s)\<lparr>sae_pk := bit v 0\<rparr>\<rparr>)"
| "wpa_sm_set_param WPA_PARAM_DENY_PTK0_REKEY v s = (True, s\<lparr>sm_conf := (sm_conf s)\<lparr>wpa_deny_ptk0_rekey := bit v 0\<rparr>\<rparr>)"
| "wpa_sm_set_param WPA_PARAM_EXT_KEY_ID v s = (True, s\<lparr>sm_conf := (sm_conf s)\<lparr>ext_key_id := v \<noteq> 0\<rparr>\<rparr>)"
| "wpa_sm_set_param WPA_PARAM_USE_EXT_KEY_ID v s = (True, s\<lparr>use_ext_key_id := v \<noteq> 0\<rparr>)"
| "wpa_sm_set_param WPA_PARAM_RSN_OVERRIDE v s = (True, s\<lparr>sm_conf := (sm_conf s)\<lparr>rsn_override := rsn_override_of v\<rparr>\<rparr>)"
| "wpa_sm_set_param WPA_PARAM_RSN_OVERRIDE_SUPPORT v s =
     (True, s\<lparr>sm_conf := (sm_conf s)\<lparr>rsn_override_support := v \<noteq> 0\<rparr>\<rparr>)"

record rsn_supp_config =
  cf_network_ctx :: nat
  cf_allowed_pairwise_cipher :: u32
  cf_proactive_key_caching :: u32
  cf_eap_workaround :: u32
  cf_ssid :: "bytes option"
  cf_wpa_ptk_rekey :: u32
  cf_wpa_rsc_relaxation :: bool
  cf_owe_ptk_workaround :: bool
  cf_force_kdk_derivation :: bool
  cf_beacon_prot :: bool

text \<open>The copy of the SSID must fit \<open>sm->ssid\<close>, an array of 32 octets.\<close>

definition wpa_sm_set_config :: "rsn_supp_config option \<Rightarrow> wpa_sm \<Rightarrow> wpa_sm option" where
  "wpa_sm_set_config cf s =
     (case cf of
        None \<Rightarrow> Some (s\<lparr>sm_conf := (sm_conf s)\<lparr>network_ctx := 0, allowed_pairwise_cipher := 0, proactive_key_caching := 0,
                  eap_workaround := 0, ssid := [], wpa_ptk_rekey := 0, wpa_rsc_relaxation := False,
                  owe_ptk_workaround := False, beacon_prot := False, force_kdk_derivation := False\<rparr>\<rparr>)
      | Some c \<Rightarrow> do {
          i \<leftarrow> (case cf_ssid c of None \<Rightarrow> Some [] | Some x \<Rightarrow> if length x \<le> 32 then Some x else None);
          Some (s\<lparr>sm_conf := (sm_conf s)\<lparr>network_ctx := cf_network_ctx c,
            allowed_pairwise_cipher := cf_allowed_pairwise_cipher c, proactive_key_caching := cf_proactive_key_caching c,
            eap_workaround := cf_eap_workaround c, ssid := i, wpa_ptk_rekey := cf_wpa_ptk_rekey c,
            wpa_rsc_relaxation := cf_wpa_rsc_relaxation c, owe_ptk_workaround := cf_owe_ptk_workaround c,
            force_kdk_derivation := cf_force_kdk_derivation c, beacon_prot := cf_beacon_prot c\<rparr>\<rparr>) })"

text \<open>An element that is copied; the old one is freed first, and a failed copy leaves none.\<close>

definition ie_dup :: "bytes option \<Rightarrow> wpa_sm \<Rightarrow> bool \<times> bytes option \<times> wpa_sm" where
  "ie_dup ie s =
     (case ie of None \<Rightarrow> (True, None, s)
      | Some b \<Rightarrow> if b = [] then (True, None, s)
                  else let (ok, s) = rsn_ask s in if ok then (True, Some b, s) else (False, None, s))"

definition wpa_sm_set_assoc_wpa_ie :: "bytes option \<Rightarrow> wpa_sm \<Rightarrow> bool \<times> wpa_sm" where
  "wpa_sm_set_assoc_wpa_ie ie s =
     (let (ok, v, s) = ie_dup ie s
      in (ok, s\<lparr>assoc_wpa_ie := v,
                assoc_wpa_ie_len := (if ok then case v of None \<Rightarrow> 0 | Some b \<Rightarrow> length b else assoc_wpa_ie_len s)\<rparr>))"

definition wpa_sm_set_assoc_rsnxe :: "bytes option \<Rightarrow> wpa_sm \<Rightarrow> bool \<times> wpa_sm" where
  "wpa_sm_set_assoc_rsnxe ie s = (let (ok, v, s) = ie_dup ie s in (ok, s\<lparr>assoc_rsnxe := v\<rparr>))"

definition wpa_sm_set_ap_wpa_ie :: "bytes option \<Rightarrow> wpa_sm \<Rightarrow> bool \<times> wpa_sm" where
  "wpa_sm_set_ap_wpa_ie ie s = (let (ok, v, s) = ie_dup ie s in (ok, s\<lparr>ap := (ap s)\<lparr>ap_wpa_ie := v\<rparr>\<rparr>))"

definition wpa_sm_set_ap_rsn_ie :: "bytes option \<Rightarrow> wpa_sm \<Rightarrow> bool \<times> wpa_sm" where
  "wpa_sm_set_ap_rsn_ie ie s = (let (ok, v, s) = ie_dup ie s in (ok, s\<lparr>ap := (ap s)\<lparr>ap_rsn_ie := v\<rparr>\<rparr>))"

definition wpa_sm_set_ap_rsnxe :: "bytes option \<Rightarrow> wpa_sm \<Rightarrow> bool \<times> wpa_sm" where
  "wpa_sm_set_ap_rsnxe ie s = (let (ok, v, s) = ie_dup ie s in (ok, s\<lparr>ap := (ap s)\<lparr>ap_rsnxe := v\<rparr>\<rparr>))"

definition wpa_sm_set_ap_rsne_override :: "bytes option \<Rightarrow> wpa_sm \<Rightarrow> bool \<times> wpa_sm" where
  "wpa_sm_set_ap_rsne_override ie s = (let (ok, v, s) = ie_dup ie s in (ok, s\<lparr>ap := (ap s)\<lparr>ap_rsne_override := v\<rparr>\<rparr>))"

definition wpa_sm_set_ap_rsne_override_2 :: "bytes option \<Rightarrow> wpa_sm \<Rightarrow> bool \<times> wpa_sm" where
  "wpa_sm_set_ap_rsne_override_2 ie s = (let (ok, v, s) = ie_dup ie s in (ok, s\<lparr>ap := (ap s)\<lparr>ap_rsne_override_2 := v\<rparr>\<rparr>))"

definition wpa_sm_set_ap_rsnxe_override :: "bytes option \<Rightarrow> wpa_sm \<Rightarrow> bool \<times> wpa_sm" where
  "wpa_sm_set_ap_rsnxe_override ie s = (let (ok, v, s) = ie_dup ie s in (ok, s\<lparr>ap := (ap s)\<lparr>ap_rsnxe_override := v\<rparr>\<rparr>))"

definition wpa_sm_aborted_cached :: "wpa_sm \<Rightarrow> wpa_sm" where
  "wpa_sm_aborted_cached s = (if cur_pmksa s \<noteq> None then s\<lparr>cur_pmksa := None\<rparr> else s)"

definition wpa_sm_aborted_external_cached :: "wpa_sm \<Rightarrow> wpa_sm option" where
  "wpa_sm_aborted_external_cached s =
     (case cur_pmksa s of None \<Rightarrow> Some s
      | Some c \<Rightarrow> do { e \<leftarrow> pmksa_heap s c; Some (if pe_external e then s\<lparr>cur_pmksa := None\<rparr> else s) })"

definition wpa_sm_pmksa_cache_add ::
  "'z wpa_crypto_scheme \<Rightarrow> bytes \<Rightarrow> bytes option \<Rightarrow> bytes \<Rightarrow> bytes option \<Rightarrow> wpa_sm \<Rightarrow> wpa_sm option" where
  "wpa_sm_pmksa_cache_add C k pmkid aa fils_cache_id s = do {
     (sa, s) \<leftarrow> pmksa_cache_add C k pmkid None aa (own_addr s) (network_ctx (sm_conf s)) (key_mgmt (sm_conf s)) fils_cache_id s;
     Some (s\<lparr>cur_pmksa := sa\<rparr>) }"

definition wpa_sm_pmksa_exists :: "bytes \<Rightarrow> nat \<Rightarrow> wpa_sm \<Rightarrow> bool option" where
  "wpa_sm_pmksa_exists aa c s = map_option (\<lambda>r. r \<noteq> None) (pmksa_cache_get (Some aa) None c 0 s)"

definition wpa_sm_has_ptk :: "wpa_sm \<Rightarrow> bool" where "wpa_sm_has_ptk s = ptk_set s"
definition wpa_sm_has_ptk_installed :: "wpa_sm \<Rightarrow> bool" where "wpa_sm_has_ptk_installed s = installed (ptk s)"
definition wpa_sm_ext_key_id :: "wpa_sm \<Rightarrow> bool" where "wpa_sm_ext_key_id s = ext_key_id (sm_conf s)"
definition wpa_sm_ext_key_id_active :: "wpa_sm \<Rightarrow> bool" where "wpa_sm_ext_key_id_active s = use_ext_key_id s"

definition wpa_sm_update_replay_ctr :: "bytes \<Rightarrow> wpa_sm \<Rightarrow> wpa_sm" where
  "wpa_sm_update_replay_ctr c s = s\<lparr>rx_replay_counter := c\<rparr>"

definition wpa_sm_set_rx_replay_ctr :: "bytes option \<Rightarrow> wpa_sm \<Rightarrow> wpa_sm" where
  "wpa_sm_set_rx_replay_ctr c s =
     (case c of None \<Rightarrow> s | Some b \<Rightarrow> s\<lparr>rx_replay_counter := b, rx_replay_counter_set := True\<rparr>)"

definition wpa_sm_set_ptk_kck_kek :: "bytes option \<Rightarrow> bytes option \<Rightarrow> wpa_sm \<Rightarrow> wpa_sm option" where
  "wpa_sm_set_ptk_kck_kek a b s = do {
     p \<leftarrow> (case a of Some x \<Rightarrow> if length x \<le> WPA_KCK_MAX_LEN
             then map_option (\<lambda>y. (ptk s)\<lparr>kck := y, kck_len := length x\<rparr>) (wrn (kck (ptk s)) 0 x) else Some (ptk s)
           | None \<Rightarrow> Some (ptk s));
     p \<leftarrow> (case b of Some x \<Rightarrow> if length x \<le> WPA_KEK_MAX_LEN
             then map_option (\<lambda>y. p\<lparr>kek := y, kek_len := length x\<rparr>) (wrn (kek p) 0 x) else Some p
           | None \<Rightarrow> Some p);
     Some (s\<lparr>ptk := p, ptk_set := True\<rparr>) }"

text \<open>A key of a WNM-Sleep Mode Response; \<open>b\<close> is the subelement with its identifier and length.\<close>

definition wpa_wnmsleep_install_gtk :: "bytes \<Rightarrow> wpa_sm \<Rightarrow> (bool \<times> wpa_sm) option" where
  "wpa_wnmsleep_install_gtk b s =
     (let cipher = group_cipher (sm_conf s);
          keylen = wpa_cipher_key_len cipher
      in if wpa_cipher_to_alg cipher = WPA_ALG_NONE then Some (False, s)
         else do {
           info \<leftarrow> WPA_GET_LE16 b 2;
           l \<leftarrow> rd8 b 4;
           if keylen \<noteq> unat l then Some (False, s)
           else do {
             g \<leftarrow> rdn b 13 keylen;
             gk \<leftarrow> wrn (replicate 32 0) 0 g;
             let gd = \<lparr>gd_alg = wpa_cipher_to_alg cipher,
                       gd_tx = wpa_supplicant_gtk_tx_bit_workaround (info_bit info WPA_KEY_INFO_TXRX) s,
                       gd_key_rsc_len = wpa_cipher_rsc_len cipher, gd_keyidx = ucast (info AND 3), gd_gtk = gk,
                       gd_gtk_len = keylen\<rparr>;
             wpa_supplicant_install_gtk gd (drop 5 b) True s } })"

definition wpa_wnmsleep_install_key :: "u8 \<Rightarrow> bytes \<Rightarrow> wpa_sm \<Rightarrow> (bool \<times> wpa_sm) option" where
  "wpa_wnmsleep_install_key subelem_id b s =
     (if subelem_id = WNM_SLEEP_SUBELEM_GTK then wpa_wnmsleep_install_gtk b s
      else if subelem_id = WNM_SLEEP_SUBELEM_IGTK then wpa_supplicant_install_igtk (drop 2 b) True s
      else if subelem_id = WNM_SLEEP_SUBELEM_BIGTK then
        if beacon_prot (sm_conf s) then wpa_supplicant_install_bigtk (drop 2 b) True s else Some (True, s)
      else Some (False, s))"

end
