(* ===== verification/Wpa_sm_frame.thy ===== *)
theory Wpa_sm_frame
  imports Wpa_sm
begin

text \<open>
  What the parts of the handshake leave alone. \<open>kview\<close> is the part of the state that the
  security of the handshake rests on; \<open>set_keys\<close> are the keys handed to the driver. A part that
  is not about pairwise keys keeps \<open>kview\<close> and the installations of pairwise keys; the parts
  that set no key at all keep \<open>set_keys\<close>. Both are equations, so the proofs follow the code
  by rewriting.
\<close>

section \<open>The state of the keys\<close>

fun is_set_key :: "rsn_effect \<Rightarrow> bool" where
  "is_set_key (Set_key _ _ _ _ _ _ _ _) = True"
| "is_set_key _ = False"

text \<open>A pairwise key that the driver took; the activation of an installed key carries no key.\<close>

fun tk_installed :: "rsn_effect \<Rightarrow> bool" where
  "tk_installed (Set_key alg _ _ _ _ _ flag ok) \<longleftrightarrow> ok \<and> alg \<noteq> WPA_ALG_NONE \<and> flag AND KEY_FLAG_PAIRWISE \<noteq> 0"
| "tk_installed _ \<longleftrightarrow> False"

definition set_keys :: "'z rsn_sm_scheme \<Rightarrow> rsn_effect list" where
  "set_keys s = filter is_set_key (rsn_trace s)"

definition tk_installs :: "'z rsn_sm_scheme \<Rightarrow> nat" where
  "tk_installs s = length (filter tk_installed (rsn_trace s))"

lemma tk_installed_set_key: "tk_installed e \<Longrightarrow> is_set_key e"
  by (cases e) simp_all

lemma tk_installs_set_keys: "tk_installs s = length (filter tk_installed (set_keys s))"
proof -
  have "filter tk_installed (filter is_set_key xs) = filter tk_installed xs" for xs
    by (induction xs) (auto dest: tk_installed_set_key)
  then show ?thesis by (simp add: tk_installs_def set_keys_def)
qed

definition kview where
  "kview s = (ptk s, tptk s, ptk_set s, tptk_set s, renew_snonce s, nonce_draws s, rx_replay_counter s,
     rx_replay_counter_set s, sm_conf s, ctx s)"

lemma kview_updates [simp]:
  "kview (s\<lparr>pmksa_heap := h\<rparr>) = kview s" "kview (s\<lparr>pmksa := l\<rparr>) = kview s"
  "kview (s\<lparr>pmksa_count := n\<rparr>) = kview s" "kview (s\<lparr>cur_pmksa := c\<rparr>) = kview s" "kview (s\<lparr>pmk := k\<rparr>) = kview s"
  "kview (s\<lparr>own_addr := a\<rparr>) = kview s" "kview (s\<lparr>bssid := a\<rparr>) = kview s" "kview (s\<lparr>rsn_asked := q\<rparr>) = kview s"
  "kview (s\<lparr>rsn_trace := tr\<rparr>) = kview s" "kview (s\<lparr>msg_3_of_4_ok := b\<rparr>) = kview s" "kview (s\<lparr>anonce := a\<rparr>) = kview s"
  "kview (s\<lparr>request_counter := a\<rparr>) = kview s" "kview (s\<lparr>gtk := a\<rparr>) = kview s" "kview (s\<lparr>gtk_wnm_sleep := a\<rparr>) = kview s"
  "kview (s\<lparr>igtk := a\<rparr>) = kview s" "kview (s\<lparr>igtk_wnm_sleep := a\<rparr>) = kview s" "kview (s\<lparr>bigtk := a\<rparr>) = kview s"
  "kview (s\<lparr>bigtk_wnm_sleep := a\<rparr>) = kview s" "kview (s\<lparr>use_ext_key_id := b\<rparr>) = kview s"
  "kview (s\<lparr>keyidx_active := i\<rparr>) = kview s" "kview (s\<lparr>ap := x\<rparr>) = kview s" "kview (s\<lparr>wpa_state := st\<rparr>) = kview s"
  "kview (s\<lparr>expire_timer := et\<rparr>) = kview s" "kview (s\<lparr>reauth_timer := et\<rparr>) = kview s" "kview (s\<lparr>snonce := a\<rparr>) = kview s"
  by (simp_all add: kview_def)

lemma kview_eqD:
  assumes "kview t = kview s"
  shows "ptk t = ptk s" "tptk t = tptk s" "ptk_set t = ptk_set s" "tptk_set t = tptk_set s"
    "renew_snonce t = renew_snonce s" "nonce_draws t = nonce_draws s" "rx_replay_counter t = rx_replay_counter s"
    "rx_replay_counter_set t = rx_replay_counter_set s" "sm_conf t = sm_conf s" "ctx t = ctx s"
  using assms by (simp_all add: kview_def)

lemma set_keys_updates [simp]:
  "set_keys (s\<lparr>pmksa_heap := h\<rparr>) = set_keys s" "set_keys (s\<lparr>pmksa := l\<rparr>) = set_keys s"
  "set_keys (s\<lparr>pmksa_count := n\<rparr>) = set_keys s" "set_keys (s\<lparr>cur_pmksa := c\<rparr>) = set_keys s"
  "set_keys (s\<lparr>pmk := k\<rparr>) = set_keys s" "set_keys (s\<lparr>own_addr := a\<rparr>) = set_keys s"
  "set_keys (s\<lparr>bssid := a\<rparr>) = set_keys s" "set_keys (s\<lparr>rsn_asked := q\<rparr>) = set_keys s"
  "set_keys (s\<lparr>expire_timer := et\<rparr>) = set_keys s" "set_keys (s\<lparr>reauth_timer := et\<rparr>) = set_keys s"
  by (simp_all add: set_keys_def)

lemma set_keys_sm_updates [simp]:
  "set_keys (s\<lparr>msg_3_of_4_ok := b\<rparr>) = set_keys s" "set_keys (s\<lparr>anonce := a\<rparr>) = set_keys s"
  "set_keys (s\<lparr>request_counter := a\<rparr>) = set_keys s" "set_keys (s\<lparr>gtk := a\<rparr>) = set_keys s"
  "set_keys (s\<lparr>gtk_wnm_sleep := a\<rparr>) = set_keys s" "set_keys (s\<lparr>igtk := a\<rparr>) = set_keys s"
  "set_keys (s\<lparr>igtk_wnm_sleep := a\<rparr>) = set_keys s" "set_keys (s\<lparr>bigtk := a\<rparr>) = set_keys s"
  "set_keys (s\<lparr>bigtk_wnm_sleep := a\<rparr>) = set_keys s" "set_keys (s\<lparr>use_ext_key_id := b\<rparr>) = set_keys s"
  "set_keys (s\<lparr>keyidx_active := i\<rparr>) = set_keys s" "set_keys (s\<lparr>ap := x\<rparr>) = set_keys s"
  "set_keys (s\<lparr>wpa_state := st\<rparr>) = set_keys s" "set_keys (s\<lparr>ptk := p\<rparr>) = set_keys s" "set_keys (s\<lparr>tptk := p\<rparr>) = set_keys s"
  "set_keys (s\<lparr>tptk_set := b\<rparr>) = set_keys s" "set_keys (s\<lparr>ptk_set := b\<rparr>) = set_keys s"
  "set_keys (s\<lparr>renew_snonce := b\<rparr>) = set_keys s" "set_keys (s\<lparr>snonce := a\<rparr>) = set_keys s"
  "set_keys (s\<lparr>nonce_draws := n\<rparr>) = set_keys s" "set_keys (s\<lparr>rx_replay_counter := a\<rparr>) = set_keys s"
  "set_keys (s\<lparr>rx_replay_counter_set := b\<rparr>) = set_keys s"
  by (simp_all add: set_keys_def)

lemma rsn_emit_view [simp]:
  "kview (rsn_emit e s) = kview s" "set_keys (rsn_emit e s) = set_keys s @ (if is_set_key e then [e] else [])"
  by (simp_all add: rsn_emit_def set_keys_def)

lemma rsn_ask_view [simp]: "kview (snd (rsn_ask s)) = kview s" "set_keys (snd (rsn_ask s)) = set_keys s"
  by (simp_all add: rsn_ask_def)

lemma rsn_ask_snd: "rsn_ask s = (ok, t) \<Longrightarrow> t = s\<lparr>rsn_asked := Suc (rsn_asked s)\<rparr>"
  by (simp add: rsn_ask_def)

section \<open>The PMKSA cache\<close>

text \<open>The cache touches neither the rest of the state machine nor the keys of the driver.\<close>

definition cache_quiet :: "'z rsn_sm_scheme \<Rightarrow> 'z rsn_sm_scheme \<Rightarrow> bool" where
  "cache_quiet s t \<longleftrightarrow> rsn_sm.more t = rsn_sm.more s \<and> set_keys t = set_keys s \<and> bssid t = bssid s \<and> own_addr t = own_addr s"

lemma cache_quiet_refl [simp]: "cache_quiet s s"
  by (simp add: cache_quiet_def)

lemma cache_quiet_trans: "cache_quiet s t \<Longrightarrow> cache_quiet t u \<Longrightarrow> cache_quiet s u"
  by (simp add: cache_quiet_def)

lemma cache_quiet_updates [simp]:
  "cache_quiet s (t\<lparr>pmksa_heap := h\<rparr>) = cache_quiet s t" "cache_quiet s (t\<lparr>pmksa := l\<rparr>) = cache_quiet s t"
  "cache_quiet s (t\<lparr>pmksa_count := n\<rparr>) = cache_quiet s t" "cache_quiet s (t\<lparr>cur_pmksa := c\<rparr>) = cache_quiet s t"
  "cache_quiet s (t\<lparr>pmk := k\<rparr>) = cache_quiet s t" "cache_quiet s (t\<lparr>rsn_asked := q\<rparr>) = cache_quiet s t"
  "cache_quiet s (t\<lparr>expire_timer := et\<rparr>) = cache_quiet s t" "cache_quiet s (t\<lparr>reauth_timer := et\<rparr>) = cache_quiet s t"
  by (simp_all add: cache_quiet_def)

lemma cache_quiet_emit [simp]: "\<not> is_set_key e \<Longrightarrow> cache_quiet s (rsn_emit e t) = cache_quiet s t"
  by (simp add: cache_quiet_def rsn_emit_def set_keys_def)

lemma cache_quiet_view:
  assumes "cache_quiet s (t :: wpa_sm)"
  shows "kview t = kview s" "set_keys t = set_keys s" "bssid t = bssid s" "own_addr t = own_addr s"
proof -
  show "kview t = kview s" using assms by (cases s; cases t) (simp add: cache_quiet_def kview_def)
qed (use assms in \<open>simp_all add: cache_quiet_def\<close>)

lemma free_cb_quiet [simp]: "cache_quiet s (wpa_sm_pmksa_free_cb a e r t) = cache_quiet s t"
  by (simp add: wpa_sm_pmksa_free_cb_def pmksa_cache_clear_current_def)

lemma yields_anything [simp]: "yields (\<lambda>_. True) x"
  by (simp add: yields_def)

lemma yields_bindI: "yields Q x \<Longrightarrow> (\<And>y. Q y \<Longrightarrow> yields P (k y)) \<Longrightarrow> yields P (x \<bind> k)"
  by (cases x) simp_all

lemma yields_pairD: "x = Some (r, u) \<Longrightarrow> yields (\<lambda>r. P (snd r)) x \<Longrightarrow> P u"
  by (simp add: yields_def)

lemma yields_pureI: "(\<And>y. x = Some y \<Longrightarrow> yields P (k y)) \<Longrightarrow> yields P (x \<bind> k)"
  by (cases x) simp_all

lemma yields_map_option [wlp]: "yields P (map_option f x) \<longleftrightarrow> yields (\<lambda>y. P (f y)) x"
  by (cases x) simp_all

lemma free_entry_quiet: "pmksa_cache_free_entry a r t = Some u \<Longrightarrow> cache_quiet s t \<Longrightarrow> cache_quiet s u"
  by (auto simp: pmksa_cache_free_entry_def Let_def bind_eq_Some_conv)

lemma register_quiet [simp]:
  "cache_quiet s (register_expire n t) = cache_quiet s t" "cache_quiet s (register_reauth n t) = cache_quiet s t"
  by (simp_all add: register_expire_def register_reauth_def rsn_ask_def)

lemma set_expiration_quiet: "pmksa_cache_set_expiration t = Some u \<Longrightarrow> cache_quiet s t \<Longrightarrow> cache_quiet s u"
  by (auto simp: pmksa_cache_set_expiration_def Let_def bind_eq_Some_conv split: list.splits option.splits if_splits)

lemma flush_loop_quiet: "pmksa_flush_loop P as n t = Some (m, u) \<Longrightarrow> cache_quiet s t \<Longrightarrow> cache_quiet s u"
proof (induction as arbitrary: n t)
  case (Cons a as)
  then obtain e where e: "pmksa_heap t a = Some e" by (auto simp: bind_eq_Some_conv)
  show ?case
  proof (cases "P e")
    case True
    with e Cons.prems(1) obtain v where v: "pmksa_cache_free_entry a PMKSA_FREE (pmksa_unlink a t) = Some v"
      "pmksa_flush_loop P as (Suc n) v = Some (m, u)" by (auto simp: bind_eq_Some_conv)
    show ?thesis by (rule Cons.IH [OF v(2) free_entry_quiet [OF v(1)]]) (simp add: pmksa_unlink_def Cons.prems(2))
  next
    case False
    with e Cons show ?thesis by simp
  qed
qed simp

lemma flush_quiet: "pmksa_cache_flush c k x t = Some u \<Longrightarrow> cache_quiet s t \<Longrightarrow> cache_quiet s u"
  by (auto simp: pmksa_cache_flush_def bind_eq_Some_conv split: if_splits dest: flush_loop_quiet set_expiration_quiet)

lemma replace_quiet: "pmksa_cache_replace pos e t = Some u \<Longrightarrow> cache_quiet s t \<Longrightarrow> cache_quiet s u"
  by (auto simp: pmksa_cache_replace_def Let_def bind_eq_Some_conv pmksa_unlink_def split: if_splits
      dest: flush_quiet free_entry_quiet)

lemma make_room_quiet: "pmksa_cache_make_room t = Some u \<Longrightarrow> cache_quiet s t \<Longrightarrow> cache_quiet s u"
  by (auto simp: pmksa_cache_make_room_def split: if_splits list.splits dest: free_entry_quiet)

lemma link_quiet: "pmksa_cache_link a e t = Some u \<Longrightarrow> cache_quiet s t \<Longrightarrow> cache_quiet s u"
  by (auto simp: pmksa_cache_link_def Let_def bind_eq_Some_conv split: if_splits dest: set_expiration_quiet)

lemma add_entry_quiet: "pmksa_cache_add_entry a t = Some (r, u) \<Longrightarrow> cache_quiet s t \<Longrightarrow> cache_quiet s u"
  by (auto simp: pmksa_cache_add_entry_def bind_eq_Some_conv split: if_splits option.splits
      dest!: replace_quiet make_room_quiet link_quiet)

lemma zalloc_quiet: "pmksa_zalloc t = (r, u) \<Longrightarrow> cache_quiet s u = cache_quiet s t"
  by (auto simp: pmksa_zalloc_def split: option.splits)

lemma cache_add_quiet:
  "pmksa_cache_add C k pmkid kk aa spa c akmp cid t = Some (r, u) \<Longrightarrow> cache_quiet s t \<Longrightarrow> cache_quiet s u"
  by (auto simp: pmksa_cache_add_def Let_def bind_eq_Some_conv split: if_splits option.splits prod.splits
      dest!: add_entry_quiet zalloc_quiet [where s = s])

lemma accept_current_quiet: "pmksa_accept_current t = Some u \<Longrightarrow> cache_quiet s t \<Longrightarrow> cache_quiet s u"
  by (auto simp: pmksa_accept_current_def bind_eq_Some_conv split: if_splits option.splits)

section \<open>Parts that set no key\<close>

definition quiet :: "wpa_sm \<Rightarrow> wpa_sm \<Rightarrow> bool" where
  "quiet s t \<longleftrightarrow> kview t = kview s \<and> set_keys t = set_keys s"

lemma sm_quiet_refl [simp]: "quiet s s"
  by (simp add: quiet_def)

lemma sm_quiet_trans: "quiet s t \<Longrightarrow> quiet t u \<Longrightarrow> quiet s u"
  by (simp add: quiet_def)

lemma quiet_cache: "cache_quiet s t \<Longrightarrow> quiet s t"
  by (simp add: quiet_def cache_quiet_view)

lemma quiet_emit [simp]: "\<not> is_set_key e \<Longrightarrow> quiet s (rsn_emit e t) = quiet s t"
  by (simp add: quiet_def)

lemma quiet_updates [simp]:
  "quiet s (t\<lparr>pmksa_heap := h\<rparr>) = quiet s t" "quiet s (t\<lparr>cur_pmksa := c\<rparr>) = quiet s t" "quiet s (t\<lparr>pmk := k\<rparr>) = quiet s t"
  "quiet s (t\<lparr>bssid := a\<rparr>) = quiet s t" "quiet s (t\<lparr>rsn_asked := q\<rparr>) = quiet s t"
  "quiet s (t\<lparr>msg_3_of_4_ok := b\<rparr>) = quiet s t" "quiet s (t\<lparr>anonce := a\<rparr>) = quiet s t"
  "quiet s (t\<lparr>request_counter := a\<rparr>) = quiet s t" "quiet s (t\<lparr>use_ext_key_id := b\<rparr>) = quiet s t"
  "quiet s (t\<lparr>keyidx_active := i\<rparr>) = quiet s t" "quiet s (t\<lparr>ap := x\<rparr>) = quiet s t" "quiet s (t\<lparr>wpa_state := st\<rparr>) = quiet s t"
  by (simp_all add: quiet_def)

lemma sm_quiet_ask [simp]: "quiet s (snd (rsn_ask t)) = quiet s t" "rsn_ask t = (ok, u) \<Longrightarrow> quiet s u = quiet s t"
  by (simp_all add: quiet_def rsn_ask_def) auto

lemma quiet_callbacks [simp]:
  "quiet s (wpa_sm_set_state st t) = quiet s t" "quiet s (wpa_sm_deauthenticate r t) = quiet s t"
  "quiet s (wpa_report_ie_mismatch t) = quiet s t" "quiet s (wpa_sm_set_rekey_offload t) = quiet s t"
  "quiet s (snd (wpa_sm_ether_send d b t)) = quiet s t" "quiet s (snd (wpa_sm_get_beacon_ie t)) = quiet s t"
  by (simp_all add: wpa_sm_set_state_def wpa_sm_deauthenticate_def wpa_report_ie_mismatch_def
      wpa_sm_set_rekey_offload_def wpa_sm_ether_send_def wpa_sm_get_beacon_ie_def)

lemma quiet_failed [simp]: "quiet s (handshake_failed r) = quiet s (snd r)"
  by (simp add: handshake_failed_def)

lemma alloc_quiet [simp]: "quiet s (snd (wpa_alloc_eapol ty n t)) = quiet s t"
  by (simp add: wpa_alloc_eapol_def Let_def split_beta)

lemma dest_quiet [simp]: "quiet s (snd (wpa_eapol_key_dest d t)) = quiet s t"
  by (simp add: wpa_eapol_key_dest_def split: option.split)

lemma send_yields: "quiet s t \<Longrightarrow> yields (\<lambda>r. quiet s (snd r)) (wpa_eapol_key_send C p ver d m b t)"
  unfolding wpa_eapol_key_send_def Let_def split_beta by (simp add: wlp)

lemma send_quiet: "wpa_eapol_key_send C p ver d m b t = Some (r, u) \<Longrightarrow> quiet s t \<Longrightarrow> quiet s u"
  by (rule yields_pairD [OF _ send_yields])

lemma key_request_quiet: "quiet s t \<Longrightarrow> yields (quiet s) (wpa_sm_key_request C e b t)"
  unfolding wpa_sm_key_request_def Let_def split_beta
  by (simp add: wlp) (auto intro!: yieldsI dest!: send_quiet)

lemma from_pmksa_quiet: "wpa_sm_set_pmk_from_pmksa t = Some u \<Longrightarrow> quiet s t \<Longrightarrow> quiet s u"
  by (auto simp: wpa_sm_set_pmk_from_pmksa_def bind_eq_Some_conv split: option.splits)

lemma sm_cache_add_quiet:
  "pmksa_cache_add C k pmkid kk aa spa c akmp cid t = Some (r, u) \<Longrightarrow> quiet s t \<Longrightarrow> quiet s u"
  using cache_add_quiet [of C k pmkid kk aa spa c akmp cid t r u t] quiet_cache sm_quiet_trans by fastforce

lemma sm_accept_quiet: "pmksa_accept_current t = Some u \<Longrightarrow> quiet s t \<Longrightarrow> quiet s u"
  using accept_current_quiet [of t u t] quiet_cache sm_quiet_trans by fastforce

lemma get_pmk_abort_quiet [simp]: "quiet s (snd (get_pmk_abort a t)) = quiet s t"
  by (simp add: get_pmk_abort_def Let_def split_beta split: option.split)

lemma get_pmk_abort_pair: "get_pmk_abort a t = (r, u) \<Longrightarrow> quiet s u = quiet s t"
  by (metis get_pmk_abort_quiet snd_conv)

lemma set_pmk_offload_quiet [simp]: "quiet s (wpa_supplicant_key_mgmt_set_pmk t) = quiet s t"
  by (simp add: wpa_supplicant_key_mgmt_set_pmk_def)

lemma get_pmk_add_quiet: "get_pmk_add C src t = Some (r, u) \<Longrightarrow> quiet s t \<Longrightarrow> quiet s u"
  by (auto simp: get_pmk_add_def Let_def split: if_splits dest: sm_cache_add_quiet)

lemma get_pmk_eapol_quiet: "get_pmk_eapol C src p a t = Some (r, u) \<Longrightarrow> quiet s t \<Longrightarrow> quiet s u"
  by (auto simp: get_pmk_eapol_def bind_eq_Some_conv split: if_splits option.splits dest!: get_pmk_add_quiet)

lemma get_pmk_lookup_quiet: "get_pmk_lookup src p t = Some (r, u) \<Longrightarrow> quiet s u = quiet s t"
  by (auto simp: get_pmk_lookup_def split: if_splits)

lemma get_pmk_quiet:
  assumes "wpa_supplicant_get_pmk C src p t = Some (r, u)" "quiet s t"
  shows "quiet s u"
proof -
  from assms(1) obtain a t1 h where t1: "get_pmk_lookup src p t = Some (a, t1)" "get_pmk_hit p t1 = Some h"
    by (auto simp: wpa_supplicant_get_pmk_def bind_eq_Some_conv)
  have q: "quiet s t1" using get_pmk_lookup_quiet [OF t1(1)] assms(2) by simp
  have "yields (\<lambda>r. quiet s (snd r)) (wpa_supplicant_get_pmk C src p t)"
    using q t1 unfolding wpa_supplicant_get_pmk_def
    by (auto intro!: yieldsI split: option.splits simp: bind_eq_Some_conv
        dest!: get_pmk_eapol_quiet from_pmksa_quiet get_pmk_abort_pair [where s = s])
  then show ?thesis by (rule yields_pairD [OF assms(1)])
qed

section \<open>Message 1\<close>

lemma send_2_of_4_yields: "quiet s t \<Longrightarrow> yields (\<lambda>r. quiet s (snd r)) (wpa_supplicant_send_2_of_4 C d key ver n ie p t)"
  unfolding wpa_supplicant_send_2_of_4_def Let_def split_beta
  by (auto simp: wlp intro!: yieldsI dest!: send_quiet)

lemma send_4_of_4_yields: "quiet s t \<Longrightarrow> yields (\<lambda>r. quiet s (snd r)) (wpa_supplicant_send_4_of_4 C d key ver i p t)"
  unfolding wpa_supplicant_send_4_of_4_def Let_def split_beta
  by (auto simp: wlp intro!: yieldsI dest!: send_quiet)

lemma send_2_of_2_yields: "quiet s t \<Longrightarrow> yields (\<lambda>r. quiet s (snd r)) (wpa_supplicant_send_2_of_2 C key ver i t)"
  unfolding wpa_supplicant_send_2_of_2_def Let_def split_beta
  by (auto simp: wlp intro!: yieldsI dest!: send_quiet)

lemma send_msg_quiet:
  "wpa_supplicant_send_2_of_4 C d key ver n ie p t = Some (r, u) \<Longrightarrow> quiet s t \<Longrightarrow> quiet s u"
  "wpa_supplicant_send_4_of_4 C d key ver i p t = Some (r, u) \<Longrightarrow> quiet s t \<Longrightarrow> quiet s u"
  "wpa_supplicant_send_2_of_2 C key ver i t = Some (r, u) \<Longrightarrow> quiet s t \<Longrightarrow> quiet s u"
  by (rule yields_pairD; (rule send_2_of_4_yields send_4_of_4_yields send_2_of_2_yields)?; assumption)+

section \<open>Message 3 and the group keys\<close>

text \<open>The group keys leave \<open>kview\<close> and the pairwise keys of the driver alone.\<close>

definition grouped :: "wpa_sm \<Rightarrow> wpa_sm \<Rightarrow> bool" where
  "grouped s t \<longleftrightarrow> kview t = kview s \<and> tk_installs t = tk_installs s"

lemma quiet_grouped: "quiet s t \<Longrightarrow> grouped s t"
  by (simp add: quiet_def grouped_def tk_installs_set_keys)

lemma grouped_refl [simp]: "grouped s s"
  by (simp add: grouped_def)

lemma grouped_trans: "grouped s t \<Longrightarrow> grouped t u \<Longrightarrow> grouped s u"
  by (simp add: grouped_def)

lemma grouped_quiet: "grouped s t \<Longrightarrow> quiet t u \<Longrightarrow> grouped s u"
  using quiet_grouped grouped_trans by blast

lemma grouped_quiet_iff: "quiet t u \<Longrightarrow> grouped s u = grouped s t"
  by (simp add: grouped_def quiet_def tk_installs_set_keys)

lemma grouped_updates [simp]:
  "grouped s (t\<lparr>gtk := a\<rparr>) = grouped s t" "grouped s (t\<lparr>gtk_wnm_sleep := a\<rparr>) = grouped s t"
  "grouped s (t\<lparr>igtk := a\<rparr>) = grouped s t" "grouped s (t\<lparr>igtk_wnm_sleep := a\<rparr>) = grouped s t"
  "grouped s (t\<lparr>bigtk := a\<rparr>) = grouped s t" "grouped s (t\<lparr>bigtk_wnm_sleep := a\<rparr>) = grouped s t"
  "grouped s (t\<lparr>msg_3_of_4_ok := b\<rparr>) = grouped s t"
  by (simp_all add: grouped_def tk_installs_def)

lemma grouped_callbacks [simp]:
  "grouped s (wpa_sm_set_state st t) = grouped s t" "grouped s (wpa_sm_set_rekey_offload t) = grouped s t"
  "grouped s (handshake_failed r) = grouped s (snd r)"
  by (rule grouped_quiet_iff; simp)+

lemma grouped_emit [simp]: "\<not> is_set_key e \<Longrightarrow> grouped s (rsn_emit e t) = grouped s t"
  by (rule grouped_quiet_iff) simp

lemma set_group_key [simp]:
  assumes "flag AND KEY_FLAG_PAIRWISE = 0 \<or> alg = WPA_ALG_NONE"
  shows "grouped s (snd (wpa_sm_set_key alg addr idx tx seq k flag t)) = grouped s t"
  using assms by (auto simp: wpa_sm_set_key_def grouped_def tk_installs_def rsn_emit_def rsn_ask_def kview_def)

lemma group_flags [simp]:
  "KEY_FLAG_GROUP_RX_TX_DEFAULT AND KEY_FLAG_PAIRWISE = 0" "KEY_FLAG_GROUP_RX AND KEY_FLAG_PAIRWISE = 0"
  by (simp_all add: key_flag_defs)

lemma install_gtk_yields: "grouped s t \<Longrightarrow> yields (\<lambda>r. grouped s (snd r)) (wpa_supplicant_install_gtk gd rsc w t)"
  unfolding wpa_supplicant_install_gtk_def Let_def split_beta by (simp add: wlp)

lemma install_igtk_yields: "grouped s t \<Longrightarrow> yields (\<lambda>r. grouped s (snd r)) (wpa_supplicant_install_igtk b w t)"
  unfolding wpa_supplicant_install_igtk_def Let_def split_beta by (simp add: wlp)

lemma install_bigtk_yields: "grouped s t \<Longrightarrow> yields (\<lambda>r. grouped s (snd r)) (wpa_supplicant_install_bigtk b w t)"
  unfolding wpa_supplicant_install_bigtk_def Let_def split_beta by (simp add: wlp)

lemma pairwise_gtk_yields: "grouped s t \<Longrightarrow> yields (\<lambda>r. grouped s (snd r)) (wpa_supplicant_pairwise_gtk key g t)"
  unfolding wpa_supplicant_pairwise_gtk_def Let_def split_beta
  by (auto intro!: yields_pureI install_gtk_yields split: option.split)

lemma install_group_grouped:
  "wpa_supplicant_install_gtk gd rsc w t = Some (r, u) \<Longrightarrow> grouped s t \<Longrightarrow> grouped s u"
  "wpa_supplicant_install_igtk b w t = Some (r, u) \<Longrightarrow> grouped s t \<Longrightarrow> grouped s u"
  "wpa_supplicant_install_bigtk b w t = Some (r, u) \<Longrightarrow> grouped s t \<Longrightarrow> grouped s u"
  "wpa_supplicant_pairwise_gtk key g t = Some (r, u) \<Longrightarrow> grouped s t \<Longrightarrow> grouped s u"
  by (rule yields_pairD; (rule install_gtk_yields install_igtk_yields install_bigtk_yields pairwise_gtk_yields)?;
      assumption)+

lemma set_igtk_grouped: "ieee80211w_set_igtk kd ie t = Some (r, u) \<Longrightarrow> grouped s t \<Longrightarrow> grouped s u"
  by (auto simp: ieee80211w_set_igtk_def bind_eq_Some_conv split: if_splits option.splits dest!: install_group_grouped(2))

lemma set_bigtk_grouped: "ieee80211w_set_bigtk kd ie t = Some (r, u) \<Longrightarrow> grouped s t \<Longrightarrow> grouped s u"
  by (auto simp: ieee80211w_set_bigtk_def bind_eq_Some_conv split: if_splits option.splits dest!: install_group_grouped(3))

lemma ieee80211w_grouped: "ieee80211w_set_keys kd ie t = Some (r, u) \<Longrightarrow> grouped s t \<Longrightarrow> grouped s u"
  by (auto simp: ieee80211w_set_keys_def Let_def bind_eq_Some_conv split: if_splits
      dest!: set_igtk_grouped set_bigtk_grouped)

lemma neg_complete_quiet: "wpa_supplicant_key_neg_complete a b t = Some u \<Longrightarrow> quiet s t \<Longrightarrow> quiet s u"
  by (auto simp: wpa_supplicant_key_neg_complete_def Let_def split: if_splits dest!: sm_accept_quiet)

lemma suite_b_quiet: "process_3_of_4_suite_b C t = Some u \<Longrightarrow> quiet s t \<Longrightarrow> quiet s u"
  by (auto simp: process_3_of_4_suite_b_def bind_eq_Some_conv split: if_splits dest!: sm_cache_add_quiet)

lemma validate_ie_quiet: "wpa_supplicant_validate_ie kd ie t = Some (r, u) \<Longrightarrow> quiet s t \<Longrightarrow> quiet s u"
proof -
  assume "quiet s t"
  then have "yields (\<lambda>r. quiet s (snd r)) (wpa_supplicant_validate_ie kd ie t)"
    unfolding wpa_supplicant_validate_ie_def Let_def split_beta by (simp add: wlp)
  then show "wpa_supplicant_validate_ie kd ie t = Some (r, u) \<Longrightarrow> quiet s u" by (rule yields_pairD [rotated])
qed

lemma ext_key_id_quiet:
  assumes "wpa_handle_ext_key_id kd ie t = Some (r, u)" "quiet s t"
  shows "quiet s u"
proof -
  have "yields (\<lambda>r. quiet s (snd r)) (wpa_handle_ext_key_id kd ie t)"
    using assms(2) unfolding wpa_handle_ext_key_id_def by (auto split: option.split intro!: yields_pureI)
  then show ?thesis by (rule yields_pairD [OF assms(1)])
qed

lemma check_3_quiet:
  assumes "process_3_of_4_check key kd ie t = Some (r, u)" "quiet s t"
  shows "quiet s u"
proof -
  have "yields (\<lambda>r. quiet s (snd r)) (process_3_of_4_check key kd ie t)"
    using assms(2) unfolding process_3_of_4_check_def Let_def
    by (simp add: wlp) (auto intro!: yieldsI dest!: validate_ie_quiet ext_key_id_quiet)
  then show ?thesis by (rule yields_pairD [OF assms(1)])
qed

lemma gtk_3_grouped: "process_3_of_4_gtk key g t = Some (r, u) \<Longrightarrow> grouped s t \<Longrightarrow> grouped s u"
  by (auto simp: process_3_of_4_gtk_def split: if_splits option.splits dest!: install_group_grouped(4))

lemma done_3_quiet:
  assumes "process_3_of_4_done C key g td t = Some u" "quiet s t"
  shows "quiet s u"
  using assms unfolding process_3_of_4_done_def Let_def
  by (auto simp: bind_eq_Some_conv split: if_splits option.splits dest!: suite_b_quiet neg_complete_quiet)

lemma group_3_grouped:
  assumes "process_3_of_4_group C key kd ie t = Some (r, u)" "grouped s t"
  shows "grouped s u"
proof -
  have "process_3_of_4_done C key g td v = Some w \<Longrightarrow> grouped s v \<Longrightarrow> grouped s w" for g td v w
    using done_3_quiet [of C key g td v w v] grouped_quiet by simp
  then show ?thesis using assms unfolding process_3_of_4_group_def
    by (auto simp: bind_eq_Some_conv split: if_splits dest!: gtk_3_grouped ieee80211w_grouped)
qed

lemma group_1_of_2_rsn_grouped:
  assumes "wpa_supplicant_process_1_of_2_rsn kd i t = Some (r, u)" "grouped s t"
  shows "grouped s u"
proof -
  have "yields (\<lambda>r. grouped s (snd r)) (wpa_supplicant_process_1_of_2_rsn kd i t)"
    using assms(2) unfolding wpa_supplicant_process_1_of_2_rsn_def Let_def
    by (auto split: option.split intro!: yields_pureI dest!: ieee80211w_grouped)
  then show ?thesis by (rule yields_pairD [OF assms(1)])
qed

lemma install_1_of_2_grouped:
  assumes "process_1_of_2_install C key ver gd b t = Some (r, u)" "grouped s t"
  shows "grouped s u"
proof -
  have send: "wpa_supplicant_send_2_of_2 C key ver i v = Some (x, w) \<Longrightarrow> grouped s v \<Longrightarrow> grouped s w" for i v x w
    using send_msg_quiet(3) [of C key ver i v x w v] grouped_quiet by simp
  have compl: "wpa_supplicant_key_neg_complete a c v = Some w \<Longrightarrow> grouped s v \<Longrightarrow> grouped s w" for a c v w
    using neg_complete_quiet [of a c v w v] grouped_quiet by simp
  show ?thesis using assms unfolding process_1_of_2_install_def
    by (auto simp: bind_eq_Some_conv split: if_splits dest!: install_group_grouped(1) send compl)
qed

lemma process_1_of_2_grouped:
  assumes "wpa_supplicant_process_1_of_2 C key kd ver t = Some u" "grouped s t"
  shows "grouped s u"
proof -
  have "yields (grouped s) (wpa_supplicant_process_1_of_2 C key kd ver t)"
    using assms(2) unfolding wpa_supplicant_process_1_of_2_def Let_def
    by (auto split: option.split intro!: yields_pureI simp: wlp
        dest!: group_1_of_2_rsn_grouped intro!: yieldsI dest!: install_1_of_2_grouped)
  then show ?thesis using assms(1) by (rule yieldsD)
qed

end
