(* ===== verification/Wpa_sm_props.thy ===== *)
theory Wpa_sm_props
  imports Wpa_sm_frame
begin

text \<open>
  Security of the key handshake of \<open>Wpa_sm\<close>: pairwise keys are not installed again, the replay
  counter grows, and only authenticated frames set keys. The frames of \<open>Wpa_sm_frame\<close> carry the
  proofs; the steps that change the state of the keys are treated here.
\<close>

section \<open>A pairwise key is installed once\<close>

text \<open>
  \<open>pending\<close> counts the pairwise keys that may still be installed without a new SNonce: the
  PTK while its TK is there, and the temporary PTK, which is there or can be derived from the
  SNonce in use. An operation that installs a key uses up one of them, and only a new SNonce
  adds one.
\<close>

definition pending :: "wpa_sm \<Rightarrow> nat" where
  "pending s = (if tk_len (ptk s) \<noteq> 0 then 1 else 0) + (if tptk_set s \<or> \<not> renew_snonce s then 1 else 0)"

definition no_reinstall :: "wpa_sm \<Rightarrow> wpa_sm \<Rightarrow> bool" where
  "no_reinstall s t \<longleftrightarrow> tk_installs t + pending t + nonce_draws s \<le> tk_installs s + pending s + nonce_draws t"

definition ctrs :: "wpa_sm \<Rightarrow> bytes \<times> bool \<times> wpa_sm_conf \<times> wpa_sm_ctx" where
  "ctrs s = (rx_replay_counter s, rx_replay_counter_set s, sm_conf s, ctx s)"

text \<open>What a handler for a message guarantees.\<close>

definition handled :: "wpa_sm \<Rightarrow> wpa_sm \<Rightarrow> bool" where
  "handled s t \<longleftrightarrow> no_reinstall s t \<and> ctrs t = ctrs s"

lemma no_reinstall_refl [simp]: "no_reinstall s s"
  by (simp add: no_reinstall_def)

lemma no_reinstall_trans: "no_reinstall s t \<Longrightarrow> no_reinstall t u \<Longrightarrow> no_reinstall s u"
  by (simp add: no_reinstall_def)

lemma handled_refl [simp]: "handled s s"
  by (simp add: handled_def)

lemma handled_trans: "handled s t \<Longrightarrow> handled t u \<Longrightarrow> handled s u"
  unfolding handled_def using no_reinstall_trans by fastforce

lemma grouped_handled: "grouped s t \<Longrightarrow> handled s t"
  by (simp add: grouped_def handled_def no_reinstall_def ctrs_def pending_def kview_def)

lemma quiet_handled: "quiet s t \<Longrightarrow> handled s t"
  by (rule grouped_handled [OF quiet_grouped])

lemma handled_grouped: "handled s t \<Longrightarrow> grouped t u \<Longrightarrow> handled s u"
  by (rule handled_trans [OF _ grouped_handled])

lemma handled_failed: "handled s t \<Longrightarrow> handled s (handshake_failed (b, t))"
  by (rule handled_grouped [of s t]) simp_all

lemma set_keys_failed [simp]: "set_keys (handshake_failed r) = set_keys (snd r)"
  by (simp add: handshake_failed_def wpa_sm_deauthenticate_def)

lemma renew_nonce_handled:
  assumes "renew_nonce s = Some (ok, t)"
  shows "handled s t" "ok \<Longrightarrow> \<not> renew_snonce t" "set_keys t = set_keys s"
  using assms by (auto simp: renew_nonce_def Let_def bind_eq_Some_conv handled_def no_reinstall_def pending_def ctrs_def
      tk_installs_def set_keys_def split: if_splits option.splits)

lemma tptk_handled: "\<not> renew_snonce s \<Longrightarrow> handled s (s\<lparr>tptk := p\<rparr>)" "\<not> renew_snonce s \<Longrightarrow> handled s (s\<lparr>tptk := p, tptk_set := True\<rparr>)"
  by (simp_all add: handled_def no_reinstall_def pending_def ctrs_def tk_installs_def)

lemma send_1_quiet: "process_1_of_4_send C key ver t = Some (ok, u) \<Longrightarrow> quiet s t \<Longrightarrow> quiet s u"
  by (auto simp: process_1_of_4_send_def Let_def split_beta bind_eq_Some_conv split: if_splits dest!: send_msg_quiet(1))

lemma derive_1_handled:
  assumes "process_1_of_4_derive C key s = Some (ok, t)" "\<not> renew_snonce s"
  shows "handled s t \<and> set_keys t = set_keys s"
  using assms tptk_handled [OF assms(2)]
  by (auto simp: process_1_of_4_derive_def bind_eq_Some_conv split: if_splits)

lemma reply_1_handled:
  assumes "process_1_of_4_reply C key ver s = Some (ok, t)" "\<not> renew_snonce s"
  shows "handled s t \<and> set_keys t = set_keys s"
proof -
  from assms(1) obtain b u where u: "process_1_of_4_derive C key s = Some (b, u)"
    "if \<not> b then t = u else process_1_of_4_send C key ver u = Some (ok, t)"
    by (auto simp: process_1_of_4_reply_def bind_eq_Some_conv split: if_splits)
  then have "quiet u t" using send_1_quiet [of C key ver u ok t u] by (auto split: if_splits)
  then show ?thesis using derive_1_handled [OF u(1) assms(2)] handled_trans [OF _ quiet_handled]
    by (auto simp: quiet_def)
qed

text \<open>\<open>kept\<close> is a handler that sets no key; message 1 is one.\<close>

definition kept :: "wpa_sm \<Rightarrow> wpa_sm \<Rightarrow> bool" where
  "kept s t \<longleftrightarrow> handled s t \<and> set_keys t = set_keys s"

lemma kept_trans: "kept s t \<Longrightarrow> kept t u \<Longrightarrow> kept s u"
  by (auto simp: kept_def intro: handled_trans)

lemma sm_quiet_kept: "quiet s t \<Longrightarrow> kept s t"
  by (simp add: kept_def quiet_handled) (simp add: quiet_def)

lemma kept_failed: "kept s t \<Longrightarrow> kept s (handshake_failed (b, t))"
  by (simp add: kept_def handled_failed)

lemma renewed_reply_kept:
  assumes "renew_nonce s = Some (ok, t)"
  shows "kept s t" "ok \<Longrightarrow> process_1_of_4_reply C key ver t = Some (r, u) \<Longrightarrow> kept s u"
proof -
  show t: "kept s t" using renew_nonce_handled [OF assms] by (simp add: kept_def)
  show "kept s u" if "ok" "process_1_of_4_reply C key ver t = Some (r, u)"
    using reply_1_handled [OF that(2)] renew_nonce_handled(2) [OF assms that(1)] kept_trans [OF t] by (simp add: kept_def)
qed

lemma process_1_of_4_handled:
  assumes "wpa_supplicant_process_1_of_4 C src key ver kd s = Some t"
  shows "kept s t"
proof -
  have start: "kept s (wpa_sm_set_state st s)" for st by (rule sm_quiet_kept) simp
  have emit: "kept s (rsn_emit Reconnect s)" by (rule sm_quiet_kept) simp
  have get: "kept s v" if "wpa_supplicant_get_pmk C src p (wpa_sm_set_state st s) = Some (r, v)" for p st r v
    using get_pmk_quiet [OF that, of s] sm_quiet_kept by simp
  have renew: "kept s w" if "renew_nonce v = Some (ok, w)" "kept s v" for v ok w
    using renewed_reply_kept(1) [OF that(1)] kept_trans that(2) by blast
  have reply: "kept s x" if "renew_nonce v = Some (True, w)" "process_1_of_4_reply C key ver w = Some (r, x)" "kept s v"
    for v w r x
    using renewed_reply_kept(2) [OF that(1) _ that(2)] kept_trans that(3) by blast
  have "kept s s" by (rule sm_quiet_kept) simp
  with assms start emit show ?thesis unfolding wpa_supplicant_process_1_of_4_def Let_def
    by (auto simp: bind_eq_Some_conv split: if_splits intro!: kept_failed dest!: get dest: renew reply)
qed

text \<open>The installation of the PTK uses up its TK.\<close>

lemma set_tk_view [simp]:
  "kview (snd (wpa_sm_set_key alg addr idx tx seq k flag s)) = kview s"
  by (simp add: wpa_sm_set_key_def split_beta)

lemma set_tk_installs:
  "tk_installs (snd (wpa_sm_set_key alg addr idx tx seq k flag s)) \<le>
     tk_installs s + (if fst (wpa_sm_set_key alg addr idx tx seq k flag s) then 1 else 0)"
  by (simp add: wpa_sm_set_key_def rsn_ask_def rsn_emit_def tk_installs_def split_beta)

lemma install_done_handled:
  assumes "kview t = kview s" "tk_installs t \<le> tk_installs s + 1" "tk_len (ptk s) \<noteq> 0"
  shows "handled s (install_ptk_done c t)"
  using assms unfolding handled_def no_reinstall_def pending_def ctrs_def kview_def
  by (simp add: install_ptk_done_def Let_def rsn_emit_def tk_installs_def)

lemma install_ptk_handled:
  assumes "wpa_supplicant_install_ptk key flag s = Some (ok, t)"
  shows "handled s t"
proof -
  have taken: "handled s (install_ptk_done c (snd x))"
    if "x = wpa_sm_set_key alg addr idx tx seq k fl s" "tk_len (ptk s) \<noteq> 0" "fst x" for x c alg addr idx tx seq k fl
    using install_done_handled [of "snd x" s c] set_tk_installs [of alg addr idx tx seq k fl s] that by simp
  have refused: "handled s (snd (wpa_sm_set_key alg addr idx tx seq k fl s))"
    if "\<not> fst (wpa_sm_set_key alg addr idx tx seq k fl s)" for alg addr idx tx seq k fl
    using that by (intro grouped_handled)
      (auto simp: wpa_sm_set_key_def split_beta grouped_def tk_installs_def rsn_emit_def rsn_ask_def kview_def)
  have "yields (\<lambda>r. handled s (snd r)) (wpa_supplicant_install_ptk key flag s)"
    unfolding wpa_supplicant_install_ptk_def Let_def split_beta
    by (simp add: wlp) (auto intro!: yieldsI taken [OF refl] refused)
  then show ?thesis by (rule yields_pairD [OF assms])
qed

lemma renew_handled: "handled s (s\<lparr>renew_snonce := True\<rparr>)"
  by (simp add: handled_def no_reinstall_def pending_def ctrs_def tk_installs_def)

lemma ptk_3_handled:
  assumes "process_3_of_4_ptk C key ver s = Some (ok, t)"
  shows "handled s t"
proof -
  have early: "process_3_of_4_early key u = Some (r, v) \<Longrightarrow> handled s u \<Longrightarrow> handled s v" for u r v
    by (auto simp: process_3_of_4_early_def split: if_splits dest!: install_ptk_handled intro: handled_trans)
  have send: "wpa_supplicant_send_4_of_4 C d key ver i p u = Some (r, v) \<Longrightarrow> handled s u \<Longrightarrow> handled s v" for d i p u r v
    using send_msg_quiet(2) [of C d key ver i p u r v u] handled_trans [OF _ quiet_handled] by simp
  have install: "process_3_of_4_install key (u\<lparr>renew_snonce := True\<rparr>) = Some (r, v) \<Longrightarrow> handled s u \<Longrightarrow> handled s v" for u r v
  proof -
    assume i: "process_3_of_4_install key (u\<lparr>renew_snonce := True\<rparr>) = Some (r, v)" and u: "handled s u"
    have "handled (u\<lparr>renew_snonce := True\<rparr>) (snd (wpa_supplicant_activate_ptk (u\<lparr>renew_snonce := True\<rparr>)))"
      by (rule grouped_handled) (simp add: wpa_supplicant_activate_ptk_def)
    with i have "handled (u\<lparr>renew_snonce := True\<rparr>) v"
      by (auto simp: process_3_of_4_install_def split: if_splits dest!: install_ptk_handled)
    then show "handled s v" using u renew_handled handled_trans by blast
  qed
  have secure: "handled s (wpa_sm_set_state st (process_3_of_4_secure key u))" if "handled s u" for st u
    by (rule handled_grouped [OF that]) (simp add: process_3_of_4_secure_def)
  show ?thesis using assms secure unfolding process_3_of_4_ptk_def
    by (auto simp: bind_eq_Some_conv split: if_splits dest!: early send install)
qed

lemma process_3_of_4_handled:
  assumes "wpa_supplicant_process_3_of_4 C key ver kd s = Some t"
  shows "handled s t"
proof -
  have check: "process_3_of_4_check key kd ie u = Some (r, v) \<Longrightarrow> handled s u \<Longrightarrow> handled s v" for ie u r v
    using check_3_quiet [of key kd ie u r v u] handled_trans [OF _ quiet_handled] by simp
  have ptk: "process_3_of_4_ptk C key ver u = Some (r, v) \<Longrightarrow> handled s u \<Longrightarrow> handled s v" for u r v
    using ptk_3_handled handled_trans by blast
  have grp: "process_3_of_4_group C key kd ie u = Some (r, v) \<Longrightarrow> handled s u \<Longrightarrow> handled s v" for ie u r v
    using group_3_grouped [of C key kd ie u r v u] handled_grouped by simp
  have start: "handled s (wpa_sm_set_state st s)" for st
    by (rule quiet_handled) simp
  show ?thesis using assms start handled_failed unfolding wpa_supplicant_process_3_of_4_def Let_def
    by (auto simp: bind_eq_Some_conv split: if_splits dest!: check ptk grp)
qed

text \<open>Authentication moves the temporary PTK to the PTK, which uses it up.\<close>

lemma promote_tptk: "tptk_set s \<Longrightarrow>
    no_reinstall s (s\<lparr>tptk_set := False, ptk_set := True, ptk := tptk s, tptk := zero_ptk, renew_snonce := True\<rparr>)"
  by (simp add: no_reinstall_def pending_def tk_installs_def)

lemma no_reinstall_counter [simp]:
  "no_reinstall s (t\<lparr>rx_replay_counter := c, rx_replay_counter_set := b\<rparr>) = no_reinstall s t"
  by (simp add: no_reinstall_def pending_def tk_installs_def)

lemma verify_mic_cases:
  assumes "wpa_supplicant_verify_eapol_key_mic C key ver buf s = Some (ok, tmp, t)"
  obtains (fails) "\<not> ok" "t = s"
  | (temporary) "ok" "tptk_set s" "t = s\<lparr>tptk_set := False, ptk_set := True, ptk := tptk s, tptk := zero_ptk,
      renew_snonce := True, rx_replay_counter := ek_replay_counter key, rx_replay_counter_set := True\<rparr>"
    "check_mic C (tptk s) (key_mgmt (sm_conf s)) ver (wpa_mic_len (key_mgmt (sm_conf s)) (pmk_len s))
       (take (wpa_mic_len (key_mgmt (sm_conf s)) (pmk_len s)) (drop off_mic buf)) buf = Some (True, tmp)"
  | (current) b where "ok" "ptk_set s" "t = s\<lparr>rx_replay_counter := ek_replay_counter key, rx_replay_counter_set := True\<rparr>"
    "b = buf \<or> check_mic C (tptk s) (key_mgmt (sm_conf s)) ver (wpa_mic_len (key_mgmt (sm_conf s)) (pmk_len s))
       (take (wpa_mic_len (key_mgmt (sm_conf s)) (pmk_len s)) (drop off_mic buf)) buf = Some (False, b)"
    "check_mic C (ptk s) (key_mgmt (sm_conf s)) ver (wpa_mic_len (key_mgmt (sm_conf s)) (pmk_len s))
       (take (wpa_mic_len (key_mgmt (sm_conf s)) (pmk_len s)) (drop off_mic buf)) b = Some (True, tmp)"
proof -
  define n where "n = wpa_mic_len (key_mgmt (sm_conf s)) (pmk_len s)"
  define mic where "mic = take n (drop off_mic buf)"
  define chk where "chk p b = check_mic C p (key_mgmt (sm_conf s)) ver n mic b" for p b
  from assms obtain ok1 b1 where 1: "(if tptk_set s then chk (tptk s) buf else Some (False, buf)) = Some (ok1, b1)"
    and 2: "(let s = (if ok1 then s\<lparr>tptk_set := False, ptk_set := True, ptk := tptk s, tptk := zero_ptk, renew_snonce := True\<rparr>
              else s) in do {
     (ok, buf) \<leftarrow> (if \<not> ok1 \<and> ptk_set s then chk (ptk s) b1 else Some (ok1, b1));
     if \<not> ok then Some (False, buf, s)
     else Some (True, buf, s\<lparr>rx_replay_counter := ek_replay_counter key, rx_replay_counter_set := True\<rparr>) }) = Some (ok, tmp, t)"
    unfolding wpa_supplicant_verify_eapol_key_mic_def n_def [symmetric] Let_def
    by (cases ok; fastforce simp: bind_eq_Some_conv chk_def mic_def rdn_def split: if_splits)
  show thesis
  proof (cases ok1)
    case True
    with 1 have tptk: "tptk_set s" "chk (tptk s) buf = Some (True, b1)" by (auto split: if_splits)
    have "ok" "tmp = b1" "t = s\<lparr>tptk_set := False, ptk_set := True, ptk := tptk s, tptk := zero_ptk,
      renew_snonce := True, rx_replay_counter := ek_replay_counter key, rx_replay_counter_set := True\<rparr>"
      using 2 True by simp_all
    with tptk show thesis by (intro temporary) (simp_all add: chk_def n_def mic_def)
  next
    case False
    have b1: "b1 = buf \<or> chk (tptk s) buf = Some (False, b1)" using 1 False by (auto split: if_splits)
    show thesis
    proof (cases "ptk_set s")
      case True
      then obtain ok2 b2 where b2: "chk (ptk s) b1 = Some (ok2, b2)"
        using 2 \<open>\<not> ok1\<close> by (auto simp: bind_eq_Some_conv)
      show thesis
      proof (cases ok2)
        case True
        have "ok" "tmp = b2" "t = s\<lparr>rx_replay_counter := ek_replay_counter key, rx_replay_counter_set := True\<rparr>"
          using 2 True \<open>ptk_set s\<close> \<open>\<not> ok1\<close> b2 by simp_all
        with b1 b2 True \<open>ptk_set s\<close> show thesis by (intro current [of b1]) (simp_all add: chk_def n_def mic_def)
      next
        case False
        have "\<not> ok" "t = s" using 2 False \<open>ptk_set s\<close> \<open>\<not> ok1\<close> b2 by simp_all
        then show thesis by (rule fails)
      qed
    next
      case False
      have "\<not> ok" "t = s" using 2 False \<open>\<not> ok1\<close> by simp_all
      then show thesis by (rule fails)
    qed
  qed
qed

lemma verify_mic_no_reinstall:
  assumes "wpa_supplicant_verify_eapol_key_mic C key ver buf s = Some (ok, tmp, t)"
  shows "no_reinstall s t" "set_keys t = set_keys s"
  using assms by (auto elim!: verify_mic_cases dest!: promote_tptk)

lemma decrypt_quiet:
  assumes "wpa_supplicant_decrypt_key_data C key ver kd t = Some (r, u)"
  shows "quiet t u"
proof -
  have "yields (\<lambda>r. quiet t (snd r)) (wpa_supplicant_decrypt_key_data C key ver kd t)"
    unfolding wpa_supplicant_decrypt_key_data_def Let_def split_beta by (simp add: wlp)
  then show ?thesis by (rule yields_pairD [OF assms])
qed

lemma handled_no_reinstall: "handled s t \<Longrightarrow> no_reinstall s t"
  by (simp add: handled_def)

lemma quiet_no_reinstall: "quiet s t \<Longrightarrow> no_reinstall s t"
  by (rule handled_no_reinstall [OF quiet_handled])

lemma rx_frame_quiet:
  assumes "rx_eapol_frame buf n s = Some (r, t)"
  shows "quiet s t"
proof -
  have "yields (\<lambda>r. quiet s (snd r)) (rx_eapol_frame buf n s)"
    unfolding rx_eapol_frame_def Let_def split_beta by (simp add: wlp)
  then show ?thesis by (rule yields_pairD [OF assms])
qed

lemma rx_open_no_reinstall:
  assumes "rx_eapol_open C tmp key n kdl s = Some (d, t)"
  shows "no_reinstall s t \<and> set_keys t = set_keys s"
proof -
  let ?s = "rsn_emit Eapol_notify_lower_layer_success s"
  have start: "no_reinstall s ?s \<and> set_keys ?s = set_keys s" by (simp add: quiet_no_reinstall)
  have verify: "no_reinstall s u \<and> set_keys u = set_keys s"
    if "wpa_supplicant_verify_eapol_key_mic C key ver b ?s = Some (ok, tmp, u)" for ver b ok tmp u
    using verify_mic_no_reinstall [OF that] start no_reinstall_trans by auto
  have decrypt: "no_reinstall s v \<and> set_keys v = set_keys s"
    if "wpa_supplicant_decrypt_key_data C key ver kd u = Some (d, v)" "no_reinstall s u \<and> set_keys u = set_keys s" for ver kd u v
    using decrypt_quiet [OF that(1)] quiet_no_reinstall no_reinstall_trans that(2) by (auto simp: quiet_def)
  show ?thesis using assms start unfolding rx_eapol_open_def Let_def
    by (auto simp: bind_eq_Some_conv split: if_splits dest!: verify decrypt)
qed

lemma dispatch_handled:
  assumes "rx_eapol_dispatch C src key n kd s = Some (r, t)"
  shows "handled s t"
  using assms unfolding rx_eapol_dispatch_def Let_def
  by (auto split: if_splits dest!: process_3_of_4_handled process_1_of_4_handled process_1_of_2_grouped [OF _ grouped_refl]
      simp: kept_def grouped_handled)

lemma rx_no_reinstall:
  assumes "wpa_sm_rx_eapol C src buf s = Some (r, t)"
  shows "no_reinstall s t"
proof -
  from assms obtain n x s1 where s1: "rx_eapol_frame buf n s = Some (x, s1)"
      "(case x of Inl v \<Rightarrow> Some (v, s1) | Inr (tmp, key, kdl) \<Rightarrow> do {
         (d, s) \<leftarrow> rx_eapol_open C tmp key n kdl s1;
         case d of None \<Rightarrow> Some (-1, s) | Some key_data \<Rightarrow> rx_eapol_dispatch C src key n key_data s }) = Some (r, t)"
    by (auto simp: wpa_sm_rx_eapol_def bind_eq_Some_conv)
  have q: "no_reinstall s s1" by (rule quiet_no_reinstall [OF rx_frame_quiet [OF s1(1)]])
  show ?thesis
  proof (cases x)
    case (Inl v)
    with s1(2) q show ?thesis by simp
  next
    case (Inr y)
    then obtain key kdl tmp d s2 where s2: "rx_eapol_open C tmp key n kdl s1 = Some (d, s2)"
      "(case d of None \<Rightarrow> Some (-1, s2) | Some key_data \<Rightarrow> rx_eapol_dispatch C src key n key_data s2) = Some (r, t)"
      using s1(2) by (auto simp: bind_eq_Some_conv split: prod.splits)
    have "no_reinstall s s2" using q rx_open_no_reinstall [OF s2(1)] no_reinstall_trans by blast
    then show ?thesis using s2(2)
      by (auto split: option.splits dest!: dispatch_handled handled_no_reinstall intro: no_reinstall_trans)
  qed
qed

end
