(* ===== verification/Wpa_sm_run.thy ===== *)
theory Wpa_sm_run
  imports Wpa_sm_props
begin

text \<open>
  Runs of the RSN state machine. An event is a call of one of the operations of \<open>wpa.h\<close>,
  an event of its PMKSA cache, or a change of what the callbacks report. Over every
  sequence of events a pairwise key is handed to the driver at most once for each SNonce
  that was drawn.
\<close>

section \<open>The events of the PMKSA cache\<close>

lemma clone_quiet:
  assumes "pmksa_cache_clone_entry C old aa t = Some (r, u)" "cache_quiet s t"
  shows "cache_quiet s u"
proof -
  have "yields (\<lambda>r. cache_quiet s (snd r)) (pmksa_cache_clone_entry C old aa t)"
    unfolding pmksa_cache_clone_entry_def Let_def using assms(2)
    by (auto intro!: yields_pureI split: option.split dest!: cache_add_quiet)
  then show ?thesis by (rule yields_pairD [OF assms(1)])
qed

lemma opportunistic_quiet:
  "pmksa_cache_get_opportunistic C c aa akmp t = Some (r, u) \<Longrightarrow> cache_quiet s t \<Longrightarrow> cache_quiet s u"
  by (auto simp: pmksa_cache_get_opportunistic_def bind_eq_Some_conv split: option.splits if_splits dest!: clone_quiet)

lemma current_try_yields:
  assumes "cache_quiet s t" "\<And>r v. f t = Some (r, v) \<Longrightarrow> cache_quiet s v"
  shows "yields (cache_quiet s) (pmksa_current_try c f t)"
  using assms by (auto simp: pmksa_current_try_def bind_eq_Some_conv split: if_splits intro!: yieldsI)

lemma set_current_quiet:
  assumes "pmksa_cache_set_current C pmkid bss c okc fcid akmp t = Some (r, u)" "cache_quiet s t"
  shows "cache_quiet s u"
proof -
  have "yields (\<lambda>r. cache_quiet s (snd r)) (pmksa_cache_set_current C pmkid bss c okc fcid akmp t)"
    unfolding pmksa_cache_set_current_def Let_def
    by (intro yields_bindI [where Q = "cache_quiet s"] current_try_yields)
      (use assms(2) in \<open>auto dest: opportunistic_quiet split: option.split intro!: yields_pureI\<close>)
  then show ?thesis by (rule yields_pairD [OF assms(1)])
qed

lemma expire_loop_quiet: "pmksa_expire_loop n as t = Some u \<Longrightarrow> cache_quiet s t \<Longrightarrow> cache_quiet s u"
proof (induction as arbitrary: t)
  case (Cons a as)
  have free: "pmksa_cache_free_entry a r (pmksa_unlink a t) = Some v \<Longrightarrow> cache_quiet s v" for r v
    by (erule free_entry_quiet) (simp add: pmksa_unlink_def Cons.prems(2))
  show ?case using Cons.prems Cons.IH by (auto simp: bind_eq_Some_conv split: if_splits dest: free)
qed simp

lemma reconfig_quiet: "pmksa_reconfig_loop as t = Some u \<Longrightarrow> cache_quiet s t \<Longrightarrow> cache_quiet s u"
proof (induction as arbitrary: t)
  case (Cons a as)
  have "cache_quiet s (pmksa_reconfig_entry e t)" for e
    using Cons.prems(2) by (simp add: pmksa_reconfig_entry_def Let_def)
  then show ?case using Cons by (auto simp: bind_eq_Some_conv)
qed simp

lemma kview_cache_config [simp]:
  "kview (s\<lparr>clock := n\<rparr>) = kview s" "kview (s\<lparr>dot11RSNAConfigPMKLifetime := v\<rparr>) = kview s"
  "kview (s\<lparr>dot11RSNAConfigPMKReauthThreshold := v\<rparr>) = kview s"
  by (simp_all add: kview_def)

lemma pmksa_event_quiet:
  assumes "pmksa_event C s e = Some t"
  shows "quiet s t"
proof -
  have "quiet s t" if "cache_quiet s t" using that by (rule quiet_cache)
  moreover have "cache_quiet s t \<or> quiet s t" using assms
  proof (cases e)
    case (Ev_add_entry x)
    then show ?thesis using assms by (auto split: prod.splits option.splits dest!: add_entry_quiet [where s = s] simp: zalloc_quiet)
  next
    case Ev_expire
    then show ?thesis using assms
      by (auto simp: pmksa_cache_expire_def bind_eq_Some_conv dest!: expire_loop_quiet [where s = s] set_expiration_quiet [where s = s])
  next
    case Ev_reconfig
    then show ?thesis using assms by (auto simp: pmksa_cache_reconfig_def dest!: reconfig_quiet [where s = s])
  qed (auto simp: pmksa_cache_clear_current_def pmksa_cache_reauth_def quiet_def set_keys_def
      dest!: cache_add_quiet [where s = s] flush_quiet [where s = s] set_current_quiet [where s = s] accept_current_quiet [where s = s])
  ultimately show ?thesis by blast
qed

section \<open>Events\<close>

datatype wpa_ev =
    Rx_eapol bytes bytes
  | Notify_assoc bytes
  | Notify_disassoc
  | Drop_sa
  | Key_request bool bool
  | Rekey_ptk
  | Set_pmk bytes "bytes option" "bytes option"
  | Set_pmk_from_pmksa
  | Cache_add bytes "bytes option" bytes "bytes option"
  | Cache pmksa_ev
  | Aborted_cached
  | Aborted_external_cached
  | Set_own_addr bytes
  | Set_param wpa_sm_conf_params u32
  | Set_config "rsn_supp_config option"
  | Set_assoc_wpa_ie "bytes option"
  | Set_assoc_rsnxe "bytes option"
  | Set_ap_wpa_ie "bytes option"
  | Set_ap_rsn_ie "bytes option"
  | Set_ap_rsnxe "bytes option"
  | Set_ap_rsne_override "bytes option"
  | Set_ap_rsne_override_2 "bytes option"
  | Set_ap_rsnxe_override "bytes option"
  | Update_replay_ctr bytes
  | Set_rx_replay_ctr "bytes option"
  | Set_ptk_kck_kek "bytes option" "bytes option"
  | Wnmsleep_install_key u8 bytes
  | Environment wpa_sm_ctx

fun wpa_event :: "'y wpa_crypto_scheme \<Rightarrow> wpa_sm \<Rightarrow> wpa_ev \<Rightarrow> wpa_sm option" where
  "wpa_event C s (Rx_eapol src buf) = map_option snd (wpa_sm_rx_eapol C src buf s)"
| "wpa_event C s (Notify_assoc bss) = Some (wpa_sm_notify_assoc bss s)"
| "wpa_event C s Notify_disassoc = Some (wpa_sm_notify_disassoc s)"
| "wpa_event C s Drop_sa = Some (wpa_sm_drop_sa s)"
| "wpa_event C s (Key_request err pw) = wpa_sm_key_request C err pw s"
| "wpa_event C s Rekey_ptk = wpa_sm_rekey_ptk C s"
| "wpa_event C s (Set_pmk k pmkid aa) = wpa_sm_set_pmk C k pmkid aa s"
| "wpa_event C s Set_pmk_from_pmksa = wpa_sm_set_pmk_from_pmksa s"
| "wpa_event C s (Cache_add k pmkid aa cid) = wpa_sm_pmksa_cache_add C k pmkid aa cid s"
| "wpa_event C s (Cache e) = pmksa_event C s e"
| "wpa_event C s Aborted_cached = Some (wpa_sm_aborted_cached s)"
| "wpa_event C s Aborted_external_cached = wpa_sm_aborted_external_cached s"
| "wpa_event C s (Set_own_addr a) = Some (wpa_sm_set_own_addr a s)"
| "wpa_event C s (Set_param p v) = Some (snd (wpa_sm_set_param p v s))"
| "wpa_event C s (Set_config c) = wpa_sm_set_config c s"
| "wpa_event C s (Set_assoc_wpa_ie b) = Some (snd (wpa_sm_set_assoc_wpa_ie b s))"
| "wpa_event C s (Set_assoc_rsnxe b) = Some (snd (wpa_sm_set_assoc_rsnxe b s))"
| "wpa_event C s (Set_ap_wpa_ie b) = Some (snd (wpa_sm_set_ap_wpa_ie b s))"
| "wpa_event C s (Set_ap_rsn_ie b) = Some (snd (wpa_sm_set_ap_rsn_ie b s))"
| "wpa_event C s (Set_ap_rsnxe b) = Some (snd (wpa_sm_set_ap_rsnxe b s))"
| "wpa_event C s (Set_ap_rsne_override b) = Some (snd (wpa_sm_set_ap_rsne_override b s))"
| "wpa_event C s (Set_ap_rsne_override_2 b) = Some (snd (wpa_sm_set_ap_rsne_override_2 b s))"
| "wpa_event C s (Set_ap_rsnxe_override b) = Some (snd (wpa_sm_set_ap_rsnxe_override b s))"
| "wpa_event C s (Update_replay_ctr c) = Some (wpa_sm_update_replay_ctr c s)"
| "wpa_event C s (Set_rx_replay_ctr c) = Some (wpa_sm_set_rx_replay_ctr c s)"
| "wpa_event C s (Set_ptk_kck_kek a b) = wpa_sm_set_ptk_kck_kek a b s"
| "wpa_event C s (Wnmsleep_install_key i b) = map_option snd (wpa_wnmsleep_install_key i b s)"
| "wpa_event C s (Environment c) = Some (s\<lparr>ctx := c\<rparr>)"

text \<open>A run that leaves a buffer or uses freed memory is \<^const>\<open>None\<close>.\<close>

definition wpa_step :: "'y wpa_crypto_scheme \<Rightarrow> wpa_sm option \<Rightarrow> wpa_ev \<Rightarrow> wpa_sm option" where
  "wpa_step C r e = do { s \<leftarrow> r; wpa_event C s e }"

section \<open>Every event uses a pairwise key at most once\<close>

lemma no_reinstall_same:
  assumes "ptk t = ptk s" "tptk_set t = tptk_set s" "renew_snonce t = renew_snonce s" "nonce_draws t = nonce_draws s"
    "rsn_trace t = rsn_trace s"
  shows "no_reinstall s t"
  using assms by (simp add: no_reinstall_def pending_def tk_installs_def)

lemma ie_dup_frame: "snd (snd (ie_dup b s)) = s \<or> snd (snd (ie_dup b s)) = s\<lparr>rsn_asked := Suc (rsn_asked s)\<rparr>"
  by (cases b) (simp_all add: ie_dup_def rsn_ask_def)

lemma set_ie_no_reinstall:
  "no_reinstall s (snd (wpa_sm_set_assoc_wpa_ie b s))" "no_reinstall s (snd (wpa_sm_set_assoc_rsnxe b s))"
  "no_reinstall s (snd (wpa_sm_set_ap_wpa_ie b s))" "no_reinstall s (snd (wpa_sm_set_ap_rsn_ie b s))"
  "no_reinstall s (snd (wpa_sm_set_ap_rsnxe b s))" "no_reinstall s (snd (wpa_sm_set_ap_rsne_override b s))"
  "no_reinstall s (snd (wpa_sm_set_ap_rsne_override_2 b s))" "no_reinstall s (snd (wpa_sm_set_ap_rsnxe_override b s))"
  by (rule no_reinstall_same; use ie_dup_frame [of b s] in \<open>auto simp: wpa_sm_set_assoc_wpa_ie_def
      wpa_sm_set_assoc_rsnxe_def wpa_sm_set_ap_wpa_ie_def wpa_sm_set_ap_rsn_ie_def wpa_sm_set_ap_rsnxe_def
      wpa_sm_set_ap_rsne_override_def wpa_sm_set_ap_rsne_override_2_def wpa_sm_set_ap_rsnxe_override_def split_beta\<close>)+

lemma set_param_no_reinstall: "no_reinstall s (snd (wpa_sm_set_param p v s))"
  by (cases p) (simp_all add: no_reinstall_same)

lemma drop_no_reinstall:
  "no_reinstall s (wpa_sm_drop_sa s)" "no_reinstall s (wpa_sm_notify_assoc a s)" "no_reinstall s (wpa_sm_notify_disassoc s)"
  by (simp_all add: no_reinstall_def pending_def tk_installs_def wpa_sm_drop_sa_def wpa_sm_notify_assoc_def
      wpa_sm_notify_disassoc_def pmksa_cache_clear_current_def rsn_emit_def zero_ptk_def Let_def)

lemma set_pmk_quiet: "wpa_sm_set_pmk C k pmkid aa s = Some t \<Longrightarrow> quiet s t"
  by (auto simp: wpa_sm_set_pmk_def Let_def bind_eq_Some_conv split: if_splits option.splits dest!: sm_cache_add_quiet [where s = s])

lemma wnmsleep_grouped: "wpa_wnmsleep_install_key i b s = Some (r, t) \<Longrightarrow> grouped s t"
  by (auto simp: wpa_wnmsleep_install_key_def wpa_wnmsleep_install_gtk_def Let_def bind_eq_Some_conv split: if_splits
      dest!: install_group_grouped [where s = s])

lemma kck_kek_no_reinstall:
  assumes "wpa_sm_set_ptk_kck_kek a b s = Some t"
  shows "no_reinstall s t"
proof -
  have "yields (no_reinstall s) (wpa_sm_set_ptk_kck_kek a b s)"
    unfolding wpa_sm_set_ptk_kck_kek_def
    by (intro yields_bindI [where Q = "\<lambda>p. tk_len p = tk_len (ptk s)"])
      (auto split: option.split simp: yields_map_option no_reinstall_def pending_def tk_installs_def)
  then show ?thesis using assms by (rule yieldsD)
qed

lemma wpa_event_no_reinstall:
  assumes "wpa_event C s e = Some t"
  shows "no_reinstall s t"
proof (cases e)
  case (Rx_eapol src buf)
  then show ?thesis using assms rx_no_reinstall by auto
next
  case (Key_request err pw)
  then show ?thesis using assms quiet_no_reinstall [OF yieldsD [OF key_request_quiet [OF sm_quiet_refl]]] by auto
next
  case Rekey_ptk
  then show ?thesis using assms quiet_no_reinstall [OF yieldsD [OF key_request_quiet [OF sm_quiet_refl]]]
    by (auto simp: wpa_sm_rekey_ptk_def)
next
  case (Cache_add k pmkid aa cid)
  then show ?thesis using assms
    by (auto simp: wpa_sm_pmksa_cache_add_def bind_eq_Some_conv intro!: quiet_no_reinstall dest!: sm_cache_add_quiet [where s = s])
next
  case Aborted_external_cached
  then show ?thesis using assms
    by (auto simp: wpa_sm_aborted_external_cached_def bind_eq_Some_conv intro!: quiet_no_reinstall split: option.splits if_splits)
next
  case Aborted_cached
  then show ?thesis using assms by (auto simp: wpa_sm_aborted_cached_def intro!: quiet_no_reinstall split: if_splits)
next
  case (Set_config c)
  then show ?thesis using assms
    by (auto simp: wpa_sm_set_config_def bind_eq_Some_conv intro!: no_reinstall_same split: option.splits if_splits)
qed (use assms in \<open>auto simp: drop_no_reinstall set_ie_no_reinstall set_param_no_reinstall
      wpa_sm_set_own_addr_def wpa_sm_update_replay_ctr_def wpa_sm_set_rx_replay_ctr_def
      intro: quiet_no_reinstall [OF set_pmk_quiet] quiet_no_reinstall [OF from_pmksa_quiet [OF _ sm_quiet_refl]]
        quiet_no_reinstall [OF pmksa_event_quiet] kck_kek_no_reinstall no_reinstall_same
        handled_no_reinstall [OF grouped_handled [OF wnmsleep_grouped]]
      split: option.splits\<close>)

interpretation wpa: event_machine "wpa_step C" "\<lambda>_. True" "yields (no_reinstall s0)"
  for C :: "'y wpa_crypto_scheme" and s0 :: wpa_sm
  by unfold_locales (auto simp: wpa_step_def wlp yields_def bind_eq_Some_conv dest!: wpa_event_no_reinstall intro: no_reinstall_trans)

lemma wpa_run_no_reinstall:
  assumes "foldl (wpa_step C) (Some s) es = Some t"
  shows "no_reinstall s t"
  using wpa.run_inv [of s "Some s" es C] assms by (simp add: list_all_iff)

section \<open>A handshake\<close>

text \<open>A station in a WPA2-Personal network and the messages of its authenticator, with a toy
  choice of the cryptographic functions: the MIC of a frame is its first octets and AES is the
  identity.\<close>

definition demo_wpa_crypto :: wpa_crypto where
  "demo_wpa_crypto = \<lparr>hmac_sha1 = (\<lambda>k d. Some (take 20 (d @ replicate 20 0))),
     hmac_sha256 = (\<lambda>k d. Some (take 32 (d @ replicate 32 0))),
     hmac_sha384 = (\<lambda>k d. Some (take 48 (d @ replicate 48 0))),
     hmac_md5 = (\<lambda>k d. Some (take 16 (d @ replicate 16 0))),
     hmac_sha512 = (\<lambda>k d. Some (take 64 (d @ replicate 64 0))),
     omac1_aes_128 = (\<lambda>k d. Some (take 16 (d @ replicate 16 0))),
     aes_encrypt = (\<lambda>k. Some (\<lambda>b. b)), aes_decrypt = (\<lambda>k. Some (\<lambda>b. b))\<rparr>"

definition demo_rsne :: bytes where
  "demo_rsne = [48, 20, 1, 0, 0x00, 0x0f, 0xac, 4, 1, 0, 0x00, 0x0f, 0xac, 4, 1, 0, 0x00, 0x0f, 0xac, 2, 0, 0]"

definition demo_ctx :: wpa_sm_ctx where
  "demo_ctx = \<lparr>ctx_network = 1, ctx_bssid = None, ctx_beacon = (False, no_ap), ctx_eapol = True,
     ctx_eapol_key = (\<lambda>_. None), ctx_candidates = False, ctx_preauth_bssid = [], ctx_eapol_version = 1,
     ctx_random = (\<lambda>n. Some (replicate 32 (of_nat n + 5)))\<rparr>"

definition demo_start :: "wpa_ev list" where
  "demo_start = [Set_own_addr (replicate 6 2), Set_param WPA_PARAM_PROTO WPA_PROTO_RSN,
     Set_param WPA_PARAM_PAIRWISE WPA_CIPHER_CCMP, Set_param WPA_PARAM_GROUP WPA_CIPHER_CCMP,
     Set_param WPA_PARAM_KEY_MGMT WPA_KEY_MGMT_PSK, Set_assoc_wpa_ie (Some demo_rsne), Set_ap_rsn_ie (Some demo_rsne),
     Notify_assoc (replicate 6 1), Set_pmk (replicate 32 7) None None]"

text \<open>An EAPOL-Key frame of the authenticator; the toy MIC of a frame that carries one.\<close>

definition demo_frame :: "u16 \<Rightarrow> u8 \<Rightarrow> bool \<Rightarrow> bytes \<Rightarrow> bytes" where
  "demo_frame info ctr mic kd =
     (let hdr = [2, 3] @ WPA_PUT_BE16 (of_nat (95 + length kd)) @ [2] @ WPA_PUT_BE16 info @ [0, 16] @
            replicate 7 0 @ [ctr] @ replicate 32 9 @ replicate 32 0
      in hdr @ (if mic then take 16 hdr else replicate 16 0) @ WPA_PUT_BE16 (of_nat (length kd)) @ kd)"

definition demo_gtk_kde :: bytes where
  "demo_gtk_kde = [0xdd, 22, 0x00, 0x0f, 0xac, 1, 1, 0] @ replicate 16 3 @ [0xdd, 0]"

definition demo_msg_1 :: bytes where
  "demo_msg_1 = demo_frame 0x008a 1 False []"

definition demo_msg_3 :: bytes where
  "demo_msg_3 = demo_frame 0x13ca 2 True (the (the (aes_wrap demo_wpa_crypto (replicate 16 0) 6 (demo_rsne @ demo_gtk_kde))))"

definition demo_init :: wpa_sm where
  "demo_init = wpa_sm_init 100 (\<lambda>n. Some n) demo_ctx"

definition demo_run :: "wpa_ev list \<Rightarrow> wpa_sm option" where
  "demo_run es = foldl (wpa_step demo_wpa_crypto) (Some demo_init) (demo_start @ es)"

section \<open>Key reinstallation\<close>

text \<open>C2. However the operations of the state machine and the frames of the network are interleaved, the
  number of pairwise keys installed never exceeds the number of SNonces drawn; and from a state
  in which the PTK is installed and no handshake is open, each further installation needs a new
  SNonce: a retransmitted message 3 does not install the PTK, and does not reset its packet numbers, again.\<close>
theorem ptk_installed_once:
  assumes "foldl (wpa_step C) (Some (wpa_sm_init now answers c)) es = Some s"
    "foldl (wpa_step C) (Some s) fs = Some t"
  shows "tk_installs s \<le> nonce_draws s \<and>
    (tk_len (ptk s) = 0 \<and> \<not> tptk_set s \<and> renew_snonce s \<longrightarrow>
       tk_installs t + nonce_draws s \<le> tk_installs s + nonce_draws t)"
proof -
  have "tk_installs s \<le> nonce_draws s" using wpa_run_no_reinstall [OF assms(1)]
    by (simp add: no_reinstall_def pending_def wpa_sm_init_def pmksa_cache_init_def tk_installs_def zero_ptk_def)
  then show ?thesis using wpa_run_no_reinstall [OF assms(2)] by (auto simp: no_reinstall_def pending_def)
qed

definition demo_handshake :: "wpa_ev list" where
  "demo_handshake = demo_start @ [Rx_eapol (replicate 6 1) demo_msg_1, Rx_eapol (replicate 6 1) demo_msg_3]"

definition demo_done :: wpa_sm where
  "demo_done = the (foldl (wpa_step demo_wpa_crypto) (Some demo_init) demo_handshake)"

text \<open>The handshake completes, with one pairwise and one group key installed.\<close>

lemma demo_done_state:
  "map_option (\<lambda>s. (tk_installs s, length (set_keys s), nonce_draws s, tk_len (ptk s), tptk_set s, renew_snonce s, wpa_state s))
     (foldl (wpa_step demo_wpa_crypto) (Some demo_init) demo_handshake) = Some (1, 2, 1, 0, False, True, WPA_COMPLETED)"
  by code_simp

lemma demo_done_run:
  "foldl (wpa_step demo_wpa_crypto) (Some demo_init) demo_handshake = Some demo_done"
  using demo_done_state by (cases "foldl (wpa_step demo_wpa_crypto) (Some demo_init) demo_handshake") (simp_all add: demo_done_def)

lemma demo_done_facts:
  "tk_installs demo_done = 1" "nonce_draws demo_done = 1" "tk_len (ptk demo_done) = 0" "\<not> tptk_set demo_done"
  "renew_snonce demo_done" "wpa_state demo_done = WPA_COMPLETED"
  using demo_done_state unfolding demo_done_run by simp_all

theorem ptk_installed_once_witness:
  "tk_installs demo_done \<le> nonce_draws demo_done \<and> tk_installs (wpa_sm_drop_sa demo_done) \<le> 1"
proof -
  have "foldl (wpa_step demo_wpa_crypto) (Some demo_done) [Drop_sa] = Some (wpa_sm_drop_sa demo_done)"
    by (simp add: wpa_step_def)
  from ptk_installed_once [OF demo_done_run [unfolded demo_init_def] this] show ?thesis
    using demo_done_facts by (simp add: wpa_sm_drop_sa_def)
qed

end
