(* ===== verification/Wpa_sm_auth.thy ===== *)
theory Wpa_sm_auth
  imports Wpa_sm_run
begin

text \<open>
  Authentication of received EAPOL-Key frames: the replay counter grows, replays are dropped,
  and in an RSN only a frame whose MIC verifies under the PTK or the temporary PTK makes the
  state machine hand a key to the driver.
\<close>

section \<open>The steps of the reception\<close>

lemma rx_steps:
  assumes "wpa_sm_rx_eapol C src buf s = Some (r, t)"
  obtains (early) n where "rx_eapol_frame buf n s = Some (Inl r, t)"
  | (dropped) n tmp key kdl s1 where "rx_eapol_mic_len s = Some n" "rx_eapol_frame buf n s = Some (Inr (tmp, key, kdl), s1)"
      "rx_eapol_open C tmp key n kdl s1 = Some (None, t)" "r = - 1"
  | (opened) n tmp key kdl s1 d s2 where "rx_eapol_mic_len s = Some n" "rx_eapol_frame buf n s = Some (Inr (tmp, key, kdl), s1)"
      "rx_eapol_open C tmp key n kdl s1 = Some (Some d, s2)" "rx_eapol_dispatch C src key n d s2 = Some (r, t)"
proof -
  from assms obtain n x s1 where n: "rx_eapol_mic_len s = Some n" "rx_eapol_frame buf n s = Some (x, s1)"
    and k: "(case x of Inl v \<Rightarrow> Some (v, s1) | Inr (tmp, key, kdl) \<Rightarrow> do {
         (d, s) \<leftarrow> rx_eapol_open C tmp key n kdl s1;
         case d of None \<Rightarrow> Some (-1, s) | Some key_data \<Rightarrow> rx_eapol_dispatch C src key n key_data s }) = Some (r, t)"
    by (auto simp: wpa_sm_rx_eapol_def bind_eq_Some_conv)
  show thesis
  proof (cases x)
    case (Inl v)
    then show thesis using n k early by simp
  next
    case (Inr y)
    then obtain tmp key kdl where y: "x = Inr (tmp, key, kdl)" by (cases y) auto
    with k obtain d s2 where d: "rx_eapol_open C tmp key n kdl s1 = Some (d, s2)"
      "(case d of None \<Rightarrow> Some (-1, s2) | Some key_data \<Rightarrow> rx_eapol_dispatch C src key n key_data s2) = Some (r, t)"
      by (auto simp: bind_eq_Some_conv)
    then show thesis using n y dropped [of n tmp key kdl s1] opened [of n tmp key kdl s1] by (cases d) auto
  qed
qed

text \<open>The fields of a frame.\<close>

definition frame_info :: "bytes \<Rightarrow> u16" where
  "frame_info b = push_bit 8 (ucast (b ! 5)) OR ucast (b ! 6)"

definition frame_ctr :: "bytes \<Rightarrow> bytes" where
  "frame_ctr b = take 8 (drop 9 b)"

definition frame_mic :: "nat \<Rightarrow> bytes \<Rightarrow> bytes" where
  "frame_mic n b = take n (drop off_mic b)"

definition zero_mic :: "nat \<Rightarrow> bytes \<Rightarrow> bytes" where
  "zero_mic n b = take off_mic b @ replicate n 0 @ drop (off_mic + n) b"

text \<open>The frame without what follows the length of the EAPOL header.\<close>

definition frame_of :: "bytes \<Rightarrow> bytes" where
  "frame_of b = take (unat (push_bit 8 (ucast (b ! 2)) OR ucast (b ! 3) :: u16) + 4) b"

lemma frame_of_take: "take (length (frame_of b)) b = frame_of b"
  by (simp add: frame_of_def min_def)

lemma eapol_key_at_fields:
  assumes "eapol_key_at b = Some key"
  shows "ek_key_info key = frame_info b" "ek_replay_counter key = frame_ctr b"
  using assms by (auto simp: eapol_key_at_def bind_eq_Some_conv WPA_GET_BE16_def rd8_def rdn_def frame_info_def frame_ctr_def
      wpa_len_defs numeral_eq_Suc split: if_splits)

lemma frame_fields_take:
  assumes "17 \<le> n" "n \<le> length b"
  shows "frame_info (take n b) = frame_info b" "frame_ctr (take n b) = frame_ctr b"
  using assms by (simp_all add: frame_info_def frame_ctr_def drop_take)

lemma rx_frame_facts:
  assumes "rx_eapol_frame buf n s = Some (Inr (tmp, key, kdl), t)"
  shows "t = s\<lparr>rsn_asked := Suc (rsn_asked s)\<rparr>" "tmp = frame_of buf" "off_mic + n + 2 \<le> length tmp"
    "length tmp \<le> length buf" "eapol_key_at tmp = Some key" "off_mic + n + 2 + kdl \<le> length tmp"
  using assms unfolding rx_eapol_frame_def Let_def split_beta
  by (auto simp: bind_eq_Some_conv rsn_ask_def rdn_def wpa_frame_defs WPA_GET_BE16_def rd8_def frame_of_def split: if_splits)

lemma rx_frame_early: "rx_eapol_frame buf n s = Some (Inl v, t) \<Longrightarrow> v \<noteq> 1 \<and> (\<exists>q. t = s\<lparr>rsn_asked := q\<rparr>)"
proof -
  have "\<exists>q. s = s\<lparr>rsn_asked := q\<rparr>" by (rule exI [of _ "rsn_asked s"]) simp
  then show "rx_eapol_frame buf n s = Some (Inl v, t) \<Longrightarrow> v \<noteq> 1 \<and> (\<exists>q. t = s\<lparr>rsn_asked := q\<rparr>)"
    unfolding rx_eapol_frame_def Let_def split_beta
    by (auto simp: bind_eq_Some_conv rsn_ask_def split: if_splits)
qed

lemma rx_frame_fields:
  assumes "rx_eapol_frame buf n s = Some (Inr (tmp, key, kdl), t)"
  shows "ek_key_info key = frame_info buf" "ek_replay_counter key = frame_ctr buf"
proof -
  note f = rx_frame_facts [OF assms]
  have "17 \<le> length tmp" using f(3) by (simp add: wpa_frame_defs)
  then have "frame_info tmp = frame_info buf" "frame_ctr tmp = frame_ctr buf"
    using frame_fields_take [of "length tmp" buf] f(2,4) frame_of_take [of buf] by simp_all
  then show "ek_key_info key = frame_info buf" "ek_replay_counter key = frame_ctr buf"
    using eapol_key_at_fields [OF f(5)] by simp_all
qed

lemma emit_counters [simp]:
  "rx_replay_counter (rsn_emit e s) = rx_replay_counter s" "rx_replay_counter_set (rsn_emit e s) = rx_replay_counter_set s"
  "sm_conf (rsn_emit e s) = sm_conf s" "tptk_set (rsn_emit e s) = tptk_set s" "ptk_set (rsn_emit e s) = ptk_set s"
  "tptk (rsn_emit e s) = tptk s" "ptk (rsn_emit e s) = ptk s" "pmk (rsn_emit e s) = pmk s"
  by (simp_all add: rsn_emit_def)

text \<open>A frame is opened only when it passes the checks; one with a MIC is authenticated.\<close>

lemma rx_open_checks:
  assumes "rx_eapol_open C tmp key n kdl s = Some (d, t)"
  shows "d = None \<and> t = rsn_emit Eapol_notify_lower_layer_success s \<or>
    rx_ver_ok (ek_key_info key) (sm_conf s) \<and>
    (rx_replay_counter_set s \<longrightarrow> 0 < os_memcmp (ek_replay_counter key) (rx_replay_counter s)) \<and>
    info_bit (ek_key_info key) WPA_KEY_INFO_ACK \<and> \<not> info_bit (ek_key_info key) WPA_KEY_INFO_REQUEST"
proof (cases "rx_ver_ok (ek_key_info key) (sm_conf s) \<and>
    \<not> (rx_replay_counter_set s \<and> os_memcmp (ek_replay_counter key) (rx_replay_counter s) \<le> 0) \<and>
    \<not> info_bit (ek_key_info key) WPA_KEY_INFO_SMK_MESSAGE \<and>
    info_bit (ek_key_info key) WPA_KEY_INFO_ACK \<and> \<not> info_bit (ek_key_info key) WPA_KEY_INFO_REQUEST")
  case False
  then show ?thesis using assms unfolding rx_eapol_open_def Let_def
    by (auto split: if_splits)
qed auto

lemma rx_open_cases:
  assumes "rx_eapol_open C tmp key n kdl s = Some (d, t)"
  obtains (dropped) "d = None" "t = rsn_emit Eapol_notify_lower_layer_success s"
  | (verified) ok b u where "info_bit (ek_key_info key) WPA_KEY_INFO_MIC"
      "wpa_supplicant_verify_eapol_key_mic C key (ek_key_info key AND WPA_KEY_INFO_TYPE_MASK) tmp
         (rsn_emit Eapol_notify_lower_layer_success s) = Some (ok, b, u)" "quiet u t" "d \<noteq> None \<Longrightarrow> ok"
  | (plain) "\<not> info_bit (ek_key_info key) WPA_KEY_INFO_MIC" "t = rsn_emit Eapol_notify_lower_layer_success s"
      "d \<noteq> None \<Longrightarrow> sm_proto_rsn s \<Longrightarrow> n \<noteq> 0 \<Longrightarrow> \<not> info_bit (ek_key_info key) WPA_KEY_INFO_ENCR_KEY_DATA"
proof (cases "t = rsn_emit Eapol_notify_lower_layer_success s \<and> d = None")
  case False
  show thesis
  proof (cases "info_bit (ek_key_info key) WPA_KEY_INFO_MIC")
    case True
    with False assms obtain ok b u where v: "wpa_supplicant_verify_eapol_key_mic C key (ek_key_info key AND WPA_KEY_INFO_TYPE_MASK) tmp
         (rsn_emit Eapol_notify_lower_layer_success s) = Some (ok, b, u)"
      and k: "(if \<not> ok then Some (None, u) else do {
         key_data \<leftarrow> rdn b (off_mic + n + 2) kdl;
         if sm_proto_rsn u \<and> info_bit (ek_key_info key) WPA_KEY_INFO_ENCR_KEY_DATA \<and> n \<noteq> 0
         then wpa_supplicant_decrypt_key_data C key (ek_key_info key AND WPA_KEY_INFO_TYPE_MASK) key_data u
         else Some (Some key_data, u) }) = Some (d, t)"
      unfolding rx_eapol_open_def Let_def by (auto simp: bind_eq_Some_conv split: if_splits)
    have "quiet u t \<and> (d \<noteq> None \<longrightarrow> ok)" using k by (auto simp: bind_eq_Some_conv split: if_splits dest!: decrypt_quiet)
    with True v show thesis using verified by blast
  next
    case mic: False
    have "t = rsn_emit Eapol_notify_lower_layer_success s"
      "d \<noteq> None \<Longrightarrow> sm_proto_rsn s \<Longrightarrow> n \<noteq> 0 \<Longrightarrow> \<not> info_bit (ek_key_info key) WPA_KEY_INFO_ENCR_KEY_DATA"
      using assms mic unfolding rx_eapol_open_def Let_def by (auto simp: bind_eq_Some_conv split: if_splits)
    with mic show thesis using plain by blast
  qed
qed (use dropped in simp)

text \<open>The counter of the state changes only with an authenticated frame, to that of the frame.\<close>

lemma rx_open_counter:
  assumes "rx_eapol_open C tmp key n kdl s = Some (d, t)"
  shows "(rx_replay_counter t, rx_replay_counter_set t) = (rx_replay_counter s, rx_replay_counter_set s) \<or>
    info_bit (ek_key_info key) WPA_KEY_INFO_MIC \<and> rx_replay_counter t = ek_replay_counter key \<and> rx_replay_counter_set t"
  using assms
proof (cases rule: rx_open_cases)
  case (verified ok b u)
  then show ?thesis using kview_eqD(7,8) [of t u]
    by (elim verify_mic_cases) (auto simp: quiet_def)
qed simp_all

lemma dispatch_counter:
  assumes "rx_eapol_dispatch C src key n kd s = Some (r, t)"
  shows "rx_replay_counter t = rx_replay_counter s" "rx_replay_counter_set t = rx_replay_counter_set s"
  using dispatch_handled [OF assms] by (simp_all add: handled_def ctrs_def)

section \<open>The MIC\<close>

text \<open>The MIC of a frame is valid under a PTK when it is the MIC of the frame with the MIC field cleared.\<close>

definition mic_valid :: "'z wpa_crypto_scheme \<Rightarrow> wpa_ptk \<Rightarrow> u32 \<Rightarrow> u16 \<Rightarrow> nat \<Rightarrow> bytes \<Rightarrow> bool" where
  "mic_valid C p akmp ver n b \<longleftrightarrow>
     wpa_eapol_key_mic C (kck p) (kck_len p) akmp ver (zero_mic n b) = Some (Some (frame_mic n b))"

lemma zero_mic_write:
  assumes "off_mic + n \<le> length b" "wrn b off_mic m = Some c" "length m = n"
  shows "zero_mic n c = zero_mic n b" "length c = length b" "frame_mic n c = m"
  using assms by (auto simp: wrn_def zero_mic_def frame_mic_def split: if_splits)

lemma check_mic_spec:
  assumes "check_mic C p akmp ver n mic b = Some (ok, c)" "off_mic + n \<le> length b"
    and "\<And>d m. wpa_eapol_key_mic C (kck p) (kck_len p) akmp ver d = Some (Some m) \<Longrightarrow> length m = n"
  shows "zero_mic n c = zero_mic n b" "length c = length b"
    "ok \<Longrightarrow> wpa_eapol_key_mic C (kck p) (kck_len p) akmp ver (zero_mic n b) = Some (Some mic)"
proof -
  have z: "wrn b off_mic (replicate n 0) = Some (zero_mic n b)" "off_mic + n \<le> length (zero_mic n b)"
    "zero_mic n (zero_mic n b) = zero_mic n b" "length (zero_mic n b) = length b"
    using assms(2) by (auto simp: wrn_def zero_mic_def)
  obtain r where r: "wpa_eapol_key_mic C (kck p) (kck_len p) akmp ver (zero_mic n b) = Some r"
    using assms(1) z(1) by (auto simp: check_mic_def bind_eq_Some_conv)
  have "zero_mic n c = zero_mic n b \<and> length c = length b \<and> (ok \<longrightarrow> r = Some mic)"
  proof (cases r)
    case None
    then show ?thesis using assms(1) z r by (auto simp: check_mic_def)
  next
    case (Some m)
    have m: "length m = n" using assms(3) r Some by blast
    obtain e where e: "wrn (zero_mic n b) off_mic m = Some e" "rdn e off_mic n = Some (frame_mic n e)"
      using z(2) m by (auto simp: wrn_def rdn_def frame_mic_def)
    have c: "c = e" "ok \<longleftrightarrow> frame_mic n e = mic" using assms(1) z(1) r Some e by (auto simp: check_mic_def)
    show ?thesis using zero_mic_write [OF z(2) e(1) m] z(3,4) c Some by simp
  qed
  with r show "zero_mic n c = zero_mic n b" "length c = length b"
    "ok \<Longrightarrow> wpa_eapol_key_mic C (kck p) (kck_len p) akmp ver (zero_mic n b) = Some (Some mic)" by simp_all
qed

text \<open>The AKMs whose MIC has a fixed length that is not zero; the descriptor version that the code
  admits then gives a MIC of that length.\<close>

definition fixed_mic :: "u32 \<Rightarrow> bool" where
  "fixed_mic akmp \<longleftrightarrow> akmp \<notin> {WPA_KEY_MGMT_DPP, WPA_KEY_MGMT_OWE, WPA_KEY_MGMT_SAE_EXT_KEY, WPA_KEY_MGMT_FILS_SHA256,
     WPA_KEY_MGMT_FILS_SHA384, WPA_KEY_MGMT_FT_FILS_SHA256, WPA_KEY_MGMT_FT_FILS_SHA384}"

lemma fixed_mic_len: "fixed_mic akmp \<Longrightarrow> wpa_mic_len akmp n = wpa_mic_len akmp 0 \<and> wpa_mic_len akmp n \<noteq> 0"
  by (auto simp: fixed_mic_def wpa_mic_len_def)

lemma mic_of_length: "mic_of h n = Some (Some m) \<Longrightarrow> length m = n"
  by (auto simp: mic_of_def rdn_def split: option.splits if_splits)

lemma omac1_length: "wpa_crypto_ok C \<Longrightarrow> mic_omac1 C k b = Some (Some m) \<Longrightarrow> length m = 16"
  by (auto simp: mic_omac1_def wpa_crypto_ok_def bind_eq_Some_conv returns_iff) (metis option.inject)

lemma hmac_md5_length: "wpa_crypto_ok C \<Longrightarrow> hmac_md5 C k b = Some m \<Longrightarrow> length m = 16"
  by (auto simp: wpa_crypto_ok_def returns_iff MD5_MAC_LEN_def) (metis option.inject)

lemma ver_defined: "rx_ver_ok info c \<Longrightarrow> wpa_use_akm_defined (key_mgmt c) \<Longrightarrow>
    info AND WPA_KEY_INFO_TYPE_MASK = WPA_KEY_INFO_TYPE_AKM_DEFINED"
  by (simp add: rx_ver_ok_def Let_def)

lemma mic_192_defined: "wpa_use_akm_defined WPA_KEY_MGMT_IEEE8021X_SUITE_B_192"
  "wpa_use_akm_defined WPA_KEY_MGMT_FT_IEEE8021X_SHA384"
  by (simp_all add: wpa_use_akm_defined_def key_mgmt_defs akm_defs)

lemma mic_16:
  assumes "fixed_mic akmp" "\<not> (akmp = WPA_KEY_MGMT_IEEE8021X_SUITE_B_192 \<or> akmp = WPA_KEY_MGMT_FT_IEEE8021X_SHA384)"
  shows "wpa_mic_len akmp n = 16"
  using assms by (auto simp: fixed_mic_def wpa_mic_len_def)

lemma mic_192:
  "wpa_mic_len WPA_KEY_MGMT_IEEE8021X_SUITE_B_192 n = 24" "wpa_mic_len WPA_KEY_MGMT_FT_IEEE8021X_SHA384 n = 24"
  by (simp_all add: wpa_mic_len_def)

lemma ver_types [simp]:
  "WPA_KEY_INFO_TYPE_AKM_DEFINED \<noteq> WPA_KEY_INFO_TYPE_HMAC_MD5_RC4"
  "WPA_KEY_INFO_TYPE_AKM_DEFINED \<noteq> WPA_KEY_INFO_TYPE_HMAC_SHA1_AES"
  "WPA_KEY_INFO_TYPE_AKM_DEFINED \<noteq> WPA_KEY_INFO_TYPE_AES_128_CMAC"
  by (simp_all add: key_info_defs)

lemma mic_sized:
  assumes "wpa_crypto_ok C" "fixed_mic akmp" "rx_ver_ok info c" "akmp = key_mgmt c"
    "wpa_eapol_key_mic C k l akmp (info AND WPA_KEY_INFO_TYPE_MASK) b = Some (Some m)"
  shows "length m = wpa_mic_len akmp n"
proof (cases "akmp = WPA_KEY_MGMT_IEEE8021X_SUITE_B_192 \<or> akmp = WPA_KEY_MGMT_FT_IEEE8021X_SHA384")
  case True
  then have ver: "info AND WPA_KEY_INFO_TYPE_MASK = WPA_KEY_INFO_TYPE_AKM_DEFINED"
    using ver_defined [OF assms(3)] mic_192_defined assms(4) by metis
  from True show ?thesis
  proof
    assume a: "akmp = WPA_KEY_MGMT_IEEE8021X_SUITE_B_192"
    have d: "WPA_KEY_MGMT_IEEE8021X_SUITE_B_192 \<notin> {WPA_KEY_MGMT_SAE, WPA_KEY_MGMT_FT_SAE, WPA_KEY_MGMT_SAE_EXT_KEY,
      WPA_KEY_MGMT_IEEE8021X_SUITE_B}" by (simp add: akm_defs)
    show ?thesis using assms(5) d unfolding a ver mic_192
      by (auto simp: wpa_eapol_key_mic_def bind_eq_Some_conv split: if_splits dest: mic_of_length)
  next
    assume a: "akmp = WPA_KEY_MGMT_FT_IEEE8021X_SHA384"
    have d: "WPA_KEY_MGMT_FT_IEEE8021X_SHA384 \<notin> {WPA_KEY_MGMT_SAE, WPA_KEY_MGMT_FT_SAE, WPA_KEY_MGMT_SAE_EXT_KEY,
      WPA_KEY_MGMT_IEEE8021X_SUITE_B, WPA_KEY_MGMT_IEEE8021X_SUITE_B_192}" by (simp add: akm_defs)
    show ?thesis using assms(5) d unfolding a ver mic_192
      by (auto simp: wpa_eapol_key_mic_def bind_eq_Some_conv split: if_splits)
  qed
next
  case False
  have x: "akmp \<noteq> WPA_KEY_MGMT_SAE_EXT_KEY" using assms(2) by (simp add: fixed_mic_def)
  show ?thesis using assms(5) False x hmac_md5_length [OF assms(1)] omac1_length [OF assms(1)]
    unfolding mic_16 [OF assms(2) False] wpa_eapol_key_mic_def
    by (auto simp: bind_eq_Some_conv MD5_MAC_LEN_def split: if_splits dest!: mic_of_length)
qed

lemma verify_mic_valid:
  assumes "wpa_supplicant_verify_eapol_key_mic C key ver buf s = Some (True, tmp, t)"
    and n: "n = wpa_mic_len (key_mgmt (sm_conf s)) (pmk_len s)" "off_mic + n \<le> length buf"
    and sized: "\<And>(p :: wpa_ptk) d m. wpa_eapol_key_mic C (kck p) (kck_len p) (key_mgmt (sm_conf s)) ver d = Some (Some m) \<Longrightarrow> length m = n"
  shows "tptk_set s \<and> mic_valid C (tptk s) (key_mgmt (sm_conf s)) ver n buf \<or>
    ptk_set s \<and> mic_valid C (ptk s) (key_mgmt (sm_conf s)) ver n buf"
  using assms(1)
proof (cases rule: verify_mic_cases)
  case temporary
  note chk = temporary(4) [folded n(1)]
  have "mic_valid C (tptk s) (key_mgmt (sm_conf s)) ver n buf"
    unfolding mic_valid_def frame_mic_def by (rule check_mic_spec(3) [OF chk n(2)]) (erule sized | simp)+
  with temporary(2) show ?thesis by simp
next
  case (current b)
  note chk = current(5) [folded n(1)]
  have b: "zero_mic n b = zero_mic n buf" "length b = length buf"
    using current(4) check_mic_spec(1,2) [OF _ n(2)] sized unfolding n(1) [symmetric] by blast+
  have "mic_valid C (ptk s) (key_mgmt (sm_conf s)) ver n buf"
    unfolding mic_valid_def frame_mic_def b(1) [symmetric]
    by (rule check_mic_spec(3) [OF chk]) (use b(2) n(2) in simp, erule sized, simp)
  with current(2) show ?thesis by simp
qed simp

section \<open>Replays\<close>

text \<open>The events that leave the counter to received frames: a new association resets it, and the driver
  or the upper layer may set it.\<close>

fun keeps_ctr :: "wpa_ev \<Rightarrow> bool" where
  "keeps_ctr (Notify_assoc _) = False"
| "keeps_ctr (Update_replay_ctr _) = False"
| "keeps_ctr (Set_rx_replay_ctr _) = False"
| "keeps_ctr _ = True"

definition ctr_grows :: "wpa_sm \<Rightarrow> wpa_sm \<Rightarrow> bool" where
  "ctr_grows s t \<longleftrightarrow> length (rx_replay_counter t) = 8 \<and>
     (rx_replay_counter_set s \<longrightarrow> rx_replay_counter_set t \<and> be_val (rx_replay_counter s) \<le> be_val (rx_replay_counter t))"

lemma ctr_grows_trans: "ctr_grows s t \<Longrightarrow> ctr_grows t u \<Longrightarrow> ctr_grows s u"
  by (auto simp: ctr_grows_def)

lemma frame_ctr_length: "17 \<le> length b \<Longrightarrow> length (frame_ctr b) = 8"
  by (simp add: frame_ctr_def)

lemma rx_counter:
  assumes "wpa_sm_rx_eapol C src buf s = Some (r, t)" "length (rx_replay_counter s) = 8"
  shows "(rx_replay_counter t, rx_replay_counter_set t) = (rx_replay_counter s, rx_replay_counter_set s) \<or>
    rx_replay_counter t = frame_ctr buf \<and> rx_replay_counter_set t \<and> length (frame_ctr buf) = 8 \<and>
    (rx_replay_counter_set s \<longrightarrow> be_val (rx_replay_counter s) < be_val (frame_ctr buf))"
proof -
  have step: "(rx_replay_counter u, rx_replay_counter_set u) = (rx_replay_counter s, rx_replay_counter_set s) \<or>
    rx_replay_counter u = frame_ctr buf \<and> rx_replay_counter_set u \<and> length (frame_ctr buf) = 8 \<and>
    (rx_replay_counter_set s \<longrightarrow> be_val (rx_replay_counter s) < be_val (frame_ctr buf))"
    if f: "rx_eapol_frame buf n s = Some (Inr (tmp, key, kdl), s1)" and o: "rx_eapol_open C tmp key n kdl s1 = Some (d, u)"
    for n tmp key kdl s1 d u
  proof -
    have s1: "rx_replay_counter s1 = rx_replay_counter s" "rx_replay_counter_set s1 = rx_replay_counter_set s"
      by (simp_all add: rx_frame_facts(1) [OF f])
    have len: "length (frame_ctr buf) = 8"
      using frame_ctr_length [of buf] rx_frame_facts(3,4) [OF f] by (simp add: wpa_frame_defs)
    show ?thesis using rx_open_counter [OF o] rx_open_checks [OF o] os_memcmp_be_val [of "frame_ctr buf" "rx_replay_counter s"]
        rx_frame_fields [OF f] s1 len assms(2) by auto
  qed
  show ?thesis using assms(1)
  proof (cases rule: rx_steps)
    case (early n)
    then show ?thesis using rx_frame_early [of buf n s r t] by auto
  next
    case (dropped n tmp key kdl s1)
    then show ?thesis using step by blast
  next
    case (opened n tmp key kdl s1 d s2)
    then show ?thesis using step [of n tmp key kdl s1 "Some d" s2] dispatch_counter [of C src key n d s2 r t] by auto
  qed
qed

lemma rx_authenticated:
  assumes "wpa_sm_rx_eapol C src buf s = Some (1, t)" "info_bit (frame_info buf) WPA_KEY_INFO_MIC"
  shows "rx_replay_counter t = frame_ctr buf" "rx_replay_counter_set t" "17 \<le> length buf"
proof -
  from assms(1) have "rx_replay_counter t = frame_ctr buf \<and> rx_replay_counter_set t \<and> 17 \<le> length buf"
  proof (cases rule: rx_steps)
    case (early n)
    then show ?thesis using rx_frame_early [of buf n s 1 t] by auto
  next
    case (opened n tmp key kdl s1 d s2)
    have len: "17 \<le> length buf" using rx_frame_facts(3,4) [OF opened(2)] by (simp add: wpa_frame_defs)
    have "rx_replay_counter s2 = ek_replay_counter key \<and> rx_replay_counter_set s2" using opened(3)
    proof (cases rule: rx_open_cases)
      case (verified ok b u)
      then show ?thesis using kview_eqD(7,8) [of s2 u] by (elim verify_mic_cases) (auto simp: quiet_def)
    qed (use assms(2) rx_frame_fields(1) [OF opened(2)] in simp_all)
    then show ?thesis using dispatch_counter [OF opened(4)] rx_frame_fields(2) [OF opened(2)] len by simp
  qed simp
  then show "rx_replay_counter t = frame_ctr buf" "rx_replay_counter_set t" "17 \<le> length buf" by simp_all
qed

lemma stale_frame_dropped:
  assumes "wpa_sm_rx_eapol C src buf s = Some (r, t)" "rx_replay_counter_set s" "length (rx_replay_counter s) = 8"
    "be_val (frame_ctr buf) \<le> be_val (rx_replay_counter s)"
  shows "r \<noteq> 1 \<and> (\<exists>q es. t = s\<lparr>rsn_asked := q, rsn_trace := rsn_trace s @ es\<rparr> \<and> set es \<subseteq> {Eapol_notify_lower_layer_success})"
proof -
  have stale: "d = None \<and> u = rsn_emit Eapol_notify_lower_layer_success s1"
    if f: "rx_eapol_frame buf n s = Some (Inr (tmp, key, kdl), s1)" and o: "rx_eapol_open C tmp key n kdl s1 = Some (d, u)"
    for n tmp key kdl s1 d u
  proof -
    have "length (frame_ctr buf) = 8"
      using frame_ctr_length [of buf] rx_frame_facts(3,4) [OF f] by (simp add: wpa_frame_defs)
    then show ?thesis using rx_open_checks [OF o] os_memcmp_be_val [of "frame_ctr buf" "rx_replay_counter s"] assms(2-4)
        rx_frame_fields(2) [OF f] by (auto simp: rx_frame_facts(1) [OF f])
  qed
  show ?thesis using assms(1)
  proof (cases rule: rx_steps)
    case (early n)
    then obtain q where "r \<noteq> 1" "t = s\<lparr>rsn_asked := q\<rparr>" using rx_frame_early [of buf n s r t] by blast
    then show ?thesis by (intro conjI exI [of _ q] exI [of _ "[]"]) simp_all
  next
    case (dropped n tmp key kdl s1)
    then have "t = s\<lparr>rsn_asked := Suc (rsn_asked s), rsn_trace := rsn_trace s @ [Eapol_notify_lower_layer_success]\<rparr>"
      using stale [OF dropped(2,3)] rx_frame_facts(1) [OF dropped(2)] by (simp add: rsn_emit_def)
    with dropped(4) show ?thesis by (intro conjI exI) auto
  next
    case (opened n tmp key kdl s1 d s2)
    then show ?thesis using stale [OF opened(2,3)] by simp
  qed
qed

lemma ctr_same:
  assumes "rx_replay_counter t = rx_replay_counter s" "rx_replay_counter_set t = rx_replay_counter_set s"
    "length (rx_replay_counter s) = 8"
  shows "ctr_grows s t"
  using assms by (simp add: ctr_grows_def)

lemma grouped_ctr: "grouped s t \<Longrightarrow> length (rx_replay_counter s) = 8 \<Longrightarrow> ctr_grows s t"
  unfolding grouped_def using ctr_same kview_eqD(7,8) by blast

lemma quiet_ctr: "quiet s t \<Longrightarrow> length (rx_replay_counter s) = 8 \<Longrightarrow> ctr_grows s t"
  by (rule grouped_ctr [OF quiet_grouped])

lemma ie_dup_ctr [simp]: "rx_replay_counter (snd (snd (ie_dup b s))) = rx_replay_counter s"
  "rx_replay_counter_set (snd (snd (ie_dup b s))) = rx_replay_counter_set s"
  using ie_dup_frame [of b s] by auto

lemma set_ie_ctr [simp]:
  "rx_replay_counter (snd (wpa_sm_set_assoc_wpa_ie b s)) = rx_replay_counter s"
  "rx_replay_counter_set (snd (wpa_sm_set_assoc_wpa_ie b s)) = rx_replay_counter_set s"
  "rx_replay_counter (snd (wpa_sm_set_assoc_rsnxe b s)) = rx_replay_counter s"
  "rx_replay_counter_set (snd (wpa_sm_set_assoc_rsnxe b s)) = rx_replay_counter_set s"
  "rx_replay_counter (snd (wpa_sm_set_ap_wpa_ie b s)) = rx_replay_counter s"
  "rx_replay_counter_set (snd (wpa_sm_set_ap_wpa_ie b s)) = rx_replay_counter_set s"
  "rx_replay_counter (snd (wpa_sm_set_ap_rsn_ie b s)) = rx_replay_counter s"
  "rx_replay_counter_set (snd (wpa_sm_set_ap_rsn_ie b s)) = rx_replay_counter_set s"
  "rx_replay_counter (snd (wpa_sm_set_ap_rsnxe b s)) = rx_replay_counter s"
  "rx_replay_counter_set (snd (wpa_sm_set_ap_rsnxe b s)) = rx_replay_counter_set s"
  "rx_replay_counter (snd (wpa_sm_set_ap_rsne_override b s)) = rx_replay_counter s"
  "rx_replay_counter_set (snd (wpa_sm_set_ap_rsne_override b s)) = rx_replay_counter_set s"
  "rx_replay_counter (snd (wpa_sm_set_ap_rsne_override_2 b s)) = rx_replay_counter s"
  "rx_replay_counter_set (snd (wpa_sm_set_ap_rsne_override_2 b s)) = rx_replay_counter_set s"
  "rx_replay_counter (snd (wpa_sm_set_ap_rsnxe_override b s)) = rx_replay_counter s"
  "rx_replay_counter_set (snd (wpa_sm_set_ap_rsnxe_override b s)) = rx_replay_counter_set s"
  by (simp_all add: wpa_sm_set_assoc_wpa_ie_def
      wpa_sm_set_assoc_rsnxe_def wpa_sm_set_ap_wpa_ie_def wpa_sm_set_ap_rsn_ie_def wpa_sm_set_ap_rsnxe_def
      wpa_sm_set_ap_rsne_override_def wpa_sm_set_ap_rsne_override_2_def wpa_sm_set_ap_rsnxe_override_def split_beta)

lemma set_param_ctr: "length (rx_replay_counter s) = 8 \<Longrightarrow> ctr_grows s (snd (wpa_sm_set_param p v s))"
  by (cases p) (simp_all add: ctr_same)

lemma kck_kek_ctr:
  assumes "wpa_sm_set_ptk_kck_kek a b s = Some t" "length (rx_replay_counter s) = 8"
  shows "ctr_grows s t"
proof -
  have "yields (ctr_grows s) (wpa_sm_set_ptk_kck_kek a b s)"
    unfolding wpa_sm_set_ptk_kck_kek_def by (intro yields_bindI [OF yields_anything]) (simp add: ctr_same assms(2))
  then show ?thesis using assms(1) by (rule yieldsD)
qed

lemma wpa_event_ctr:
  assumes "wpa_event C s e = Some t" "keeps_ctr e" and len: "length (rx_replay_counter s) = 8"
  shows "ctr_grows s t"
proof (cases e)
  case (Rx_eapol src buf)
  then obtain r where "wpa_sm_rx_eapol C src buf s = Some (r, t)" using assms(1) by auto
  then show ?thesis using rx_counter [OF _ len, of C src buf r t] len by (auto simp: ctr_grows_def)
next
  case (Key_request err pw)
  then show ?thesis using assms quiet_ctr [OF yieldsD [OF key_request_quiet [OF sm_quiet_refl]]] by auto
next
  case Rekey_ptk
  then show ?thesis using assms quiet_ctr [OF yieldsD [OF key_request_quiet [OF sm_quiet_refl]]]
    by (auto simp: wpa_sm_rekey_ptk_def)
next
  case (Cache_add k pmkid aa cid)
  then show ?thesis using assms
    by (auto simp: wpa_sm_pmksa_cache_add_def bind_eq_Some_conv intro!: quiet_ctr dest!: sm_cache_add_quiet [where s = s])
next
  case Aborted_external_cached
  then show ?thesis using assms
    by (auto simp: wpa_sm_aborted_external_cached_def bind_eq_Some_conv intro!: quiet_ctr split: option.splits if_splits)
next
  case Aborted_cached
  then show ?thesis using assms by (auto simp: wpa_sm_aborted_cached_def intro!: quiet_ctr split: if_splits)
next
  case Notify_disassoc
  have "rx_replay_counter t = rx_replay_counter s \<and> rx_replay_counter_set t = rx_replay_counter_set s"
    using assms(1) Notify_disassoc
    by (auto simp: wpa_sm_notify_disassoc_def wpa_sm_drop_sa_def pmksa_cache_clear_current_def Let_def split: if_splits)
  then show ?thesis using len ctr_same by blast
next
  case (Set_config c)
  then show ?thesis using assms
    by (auto simp: wpa_sm_set_config_def bind_eq_Some_conv intro!: ctr_same split: option.splits if_splits)
qed (use assms in \<open>auto simp: ctr_same set_param_ctr wpa_sm_set_own_addr_def wpa_sm_drop_sa_def
      intro: quiet_ctr [OF set_pmk_quiet] quiet_ctr [OF from_pmksa_quiet [OF _ sm_quiet_refl]]
        quiet_ctr [OF pmksa_event_quiet] kck_kek_ctr ctr_same grouped_ctr [OF wnmsleep_grouped]
      split: option.splits\<close>)

interpretation wpa_counter: event_machine "wpa_step C" keeps_ctr
  "\<lambda>r. length (rx_replay_counter s0) = 8 \<longrightarrow> yields (ctr_grows s0) r"
  for C :: "'y wpa_crypto_scheme" and s0 :: wpa_sm
  by unfold_locales (auto simp: wpa_step_def wlp yields_def bind_eq_Some_conv ctr_grows_def dest!: wpa_event_ctr)


section \<open>Only authenticated frames set keys\<close>

lemma dispatch_unauthenticated:
  assumes "rx_eapol_dispatch C src key n kd s = Some (r, t)" "\<not> info_bit (ek_key_info key) WPA_KEY_INFO_MIC"
    "\<not> info_bit (ek_key_info key) WPA_KEY_INFO_ENCR_KEY_DATA"
  shows "set_keys t = set_keys s"
  using assms unfolding rx_eapol_dispatch_def Let_def
  by (auto split: if_splits dest!: process_1_of_4_handled simp: kept_def)

lemma mic_len_fixed:
  assumes "fixed_mic (key_mgmt (sm_conf s))" "rx_eapol_mic_len s = Some n"
  shows "n = wpa_mic_len (key_mgmt (sm_conf s)) (pmk_len s) \<and> n \<noteq> 0"
proof -
  obtain k where "n = wpa_mic_len (key_mgmt (sm_conf s)) k" using assms(2) by (auto simp: rx_eapol_mic_len_def bind_eq_Some_conv)
  then show ?thesis using fixed_mic_len [OF assms(1), of k] fixed_mic_len [OF assms(1), of "pmk_len s"] by simp
qed

text \<open>C1. In an RSN with an AKM whose MIC has a fixed length, a received frame makes the state machine hand
  a key to the driver, pairwise or group, only if the frame carries a MIC and the MIC verifies, over
  the whole frame, under the temporary PTK or the PTK of the association.\<close>
theorem wpa_keys_authenticated:
  assumes "wpa_crypto_ok C" "sm_proto_rsn s" "fixed_mic (key_mgmt (sm_conf s))"
    "wpa_sm_rx_eapol C src buf s = Some (r, t)" "set_keys t \<noteq> set_keys s"
  defines "n \<equiv> wpa_mic_len (key_mgmt (sm_conf s)) (pmk_len s)"
    and "ver \<equiv> frame_info buf AND WPA_KEY_INFO_TYPE_MASK"
  shows "info_bit (frame_info buf) WPA_KEY_INFO_MIC \<and>
    (tptk_set s \<and> mic_valid C (tptk s) (key_mgmt (sm_conf s)) ver n (frame_of buf) \<or>
     ptk_set s \<and> mic_valid C (ptk s) (key_mgmt (sm_conf s)) ver n (frame_of buf))"
  using assms(4)
proof (cases rule: rx_steps)
  case (early m)
  then show ?thesis using rx_frame_early [of buf m s r t] assms(5) by auto
next
  case (dropped m tmp key kdl s1)
  then show ?thesis using rx_open_no_reinstall [OF dropped(3)] rx_frame_facts(1) [OF dropped(2)] assms(5) by simp
next
  case (opened m tmp key kdl s1 d s2)
  note f = rx_frame_facts [OF opened(2)] and info = rx_frame_fields(1) [OF opened(2)]
  have m: "m = n" "n \<noteq> 0" using mic_len_fixed [OF assms(3) opened(1)] by (simp_all add: n_def)
  have s2: "set_keys s2 = set_keys s" using rx_open_no_reinstall [OF opened(3)] f(1) by simp
  show ?thesis using opened(3)
  proof (cases rule: rx_open_cases)
    case (verified ok b u)
    have ver: "rx_ver_ok (ek_key_info key) (sm_conf s)" using rx_open_checks [OF opened(3)] f(1) by simp
    let ?s = "rsn_emit Eapol_notify_lower_layer_success s1"
    have s1: "sm_conf ?s = sm_conf s" "pmk ?s = pmk s" "tptk_set ?s = tptk_set s" "ptk_set ?s = ptk_set s"
      "tptk ?s = tptk s" "ptk ?s = ptk s" by (simp_all add: f(1))
    have ok: "wpa_supplicant_verify_eapol_key_mic C key ver tmp ?s = Some (True, b, u)"
      using verified(2,4) info by (simp add: ver_def)
    have "tptk_set s \<and> mic_valid C (tptk s) (key_mgmt (sm_conf s)) ver n tmp \<or>
      ptk_set s \<and> mic_valid C (ptk s) (key_mgmt (sm_conf s)) ver n tmp"
      using verify_mic_valid [OF ok, of n] unfolding s1
      by (rule meta_mp [THEN meta_mp, THEN meta_mp]) (use f(3) m mic_sized [OF assms(1,3) ver refl] info in \<open>auto simp: n_def ver_def\<close>)
    then show ?thesis using verified(1) info f(2) by simp
  next
    case plain
    then have "\<not> info_bit (ek_key_info key) WPA_KEY_INFO_ENCR_KEY_DATA" using assms(2) m f(1) by simp
    then show ?thesis using dispatch_unauthenticated [OF opened(4) plain(1)] s2 assms(5) by simp
  qed simp
qed

lemma demo_wpa_crypto_ok: "wpa_crypto_ok demo_wpa_crypto"
  by (auto simp: wpa_crypto_ok_def crypto_ok_def demo_wpa_crypto_def mac_len_defs min_def)

definition demo_waiting :: wpa_sm where
  "demo_waiting = the (demo_run [Rx_eapol (replicate 6 1) demo_msg_1])"

lemma demo_waiting_state:
  "map_option (\<lambda>s. (proto (sm_conf s), key_mgmt (sm_conf s), length (rx_replay_counter s), rx_replay_counter_set s, length (set_keys s)))
     (demo_run [Rx_eapol (replicate 6 1) demo_msg_1]) = Some (WPA_PROTO_RSN, WPA_KEY_MGMT_PSK, 8, False, 0)"
  by code_simp

lemma demo_waiting_facts:
  "proto (sm_conf demo_waiting) = WPA_PROTO_RSN" "key_mgmt (sm_conf demo_waiting) = WPA_KEY_MGMT_PSK"
  "length (rx_replay_counter demo_waiting) = 8" "length (set_keys demo_waiting) = 0"
  "demo_run [Rx_eapol (replicate 6 1) demo_msg_1] = Some demo_waiting"
  using demo_waiting_state by (auto simp: demo_waiting_def)

lemma demo_waiting_rx: "\<exists>r. wpa_sm_rx_eapol demo_wpa_crypto (replicate 6 1) demo_msg_3 demo_waiting = Some (r, demo_done)"
proof -
  have "foldl (wpa_step demo_wpa_crypto) (Some demo_init)
      ((demo_start @ [Rx_eapol (replicate 6 1) demo_msg_1]) @ [Rx_eapol (replicate 6 1) demo_msg_3]) = Some demo_done"
    using demo_done_run by (simp only: demo_handshake_def append_assoc append.simps)
  then have "wpa_step demo_wpa_crypto (demo_run [Rx_eapol (replicate 6 1) demo_msg_1]) (Rx_eapol (replicate 6 1) demo_msg_3) =
      Some demo_done"
    by (simp only: demo_run_def foldl_append foldl.simps)
  then show ?thesis using demo_waiting_facts(5) by (auto simp: wpa_step_def)
qed

theorem wpa_keys_authenticated_witness:
  "\<exists>r. wpa_sm_rx_eapol demo_wpa_crypto (replicate 6 1) demo_msg_3 demo_waiting = Some (r, demo_done) \<and>
     info_bit (frame_info demo_msg_3) WPA_KEY_INFO_MIC"
proof -
  obtain r where r: "wpa_sm_rx_eapol demo_wpa_crypto (replicate 6 1) demo_msg_3 demo_waiting = Some (r, demo_done)"
    using demo_waiting_rx by blast
  have "set_keys demo_done \<noteq> set_keys demo_waiting"
    using demo_waiting_facts(4) demo_done_state unfolding demo_done_run by auto
  moreover have "fixed_mic (key_mgmt (sm_conf demo_waiting))"
    using demo_waiting_facts(2) by (simp add: fixed_mic_def akm_defs)
  ultimately show ?thesis
    using wpa_keys_authenticated [OF demo_wpa_crypto_ok _ _ r] demo_waiting_facts(1) r by blast
qed

text \<open>The retransmission of message 3, and message 3 once more.\<close>

lemma demo_replay:
  "map_option fst (wpa_sm_rx_eapol demo_wpa_crypto (replicate 6 1) demo_msg_3 demo_waiting) = Some 1"
  by code_simp


end
