(* ===== verification/Wpa_sm_wpa1.thy ===== *)
theory Wpa_sm_wpa1
  imports Wpa_sm_auth
begin

text \<open>
  The first version of WPA. Its frames reach the handler for message 3 with the bit for encrypted key data alone,
  without a MIC: what \<open>wpa_keys_authenticated\<close> shows for an RSN does not hold for it.
\<close>

definition wpa1_ie :: bytes where
  "wpa1_ie = [0xdd, 22, 0x00, 0x50, 0xf2, 1, 1, 0, 0x00, 0x50, 0xf2, 4, 1, 0, 0x00, 0x50, 0xf2, 4, 1, 0, 0x00, 0x50, 0xf2, 2]"

definition wpa1_start :: "wpa_ev list" where
  "wpa1_start = [Set_own_addr (replicate 6 2), Set_param WPA_PARAM_PROTO WPA_PROTO_WPA,
     Set_param WPA_PARAM_PAIRWISE WPA_CIPHER_CCMP, Set_param WPA_PARAM_GROUP WPA_CIPHER_CCMP,
     Set_param WPA_PARAM_KEY_MGMT WPA_KEY_MGMT_PSK, Set_assoc_wpa_ie (Some wpa1_ie), Set_ap_wpa_ie (Some wpa1_ie),
     Notify_assoc (replicate 6 1), Set_pmk (replicate 32 7) None None]"

text \<open>The honest messages 1 and 3, and a third frame of a stranger who has seen them: no MIC, the bit for
  encrypted key data, and a group key of his own in the clear.\<close>

definition wpa1_msg_1 :: bytes where
  "wpa1_msg_1 = demo_frame 0x008a 1 False []"

definition wpa1_msg_3 :: bytes where
  "wpa1_msg_3 = demo_frame 0x01ca 2 True wpa1_ie"

definition wpa1_forged :: bytes where
  "wpa1_forged = demo_frame 0x10ca 3 False (wpa1_ie @ [0xdd, 22, 0x00, 0x0f, 0xac, 1, 1, 0] @ replicate 16 0x66)"

definition wpa1_run :: "wpa_sm option" where
  "wpa1_run = foldl (wpa_step demo_wpa_crypto) (Some demo_init)
     (wpa1_start @ [Rx_eapol (replicate 6 1) wpa1_msg_1, Rx_eapol (replicate 6 1) wpa1_msg_3])"


end
