(* ===== verification/Wpa_sm_safe.thy ===== *)
theory Wpa_sm_safe
  imports Wpa_sm_auth
begin

text \<open>
  Memory safety of the handshake: the handlers for received EAPOL-Key frames never leave a buffer and never use a freed
  entry of the PMKSA cache, whatever the frame contains, and they keep the invariant that this rests on.
  The one exception is the parser for key data, whose over-read \<open>Wpa_kde\<close> describes exactly.
\<close>

section \<open>The invariant\<close>

text \<open>An RSN Extension element as scan results and beacons deliver it: the octets that its length announces.\<close>

definition rsnxe_wf :: "bytes option \<Rightarrow> bool" where
  "rsnxe_wf x \<longleftrightarrow> (case x of None \<Rightarrow> True | Some b \<Rightarrow> 2 \<le> length b \<and> 2 + unat (b ! 1) \<le> length b)"

text \<open>The documented behaviour of the callbacks: nonces of 32 octets and whole elements.\<close>

definition ctx_ok :: "wpa_sm_ctx \<Rightarrow> bool" where
  "ctx_ok x \<longleftrightarrow>
     (\<forall>n r. ctx_random x n = Some r \<longrightarrow> length r = WPA_NONCE_LEN) \<and> rsnxe_wf (ap_rsnxe (snd (ctx_beacon x)))"

text \<open>The own element and RSNXE fit into a frame. \<open>c\<close> is the configuration, which the handlers keep.\<close>

definition own_ies_fit :: "bytes option \<Rightarrow> nat \<Rightarrow> bytes option \<Rightarrow> bool" where
  "own_ies_fit ie n x \<longleftrightarrow>
     (case ie of None \<Rightarrow> n = 0 | Some b \<Rightarrow> n \<le> length b) \<and> n + (case x of None \<Rightarrow> 0 | Some y \<Rightarrow> length y) \<le> 60000"

definition own_ies_ok :: "wpa_sm \<Rightarrow> bool" where
  "own_ies_ok s \<longleftrightarrow> own_ies_fit (assoc_wpa_ie s) (assoc_wpa_ie_len s) (assoc_rsnxe s)"

definition wpa_inv :: "wpa_sm_conf \<Rightarrow> wpa_sm \<Rightarrow> bool" where
  "wpa_inv c s \<longleftrightarrow>
     pmksa_ok s \<and> ptk_wf (ptk s) \<and> ptk_wf (tptk s) \<and> length (snonce s) = WPA_NONCE_LEN \<and> own_ies_ok s \<and>
     rsnxe_wf (ap_rsnxe (ap s)) \<and> sm_conf s = c \<and> fixed_mic (key_mgmt c) \<and> ctx_ok (ctx s)"

lemma pmksa_ok_updates [simp]:
  fixes s :: wpa_sm
  shows "pmksa_ok (s\<lparr>pmk := k\<rparr>) = pmksa_ok s" "pmksa_ok (s\<lparr>bssid := a\<rparr>) = pmksa_ok s" "pmksa_ok (s\<lparr>rsn_trace := tr\<rparr>) = pmksa_ok s"
    "pmksa_ok (s\<lparr>msg_3_of_4_ok := b\<rparr>) = pmksa_ok s" "pmksa_ok (s\<lparr>anonce := a\<rparr>) = pmksa_ok s"
    "pmksa_ok (s\<lparr>gtk := a\<rparr>) = pmksa_ok s" "pmksa_ok (s\<lparr>gtk_wnm_sleep := a\<rparr>) = pmksa_ok s"
    "pmksa_ok (s\<lparr>igtk := a\<rparr>) = pmksa_ok s" "pmksa_ok (s\<lparr>igtk_wnm_sleep := a\<rparr>) = pmksa_ok s" "pmksa_ok (s\<lparr>bigtk := a\<rparr>) = pmksa_ok s"
    "pmksa_ok (s\<lparr>bigtk_wnm_sleep := a\<rparr>) = pmksa_ok s" "pmksa_ok (s\<lparr>use_ext_key_id := b\<rparr>) = pmksa_ok s"
    "pmksa_ok (s\<lparr>keyidx_active := i\<rparr>) = pmksa_ok s" "pmksa_ok (s\<lparr>ap := x\<rparr>) = pmksa_ok s" "pmksa_ok (s\<lparr>wpa_state := st\<rparr>) = pmksa_ok s"
    "pmksa_ok (s\<lparr>snonce := a\<rparr>) = pmksa_ok s" "pmksa_ok (s\<lparr>renew_snonce := b\<rparr>) = pmksa_ok s" "pmksa_ok (s\<lparr>nonce_draws := n\<rparr>) = pmksa_ok s"
    "pmksa_ok (s\<lparr>ptk := p\<rparr>) = pmksa_ok s" "pmksa_ok (s\<lparr>tptk := p\<rparr>) = pmksa_ok s" "pmksa_ok (s\<lparr>ptk_set := b\<rparr>) = pmksa_ok s"
    "pmksa_ok (s\<lparr>tptk_set := b\<rparr>) = pmksa_ok s" "pmksa_ok (s\<lparr>rx_replay_counter := a\<rparr>) = pmksa_ok s"
    "pmksa_ok (s\<lparr>rx_replay_counter_set := b\<rparr>) = pmksa_ok s" "pmksa_ok (s\<lparr>request_counter := a\<rparr>) = pmksa_ok s"
  by (simp_all add: pmksa_ok_def pmksa_inv_def aa_distinct_def)

lemma own_wpa_ie_ok:
  "own_ies_ok s \<Longrightarrow> returns (\<lambda>ie. length (ie @ (case assoc_rsnxe s of None \<Rightarrow> [] | Some x \<Rightarrow> x)) \<le> 60000) (own_wpa_ie s)"
  by (auto simp: own_ies_ok_def own_ies_fit_def own_wpa_ie_def rdn_def split: option.splits)

lemma wpa_inv_updates [simp]:
  "wpa_inv c (s\<lparr>pmk := k\<rparr>) = wpa_inv c s" "wpa_inv c (s\<lparr>bssid := a\<rparr>) = wpa_inv c s" "wpa_inv c (s\<lparr>rsn_trace := tr\<rparr>) = wpa_inv c s"
  "wpa_inv c (s\<lparr>rsn_asked := q\<rparr>) = wpa_inv c s" "wpa_inv c (s\<lparr>msg_3_of_4_ok := b\<rparr>) = wpa_inv c s" "wpa_inv c (s\<lparr>anonce := a\<rparr>) = wpa_inv c s"
  "wpa_inv c (s\<lparr>gtk := a\<rparr>) = wpa_inv c s" "wpa_inv c (s\<lparr>gtk_wnm_sleep := a\<rparr>) = wpa_inv c s"
  "wpa_inv c (s\<lparr>igtk := a\<rparr>) = wpa_inv c s" "wpa_inv c (s\<lparr>igtk_wnm_sleep := a\<rparr>) = wpa_inv c s" "wpa_inv c (s\<lparr>bigtk := a\<rparr>) = wpa_inv c s"
  "wpa_inv c (s\<lparr>bigtk_wnm_sleep := a\<rparr>) = wpa_inv c s" "wpa_inv c (s\<lparr>use_ext_key_id := b\<rparr>) = wpa_inv c s"
  "wpa_inv c (s\<lparr>keyidx_active := i\<rparr>) = wpa_inv c s" "wpa_inv c (s\<lparr>wpa_state := st\<rparr>) = wpa_inv c s"
  "wpa_inv c (s\<lparr>renew_snonce := b\<rparr>) = wpa_inv c s" "wpa_inv c (s\<lparr>nonce_draws := n\<rparr>) = wpa_inv c s"
  "wpa_inv c (s\<lparr>ptk_set := b\<rparr>) = wpa_inv c s" "wpa_inv c (s\<lparr>tptk_set := b\<rparr>) = wpa_inv c s"
  "wpa_inv c (s\<lparr>rx_replay_counter := a\<rparr>) = wpa_inv c s" "wpa_inv c (s\<lparr>rx_replay_counter_set := b\<rparr>) = wpa_inv c s"
  "wpa_inv c (s\<lparr>request_counter := a\<rparr>) = wpa_inv c s"
  by (simp_all add: wpa_inv_def own_ies_ok_def)

lemma wpa_inv_set:
  "wpa_inv c s \<Longrightarrow> ptk_wf p \<Longrightarrow> wpa_inv c (s\<lparr>ptk := p\<rparr>)" "wpa_inv c s \<Longrightarrow> ptk_wf p \<Longrightarrow> wpa_inv c (s\<lparr>tptk := p\<rparr>)"
  "wpa_inv c s \<Longrightarrow> length a = WPA_NONCE_LEN \<Longrightarrow> wpa_inv c (s\<lparr>snonce := a\<rparr>)"
  "wpa_inv c s \<Longrightarrow> rsnxe_wf (ap_rsnxe x) \<Longrightarrow> wpa_inv c (s\<lparr>ap := x\<rparr>)"
  by (simp_all add: wpa_inv_def own_ies_ok_def)

lemma wpa_inv_emit [simp]: "wpa_inv c (rsn_emit e s) = wpa_inv c s"
  by (simp add: rsn_emit_def)

lemma wpa_inv_ask [simp]: "wpa_inv c (snd (rsn_ask s)) = wpa_inv c s" "rsn_ask s = (ok, t) \<Longrightarrow> wpa_inv c t = wpa_inv c s"
  by (auto simp: rsn_ask_def)

lemma wpa_inv_callbacks [simp]:
  "wpa_inv c (wpa_sm_set_state st s) = wpa_inv c s" "wpa_inv c (wpa_sm_deauthenticate rs s) = wpa_inv c s"
  "wpa_inv c (snd (wpa_sm_set_key alg addr idx tx seq k flag s)) = wpa_inv c s"
  "wpa_inv c (snd (wpa_sm_ether_send d b s)) = wpa_inv c s" "wpa_inv c (snd (wpa_alloc_eapol ty n s)) = wpa_inv c s"
  "wpa_inv c (handshake_failed r) = wpa_inv c (snd r)" "wpa_inv c (wpa_report_ie_mismatch s) = wpa_inv c s"
  "wpa_inv c (wpa_sm_set_rekey_offload s) = wpa_inv c s" "wpa_inv c (wpa_supplicant_key_mgmt_set_pmk s) = wpa_inv c s"
  "wpa_inv c (snd (wpa_eapol_key_dest d s)) = wpa_inv c s" "wpa_inv c (snd (get_pmk_abort a s)) = wpa_inv c s"
  by (auto simp: wpa_sm_set_state_def wpa_sm_deauthenticate_def wpa_sm_set_key_def wpa_sm_ether_send_def wpa_alloc_eapol_def
      handshake_failed_def wpa_report_ie_mismatch_def wpa_sm_set_rekey_offload_def wpa_supplicant_key_mgmt_set_pmk_def
      wpa_eapol_key_dest_def get_pmk_abort_def Let_def split_beta split: option.split prod.split)

lemma wpa_invD:
  assumes "wpa_inv c s"
  shows "pmksa_ok s" "ptk_wf (ptk s)" "ptk_wf (tptk s)" "length (snonce s) = 32" "own_ies_ok s" "rsnxe_wf (ap_rsnxe (ap s))"
    "sm_conf s = c" "fixed_mic (key_mgmt c)" "ctx_ok (ctx s)"
  using assms by (simp_all add: wpa_inv_def wpa_len_defs)


section \<open>Building and sending frames\<close>

lemma returns_bindI: "returns Q x \<Longrightarrow> (\<And>y. Q y \<Longrightarrow> returns P (f y)) \<Longrightarrow> returns P (x \<bind> f)"
  by (cases x) simp_all

lemma returns_pairI:
  "returns (\<lambda>(a, b). Q a b) x \<Longrightarrow> (\<And>a b. Q a b \<Longrightarrow> returns P (f a b)) \<Longrightarrow>
     returns P (x \<bind> (\<lambda>p. case p of (a, b) \<Rightarrow> f a b))"
  by (cases x) auto

lemma returns_ifI: "returns P x \<Longrightarrow> returns P y \<Longrightarrow> returns P (if b then x else y)"
  by simp

lemma returns_wrnI:
  "off + length src \<le> length dst \<Longrightarrow> (\<And>x. length x = length dst \<Longrightarrow> P x) \<Longrightarrow> returns P (wrn dst off src)"
  by (simp add: wrn_def)

lemma eapol_key_reply_ok:
  assumes "length klen = 2" "length ctr = 8" "off_mic + mic_len + 2 + length kd \<le> length b"
  shows "returns (\<lambda>x. length x = length b) (eapol_key_reply s info klen ctr mic_len kd b)"
  unfolding eapol_key_reply_def returns_bind
  by (intro returns_wrnI) (use assms in \<open>simp_all add: off_mic_def\<close>)

lemma alloc_eapol_length:
  assumes "wpa_alloc_eapol ty n s = (Some b, t)" "n < 65536"
  shows "length b = n + 4"
  using assms by (auto simp: wpa_alloc_eapol_def Let_def split_beta unsigned_of_nat take_bit_nat_eq_self split: if_splits)

lemma alloc_eapol_inv: "wpa_alloc_eapol ty n s = (r, t) \<Longrightarrow> wpa_inv c t = wpa_inv c s"
  using wpa_inv_callbacks(5) [of c ty n s] by simp

lemma mic_of_returns: "returns (\<lambda>h. length h = m) x \<Longrightarrow> n \<le> m \<Longrightarrow> returns (\<lambda>_. True) (mic_of x n)"
  by (cases x) (auto simp: mic_of_def rdn_def)

lemma mic_returns:
  assumes "wpa_crypto_ok C" "length k = WPA_KCK_MAX_LEN" "l \<le> WPA_KCK_MAX_LEN"
  shows "returns (\<lambda>_. True) (wpa_eapol_key_mic C k l akmp ver b)"
proof -
  have law: "returns (\<lambda>h. length h = 20) (hmac_sha1 C k' b)" "returns (\<lambda>h. length h = 32) (hmac_sha256 C k' b)"
      "returns (\<lambda>h. length h = 48) (hmac_sha384 C k' b)" "returns (\<lambda>h. length h = 64) (hmac_sha512 C k' b)" for k'
    using assms(1) by (simp_all add: wpa_crypto_ok_def crypto_ok_def mac_len_defs)
  note hash = mic_of_returns [OF law(1)] mic_of_returns [OF law(2)] mic_of_returns [OF law(3)] mic_of_returns [OF law(4)]
  show ?thesis using assms(2,3)
    unfolding wpa_eapol_key_mic_def
    by (auto simp: wp hash mic_omac1_def wpa_len_defs MD5_MAC_LEN_def)
qed

definition ver_ok :: "wpa_sm_conf \<Rightarrow> u16 \<Rightarrow> bool" where
  "ver_ok c ver \<longleftrightarrow> (\<exists>info. ver = info AND WPA_KEY_INFO_TYPE_MASK \<and> rx_ver_ok info c)"

lemma key_send_ok:
  assumes "wpa_crypto_ok C" "wpa_inv c s" "ver_ok c ver" "ptk_wf p"
    "off_mic + wpa_mic_len (key_mgmt c) (pmk_len s) \<le> length msg"
  shows "returns (\<lambda>(ok, t). wpa_inv c t) (wpa_eapol_key_send C p ver dest msg True s)"
proof -
  obtain info where ver: "ver = info AND WPA_KEY_INFO_TYPE_MASK" "rx_ver_ok info c" using assms(3) by (auto simp: ver_ok_def)
  obtain d u where d: "wpa_eapol_key_dest dest s = (d, u)" by force
  have u: "wpa_inv c u" using wpa_inv_callbacks(10) [of c dest s] d assms(2) by simp
  note conf = wpa_invD(7) [OF assms(2)] wpa_invD(7) [OF u] wpa_invD(8) [OF u]
  obtain r where r: "wpa_eapol_key_mic C (kck p) (kck_len p) (key_mgmt c) ver msg = Some r"
    using mic_returns [OF assms(1), of "kck p" "kck_len p" "key_mgmt c" ver msg] assms(4)
    by (auto simp: ptk_wf_def returns_iff)
  have "returns (\<lambda>(ok, t). wpa_inv c t)
      (case r of None \<Rightarrow> Some (False, u)
       | Some mic \<Rightarrow> do {
           msg \<leftarrow> wrn msg off_mic mic;
           case wpa_sm_ether_send d msg u of (ok, s) \<Rightarrow> Some (ok, rsn_emit Eapol_notify_tx_eapol_key s) })"
  proof (cases r)
    case (Some m)
    have "length m = wpa_mic_len (key_mgmt c) (pmk_len s)"
      using mic_sized [OF assms(1) conf(3) ver(2) refl] r Some by (simp add: ver(1))
    then have "off_mic + length m \<le> length msg" using assms(5) by simp
    then show ?thesis using Some u
      by (auto simp: returns_bind split_beta intro!: returns_wrnI)
  qed (use u in simp)
  then show ?thesis
    using u by (auto simp: wpa_eapol_key_send_def d conf r Let_def)
qed


lemma fixed_mic_bound: "fixed_mic akmp \<Longrightarrow> wpa_mic_len akmp n \<le> 24"
  by (auto simp: fixed_mic_def wpa_mic_len_def)

text \<open>The fields of a received key descriptor have their sizes.\<close>

definition key_ok :: "wpa_eapol_key \<Rightarrow> bool" where
  "key_ok key \<longleftrightarrow> length (ek_key_length key) = 2 \<and> length (ek_replay_counter key) = 8 \<and> length (ek_key_nonce key) = 32 \<and>
     length (ek_key_iv key) = 16 \<and> length (ek_key_rsc key) = 8"

lemma eapol_key_at_ok: "eapol_key_at b = Some key \<Longrightarrow> key_ok key"
  by (auto simp: eapol_key_at_def key_ok_def bind_eq_Some_conv wpa_len_defs dest!: rdn_length)

lemma reply_key_length_ok: "key_ok key \<Longrightarrow> length (reply_key_length key s) = 2"
  by (simp add: reply_key_length_def key_ok_def)

text \<open>The common part of the three replies: a frame with the key data \<open>kd\<close> is allocated, filled and sent.\<close>

lemma reply_ok:
  assumes "wpa_crypto_ok C" "wpa_inv c t" "ver_ok c ver" "ptk_wf p" "key_ok key"
    and "wpa_alloc_eapol ty (sizeof_wpa_eapol_key + wpa_mic_len (key_mgmt c) (pmk_len s) + 2 + length kd) s = (Some b, t)"
    and "length kd \<le> 60100"
    and "\<And>x. length x = length b \<Longrightarrow> returns (\<lambda>y. length y = length b) (f x)"
  shows "returns (\<lambda>(ok, u). wpa_inv c u)
    (do { b \<leftarrow> eapol_key_reply t info (reply_key_length key t) (ek_replay_counter key) (wpa_mic_len (key_mgmt c) (pmk_len s)) kd b;
          b \<leftarrow> f b;
          wpa_eapol_key_send C p ver dst b True t })"
proof -
  have n: "wpa_mic_len (key_mgmt c) (pmk_len s) \<le> 24" using wpa_invD(8) [OF assms(2)] by (rule fixed_mic_bound)
  have same: "wpa_mic_len (key_mgmt c) (pmk_len t) = wpa_mic_len (key_mgmt c) (pmk_len s)"
    using fixed_mic_len [OF wpa_invD(8) [OF assms(2)]] by metis
  have b: "length b = off_mic + wpa_mic_len (key_mgmt c) (pmk_len s) + 2 + length kd"
    using alloc_eapol_length [OF assms(6)] n assms(7) by (simp add: wpa_frame_defs)
  have "returns (\<lambda>x. length x = length b)
      (eapol_key_reply t info (reply_key_length key t) (ek_replay_counter key) (wpa_mic_len (key_mgmt c) (pmk_len s)) kd b)"
    using assms(5) b by (intro eapol_key_reply_ok reply_key_length_ok) (simp_all add: key_ok_def)
  then show ?thesis
  proof (rule returns_bindI)
    fix x :: bytes assume "length x = length b"
    then have "returns (\<lambda>y. length y = length b) (f x)" by (rule assms(8))
    then show "returns (\<lambda>(ok, u). wpa_inv c u) (f x \<bind> (\<lambda>b. wpa_eapol_key_send C p ver dst b True t))"
      using b same by (elim returns_bindI, intro key_send_ok [OF assms(1-4)]) simp
  qed
qed


lemma send_4_of_4_ok:
  assumes "wpa_crypto_ok C" "wpa_inv c s" "ver_ok c ver" "ptk_wf p" "key_ok key"
  shows "returns (\<lambda>(ok, u). wpa_inv c u) (wpa_supplicant_send_4_of_4 C dst key ver info p s)"
proof -
  obtain r t where rt: "wpa_alloc_eapol IEEE802_1X_TYPE_EAPOL_KEY
      (sizeof_wpa_eapol_key + wpa_mic_len (key_mgmt c) (pmk_len s) + 2) s = (r, t)" by force
  have t: "wpa_inv c t" using alloc_eapol_inv [OF rt] assms(2) by simp
  note conf = wpa_invD(7) [OF assms(2)]
  show ?thesis
  proof (cases r)
    case None
    with t rt show ?thesis by (simp add: wpa_supplicant_send_4_of_4_def conf)
  next
    case (Some b)
    then show ?thesis using reply_ok [OF assms(1) t assms(3-5), of IEEE802_1X_TYPE_EAPOL_KEY s "[]" b Some] rt
      by (simp add: wpa_supplicant_send_4_of_4_def conf Let_def)
  qed
qed

lemma send_2_of_2_ok:
  assumes "wpa_crypto_ok C" "wpa_inv c s" "ver_ok c ver" "key_ok key"
  shows "returns (\<lambda>(ok, u). wpa_inv c u) (wpa_supplicant_send_2_of_2 C key ver info s)"
proof -
  obtain r t where rt: "wpa_alloc_eapol IEEE802_1X_TYPE_EAPOL_KEY
      (sizeof_wpa_eapol_key + wpa_mic_len (key_mgmt c) (pmk_len s) + 2) s = (r, t)" by force
  have t: "wpa_inv c t" using alloc_eapol_inv [OF rt] assms(2) by simp
  note conf = wpa_invD(7) [OF assms(2)]
  show ?thesis
  proof (cases r)
    case None
    with t rt show ?thesis by (simp add: wpa_supplicant_send_2_of_2_def conf)
  next
    case (Some b)
    then show ?thesis using reply_ok [OF assms(1) t assms(3) wpa_invD(2) [OF t] assms(4), of IEEE802_1X_TYPE_EAPOL_KEY s "[]" b Some] rt
      by (simp add: wpa_supplicant_send_2_of_2_def conf Let_def)
  qed
qed

lemma send_2_of_4_ok:
  assumes "wpa_crypto_ok C" "wpa_inv c s" "ver_ok c ver" "ptk_wf p" "key_ok key" "length nonce = 32"
    and "\<And>x. ie = Some x \<Longrightarrow> length x \<le> 60000"
  shows "returns (\<lambda>(ok, u). wpa_inv c u) (wpa_supplicant_send_2_of_4 C dst key ver nonce ie p s)"
proof (cases ie)
  case None
  with assms(2) show ?thesis by (simp add: wpa_supplicant_send_2_of_4_def)
next
  case (Some x)
  define over where "over = rsn_override c"
  define kd where "kd = (if over \<noteq> RSN_OVERRIDE_NOT_USED then x @ rsn_selection_ie over else x)"
  have kd: "length kd \<le> 60100" using assms(7) [OF Some] by (simp add: kd_def rsn_selection_ie_def)
  note conf = wpa_invD(7) [OF assms(2)]
  obtain ok u where u: "(if over \<noteq> RSN_OVERRIDE_NOT_USED then rsn_ask s else (True, s)) = (ok, u)" by force
  have inv: "wpa_inv c u" "pmk_len u = pmk_len s" "sm_conf u = c"
    using u assms(2) conf by (auto simp: rsn_ask_def split: if_splits)
  obtain r t where rt: "wpa_alloc_eapol IEEE802_1X_TYPE_EAPOL_KEY
      (sizeof_wpa_eapol_key + wpa_mic_len (key_mgmt c) (pmk_len u) + 2 + length kd) u = (r, t)" by force
  have t: "wpa_inv c t" using alloc_eapol_inv [OF rt] inv by simp
  have body: "wpa_supplicant_send_2_of_4 C dst key ver nonce ie p s =
      (if \<not> ok then Some (False, u)
       else case r of None \<Rightarrow> Some (False, t)
       | Some b \<Rightarrow> do {
           b \<leftarrow> eapol_key_reply t (ver OR WPA_KEY_INFO_KEY_TYPE OR
                 (if wpa_mic_len (key_mgmt c) (pmk_len u) \<noteq> 0 then WPA_KEY_INFO_MIC else WPA_KEY_INFO_ENCR_KEY_DATA))
               (reply_key_length key t) (ek_replay_counter key) (wpa_mic_len (key_mgmt c) (pmk_len u)) kd b;
           b \<leftarrow> wrn b 17 nonce;
           wpa_eapol_key_send C p ver dst b True t })"
    using u rt inv(3) by (simp add: wpa_supplicant_send_2_of_4_def Some conf Let_def flip: over_def kd_def split: option.split)
  show ?thesis
  proof (cases "ok \<and> r \<noteq> None")
    case False
    with inv t show ?thesis by (auto simp: body)
  next
    case True
    then obtain b where b: "r = Some b" by blast
    have "length b \<ge> 49" using alloc_eapol_length [of IEEE802_1X_TYPE_EAPOL_KEY _ u b t] rt b kd
        fixed_mic_bound [OF wpa_invD(8) [OF assms(2)], of "pmk_len u"] by (simp add: wpa_frame_defs)
    then have w: "returns (\<lambda>y. length y = length b) (wrn x 17 nonce)" if "length x = length b" for x
      using that assms(6) by (intro returns_wrnI) simp_all
    note r = reply_ok [OF assms(1) t assms(3-5) rt [unfolded b] kd w]
    from True b show ?thesis unfolding body by (simp only: simp_thms if_False option.case) (rule r)
  qed
qed


section \<open>The PTK and the nonce\<close>

lemma fixed_mic_key_lens:
  assumes "fixed_mic akmp"
  shows "wpa_kck_len akmp n \<le> WPA_KCK_MAX_LEN" "wpa_kek_len akmp n \<le> WPA_KEK_MAX_LEN"
  using assms by (auto simp: fixed_mic_def wpa_kck_len_def wpa_kek_len_def wpa_len_defs)

lemma pmk_to_ptk_ok:
  assumes "wpa_crypto_ok C" "ptk_wf p" "fixed_mic akmp" "kdklen \<le> WPA_KDK_MAX_LEN"
  shows "returns (\<lambda>(ok, q). ptk_wf q) (wpa_pmk_to_ptk C k label a1 a2 n1 n2 p akmp cipher z kdklen)"
proof -
  define q where "q = p\<lparr>kck_len := wpa_kck_len akmp (length k), kek_len := wpa_kek_len akmp (length k),
      tk_len := wpa_cipher_key_len cipher, kdk_len := kdklen\<rparr>"
  have q: "ptk_wf q" using assms(2,4) fixed_mic_key_lens [OF assms(3)] by (simp add: q_def ptk_wf_def)
  define n where "n = kck_len q + kek_len q + tk_len q + kdk_len q"
  have n: "n \<le> 160" using q by (simp add: n_def ptk_wf_def wpa_len_defs)
  have "returns (\<lambda>(ok, q). ptk_wf q)
      (ptk_prf C akmp k label (ptk_data a1 a2 n1 n2 z) (replicate 160 0) n \<bind>
        (\<lambda>r. case r of None \<Rightarrow> Some (False, q) | Some t \<Rightarrow> map_option (Pair True) (ptk_fill t q)))"
  proof (rule returns_bindI [OF ptk_prf_returns [OF assms(1)]])
    fix r :: "bytes option" assume "(r = None \<longleftrightarrow> wpa_key_mgmt_sae_ext_key akmp \<and> \<not> wpa_key_mgmt_sha384 akmp \<and> \<not> wpa_key_mgmt_sha256 akmp \<and>
        length k \<notin> {32, 48, 64}) \<and> (\<forall>t. r = Some t \<longrightarrow> length t = length (replicate 160 (0 :: u8)))"
    then have "length t = 160" if "r = Some t" for t using that by simp
    then have "returns ptk_wf (ptk_fill t q)" if "r = Some t" for t
      using that n ptk_fill_returns [OF q, of t] by (auto simp: n_def elim!: returns_mono)
    then show "returns (\<lambda>(ok, q). ptk_wf q) (case r of None \<Rightarrow> Some (False, q) | Some t \<Rightarrow> map_option (Pair True) (ptk_fill t q))"
      using q by (cases r) (simp_all add: wp)
  qed (use n in simp)
  then show ?thesis using assms(2) q
    by (simp add: wpa_pmk_to_ptk_def Let_def wpa_len_defs flip: q_def n_def)
qed

lemma rsnx_capab_ok: "rsnxe_wf x \<Longrightarrow> returns (\<lambda>_. True) (ieee802_11_rsnx_capab x n)"
  by (cases x) (auto simp: rsnxe_wf_def ieee802_11_rsnx_capab_def ieee802_11_rsnx_capab_len_def wp Let_def word_le_nat_alt)

lemma derive_ptk_ok:
  assumes "wpa_crypto_ok C" "wpa_inv c s" "ptk_wf p"
  shows "returns (\<lambda>(ok, q). ptk_wf q) (wpa_derive_ptk C key p s)"
proof -
  have ltf: "returns (\<lambda>_. True) (if \<not> force_kdk_derivation (sm_conf s) \<and> secure_ltf (sm_conf s)
             then ieee802_11_rsnx_capab (ap_rsnxe (ap s)) WLAN_RSNX_CAPAB_SECURE_LTF else Some False)"
    using rsnx_capab_ok [OF wpa_invD(6) [OF assms(2)]] by simp
  show ?thesis unfolding wpa_derive_ptk_def
    by (rule returns_bindI [OF ltf]) (use wpa_invD(7,8) [OF assms(2)] in \<open>simp add: pmk_to_ptk_ok [OF assms(1,3)] Let_def\<close>)
qed

lemma swap_mic_keys_ok: "length t = 32 \<Longrightarrow> returns (\<lambda>u. length u = 32) (swap_mic_keys t)"
  by (simp add: swap_mic_keys_def wp wrn_def)

lemma derive_ok:
  assumes "wpa_crypto_ok C" "wpa_inv c s"
  shows "returns (\<lambda>(ok, t). wpa_inv c t) (process_1_of_4_derive C key s)"
  unfolding process_1_of_4_derive_def
proof (rule returns_pairI [OF derive_ptk_ok [OF assms wpa_invD(3) [OF assms(2)]]])
  fix ok q assume q: "ptk_wf q"
  have t: "length (tk q) = 32" using q by (simp add: ptk_wf_def wpa_len_defs)
  have "wpa_inv c (s\<lparr>tptk := q\<lparr>tk := x\<rparr>\<rparr>)" if "length x = 32" for x
    by (rule wpa_inv_set(2) [OF assms(2)]) (use q that in \<open>simp add: ptk_wf_def wpa_len_defs\<close>)
  then show "returns (\<lambda>(ok, t). wpa_inv c t)
      (if \<not> ok then Some (False, s\<lparr>tptk := q\<rparr>)
       else do {
         t \<leftarrow> (if pairwise_cipher (sm_conf s) = WPA_CIPHER_TKIP then swap_mic_keys (tk q) else Some (tk q));
         Some (True, s\<lparr>tptk := q\<lparr>tk := t\<rparr>, tptk_set := True\<rparr>) })"
    using wpa_inv_set(2) [OF assms(2) q] t swap_mic_keys_ok [OF t] by (auto simp: returns_bind elim!: returns_mono)
qed

lemma renew_nonce_ok:
  assumes "wpa_inv c s"
  shows "returns (\<lambda>(ok, t). wpa_inv c t) (renew_nonce s)"
proof (cases "renew_snonce s")
  case True
  define u where "u = s\<lparr>nonce_draws := Suc (nonce_draws s)\<rparr>"
  have u: "wpa_inv c u" using assms by (simp add: u_def)
  have n: "length n = 32" if "ctx_random (ctx u) i = Some n" for n i
    using wpa_invD(9) [OF u] that by (auto simp: ctx_ok_def wpa_len_defs)
  have ck: "returns (\<lambda>m. length m = 32) (if b then rsn_set_snonce_cookie n else Some n)" if "length n = 32" for n b
    using that by (simp add: rsn_set_snonce_cookie_def wrn_def WPA_PUT_BE24_def wpa_len_defs)
  have "returns (\<lambda>(ok, t). wpa_inv c t)
      (do { n \<leftarrow> (if b then rsn_set_snonce_cookie n else Some n); Some (True, u\<lparr>snonce := n, renew_snonce := False\<rparr>) })"
    if "length n = 32" for n b
    by (rule returns_bindI [OF ck [OF that]]) (simp add: wpa_inv_set(3) [OF u] wpa_len_defs)
  then show ?thesis using True u n by (auto simp: renew_nonce_def Let_def simp flip: u_def split: option.split)
qed (use assms in \<open>simp add: renew_nonce_def\<close>)

section \<open>The PMK\<close>

lemma wpa_inv_cache:
  assumes "wpa_inv c s" "cache_quiet s t" "pmksa_ok t"
  shows "wpa_inv c t"
  using assms by (cases s; cases t) (simp add: cache_quiet_def wpa_inv_def own_ies_ok_def)

lemma wpa_inv_cur:
  assumes "wpa_inv c s" "\<And>a. r = Some a \<Longrightarrow> a \<in> set (pmksa s)"
  shows "wpa_inv c (s\<lparr>cur_pmksa := r\<rparr>)"
  by (rule wpa_inv_cache [OF assms(1)]) (use assms set_cur_ok [OF wpa_invD(1) [OF assms(1)]] in simp_all)

lemma cur_in_cache: "wpa_inv c s \<Longrightarrow> cur_pmksa s = Some a \<Longrightarrow> a \<in> set (pmksa s) \<and> pmksa_heap s a \<noteq> None"
  using pmksa_inv_heap [OF pmksa_ok_inv [OF wpa_invD(1)], of c s a] by (auto simp: wpa_inv_def pmksa_ok_def pmksa_inv_def)

lemma cache_get_ok:
  assumes "wpa_inv c s"
  shows "returns (\<lambda>r. \<forall>a. r = Some a \<longrightarrow> a \<in> set (pmksa s)) (pmksa_cache_get aa pmkid nc akmp s)"
  using pmksa_find_eq [OF pmksa_ok_inv [OF wpa_invD(1) [OF assms]], of "pmksa s"] find_set
  by (fastforce simp: pmksa_cache_get_def)

lemma cache_add_ok:
  assumes "wpa_crypto_ok C" "wpa_inv c s"
  shows "returns (\<lambda>(r, t). wpa_inv c t \<and> (\<forall>a. r = Some a \<longrightarrow> a \<in> set (pmksa t)))
    (pmksa_cache_add C k pmkid kk aa spa nc akmp cid s)"
proof -
  have "crypto_ok C" using assms(1) by (simp add: wpa_crypto_ok_def)
  from add_ok [OF this wpa_invD(1) [OF assms(2)], of True k pmkid aa kk spa nc akmp cid]
  obtain r t where rt: "pmksa_cache_add C k pmkid kk aa spa nc akmp cid s = Some (r, t)" "add_result True k pmkid aa s r t"
    by (auto simp: returns_iff)
  then have "wpa_inv c t" using wpa_inv_cache [OF assms(2) cache_add_quiet [OF rt(1)]] by (simp add: add_result_def)
  then show ?thesis using rt by (auto simp: add_result_def)
qed

lemma get_pmk_lookup_ok: "wpa_inv c s \<Longrightarrow> returns (\<lambda>(b, t). wpa_inv c t) (get_pmk_lookup src pmkid s)"
  using cache_get_ok [of c s "Some src" pmkid 0 0] by (auto simp: get_pmk_lookup_def wp elim!: returns_mono intro: wpa_inv_cur)

lemma get_pmk_hit_ok: "wpa_inv c s \<Longrightarrow> returns (\<lambda>_. True) (get_pmk_hit pmkid s)"
  using cur_in_cache [of c s] by (cases pmkid; cases "cur_pmksa s") (auto simp: get_pmk_hit_def)

lemma from_pmksa_ok: "wpa_inv c s \<Longrightarrow> returns (wpa_inv c) (wpa_sm_set_pmk_from_pmksa s)"
  using cur_in_cache [of c s] by (cases "cur_pmksa s") (auto simp: wpa_sm_set_pmk_from_pmksa_def)

lemma get_pmk_match_ok:
  assumes "wpa_inv c s" "\<And>a. sa = Some a \<Longrightarrow> a \<in> set (pmksa s)"
  shows "returns (\<lambda>(r, cur). \<forall>a. cur = Some a \<longrightarrow> a \<in> set (pmksa s)) (get_pmk_match src pmkid ab sa s)"
proof -
  have known: "returns (\<lambda>_. True) (if cur_pmksa s = None \<and> pmkid \<noteq> None
      then map_option (\<lambda>r. r \<noteq> None) (pmksa_cache_get (Some src) pmkid 0 0 s) else Some False)"
    using cache_get_ok [OF assms(1), of "Some src" pmkid 0 0] by (auto simp: wp elim: returns_mono)
  show ?thesis unfolding get_pmk_match_def
    by (rule returns_bindI [OF known]) (use assms(2) cur_in_cache [OF assms(1)] in \<open>auto simp: Let_def\<close>)
qed

lemma get_pmk_add_ok:
  assumes "wpa_crypto_ok C" "wpa_inv c s"
  shows "returns (\<lambda>(r, t). wpa_inv c t \<and> (\<forall>a. r = Some a \<longrightarrow> a \<in> set (pmksa t))) (get_pmk_add C src s)"
  using cache_add_ok [OF assms] assms(2) by (simp add: get_pmk_add_def Let_def)

lemma get_pmk_eapol_ok:
  assumes "wpa_crypto_ok C" "wpa_inv c s"
  shows "returns (\<lambda>(r, t). wpa_inv c t) (get_pmk_eapol C src pmkid ab s)"
proof (cases "eapol_get_pmk s")
  case None
  then show ?thesis using assms(2) by (auto simp: get_pmk_eapol_def intro: wpa_inv_cur)
next
  case (Some k)
  have "wpa_inv c (wpa_supplicant_key_mgmt_set_pmk (s\<lparr>pmk := k\<rparr>))" using assms(2) by simp
  note add = get_pmk_add_ok [OF assms(1) this, of src]
  show ?thesis unfolding get_pmk_eapol_def Some option.case
  proof (rule returns_pairI [OF add])
    fix sa t assume t: "wpa_inv c t \<and> (\<forall>a. sa = Some a \<longrightarrow> a \<in> set (pmksa t))"
    show "returns (\<lambda>(r, t). wpa_inv c t) (get_pmk_match src pmkid ab sa t \<bind> (\<lambda>(r, cur). Some (r, t\<lparr>cur_pmksa := cur\<rparr>)))"
      using t by (intro returns_pairI [OF get_pmk_match_ok [of c t sa]]) (auto intro: wpa_inv_cur)
  qed
qed

lemma get_pmk_ok:
  assumes "wpa_crypto_ok C" "wpa_inv c s"
  shows "returns (\<lambda>(r, t). wpa_inv c t) (wpa_supplicant_get_pmk C src pmkid s)"
  unfolding wpa_supplicant_get_pmk_def
proof (rule returns_pairI [OF get_pmk_lookup_ok [OF assms(2)]], rule returns_bindI [OF get_pmk_hit_ok])
  fix ab hit t assume t: "wpa_inv c t"
  then show "wpa_inv c t" .
  have abort: "case get_pmk_abort a u of (r, v) \<Rightarrow> wpa_inv c v" if "wpa_inv c u" for a u
    using that by (simp add: split_beta)
  have "returns (\<lambda>(r, t). wpa_inv c t) (do { s \<leftarrow> wpa_sm_set_pmk_from_pmksa t; Some (get_pmk_abort ab (rsn_emit Eapol_notify_cached s)) })"
    by (rule returns_bindI [OF from_pmksa_ok [OF t]]) (simp add: abort)
  moreover have "returns (\<lambda>(r, t). wpa_inv c t) (do { (r, s) \<leftarrow> get_pmk_eapol C src pmkid ab t;
       Some (case r of None \<Rightarrow> (-1, s) | Some a \<Rightarrow> get_pmk_abort a s) })"
    by (rule returns_pairI [OF get_pmk_eapol_ok [OF assms(1) t]]) (simp add: abort split: option.split)
  ultimately show "returns (\<lambda>(r, t). wpa_inv c t)
      (if hit then do { s \<leftarrow> wpa_sm_set_pmk_from_pmksa t; Some (get_pmk_abort ab (rsn_emit Eapol_notify_cached s)) }
       else if wpa_key_mgmt_wpa_ieee8021x (key_mgmt (sm_conf t)) \<and> ctx_eapol (ctx t) then do {
         (r, s) \<leftarrow> get_pmk_eapol C src pmkid ab t;
         Some (case r of None \<Rightarrow> (-1, s) | Some a \<Rightarrow> get_pmk_abort a s) }
       else Some (get_pmk_abort ab t))"
    using abort [OF t] by simp
qed

section \<open>Message 1 of the 4-way handshake\<close>

text \<open>The parser reports a transition disable element only with an octet of data.\<close>

definition td_ok :: "wpa_eapol_ie_parse \<Rightarrow> bool" where
  "td_ok ie \<longleftrightarrow> pred_option (\<lambda>x. 0 < snd x) (ie_transition_disable ie)"

lemma td_ok_updates [simp]:
  "td_ok (ie\<lparr>ie_wpa_ie := a\<rparr>) = td_ok ie" "td_ok (ie\<lparr>ie_rsn_ie := a\<rparr>) = td_ok ie" "td_ok (ie\<lparr>ie_pmkid := b\<rparr>) = td_ok ie"
  "td_ok (ie\<lparr>ie_key_id := b\<rparr>) = td_ok ie" "td_ok (ie\<lparr>ie_gtk := a\<rparr>) = td_ok ie" "td_ok (ie\<lparr>ie_mac_addr := a\<rparr>) = td_ok ie"
  "td_ok (ie\<lparr>ie_igtk := a\<rparr>) = td_ok ie" "td_ok (ie\<lparr>ie_bigtk := a\<rparr>) = td_ok ie" "td_ok (ie\<lparr>ie_mdie := a\<rparr>) = td_ok ie"
  "td_ok (ie\<lparr>ie_ftie := a\<rparr>) = td_ok ie" "td_ok (ie\<lparr>ie_ip_addr_req := b\<rparr>) = td_ok ie" "td_ok (ie\<lparr>ie_ip_addr_alloc := b\<rparr>) = td_ok ie"
  "td_ok (ie\<lparr>ie_dpp_kde := a\<rparr>) = td_ok ie" "td_ok (ie\<lparr>ie_oci := a\<rparr>) = td_ok ie" "td_ok (ie\<lparr>ie_osen := a\<rparr>) = td_ok ie"
  "td_ok (ie\<lparr>ie_rsnxe := a\<rparr>) = td_ok ie" "td_ok (ie\<lparr>ie_reassoc_deadline := b\<rparr>) = td_ok ie" "td_ok (ie\<lparr>ie_key_lifetime := b\<rparr>) = td_ok ie"
  "td_ok (ie\<lparr>ie_lnkid := a\<rparr>) = td_ok ie" "td_ok (ie\<lparr>ie_ext_capab := a\<rparr>) = td_ok ie" "td_ok (ie\<lparr>ie_supp_rates := a\<rparr>) = td_ok ie"
  "td_ok (ie\<lparr>ie_ext_supp_rates := a\<rparr>) = td_ok ie" "td_ok (ie\<lparr>ie_ht_capabilities := b\<rparr>) = td_ok ie"
  "td_ok (ie\<lparr>ie_vht_capabilities := b\<rparr>) = td_ok ie" "td_ok (ie\<lparr>ie_he_capabilities := a\<rparr>) = td_ok ie"
  "td_ok (ie\<lparr>ie_he_6ghz_capabilities := b\<rparr>) = td_ok ie" "td_ok (ie\<lparr>ie_supp_channels := a\<rparr>) = td_ok ie"
  "td_ok (ie\<lparr>ie_supp_oper_classes := a\<rparr>) = td_ok ie" "td_ok (ie\<lparr>ie_qosinfo := q\<rparr>) = td_ok ie" "td_ok (ie\<lparr>ie_aid := n\<rparr>) = td_ok ie"
  "td_ok (ie\<lparr>ie_wmm := a\<rparr>) = td_ok ie" "td_ok (ie\<lparr>ie_rsn_selection := a\<rparr>) = td_ok ie" "td_ok (ie\<lparr>ie_rsne_override := a\<rparr>) = td_ok ie"
  "td_ok (ie\<lparr>ie_rsne_override_2 := a\<rparr>) = td_ok ie" "td_ok (ie\<lparr>ie_rsnxe_override := a\<rparr>) = td_ok ie" "td_ok ie_zero"
  "td_ok (ie\<lparr>ie_transition_disable := Some (p, m)\<rparr>) \<longleftrightarrow> 0 < m"
  by (simp_all add: td_ok_def ie_zero_def)

lemma vendor_td: "td_ok ie \<Longrightarrow> yields td_ok (wpa_parse_vendor_specific buf pos ie)"
  unfolding wpa_parse_vendor_specific_def Let_def wlp by (simp add: yields_True)

lemma generic_td: "td_ok ie \<Longrightarrow> yields (\<lambda>r. td_ok (snd r)) (wpa_parse_generic buf pos ie)"
  unfolding wpa_parse_generic_def Let_def wlp
  by (auto simp: yields_True word_le_nat_alt yields_rd8 intro!: yields_mono [OF yields_True])

lemma element_td:
  assumes "td_ok ie"
  shows "yields (\<lambda>r. td_ok (snd r)) (kde_element buf pos i l ie)"
proof (cases "i = WLAN_EID_VENDOR_SPECIFIC")
  case True
  have e: "kde_element buf pos i l ie = wpa_parse_generic buf pos ie \<bind> (\<lambda>(ret, ie).
      if ret = 1 then Some (False, ie)
      else if ret = 2 then do { ie \<leftarrow> wpa_parse_vendor_specific buf pos ie; Some (True, ie) }
      else Some (True, ie))"
    by (simp add: kde_element_def True eid_defs)
  show ?thesis unfolding e
    by (rule yields_bindI [OF generic_td [OF assms]]) (simp add: wlp split_beta vendor_td)
next
  case False
  then show ?thesis using assms unfolding kde_element_def Let_def wlp by (simp add: yields_True)
qed

lemma loop_td: "td_ok ie \<Longrightarrow> yields (\<lambda>r. td_ok (snd r)) (kde_loop buf pos ie)"
proof (induction "length buf - pos" arbitrary: pos ie rule: less_induct)
  case less
  show ?case
  proof (cases "pos + 1 < length buf")
    case True
    have "yields (\<lambda>r. td_ok (snd r)) (case r of (m, ie) \<Rightarrow> if m then kde_loop buf (pos + 2 + unat l) ie else Some (True, ie))"
      if "td_ok (snd r)" for r and l :: u8
      using less.hyps [of "pos + 2 + unat l" "snd r"] that True by (simp add: split_beta)
    then have "yields (\<lambda>r. td_ok (snd r))
        (kde_element buf pos i l ie \<bind> (\<lambda>(m, ie). if m then kde_loop buf (pos + 2 + unat l) ie else Some (True, ie)))" for i l
      by (rule yields_bindI [OF element_td [OF less.prems]])
    then show ?thesis using less.prems by (subst kde_loop.simps) (simp add: rd8_def)
  qed (use less.prems in \<open>subst kde_loop.simps, simp\<close>)
qed

lemma parse_ok:
  assumes "\<not> kde_visit short_vendor kd 0"
  shows "returns (\<lambda>(ok, ie). ie_ok kd ie \<and> td_ok ie) (wpa_supplicant_parse_ies kd)"
  using kde_loop_ok [OF assms, of ie_zero] loop_td [of ie_zero kd 0]
  by (auto simp: wpa_supplicant_parse_ies_def wpa_parse_kde_ies_def returns_iff dest: yieldsD)

lemma pmkid_ok:
  assumes "\<not> kde_visit short_vendor kd 0"
  shows "returns (\<lambda>_. True) (process_1_of_4_pmkid kd s)"
proof -
  have "returns (\<lambda>_. True) (do {
        (ok, ie) \<leftarrow> wpa_supplicant_parse_ies kd;
        if \<not> ok then Some (False, None)
        else case ie_pmkid ie of None \<Rightarrow> Some (True, None)
          | Some p \<Rightarrow> map_option (\<lambda>x. (True, Some x)) (rdn kd p PMKID_LEN) })"
    by (rule returns_pairI [OF parse_ok [OF assms]])
      (auto simp: ie_ok_def slice_in_def rdn_def PMKID_LEN_def split: option.split)
  then show ?thesis by (simp add: process_1_of_4_pmkid_def)
qed

lemma send_reply_ok:
  assumes "wpa_crypto_ok C" "wpa_inv c s" "ver_ok c ver" "key_ok key"
  shows "returns (\<lambda>(ok, t). wpa_inv c t) (process_1_of_4_send C key ver s)"
proof -
  obtain ok u where u: "rsn_ask s = (ok, u)" by force
  have inv: "wpa_inv c u" using wpa_inv_ask(2) [OF u] assms(2) by simp
  have "returns (\<lambda>(ok, t). wpa_inv c t)
      (do { ie \<leftarrow> own_wpa_ie u;
           (ok, s) \<leftarrow> wpa_supplicant_send_2_of_4 C (bssid u) key ver (snonce u)
             (Some (ie @ (case assoc_rsnxe u of None \<Rightarrow> [] | Some x \<Rightarrow> x))) (tptk u) u;
           if ok then Some (True, s\<lparr>anonce := ek_key_nonce key\<rparr>) else Some (False, s) })"
  proof (rule returns_bindI [OF own_wpa_ie_ok [OF wpa_invD(5) [OF inv]]])
    fix ie assume ie: "length (ie @ (case assoc_rsnxe u of None \<Rightarrow> [] | Some x \<Rightarrow> x)) \<le> 60000"
    then have "returns (\<lambda>(ok, t). wpa_inv c t) (wpa_supplicant_send_2_of_4 C (bssid u) key ver (snonce u)
        (Some (ie @ (case assoc_rsnxe u of None \<Rightarrow> [] | Some x \<Rightarrow> x))) (tptk u) u)"
      by (intro send_2_of_4_ok [OF assms(1) inv assms(3) wpa_invD(3) [OF inv] assms(4) wpa_invD(4) [OF inv]]) (metis option.sel)
    then show "returns (\<lambda>(ok, t). wpa_inv c t) (do {
        (ok, s) \<leftarrow> wpa_supplicant_send_2_of_4 C (bssid u) key ver (snonce u)
             (Some (ie @ (case assoc_rsnxe u of None \<Rightarrow> [] | Some x \<Rightarrow> x))) (tptk u) u;
        if ok then Some (True, s\<lparr>anonce := ek_key_nonce key\<rparr>) else Some (False, s) })"
      by (rule returns_pairI) simp
  qed
  then show ?thesis using inv by (simp add: process_1_of_4_send_def u)
qed

lemma process_1_of_4_ok:
  assumes "wpa_crypto_ok C" "wpa_inv c s" "ver_ok c ver" "key_ok key" "\<not> kde_visit short_vendor kd 0"
  shows "returns (wpa_inv c) (wpa_supplicant_process_1_of_4 C src key ver kd s)"
proof -
  have reply: "returns (wpa_inv c) (map_option handshake_failed (process_1_of_4_reply C key ver t))" if t: "wpa_inv c t" for t
  proof -
    have "returns (\<lambda>(ok, t). wpa_inv c t) (process_1_of_4_reply C key ver t)"
      unfolding process_1_of_4_reply_def
      by (rule returns_pairI [OF derive_ok [OF assms(1) t]]) (simp add: send_reply_ok [OF assms(1) _ assms(3,4)])
    then show ?thesis by (auto simp: wp split_beta elim!: returns_mono)
  qed
  have nonce: "returns (wpa_inv c) (do {
      (ok, t) \<leftarrow> renew_nonce t;
      if \<not> ok then Some (handshake_failed (False, t)) else map_option handshake_failed (process_1_of_4_reply C key ver t) })"
    if t: "wpa_inv c t" for t
    by (rule returns_pairI [OF renew_nonce_ok [OF t]]) (simp add: reply)
  have get: "returns (wpa_inv c) (do {
      (res, s) \<leftarrow> wpa_supplicant_get_pmk C src pmkid t;
      if res = -2 then Some s
      else if res \<noteq> 0 then Some (handshake_failed (False, s))
      else do {
        (ok, s) \<leftarrow> renew_nonce s;
        if \<not> ok then Some (handshake_failed (False, s))
        else map_option handshake_failed (process_1_of_4_reply C key ver s) } })"
    if t: "wpa_inv c t" for t pmkid
    by (rule returns_pairI [OF get_pmk_ok [OF assms(1) t]]) (simp add: nonce)
  show ?thesis unfolding wpa_supplicant_process_1_of_4_def Let_def
    by (use assms(2) in \<open>auto intro!: returns_pairI [where Q = "\<lambda>_ _. True", OF returns_mono [OF pmkid_ok [OF assms(5)]]] get\<close>)
qed

section \<open>Installing keys\<close>

lemma key_len_bound: "wpa_cipher_key_len cipher \<le> 32" "wpa_cipher_rsc_len cipher \<le> 8"
  by (simp_all add: wpa_cipher_key_len_def wpa_cipher_rsc_len_def)

lemma wpa_inv_set_key: "wpa_sm_set_key alg addr idx tx seq k flag s = (ok, t) \<Longrightarrow> wpa_inv c t = wpa_inv c s"
  using wpa_inv_callbacks(3) [of c alg addr idx tx seq k flag s] by simp

lemma key_neg_complete_ok:
  assumes "wpa_inv c s"
  shows "returns (wpa_inv c) (wpa_supplicant_key_neg_complete addr secure s)"
proof -
  have accept: "returns (wpa_inv c) (pmksa_accept_current t)" if t: "wpa_inv c t" for t
  proof -
    obtain u where u: "pmksa_accept_current t = Some u" "pmksa_ok u"
      using accept_current_ok [OF wpa_invD(1) [OF t]] by (auto simp: returns_iff)
    then show ?thesis using wpa_inv_cache [OF t accept_current_quiet [OF u(1)]] by simp
  qed
  show ?thesis unfolding wpa_supplicant_key_neg_complete_def Let_def by (rule accept) (simp add: assms)
qed

lemma install_ptk_done_ok:
  assumes "wpa_inv c s"
  shows "wpa_inv c (install_ptk_done cipher s)"
proof -
  have "wpa_inv c (s\<lparr>ptk := (ptk s)\<lparr>tk := replicate WPA_TK_MAX_LEN 0, tk_len := 0, installed := True\<rparr>\<rparr>)"
    by (rule wpa_inv_set(1) [OF assms]) (use wpa_invD(2) [OF assms] in \<open>simp add: ptk_wf_def\<close>)
  moreover have "install_ptk_done cipher s =
    (let u = rsn_emit (Store_ptk (bssid s) cipher (dot11RSNAConfigPMKLifetime s))
       (s\<lparr>ptk := (ptk s)\<lparr>tk := replicate WPA_TK_MAX_LEN 0, tk_len := 0, installed := True\<rparr>\<rparr>)
     in if wpa_ptk_rekey (sm_conf s) \<noteq> 0
        then rsn_emit (Rekey_timer (wpa_ptk_rekey (sm_conf s))) (rsn_emit Cancel_rekey_timer u) else u)"
    by (simp add: install_ptk_done_def rsn_emit_def Let_def)
  ultimately show ?thesis by (simp add: Let_def)
qed

lemma install_ptk_ok:
  assumes "wpa_inv c s" "key_ok key"
  shows "returns (\<lambda>(ok, t). wpa_inv c t) (wpa_supplicant_install_ptk key flag s)"
proof -
  have "length (tk (ptk s)) = 32" "tk_len (ptk s) \<le> 32"
    using wpa_invD(2) [OF assms(1)] by (simp_all add: ptk_wf_def wpa_len_defs)
  then show ?thesis using assms
    by (auto simp: wpa_supplicant_install_ptk_def wp Let_def key_ok_def null_rsc_def key_len_bound install_ptk_done_ok
        dest: wpa_inv_set_key split: prod.split)
qed

definition gd_ok :: "wpa_gtk_data \<Rightarrow> bool" where
  "gd_ok gd \<longleftrightarrow> length (gd_gtk gd) = 32 \<and> gd_gtk_len gd \<le> 32 \<and> gd_key_rsc_len gd \<le> 8"

lemma check_group_cipher_ok:
  "wpa_supplicant_check_group_cipher cipher n m = Some (rl, alg) \<Longrightarrow> n \<le> 32 \<and> rl \<le> 8"
  by (auto simp: wpa_supplicant_check_group_cipher_def key_len_bound split: if_splits)

lemma install_gtk_ok:
  assumes "wpa_inv c s" "gd_ok gd" "length rsc = 8"
  shows "returns (\<lambda>(ok, t). wpa_inv c t) (wpa_supplicant_install_gtk gd rsc sleep s)"
proof -
  have "returns (\<lambda>_. True) (install_gtk_key gd s)" using assms(2) by (auto simp: install_gtk_key_def wp gd_ok_def)
  then obtain k where k: "install_gtk_key gd s = Some k" by (auto simp: returns_iff)
  show ?thesis unfolding wpa_supplicant_install_gtk_def k
    using assms by (auto simp: wp Let_def gd_ok_def split: prod.split dest!: wpa_inv_set_key)
qed

lemma gtk_rsc_ok: "key_ok key \<Longrightarrow> returns (\<lambda>r. length r = 8) (gtk_rsc key s)"
  by (auto simp: gtk_rsc_def wpa_supplicant_rsc_relaxation_def wp key_ok_def null_rsc_def)

lemma pairwise_gtk_ok:
  assumes "wpa_inv c s" "key_ok key"
  shows "returns (\<lambda>(ok, t). wpa_inv c t) (wpa_supplicant_pairwise_gtk key g s)"
proof (cases "length g < 2 \<or> length g - 2 > 32")
  case False
  obtain r where r: "gtk_rsc key s = Some r" "length r = 8" using gtk_rsc_ok [OF assms(2)] by (auto simp: returns_iff)
  define gk where "gk = drop 2 g @ drop (length g - 2) (replicate 32 (0 :: u8))"
  have gk: "wrn (replicate 32 0) 0 (drop 2 g) = Some gk" "length gk = 32" "rd8 g 0 = Some (g ! 0)"
    using False by (auto simp: wrn_def rd8_def gk_def)
  show ?thesis using False r gk assms(1)
    by (auto simp: wpa_supplicant_pairwise_gtk_def Let_def gd_ok_def split: option.split
        dest!: check_group_cipher_ok intro!: install_gtk_ok)
qed (use assms in \<open>simp add: wpa_supplicant_pairwise_gtk_def\<close>)

lemma install_igtk_ok:
  assumes "wpa_inv c s" "length b = 8 + wpa_cipher_key_len (mgmt_group_cipher (sm_conf s))"
  shows "returns (\<lambda>(ok, t). wpa_inv c t) (wpa_supplicant_install_igtk b sleep s)"
    "returns (\<lambda>(ok, t). wpa_inv c t) (wpa_supplicant_install_bigtk b sleep s)"
  unfolding wpa_supplicant_install_igtk_def wpa_supplicant_install_bigtk_def key_in_use_def
  using assms by (auto simp: wp Let_def split: prod.split dest!: wpa_inv_set_key)

lemma ie_slice_ok: "pred_option (slice_in kd) x \<Longrightarrow> returns (\<lambda>r. r = None \<longleftrightarrow> x = None) (ie_slice kd x)"
  by (cases x) (auto simp: ie_slice_def slice_in_def rdn_def split_beta)

lemma set_keys_ok:
  assumes "wpa_inv c s" "ie_ok kd ie"
  shows "returns (\<lambda>(ok, t). wpa_inv c t) (ieee80211w_set_keys kd ie s)"
proof -
  have i: "returns (\<lambda>(ok, t). wpa_inv c t) (ieee80211w_set_igtk kd ie t)"
    "returns (\<lambda>(ok, t). wpa_inv c t) (ieee80211w_set_bigtk kd ie t)" if "wpa_inv c t" for t
  proof -
    have "returns (\<lambda>r. r = None \<longleftrightarrow> ie_igtk ie = None) (ie_slice kd (ie_igtk ie))"
      "returns (\<lambda>r. r = None \<longleftrightarrow> ie_bigtk ie = None) (ie_slice kd (ie_bigtk ie))"
      using assms(2) by (auto simp: ie_ok_def intro!: ie_slice_ok)
    then show "returns (\<lambda>(ok, t). wpa_inv c t) (ieee80211w_set_igtk kd ie t)"
      "returns (\<lambda>(ok, t). wpa_inv c t) (ieee80211w_set_bigtk kd ie t)"
      unfolding ieee80211w_set_igtk_def ieee80211w_set_bigtk_def
      using that by (auto intro!: install_igtk_ok simp: wpa_len_defs elim!: returns_bindI split: option.split)
  qed
  have "returns (\<lambda>(ok, t). wpa_inv c t) (do {
           (ok, s) \<leftarrow> ieee80211w_set_igtk kd ie s;
           if \<not> ok then Some (False, s) else ieee80211w_set_bigtk kd ie s })"
    by (rule returns_pairI [OF i(1) [OF assms(1)]]) (simp add: i(2))
  then show ?thesis using assms(1) by (simp add: ieee80211w_set_keys_def Let_def)
qed

section \<open>Message 3 of the 4-way handshake\<close>

lemma validate_ie_ok:
  assumes "wpa_inv c s" "ie_ok kd ie"
  shows "returns (\<lambda>(ok, t). wpa_inv c t) (wpa_supplicant_validate_ie kd ie s)"
proof -
  obtain found t where t: "(if ap_wpa_ie (ap s) = None \<and> ap_rsn_ie (ap s) = None then wpa_sm_get_beacon_ie s else (True, s)) = (found, t)"
    by force
  have "wpa_inv c (snd (wpa_sm_get_beacon_ie s))"
    using wpa_invD(9) [OF assms(1)] by (simp add: wpa_sm_get_beacon_ie_def ctx_ok_def wpa_inv_set(4) [OF assms(1)])
  then have inv: "wpa_inv c t" using t assms(1) by (auto split: if_splits)
  have "pred_option (slice_in kd) (ie_wpa_ie ie)" "pred_option (slice_in kd) (ie_rsn_ie ie)"
    "pred_option (slice_in kd) (ie_rsnxe ie)" "pred_option (slice_in kd) (ie_rsne_override ie)"
    "pred_option (slice_in kd) (ie_rsne_override_2 ie)" "pred_option (slice_in kd) (ie_rsnxe_override ie)"
    using assms(2) by (simp_all add: ie_ok_def)
  note sl = this [THEN ie_slice_ok, THEN returns_bindI]
  show ?thesis unfolding wpa_supplicant_validate_ie_def t Let_def prod.case
    by (intro returns_ifI sl) (simp_all add: inv)
qed

lemma ext_key_id_ok:
  assumes "wpa_inv c s" "ie_ok kd ie"
  shows "returns (\<lambda>(ok, t). wpa_inv c t) (wpa_handle_ext_key_id kd ie s)"
proof -
  have "returns (\<lambda>_. True) (case ie_key_id ie of None \<Rightarrow> Some None | Some p \<Rightarrow> map_option (\<lambda>x. Some (x AND 3)) (rd8 kd p))"
    using assms(2) by (auto simp: ie_ok_def slice_in_def rd8_def split: option.split)
  then obtain k where k: "(case ie_key_id ie of None \<Rightarrow> Some None | Some p \<Rightarrow> map_option (\<lambda>x. Some (x AND 3)) (rd8 kd p)) = Some k"
    by (auto simp: returns_iff)
  show ?thesis unfolding wpa_handle_ext_key_id_def k using assms(1) by (auto split: option.split)
qed

lemma check_ok:
  assumes "wpa_inv c s" "ie_ok kd ie" "key_ok key"
  shows "returns (\<lambda>(ok, t). wpa_inv c t) (process_3_of_4_check key kd ie s)"
proof -
  have len: "returns (\<lambda>_. True) (WPA_GET_BE16 (ek_key_length key) 0)" using assms(3) by (simp add: key_ok_def wp)
  then obtain n where n: "WPA_GET_BE16 (ek_key_length key) 0 = Some n" by (auto simp: returns_iff)
  have tail: "returns (\<lambda>(ok, t). wpa_inv c t) (do {
      (ok, s) \<leftarrow> wpa_handle_ext_key_id kd ie t;
      if \<not> ok then Some (False, s)
      else if anonce s \<noteq> ek_key_nonce key then Some (False, s)
      else do {
        keylen \<leftarrow> WPA_GET_BE16 (ek_key_length key) 0;
        Some (unat keylen = wpa_cipher_key_len (pairwise_cipher (sm_conf s)), s) } })" if t: "wpa_inv c t" for t
    by (rule returns_pairI [OF ext_key_id_ok [OF t assms(2)]]) (simp add: n)
  have "returns (\<lambda>(ok, t). wpa_inv c t) (do {
      (ok, s) \<leftarrow> wpa_supplicant_validate_ie kd ie s;
      if \<not> ok then Some (False, s)
      else do {
        (ok, s) \<leftarrow> wpa_handle_ext_key_id kd ie s;
        if \<not> ok then Some (False, s)
        else if anonce s \<noteq> ek_key_nonce key then Some (False, s)
        else do {
          keylen \<leftarrow> WPA_GET_BE16 (ek_key_length key) 0;
          Some (unat keylen = wpa_cipher_key_len (pairwise_cipher (sm_conf s)), s) } } })"
    by (rule returns_pairI [OF validate_ie_ok [OF assms(1,2)]]) (simp add: tail)
  then show ?thesis using assms(1) by (simp add: process_3_of_4_check_def Let_def)
qed

lemma early_install_ok:
  assumes "wpa_inv c s" "key_ok key"
  shows "returns (\<lambda>(ok, t). wpa_inv c t) (process_3_of_4_early key s)"
    "returns (\<lambda>(ok, t). wpa_inv c t) (process_3_of_4_install key s)"
  using assms install_ptk_ok [OF assms]
  by (auto simp: process_3_of_4_early_def process_3_of_4_install_def wpa_supplicant_activate_ptk_def
      split: prod.split dest!: wpa_inv_set_key)

lemma ptk_ok:
  assumes "wpa_crypto_ok C" "wpa_inv c s" "ver_ok c ver" "key_ok key"
  shows "returns (\<lambda>(ok, t). wpa_inv c t) (process_3_of_4_ptk C key ver s)"
proof -
  have inst: "returns (\<lambda>(ok, t). wpa_inv c t) (do {
      (ok, s) \<leftarrow> process_3_of_4_install key (t\<lparr>renew_snonce := True\<rparr>);
      if \<not> ok then Some (False, s)
      else Some (True, wpa_sm_set_state WPA_GROUP_HANDSHAKE (process_3_of_4_secure key s)) })" if t: "wpa_inv c t" for t
  proof (rule returns_pairI [OF early_install_ok(2) [OF _ assms(4)]])
    show "wpa_inv c (t\<lparr>renew_snonce := True\<rparr>)" using t by simp
  qed (simp add: process_3_of_4_secure_def)
  have send: "returns (\<lambda>(ok, t). wpa_inv c t) (do {
      (ok, s) \<leftarrow> wpa_supplicant_send_4_of_4 C (bssid t) key ver (ek_key_info key) (ptk t) t;
      if \<not> ok then Some (False, s)
      else do {
        (ok, s) \<leftarrow> process_3_of_4_install key (s\<lparr>renew_snonce := True\<rparr>);
        if \<not> ok then Some (False, s)
        else Some (True, wpa_sm_set_state WPA_GROUP_HANDSHAKE (process_3_of_4_secure key s)) } })" if t: "wpa_inv c t" for t
    by (rule returns_pairI [OF send_4_of_4_ok [OF assms(1) t assms(3) wpa_invD(2) [OF t] assms(4)]]) (simp add: inst)
  show ?thesis unfolding process_3_of_4_ptk_def
    by (rule returns_pairI [OF early_install_ok(1) [OF assms(2,4)]]) (simp add: send)
qed

lemma suite_b_ok:
  assumes "wpa_crypto_ok C" "wpa_inv c s"
  shows "returns (wpa_inv c) (process_3_of_4_suite_b C s)"
proof -
  have p: "kck_len (ptk s) \<le> length (kck (ptk s))" using wpa_invD(2) [OF assms(2)] by (simp add: ptk_wf_def)
  have "returns (wpa_inv c) (do {
      k \<leftarrow> rdn (kck (ptk s)) 0 (kck_len (ptk s));
      (sa, s) \<leftarrow> pmksa_cache_add C (pmk s) None (Some k) (bssid s) (own_addr s) (network_ctx (sm_conf s))
                  (key_mgmt (sm_conf s)) None s;
      Some (if cur_pmksa s = None then s\<lparr>cur_pmksa := sa\<rparr> else s) })"
    using p by (auto simp: rdn_def intro!: returns_pairI [OF cache_add_ok [OF assms]] wpa_inv_cur)
  then show ?thesis using assms(2) by (simp add: process_3_of_4_suite_b_def)
qed

lemma done_ok:
  assumes "wpa_crypto_ok C" "wpa_inv c s"
  shows "returns (wpa_inv c) (process_3_of_4_done C key g td s)"
proof -
  have 1: "returns (wpa_inv c) (if group_cipher (sm_conf s) = WPA_CIPHER_GTK_NOT_USED \<or> g \<noteq> None
      then wpa_supplicant_key_neg_complete (bssid s) (info_bit (ek_key_info key) WPA_KEY_INFO_SECURE) s else Some s)"
    using key_neg_complete_ok [OF assms(2)] assms(2) by simp
  have 2: "returns (wpa_inv c) (process_3_of_4_suite_b C (if g \<noteq> None then wpa_sm_set_rekey_offload t else t))"
    if "wpa_inv c t" for t
    by (rule suite_b_ok [OF assms(1)]) (use that in simp)
  show ?thesis unfolding process_3_of_4_done_def
    by (rule returns_bindI [OF 1], rule returns_bindI [OF 2]) (auto split: option.split)
qed

lemma group_ok:
  assumes "wpa_crypto_ok C" "wpa_inv c s" "key_ok key" "ie_ok kd ie" "td_ok ie"
  shows "returns (\<lambda>(ok, t). wpa_inv c t) (process_3_of_4_group C key kd ie s)"
proof -
  have td: "returns (\<lambda>_. True) (case ie_transition_disable ie of None \<Rightarrow> Some None | Some x \<Rightarrow> map_option Some (rd8 kd (fst x)))"
    using assms(4,5) by (auto simp: ie_ok_def td_ok_def slice_in_def rd8_def split: option.split)
  then obtain tdv where tdv: "(case ie_transition_disable ie of None \<Rightarrow> Some None | Some x \<Rightarrow> map_option Some (rd8 kd (fst x))) = Some tdv"
    by (auto simp: returns_iff)
  have keys: "returns (\<lambda>(ok, t). wpa_inv c t) (do {
      (ok, s) \<leftarrow> ieee80211w_set_keys kd ie t;
      if \<not> ok then Some (False, s) else map_option (Pair True) (process_3_of_4_done C key g tdv s) })" if t: "wpa_inv c t" for t g
    by (rule returns_pairI [OF set_keys_ok [OF t assms(4)]]) (simp add: wp done_ok [OF assms(1)])
  have gtk: "returns (\<lambda>(ok, t). wpa_inv c t) (process_3_of_4_gtk key g s)" for g
    using pairwise_gtk_ok [OF assms(2,3)] assms(2) by (auto simp: process_3_of_4_gtk_def split: option.split)
  have slice: "returns (\<lambda>r. r = None \<longleftrightarrow> ie_gtk ie = None) (ie_slice kd (ie_gtk ie))"
    by (rule ie_slice_ok) (use assms(4) in \<open>simp add: ie_ok_def\<close>)
  show ?thesis unfolding process_3_of_4_group_def tdv bind.bind_lunit
    by (rule returns_bindI [OF slice], rule returns_pairI [OF gtk]) (simp add: keys)
qed

lemma process_3_of_4_ok:
  assumes "wpa_crypto_ok C" "wpa_inv c s" "ver_ok c ver" "key_ok key" "\<not> kde_visit short_vendor kd 0"
  shows "returns (wpa_inv c) (wpa_supplicant_process_3_of_4 C key ver kd s)"
proof -
  have group: "returns (wpa_inv c) (map_option handshake_failed (process_3_of_4_group C key kd ie t))"
    if "wpa_inv c t" "ie_ok kd ie" "td_ok ie" for t ie
    using group_ok [OF assms(1) that(1) assms(4) that(2,3)] by (auto simp: wp split_beta elim!: returns_mono)
  have tail: "returns (wpa_inv c) (do {
         (ok, s) \<leftarrow> process_3_of_4_ptk C key ver t;
         if \<not> ok then Some (handshake_failed (False, s))
         else map_option handshake_failed (process_3_of_4_group C key kd ie s) })"
    if "wpa_inv c t" "ie_ok kd ie" "td_ok ie" for t ie
    by (rule returns_pairI [OF ptk_ok [OF assms(1) that(1) assms(3,4)]]) (simp add: group that)
  have st: "wpa_inv c (wpa_sm_set_state WPA_4WAY_HANDSHAKE s)" using assms(2) by simp
  show ?thesis unfolding wpa_supplicant_process_3_of_4_def Let_def
  proof (rule returns_pairI [OF parse_ok [OF assms(5)]])
    fix ok ie assume ie: "ie_ok kd ie \<and> td_ok ie"
    have "returns (wpa_inv c) (do {
       (ok, s) \<leftarrow> process_3_of_4_check key kd ie (wpa_sm_set_state WPA_4WAY_HANDSHAKE s);
       if \<not> ok then Some (handshake_failed (False, s))
       else do {
         (ok, s) \<leftarrow> process_3_of_4_ptk C key ver s;
         if \<not> ok then Some (handshake_failed (False, s))
         else map_option handshake_failed (process_3_of_4_group C key kd ie s) } })"
      using ie by (intro returns_pairI [OF check_ok [OF st _ assms(4)]]) (simp_all add: tail)
    then show "returns (wpa_inv c) (if \<not> ok then Some (handshake_failed (False, wpa_sm_set_state WPA_4WAY_HANDSHAKE s))
       else do {
       (ok, s) \<leftarrow> process_3_of_4_check key kd ie (wpa_sm_set_state WPA_4WAY_HANDSHAKE s);
       if \<not> ok then Some (handshake_failed (False, s))
       else do {
         (ok, s) \<leftarrow> process_3_of_4_ptk C key ver s;
         if \<not> ok then Some (handshake_failed (False, s))
         else map_option handshake_failed (process_3_of_4_group C key kd ie s) } })"
      using assms(2) by simp
  qed
qed

section \<open>The group key handshake\<close>

text \<open>The documented behaviour of the block cipher: a block of 16 octets is decrypted to one.\<close>

definition aes_ok :: "'y wpa_crypto_scheme \<Rightarrow> bool" where
  "aes_ok C \<longleftrightarrow> (\<forall>k D b. aes_decrypt C k = Some D \<longrightarrow> length b = AES_BLOCK_SIZE \<longrightarrow> length (D b) = AES_BLOCK_SIZE)"

lemma unwrap_step_state:
  assumes "\<And>b. length b = 16 \<Longrightarrow> length (D b) = 16" "i \<in> set [1..<Suc n]" "wrap_state n s"
  shows "wrap_state n (aes_unwrap_step D n j i s)"
proof -
  obtain a r where s: "s = (a, r)" "length a = 8" "length r = 8 * n"
    using assms(3) by (cases s) (auto simp: wrap_state_def)
  note idx = wrap_index [OF assms(2)]
  have "length (D (xor_counter (of_nat (n * j + i)) a @ take 8 (drop (8 * (i - 1)) r))) = 16"
    by (rule assms(1)) (use s idx in simp)
  then show ?thesis using idx s by (simp add: aes_unwrap_step_def wrap_state_def Let_def overwrite_def)
qed

lemma unwrap_ok:
  assumes "aes_ok C" "length b = 8 * n + 8"
  shows "returns (\<lambda>r. \<forall>p. r = Some p \<longrightarrow> length p = 8 * n) (aes_unwrap C k n b)"
proof (cases "aes_decrypt C k")
  case (Some D)
  then have D: "length (D x) = 16" if "length x = 16" for x using that assms(1) by (simp add: aes_ok_def AES_BLOCK_SIZE_def)
  have "wrap_state n (fold (aes_unwrap_step D n j) (rev [1..<Suc n]) s)" if "wrap_state n s" for j s
    by (rule fold_invariant [of _ "\<lambda>i. i \<in> set [1..<Suc n]"]) (use that unwrap_step_state D in \<open>simp_all\<close>)
  note step = this
  define U where "U = fold (\<lambda>j. fold (aes_unwrap_step D n j) (rev [1..<Suc n])) (rev [0..<6])"
  have U: "wrap_state n (U (take 8 b, drop 8 b))"
    unfolding U_def by (rule fold_invariant [of _ "\<lambda>_. True"], rule TrueI)
      (use assms(2) in \<open>simp add: wrap_state_def\<close>, rule step)
  obtain a r where ar: "U (take 8 b, drop 8 b) = (a, r)" by fastforce
  then have "aes_unwrap C k n b = Some (if list_all (\<lambda>x. x = 0xa6) a then Some r else None)"
    using Some assms(2) by (simp add: aes_unwrap_def rdn_def U_def)
  then show ?thesis using U ar by (simp add: wrap_state_def)
qed (use assms(2) in \<open>simp add: aes_unwrap_def rdn_def\<close>)

lemma rc4_key_ok:
  assumes "wpa_inv c s"
  shows "returns (\<lambda>d. length d = length b) (do { k \<leftarrow> rdn (kek (ptk s)) 0 16; rc4_skip (iv @ k) n b })"
  using wpa_invD(2) [OF assms] by (auto simp: rdn_def ptk_wf_def wpa_len_defs intro!: returns_rc4_skip)

lemma unwrap_key_ok:
  assumes "aes_ok C" "wpa_inv c s" "length b = 8 * n + 8"
  shows "returns (\<lambda>r. \<forall>p. r = Some p \<longrightarrow> length p = 8 * n) (do { k \<leftarrow> rdn (kek (ptk s)) 0 (kek_len (ptk s)); aes_unwrap C k n b })"
  using wpa_invD(2) [OF assms(2)] unwrap_ok [OF assms(1,3)] by (auto simp: rdn_def ptk_wf_def)

lemma wpa_gtk_ok:
  assumes "aes_ok C" "wpa_inv c s" "ver = WPA_KEY_INFO_TYPE_HMAC_SHA1_AES \<longrightarrow> length kd = m + 8"
  shows "returns (\<lambda>r. \<forall>g. r = Some g \<longrightarrow> length g = 32) (process_1_of_2_wpa_gtk C key kd ver m s)"
proof -
  have rc4: "returns (\<lambda>r. \<forall>g. r = Some g \<longrightarrow> length g = 32) (do {
      k \<leftarrow> rdn (kek (ptk s)) 0 16;
      d \<leftarrow> rc4_skip (ek_key_iv key @ k) 256 kd;
      map_option Some (wrn (replicate 32 0) 0 d) })" if "length kd \<le> 32"
    using returns_bindI [OF rc4_key_ok [OF assms(2), of kd "ek_key_iv key" 256],
        of "\<lambda>r. \<forall>g. r = Some g \<longrightarrow> length g = 32" "\<lambda>d. map_option Some (wrn (replicate 32 0) 0 d)"] that
    by (auto simp: wrn_def)
  have aes: "returns (\<lambda>r. \<forall>g. r = Some g \<longrightarrow> length g = 32) (do {
      k \<leftarrow> rdn (kek (ptk s)) 0 (kek_len (ptk s));
      r \<leftarrow> aes_unwrap C k (m div 8) kd;
      case r of None \<Rightarrow> Some None | Some d \<Rightarrow> map_option Some (wrn (replicate 32 0) 0 d) })"
    if "length kd = m + 8" "m mod 8 = 0" "m \<le> 32"
  proof -
    have l: "length kd = 8 * (m div 8) + 8" using that(1,2) by auto
    have c: "returns (\<lambda>r. \<forall>g. r = Some g \<longrightarrow> length g = 32)
        (case r of None \<Rightarrow> Some None | Some d \<Rightarrow> map_option Some (wrn (replicate 32 0) 0 d))"
      if "\<forall>p. r = Some p \<longrightarrow> length p = 8 * (m div 8)" for r
      using that \<open>m \<le> 32\<close> by (cases r) (auto simp: wrn_def)
    have "returns (\<lambda>r. \<forall>g. r = Some g \<longrightarrow> length g = 32)
        (do { k \<leftarrow> rdn (kek (ptk s)) 0 (kek_len (ptk s)); aes_unwrap C k (m div 8) kd } \<bind>
         (\<lambda>r. case r of None \<Rightarrow> Some None | Some d \<Rightarrow> map_option Some (wrn (replicate 32 0) 0 d)))"
      by (rule returns_bindI [OF unwrap_key_ok [OF assms(1,2) l] c])
    then show ?thesis by simp
  qed
  show ?thesis using rc4 aes assms(3) by (auto simp: process_1_of_2_wpa_gtk_def)
qed

lemma process_1_of_2_wpa_ok:
  assumes "aes_ok C" "wpa_inv c s" "key_ok key"
  shows "returns (\<lambda>r. \<forall>gd. r = Some gd \<longrightarrow> gd_ok gd) (wpa_supplicant_process_1_of_2_wpa C key kd info ver s)"
proof -
  have "returns (\<lambda>_. True) (WPA_GET_BE16 (ek_key_length key) 0)" using assms(3) by (simp add: key_ok_def wp)
  then obtain n where n: "WPA_GET_BE16 (ek_key_length key) 0 = Some n" by (auto simp: returns_iff)
  define m where "m = (if ver = WPA_KEY_INFO_TYPE_HMAC_SHA1_AES then length kd - 8 else length kd)"
  show ?thesis
  proof (cases "ver = WPA_KEY_INFO_TYPE_HMAC_SHA1_AES \<and> length kd < 8")
    case False
    then have "ver = WPA_KEY_INFO_TYPE_HMAC_SHA1_AES \<longrightarrow> length kd = m + 8" by (auto simp: m_def)
    note g = wpa_gtk_ok [OF assms(1,2) this, of key]
    show ?thesis using False
      by (auto simp: wpa_supplicant_process_1_of_2_wpa_def n Let_def gd_ok_def simp flip: m_def split: option.split
          dest!: check_group_cipher_ok intro!: returns_bindI [OF g])
  qed (simp add: wpa_supplicant_process_1_of_2_wpa_def n)
qed

lemma process_1_of_2_rsn_ok:
  assumes "wpa_inv c s" "\<not> kde_visit short_vendor kd 0"
  shows "returns (\<lambda>(r, t). wpa_inv c t \<and> (\<forall>gd. r = Some gd \<longrightarrow> gd_ok gd)) (wpa_supplicant_process_1_of_2_rsn kd info s)"
  unfolding wpa_supplicant_process_1_of_2_rsn_def
proof (rule returns_pairI [OF parse_ok [OF assms(2)]])
  fix ok ie assume ie: "ie_ok kd ie \<and> td_ok ie"
  note keys = set_keys_ok [OF assms(1), of kd ie]
  have "pred_option (slice_in kd) (ie_gtk ie)" using ie by (simp add: ie_ok_def)
  note slice = returns_bindI [OF ie_slice_ok [OF this]]
  show "returns (\<lambda>(r, t). wpa_inv c t \<and> (\<forall>gd. r = Some gd \<longrightarrow> gd_ok gd))
    (if \<not> ok then Some (None, s)
     else do {
       g \<leftarrow> ie_slice kd (ie_gtk ie);
       case g of None \<Rightarrow> Some (None, s)
       | Some b \<Rightarrow>
           if \<not> info_bit info WPA_KEY_INFO_ENCR_KEY_DATA then Some (None, s)
           else if length b < 2 then Some (None, s)
           else if length b - 2 > 32 then Some (None, s)
           else case wpa_supplicant_check_group_cipher (group_cipher (sm_conf s)) (length b - 2) (length b - 2) of
                  None \<Rightarrow> Some (None, s)
                | Some (rsc_len, alg) \<Rightarrow> do {
                    x \<leftarrow> rd8 b 0;
                    gk \<leftarrow> wrn (replicate 32 0) 0 (drop 2 b);
                    let gd = \<lparr>gd_alg = alg, gd_tx = wpa_supplicant_gtk_tx_bit_workaround (x AND BIT 2 \<noteq> 0) s,
                              gd_key_rsc_len = rsc_len, gd_keyidx = ucast (x AND 3), gd_gtk = gk,
                              gd_gtk_len = length b - 2\<rparr>;
                    (ok, s) \<leftarrow> ieee80211w_set_keys kd ie s;
                    Some (Some gd, s) } })"
    using assms(1) ie keys
    by (auto intro!: slice split: option.split dest!: check_group_cipher_ok simp: rd8_def wrn_def Let_def gd_ok_def
        elim!: returns_pairI)
qed

lemma group_install_ok:
  assumes "wpa_crypto_ok C" "wpa_inv c s" "ver_ok c ver" "key_ok key" "gd_ok gd"
  shows "returns (\<lambda>(ok, t). wpa_inv c t) (process_1_of_2_install C key ver gd rekey s)"
proof -
  have fin: "returns (\<lambda>(ok, t). wpa_inv c t) (do {
      s \<leftarrow> (if rekey then Some (wpa_sm_set_state WPA_COMPLETED (rsn_emit Cancel_auth_timeout t))
            else wpa_supplicant_key_neg_complete (bssid t) (info_bit (ek_key_info key) WPA_KEY_INFO_SECURE) t);
      Some (True, wpa_sm_set_rekey_offload s) })" if t: "wpa_inv c t" for t
    by (rule returns_bindI [of "wpa_inv c"]) (use t key_neg_complete_ok [OF t] in simp_all)
  have send: "returns (\<lambda>(ok, t). wpa_inv c t) (do {
      (ok, s) \<leftarrow> wpa_supplicant_send_2_of_2 C key ver (ek_key_info key) t;
      if \<not> ok then Some (False, s)
      else do {
        s \<leftarrow> (if rekey then Some (wpa_sm_set_state WPA_COMPLETED (rsn_emit Cancel_auth_timeout s))
              else wpa_supplicant_key_neg_complete (bssid s) (info_bit (ek_key_info key) WPA_KEY_INFO_SECURE) s);
        Some (True, wpa_sm_set_rekey_offload s) } })" if t: "wpa_inv c t" for t
    by (rule returns_pairI [OF send_2_of_2_ok [OF assms(1) t assms(3,4)]]) (rule returns_ifI, simp, erule fin)
  show ?thesis unfolding process_1_of_2_install_def
    by (rule returns_bindI [OF gtk_rsc_ok [OF assms(4)]], rule returns_pairI [OF install_gtk_ok [OF assms(2,5)]])
      (auto intro: send)
qed

lemma process_1_of_2_ok:
  assumes "wpa_crypto_ok C" "aes_ok C" "wpa_inv c s" "ver_ok c ver" "key_ok key" "\<not> kde_visit short_vendor kd 0"
  shows "returns (wpa_inv c) (wpa_supplicant_process_1_of_2 C key kd ver s)"
proof (cases "msg_3_of_4_ok s")
  case True
  define rekey where "rekey = (wpa_state s = WPA_COMPLETED)"
  have g: "returns (\<lambda>(r, t). wpa_inv c t \<and> (\<forall>gd. r = Some gd \<longrightarrow> gd_ok gd))
      (if sm_proto_rsn s then wpa_supplicant_process_1_of_2_rsn kd (ek_key_info key) s
       else map_option (\<lambda>g. (g, s)) (wpa_supplicant_process_1_of_2_wpa C key kd (ek_key_info key) ver s))"
    using process_1_of_2_rsn_ok [OF assms(3,6)] process_1_of_2_wpa_ok [OF assms(2,3,5)] assms(3)
    by (auto simp: wp elim!: returns_mono)
  have "returns (wpa_inv c)
      (case r of None \<Rightarrow> Some (handshake_failed (False, wpa_sm_set_state WPA_GROUP_HANDSHAKE t))
       | Some gd \<Rightarrow> map_option handshake_failed (process_1_of_2_install C key ver gd rekey (wpa_sm_set_state WPA_GROUP_HANDSHAKE t)))"
    if "wpa_inv c t \<and> (\<forall>gd. r = Some gd \<longrightarrow> gd_ok gd)" for r t
    using that group_install_ok [OF assms(1) _ assms(4,5), of "wpa_sm_set_state WPA_GROUP_HANDSHAKE t", unfolded split_beta]
    by (auto simp: wp split: option.split)
  then have "returns (wpa_inv c)
      ((if sm_proto_rsn s then wpa_supplicant_process_1_of_2_rsn kd (ek_key_info key) s
        else map_option (\<lambda>g. (g, s)) (wpa_supplicant_process_1_of_2_wpa C key kd (ek_key_info key) ver s)) \<bind>
       (\<lambda>(r, t). case r of None \<Rightarrow> Some (handshake_failed (False, wpa_sm_set_state WPA_GROUP_HANDSHAKE t))
       | Some gd \<Rightarrow> map_option handshake_failed (process_1_of_2_install C key ver gd rekey (wpa_sm_set_state WPA_GROUP_HANDSHAKE t))))"
    by (rule returns_pairI [OF g])
  then show ?thesis unfolding wpa_supplicant_process_1_of_2_def Let_def rekey_def [symmetric]
    by (simp only: True simp_thms if_False)
qed (use assms(3) in \<open>simp add: wpa_supplicant_process_1_of_2_def\<close>)

section \<open>Received frames\<close>

lemma check_mic_ok:
  assumes "wpa_crypto_ok C" "ptk_wf p" "fixed_mic (key_mgmt c)" "rx_ver_ok info c" "off_mic + wpa_mic_len (key_mgmt c) n \<le> length b"
  shows "returns (\<lambda>(ok, b'). length b' = length b)
    (check_mic C p (key_mgmt c) (info AND WPA_KEY_INFO_TYPE_MASK) (wpa_mic_len (key_mgmt c) n) mic b)"
proof -
  have z: "returns (\<lambda>x. length x = length b) (wrn b off_mic (replicate (wpa_mic_len (key_mgmt c) n) 0))"
    using assms(5) by (intro returns_wrnI) simp_all
  show ?thesis unfolding check_mic_def
  proof (rule returns_bindI [OF z])
    fix x :: bytes assume x: "length x = length b"
    obtain r where r: "wpa_eapol_key_mic C (kck p) (kck_len p) (key_mgmt c) (info AND WPA_KEY_INFO_TYPE_MASK) x = Some r"
      using mic_returns [OF assms(1), of "kck p" "kck_len p" "key_mgmt c" "info AND WPA_KEY_INFO_TYPE_MASK" x] assms(2)
      by (auto simp: ptk_wf_def returns_iff)
    have "length m = wpa_mic_len (key_mgmt c) n" if "r = Some m" for m
      using mic_sized [OF assms(1,3,4) refl] r that by simp
    then show "returns (\<lambda>(ok, b'). length b' = length b)
       (wpa_eapol_key_mic C (kck p) (kck_len p) (key_mgmt c) (info AND WPA_KEY_INFO_TYPE_MASK) x \<bind>
        (\<lambda>r. case r of None \<Rightarrow> Some (False, x)
         | Some m \<Rightarrow> do {
             b \<leftarrow> wrn x off_mic m;
             y \<leftarrow> rdn b off_mic (wpa_mic_len (key_mgmt c) n);
             Some (y = mic, b) }))"
      unfolding r using assms(5) x by (auto simp: wrn_def rdn_def split: option.split)
  qed
qed

lemma verify_ok:
  assumes "wpa_crypto_ok C" "wpa_inv c s" "rx_ver_ok info c" "off_mic + wpa_mic_len (key_mgmt c) (pmk_len s) \<le> length b"
  shows "returns (\<lambda>(ok, b', t). length b' = length b \<and> wpa_inv c t)
    (wpa_supplicant_verify_eapol_key_mic C key (info AND WPA_KEY_INFO_TYPE_MASK) b s)"
proof -
  define n where "n = wpa_mic_len (key_mgmt c) (pmk_len s)"
  note conf = wpa_invD(7) [OF assms(2)]
  obtain mic where mic: "rdn b off_mic n = Some mic" using assms(4) by (auto simp: rdn_def n_def)
  have check: "returns (\<lambda>(ok, b'). length b' = length b)
      (check_mic C p (key_mgmt c) (info AND WPA_KEY_INFO_TYPE_MASK) n mic x)" if "ptk_wf p" "length x = length b" for p x
    using check_mic_ok [OF assms(1) that(1) wpa_invD(8) [OF assms(2)] assms(3), of "pmk_len s" x mic] that(2) assms(4)
    by (simp add: n_def)
  have first: "returns (\<lambda>(ok, b'). length b' = length b) (if tptk_set s
      then check_mic C (tptk s) (key_mgmt c) (info AND WPA_KEY_INFO_TYPE_MASK) n mic b else Some (False, b))"
    using check [OF wpa_invD(3) [OF assms(2)]] by simp
  have second: "returns (\<lambda>(ok, b', t). length b' = length b \<and> wpa_inv c t) (do {
      (ok, b) \<leftarrow> (if \<not> ok \<and> ptk_set t then check_mic C (ptk t) (key_mgmt c) (info AND WPA_KEY_INFO_TYPE_MASK) n mic x else Some (ok, x));
      if \<not> ok then Some (False, b, t)
      else Some (True, b, t\<lparr>rx_replay_counter := ek_replay_counter key, rx_replay_counter_set := True\<rparr>) })"
    if t: "wpa_inv c t" "length x = length b" for ok t x
    by (rule returns_pairI [of "\<lambda>ok b'. length b' = length b"]) (use t check [OF wpa_invD(2) [OF t(1)] t(2)] in auto)
  have moved: "wpa_inv c (s\<lparr>tptk_set := False, ptk_set := True, ptk := tptk s, tptk := zero_ptk, renew_snonce := True\<rparr>)"
    using assms(2) by (simp add: wpa_inv_def own_ies_ok_def)
  have "returns (\<lambda>(ok, b', t). length b' = length b \<and> wpa_inv c t) (do {
      (ok, b) \<leftarrow> (if tptk_set s
        then check_mic C (tptk s) (key_mgmt c) (info AND WPA_KEY_INFO_TYPE_MASK) n mic b else Some (False, b));
      let s = (if ok then s\<lparr>tptk_set := False, ptk_set := True, ptk := tptk s, tptk := zero_ptk, renew_snonce := True\<rparr> else s);
      (ok, b) \<leftarrow> (if \<not> ok \<and> ptk_set s then check_mic C (ptk s) (key_mgmt c) (info AND WPA_KEY_INFO_TYPE_MASK) n mic b else Some (ok, b));
      if \<not> ok then Some (False, b, s)
      else Some (True, b, s\<lparr>rx_replay_counter := ek_replay_counter key, rx_replay_counter_set := True\<rparr>) })"
    unfolding Let_def by (rule returns_pairI [OF first], rule second) (use assms(2) moved in auto)
  then show ?thesis
    unfolding wpa_supplicant_verify_eapol_key_mic_def Let_def conf n_def [symmetric] mic bind.bind_lunit .
qed

lemma decrypt_ok:
  assumes "aes_ok C" "wpa_inv c s"
  shows "returns (\<lambda>(d, t). wpa_inv c t) (wpa_supplicant_decrypt_key_data C key ver kd s)"
proof -
  obtain ok u where u: "rsn_ask s = (ok, u)" by force
  have inv: "wpa_inv c u" using wpa_inv_ask(2) [OF u] assms(2) by simp
  have rc4: "returns (\<lambda>(d, t). wpa_inv c t) (do {
      k \<leftarrow> rdn (kek (ptk s)) 0 16; d \<leftarrow> rc4_skip (ek_key_iv key @ k) 256 kd; Some (Some d, s) })"
    using returns_bindI [OF rc4_key_ok [OF assms(2), of kd "ek_key_iv key" 256], of "\<lambda>(d, t). wpa_inv c t" "\<lambda>d. Some (Some d, s)"]
      assms(2) by simp
  have aes: "returns (\<lambda>(d, t). wpa_inv c t) (do {
      k \<leftarrow> rdn (kek (ptk u)) 0 (kek_len (ptk u)); d \<leftarrow> aes_unwrap C k ((length kd - 8) div 8) kd; Some (d, u) })"
    if "8 \<le> length kd" "length kd mod 8 = 0"
  proof -
    have "length kd = 8 * ((length kd - 8) div 8) + 8" using that by presburger
    from returns_bindI [OF unwrap_key_ok [OF assms(1) inv this], of "\<lambda>(d, t). wpa_inv c t" "\<lambda>d. Some (d, u)"] inv
    show ?thesis by simp
  qed
  have aes': "returns (\<lambda>(d, t). wpa_inv c t)
      (if length kd < 8 \<or> length kd mod 8 \<noteq> 0 then Some (None, s)
       else if \<not> ok then Some (None, u)
       else do {
         k \<leftarrow> rdn (kek (ptk u)) 0 (kek_len (ptk u)); d \<leftarrow> aes_unwrap C k ((length kd - 8) div 8) kd; Some (d, u) })"
    using aes assms(2) inv by (simp add: not_less)
  show ?thesis unfolding wpa_supplicant_decrypt_key_data_def u Let_def prod.case
    by (rule returns_ifI, simp add: assms(2), rule returns_ifI, rule rc4, rule returns_ifI, rule aes') (simp add: assms(2))
qed

lemma open_ok:
  assumes "wpa_crypto_ok C" "aes_ok C" "wpa_inv c s" "off_mic + n + 2 + kdl \<le> length tmp" "n = wpa_mic_len (key_mgmt c) (pmk_len s)"
  shows "returns (\<lambda>(d, t). wpa_inv c t \<and> (d \<noteq> None \<longrightarrow> rx_ver_ok (ek_key_info key) c)) (rx_eapol_open C tmp key n kdl s)"
proof -
  define u where "u = rsn_emit Eapol_notify_lower_layer_success s"
  have u: "wpa_inv c u" "sm_conf u = c" "pmk u = pmk s"
    using assms(3) wpa_invD(7) [OF assms(3)] by (simp_all add: u_def rsn_emit_def)
  define ver where "ver = ek_key_info key AND WPA_KEY_INFO_TYPE_MASK"
  show ?thesis
  proof (cases "rx_ver_ok (ek_key_info key) c")
    case True
    have v: "returns (\<lambda>(ok, x, t). length x = length tmp \<and> wpa_inv c t)
        (if info_bit (ek_key_info key) WPA_KEY_INFO_MIC then wpa_supplicant_verify_eapol_key_mic C key ver tmp u else Some (True, tmp, u))"
      using verify_ok [OF assms(1) u(1) True, of tmp key] assms(4,5) u by (simp add: ver_def)
    have tail: "returns (\<lambda>(d, t). wpa_inv c t \<and> (d \<noteq> None \<longrightarrow> rx_ver_ok (ek_key_info key) c)) (do {
         kd \<leftarrow> rdn x (off_mic + n + 2) kdl;
         if sm_proto_rsn t \<and> info_bit (ek_key_info key) WPA_KEY_INFO_ENCR_KEY_DATA \<and> n \<noteq> 0 then
           if \<not> info_bit (ek_key_info key) WPA_KEY_INFO_MIC then Some (None, t)
           else wpa_supplicant_decrypt_key_data C key ver kd t
         else Some (Some kd, t) })" if "length x = length tmp" "wpa_inv c t" for x t
      using that assms(4) True decrypt_ok [OF assms(2) that(2)] by (simp add: rdn_def)
    have "returns (\<lambda>(d, t). wpa_inv c t \<and> (d \<noteq> None \<longrightarrow> rx_ver_ok (ek_key_info key) c))
      ((if info_bit (ek_key_info key) WPA_KEY_INFO_MIC then wpa_supplicant_verify_eapol_key_mic C key ver tmp u else Some (True, tmp, u)) \<bind>
       (\<lambda>(ok, x, t). if \<not> ok then Some (None, t) else do {
         kd \<leftarrow> rdn x (off_mic + n + 2) kdl;
         if sm_proto_rsn t \<and> info_bit (ek_key_info key) WPA_KEY_INFO_ENCR_KEY_DATA \<and> n \<noteq> 0 then
           if \<not> info_bit (ek_key_info key) WPA_KEY_INFO_MIC then Some (None, t)
           else wpa_supplicant_decrypt_key_data C key ver kd t
         else Some (Some kd, t) }))"
    proof (rule returns_bindI [OF v])
      fix y :: "bool \<times> bytes \<times> wpa_sm" assume y: "case y of (ok, x, t) \<Rightarrow> length x = length tmp \<and> wpa_inv c t"
      obtain ok x t where yy: "y = (ok, x, t)" by (cases y)
      show "returns (\<lambda>(d, t). wpa_inv c t \<and> (d \<noteq> None \<longrightarrow> rx_ver_ok (ek_key_info key) c))
        (case y of (ok, x, t) \<Rightarrow> if \<not> ok then Some (None, t) else do {
           kd \<leftarrow> rdn x (off_mic + n + 2) kdl;
           if sm_proto_rsn t \<and> info_bit (ek_key_info key) WPA_KEY_INFO_ENCR_KEY_DATA \<and> n \<noteq> 0 then
             if \<not> info_bit (ek_key_info key) WPA_KEY_INFO_MIC then Some (None, t)
             else wpa_supplicant_decrypt_key_data C key ver kd t
           else Some (Some kd, t) })"
        unfolding yy prod.case by (intro returns_ifI tail) (use y yy in simp_all)
    qed
    then show ?thesis
      unfolding rx_eapol_open_def Let_def u_def [symmetric] ver_def [symmetric] u(2)
      by (intro returns_ifI) (use u(1) in simp_all)
  qed (use u in \<open>simp add: rx_eapol_open_def Let_def flip: u_def\<close>)
qed

lemma frame_ok:
  assumes "wpa_inv c s" "n \<le> 24"
  shows "returns (\<lambda>(r, t). wpa_inv c t \<and> pmk t = pmk s \<and>
      (\<forall>tmp key kdl. r = Inr (tmp, key, kdl) \<longrightarrow> key_ok key \<and> off_mic + n + 2 + kdl \<le> length tmp)) (rx_eapol_frame buf n s)"
proof (cases "length buf < 83 + n")
  case False
  obtain ok u where u: "rsn_ask s = (ok, u)" by force
  have inv: "wpa_inv c u" "pmk u = pmk s" using wpa_inv_ask(2) [OF u] assms(1) u by (auto simp: rsn_ask_def)
  have "returns (\<lambda>_. True) (WPA_GET_BE16 buf 2)" using False by (simp add: wp)
  then obtain ty plen where h: "rd8 buf 1 = Some ty" "WPA_GET_BE16 buf 2 = Some plen"
    using False by (auto simp: rd8_def returns_iff)
  show ?thesis
  proof (cases "unat plen > length buf - 4 \<or> unat plen < 79 + n")
    case True
    then show ?thesis using False h assms(1) by (auto simp: rx_eapol_frame_def wpa_frame_defs Let_def)
  next
    case len: False
    define tmp where "tmp = take (unat plen + 4) buf"
    have tmp: "rdn buf 0 (unat plen + 4) = Some tmp" "length tmp = unat plen + 4" using len False by (auto simp: rdn_def tmp_def)
    have "returns key_ok (eapol_key_at tmp)"
      using tmp(2) len by (auto simp: eapol_key_at_def key_ok_def wp wpa_len_defs)
    then obtain key where key: "eapol_key_at tmp = Some key" "key_ok key" by (auto simp: returns_iff)
    have "returns (\<lambda>_. True) (WPA_GET_BE16 tmp (81 + n))" using tmp(2) len by (simp add: wp)
    then obtain kdl where kdl: "WPA_GET_BE16 tmp (81 + n) = Some kdl" by (auto simp: returns_iff)
    show ?thesis using False len h tmp key kdl inv u assms(1)
      by (auto simp: rx_eapol_frame_def wpa_frame_defs Let_def)
  qed
qed (use assms(1) in \<open>simp add: rx_eapol_frame_def wpa_frame_defs\<close>)

lemma dispatch_ok:
  assumes "wpa_crypto_ok C" "aes_ok C" "wpa_inv c s" "rx_ver_ok (ek_key_info key) c" "key_ok key" "\<not> kde_visit short_vendor kd 0"
  shows "returns (\<lambda>(r, t). wpa_inv c t) (rx_eapol_dispatch C src key n kd s)"
proof -
  have ver: "ver_ok c (ek_key_info key AND WPA_KEY_INFO_TYPE_MASK)" using assms(4) by (auto simp: ver_ok_def)
  note h = process_1_of_4_ok [OF assms(1,3) ver assms(5,6)] process_3_of_4_ok [OF assms(1,3) ver assms(5,6)]
    process_1_of_2_ok [OF assms(1,2,3) ver assms(5,6)]
  show ?thesis unfolding rx_eapol_dispatch_def Let_def
    by (intro returns_ifI) (use h assms(3) in \<open>simp_all add: wp\<close>)
qed

lemma mic_len_ok:
  assumes "wpa_inv c s"
  shows "returns (\<lambda>n. n = wpa_mic_len (key_mgmt c) (pmk_len s) \<and> n \<le> 24) (rx_eapol_mic_len s)"
proof -
  have "returns (\<lambda>_. True) (rx_eapol_mic_len s)"
    using cur_in_cache [OF assms] by (cases "cur_pmksa s") (auto simp: rx_eapol_mic_len_def)
  then obtain n where n: "rx_eapol_mic_len s = Some n" by (auto simp: returns_iff)
  then show ?thesis using mic_len_fixed [of s n] fixed_mic_bound [OF wpa_invD(8) [OF assms]] wpa_invD(7,8) [OF assms] by simp
qed

text \<open>The key data that a received frame hands to the handlers: in clear, or decrypted.\<close>

definition opened_key_data :: "'y wpa_crypto_scheme \<Rightarrow> bytes \<Rightarrow> wpa_sm \<Rightarrow> bytes option" where
  "opened_key_data C buf s = do {
     n \<leftarrow> rx_eapol_mic_len s;
     (r, s) \<leftarrow> rx_eapol_frame buf n s;
     case r of Inl _ \<Rightarrow> None
     | Inr (tmp, key, kdl) \<Rightarrow> do { (d, s) \<leftarrow> rx_eapol_open C tmp key n kdl s; d } }"

text \<open>C4. Memory safety of the reception of EAPOL-Key frames, for the AKMs whose MIC has a fixed length: whatever octets
  arrive, \<open>wpa_sm_rx_eapol()\<close> and the handlers behind it never read or write outside a buffer and never use a freed
  entry of the PMKSA cache, and they keep the invariant of the state machine: the arrays of the PTKs, the nonce, the cache and the
  stored elements are well-formed. The one condition is on the key data that the frame carries, in clear or decrypted:
  that its vendor-specific elements hold a whole selector. The invariant holds initially.\<close>
theorem wpa_rx_eapol_safe:
  assumes "wpa_crypto_ok C" "aes_ok C" "wpa_inv c s"
    and "\<forall>d. opened_key_data C buf s = Some d \<longrightarrow> \<not> kde_visit short_vendor d 0"
  shows "returns (\<lambda>(r, t). wpa_inv c t) (wpa_sm_rx_eapol C src buf s) \<and>
    (ctx_ok x \<longrightarrow> wpa_inv zero_conf (wpa_sm_init now answers x))"
proof
  obtain n where n: "rx_eapol_mic_len s = Some n" "n = wpa_mic_len (key_mgmt c) (pmk_len s)" "n \<le> 24"
    using mic_len_ok [OF assms(3)] by (auto simp: returns_iff)
  obtain r u where u: "rx_eapol_frame buf n s = Some (r, u)" "wpa_inv c u" "pmk u = pmk s"
    "\<And>tmp key kdl. r = Inr (tmp, key, kdl) \<Longrightarrow> key_ok key \<and> off_mic + n + 2 + kdl \<le> length tmp"
    using frame_ok [OF assms(3) n(3), of buf] by (auto simp: returns_iff)
  show "returns (\<lambda>(r, t). wpa_inv c t) (wpa_sm_rx_eapol C src buf s)"
  proof (cases r)
    case (Inl v)
    then show ?thesis using n(1) u by (simp add: wpa_sm_rx_eapol_def)
  next
    case (Inr y)
    obtain tmp key kdl where y: "y = (tmp, key, kdl)" by (cases y)
    note k = u(4) [OF Inr [unfolded y]]
    have "n = wpa_mic_len (key_mgmt c) (pmk_len u)" using n(2) u(3) by simp
    then obtain d t where t: "rx_eapol_open C tmp key n kdl u = Some (d, t)" "wpa_inv c t"
      "d \<noteq> None \<Longrightarrow> rx_ver_ok (ek_key_info key) c"
      using open_ok [OF assms(1,2) u(2), of n kdl tmp key] k by (auto simp: returns_iff)
    have "opened_key_data C buf s = d" using n(1) u(1) Inr y t(1) by (simp add: opened_key_data_def)
    then show ?thesis
      using dispatch_ok [OF assms(1,2) t(2), of key] assms(4) k t n(1) u(1) Inr y
      by (auto simp: wpa_sm_rx_eapol_def split: option.split)
  qed
  show "ctx_ok x \<longrightarrow> wpa_inv zero_conf (wpa_sm_init now answers x)"
    by (simp add: wpa_inv_def wpa_sm_init_def pmksa_cache_init_def own_ies_ok_def own_ies_fit_def rsnxe_wf_def no_ap_def
        zero_conf_def fixed_mic_def akm_defs pmksa_ok_def pmksa_inv_def aa_distinct_def)
qed

lemma demo_started: "\<exists>s. demo_run [] = Some s \<and> wpa_inv (sm_conf s) s"
  by (simp add: demo_run_def demo_start_def wpa_step_def demo_init_def wpa_sm_init_def pmksa_cache_init_def
      wpa_sm_set_own_addr_def wpa_sm_notify_assoc_def wpa_sm_set_pmk_def wpa_sm_set_assoc_wpa_ie_def
      wpa_sm_set_ap_rsn_ie_def ie_dup_def rsn_ask_def demo_rsne_def PMK_LEN_MAX_def Let_def demo_ctx_def
      wpa_inv_def own_ies_ok_def own_ies_fit_def rsnxe_wf_def no_ap_def ctx_ok_def fixed_mic_def akm_defs pmksa_ok_def
      pmksa_inv_def aa_distinct_def WPA_NONCE_LEN_def)

lemma demo_opened:
  "map_option (\<lambda>s. case opened_key_data demo_wpa_crypto demo_msg_1 s of None \<Rightarrow> True | Some d \<Rightarrow> \<not> kde_visit short_vendor d 0)
     (demo_run []) = Some True"
  "map_option (\<lambda>s. case opened_key_data demo_wpa_crypto demo_msg_3 s of None \<Rightarrow> True | Some d \<Rightarrow> \<not> kde_visit short_vendor d 0)
     (demo_run [Rx_eapol (replicate 6 1) demo_msg_1]) = Some True"
  by code_simp+

lemma demo_aes_ok: "aes_ok demo_wpa_crypto"
  by (simp add: aes_ok_def demo_wpa_crypto_def)

theorem wpa_rx_eapol_safe_witness:
  "\<exists>c. wpa_inv c demo_waiting \<and> wpa_inv c demo_done"
proof -
  obtain s where s: "demo_run [] = Some s" "wpa_inv (sm_conf s) s" using demo_started by blast
  have o: "\<forall>d. opened_key_data demo_wpa_crypto demo_msg_1 s = Some d \<longrightarrow> \<not> kde_visit short_vendor d 0"
    "\<forall>d. opened_key_data demo_wpa_crypto demo_msg_3 demo_waiting = Some d \<longrightarrow> \<not> kde_visit short_vendor d 0"
    using demo_opened s(1) demo_waiting_facts(5) by (auto split: option.splits)
  have "demo_run [Rx_eapol (replicate 6 1) demo_msg_1] =
      wpa_step demo_wpa_crypto (demo_run []) (Rx_eapol (replicate 6 1) demo_msg_1)"
    by (simp only: demo_run_def foldl_append foldl.simps)
  then have "map_option snd (wpa_sm_rx_eapol demo_wpa_crypto (replicate 6 1) demo_msg_1 s) = Some demo_waiting"
    using s(1) demo_waiting_facts(5) by (simp add: wpa_step_def)
  then obtain r where "wpa_sm_rx_eapol demo_wpa_crypto (replicate 6 1) demo_msg_1 s = Some (r, demo_waiting)" by auto
  then have w: "wpa_inv (sm_conf s) demo_waiting"
    using wpa_rx_eapol_safe [OF demo_wpa_crypto_ok demo_aes_ok s(2) o(1), of "replicate 6 1" demo_ctx 0 "\<lambda>_. None"] by simp
  then have "wpa_inv (sm_conf s) demo_done"
    using wpa_rx_eapol_safe [OF demo_wpa_crypto_ok demo_aes_ok w o(2), of "replicate 6 1" demo_ctx 0 "\<lambda>_. None"] demo_waiting_rx
    by auto
  with w show ?thesis by blast
qed

end
