(* ===== verification/Rsn_ie.thy ===== *)
theory Rsn_ie
  imports Wpa_sm
begin

text \<open>
  The RSN element and the WPA element: the parsers \<open>wpa_parse_wpa_ie_rsn()\<close> and
  \<open>wpa_parse_wpa_ie_wpa()\<close> of \<open>wpa_common.c\<close>, the generators of \<open>wpa_ie.c\<close> and the functions of \<open>wpa.c\<close> that call them.
  A parser works through the element in stages; a stage gets the position and the
  data found so far and either ends with a code or hands both on.
\<close>

section \<open>Parsed data\<close>

record wpa_ie_data =
  wd_proto :: u32
  wd_pairwise_cipher :: u32
  wd_has_pairwise :: bool
  wd_group_cipher :: u32
  wd_has_group :: bool
  wd_key_mgmt :: u32
  wd_capabilities :: u16
  wd_num_pmkid :: nat
  wd_pmkid :: "nat option"
  wd_mgmt_group_cipher :: u32

definition RSN_VERSION :: u16 where "RSN_VERSION = 1"
definition WPA_VERSION :: u16 where "WPA_VERSION = 1"
definition sizeof_rsn_ie_hdr :: nat where "sizeof_rsn_ie_hdr = 4"
definition sizeof_wpa_ie_hdr :: nat where "sizeof_wpa_ie_hdr = 8"

lemmas rsn_ie_defs = RSN_VERSION_def WPA_VERSION_def sizeof_rsn_ie_hdr_def sizeof_wpa_ie_hdr_def RSN_SELECTOR_LEN_def
  WPA_SELECTOR_LEN_def

type_synonym ie_stage = "((int \<times> wpa_ie_data) + (nat \<times> wpa_ie_data)) option"

definition next_stage :: "ie_stage \<Rightarrow> (nat \<Rightarrow> wpa_ie_data \<Rightarrow> ie_stage) \<Rightarrow> ie_stage" where
  "next_stage x k = do {
     r \<leftarrow> x;
     case r of Inl e \<Rightarrow> Some (Inl e) | Inr (pos, d) \<Rightarrow> k pos d }"

definition last_stage :: "ie_stage \<Rightarrow> (int \<times> wpa_ie_data) option" where
  "last_stage x = map_option (\<lambda>r. case r of Inl e \<Rightarrow> e | Inr (pos, d) \<Rightarrow> (0, d)) x"

section \<open>Parsing\<close>

text \<open>A list of suites behind its count; the bits of all of them.\<close>

fun suite_loop :: "(u32 \<Rightarrow> u32) \<Rightarrow> bytes \<Rightarrow> nat \<Rightarrow> nat \<Rightarrow> u32 \<Rightarrow> u32 option" where
  "suite_loop f b pos 0 acc = Some acc"
| "suite_loop f b pos (Suc n) acc = do {
     v \<leftarrow> WPA_GET_BE32 b pos;
     suite_loop f b (pos + RSN_SELECTOR_LEN) n (acc OR f v) }"

definition ie_suites :: "(u32 \<Rightarrow> u32) \<Rightarrow> bytes \<Rightarrow> nat \<Rightarrow> (nat \<times> u32) option option" where
  "ie_suites f b pos = do {
     count \<leftarrow> WPA_GET_LE16 b pos;
     let left = length b - (pos + 2);
     if count = 0 \<or> unat count > left div RSN_SELECTOR_LEN then Some None
     else do {
       v \<leftarrow> suite_loop f b (pos + 2) (unat count) 0;
       Some (Some (pos + 2 + RSN_SELECTOR_LEN * unat count, v)) } }"

definition rsn_ie_start :: wpa_ie_data where
  "rsn_ie_start = \<lparr>wd_proto = WPA_PROTO_RSN, wd_pairwise_cipher = WPA_CIPHER_CCMP, wd_has_pairwise = False,
     wd_group_cipher = WPA_CIPHER_CCMP, wd_has_group = False, wd_key_mgmt = WPA_KEY_MGMT_IEEE8021X, wd_capabilities = 0,
     wd_num_pmkid = 0, wd_pmkid = None, wd_mgmt_group_cipher = WPA_CIPHER_AES_128_CMAC\<rparr>"

text \<open>The tests for the OSEN element and the RSNE override elements, which carry the contents of an RSN element.\<close>

definition rsn_ie_is_osen :: "bytes \<Rightarrow> bool option" where
  "rsn_ie_is_osen b =
     (if 6 \<le> length b then do {
        l \<leftarrow> rd8 b 1;
        if 4 \<le> l \<and> unat l = length b - 2
        then map_option (\<lambda>v. v = OSEN_IE_VENDOR_TYPE) (WPA_GET_BE32 b 2) else Some False }
      else Some False)"

definition rsn_ie_is_override :: "bytes \<Rightarrow> bool option" where
  "rsn_ie_is_override b =
     (if 8 \<le> length b then do {
        l \<leftarrow> rd8 b 1;
        if 6 \<le> l \<and> unat l = length b - 2 then do {
          v \<leftarrow> WPA_GET_BE32 b 2;
          if v = RSNE_OVERRIDE_IE_VENDOR_TYPE \<or> v = RSNE_OVERRIDE_2_IE_VENDOR_TYPE
          then map_option (\<lambda>x. x = RSN_VERSION) (WPA_GET_LE16 b 6) else Some False }
        else Some False }
      else Some False)"

definition rsn_ie_header :: "bytes \<Rightarrow> ie_stage" where
  "rsn_ie_header b =
     (let d = rsn_ie_start
      in if length b = 0 then Some (Inl (- 1, d))
         else if length b < sizeof_rsn_ie_hdr then Some (Inl (- 1, d))
         else do {
           osen \<leftarrow> rsn_ie_is_osen b;
           if osen then Some (Inr (6, d\<lparr>wd_group_cipher := WPA_CIPHER_GTK_NOT_USED, wd_has_group := True,
             wd_key_mgmt := WPA_KEY_MGMT_OSEN, wd_proto := WPA_PROTO_OSEN\<rparr>))
           else do {
             over \<leftarrow> rsn_ie_is_override b;
             if over then Some (Inr (8, d))
             else do {
               e \<leftarrow> rd8 b 0;
               l \<leftarrow> rd8 b 1;
               v \<leftarrow> WPA_GET_LE16 b 2;
               if e \<noteq> WLAN_EID_RSN \<or> unat l \<noteq> length b - 2 \<or> v \<noteq> RSN_VERSION then Some (Inl (- 2, d))
               else Some (Inr (sizeof_rsn_ie_hdr, d)) } } })"

definition rsn_ie_group :: "bytes \<Rightarrow> nat \<Rightarrow> wpa_ie_data \<Rightarrow> ie_stage" where
  "rsn_ie_group b pos d =
     (if length b - pos \<ge> RSN_SELECTOR_LEN then do {
        v \<leftarrow> WPA_GET_BE32 b pos;
        let d = d\<lparr>wd_group_cipher := rsn_selector_to_bitfield v, wd_has_group := True\<rparr>;
        if \<not> wpa_cipher_valid_group (wd_group_cipher d) then Some (Inl (- 1, d))
        else Some (Inr (pos + RSN_SELECTOR_LEN, d)) }
      else if length b - pos > 0 then Some (Inl (- 3, d))
      else Some (Inr (pos, d)))"

definition rsn_ie_pairwise :: "bytes \<Rightarrow> nat \<Rightarrow> wpa_ie_data \<Rightarrow> ie_stage" where
  "rsn_ie_pairwise b pos d =
     (if length b - pos \<ge> 2 then do {
        r \<leftarrow> ie_suites rsn_selector_to_bitfield b pos;
        case r of None \<Rightarrow> Some (Inl (- 4, d\<lparr>wd_pairwise_cipher := 0\<rparr>))
        | Some (pos, v) \<Rightarrow>
            let d = d\<lparr>wd_pairwise_cipher := v, wd_has_pairwise := True\<rparr>
            in if v AND WPA_CIPHER_AES_128_CMAC \<noteq> 0 then Some (Inl (- 1, d)) else Some (Inr (pos, d)) }
      else if length b - pos = 1 then Some (Inl (- 5, d))
      else Some (Inr (pos, d)))"

definition rsn_ie_akm :: "bytes \<Rightarrow> nat \<Rightarrow> wpa_ie_data \<Rightarrow> ie_stage" where
  "rsn_ie_akm b pos d =
     (if length b - pos \<ge> 2 then do {
        r \<leftarrow> ie_suites rsn_key_mgmt_to_bitfield b pos;
        case r of None \<Rightarrow> Some (Inl (- 6, d\<lparr>wd_key_mgmt := 0\<rparr>))
        | Some (pos, v) \<Rightarrow> Some (Inr (pos, d\<lparr>wd_key_mgmt := v\<rparr>)) }
      else if length b - pos = 1 then Some (Inl (- 7, d))
      else Some (Inr (pos, d)))"

definition ie_capabilities :: "bytes \<Rightarrow> nat \<Rightarrow> wpa_ie_data \<Rightarrow> ie_stage" where
  "ie_capabilities b pos d =
     (if length b - pos \<ge> 2 then do {
        v \<leftarrow> WPA_GET_LE16 b pos;
        Some (Inr (pos + 2, d\<lparr>wd_capabilities := v\<rparr>)) }
      else Some (Inr (pos, d)))"

definition rsn_ie_pmkids :: "bytes \<Rightarrow> nat \<Rightarrow> wpa_ie_data \<Rightarrow> ie_stage" where
  "rsn_ie_pmkids b pos d =
     (if length b - pos \<ge> 2 then do {
        n \<leftarrow> WPA_GET_LE16 b pos;
        let pos = pos + 2;
        if unat n > (length b - pos) div PMKID_LEN then Some (Inl (- 9, d\<lparr>wd_num_pmkid := 0\<rparr>))
        else Some (Inr (pos + unat n * PMKID_LEN, d\<lparr>wd_num_pmkid := unat n, wd_pmkid := Some pos\<rparr>)) }
      else Some (Inr (pos, d)))"

definition rsn_ie_mgmt :: "bytes \<Rightarrow> nat \<Rightarrow> wpa_ie_data \<Rightarrow> ie_stage" where
  "rsn_ie_mgmt b pos d =
     (if length b - pos \<ge> 4 then do {
        v \<leftarrow> WPA_GET_BE32 b pos;
        let d = d\<lparr>wd_mgmt_group_cipher := rsn_selector_to_bitfield v\<rparr>;
        if \<not> wpa_cipher_valid_mgmt_group (wd_mgmt_group_cipher d) then Some (Inl (- 10, d))
        else Some (Inr (pos + RSN_SELECTOR_LEN, d)) }
      else Some (Inr (pos, d)))"

text \<open>The code that \<open>wpa_parse_wpa_ie_rsn()\<close> returns and the data that it has filled in; \<open>pmkid\<close> is an
  offset into the element.\<close>

definition wpa_parse_wpa_ie_rsn :: "bytes \<Rightarrow> (int \<times> wpa_ie_data) option" where
  "wpa_parse_wpa_ie_rsn b =
     last_stage (next_stage (next_stage (next_stage (next_stage (next_stage (next_stage (rsn_ie_header b)
       (rsn_ie_group b)) (rsn_ie_pairwise b)) (rsn_ie_akm b)) (ie_capabilities b)) (rsn_ie_pmkids b)) (rsn_ie_mgmt b))"

definition wpa_ie_start :: wpa_ie_data where
  "wpa_ie_start = \<lparr>wd_proto = WPA_PROTO_WPA, wd_pairwise_cipher = WPA_CIPHER_TKIP, wd_has_pairwise = False,
     wd_group_cipher = WPA_CIPHER_TKIP, wd_has_group = False, wd_key_mgmt = WPA_KEY_MGMT_IEEE8021X, wd_capabilities = 0,
     wd_num_pmkid = 0, wd_pmkid = None, wd_mgmt_group_cipher = 0\<rparr>"

definition wpa_ie_header :: "bytes \<Rightarrow> ie_stage" where
  "wpa_ie_header b =
     (if length b < sizeof_wpa_ie_hdr then Some (Inl (- 1, wpa_ie_start))
      else do {
        e \<leftarrow> rd8 b 0;
        l \<leftarrow> rd8 b 1;
        oui \<leftarrow> WPA_GET_BE32 b 2;
        v \<leftarrow> WPA_GET_LE16 b 6;
        if e \<noteq> WLAN_EID_VENDOR_SPECIFIC \<or> unat l \<noteq> length b - 2 \<or> oui \<noteq> WPA_OUI_TYPE \<or> v \<noteq> WPA_VERSION
        then Some (Inl (- 2, wpa_ie_start)) else Some (Inr (sizeof_wpa_ie_hdr, wpa_ie_start)) })"

definition wpa_ie_group :: "bytes \<Rightarrow> nat \<Rightarrow> wpa_ie_data \<Rightarrow> ie_stage" where
  "wpa_ie_group b pos d =
     (if length b - pos \<ge> WPA_SELECTOR_LEN then do {
        v \<leftarrow> WPA_GET_BE32 b pos;
        Some (Inr (pos + WPA_SELECTOR_LEN, d\<lparr>wd_group_cipher := wpa_selector_to_bitfield v\<rparr>)) }
      else if length b - pos > 0 then Some (Inl (- 3, d))
      else Some (Inr (pos, d)))"

definition wpa_ie_pairwise :: "bytes \<Rightarrow> nat \<Rightarrow> wpa_ie_data \<Rightarrow> ie_stage" where
  "wpa_ie_pairwise b pos d =
     (if length b - pos \<ge> 2 then do {
        r \<leftarrow> ie_suites wpa_selector_to_bitfield b pos;
        case r of None \<Rightarrow> Some (Inl (- 4, d\<lparr>wd_pairwise_cipher := 0\<rparr>))
        | Some (pos, v) \<Rightarrow> Some (Inr (pos, d\<lparr>wd_pairwise_cipher := v\<rparr>)) }
      else if length b - pos = 1 then Some (Inl (- 5, d))
      else Some (Inr (pos, d)))"

definition wpa_ie_akm :: "bytes \<Rightarrow> nat \<Rightarrow> wpa_ie_data \<Rightarrow> ie_stage" where
  "wpa_ie_akm b pos d =
     (if length b - pos \<ge> 2 then do {
        r \<leftarrow> ie_suites wpa_key_mgmt_to_bitfield b pos;
        case r of None \<Rightarrow> Some (Inl (- 6, d\<lparr>wd_key_mgmt := 0\<rparr>))
        | Some (pos, v) \<Rightarrow> Some (Inr (pos, d\<lparr>wd_key_mgmt := v\<rparr>)) }
      else if length b - pos = 1 then Some (Inl (- 7, d))
      else Some (Inr (pos, d)))"

definition wpa_parse_wpa_ie_wpa :: "bytes \<Rightarrow> (int \<times> wpa_ie_data) option" where
  "wpa_parse_wpa_ie_wpa b =
     last_stage (next_stage (next_stage (next_stage (next_stage (wpa_ie_header b)
       (wpa_ie_group b)) (wpa_ie_pairwise b)) (wpa_ie_akm b)) (ie_capabilities b))"

definition wpa_parse_wpa_ie :: "bytes \<Rightarrow> (int \<times> wpa_ie_data) option" where
  "wpa_parse_wpa_ie b =
     (if 1 \<le> length b \<and> b ! 0 = WLAN_EID_RSN then wpa_parse_wpa_ie_rsn b
      else if 6 \<le> length b \<and> b ! 0 = WLAN_EID_VENDOR_SPECIFIC \<and> 4 \<le> b ! 1 then do {
        v \<leftarrow> WPA_GET_BE32 b 2;
        if v = OSEN_IE_VENDOR_TYPE \<or> v = RSNE_OVERRIDE_IE_VENDOR_TYPE \<or> v = RSNE_OVERRIDE_2_IE_VENDOR_TYPE
        then wpa_parse_wpa_ie_rsn b else wpa_parse_wpa_ie_wpa b }
      else wpa_parse_wpa_ie_wpa b)"

section \<open>Generating\<close>

text \<open>The generators fill the buffer of the caller. The result is the value that the code returns, the
  length of the element or -1, and the buffer.\<close>

definition wpa_akm_selector :: "u32 \<Rightarrow> u32 option" where
  "wpa_akm_selector kmgmt =
     (if kmgmt = WPA_KEY_MGMT_IEEE8021X then Some WPA_AUTH_KEY_MGMT_UNSPEC_802_1X
      else if kmgmt = WPA_KEY_MGMT_PSK then Some WPA_AUTH_KEY_MGMT_PSK_OVER_802_1X
      else if kmgmt = WPA_KEY_MGMT_WPA_NONE then Some WPA_AUTH_KEY_MGMT_NONE
      else if kmgmt = WPA_KEY_MGMT_CCKM then Some WPA_AUTH_KEY_MGMT_CCKM
      else None)"

definition wpa_gen_wpa_ie_wpa :: "bytes \<Rightarrow> u32 \<Rightarrow> u32 \<Rightarrow> u32 \<Rightarrow> (int \<times> bytes) option" where
  "wpa_gen_wpa_ie_wpa buf pw grp akm =
     (let gs = wpa_cipher_to_suite WPA_PROTO_WPA grp;
          ps = wpa_cipher_to_suite WPA_PROTO_WPA pw
      in if length buf < sizeof_wpa_ie_hdr + WPA_SELECTOR_LEN + 2 + WPA_SELECTOR_LEN + 2 + WPA_SELECTOR_LEN then Some (- 1, buf)
         else do {
           buf \<leftarrow> wrn buf 0 [WLAN_EID_VENDOR_SPECIFIC];
           buf \<leftarrow> wrn buf 2 (WPA_PUT_BE32 WPA_OUI_TYPE);
           buf \<leftarrow> wrn buf 6 (WPA_PUT_LE16 WPA_VERSION);
           if gs = 0 then Some (- 1, buf)
           else do {
             buf \<leftarrow> wrn buf 8 (WPA_PUT_BE32 gs);
             buf \<leftarrow> wrn buf 12 [1, 0];
             if ps = 0 \<or> (\<not> wpa_cipher_valid_pairwise pw \<and> pw \<noteq> WPA_CIPHER_NONE) then Some (- 1, buf)
             else do {
               buf \<leftarrow> wrn buf 14 (WPA_PUT_BE32 ps);
               buf \<leftarrow> wrn buf 18 [1, 0];
               case wpa_akm_selector akm of None \<Rightarrow> Some (- 1, buf)
               | Some k \<Rightarrow> do {
                   buf \<leftarrow> wrn buf 20 (WPA_PUT_BE32 k);
                   buf \<leftarrow> wrn buf 1 [22];
                   Some (24, buf) } } } })"

definition rsn_supp_capab :: "wpa_sm \<Rightarrow> u16" where
  "rsn_supp_capab s =
     (if mfp (sm_conf s) \<noteq> 0 then WPA_CAPABILITY_MFPC else 0) OR
     (if mfp (sm_conf s) = 2 then WPA_CAPABILITY_MFPR else 0) OR
     (if ocv (sm_conf s) \<noteq> 0 then WPA_CAPABILITY_OCVC else 0) OR
     (if ext_key_id (sm_conf s) then WPA_CAPABILITY_EXT_KEY_ID_FOR_UNICAST else 0)"

definition rsn_akm_selector :: "u32 \<Rightarrow> u32 option" where
  "rsn_akm_selector kmgmt =
     (if kmgmt = WPA_KEY_MGMT_IEEE8021X then Some RSN_AUTH_KEY_MGMT_UNSPEC_802_1X
      else if kmgmt = WPA_KEY_MGMT_PSK then Some RSN_AUTH_KEY_MGMT_PSK_OVER_802_1X
      else if kmgmt = WPA_KEY_MGMT_CCKM then Some RSN_AUTH_KEY_MGMT_CCKM
      else if kmgmt = WPA_KEY_MGMT_IEEE8021X_SHA256 then Some RSN_AUTH_KEY_MGMT_802_1X_SHA256
      else if kmgmt = WPA_KEY_MGMT_PSK_SHA256 then Some RSN_AUTH_KEY_MGMT_PSK_SHA256
      else if kmgmt = WPA_KEY_MGMT_SAE then Some RSN_AUTH_KEY_MGMT_SAE
      else if kmgmt = WPA_KEY_MGMT_SAE_EXT_KEY then Some RSN_AUTH_KEY_MGMT_SAE_EXT_KEY
      else if kmgmt = WPA_KEY_MGMT_FT_SAE then Some RSN_AUTH_KEY_MGMT_FT_SAE
      else if kmgmt = WPA_KEY_MGMT_IEEE8021X_SUITE_B_192 then Some RSN_AUTH_KEY_MGMT_802_1X_SUITE_B_192
      else if kmgmt = WPA_KEY_MGMT_IEEE8021X_SUITE_B then Some RSN_AUTH_KEY_MGMT_802_1X_SUITE_B
      else None)"

text \<open>The fields behind the capabilities: the PMKID of the entry in use and the management group cipher.\<close>

definition rsn_gen_pmkid :: "bytes option \<Rightarrow> bytes \<Rightarrow> (nat \<times> bytes) option" where
  "rsn_gen_pmkid pmkid buf =
     (case pmkid of None \<Rightarrow> Some (22, buf)
      | Some p \<Rightarrow> do {
          buf \<leftarrow> wrn buf 22 [1, 0];
          buf \<leftarrow> wrn buf 24 p;
          Some (24 + PMKID_LEN, buf) })"

definition rsn_gen_mgmt :: "bool \<Rightarrow> u32 \<Rightarrow> nat \<Rightarrow> bytes \<Rightarrow> (nat \<times> bytes) option" where
  "rsn_gen_mgmt has_pmkid mgmt pos buf =
     (if wpa_cipher_valid_mgmt_group mgmt then do {
        (pos, buf) \<leftarrow> (if has_pmkid then Some (pos, buf)
                      else map_option (Pair (pos + 2)) (wrn buf pos (WPA_PUT_LE16 0)));
        buf \<leftarrow> wrn buf pos (WPA_PUT_BE32 (wpa_cipher_to_suite WPA_PROTO_RSN mgmt));
        Some (pos + RSN_SELECTOR_LEN, buf) }
      else Some (pos, buf))"

definition rsn_gen_tail :: "bytes option \<Rightarrow> u32 \<Rightarrow> bytes \<Rightarrow> (int \<times> bytes) option" where
  "rsn_gen_tail pmkid mgmt buf = do {
     (pos, buf) \<leftarrow> rsn_gen_pmkid pmkid buf;
     (pos, buf) \<leftarrow> rsn_gen_mgmt (pmkid \<noteq> None) mgmt pos buf;
     buf \<leftarrow> wrn buf 1 [of_nat (pos - 2)];
     Some (int pos, buf) }"

definition wpa_gen_wpa_ie_rsn :: "bytes \<Rightarrow> u32 \<Rightarrow> u32 \<Rightarrow> u32 \<Rightarrow> u32 \<Rightarrow> wpa_sm \<Rightarrow> (int \<times> bytes) option" where
  "wpa_gen_wpa_ie_rsn buf pw grp akm mgmt s =
     (let gs = wpa_cipher_to_suite WPA_PROTO_RSN grp;
          ps = wpa_cipher_to_suite WPA_PROTO_RSN pw
      in if length buf < sizeof_rsn_ie_hdr + RSN_SELECTOR_LEN + 2 + RSN_SELECTOR_LEN + 2 + RSN_SELECTOR_LEN + 2 +
              (if cur_pmksa s \<noteq> None then 2 + PMKID_LEN else 0) then Some (- 1, buf)
         else do {
           buf \<leftarrow> wrn buf 0 [WLAN_EID_RSN];
           buf \<leftarrow> wrn buf 2 (WPA_PUT_LE16 RSN_VERSION);
           if gs = 0 then Some (- 1, buf)
           else do {
             buf \<leftarrow> wrn buf 4 (WPA_PUT_BE32 gs);
             buf \<leftarrow> wrn buf 8 [1, 0];
             if ps = 0 \<or> (\<not> wpa_cipher_valid_pairwise pw \<and> pw \<noteq> WPA_CIPHER_NONE) then Some (- 1, buf)
             else do {
               buf \<leftarrow> wrn buf 10 (WPA_PUT_BE32 ps);
               buf \<leftarrow> wrn buf 14 [1, 0];
               case rsn_akm_selector akm of None \<Rightarrow> Some (- 1, buf)
               | Some k \<Rightarrow> do {
                   buf \<leftarrow> wrn buf 16 (WPA_PUT_BE32 k);
                   buf \<leftarrow> wrn buf 20 (WPA_PUT_LE16 (rsn_supp_capab s));
                   pmkid \<leftarrow> (case cur_pmksa s of None \<Rightarrow> Some None
                              | Some c \<Rightarrow> map_option (\<lambda>e. Some (pe_pmkid e)) (pmksa_heap s c));
                   rsn_gen_tail pmkid mgmt buf } } } })"

definition wpa_gen_wpa_ie :: "wpa_sm \<Rightarrow> bytes \<Rightarrow> (int \<times> bytes) option" where
  "wpa_gen_wpa_ie s buf =
     (let c = sm_conf s
      in if proto c = WPA_PROTO_RSN
         then wpa_gen_wpa_ie_rsn buf (pairwise_cipher c) (group_cipher c) (key_mgmt c) (mgmt_group_cipher c) s
         else wpa_gen_wpa_ie_wpa buf (pairwise_cipher c) (group_cipher c) (key_mgmt c))"

definition WLAN_RSNX_CAPAB_SAE_H2E :: nat where "WLAN_RSNX_CAPAB_SAE_H2E = 5"
definition WLAN_RSNX_CAPAB_SECURE_RTT :: nat where "WLAN_RSNX_CAPAB_SECURE_RTT = 9"
definition WLAN_RSNX_CAPAB_PROT_RANGE_NEG :: nat where "WLAN_RSNX_CAPAB_PROT_RANGE_NEG = 10"

definition rsnxe_capab :: "wpa_sm_conf \<Rightarrow> u16" where
  "rsnxe_capab c =
     (if wpa_key_mgmt_sae (key_mgmt c) \<and> (sae_pwe c = 1 \<or> sae_pwe c = 2 \<or> sae_pk c) then BIT WLAN_RSNX_CAPAB_SAE_H2E else 0) OR
     (if secure_ltf c then BIT WLAN_RSNX_CAPAB_SECURE_LTF else 0) OR
     (if secure_rtt c then BIT WLAN_RSNX_CAPAB_SECURE_RTT else 0) OR
     (if prot_range_neg c then BIT WLAN_RSNX_CAPAB_PROT_RANGE_NEG else 0)"

definition wpa_gen_rsnxe :: "wpa_sm \<Rightarrow> bytes \<Rightarrow> (int \<times> bytes) option" where
  "wpa_gen_rsnxe s buf =
     (let capab = rsnxe_capab (sm_conf s);
          flen = (if capab AND 0xff00 \<noteq> 0 then 2 else 1 :: nat)
      in if capab = 0 then Some (0, buf)
         else if length buf < 2 + flen then Some (- 1, buf)
         else do {
           let capab = capab OR of_nat (flen - 1);
           buf \<leftarrow> wrn buf 0 [WLAN_EID_RSNX, of_nat flen, ucast (capab AND 0x00ff)];
           if drop_bit 8 capab \<noteq> 0 then do {
             buf \<leftarrow> wrn buf 3 [ucast (drop_bit 8 capab)];
             Some (4, buf) }
           else Some (3, buf) })"

section \<open>The users in the state machine\<close>

text \<open>The result is the code, the buffer cut to the length that the code reports, and the state.\<close>

definition wpa_sm_set_assoc_wpa_ie_default :: "bytes \<Rightarrow> wpa_sm \<Rightarrow> (bool \<times> bytes \<times> wpa_sm) option" where
  "wpa_sm_set_assoc_wpa_ie_default buf s = do {
     (res, buf) \<leftarrow> wpa_gen_wpa_ie s buf;
     if res < 0 then Some (False, buf, s)
     else
       let ie = take (nat res) buf
       in if assoc_wpa_ie s = None then
            let (ok, s) = rsn_ask s
            in if ok then Some (True, ie, s\<lparr>assoc_wpa_ie := Some ie, assoc_wpa_ie_len := nat res\<rparr>) else Some (False, ie, s)
          else Some (True, ie, s) }"

definition wpa_sm_set_assoc_rsnxe_default :: "bytes \<Rightarrow> wpa_sm \<Rightarrow> (bool \<times> bytes \<times> wpa_sm) option" where
  "wpa_sm_set_assoc_rsnxe_default buf s = do {
     (res, buf) \<leftarrow> wpa_gen_rsnxe s buf;
     if res < 0 then Some (False, buf, s)
     else
       let ie = take (nat res) buf
       in if assoc_rsnxe s = None \<and> res > 0 then
            let (ok, s) = rsn_ask s
            in if ok then Some (True, ie, s\<lparr>assoc_rsnxe := Some ie\<rparr>) else Some (False, ie, s)
          else Some (True, ie, s) }"

definition wpa_sm_pmf_enabled :: "wpa_sm \<Rightarrow> bool option" where
  "wpa_sm_pmf_enabled s =
     (if mfp (sm_conf s) = 0 then Some False
      else case wpa_sm_get_ap_rsne s of None \<Rightarrow> Some False
           | Some b \<Rightarrow> do {
               (r, d) \<leftarrow> wpa_parse_wpa_ie_rsn b;
               Some (r \<ge> 0 \<and> wd_capabilities d AND (WPA_CAPABILITY_MFPR OR WPA_CAPABILITY_MFPC) \<noteq> 0) })"

definition wpa_sm_ocv_enabled :: "wpa_sm \<Rightarrow> bool option" where
  "wpa_sm_ocv_enabled s =
     (if ocv (sm_conf s) = 0 then Some False
      else case wpa_sm_get_ap_rsne s of None \<Rightarrow> Some False
           | Some b \<Rightarrow> do {
               (r, d) \<leftarrow> wpa_parse_wpa_ie_rsn b;
               Some (r \<ge> 0 \<and> wd_capabilities d AND WPA_CAPABILITY_OCVC \<noteq> 0) })"

definition wpa_sm_parse_own_wpa_ie :: "wpa_sm \<Rightarrow> (int \<times> wpa_ie_data option) option" where
  "wpa_sm_parse_own_wpa_ie s =
     (case assoc_wpa_ie s of None \<Rightarrow> Some (- 1, None)
      | Some b \<Rightarrow> do {
          b \<leftarrow> rdn b 0 (assoc_wpa_ie_len s);
          (r, d) \<leftarrow> wpa_parse_wpa_ie b;
          Some (if r \<noteq> 0 then - 2 else 0, Some d) })"

end
