(* ===== verification/Rsn_ie_props.thy ===== *)
theory Rsn_ie_props
  imports Rsn_ie
begin

text \<open>
  The parsers of the RSN and WPA elements stay inside the element, and they read back what the generators write.
\<close>

section \<open>The parsers stay inside the element\<close>

definition ie_data_in :: "bytes \<Rightarrow> wpa_ie_data \<Rightarrow> bool" where
  "ie_data_in b d \<longleftrightarrow>
     (case wd_pmkid d of None \<Rightarrow> wd_num_pmkid d = 0 | Some p \<Rightarrow> p + wd_num_pmkid d * PMKID_LEN \<le> length b)"

definition stage_in :: "bytes \<Rightarrow> (int \<times> wpa_ie_data) + (nat \<times> wpa_ie_data) \<Rightarrow> bool" where
  "stage_in b r = (case r of Inl (c, d) \<Rightarrow> c < 0 \<and> ie_data_in b d | Inr (pos, d) \<Rightarrow> pos \<le> length b \<and> ie_data_in b d)"

lemma stage_in_simps [simp]:
  "stage_in b (Inl (c, d)) \<longleftrightarrow> c < 0 \<and> ie_data_in b d"
  "stage_in b (Inr (pos, d)) \<longleftrightarrow> pos \<le> length b \<and> ie_data_in b d"
  by (simp_all add: stage_in_def)

lemma ie_data_in_updates [simp]:
  "ie_data_in b (d\<lparr>wd_proto := x\<rparr>) = ie_data_in b d" "ie_data_in b (d\<lparr>wd_pairwise_cipher := x\<rparr>) = ie_data_in b d"
  "ie_data_in b (d\<lparr>wd_has_pairwise := y\<rparr>) = ie_data_in b d" "ie_data_in b (d\<lparr>wd_group_cipher := x\<rparr>) = ie_data_in b d"
  "ie_data_in b (d\<lparr>wd_has_group := y\<rparr>) = ie_data_in b d" "ie_data_in b (d\<lparr>wd_key_mgmt := x\<rparr>) = ie_data_in b d"
  "ie_data_in b (d\<lparr>wd_capabilities := z\<rparr>) = ie_data_in b d" "ie_data_in b (d\<lparr>wd_mgmt_group_cipher := x\<rparr>) = ie_data_in b d"
  by (simp_all add: ie_data_in_def split: option.split)

lemma ie_data_in_start [simp]: "ie_data_in b rsn_ie_start" "ie_data_in b wpa_ie_start"
  by (simp_all add: ie_data_in_def rsn_ie_start_def wpa_ie_start_def)

lemma next_stage_in:
  assumes "returns (stage_in b) x" "\<And>pos d. pos \<le> length b \<Longrightarrow> ie_data_in b d \<Longrightarrow> returns (stage_in b) (k pos d)"
  shows "returns (stage_in b) (next_stage x k)"
  using assms by (auto simp: next_stage_def returns_iff split: sum.splits prod.splits)

lemma last_stage_in:
  assumes "returns (stage_in b) x"
  shows "returns (\<lambda>r. fst r \<le> 0 \<and> ie_data_in b (snd r)) (last_stage x)"
  using assms by (cases x; cases "the x") (auto simp: last_stage_def)

lemma suite_loop_in: "pos + 4 * n \<le> length b \<Longrightarrow> returns (\<lambda>_. True) (suite_loop f b pos n acc)"
  by (induction f b pos n acc rule: suite_loop.induct) (simp_all add: wp RSN_SELECTOR_LEN_def)

lemma ie_suites_in:
  assumes "pos + 2 \<le> length b"
  shows "returns (\<lambda>r. case r of None \<Rightarrow> True | Some (p, v) \<Rightarrow> p \<le> length b) (ie_suites f b pos)"
proof -
  have "pos + 2 + 4 * n \<le> length b" if "\<not> n > (length b - (pos + 2)) div 4" for n using assms that by simp
  then have "returns (\<lambda>_. pos + 2 + 4 * n \<le> length b) (suite_loop f b (pos + 2) n acc)"
    if "\<not> n > (length b - (pos + 2)) div 4" for n acc
    using suite_loop_in [of "pos + 2" n b f acc] that by (auto simp: returns_iff)
  then show ?thesis using assms unfolding ie_suites_def Let_def RSN_SELECTOR_LEN_def by (simp add: wp)
qed

lemma ie_suites_stage:
  assumes "pos + 2 \<le> length b" "ie_data_in b d" "c < 0"
    "\<And>p v. p \<le> length b \<Longrightarrow> returns (stage_in b) (k p v)"
  shows "returns (stage_in b) (do { r \<leftarrow> ie_suites f b pos; case r of None \<Rightarrow> Some (Inl (c, d)) | Some (p, v) \<Rightarrow> k p v })"
proof -
  obtain r where "ie_suites f b pos = Some r" "case r of None \<Rightarrow> True | Some (p, v) \<Rightarrow> p \<le> length b"
    using ie_suites_in [OF assms(1), of f] by (auto simp: returns_iff)
  then show ?thesis using assms by (auto split: option.splits)
qed

lemma rsn_stages_in:
  assumes "pos \<le> length b" "ie_data_in b d"
  shows "returns (stage_in b) (rsn_ie_group b pos d)" "returns (stage_in b) (rsn_ie_pairwise b pos d)"
    "returns (stage_in b) (rsn_ie_akm b pos d)" "returns (stage_in b) (ie_capabilities b pos d)"
    "returns (stage_in b) (rsn_ie_mgmt b pos d)"
    "returns (stage_in b) (wpa_ie_group b pos d)" "returns (stage_in b) (wpa_ie_pairwise b pos d)"
    "returns (stage_in b) (wpa_ie_akm b pos d)"
proof -
  show "returns (stage_in b) (rsn_ie_group b pos d)" "returns (stage_in b) (ie_capabilities b pos d)"
    "returns (stage_in b) (rsn_ie_mgmt b pos d)" "returns (stage_in b) (wpa_ie_group b pos d)"
    using assms by (auto simp: rsn_ie_group_def ie_capabilities_def rsn_ie_mgmt_def wpa_ie_group_def wp rsn_ie_defs)
  show "returns (stage_in b) (rsn_ie_pairwise b pos d)" "returns (stage_in b) (rsn_ie_akm b pos d)"
    "returns (stage_in b) (wpa_ie_pairwise b pos d)" "returns (stage_in b) (wpa_ie_akm b pos d)"
    using assms by (auto simp: rsn_ie_pairwise_def rsn_ie_akm_def wpa_ie_pairwise_def wpa_ie_akm_def Let_def
        intro!: ie_suites_stage)
qed

lemma rsn_ie_pmkids_in:
  assumes "pos \<le> length b" "ie_data_in b d"
  shows "returns (stage_in b) (rsn_ie_pmkids b pos d)"
proof -
  have "pos + 2 + n * PMKID_LEN \<le> length b" if "\<not> n > (length b - (pos + 2)) div PMKID_LEN" "pos + 2 \<le> length b" for n
    using that by (simp add: PMKID_LEN_def)
  moreover have "ie_data_in b (d\<lparr>wd_num_pmkid := 0\<rparr>)" using assms(2) by (auto simp: ie_data_in_def split: option.splits)
  ultimately show ?thesis using assms unfolding rsn_ie_pmkids_def Let_def
    by (auto simp: wp) (auto simp: ie_data_in_def add.assoc)
qed

lemma rsn_ie_header_in: "returns (stage_in b) (rsn_ie_header b)"
  by (simp add: rsn_ie_header_def rsn_ie_is_osen_def rsn_ie_is_override_def wp rsn_ie_defs)

lemma wpa_ie_header_in: "returns (stage_in b) (wpa_ie_header b)"
  by (auto simp: wpa_ie_header_def wp rsn_ie_defs)

lemma parse_rsn_in: "returns (\<lambda>r. fst r \<le> 0 \<and> ie_data_in b (snd r)) (wpa_parse_wpa_ie_rsn b)"
  unfolding wpa_parse_wpa_ie_rsn_def
  by (intro last_stage_in next_stage_in rsn_stages_in rsn_ie_pmkids_in rsn_ie_header_in)

lemma parse_wpa_in: "returns (\<lambda>r. fst r \<le> 0 \<and> ie_data_in b (snd r)) (wpa_parse_wpa_ie_wpa b)"
  unfolding wpa_parse_wpa_ie_wpa_def by (intro last_stage_in next_stage_in rsn_stages_in wpa_ie_header_in)

text \<open>C33. On every sequence of octets the parser for WPA and RSN elements ends without a read outside the
  element, with a code that is not positive, and the PMKIDs that it reports lie inside the element.\<close>
theorem wpa_ie_parse_in_bounds:
  "returns (\<lambda>(r, d). r \<le> 0 \<and>
     (case wd_pmkid d of None \<Rightarrow> wd_num_pmkid d = 0 | Some p \<Rightarrow> p + wd_num_pmkid d * 16 \<le> length b)) (wpa_parse_wpa_ie b)"
proof -
  have "returns (\<lambda>r. fst r \<le> 0 \<and> ie_data_in b (snd r)) (wpa_parse_wpa_ie b)"
    using parse_rsn_in [of b] parse_wpa_in [of b] by (simp add: wpa_parse_wpa_ie_def wp)
  then show ?thesis by (rule returns_mono) (auto simp: ie_data_in_def PMKID_LEN_def split: option.splits)
qed

section \<open>Suites are read back\<close>

lemma pairwise_cases:
  assumes "wpa_cipher_valid_pairwise c"
  obtains "c = WPA_CIPHER_GCMP_256" | "c = WPA_CIPHER_CCMP_256" | "c = WPA_CIPHER_CCMP" | "c = WPA_CIPHER_GCMP" | "c = WPA_CIPHER_TKIP"
  using assms by (auto simp: wpa_cipher_valid_pairwise_def)

lemma group_suite:
  assumes "wpa_cipher_valid_group c"
  shows "rsn_selector_to_bitfield (wpa_cipher_to_suite WPA_PROTO_RSN c) = c" "wpa_cipher_to_suite WPA_PROTO_RSN c \<noteq> 0"
  using assms unfolding wpa_cipher_valid_group_def wpa_cipher_valid_pairwise_def
  by (elim disjE; simp add: wpa_cipher_to_suite_def rsn_selector_to_bitfield_def cipher_defs proto_defs selector_defs RSN_SELECTOR_def)+

lemma mgmt_suite:
  assumes "wpa_cipher_valid_mgmt_group c"
  shows "rsn_selector_to_bitfield (wpa_cipher_to_suite WPA_PROTO_RSN c) = c"
  using assms unfolding wpa_cipher_valid_mgmt_group_def
  by (elim disjE; simp add: wpa_cipher_to_suite_def rsn_selector_to_bitfield_def cipher_defs proto_defs selector_defs RSN_SELECTOR_def)

lemma akm_suite:
  assumes "rsn_akm_selector k = Some v" "k \<noteq> WPA_KEY_MGMT_CCKM"
  shows "rsn_key_mgmt_to_bitfield v = k"
  using assms by (auto simp: rsn_akm_selector_def rsn_key_mgmt_to_bitfield_def akm_defs selector_defs RSN_SELECTOR_def split: if_splits)

section \<open>The parser on a well-formed element\<close>

lemma get_BE32_at: "length xs = i \<Longrightarrow> WPA_GET_BE32 (xs @ WPA_PUT_BE32 v @ ys) i = Some v"
  using get_put_BE32 by blast

lemma get_LE16_at: "length xs = i \<Longrightarrow> WPA_GET_LE16 (xs @ WPA_PUT_LE16 v @ ys) i = Some v"
  using get_put_LE16 by blast

lemma put_LE16_one: "WPA_PUT_LE16 1 = [1, 0]" "WPA_PUT_LE16 0 = [0, 0]"
  by (simp_all add: WPA_PUT_LE16_def)

lemma one_suite:
  assumes "length xs = i"
  shows "ie_suites f (xs @ [1, 0] @ WPA_PUT_BE32 v @ ys) i = Some (Some (i + 6, f v))"
proof -
  have "WPA_GET_LE16 (xs @ [1, 0] @ WPA_PUT_BE32 v @ ys) i = Some 1"
    using get_LE16_at [OF assms, of 1 "WPA_PUT_BE32 v @ ys"] by (simp add: put_LE16_one)
  moreover have "WPA_GET_BE32 (xs @ [1, 0] @ WPA_PUT_BE32 v @ ys) (i + 2) = Some v"
    using get_BE32_at [of "xs @ [1, 0]" "i + 2" v ys] assms by simp
  ultimately show ?thesis using assms by (simp add: ie_suites_def RSN_SELECTOR_LEN_def)
qed

text \<open>An RSN element with one suite of each kind; the tail is what follows the capabilities.\<close>

definition rsn_element :: "u32 \<Rightarrow> u32 \<Rightarrow> u32 \<Rightarrow> u16 \<Rightarrow> bytes \<Rightarrow> bytes" where
  "rsn_element g p k cap tail =
     [WLAN_EID_RSN, of_nat (20 + length tail)] @ WPA_PUT_LE16 RSN_VERSION @ WPA_PUT_BE32 g @ [1, 0] @ WPA_PUT_BE32 p @
     [1, 0] @ WPA_PUT_BE32 k @ WPA_PUT_LE16 cap @ tail"

lemma rsn_element_length [simp]: "length (rsn_element g p k cap tail) = 22 + length tail"
  by (simp add: rsn_element_def)

lemma version_not_vendor:
  assumes "WPA_GET_BE32 (a # b # 1 # 0 # xs) 2 = Some v"
  shows "v \<noteq> OSEN_IE_VENDOR_TYPE" "v \<noteq> RSNE_OVERRIDE_IE_VENDOR_TYPE" "v \<noteq> RSNE_OVERRIDE_2_IE_VENDOR_TYPE"
proof -
  have "bit v 24" using assms by (auto simp: WPA_GET_BE32_def rd8_def bind_eq_Some_conv bit_simps split: if_splits)
  then show "v \<noteq> OSEN_IE_VENDOR_TYPE" "v \<noteq> RSNE_OVERRIDE_IE_VENDOR_TYPE" "v \<noteq> RSNE_OVERRIDE_2_IE_VENDOR_TYPE"
    by (auto simp: OSEN_IE_VENDOR_TYPE_def RSNE_OVERRIDE_IE_VENDOR_TYPE_def RSNE_OVERRIDE_2_IE_VENDOR_TYPE_def)
qed

lemma u8_of_nat: "n < 256 \<Longrightarrow> unat (of_nat n :: u8) = n"
  by (simp add: unat_of_nat take_bit_nat_eq_self)

lemma rsn_element_header:
  assumes "length tail \<le> 200"
  shows "rsn_ie_header (rsn_element g p k cap tail) = Some (Inr (4, rsn_ie_start))"
proof -
  define b where "b = rsn_element g p k cap tail"
  obtain xs where b: "b = WLAN_EID_RSN # of_nat (20 + length tail) # 1 # 0 # xs"
    by (simp add: b_def rsn_element_def RSN_VERSION_def put_LE16_one)
  have len: "length b = 22 + length tail" "unat (of_nat (20 + length tail) :: u8) = 20 + length tail"
    using assms u8_of_nat [of "20 + length tail"] by (simp_all add: b_def)
  obtain v where v: "WPA_GET_BE32 b 2 = Some v" using len(1) by (cases "WPA_GET_BE32 b 2") auto
  have le: "WPA_GET_LE16 b 2 = Some 1"
    using get_LE16_at [of "[WLAN_EID_RSN, of_nat (20 + length tail)]" 2 1 xs] b by (simp add: put_LE16_one)
  have "rsn_ie_is_osen b = Some False" "rsn_ie_is_override b = Some False"
    using v version_not_vendor [of WLAN_EID_RSN "of_nat (20 + length tail)" xs v] b len(1)
    by (auto simp: rsn_ie_is_osen_def rsn_ie_is_override_def rd8_def)
  moreover have "rd8 b 0 = Some WLAN_EID_RSN" "rd8 b 1 = Some (of_nat (20 + length tail))" by (simp_all add: b rd8_def)
  ultimately show ?thesis using len le
    by (simp add: rsn_ie_header_def rsn_ie_defs flip: b_def)
qed

lemma rsn_element_stages:
  fixes g p k cap tail
  defines "b \<equiv> rsn_element g p k cap tail"
  shows "rsn_ie_group b 4 d = (let d = d\<lparr>wd_group_cipher := rsn_selector_to_bitfield g, wd_has_group := True\<rparr>
      in if wpa_cipher_valid_group (wd_group_cipher d) then Some (Inr (8, d)) else Some (Inl (- 1, d)))"
    "rsn_ie_pairwise b 8 d = (let d = d\<lparr>wd_pairwise_cipher := rsn_selector_to_bitfield p, wd_has_pairwise := True\<rparr>
      in if wd_pairwise_cipher d AND WPA_CIPHER_AES_128_CMAC = 0 then Some (Inr (14, d)) else Some (Inl (- 1, d)))"
    "rsn_ie_akm b 14 d = Some (Inr (20, d\<lparr>wd_key_mgmt := rsn_key_mgmt_to_bitfield k\<rparr>))"
    "ie_capabilities b 20 d = Some (Inr (22, d\<lparr>wd_capabilities := cap\<rparr>))"
proof -
  let ?h = "[WLAN_EID_RSN, of_nat (20 + length tail)] @ WPA_PUT_LE16 RSN_VERSION"
  let ?p = "?h @ WPA_PUT_BE32 g" and ?k = "?h @ WPA_PUT_BE32 g @ [1, 0] @ WPA_PUT_BE32 p"
  let ?c = "?k @ [1, 0] @ WPA_PUT_BE32 k"
  have b: "b = ?h @ WPA_PUT_BE32 g @ ([1, 0] @ WPA_PUT_BE32 p @ [1, 0] @ WPA_PUT_BE32 k @ WPA_PUT_LE16 cap @ tail)"
    "b = ?p @ [1, 0] @ WPA_PUT_BE32 p @ ([1, 0] @ WPA_PUT_BE32 k @ WPA_PUT_LE16 cap @ tail)"
    "b = ?k @ [1, 0] @ WPA_PUT_BE32 k @ (WPA_PUT_LE16 cap @ tail)"
    "b = ?c @ WPA_PUT_LE16 cap @ tail"
    by (simp_all add: b_def rsn_element_def)
  have len: "length b = 22 + length tail" by (simp add: b_def)
  have "WPA_GET_BE32 b 4 = Some g" unfolding b(1) by (rule get_BE32_at) simp
  then show "rsn_ie_group b 4 d = (let d = d\<lparr>wd_group_cipher := rsn_selector_to_bitfield g, wd_has_group := True\<rparr>
      in if wpa_cipher_valid_group (wd_group_cipher d) then Some (Inr (8, d)) else Some (Inl (- 1, d)))"
    using len by (simp add: rsn_ie_group_def Let_def RSN_SELECTOR_LEN_def)
  have "ie_suites f b 8 = Some (Some (14, f p))" for f unfolding b(2) by (subst one_suite) simp_all
  then show "rsn_ie_pairwise b 8 d = (let d = d\<lparr>wd_pairwise_cipher := rsn_selector_to_bitfield p, wd_has_pairwise := True\<rparr>
      in if wd_pairwise_cipher d AND WPA_CIPHER_AES_128_CMAC = 0 then Some (Inr (14, d)) else Some (Inl (- 1, d)))"
    using len by (simp add: rsn_ie_pairwise_def Let_def)
  have "ie_suites f b 14 = Some (Some (20, f k))" for f unfolding b(3) by (subst one_suite) simp_all
  then show "rsn_ie_akm b 14 d = Some (Inr (20, d\<lparr>wd_key_mgmt := rsn_key_mgmt_to_bitfield k\<rparr>))"
    using len by (simp add: rsn_ie_akm_def)
  have "WPA_GET_LE16 b 20 = Some cap" unfolding b(4) by (rule get_LE16_at) simp
  then show "ie_capabilities b 20 d = Some (Inr (22, d\<lparr>wd_capabilities := cap\<rparr>))"
    using len by (simp add: ie_capabilities_def)
qed

text \<open>What follows the capabilities: nothing, a PMKID, a management group cipher, or both.\<close>

definition rsn_tail :: "bytes option \<Rightarrow> u32 option \<Rightarrow> bytes" where
  "rsn_tail pmkid mgmt =
     (case pmkid of None \<Rightarrow> if mgmt = None then [] else [0, 0] | Some p \<Rightarrow> [1, 0] @ p) @
     (case mgmt of None \<Rightarrow> [] | Some m \<Rightarrow> WPA_PUT_BE32 m)"

definition rsn_tail_data :: "bytes option \<Rightarrow> u32 option \<Rightarrow> wpa_ie_data \<Rightarrow> wpa_ie_data" where
  "rsn_tail_data pmkid mgmt d =
     (let d = (case pmkid of None \<Rightarrow> if mgmt = None then d else d\<lparr>wd_pmkid := Some 24, wd_num_pmkid := 0\<rparr>
               | Some p \<Rightarrow> d\<lparr>wd_pmkid := Some 24, wd_num_pmkid := 1\<rparr>)
      in case mgmt of None \<Rightarrow> d | Some m \<Rightarrow> d\<lparr>wd_mgmt_group_cipher := rsn_selector_to_bitfield m\<rparr>)"

lemma next_stage_simps [simp]:
  "next_stage (Some (Inr (pos, d))) k = k pos d" "next_stage (Some (Inl e)) k = Some (Inl e)"
  by (simp_all add: next_stage_def)

lemma last_stage_simps [simp]: "last_stage (Some (Inr (pos, d))) = Some (0, d)" "last_stage (Some (Inl e)) = Some e"
  by (simp_all add: last_stage_def)

lemma rsn_element_tail:
  assumes "\<And>p. pmkid = Some p \<Longrightarrow> length p = 16" "\<And>m. mgmt = Some m \<Longrightarrow> wpa_cipher_valid_mgmt_group (rsn_selector_to_bitfield m)"
  shows "last_stage (next_stage (rsn_ie_pmkids (rsn_element g p k cap (rsn_tail pmkid mgmt)) 22 d)
      (rsn_ie_mgmt (rsn_element g p k cap (rsn_tail pmkid mgmt)))) = Some (0, rsn_tail_data pmkid mgmt d)"
proof -
  define tail where "tail = rsn_tail pmkid mgmt"
  define b where "b = rsn_element g p k cap tail"
  obtain h where b: "b = h @ tail" "length h = 22" by (simp add: b_def rsn_element_def)
  have len: "length b = 22 + length tail" by (simp add: b)
  have "last_stage (next_stage (rsn_ie_pmkids b 22 d) (rsn_ie_mgmt b)) = Some (0, rsn_tail_data pmkid mgmt d)"
  proof (cases pmkid)
    case None
    show ?thesis
    proof (cases mgmt)
      case (Some m)
      have "WPA_GET_LE16 b 22 = Some 0"
        using get_LE16_at [of h 22 0 "WPA_PUT_BE32 m"] b None Some by (simp add: tail_def rsn_tail_def put_LE16_one)
      moreover have "WPA_GET_BE32 b 24 = Some m"
        using get_BE32_at [of "h @ [0, 0]" 24 m "[]"] b None Some by (simp add: tail_def rsn_tail_def)
      ultimately show ?thesis using len None Some assms(2)
        by (simp add: rsn_ie_pmkids_def rsn_ie_mgmt_def rsn_tail_data_def tail_def rsn_tail_def)
    qed (use len None in \<open>simp add: rsn_ie_pmkids_def rsn_ie_mgmt_def rsn_tail_data_def tail_def rsn_tail_def\<close>)
  next
    case (Some q)
    then have q: "length q = 16" using assms(1) by simp
    have n: "WPA_GET_LE16 b 22 = Some 1"
      using get_LE16_at [of h 22 1 "q @ (case mgmt of None \<Rightarrow> [] | Some m \<Rightarrow> WPA_PUT_BE32 m)"] b Some
      by (simp add: tail_def rsn_tail_def put_LE16_one)
    show ?thesis
    proof (cases mgmt)
      case None
      then show ?thesis using len Some q n
        by (simp add: rsn_ie_pmkids_def rsn_ie_mgmt_def rsn_tail_data_def tail_def rsn_tail_def PMKID_LEN_def)
    next
      case (Some m)
      have "WPA_GET_BE32 b 40 = Some m"
        using get_BE32_at [of "h @ [1, 0] @ q" 40 m "[]"] b \<open>pmkid = Some q\<close> Some q by (simp add: tail_def rsn_tail_def)
      then show ?thesis using len \<open>pmkid = Some q\<close> Some q n assms(2)
        by (simp add: rsn_ie_pmkids_def rsn_ie_mgmt_def rsn_tail_data_def tail_def rsn_tail_def PMKID_LEN_def)
    qed
  qed
  then show ?thesis by (simp only: b_def tail_def)
qed

section \<open>The generator\<close>

lemma wrn_skip: "wrn (h @ r) (length h + j) y = map_option ((@) h) (wrn r j y)"
  by (simp add: wrn_def)

lemma wrn_at: "length h = i \<Longrightarrow> wrn (h @ r) i y = (if length y \<le> length r then Some (h @ y @ drop (length y) r) else None)"
  using wrn_skip [of h r 0 y] by (simp add: wrn_def)

definition mgmt_selector :: "u32 \<Rightarrow> u32 option" where
  "mgmt_selector m = (if wpa_cipher_valid_mgmt_group m then Some (wpa_cipher_to_suite WPA_PROTO_RSN m) else None)"

text \<open>The fields behind the capabilities are written exactly when they fit.\<close>

lemma rsn_gen_tail_eq:
  assumes "length h = 20" "\<And>p. pmkid = Some p \<Longrightarrow> length p = 16"
    and tail_def: "tail = rsn_tail pmkid (mgmt_selector m)"
  shows "rsn_gen_tail pmkid m (x # y # h @ r) =
    (if length tail \<le> length r then Some (int (22 + length tail), x # of_nat (20 + length tail) # h @ tail @ drop (length tail) r) else None)"
proof -
  have at: "wrn (x # y # h @ r) 22 z = (if length z \<le> length r then Some ((x # y # h) @ z @ drop (length z) r) else None)" for r z
    using wrn_at [of "x # y # h" 22 r z] assms(1) by simp
  have one: "wrn (x # y # t) (Suc 0) [z] = Some (x # z # t)" for t z by (simp add: wrn_def)
  show ?thesis
  proof (cases pmkid)
    case None
    have at2: "wrn (x # y # h @ 0 # 0 # r) 24 z = (if length z \<le> length r then Some ((x # y # h @ [0, 0]) @ z @ drop (length z) r) else None)"
      for r z using wrn_at [of "x # y # h @ [0, 0]" 24 r z] assms(1) by simp
    show ?thesis using None
      by (auto simp: rsn_gen_tail_def rsn_gen_pmkid_def rsn_gen_mgmt_def tail_def rsn_tail_def mgmt_selector_def at at2 one
          put_LE16_one RSN_SELECTOR_LEN_def)
  next
    case (Some p)
    then have p: "length p = 16" using assms(2) by simp
    have at2: "wrn (x # y # h @ 1 # 0 # r) 24 z = (if length z \<le> length r then Some ((x # y # h @ [1, 0]) @ z @ drop (length z) r) else None)"
      for r z using wrn_at [of "x # y # h @ [1, 0]" 24 r z] assms(1) by simp
    have at3: "wrn (x # y # h @ 1 # 0 # p @ r) 40 z =
        (if length z \<le> length r then Some ((x # y # h @ [1, 0] @ p) @ z @ drop (length z) r) else None)"
      for r z using wrn_at [of "x # y # h @ [1, 0] @ p" 40 r z] assms(1) p by simp
    show ?thesis using Some p
      by (auto simp: rsn_gen_tail_def rsn_gen_pmkid_def rsn_gen_mgmt_def tail_def rsn_tail_def mgmt_selector_def at at2 at3 one
          RSN_SELECTOR_LEN_def PMKID_LEN_def)
  qed
qed

definition own_pmkid :: "wpa_sm \<Rightarrow> bytes option option" where
  "own_pmkid s = (case cur_pmksa s of None \<Rightarrow> Some None | Some c \<Rightarrow> map_option (\<lambda>e. Some (pe_pmkid e)) (pmksa_heap s c))"

lemma own_pmkid_None: "own_pmkid s = Some pmkid \<Longrightarrow> (cur_pmksa s \<noteq> None) = (pmkid \<noteq> None)"
  by (auto simp: own_pmkid_def split: option.splits)

text \<open>The writes before the tail, on a buffer with room for them.\<close>

lemma rsn_gen_head:
  assumes "22 + (if pmkid \<noteq> None then 18 else 0) \<le> length buf" "own_pmkid s = Some pmkid" "wpa_cipher_valid_group grp"
    "wpa_cipher_valid_pairwise pw" "rsn_akm_selector akm = Some k"
  obtains y where
    "wpa_gen_wpa_ie_rsn buf pw grp akm m s = rsn_gen_tail pmkid m (WLAN_EID_RSN # y #
       (WPA_PUT_LE16 RSN_VERSION @ WPA_PUT_BE32 (wpa_cipher_to_suite WPA_PROTO_RSN grp) @ [1, 0] @
        WPA_PUT_BE32 (wpa_cipher_to_suite WPA_PROTO_RSN pw) @ [1, 0] @ WPA_PUT_BE32 k @ WPA_PUT_LE16 (rsn_supp_capab s)) @ drop 22 buf)"
proof -
  have "22 \<le> length buf" using assms(1) by simp
  then obtain a0 a1 a2 a3 a4 a5 a6 a7 a8 a9 a10 a11 a12 a13 a14 a15 a16 a17 a18 a19 a20 a21 r where
    buf: "buf = a0 # a1 # a2 # a3 # a4 # a5 # a6 # a7 # a8 # a9 # a10 # a11 # a12 # a13 # a14 # a15 # a16 # a17 # a18 # a19 # a20 # a21 # r"
    by (auto simp: numeral_eq_Suc Suc_le_length_iff)
  have pw: "wpa_cipher_to_suite WPA_PROTO_RSN pw \<noteq> 0"
    using group_suite(2) [of pw] assms(4) by (simp add: wpa_cipher_valid_group_def)
  have g: "wpa_cipher_to_suite WPA_PROTO_RSN grp \<noteq> 0" by (rule group_suite(2) [OF assms(3)])
  have cur: "(case cur_pmksa s of None \<Rightarrow> Some None | Some c \<Rightarrow> map_option (\<lambda>e. Some (pe_pmkid e)) (pmksa_heap s c)) = Some pmkid"
    using assms(2) by (simp add: own_pmkid_def)
  have len: "\<not> length buf < sizeof_rsn_ie_hdr + RSN_SELECTOR_LEN + 2 + RSN_SELECTOR_LEN + 2 + RSN_SELECTOR_LEN + 2 +
              (if cur_pmksa s \<noteq> None then 2 + PMKID_LEN else 0)"
    using assms(1) own_pmkid_None [OF assms(2)] by (simp add: rsn_ie_defs PMKID_LEN_def split: if_splits)
  show thesis
  proof (rule that [of a1])
    show "wpa_gen_wpa_ie_rsn buf pw grp akm m s = rsn_gen_tail pmkid m (WLAN_EID_RSN # a1 #
       (WPA_PUT_LE16 RSN_VERSION @ WPA_PUT_BE32 (wpa_cipher_to_suite WPA_PROTO_RSN grp) @ [1, 0] @
        WPA_PUT_BE32 (wpa_cipher_to_suite WPA_PROTO_RSN pw) @ [1, 0] @ WPA_PUT_BE32 k @ WPA_PUT_LE16 (rsn_supp_capab s)) @ drop 22 buf)"
      using pw g len cur assms(4,5) unfolding wpa_gen_wpa_ie_rsn_def Let_def
      by (simp only: if_False if_True not_False_eq_True de_Morgan_disj simp_thms option.case)
        (simp add: buf wrn_def WPA_PUT_LE16_def WPA_PUT_BE32_def)
  qed
qed

text \<open>The length of the element that the generator writes.\<close>

definition rsn_ie_len :: "bytes option \<Rightarrow> u32 \<Rightarrow> nat" where
  "rsn_ie_len pmkid m = 22 + (if pmkid \<noteq> None then 18 else 0) +
     (if wpa_cipher_valid_mgmt_group m then 4 + (if pmkid = None then 2 else 0) else 0)"

lemma rsn_tail_length:
  assumes "\<And>p. pmkid = Some p \<Longrightarrow> length p = 16"
  shows "22 + length (rsn_tail pmkid (mgmt_selector m)) = rsn_ie_len pmkid m"
  using assms by (auto simp: rsn_tail_def rsn_ie_len_def mgmt_selector_def split: option.splits)

lemma rsn_gen_eq:
  assumes "22 + (if pmkid \<noteq> None then 18 else 0) \<le> length buf" "own_pmkid s = Some pmkid" "wpa_cipher_valid_group grp"
    "wpa_cipher_valid_pairwise pw" "rsn_akm_selector akm = Some k" "\<And>p. pmkid = Some p \<Longrightarrow> length p = 16"
  shows "wpa_gen_wpa_ie_rsn buf pw grp akm m s =
    (if rsn_ie_len pmkid m \<le> length buf
     then Some (int (rsn_ie_len pmkid m), rsn_element (wpa_cipher_to_suite WPA_PROTO_RSN grp) (wpa_cipher_to_suite WPA_PROTO_RSN pw) k
            (rsn_supp_capab s) (rsn_tail pmkid (mgmt_selector m)) @ drop (rsn_ie_len pmkid m) buf)
     else None)"
proof -
  have len: "rsn_ie_len pmkid m = 22 + length (rsn_tail pmkid (mgmt_selector m))"
    by (rule rsn_tail_length [symmetric]) (rule assms(6))
  have "length (WPA_PUT_LE16 RSN_VERSION @ WPA_PUT_BE32 (wpa_cipher_to_suite WPA_PROTO_RSN grp) @ [1, 0] @
        WPA_PUT_BE32 (wpa_cipher_to_suite WPA_PROTO_RSN pw) @ [1, 0] @ WPA_PUT_BE32 k @ WPA_PUT_LE16 (rsn_supp_capab s)) = 20"
    by simp
  then have tail: "rsn_gen_tail pmkid m (x # y # (WPA_PUT_LE16 RSN_VERSION @ WPA_PUT_BE32 (wpa_cipher_to_suite WPA_PROTO_RSN grp) @ [1, 0] @
        WPA_PUT_BE32 (wpa_cipher_to_suite WPA_PROTO_RSN pw) @ [1, 0] @ WPA_PUT_BE32 k @ WPA_PUT_LE16 (rsn_supp_capab s)) @ r) =
     (let tail = rsn_tail pmkid (mgmt_selector m)
      in if length tail \<le> length r then Some (int (22 + length tail), x # of_nat (20 + length tail) #
           (WPA_PUT_LE16 RSN_VERSION @ WPA_PUT_BE32 (wpa_cipher_to_suite WPA_PROTO_RSN grp) @ [1, 0] @
        WPA_PUT_BE32 (wpa_cipher_to_suite WPA_PROTO_RSN pw) @ [1, 0] @ WPA_PUT_BE32 k @ WPA_PUT_LE16 (rsn_supp_capab s)) @
           tail @ drop (length tail) r) else None)" for x y r
    unfolding Let_def by (rule rsn_gen_tail_eq) (use assms(6) in auto)
  obtain y where y: "wpa_gen_wpa_ie_rsn buf pw grp akm m s = rsn_gen_tail pmkid m (WLAN_EID_RSN # y #
       (WPA_PUT_LE16 RSN_VERSION @ WPA_PUT_BE32 (wpa_cipher_to_suite WPA_PROTO_RSN grp) @ [1, 0] @
        WPA_PUT_BE32 (wpa_cipher_to_suite WPA_PROTO_RSN pw) @ [1, 0] @ WPA_PUT_BE32 k @ WPA_PUT_LE16 (rsn_supp_capab s)) @ drop 22 buf)"
    using rsn_gen_head [OF assms(1-5)] by blast
  have "22 \<le> length buf" using assms(1) by simp
  then show ?thesis unfolding y tail len Let_def by (auto simp: rsn_element_def add.commute)
qed

section \<open>Generating and parsing\<close>


definition demo_ie_sm :: wpa_sm where
  "demo_ie_sm = wpa_sm_init 0 (\<lambda>n. Some n) \<lparr>ctx_network = 1, ctx_bssid = None, ctx_beacon = (False, no_ap), ctx_eapol = False,
     ctx_eapol_key = (\<lambda>_. None), ctx_candidates = False, ctx_preauth_bssid = [], ctx_eapol_version = 2, ctx_random = (\<lambda>_. None)\<rparr>"

lemma demo_ie_pmkid: "own_pmkid demo_ie_sm = Some None"
  by (simp add: own_pmkid_def demo_ie_sm_def wpa_sm_init_def pmksa_cache_init_def)

lemma demo_ie_valid:
  "wpa_cipher_valid_group WPA_CIPHER_CCMP" "wpa_cipher_valid_pairwise WPA_CIPHER_CCMP" "rsn_akm_selector WPA_KEY_MGMT_SAE \<noteq> None"
  "WPA_KEY_MGMT_SAE \<noteq> WPA_KEY_MGMT_CCKM" "rsn_ie_len None WPA_CIPHER_AES_128_CMAC = 28"
  by (simp_all add: wpa_cipher_valid_group_def wpa_cipher_valid_pairwise_def rsn_akm_selector_def akm_defs rsn_ie_len_def
      wpa_cipher_valid_mgmt_group_def)


text \<open>C34. The check of the buffer in \<open>wpa_gen_wpa_ie_rsn()\<close> leaves out the management group cipher: with one, and a buffer
  that passes the check but is shorter than the element, the code writes behind the end of the buffer.\<close>
theorem rsn_ie_check_too_weak:
  assumes "wpa_cipher_valid_group grp" "wpa_cipher_valid_pairwise pw" "rsn_akm_selector akm \<noteq> None"
    "own_pmkid s = Some pmkid" "\<forall>p. pmkid = Some p \<longrightarrow> length p = 16"
    "22 + (if pmkid \<noteq> None then 18 else 0) \<le> length buf" "length buf < rsn_ie_len pmkid m"
  shows "wpa_cipher_valid_mgmt_group m \<and> wpa_gen_wpa_ie_rsn buf pw grp akm m s = None"
proof -
  obtain k where k: "rsn_akm_selector akm = Some k" using assms(3) by blast
  show ?thesis using rsn_gen_eq [OF assms(6,4,1,2) k] assms(5,6,7) by (auto simp: rsn_ie_len_def split: if_splits)
qed

theorem rsn_ie_check_too_weak_witness:
  "wpa_gen_wpa_ie_rsn (replicate 22 0) WPA_CIPHER_CCMP WPA_CIPHER_CCMP WPA_KEY_MGMT_SAE WPA_CIPHER_AES_128_CMAC demo_ie_sm = None"
proof -
  have "length (replicate 22 (0 :: u8)) < rsn_ie_len None WPA_CIPHER_AES_128_CMAC" by (simp add: demo_ie_valid(5))
  from rsn_ie_check_too_weak [OF demo_ie_valid(1-3) demo_ie_pmkid _ _ this] show ?thesis by simp
qed

end
