(* ===== verification/Block_alloc.thy ===== *)
theory Block_alloc
  imports Prelude
begin

text \<open>
  The fixed-size block allocator of the port (\<open>src/utils/block_alloc.[ch]\<close>): a pool is an array of
  \<open>max_block_count\<close> blocks and a bitmap of 32-bit words with one bit per block. The event loop takes its timeouts from
  such a pool.

  An address is a number; the bitmap is read and written with bounds checks. The mutex is the list of the
  results that \<open>OSA_MutexLock\<close> will give, so that a failing lock is covered.
\<close>

section \<open>Model\<close>

record pool_info =
  pool_head :: nat
  bitmap :: "u32 list"
  max_block_count :: nat
  block_size :: nat
  pool_mutex :: "bool list"

definition OSA_MutexLock :: "pool_info \<Rightarrow> bool \<times> pool_info" where
  "OSA_MutexLock b =
     (case pool_mutex b of [] \<Rightarrow> (True, b) | a # as \<Rightarrow> (a, b\<lparr>pool_mutex := as\<rparr>))"

text \<open>\<open>m\<close> is the C \<open>int\<close> \<open>mask\<close>, \<open>n\<close> is \<open>bit\<close>; \<open>mask >>= 1\<close> is the arithmetic shift.\<close>

function ffs2_loop :: "int \<Rightarrow> nat \<Rightarrow> nat" where
  "ffs2_loop m n = (if m = 0 \<or> odd m then n else ffs2_loop (m div 2) (n + 1))"
  by auto
termination
proof (relation "measure (\<lambda>(m, _). nat \<bar>m\<bar>)")
  fix m :: int and n :: nat
  assume "\<not> (m = 0 \<or> odd m)"
  then obtain k where "m = 2 * k" "k \<noteq> 0" by auto
  then show "((m div 2, n + 1), (m, n)) \<in> measure (\<lambda>(m, _). nat \<bar>m\<bar>)" by simp
qed simp

declare ffs2_loop.simps [simp del]

definition ffs2 :: "int \<Rightarrow> nat" where
  "ffs2 m = (if m = 0 then 0 else ffs2_loop m 1)"

text \<open>\<open>get_word\<close> and \<open>get_bit\<close>.\<close>

definition get_word :: "pool_info \<Rightarrow> nat \<Rightarrow> u32 option" where
  "get_word b block_num =
     (if block_num div 32 < length (bitmap b) then Some (bitmap b ! (block_num div 32)) else None)"

definition get_bit :: "nat \<Rightarrow> u32" where
  "get_bit block_num = push_bit (block_num mod 32) 1"

definition ba_bitmap_set_bit :: "pool_info \<Rightarrow> nat \<Rightarrow> pool_info option" where
  "ba_bitmap_set_bit b block_num = do {
     w \<leftarrow> get_word b block_num;
     Some (b\<lparr>bitmap := (bitmap b)[block_num div 32 := w OR get_bit block_num]\<rparr>) }"

definition ba_bitmap_reset_bit :: "pool_info \<Rightarrow> nat \<Rightarrow> pool_info option" where
  "ba_bitmap_reset_bit b block_num = do {
     w \<leftarrow> get_word b block_num;
     Some (b\<lparr>bitmap := (bitmap b)[block_num div 32 := w AND NOT (get_bit block_num)]\<rparr>) }"

definition ba_bitmap_get_bit :: "pool_info \<Rightarrow> nat \<Rightarrow> bool option" where
  "ba_bitmap_get_bit b block_num = do {
     w \<leftarrow> get_word b block_num;
     Some (w AND get_bit block_num \<noteq> 0) }"

text \<open>The result \<open>-1\<close> is \<^const>\<open>None\<close> inside.\<close>

function ba_get_free_block_loop :: "pool_info \<Rightarrow> nat \<Rightarrow> nat option option" where
  "ba_get_free_block_loop b i =
     (if i < max_block_count b
      then do {
        w \<leftarrow> get_word b i;
        let block_num = ffs2 (sint (NOT w));
        if block_num \<noteq> 0 then Some (Some (block_num - 1 + i))
        else ba_get_free_block_loop b (i + 32) }
      else Some None)"
  by auto
termination by (relation "measure (\<lambda>(b, i). max_block_count b - i)") auto

declare ba_get_free_block_loop.simps [simp del]

definition ba_get_free_block :: "pool_info \<Rightarrow> nat option option" where
  "ba_get_free_block b = ba_get_free_block_loop b 0"

function is_bitmap_empty_loop :: "pool_info \<Rightarrow> nat \<Rightarrow> bool option" where
  "is_bitmap_empty_loop b i =
     (if i < max_block_count b
      then do {
        w \<leftarrow> get_word b i;
        if w \<noteq> 0 then Some False else is_bitmap_empty_loop b (i + 32) }
      else Some True)"
  by auto
termination by (relation "measure (\<lambda>(b, i). max_block_count b - i)") auto

declare is_bitmap_empty_loop.simps [simp del]

definition is_bitmap_empty :: "pool_info \<Rightarrow> bool option" where
  "is_bitmap_empty b = is_bitmap_empty_loop b 0"

text \<open>\<open>ba_pool_create\<close>: \<open>z1\<close> and \<open>z2\<close> are the results of the two allocations, \<open>status\<close> that of \<open>OSA_MutexCreate\<close>, \<open>locks\<close> the
  later results of the mutex. A zero \<open>block_size\<close> is a division by zero. The bitmap has the number of blocks rounded up to a
  multiple of 32 bits.\<close>

definition ba_align32 :: "nat \<Rightarrow> nat" where
  "ba_align32 n = unat ((of_nat n + 31 :: u32) AND NOT 31)"

definition ba_pool_create ::
  "bool \<Rightarrow> bool \<Rightarrow> bool \<Rightarrow> bool list \<Rightarrow> nat \<Rightarrow> nat \<Rightarrow> nat \<Rightarrow> pool_info option option" where
  "ba_pool_create z1 status z2 locks bs buf pool_size =
     (if buf = 0 then Some None
      else if buf mod 4 \<noteq> 0 then Some None
      else if bs = 0 then None
      else if pool_size mod bs \<noteq> 0 then Some None
      else if \<not> z1 then Some None
      else if \<not> status then Some None
      else if pool_size div bs = 0 then Some None
      else if \<not> z2 then Some None
      else Some (Some \<lparr>pool_head = buf,
             bitmap = replicate (ba_align32 (pool_size div bs) div 8 div 4) 0,
             max_block_count = pool_size div bs, block_size = bs, pool_mutex = locks\<rparr>))"

text \<open>\<open>ba_pool_delete\<close>: the result and the pool that is left (\<^const>\<open>None\<close> when it was freed).\<close>

definition ba_pool_delete :: "pool_info option \<Rightarrow> (int \<times> pool_info option) option" where
  "ba_pool_delete p =
     (case p of
        None \<Rightarrow> Some (-1, None)
      | Some b \<Rightarrow> do {
          e \<leftarrow> is_bitmap_empty b;
          if e then
            (let (ok, b) = OSA_MutexLock b in
             if \<not> ok then Some (-1, Some b) else Some (0, None))
          else Some (-1, Some b) })"

text \<open>The address 0 is \<open>NULL\<close>.\<close>

definition ba_block_allocate :: "pool_info \<Rightarrow> (nat \<times> pool_info) option" where
  "ba_block_allocate b =
     (let (ok, b) = OSA_MutexLock b in
      if \<not> ok then Some (0, b)
      else do {
        n \<leftarrow> ba_get_free_block b;
        case n of
          None \<Rightarrow> Some (0, b)
        | Some block_num \<Rightarrow>
            if block_num \<ge> max_block_count b then Some (0, b)
            else do {
              b' \<leftarrow> ba_bitmap_set_bit b block_num;
              Some (pool_head b + block_size b * block_num, b') } })"

definition ba_block_release :: "pool_info \<Rightarrow> nat \<Rightarrow> (int \<times> pool_info) option" where
  "ba_block_release b a =
     (if a = 0 \<or> a < pool_head b then Some (-1, b)
      else let diff = a - pool_head b in
      if block_size b = 0 then None
      else if diff mod block_size b \<noteq> 0 then Some (-1, b)
      else let diff = diff div block_size b; (ok, b) = OSA_MutexLock b in
      if \<not> ok then Some (-1, b)
      else do {
        used \<leftarrow> ba_bitmap_get_bit b diff;
        if \<not> used then Some (-1, b)
        else do {
          b' \<leftarrow> ba_bitmap_reset_bit b diff;
          Some (0, b') } })"


section \<open>The bitmap\<close>

text \<open>\<open>ffs2\<close> finds the least bit that is set.\<close>

lemma ffs2_loop_correct:
  "m \<noteq> 0 \<Longrightarrow> \<exists>k. ffs2_loop m n = n + k \<and> bit m k \<and> (\<forall>j<k. \<not> bit m j)"
proof (induction m n rule: ffs2_loop.induct)
  case (1 m n)
  show ?case
  proof (cases "odd m")
    case True
    then show ?thesis by (intro exI [of _ 0]) (simp add: ffs2_loop.simps bit_0)
  next
    case False
    with 1(2) have "m div 2 \<noteq> 0" by (auto elim!: evenE)
    with 1 False obtain k where k: "ffs2_loop (m div 2) (n + 1) = n + 1 + k" "bit (m div 2) k"
        "\<forall>j<k. \<not> bit (m div 2) j" by auto
    have "\<not> bit m j" if "j < Suc k" for j
      using that False k(3) by (cases j) (simp_all add: bit_0 bit_Suc)
    with False 1(2) k show ?thesis
      by (intro exI [of _ "Suc k"]) (simp add: ffs2_loop.simps [of m n] bit_Suc)
  qed
qed

lemma ffs2_not_correct:
  assumes "ffs2 (sint (NOT w)) = n"
  shows "if n = 0 then \<forall>k<32. bit w k else n \<le> 32 \<and> \<not> bit (w :: u32) (n - 1) \<and> (\<forall>j<n - 1. bit w j)"
proof (cases "sint (NOT w) = 0")
  case True
  then have "NOT w = 0" by (metis signed_0 signed_word_eqI)
  then have "w = - 1" by (metis bit.double_compl bit.compl_zero)
  with True assms show ?thesis by (simp add: ffs2_def)
next
  case False
  obtain k where k: "ffs2_loop (sint (NOT w)) 1 = 1 + k" "bit (sint (NOT w)) k"
      "\<forall>j<k. \<not> bit (sint (NOT w)) j"
    using ffs2_loop_correct [OF False] by blast
  have bits: "bit (sint (NOT w)) j \<longleftrightarrow> \<not> bit w (min j 31)" for j
    by (simp add: bit_sint_iff bit_not_iff min_def)
  have "k \<le> 31"
  proof (rule ccontr)
    assume "\<not> k \<le> 31"
    with k(2) k(3) [rule_format, of 31] show False by (simp add: bits min_def)
  qed
  moreover have "n = 1 + k" using k(1) False assms by (simp add: ffs2_def)
  ultimately show ?thesis using k(2,3) by (simp add: bits min_def)
qed

definition used_block :: "pool_info \<Rightarrow> nat \<Rightarrow> bool" where
  "used_block b k \<longleftrightarrow> bit (bitmap b ! (k div 32)) (k mod 32)"

definition used_blocks :: "pool_info \<Rightarrow> nat set" where
  "used_blocks b = {k. k < max_block_count b \<and> used_block b k}"

definition pool_wf :: "pool_info \<Rightarrow> bool" where
  "pool_wf b \<longleftrightarrow>
     pool_head b \<noteq> 0 \<and> 0 < block_size b \<and> 0 < max_block_count b \<and>
     length (bitmap b) = (max_block_count b + 31) div 32 \<and>
     (\<forall>k. used_block b k \<longrightarrow> k div 32 < length (bitmap b) \<longrightarrow> k < max_block_count b)"

definition block_addr :: "pool_info \<Rightarrow> nat \<Rightarrow> nat" where
  "block_addr b k = pool_head b + block_size b * k"

lemma wf_word_in: "pool_wf b \<Longrightarrow> k < max_block_count b \<Longrightarrow> k div 32 < length (bitmap b)"
  by (simp add: pool_wf_def)

lemma get_word_in: "pool_wf b \<Longrightarrow> k < max_block_count b \<Longrightarrow> get_word b k = Some (bitmap b ! (k div 32))"
  by (simp add: get_word_def wf_word_in)

lemma same_block: "(j :: nat) = k \<longleftrightarrow> j div 32 = k div 32 \<and> j mod 32 = k mod 32"
  by (metis div_mult_mod_eq)

lemma get_bit_iff: "bit (get_bit k) j \<longleftrightarrow> j = k mod 32"
  by (auto simp: get_bit_def bit_simps)

lemma used_block_set:
  assumes "k div 32 < length (bitmap b)"
  shows "used_block (b\<lparr>bitmap := (bitmap b)[k div 32 := bitmap b ! (k div 32) OR get_bit k]\<rparr>) j \<longleftrightarrow>
    j = k \<or> used_block b j"
  using assms by (cases "j div 32 = k div 32") (auto simp: used_block_def bit_or_iff get_bit_iff same_block [of j k])

lemma used_block_reset:
  assumes "k div 32 < length (bitmap b)"
  shows "used_block (b\<lparr>bitmap := (bitmap b)[k div 32 := bitmap b ! (k div 32) AND NOT (get_bit k)]\<rparr>) j \<longleftrightarrow>
    j \<noteq> k \<and> used_block b j"
  using assms
  by (cases "j div 32 = k div 32")
    (auto simp: used_block_def bit_and_iff bit_not_iff get_bit_iff same_block [of j k])

lemma and_get_bit: "w AND get_bit k \<noteq> 0 \<longleftrightarrow> bit w (k mod 32)"
  by (simp add: get_bit_def and_exp_eq_0_iff_not_bit flip: push_bit_eq_mult)

section \<open>Searching the bitmap\<close>

lemma ba_get_free_block_loop_correct:
  assumes "pool_wf b" "32 dvd i" "\<forall>j<i. used_block b j"
  shows "returns (\<lambda>r. case r of
      None \<Rightarrow> \<forall>j<max_block_count b. used_block b j
    | Some k \<Rightarrow> k div 32 < length (bitmap b) \<and> \<not> used_block b k \<and> (\<forall>j<k. used_block b j))
    (ba_get_free_block_loop b i)"
  using assms
proof (induction b i rule: ba_get_free_block_loop.induct)
  case (1 b i)
  obtain q where q: "i = 32 * q" using 1 by blast
  show ?case
  proof (cases "i < max_block_count b")
    case True
    define n where "n = ffs2 (sint (NOT (bitmap b ! (i div 32))))"
    note w = ffs2_not_correct [OF n_def [symmetric]]
    have here: "used_block b (i + j) \<longleftrightarrow> bit (bitmap b ! (i div 32)) j" if "j < 32" for j
      using that by (simp add: used_block_def q)
    have below: "used_block b j" if "j < i + m" "m \<le> 32" "\<forall>k<m. bit (bitmap b ! (i div 32)) k" for j m
      using that 1(4) here [of "j - i"] by (cases "j < i") auto
    show ?thesis
    proof (cases "n = 0")
      case True
      with w below [of _ 32] have "\<forall>j<i + 32. used_block b j" by simp
      with 1 \<open>i < max_block_count b\<close> True show ?thesis
        by (subst ba_get_free_block_loop.simps) (simp add: get_word_in n_def [symmetric] flip: n_def)
    next
      case False
      with w have n: "n - 1 < 32" "\<not> bit (bitmap b ! (i div 32)) (n - 1)"
          "\<forall>k<n - 1. bit (bitmap b ! (i div 32)) k" by auto
      then have "\<not> used_block b (n - 1 + i)" "\<forall>j<n - 1 + i. used_block b j"
        using here [of "n - 1"] below [of _ "n - 1"] by (auto simp only: add.commute [of i] less_imp_le)
      moreover have "(n - 1 + i) div 32 < length (bitmap b)"
      proof -
        have "(n - 1 + i) div 32 = i div 32" using n(1) by (simp add: q)
        then show ?thesis using wf_word_in [OF 1(2) True] by simp
      qed
      ultimately show ?thesis using 1 True False
        by (subst ba_get_free_block_loop.simps) (simp add: get_word_in flip: n_def)
    qed
  next
    case False
    with 1 show ?thesis by (subst ba_get_free_block_loop.simps) simp
  qed
qed

lemma is_bitmap_empty_loop_correct:
  assumes "pool_wf b" "32 dvd i" "\<forall>j<i. \<not> used_block b j"
  shows "is_bitmap_empty_loop b i = Some (used_blocks b = {})"
  using assms
proof (induction b i rule: is_bitmap_empty_loop.induct)
  case (1 b i)
  obtain q where q: "i = 32 * q" using 1 by blast
  show ?case
  proof (cases "i < max_block_count b")
    case True
    have here: "used_block b (i + j) \<longleftrightarrow> bit (bitmap b ! (i div 32)) j" if "j < 32" for j
      using that by (simp add: used_block_def q)
    show ?thesis
    proof (cases "bitmap b ! (i div 32) = 0")
      case True
      have "\<not> used_block b j" if "j < i + 32" for j
        using that 1(4) here [of "j - i"] True by (cases "j < i") auto
      with 1 \<open>i < max_block_count b\<close> True show ?thesis
        by (subst is_bitmap_empty_loop.simps) (simp add: get_word_in)
    next
      case False
      then obtain j where j: "j < 32" "bit (bitmap b ! (i div 32)) j"
        using bit_word_eqI [of "bitmap b ! (i div 32)" 0] by auto
      have "(i + j) div 32 < length (bitmap b)"
        using j wf_word_in [OF 1(2) True] by (simp add: q)
      with j here [of j] 1(2) have "i + j \<in> used_blocks b"
        by (simp add: used_blocks_def pool_wf_def)
      with 1 True False show ?thesis
        by (subst is_bitmap_empty_loop.simps) (auto simp: get_word_in)
    qed
  next
    case False
    with 1 show ?thesis
      by (subst is_bitmap_empty_loop.simps) (auto simp: used_blocks_def)
  qed
qed

section \<open>The operations\<close>

text \<open>The parts of a pool that no operation changes.\<close>

definition same_pool :: "pool_info \<Rightarrow> pool_info \<Rightarrow> bool" where
  "same_pool b c \<longleftrightarrow>
     pool_head c = pool_head b \<and> block_size c = block_size b \<and> max_block_count c = max_block_count b"

lemma lock_pool [simp]:
  "bitmap (snd (OSA_MutexLock b)) = bitmap b" "pool_head (snd (OSA_MutexLock b)) = pool_head b"
  "block_size (snd (OSA_MutexLock b)) = block_size b"
  "max_block_count (snd (OSA_MutexLock b)) = max_block_count b"
  by (simp_all add: OSA_MutexLock_def split: list.split)

lemma lock_inv [simp]:
  "pool_wf (snd (OSA_MutexLock b)) = pool_wf b" "same_pool b (snd (OSA_MutexLock b))"
  "used_block (snd (OSA_MutexLock b)) = used_block b"
  "used_blocks (snd (OSA_MutexLock b)) = used_blocks b"
  by (simp_all add: pool_wf_def same_pool_def used_block_def used_blocks_def fun_eq_iff)

lemma same_pool_refl [simp]: "same_pool b b"
  by (simp add: same_pool_def)

lemma block_addr_same: "same_pool b c \<Longrightarrow> block_addr c k = block_addr b k"
  by (simp add: same_pool_def block_addr_def)

lemma block_addr_inject: "pool_wf b \<Longrightarrow> block_addr b j = block_addr b k \<longleftrightarrow> j = k"
  by (simp add: block_addr_def pool_wf_def)

lemma block_addr_nonzero [simp]: "pool_wf b \<Longrightarrow> block_addr b k \<noteq> 0"
  by (simp add: block_addr_def pool_wf_def)

lemma pool_wf_update:
  assumes "pool_wf b" "\<And>j. used_block (b\<lparr>bitmap := (bitmap b)[i := w]\<rparr>) j \<Longrightarrow> j < max_block_count b \<or> used_block b j"
  shows "pool_wf (b\<lparr>bitmap := (bitmap b)[i := w]\<rparr>)"
  using assms(1) assms(2) [simplified] by (simp add: pool_wf_def, metis)

lemma set_bit_correct:
  assumes "pool_wf b" "k < max_block_count b"
  shows "returns (\<lambda>c. pool_wf c \<and> same_pool b c \<and> used_blocks c = insert k (used_blocks b))
    (ba_bitmap_set_bit b k)"
  using assms
  by (auto simp: ba_bitmap_set_bit_def get_word_in same_pool_def used_blocks_def
      used_block_set wf_word_in intro!: pool_wf_update)

lemma reset_bit_correct:
  assumes "pool_wf b" "k < max_block_count b"
  shows "returns (\<lambda>c. pool_wf c \<and> same_pool b c \<and> used_blocks c = used_blocks b - {k})
    (ba_bitmap_reset_bit b k)"
  using assms
  by (auto simp: ba_bitmap_reset_bit_def get_word_in same_pool_def used_blocks_def
      used_block_reset wf_word_in intro!: pool_wf_update)

lemma get_bit_correct:
  assumes "pool_wf b" "k < max_block_count b"
  shows "ba_bitmap_get_bit b k = Some (k \<in> used_blocks b)"
  using assms by (simp add: ba_bitmap_get_bit_def get_word_in and_get_bit used_blocks_def used_block_def)

lemma free_block_correct:
  assumes "pool_wf b"
  shows "returns (\<lambda>r. case r of
      None \<Rightarrow> \<forall>k<max_block_count b. k \<in> used_blocks b
    | Some k \<Rightarrow> if k < max_block_count b then k \<notin> used_blocks b \<and> (\<forall>j<k. j \<in> used_blocks b)
               else \<forall>k<max_block_count b. k \<in> used_blocks b) (ba_get_free_block b)"
  using ba_get_free_block_loop_correct [OF assms, of 0, simplified]
  by (auto simp: ba_get_free_block_def used_blocks_def elim!: returns_mono split: option.splits)

lemma ba_block_allocate_correct:
  assumes "pool_wf b"
  shows "returns (\<lambda>(a, c). pool_wf c \<and> same_pool b c \<and>
      (if a = 0
       then (fst (OSA_MutexLock b) \<longrightarrow> (\<forall>k<max_block_count b. k \<in> used_blocks b)) \<and> used_blocks c = used_blocks b
       else fst (OSA_MutexLock b) \<and> (\<exists>k<max_block_count b. k \<notin> used_blocks b \<and> (\<forall>j<k. j \<in> used_blocks b) \<and>
              a = block_addr b k \<and> used_blocks c = insert k (used_blocks b))))
    (ba_block_allocate b)"
proof -
  obtain ok c where lock: "OSA_MutexLock b = (ok, c)" by force
  with assms have c: "pool_wf c" "same_pool b c" "used_blocks c = used_blocks b"
    using lock_inv [of b] by simp_all
  then have sp: "pool_head c = pool_head b" "block_size c = block_size b" "max_block_count c = max_block_count b"
    by (simp_all add: same_pool_def)
  obtain r where r: "ba_get_free_block c = Some r"
    and spec: "case r of None \<Rightarrow> \<forall>k<max_block_count b. k \<in> used_blocks b
      | Some k \<Rightarrow> if k < max_block_count b then k \<notin> used_blocks b \<and> (\<forall>j<k. j \<in> used_blocks b)
                 else \<forall>k<max_block_count b. k \<in> used_blocks b"
    using free_block_correct [OF c(1)] unfolding c(3) sp(3) by (auto simp: returns_iff)
  show ?thesis
  proof (cases "ok \<and> (\<exists>k<max_block_count b. r = Some k)")
    case True
    then obtain k where k: "k < max_block_count b" "r = Some k" by blast
    have addr: "pool_head b + block_size b * k = block_addr b k" by (simp add: block_addr_def)
    have "returns (\<lambda>d. pool_wf d \<and> same_pool b d \<and> used_blocks d = insert k (used_blocks b)) (ba_bitmap_set_bit c k)"
      using set_bit_correct [OF c(1), of k] c k(1) by (auto simp: same_pool_def elim!: returns_mono)
    with True k spec assms show ?thesis
      by (auto simp: ba_block_allocate_def lock r sp addr wp elim!: returns_mono)
  next
    case False
    then consider "\<not> ok" | "r = None" | k where "r = Some k" "max_block_count b \<le> k"
      by (cases r) (auto simp: not_less [symmetric])
    then show ?thesis using lock r spec c sp by cases (auto simp: ba_block_allocate_def)
  qed
qed

lemma ba_block_release_correct:
  assumes "pool_wf b" "k < max_block_count b"
  shows "returns (\<lambda>(r, c). pool_wf c \<and> same_pool b c \<and>
      (if fst (OSA_MutexLock b) \<and> k \<in> used_blocks b
       then r = 0 \<and> used_blocks c = used_blocks b - {k} else r = -1 \<and> used_blocks c = used_blocks b))
    (ba_block_release b (block_addr b k))"
proof -
  obtain ok c where lock: "OSA_MutexLock b = (ok, c)" by force
  with assms have c: "pool_wf c" "same_pool b c" "used_blocks c = used_blocks b"
    using lock_inv [of b] by simp_all
  then have k: "k < max_block_count c" using assms by (simp add: same_pool_def)
  have bs: "0 < block_size b" "pool_head b \<noteq> 0" using assms by (simp_all add: pool_wf_def)
  have "returns (\<lambda>d. pool_wf d \<and> same_pool b d \<and> used_blocks d = used_blocks b - {k}) (ba_bitmap_reset_bit c k)"
    using reset_bit_correct [OF c(1) k] c by (auto simp: same_pool_def elim!: returns_mono)
  with assms c k bs show ?thesis
    by (auto simp: ba_block_release_def lock get_bit_correct block_addr_def wp elim!: returns_mono)
qed

lemma ba_block_release_total:
  assumes "pool_wf b" "a < block_addr b (max_block_count b)"
  shows "returns (\<lambda>(r, c). pool_wf c \<and> same_pool b c) (ba_block_release b a)"
proof (cases "a < pool_head b \<or> (a - pool_head b) mod block_size b \<noteq> 0")
  case True
  with assms show ?thesis by (auto simp: ba_block_release_def pool_wf_def)
next
  case False
  define k where "k = (a - pool_head b) div block_size b"
  from False have "block_size b * k = a - pool_head b" by (simp add: k_def mult_div_mod_eq mod_0_imp_dvd)
  with False have a: "a = block_addr b k" by (simp add: block_addr_def)
  with assms have "k < max_block_count b" by (simp add: block_addr_def)
  from ba_block_release_correct [OF assms(1) this] show ?thesis
    by (auto simp: a elim!: returns_mono split: if_splits)
qed

section \<open>The life of a pool\<close>

lemma ba_align32_words:
  assumes "n + 31 < 2 ^ 32"
  shows "ba_align32 n div 8 div 4 = (n + 31) div 32"
proof -
  let ?w = "of_nat n + 31 :: u32"
  have m: "(31 :: u32) = mask 5" by (simp add: mask_eq_exp_minus_1)
  have "drop_bit 5 (?w AND NOT (mask 5)) = drop_bit 5 ?w"
    by (rule bit_word_eqI)
      (auto simp: bit_drop_bit_eq bit_and_iff bit_not_iff bit_mask_iff dest: bit_imp_le_length)
  then have "ba_align32 n div 2 ^ 5 = unat ?w div 2 ^ 5"
    unfolding ba_align32_def m [symmetric] by (metis unat_drop_bit_eq drop_bit_eq_div)
  moreover have "unat ?w = n + 31"
  proof -
    have "?w = of_nat (n + 31)" by simp
    then show ?thesis using assms by (simp only: unsigned_of_nat) (simp add: take_bit_eq_mod)
  qed
  ultimately show ?thesis by (simp add: div_mult2_eq [symmetric])
qed

lemma ba_pool_create_wf:
  assumes "ba_pool_create z1 status z2 locks bs buf pool_size = Some (Some b)" "pool_size div bs + 31 < 2 ^ 32"
  shows "pool_wf b" "used_blocks b = {}" "pool_head b = buf" "block_size b = bs" "max_block_count b = pool_size div bs"
  using assms
  by (auto simp: ba_pool_create_def pool_wf_def used_blocks_def used_block_def ba_align32_words split: if_splits)

text \<open>The calls of a client. It may release any address below the end of the pool, also one that is not allocated.\<close>

datatype pool_op = Allocate | Release nat

fun pool_step :: "pool_info option \<Rightarrow> pool_op \<Rightarrow> pool_info option" where
  "pool_step p Allocate = do { b \<leftarrow> p; (_, b) \<leftarrow> ba_block_allocate b; Some b }"
| "pool_step p (Release a) = do { b \<leftarrow> p; (_, b) \<leftarrow> ba_block_release b a; Some b }"

fun pool_op_ok :: "nat \<Rightarrow> pool_op \<Rightarrow> bool" where
  "pool_op_ok e Allocate = True"
| "pool_op_ok e (Release a) = (a < e)"

definition pool_run_inv :: "pool_info \<Rightarrow> pool_info option \<Rightarrow> bool" where
  "pool_run_inv b = returns (\<lambda>c. pool_wf c \<and> same_pool b c)"

interpretation pool: event_machine pool_step "pool_op_ok (block_addr b (max_block_count b))" "pool_run_inv b"
proof (unfold_locales)
  fix p e
  assume "pool_run_inv b p" and ok: "pool_op_ok (block_addr b (max_block_count b)) e"
  then obtain c where p: "p = Some c" and wf: "pool_wf c" and same: "same_pool b c"
    by (auto simp: pool_run_inv_def returns_iff)
  have trans: "same_pool c d \<Longrightarrow> same_pool b d" for d using same by (simp add: same_pool_def)
  show "pool_run_inv b (pool_step p e)"
  proof (cases e)
    case Allocate
    with ba_block_allocate_correct [OF wf] p trans show ?thesis
      by (auto simp: pool_run_inv_def wp elim!: returns_mono)
  next
    case (Release a)
    with ok same have a: "a < block_addr c (max_block_count c)"
      by (simp add: same_pool_def block_addr_def)
    with ba_block_release_total [OF wf a] Release p trans show ?thesis
      by (auto simp: pool_run_inv_def wp elim!: returns_mono)
  qed
qed

text \<open>C38. A pool that was created for fewer than \<open>2 ^ 32 - 31\<close> blocks stays well formed whatever its client does: after every
  sequence of allocations and of releases of addresses below its end, also of addresses that are not block addresses or not
  allocated, with any result of the mutex, no operation has read or written outside the bitmap, the bitmap has one word for
  every 32 blocks, no bit behind the last block is set, and head, block size and number of blocks are those of the creation.\<close>

theorem pool_well_formed:
  assumes "ba_pool_create z1 status z2 locks bs buf pool_size = Some (Some b)"
    and "pool_size div bs + 31 < 2 ^ 32"
    and "list_all (pool_op_ok (buf + pool_size)) ops"
  shows "returns (\<lambda>c. pool_wf c \<and> pool_head c = buf \<and> block_size c = bs \<and> max_block_count c = pool_size div bs)
    (foldl pool_step (Some b) ops)"
proof -
  note b = ba_pool_create_wf [OF assms(1,2)]
  have "bs dvd pool_size" using assms(1) by (auto simp: ba_pool_create_def split: if_splits)
  then have e: "block_addr b (max_block_count b) = buf + pool_size"
    by (simp add: block_addr_def b)
  have "pool_run_inv b (foldl pool_step (Some b) ops)"
    by (rule pool.run_inv) (simp_all add: pool_run_inv_def b(1) e assms(3))
  then show ?thesis
    by (auto simp: pool_run_inv_def same_pool_def b elim!: returns_mono)
qed

theorem pool_well_formed_witness:
  "ba_pool_create True True True [True, False] 8 4 16 = Some (Some \<lparr>pool_head = 4, bitmap = [0], max_block_count = 2,
     block_size = 8, pool_mutex = [True, False]\<rparr>) \<and>
   returns (\<lambda>c. pool_wf c \<and> pool_head c = 4 \<and> block_size c = 8 \<and> max_block_count c = 16 div 8)
     (foldl pool_step (Some \<lparr>pool_head = 4, bitmap = [0], max_block_count = 2, block_size = 8, pool_mutex = [True, False]\<rparr>)
       [Allocate, Allocate, Allocate, Release 4, Release 4, Release 7])"
proof -
  have c: "ba_pool_create True True True [True, False] 8 4 16 = Some (Some \<lparr>pool_head = 4, bitmap = [0], max_block_count = 2,
      block_size = 8, pool_mutex = [True, False]\<rparr>)"
    by (simp add: ba_pool_create_def ba_align32_words del: div_mult2_eq)
  show ?thesis using pool_well_formed [OF c, of "[Allocate, Allocate, Allocate, Release 4, Release 4, Release 7]"] c by simp
qed

end
