(* ===== verification/Eloop.thy ===== *)
theory Eloop
  imports Block_alloc
begin

text \<open>
  The event loop of the port: the clock of \<open>src/utils/os_freertos.c\<close>, the time functions of \<open>src/utils/os.h\<close> and
  \<open>src/utils/eloop_freertos.c\<close>. The timeouts form a linked list of blocks from the pool of \<open>Block_alloc\<close>: the
  model keeps the blocks in a memory that maps an address to a \<open>struct eloop_timeout\<close>, with its \<open>next\<close> pointer. A block that
  is not allocated has no contents, so that a use after free is \<^const>\<open>None\<close>; loops along the list are partial functions, so that a
  cyclic list is \<^const>\<open>None\<close> as well.

  A handler is code of another component: a parameter that gives, for the state it is called in and its
  arguments, the calls of the event loop it makes. The kernel calls are effects in a trace; the tick counter is part of the state.
\<close>

section \<open>Time\<close>

record os_time =
  tsec :: u64
  tusec :: u64

text \<open>\<open>os_time_before\<close> and \<open>os_reltime_before\<close> are the same function.\<close>

definition os_time_before :: "os_time \<Rightarrow> os_time \<Rightarrow> bool" where
  "os_time_before a b \<longleftrightarrow> tsec a < tsec b \<or> tsec a = tsec b \<and> tusec a < tusec b"

definition os_time_sub :: "os_time \<Rightarrow> os_time \<Rightarrow> os_time" where
  "os_time_sub a b =
     (let s = tsec a - tsec b; us = tusec a - tusec b in
      if us > 999999 then \<lparr>tsec = s - 1, tusec = us + 1000000\<rparr> else \<lparr>tsec = s, tusec = us\<rparr>)"

definition os_reltime_sub :: "os_time \<Rightarrow> os_time \<Rightarrow> os_time" where
  "os_reltime_sub a b =
     (let s = tsec a - tsec b in
      if tusec a < tusec b then \<lparr>tsec = s - 1, tusec = tusec a - tusec b + 1000000\<rparr>
      else \<lparr>tsec = s, tusec = tusec a - tusec b\<rparr>)"

text \<open>\<open>TICKS_TO_MSEC\<close> and \<open>os_get_time\<close>; \<open>hz\<close> is \<open>configTICK_RATE_HZ\<close>, \<open>tick\<close> the 64-bit tick count.\<close>

definition TICKS_TO_MSEC :: "u64 \<Rightarrow> u64 \<Rightarrow> u32" where
  "TICKS_TO_MSEC hz tick = ucast (tick * 1000 div hz)"

definition os_get_time :: "u64 \<Rightarrow> u64 \<Rightarrow> os_time" where
  "os_get_time hz tick =
     (let msecs = ucast (TICKS_TO_MSEC hz tick) :: u64 in \<lparr>tsec = msecs div 1000, tusec = 0\<rparr>)"

section \<open>State\<close>

type_synonym addr = nat

record eloop_timeout =
  et_time :: os_time
  et_eloop_data :: addr
  et_user_data :: addr
  et_handler :: addr
  et_next :: addr

record eloop_sock =
  sk_sock :: int
  sk_eloop_data :: addr
  sk_user_data :: addr
  sk_handler :: addr

record eloop_sock_table =
  st_count :: nat
  st_table :: "eloop_sock list option"
  st_changed :: bool

record eloop_signal =
  sig_sig :: int
  sig_user_data :: addr
  sig_handler :: addr
  sig_signaled :: bool

datatype eloop_effect =
    Dummy_event
  | Wait "u32 option"
  | Timeout_handler addr addr addr
  | Supplicant_event

text \<open>\<open>struct eloop_data\<close> with the other static variables of the file, the contents of the allocated blocks, the tick
  counter and the trace.\<close>

record eloop_data =
  max_sock :: int
  readers :: eloop_sock_table
  writers :: eloop_sock_table
  exceptions :: eloop_sock_table
  el_timeout :: addr
  signal_count :: nat
  el_signals :: "eloop_signal list option"
  terminate :: bool
  eloop_init_done :: bool
  eloop_pool :: "pool_info option"
  eloop_timeout_pool_buf :: addr
  el_mem :: "addr \<rightharpoonup> eloop_timeout"
  el_hz :: u64
  el_ticks :: u64
  el_trace :: "eloop_effect list"

abbreviation el_now :: "eloop_data \<Rightarrow> os_time" where
  "el_now s \<equiv> os_get_time (el_hz s) (el_ticks s)"

definition el_emit :: "eloop_effect \<Rightarrow> eloop_data \<Rightarrow> eloop_data" where
  "el_emit e s = s\<lparr>el_trace := el_trace s @ [e]\<rparr>"

abbreviation (input) MAX_ELOOP_TIMEOUTS :: nat where
  "MAX_ELOOP_TIMEOUTS \<equiv> 100"

abbreviation (input) sizeof_eloop_timeout :: nat where
  "sizeof_eloop_timeout \<equiv> 32"

abbreviation (input) ELOOP_ALL_CTX :: addr where
  "ELOOP_ALL_CTX \<equiv> 4294967295"

definition empty_table :: eloop_sock_table where
  "empty_table = \<lparr>st_count = 0, st_table = None, st_changed = False\<rparr>"

definition zero_timeout :: eloop_timeout where
  "zero_timeout = \<lparr>et_time = \<lparr>tsec = 0, tusec = 0\<rparr>, et_eloop_data = 0, et_user_data = 0, et_handler = 0, et_next = 0\<rparr>"

section \<open>Allocation\<close>

definition eloop_alloc_deinit :: "eloop_data \<Rightarrow> eloop_data option" where
  "eloop_alloc_deinit s = do {
     _ \<leftarrow> ba_pool_delete (eloop_pool s);
     Some (s\<lparr>eloop_pool := None, eloop_timeout_pool_buf := 0\<rparr>) }"

text \<open>\<open>buf\<close> is the result of the allocation of the blocks (0 when it fails), \<open>z1\<close>, \<open>status\<close> and \<open>z2\<close> are the results inside
  \<open>ba_pool_create\<close>.\<close>

definition eloop_alloc_init :: "addr \<Rightarrow> bool \<Rightarrow> bool \<Rightarrow> bool \<Rightarrow> bool list \<Rightarrow> eloop_data \<Rightarrow> (int \<times> eloop_data) option" where
  "eloop_alloc_init buf z1 status z2 locks s =
     (let s = s\<lparr>eloop_timeout_pool_buf := buf\<rparr> in
      if buf = 0 then do { s \<leftarrow> eloop_alloc_deinit s; Some (-1, s) }
      else do {
        p \<leftarrow> ba_pool_create z1 status z2 locks sizeof_eloop_timeout buf (MAX_ELOOP_TIMEOUTS * sizeof_eloop_timeout);
        let s = s\<lparr>eloop_pool := p\<rparr>;
        if p = None then do { s \<leftarrow> eloop_alloc_deinit s; Some (-1, s) }
        else Some (0, s) })"

definition eloop_init :: "addr \<Rightarrow> bool \<Rightarrow> bool \<Rightarrow> bool \<Rightarrow> bool list \<Rightarrow> eloop_data \<Rightarrow> (int \<times> eloop_data) option" where
  "eloop_init buf z1 status z2 locks s =
     (if eloop_init_done s then Some (0, s)
      else do {
        let s = s\<lparr>max_sock := 0, readers := empty_table, writers := empty_table, exceptions := empty_table,
          el_timeout := 0, signal_count := 0, el_signals := None, terminate := False\<rparr>;
        (r, s) \<leftarrow> eloop_alloc_init buf z1 status z2 locks s;
        if r < 0 then Some (-1, s) else Some (0, s\<lparr>eloop_init_done := True\<rparr>) })"

definition eloop_alloc :: "eloop_data \<Rightarrow> (addr \<times> eloop_data) option" where
  "eloop_alloc s =
     (case eloop_pool s of
        None \<Rightarrow> Some (0, s)
      | Some b \<Rightarrow> do {
          (p, b) \<leftarrow> ba_block_allocate b;
          let s = s\<lparr>eloop_pool := Some b\<rparr>;
          if p \<noteq> 0 then Some (p, s\<lparr>el_mem := (el_mem s)(p \<mapsto> zero_timeout)\<rparr>) else Some (p, s) })"

definition eloop_free :: "addr \<Rightarrow> eloop_data \<Rightarrow> eloop_data option" where
  "eloop_free et s =
     (case eloop_pool s of
        None \<Rightarrow> Some s
      | Some b \<Rightarrow> do {
          (_, b) \<leftarrow> ba_block_release b et;
          Some (s\<lparr>eloop_pool := Some b, el_mem := (el_mem s)(et := None)\<rparr>) })"

definition eloop_remove_timeout :: "addr \<Rightarrow> eloop_data \<Rightarrow> eloop_data option" where
  "eloop_remove_timeout p s = eloop_free p s"

section \<open>Sockets and signals\<close>

text \<open>\<open>ok\<close> is the result of \<open>os_realloc\<close>; its new last element is written before anything reads it. \<open>ENOMEM\<close> is 12.\<close>

definition eloop_sock_table_add_sock ::
  "bool \<Rightarrow> eloop_sock_table \<Rightarrow> eloop_sock \<Rightarrow> int \<Rightarrow> int \<times> eloop_sock_table \<times> int" where
  "eloop_sock_table_add_sock ok t k mx =
     (if \<not> ok then (-12, t, mx)
      else (0, t\<lparr>st_table := Some (take (st_count t) (case st_table t of None \<Rightarrow> [] | Some xs \<Rightarrow> xs) @ [k]),
                st_count := st_count t + 1, st_changed := True\<rparr>,
            if sk_sock k > mx then sk_sock k else mx))"

fun sock_index :: "eloop_sock list \<Rightarrow> int \<Rightarrow> nat" where
  "sock_index [] sock = 0"
| "sock_index (x # xs) sock = (if sk_sock x = sock then 0 else Suc (sock_index xs sock))"

definition eloop_sock_table_remove_sock :: "eloop_sock_table \<Rightarrow> int \<Rightarrow> eloop_sock_table option" where
  "eloop_sock_table_remove_sock t sock =
     (case st_table t of
        None \<Rightarrow> Some t
      | Some xs \<Rightarrow>
          if st_count t = 0 then Some t
          else if length xs < st_count t then None
          else let i = sock_index (take (st_count t) xs) sock in
          if i = st_count t then Some t
          else let ys = (if i \<noteq> st_count t - 1
                     then take i xs @ take (st_count t - i - 1) (drop (i + 1) xs) @ drop (st_count t - 1) xs else xs) in
          Some (t\<lparr>st_table := Some ys, st_count := st_count t - 1, st_changed := True\<rparr>))"

datatype eloop_event_type = EVENT_TYPE_READ | EVENT_TYPE_WRITE | EVENT_TYPE_EXCEPTION

fun eloop_get_sock_table :: "eloop_event_type \<Rightarrow> eloop_data \<Rightarrow> eloop_sock_table" where
  "eloop_get_sock_table EVENT_TYPE_READ s = readers s"
| "eloop_get_sock_table EVENT_TYPE_WRITE s = writers s"
| "eloop_get_sock_table EVENT_TYPE_EXCEPTION s = exceptions s"

fun eloop_put_sock_table :: "eloop_event_type \<Rightarrow> eloop_sock_table \<Rightarrow> eloop_data \<Rightarrow> eloop_data" where
  "eloop_put_sock_table EVENT_TYPE_READ t s = s\<lparr>readers := t\<rparr>"
| "eloop_put_sock_table EVENT_TYPE_WRITE t s = s\<lparr>writers := t\<rparr>"
| "eloop_put_sock_table EVENT_TYPE_EXCEPTION t s = s\<lparr>exceptions := t\<rparr>"

definition eloop_register_sock ::
  "bool \<Rightarrow> int \<Rightarrow> eloop_event_type \<Rightarrow> addr \<Rightarrow> addr \<Rightarrow> addr \<Rightarrow> eloop_data \<Rightarrow> int \<times> eloop_data" where
  "eloop_register_sock ok sock type handler ed ud s =
     (let k = \<lparr>sk_sock = sock, sk_eloop_data = ed, sk_user_data = ud, sk_handler = handler\<rparr>;
          (r, t, mx) = eloop_sock_table_add_sock ok (eloop_get_sock_table type s) k (max_sock s) in
      (r, (eloop_put_sock_table type t s)\<lparr>max_sock := mx\<rparr>))"

definition eloop_unregister_sock :: "int \<Rightarrow> eloop_event_type \<Rightarrow> eloop_data \<Rightarrow> eloop_data option" where
  "eloop_unregister_sock sock type s = do {
     t \<leftarrow> eloop_sock_table_remove_sock (eloop_get_sock_table type s) sock;
     Some (eloop_put_sock_table type t s) }"

definition eloop_register_read_sock ::
  "bool \<Rightarrow> int \<Rightarrow> addr \<Rightarrow> addr \<Rightarrow> addr \<Rightarrow> eloop_data \<Rightarrow> int \<times> eloop_data" where
  "eloop_register_read_sock ok sock handler ed ud s =
     eloop_register_sock ok sock EVENT_TYPE_READ handler ed ud s"

definition eloop_unregister_read_sock :: "int \<Rightarrow> eloop_data \<Rightarrow> eloop_data option" where
  "eloop_unregister_read_sock sock s = eloop_unregister_sock sock EVENT_TYPE_READ s"

definition eloop_register_signal :: "bool \<Rightarrow> int \<Rightarrow> addr \<Rightarrow> addr \<Rightarrow> eloop_data \<Rightarrow> int \<times> eloop_data" where
  "eloop_register_signal ok sig handler ud s =
     (if \<not> ok then (-1, s)
      else (0, s\<lparr>el_signals := Some (take (signal_count s) (case el_signals s of None \<Rightarrow> [] | Some xs \<Rightarrow> xs) @
                   [\<lparr>sig_sig = sig, sig_user_data = ud, sig_handler = handler, sig_signaled = False\<rparr>]),
                 signal_count := signal_count s + 1\<rparr>))"

section \<open>Timeouts\<close>

function time_normalise :: "os_time \<Rightarrow> os_time" where
  "time_normalise t =
     (if tusec t \<ge> 1000000 then time_normalise \<lparr>tsec = tsec t + 1, tusec = tusec t - 1000000\<rparr> else t)"
  by auto
termination
  by (relation "measure (\<lambda>t. unat (tusec t))") (auto simp: word_le_nat_alt unat_sub)

declare time_normalise.simps [simp del]

definition timeout_time :: "os_time \<Rightarrow> u32 \<Rightarrow> u32 \<Rightarrow> os_time" where
  "timeout_time now secs usecs =
     time_normalise \<lparr>tsec = tsec now + ucast secs, tusec = tusec now + ucast usecs\<rparr>"

text \<open>The search of \<open>eloop_register_timeout\<close> for the predecessor of the new timeout.\<close>

partial_function (option) register_scan ::
  "(addr \<rightharpoonup> eloop_timeout) \<Rightarrow> os_time \<Rightarrow> addr \<Rightarrow> addr \<Rightarrow> addr option" where
  "register_scan m t prev tmp =
     (if tmp = 0 then Some prev
      else do {
        n \<leftarrow> m tmp;
        if os_time_before t (et_time n) then Some prev
        else register_scan m t tmp (et_next n) })"

declare register_scan.simps [code]

definition register_link :: "addr \<Rightarrow> addr \<Rightarrow> eloop_data \<Rightarrow> eloop_data option" where
  "register_link timeout prev s = do {
     n \<leftarrow> el_mem s timeout;
     if prev = 0 then
       Some (s\<lparr>el_mem := (el_mem s)(timeout \<mapsto> n\<lparr>et_next := el_timeout s\<rparr>), el_timeout := timeout\<rparr>)
     else do {
       p \<leftarrow> el_mem s prev;
       Some (s\<lparr>el_mem := (el_mem s)(timeout \<mapsto> n\<lparr>et_next := et_next p\<rparr>, prev \<mapsto> p\<lparr>et_next := timeout\<rparr>)\<rparr>) } }"

definition eloop_register_timeout ::
  "u32 \<Rightarrow> u32 \<Rightarrow> addr \<Rightarrow> addr \<Rightarrow> addr \<Rightarrow> eloop_data \<Rightarrow> (int \<times> eloop_data) option" where
  "eloop_register_timeout secs usecs handler ed ud s = do {
     (timeout, s) \<leftarrow> eloop_alloc s;
     if timeout = 0 then Some (-1, s)
     else do {
       let t = timeout_time (el_now s) secs usecs;
       let s = s\<lparr>el_mem := (el_mem s)(timeout \<mapsto>
         \<lparr>et_time = t, et_eloop_data = ed, et_user_data = ud, et_handler = handler, et_next = 0\<rparr>)\<rparr>;
       (prev, s) \<leftarrow>
         (if el_timeout s = 0 then Some (0, s\<lparr>el_timeout := timeout\<rparr>)
          else do {
            prev \<leftarrow> register_scan (el_mem s) t 0 (el_timeout s);
            s \<leftarrow> register_link timeout prev s;
            Some (prev, s) });
       Some (0, if secs = 0 \<or> prev = 0 then el_emit Dummy_event s else s) } }"

text \<open>Taking a timeout out of the list: \<open>prev\<close> is its predecessor or 0.\<close>

definition eloop_unlink :: "addr \<Rightarrow> addr \<Rightarrow> eloop_data \<Rightarrow> eloop_data option" where
  "eloop_unlink prev next s =
     (if prev = 0 then Some (s\<lparr>el_timeout := next\<rparr>)
      else do {
        p \<leftarrow> el_mem s prev;
        Some (s\<lparr>el_mem := (el_mem s)(prev \<mapsto> p\<lparr>et_next := next\<rparr>)\<rparr>) })"

definition cancel_match :: "addr \<Rightarrow> addr \<Rightarrow> addr \<Rightarrow> eloop_timeout \<Rightarrow> bool" where
  "cancel_match handler ed ud n \<longleftrightarrow>
     et_handler n = handler \<and> (et_eloop_data n = ed \<or> ed = ELOOP_ALL_CTX) \<and>
     (et_user_data n = ud \<or> ud = ELOOP_ALL_CTX)"

definition timeout_match :: "addr \<Rightarrow> addr \<Rightarrow> addr \<Rightarrow> eloop_timeout \<Rightarrow> bool" where
  "timeout_match handler ed ud n \<longleftrightarrow>
     et_handler n = handler \<and> et_eloop_data n = ed \<and> et_user_data n = ud"

partial_function (option) cancel_loop ::
  "addr \<Rightarrow> addr \<Rightarrow> addr \<Rightarrow> addr \<Rightarrow> addr \<Rightarrow> int \<Rightarrow> eloop_data \<Rightarrow> (int \<times> eloop_data) option" where
  "cancel_loop handler ed ud prev timeout removed s =
     (if timeout = 0 then Some (removed, s)
      else do {
        n \<leftarrow> el_mem s timeout;
        let next = et_next n;
        if cancel_match handler ed ud n then do {
          s \<leftarrow> eloop_unlink prev next s;
          s \<leftarrow> eloop_remove_timeout timeout s;
          cancel_loop handler ed ud prev next (removed + 1) s }
        else cancel_loop handler ed ud timeout next removed s })"

declare cancel_loop.simps [code]

definition eloop_cancel_timeout :: "addr \<Rightarrow> addr \<Rightarrow> addr \<Rightarrow> eloop_data \<Rightarrow> (int \<times> eloop_data) option" where
  "eloop_cancel_timeout handler ed ud s = cancel_loop handler ed ud 0 (el_timeout s) 0 s"

partial_function (option) cancel_one_loop ::
  "addr \<Rightarrow> addr \<Rightarrow> addr \<Rightarrow> addr \<Rightarrow> addr \<Rightarrow> eloop_data \<Rightarrow> (int \<times> os_time \<times> eloop_data) option" where
  "cancel_one_loop handler ed ud prev timeout s =
     (if timeout = 0 then Some (0, \<lparr>tsec = 0, tusec = 0\<rparr>, s)
      else do {
        n \<leftarrow> el_mem s timeout;
        let next = et_next n;
        if timeout_match handler ed ud n then do {
          s \<leftarrow> eloop_unlink prev next s;
          let remaining = (if os_time_before (el_now s) (et_time n) then os_reltime_sub (et_time n) (el_now s)
                           else \<lparr>tsec = 0, tusec = 0\<rparr>);
          s \<leftarrow> eloop_remove_timeout timeout s;
          Some (1, remaining, s) }
        else cancel_one_loop handler ed ud timeout next s })"

declare cancel_one_loop.simps [code]

definition eloop_cancel_timeout_one ::
  "addr \<Rightarrow> addr \<Rightarrow> addr \<Rightarrow> eloop_data \<Rightarrow> (int \<times> os_time \<times> eloop_data) option" where
  "eloop_cancel_timeout_one handler ed ud s = cancel_one_loop handler ed ud 0 (el_timeout s) s"

text \<open>The search that \<open>eloop_is_timeout_registered\<close>, \<open>eloop_deplete_timeout\<close> and \<open>eloop_replenish_timeout\<close> share: the first
  matching timeout.\<close>

partial_function (option) find_timeout ::
  "(addr \<rightharpoonup> eloop_timeout) \<Rightarrow> addr \<Rightarrow> addr \<Rightarrow> addr \<Rightarrow> addr \<Rightarrow> eloop_timeout option option" where
  "find_timeout m handler ed ud tmp =
     (if tmp = 0 then Some None
      else do {
        n \<leftarrow> m tmp;
        if timeout_match handler ed ud n then Some (Some n)
        else find_timeout m handler ed ud (et_next n) })"

declare find_timeout.simps [code]

definition eloop_is_timeout_registered :: "addr \<Rightarrow> addr \<Rightarrow> addr \<Rightarrow> eloop_data \<Rightarrow> int option" where
  "eloop_is_timeout_registered handler ed ud s = do {
     r \<leftarrow> find_timeout (el_mem s) handler ed ud (el_timeout s);
     Some (if r \<noteq> None then 1 else 0) }"

definition eloop_deplete_timeout ::
  "u32 \<Rightarrow> u32 \<Rightarrow> addr \<Rightarrow> addr \<Rightarrow> addr \<Rightarrow> eloop_data \<Rightarrow> (int \<times> eloop_data) option" where
  "eloop_deplete_timeout req_secs req_usecs handler ed ud s = do {
     r \<leftarrow> find_timeout (el_mem s) handler ed ud (el_timeout s);
     case r of
       None \<Rightarrow> Some (-1, s)
     | Some tmp \<Rightarrow> do {
         let requested = \<lparr>tsec = ucast req_secs, tusec = ucast req_usecs\<rparr>;
         let remaining = os_reltime_sub (et_time tmp) (el_now s);
         if os_time_before requested remaining then do {
           (_, s) \<leftarrow> eloop_cancel_timeout handler ed ud s;
           (_, s) \<leftarrow> eloop_register_timeout req_secs req_usecs handler ed ud s;
           Some (1, s) }
         else Some (0, s) } }"

definition eloop_replenish_timeout ::
  "u32 \<Rightarrow> u32 \<Rightarrow> addr \<Rightarrow> addr \<Rightarrow> addr \<Rightarrow> eloop_data \<Rightarrow> (int \<times> eloop_data) option" where
  "eloop_replenish_timeout req_secs req_usecs handler ed ud s = do {
     r \<leftarrow> find_timeout (el_mem s) handler ed ud (el_timeout s);
     case r of
       None \<Rightarrow> Some (-1, s)
     | Some tmp \<Rightarrow> do {
         let requested = \<lparr>tsec = ucast req_secs, tusec = ucast req_usecs\<rparr>;
         let remaining = os_reltime_sub (et_time tmp) (el_now s);
         if os_time_before remaining requested then do {
           (_, s) \<leftarrow> eloop_cancel_timeout handler ed ud s;
           (_, s) \<leftarrow> eloop_register_timeout req_secs req_usecs handler ed ud s;
           Some (1, s) }
         else Some (0, s) } }"

definition eloop_terminate :: "eloop_data \<Rightarrow> eloop_data" where
  "eloop_terminate s = s\<lparr>terminate := True\<rparr>"

section \<open>The loop\<close>

text \<open>The calls that other components make; \<open>Tick\<close> is the passage of time.\<close>

datatype el_call =
    Register_timeout u32 u32 addr addr addr
  | Cancel_timeout addr addr addr
  | Cancel_timeout_one addr addr addr
  | Deplete_timeout u32 u32 addr addr addr
  | Replenish_timeout u32 u32 addr addr addr
  | Is_timeout_registered addr addr addr
  | Register_sock bool int eloop_event_type addr addr addr
  | Unregister_sock int eloop_event_type
  | Register_signal bool int addr addr
  | Terminate
  | Tick u64

fun eloop_call :: "el_call \<Rightarrow> eloop_data \<Rightarrow> eloop_data option" where
  "eloop_call (Register_timeout secs usecs h ed ud) s = map_option snd (eloop_register_timeout secs usecs h ed ud s)"
| "eloop_call (Cancel_timeout h ed ud) s = map_option snd (eloop_cancel_timeout h ed ud s)"
| "eloop_call (Cancel_timeout_one h ed ud) s = map_option (snd \<circ> snd) (eloop_cancel_timeout_one h ed ud s)"
| "eloop_call (Deplete_timeout secs usecs h ed ud) s = map_option snd (eloop_deplete_timeout secs usecs h ed ud s)"
| "eloop_call (Replenish_timeout secs usecs h ed ud) s = map_option snd (eloop_replenish_timeout secs usecs h ed ud s)"
| "eloop_call (Is_timeout_registered h ed ud) s = map_option (\<lambda>_. s) (eloop_is_timeout_registered h ed ud s)"
| "eloop_call (Register_sock ok sock type h ed ud) s = Some (snd (eloop_register_sock ok sock type h ed ud s))"
| "eloop_call (Unregister_sock sock type) s = eloop_unregister_sock sock type s"
| "eloop_call (Register_signal ok sig h ud) s = Some (snd (eloop_register_signal ok sig h ud s))"
| "eloop_call Terminate s = Some (eloop_terminate s)"
| "eloop_call (Tick t) s = Some (s\<lparr>el_ticks := t\<rparr>)"

fun eloop_calls :: "el_call list \<Rightarrow> eloop_data \<Rightarrow> eloop_data option" where
  "eloop_calls [] s = Some s"
| "eloop_calls (c # cs) s = do { s \<leftarrow> eloop_call c s; eloop_calls cs s }"

text \<open>What the other components do: \<open>on_timeout\<close> when the handler is called with its two arguments, \<open>on_event\<close> in
  \<open>process_wpa_supplicant_event\<close>.\<close>

record eloop_client =
  on_timeout :: "addr \<Rightarrow> addr \<Rightarrow> addr \<Rightarrow> eloop_data \<Rightarrow> el_call list"
  on_event :: "eloop_data \<Rightarrow> el_call list"

definition eloop_running :: "eloop_data \<Rightarrow> bool" where
  "eloop_running s \<longleftrightarrow>
     \<not> terminate s \<and>
     (el_timeout s \<noteq> 0 \<or> st_count (readers s) > 0 \<or> st_count (writers s) > 0 \<or> st_count (exceptions s) > 0)"

text \<open>The time that \<open>OSA_EventWait\<close> may wait: \<^const>\<open>None\<close> is \<open>osaWaitForever_c\<close>.\<close>

definition wait_time :: "eloop_data \<Rightarrow> u32 option option" where
  "wait_time s =
     (if el_timeout s = 0 then Some None
      else do {
        n \<leftarrow> el_mem s (el_timeout s);
        let tv = (if os_time_before (el_now s) (et_time n) then os_time_sub (et_time n) (el_now s)
                  else \<lparr>tsec = 0, tusec = 0\<rparr>);
        Some (Some (ucast (tsec tv * 1000 + tusec tv div 1000))) })"

definition eloop_run_timeout :: "eloop_client \<Rightarrow> eloop_data \<Rightarrow> eloop_data option" where
  "eloop_run_timeout cl s =
     (if el_timeout s = 0 then Some s
      else do {
        n \<leftarrow> el_mem s (el_timeout s);
        if os_time_before (el_now s) (et_time n) then Some s
        else do {
          let tmp = el_timeout s;
          let s = s\<lparr>el_timeout := et_next n\<rparr>;
          let s = el_emit (Timeout_handler (et_handler n) (et_eloop_data n) (et_user_data n)) s;
          s \<leftarrow> eloop_calls (on_timeout cl (et_handler n) (et_eloop_data n) (et_user_data n) s) s;
          eloop_remove_timeout tmp s } })"

text \<open>One iteration. The event flags \<open>DUMMY\<close> and \<open>EVENT\<close> are bits 0 and 1; \<open>flags\<close> and \<open>ticks\<close> are the notification and the time
  when the wait ends.\<close>

abbreviation (input) DUMMY :: nat where "DUMMY \<equiv> 0"
abbreviation (input) EVENT :: nat where "EVENT \<equiv> 1"

definition eloop_run_iteration :: "eloop_client \<Rightarrow> u32 \<Rightarrow> u64 \<Rightarrow> eloop_data \<Rightarrow> eloop_data option" where
  "eloop_run_iteration cl flags ticks s = do {
     w \<leftarrow> wait_time s;
     let s = (el_emit (Wait w) s)\<lparr>el_ticks := ticks\<rparr>;
     s \<leftarrow> eloop_run_timeout cl s;
     if flags = 0 \<or> flags = BIT DUMMY then Some s
     else if flags AND BIT EVENT \<noteq> 0 then
       (let s = el_emit Supplicant_event s in eloop_calls (on_event cl s) s)
     else Some s }"

text \<open>The loop over the ends of its waits; it stays in the next wait when the list is exhausted.\<close>

fun eloop_run :: "eloop_client \<Rightarrow> (u32 \<times> u64) list \<Rightarrow> eloop_data \<Rightarrow> eloop_data option" where
  "eloop_run cl [] s = Some s"
| "eloop_run cl ((flags, ticks) # ws) s =
     (if eloop_running s then do { s \<leftarrow> eloop_run_iteration cl flags ticks s; eloop_run cl ws s } else Some s)"

text \<open>\<open>eloop_destroy\<close>: the loop that frees the timeouts, then the tables and the pool.\<close>

partial_function (option) destroy_loop :: "addr \<Rightarrow> eloop_data \<Rightarrow> eloop_data option" where
  "destroy_loop timeout s =
     (if timeout = 0 then Some s
      else do {
        n \<leftarrow> el_mem s timeout;
        s \<leftarrow> eloop_remove_timeout timeout s;
        destroy_loop (et_next n) s })"

declare destroy_loop.simps [code]

definition eloop_destroy :: "eloop_data \<Rightarrow> eloop_data option" where
  "eloop_destroy s = do {
     s \<leftarrow> destroy_loop (el_timeout s) s;
     s \<leftarrow> eloop_alloc_deinit s;
     Some (s\<lparr>eloop_init_done := False\<rparr>) }"

definition eloop_terminated :: "eloop_data \<Rightarrow> bool" where
  "eloop_terminated s = terminate s"

end
