(* ===== verification/Eloop_props.thy ===== *)
theory Eloop_props
  imports Eloop
begin

text \<open>
  The properties of the event loop: the linked list in the pool always represents a list of timeouts sorted
  by time, the operations on timeouts refine operations on that list, no block is used after it was released and none is lost, and
  the loop calls the handlers of the timeouts that are due in their order. The last part shows where the clock and
  the unsigned time arithmetic of the port break this.
\<close>

lemma returns_pairE:
  assumes "returns P x"
  obtains a b where "x = Some (a, b)" "P (a, b)"
  using assms by (cases x) auto

section \<open>Lists in memory\<close>

fun hd_addr :: "(addr \<times> eloop_timeout) list \<Rightarrow> addr \<Rightarrow> addr" where
  "hd_addr [] e = e"
| "hd_addr ((q, x) # r) e = q"

text \<open>\<open>linked m xs e\<close>: the nodes \<open>xs\<close> are in memory at their addresses, each pointing to the next and the last to \<open>e\<close>. The
  \<open>et_next\<close> of the nodes in \<open>xs\<close> itself is of no importance.\<close>

fun linked :: "(addr \<rightharpoonup> eloop_timeout) \<Rightarrow> (addr \<times> eloop_timeout) list \<Rightarrow> addr \<Rightarrow> bool" where
  "linked m [] e \<longleftrightarrow> True"
| "linked m ((q, x) # r) e \<longleftrightarrow> q \<noteq> 0 \<and> m q = Some (x\<lparr>et_next := hd_addr r e\<rparr>) \<and> linked m r e"

abbreviation addrs :: "(addr \<times> eloop_timeout) list \<Rightarrow> addr set" where
  "addrs xs \<equiv> fst ` set xs"

abbreviation last_addr :: "(addr \<times> eloop_timeout) list \<Rightarrow> addr" where
  "last_addr xs \<equiv> (if xs = [] then 0 else fst (last xs))"

lemma hd_addr_append [simp]: "hd_addr (xs @ ys) e = hd_addr xs (hd_addr ys e)"
  by (cases xs) auto

lemma linked_append [simp]: "linked m (xs @ ys) e \<longleftrightarrow> linked m xs (hd_addr ys e) \<and> linked m ys e"
  by (induction xs) auto

lemma linked_update [simp]: "q \<notin> addrs xs \<Longrightarrow> linked (m(q := v)) xs e = linked m xs e"
  by (induction m xs e rule: linked.induct) auto

lemma linked_in: "linked m xs e \<Longrightarrow> (q, x) \<in> set xs \<Longrightarrow> q \<noteq> 0 \<and> (\<exists>n. m q = Some (x\<lparr>et_next := n\<rparr>))"
  by (induction m xs e rule: linked.induct) auto

text \<open>Redirecting the last pointer of a part of the list.\<close>

lemma linked_redirect:
  "linked m xs e \<Longrightarrow> xs \<noteq> [] \<Longrightarrow> distinct (map fst xs) \<Longrightarrow>
     linked (m(last_addr xs \<mapsto> (snd (last xs))\<lparr>et_next := e'\<rparr>)) xs e'"
proof (induction xs)
  case (Cons a xs)
  then show ?case by (cases a; cases xs) auto
qed simp

lemma linked_last:
  "linked m xs e \<Longrightarrow> xs \<noteq> [] \<Longrightarrow> m (last_addr xs) = Some ((snd (last xs))\<lparr>et_next := e\<rparr>)"
proof (induction xs)
  case (Cons a xs)
  then show ?case by (cases a; cases xs) auto
qed simp

lemma last_addr_in: "xs \<noteq> [] \<Longrightarrow> last_addr xs \<in> addrs xs"
  by simp

lemma last_addr_nonzero: "linked m xs e \<Longrightarrow> xs \<noteq> [] \<Longrightarrow> last_addr xs \<noteq> 0"
  using linked_in [of m xs e "fst (last xs)" "snd (last xs)"] by auto

section \<open>Times\<close>

lemma os_time_before_irrefl [simp]: "\<not> os_time_before t t"
  by (simp add: os_time_before_def)

lemma os_time_before_trans: "os_time_before a b \<Longrightarrow> os_time_before b c \<Longrightarrow> os_time_before a c"
  by (auto simp: os_time_before_def)

lemma os_time_not_before:
  "\<not> os_time_before b a \<longleftrightarrow> tsec a < tsec b \<or> tsec a = tsec b \<and> tusec a \<le> tusec b"
  by (auto simp: os_time_before_def)

lemma os_time_not_before_trans:
  "\<not> os_time_before b a \<Longrightarrow> \<not> os_time_before c b \<Longrightarrow> \<not> os_time_before c a"
  by (auto simp: os_time_not_before)

abbreviation not_later :: "eloop_timeout \<Rightarrow> eloop_timeout \<Rightarrow> bool" where
  "not_later x y \<equiv> \<not> os_time_before (et_time y) (et_time x)"

text \<open>What the components above rely on: timeouts are inserted behind those of an earlier or equal time.\<close>

definition timer_insert :: "eloop_timeout \<Rightarrow> eloop_timeout list \<Rightarrow> eloop_timeout list" where
  "timer_insert x xs = takeWhile (\<lambda>y. not_later y x) xs @ x # dropWhile (\<lambda>y. not_later y x) xs"

lemma timer_insert_set [simp]: "set (timer_insert x xs) = insert x (set xs)"
  by (simp add: timer_insert_def) (metis set_append takeWhile_dropWhile_id)

lemma sorted_wrt_insert:
  "sorted_wrt R (ys @ zs) \<Longrightarrow> (\<And>y. y \<in> set ys \<Longrightarrow> R y x) \<Longrightarrow> (\<And>z. z \<in> set zs \<Longrightarrow> R x z) \<Longrightarrow>
     sorted_wrt R (ys @ x # zs)"
  by (auto simp: sorted_wrt_append)

lemma timer_insert_sorted:
  assumes "sorted_wrt not_later xs"
  shows "sorted_wrt not_later (timer_insert x xs)"
proof -
  let ?P = "\<lambda>y. not_later y x"
  have split: "sorted_wrt not_later (takeWhile ?P xs @ dropWhile ?P xs)" using assms by simp
  have front: "not_later y x" if "y \<in> set (takeWhile ?P xs)" for y
    using that by (auto dest: set_takeWhileD)
  have behind: "not_later x y" if "y \<in> set (dropWhile ?P xs)" for y
  proof (cases "dropWhile ?P xs")
    case (Cons z zs)
    then have "os_time_before (et_time x) (et_time z)"
      using hd_dropWhile [of ?P xs] by simp
    moreover have "not_later z y"
      using split that Cons by (auto simp: sorted_wrt_append)
    ultimately show ?thesis by (meson os_time_before_trans os_time_not_before_trans os_time_before_irrefl)
  next
    case Nil
    with that show ?thesis by (simp only: list.set empty_iff)
  qed
  from split front behind show ?thesis
    unfolding timer_insert_def by (intro sorted_wrt_insert) blast+
qed

section \<open>The invariant\<close>

text \<open>\<open>xs\<close> is the list of timeouts, \<open>D\<close> the allocated blocks that are not linked. \<open>g\<close> says that no call of the mutex fails; then
  the allocated blocks of the pool are exactly these.\<close>

definition table_ok :: "eloop_sock_table \<Rightarrow> bool" where
  "table_ok t \<longleftrightarrow> (case st_table t of None \<Rightarrow> st_count t = 0 | Some xs \<Rightarrow> st_count t \<le> length xs)"

definition pool_rep :: "bool \<Rightarrow> addr set \<Rightarrow> pool_info \<Rightarrow> bool" where
  "pool_rep g A b \<longleftrightarrow>
     pool_wf b \<and> max_block_count b = MAX_ELOOP_TIMEOUTS \<and> A \<subseteq> block_addr b ` used_blocks b \<and>
     (g \<longrightarrow> list_all id (pool_mutex b) \<and> block_addr b ` used_blocks b = A)"

definition eloop_inv :: "bool \<Rightarrow> addr set \<Rightarrow> (addr \<times> eloop_timeout) list \<Rightarrow> eloop_data \<Rightarrow> bool" where
  "eloop_inv g D xs s \<longleftrightarrow>
     linked (el_mem s) xs 0 \<and> el_timeout s = hd_addr xs 0 \<and>
     distinct (map fst xs) \<and> D \<inter> addrs xs = {} \<and> dom (el_mem s) = addrs xs \<union> D \<and>
     returns (pool_rep g (addrs xs \<union> D)) (eloop_pool s) \<and>
     sorted_wrt not_later (map snd xs) \<and> list_all (\<lambda>x. et_next x = 0) (map snd xs) \<and>
     table_ok (readers s) \<and> table_ok (writers s) \<and> table_ok (exceptions s)"

lemma lock_mutex:
  "list_all id (pool_mutex b) \<Longrightarrow> fst (OSA_MutexLock b) \<and> list_all id (pool_mutex (snd (OSA_MutexLock b)))"
  by (auto simp: OSA_MutexLock_def split: list.split)

lemma block_ops_mutex:
  "yields (\<lambda>(a, c). pool_mutex c = pool_mutex (snd (OSA_MutexLock b))) (ba_block_allocate b)"
  "yields (\<lambda>(r, c). pool_mutex c = pool_mutex b \<or> pool_mutex c = pool_mutex (snd (OSA_MutexLock b))) (ba_block_release b a)"
  by (auto simp: ba_block_allocate_def ba_block_release_def ba_bitmap_set_bit_def ba_bitmap_reset_bit_def Let_def wlp
      split_beta intro!: yieldsI split: if_splits option.splits bind_splits)

lemma pool_rep_allocate:
  assumes "pool_rep g A b"
  shows "returns (\<lambda>(a, c). if a = 0 then pool_rep g A c \<and> (g \<longrightarrow> MAX_ELOOP_TIMEOUTS \<le> card A)
    else a \<notin> A \<and> pool_rep g (insert a A) c) (ba_block_allocate b)"
proof -
  have wf: "pool_wf b" and mx: "max_block_count b = MAX_ELOOP_TIMEOUTS" and sub: "A \<subseteq> block_addr b ` used_blocks b"
    and g: "g \<Longrightarrow> list_all id (pool_mutex b) \<and> block_addr b ` used_blocks b = A"
    using assms by (auto simp: pool_rep_def)
  have inj: "inj_on (block_addr b) S" for S using wf by (simp add: inj_on_def block_addr_inject)
  have full: "MAX_ELOOP_TIMEOUTS \<le> card A" if "g" "\<forall>k<max_block_count b. k \<in> used_blocks b"
  proof -
    have "used_blocks b = {..<MAX_ELOOP_TIMEOUTS}" using that(2) mx by (auto simp: used_blocks_def)
    then have "card (block_addr b ` used_blocks b) = MAX_ELOOP_TIMEOUTS" by (simp add: card_image [OF inj])
    with g [OF that(1)] show ?thesis by simp
  qed
  obtain a c where ac: "ba_block_allocate b = Some (a, c)" "pool_wf c" "same_pool b c"
    and spec: "if a = 0 then (fst (OSA_MutexLock b) \<longrightarrow> (\<forall>k<max_block_count b. k \<in> used_blocks b)) \<and> used_blocks c = used_blocks b
      else fst (OSA_MutexLock b) \<and> (\<exists>k<max_block_count b. k \<notin> used_blocks b \<and> (\<forall>j<k. j \<in> used_blocks b) \<and>
        a = block_addr b k \<and> used_blocks c = insert k (used_blocks b))"
    using ba_block_allocate_correct [OF wf] by (elim returns_pairE) (simp only: prod.case, blast)
  have mut: "g \<Longrightarrow> fst (OSA_MutexLock b) \<and> list_all id (pool_mutex c)"
    using block_ops_mutex(1) [of b] ac(1) lock_mutex [of b] g by simp
  have bc: "block_addr c = block_addr b" using ac(3) by (simp add: block_addr_same fun_eq_iff)
  show ?thesis
  proof (cases "a = 0")
    case True
    with spec ac mut full g sub mx show ?thesis
      by (auto simp: pool_rep_def bc same_pool_def)
  next
    case False
    with spec obtain k where k: "k \<notin> used_blocks b" "a = block_addr b k" "used_blocks c = insert k (used_blocks b)"
      by auto
    have "a \<notin> A" using sub k(1) by (auto simp: k(2) block_addr_inject [OF wf])
    with False ac mut g sub mx k show ?thesis
      by (auto simp: pool_rep_def bc same_pool_def)
  qed
qed


lemma pool_rep_release:
  assumes "pool_rep g (insert a A) b" "a \<notin> A"
  shows "returns (\<lambda>(r, c). pool_rep g A c) (ba_block_release b a)"
proof -
  have wf: "pool_wf b" and mx: "max_block_count b = MAX_ELOOP_TIMEOUTS"
    and sub: "insert a A \<subseteq> block_addr b ` used_blocks b"
    and g: "g \<Longrightarrow> list_all id (pool_mutex b) \<and> block_addr b ` used_blocks b = insert a A"
    using assms by (auto simp: pool_rep_def)
  from sub obtain k where a: "a = block_addr b k" and k: "k \<in> used_blocks b" by auto
  then have km: "k < max_block_count b" by (simp add: used_blocks_def)
  obtain r c where c: "ba_block_release b a = Some (r, c)" "pool_wf c" "same_pool b c"
    and spec: "if fst (OSA_MutexLock b) then used_blocks c = used_blocks b - {k} else used_blocks c = used_blocks b"
    using ba_block_release_correct [OF wf km] k by (elim returns_pairE) (auto simp: a split: if_splits)
  have mut: "g \<Longrightarrow> fst (OSA_MutexLock b) \<and> list_all id (pool_mutex c)"
    using block_ops_mutex(2) [of b a] c(1) lock_mutex [of b] g by auto
  have bc: "block_addr c = block_addr b" using c(3) by (simp add: block_addr_same fun_eq_iff)
  have img: "block_addr b ` (used_blocks b - {k}) = block_addr b ` used_blocks b - {a}"
    using wf by (auto simp: a block_addr_inject)
  from spec c mut g sub mx assms(2) show ?thesis
    by (auto simp: pool_rep_def bc same_pool_def img split: if_splits)
qed

section \<open>Allocation and release\<close>

text \<open>What the timeout operations leave alone.\<close>

definition same_tables :: "eloop_data \<Rightarrow> eloop_data \<Rightarrow> bool" where
  "same_tables s t \<longleftrightarrow>
     readers t = readers s \<and> writers t = writers s \<and> exceptions t = exceptions s \<and> max_sock t = max_sock s \<and>
     signal_count t = signal_count s \<and> el_signals t = el_signals s \<and> terminate t = terminate s \<and>
     el_hz t = el_hz s \<and> el_ticks t = el_ticks s \<and> eloop_init_done t = eloop_init_done s"

lemma same_tables_refl [simp]: "same_tables s s"
  by (simp add: same_tables_def)

lemma same_tables_trans [trans]: "same_tables s t \<Longrightarrow> same_tables t u \<Longrightarrow> same_tables s u"
  by (simp add: same_tables_def)

lemma eloop_alloc_ok:
  assumes "eloop_inv g D xs s"
  shows "returns (\<lambda>(p, t). same_tables s t \<and> el_trace t = el_trace s \<and>
    (if p = 0 then eloop_inv g D xs t \<and> (g \<longrightarrow> finite D \<longrightarrow> MAX_ELOOP_TIMEOUTS \<le> length xs + card D)
     else p \<notin> D \<and> p \<notin> addrs xs \<and> eloop_inv g (insert p D) xs t)) (eloop_alloc s)"
proof -
  obtain b where b: "eloop_pool s = Some b" "pool_rep g (addrs xs \<union> D) b"
    using assms by (auto simp: eloop_inv_def returns_iff)
  have card: "card (addrs xs \<union> D) = length xs + card D" if "finite D"
    using that assms by (auto simp: eloop_inv_def card_Un_disjoint Int_commute distinct_card simp flip: set_map)
  obtain p c where pc: "ba_block_allocate b = Some (p, c)"
    and spec: "if p = 0 then pool_rep g (addrs xs \<union> D) c \<and> (g \<longrightarrow> MAX_ELOOP_TIMEOUTS \<le> card (addrs xs \<union> D))
      else p \<notin> addrs xs \<union> D \<and> pool_rep g (insert p (addrs xs \<union> D)) c"
    using pool_rep_allocate [OF b(2)] by (elim returns_pairE) (simp only: prod.case)
  show ?thesis
  proof (cases "p = 0")
    case True
    with spec card assms show ?thesis
      by (auto simp: eloop_alloc_def b pc eloop_inv_def same_tables_def)
  next
    case False
    with spec assms show ?thesis
      by (auto simp: eloop_alloc_def b pc eloop_inv_def same_tables_def insert_commute)
  qed
qed

lemma eloop_free_ok:
  assumes "eloop_inv g (insert p D) xs s" "p \<notin> D"
  shows "returns (\<lambda>t. eloop_inv g D xs t \<and> same_tables s t \<and> el_trace t = el_trace s) (eloop_remove_timeout p s)"
proof -
  obtain b where b: "eloop_pool s = Some b" "pool_rep g (addrs xs \<union> insert p D) b"
    using assms by (auto simp: eloop_inv_def returns_iff)
  have "p \<notin> addrs xs \<union> D" using assms by (auto simp: eloop_inv_def)
  moreover from this obtain r c where rc: "ba_block_release b p = Some (r, c)" "pool_rep g (addrs xs \<union> D) c"
    using pool_rep_release [of g p "addrs xs \<union> D" b] b(2) by (auto elim!: returns_pairE)
  ultimately show ?thesis using assms
    by (auto simp: eloop_remove_timeout_def eloop_free_def b eloop_inv_def same_tables_def)
qed


section \<open>Operations on the list\<close>

lemma register_scan_correct:
  "linked m xs 0 \<Longrightarrow>
     register_scan m t prev (hd_addr xs 0) =
       Some (let ys = takeWhile (\<lambda>(q, y). \<not> os_time_before t (et_time y)) xs in if ys = [] then prev else fst (last ys))"
proof (induction xs arbitrary: prev)
  case Nil
  then show ?case by (simp add: register_scan.simps)
next
  case (Cons a xs)
  obtain q x where a: "a = (q, x)" by force
  show ?case
  proof (cases "os_time_before t (et_time x)")
    case True
    with Cons show ?thesis by (subst register_scan.simps) (simp add: a)
  next
    case False
    with Cons show ?thesis by (subst register_scan.simps) (simp add: a Let_def)
  qed
qed

lemma register_link_ok:
  assumes "eloop_inv g (insert p D) (ys @ zs) s" "p \<notin> D" "p \<noteq> 0" "el_mem s p = Some x" "et_next x = 0"
    and "sorted_wrt not_later (map snd (ys @ (p, x) # zs))"
  shows "returns (\<lambda>t. eloop_inv g D (ys @ (p, x) # zs) t \<and> same_tables s t \<and> el_trace t = el_trace s)
    (register_link p (last_addr ys) s)"
proof -
  have inv: "linked (el_mem s) (ys @ zs) 0" "el_timeout s = hd_addr (ys @ zs) 0" "distinct (map fst (ys @ zs))"
      "insert p D \<inter> addrs (ys @ zs) = {}" "dom (el_mem s) = addrs (ys @ zs) \<union> insert p D"
    using assms(1) by (simp_all add: eloop_inv_def)
  have pool: "addrs (ys @ (p, x) # zs) \<union> D = addrs (ys @ zs) \<union> insert p D" by auto
  show ?thesis
  proof (cases "ys = []")
    case True
    with assms inv pool show ?thesis
      by (auto simp: register_link_def eloop_inv_def same_tables_def)
  next
    case False
    have l: "last_addr ys \<noteq> 0" "last_addr ys \<in> addrs ys" "last_addr ys \<notin> addrs zs" "p \<noteq> last_addr ys"
    proof -
      show in_ys: "last_addr ys \<in> addrs ys" using last_addr_in [OF False] .
      show "last_addr ys \<noteq> 0" using inv(1) False last_addr_nonzero [of "el_mem s" ys "hd_addr zs 0"] by simp
      have "addrs ys \<inter> addrs zs = {}" "p \<notin> addrs ys" using inv(3,4) by auto
      with in_ys show "last_addr ys \<notin> addrs zs" "p \<noteq> last_addr ys" by blast+
    qed
    have old: "el_mem s (last_addr ys) = Some ((snd (last ys))\<lparr>et_next := hd_addr zs 0\<rparr>)"
      using inv False by (intro linked_last) auto
    have lk: "linked ((el_mem s)(last_addr ys \<mapsto> (snd (last ys))\<lparr>et_next := p\<rparr>)) ys p"
      using inv False by (intro linked_redirect) auto
    have mem: "(el_mem s)(p \<mapsto> x\<lparr>et_next := hd_addr zs 0\<rparr>, last_addr ys \<mapsto> (snd (last ys))\<lparr>et_next := p\<rparr>) =
        (el_mem s)(last_addr ys \<mapsto> (snd (last ys))\<lparr>et_next := p\<rparr>, p \<mapsto> x\<lparr>et_next := hd_addr zs 0\<rparr>)"
      using l(4) by (simp add: fun_upd_twist)
    let ?m = "(el_mem s)(last_addr ys \<mapsto> (snd (last ys))\<lparr>et_next := p\<rparr>, p \<mapsto> x\<lparr>et_next := hd_addr zs 0\<rparr>)"
    have link: "register_link p (last_addr ys) s = Some (s\<lparr>el_mem := ?m\<rparr>)"
      using assms(4) old l by (simp add: register_link_def mem del: fun_upd_apply)
    have "p \<notin> addrs ys" "p \<notin> addrs zs" using inv(4) by auto
    then have "linked ?m (ys @ (p, x) # zs) 0"
      using lk l inv(1) assms(3) by simp
    moreover have "dom ?m = addrs (ys @ (p, x) # zs) \<union> D" using inv(5) l(2) pool by auto
    moreover have "distinct (map fst (ys @ (p, x) # zs))" "D \<inter> addrs (ys @ (p, x) # zs) = {}"
      using inv(3,4) assms(2) by auto
    moreover have "hd_addr (ys @ (p, x) # zs) 0 = el_timeout s" using inv(2) False by (cases ys) auto
    ultimately show ?thesis
      using assms(1,5,6) pool unfolding link
      by (simp add: eloop_inv_def same_tables_def)
  qed
qed


lemma match_next [simp]:
  "cancel_match h ed ud (x\<lparr>et_next := n\<rparr>) = cancel_match h ed ud x"
  "timeout_match h ed ud (x\<lparr>et_next := n\<rparr>) = timeout_match h ed ud x"
  by (simp_all add: cancel_match_def timeout_match_def)

lemma eloop_inv_mem:
  "eloop_inv g D (ys @ (q, x) # zs) s \<Longrightarrow> q \<noteq> 0 \<and> q \<notin> D \<and> el_mem s q = Some (x\<lparr>et_next := hd_addr zs 0\<rparr>)"
  by (auto simp: eloop_inv_def)

lemma eloop_unlink_ok:
  assumes "eloop_inv g D (ys @ (q, x) # zs) s"
  shows "returns (\<lambda>t. eloop_inv g (insert q D) (ys @ zs) t \<and> same_tables s t \<and> el_trace t = el_trace s)
    (eloop_unlink (last_addr ys) (hd_addr zs 0) s)"
proof -
  have inv: "linked (el_mem s) (ys @ (q, x) # zs) 0" "el_timeout s = hd_addr (ys @ (q, x) # zs) 0"
      "distinct (map fst (ys @ (q, x) # zs))" "D \<inter> addrs (ys @ (q, x) # zs) = {}"
      "dom (el_mem s) = addrs (ys @ (q, x) # zs) \<union> D"
      "sorted_wrt not_later (map snd (ys @ (q, x) # zs))"
    using assms by (simp_all add: eloop_inv_def)
  have pool: "addrs (ys @ zs) \<union> insert q D = addrs (ys @ (q, x) # zs) \<union> D" by auto
  have sorted: "sorted_wrt not_later (map snd (ys @ zs))"
    using inv(6) by (simp add: sorted_wrt_append)
  have dist: "distinct (map fst (ys @ zs))" "insert q D \<inter> addrs (ys @ zs) = {}" using inv(3,4) by auto
  show ?thesis
  proof (cases "ys = []")
    case True
    with assms inv pool sorted dist show ?thesis
      by (simp add: eloop_unlink_def eloop_inv_def same_tables_def)
  next
    case False
    have l: "last_addr ys \<noteq> 0" "last_addr ys \<in> addrs ys" "last_addr ys \<notin> addrs zs"
    proof -
      show in_ys: "last_addr ys \<in> addrs ys" using last_addr_in [OF False] .
      show "last_addr ys \<noteq> 0" using inv(1) False last_addr_nonzero [of "el_mem s" ys q] by simp
      have "addrs ys \<inter> addrs zs = {}" using inv(3) by auto
      with in_ys show "last_addr ys \<notin> addrs zs" by blast
    qed
    have old: "el_mem s (last_addr ys) = Some ((snd (last ys))\<lparr>et_next := q\<rparr>)"
      using inv(1) False by (intro linked_last) auto
    let ?m = "(el_mem s)(last_addr ys \<mapsto> (snd (last ys))\<lparr>et_next := hd_addr zs 0\<rparr>)"
    have unlink: "eloop_unlink (last_addr ys) (hd_addr zs 0) s = Some (s\<lparr>el_mem := ?m\<rparr>)"
      using old l by (simp add: eloop_unlink_def)
    have "linked ?m ys (hd_addr zs 0)"
      using inv(1,3) False by (intro linked_redirect) auto
    then have "linked ?m (ys @ zs) 0" using l inv(1) by simp
    moreover have "dom ?m = addrs (ys @ zs) \<union> insert q D" using inv(5) l(2) pool by auto
    moreover have "hd_addr (ys @ zs) 0 = el_timeout s" using inv(2) False by (cases ys) auto
    ultimately show ?thesis
      using assms dist sorted pool unfolding unlink
      by (simp add: eloop_inv_def same_tables_def)
  qed
qed

lemma eloop_remove_ok:
  assumes "eloop_inv g D (ys @ (q, x) # zs) s"
  shows "returns (\<lambda>t. eloop_inv g D (ys @ zs) t \<and> same_tables s t \<and> el_trace t = el_trace s)
    (eloop_unlink (last_addr ys) (hd_addr zs 0) s \<bind> eloop_remove_timeout q)"
proof -
  have "q \<notin> D" using eloop_inv_mem [OF assms] by simp
  then show ?thesis
    using eloop_unlink_ok [OF assms]
    by (auto simp: wp elim!: returns_mono dest!: eloop_free_ok intro: same_tables_trans)
qed

lemma cancel_loop_ok:
  assumes "eloop_inv g D (ys @ zs) s"
  shows "returns (\<lambda>(n, t). eloop_inv g D (ys @ filter (\<lambda>(_, x). \<not> cancel_match h ed ud x) zs) t \<and>
      n = k + int (length (filter (\<lambda>(_, x). cancel_match h ed ud x) zs)) \<and> same_tables s t \<and> el_trace t = el_trace s)
    (cancel_loop h ed ud (last_addr ys) (hd_addr zs 0) k s)"
  using assms
proof (induction zs arbitrary: ys k s)
  case Nil
  then show ?case by (simp add: cancel_loop.simps)
next
  case (Cons a zs)
  obtain q x where a: "a = (q, x)" by force
  note mem = eloop_inv_mem [OF Cons.prems [unfolded a]]
  show ?case
  proof (cases "cancel_match h ed ud x")
    case True
    obtain t where t: "eloop_unlink (last_addr ys) (hd_addr zs 0) s \<bind> eloop_remove_timeout q = Some t"
      "eloop_inv g D (ys @ zs) t" "same_tables s t" "el_trace t = el_trace s"
      using eloop_remove_ok [OF Cons.prems [unfolded a]] by (auto simp: returns_iff)
    have "cancel_loop h ed ud (last_addr ys) q k s = cancel_loop h ed ud (last_addr ys) (hd_addr zs 0) (k + 1) t"
      using t(1) mem True
      by (subst cancel_loop.simps) (auto simp: Let_def bind_assoc [symmetric])
    with Cons.IH [OF t(2), of "k + 1"] t(3,4) True show ?thesis
      by (auto simp: a elim!: returns_mono intro: same_tables_trans)
  next
    case False
    have "cancel_loop h ed ud (last_addr ys) q k s = cancel_loop h ed ud q (hd_addr zs 0) k s"
      using mem False by (subst cancel_loop.simps) simp
    with Cons.IH [of "ys @ [(q, x)]" s k] Cons.prems False show ?thesis
      by (simp add: a)
  qed
qed


text \<open>The timeout with the given arguments, as it is registered in state \<open>s\<close>.\<close>

definition new_timer :: "u32 \<Rightarrow> u32 \<Rightarrow> addr \<Rightarrow> addr \<Rightarrow> addr \<Rightarrow> eloop_data \<Rightarrow> eloop_timeout" where
  "new_timer secs usecs h ed ud s =
     \<lparr>et_time = timeout_time (el_now s) secs usecs, et_eloop_data = ed, et_user_data = ud, et_handler = h, et_next = 0\<rparr>"

lemma same_tables_now: "same_tables s t \<Longrightarrow> el_now t = el_now s"
  by (simp add: same_tables_def)

lemma eloop_inv_emit [simp]: "eloop_inv g D xs (el_emit e s) = eloop_inv g D xs s" "same_tables s (el_emit e t) = same_tables s t"
  by (simp_all add: eloop_inv_def el_emit_def same_tables_def)

lemma register_place:
  assumes "eloop_inv g (insert p D) xs s" "p \<notin> D" "p \<noteq> 0" "el_mem s p = Some x" "et_next x = 0"
  shows "returns (\<lambda>(prev, t). \<exists>ys. eloop_inv g D ys t \<and> map snd ys = timer_insert x (map snd xs) \<and> same_tables s t \<and>
      el_trace t = el_trace s)
    (if el_timeout s = 0 then Some (0, s\<lparr>el_timeout := p\<rparr>)
     else do { prev \<leftarrow> register_scan (el_mem s) (et_time x) 0 (el_timeout s); t \<leftarrow> register_link p prev s; Some (prev, t) })"
proof -
  have inv: "linked (el_mem s) xs 0" "el_timeout s = hd_addr xs 0" using assms by (auto simp: eloop_inv_def)
  let ?P = "\<lambda>(q, y). not_later y x"
  define ys zs where "ys = takeWhile ?P xs" and "zs = dropWhile ?P xs"
  have xs: "xs = ys @ zs" by (simp add: ys_def zs_def)
  have ti: "map snd (ys @ (p, x) # zs) = timer_insert x (map snd xs)"
    by (simp add: timer_insert_def ys_def zs_def takeWhile_map dropWhile_map o_def case_prod_unfold)
  have "sorted_wrt not_later (map snd xs)" using assms(1) by (simp add: eloop_inv_def)
  then have sorted: "sorted_wrt not_later (map snd (ys @ (p, x) # zs))"
    unfolding ti by (rule timer_insert_sorted)
  have scan: "register_scan (el_mem s) (et_time x) 0 (el_timeout s) = Some (last_addr ys)"
    using register_scan_correct [OF inv(1)] by (simp add: inv(2) ys_def Let_def)
  have link: "returns (\<lambda>t. eloop_inv g D (ys @ (p, x) # zs) t \<and> same_tables s t \<and> el_trace t = el_trace s)
      (register_link p (last_addr ys) s)"
    using assms sorted xs by (intro register_link_ok) auto
  show ?thesis
  proof (cases "el_timeout s = 0")
    case True
    have "xs = []" using inv True by (cases xs) auto
    then have "register_link p (last_addr ys) s = Some (s\<lparr>el_timeout := p\<rparr>)"
      using assms(4,5) True by (simp add: register_link_def ys_def fun_upd_idem)
    with link ti True show ?thesis by (auto simp del: map_append)
  next
    case False
    obtain t where t: "register_link p (last_addr ys) s = Some t" "eloop_inv g D (ys @ (p, x) # zs) t" "same_tables s t"
        "el_trace t = el_trace s"
      using link by (auto simp: returns_iff)
    with False show ?thesis
      by (simp add: scan del: map_append if_split) (use ti in blast)
  qed
qed

lemma eloop_register_ok:
  assumes "eloop_inv g D xs s"
  shows "returns (\<lambda>(r, t). same_tables s t \<and>
      (if r = 0 then \<exists>ys. eloop_inv g D ys t \<and> map snd ys = timer_insert (new_timer secs usecs h ed ud s) (map snd xs)
       else r = -1 \<and> eloop_inv g D xs t \<and> (g \<longrightarrow> finite D \<longrightarrow> MAX_ELOOP_TIMEOUTS \<le> length xs + card D)))
    (eloop_register_timeout secs usecs h ed ud s)"
proof -
  let ?x = "new_timer secs usecs h ed ud s"
  obtain p t where p: "eloop_alloc s = Some (p, t)" "same_tables s t" and
    spec: "if p = 0 then eloop_inv g D xs t \<and> (g \<longrightarrow> finite D \<longrightarrow> MAX_ELOOP_TIMEOUTS \<le> length xs + card D)
      else p \<notin> D \<and> p \<notin> addrs xs \<and> eloop_inv g (insert p D) xs t"
    using eloop_alloc_ok [OF assms] by (elim returns_pairE) (simp only: prod.case, blast)
  show ?thesis
  proof (cases "p = 0")
    case True
    with p spec show ?thesis by (simp add: eloop_register_timeout_def)
  next
    case False
    let ?u = "t\<lparr>el_mem := (el_mem t)(p \<mapsto> ?x)\<rparr>"
    have u: "eloop_inv g (insert p D) xs ?u" "p \<notin> D"
      using spec False by (auto simp: eloop_inv_def)
    have node: "\<lparr>et_time = timeout_time (el_now t) secs usecs, et_eloop_data = ed, et_user_data = ud, et_handler = h, et_next = 0\<rparr> = ?x"
      using same_tables_now [OF p(2)] by (simp add: new_timer_def)
    have time: "timeout_time (el_now t) secs usecs = et_time ?x" by (simp flip: node)
    have su: "same_tables s ?u" using p(2) by (simp add: same_tables_def)
    show ?thesis
      using register_place [OF u False, of ?x] su False
      by (auto simp: eloop_register_timeout_def p(1) node time new_timer_def wp Let_def
          elim!: returns_mono intro: same_tables_trans)
  qed
qed

lemma eloop_cancel_ok:
  assumes "eloop_inv g D xs s"
  shows "returns (\<lambda>(n, t). eloop_inv g D (filter (\<lambda>(_, x). \<not> cancel_match h ed ud x) xs) t \<and>
      n = int (length (filter (\<lambda>(_, x). cancel_match h ed ud x) xs)) \<and> same_tables s t \<and> el_trace t = el_trace s)
    (eloop_cancel_timeout h ed ud s)"
proof -
  have "el_timeout s = hd_addr xs 0" using assms by (simp add: eloop_inv_def)
  then show ?thesis using cancel_loop_ok [of g D "[]" xs s h ed ud 0] assms
    by (simp add: eloop_cancel_timeout_def)
qed


lemma find_timeout_correct:
  "linked m xs 0 \<Longrightarrow>
     returns (\<lambda>r. map_option (\<lambda>n. n\<lparr>et_next := 0\<rparr>) r = map_option (\<lambda>n. n\<lparr>et_next := 0\<rparr>)
       (List.find (timeout_match h ed ud) (map snd xs))) (find_timeout m h ed ud (hd_addr xs 0))"
proof (induction xs)
  case Nil
  then show ?case by (simp add: find_timeout.simps)
next
  case (Cons a xs)
  then show ?case by (cases a) (subst find_timeout.simps, auto)
qed

lemma eloop_find_ok:
  assumes "eloop_inv g D xs s"
  shows "returns (\<lambda>r. map_option (\<lambda>n. n\<lparr>et_next := 0\<rparr>) r = List.find (timeout_match h ed ud) (map snd xs))
    (find_timeout (el_mem s) h ed ud (el_timeout s))"
proof -
  have inv: "linked (el_mem s) xs 0" "el_timeout s = hd_addr xs 0" "\<forall>x \<in> set (map snd xs). et_next x = 0"
    using assms by (auto simp: eloop_inv_def list_all_iff)
  have "map_option (\<lambda>n. n\<lparr>et_next := 0\<rparr>) (List.find P ys) = List.find P ys" if "\<forall>x \<in> set ys. et_next x = 0"
    for P and ys :: "eloop_timeout list"
    using that by (induction ys) auto
  with find_timeout_correct [OF inv(1), of h ed ud] inv show ?thesis by simp
qed

text \<open>Cancelling one timeout takes the first match out.\<close>

fun remove_first :: "('a \<Rightarrow> bool) \<Rightarrow> 'a list \<Rightarrow> 'a list" where
  "remove_first P [] = []"
| "remove_first P (x # xs) = (if P x then xs else x # remove_first P xs)"

definition time_left :: "os_time \<Rightarrow> os_time \<Rightarrow> os_time" where
  "time_left now t = (if os_time_before now t then os_reltime_sub t now else \<lparr>tsec = 0, tusec = 0\<rparr>)"

lemma cancel_one_loop_ok:
  assumes "eloop_inv g D (ys @ zs) s"
  shows "returns (\<lambda>(n, r, t). eloop_inv g D (ys @ remove_first (\<lambda>(_, x). timeout_match h ed ud x) zs) t \<and>
      (case List.find (timeout_match h ed ud) (map snd zs) of
         None \<Rightarrow> n = 0 \<and> r = \<lparr>tsec = 0, tusec = 0\<rparr>
       | Some x \<Rightarrow> n = 1 \<and> r = time_left (el_now s) (et_time x)) \<and> same_tables s t \<and> el_trace t = el_trace s)
    (cancel_one_loop h ed ud (last_addr ys) (hd_addr zs 0) s)"
  using assms
proof (induction zs arbitrary: ys s)
  case Nil
  then show ?case by (simp add: cancel_one_loop.simps)
next
  case (Cons a zs)
  obtain q x where a: "a = (q, x)" by force
  note mem = eloop_inv_mem [OF Cons.prems [unfolded a]]
  show ?case
  proof (cases "timeout_match h ed ud x")
    case True
    obtain u where u: "eloop_unlink (last_addr ys) (hd_addr zs 0) s = Some u" "eloop_inv g (insert q D) (ys @ zs) u"
      "same_tables s u" "el_trace u = el_trace s"
      using eloop_unlink_ok [OF Cons.prems [unfolded a]] by (auto simp: returns_iff)
    obtain t where t: "eloop_remove_timeout q u = Some t" "eloop_inv g D (ys @ zs) t" "same_tables u t" "el_trace t = el_trace u"
      using eloop_free_ok [OF u(2)] mem by (auto simp: returns_iff)
    have "cancel_one_loop h ed ud (last_addr ys) q s = Some (1, time_left (el_now s) (et_time x), t)"
      using mem True u(1) t(1) same_tables_now [OF u(3)]
      by (subst cancel_one_loop.simps) (simp add: Let_def time_left_def)
    with t u True show ?thesis by (auto simp: a intro: same_tables_trans)
  next
    case False
    have "cancel_one_loop h ed ud (last_addr ys) q s = cancel_one_loop h ed ud q (hd_addr zs 0) s"
      using mem False by (subst cancel_one_loop.simps) simp
    with Cons.IH [of "ys @ [(q, x)]" s] Cons.prems False show ?thesis
      by (simp add: a)
  qed
qed

lemma eloop_cancel_one_ok:
  assumes "eloop_inv g D xs s"
  shows "returns (\<lambda>(n, r, t). eloop_inv g D (remove_first (\<lambda>(_, x). timeout_match h ed ud x) xs) t \<and>
      (case List.find (timeout_match h ed ud) (map snd xs) of
         None \<Rightarrow> n = 0 \<and> r = \<lparr>tsec = 0, tusec = 0\<rparr>
       | Some x \<Rightarrow> n = 1 \<and> r = time_left (el_now s) (et_time x)) \<and> same_tables s t \<and> el_trace t = el_trace s)
    (eloop_cancel_timeout_one h ed ud s)"
proof -
  have "el_timeout s = hd_addr xs 0" using assms by (simp add: eloop_inv_def)
  then show ?thesis using cancel_one_loop_ok [of g D "[]" xs s h ed ud] assms
    by (simp add: eloop_cancel_timeout_one_def)
qed

lemma map_snd_remove_first: "map snd (remove_first (\<lambda>(_, x). P x) xs) = remove_first P (map snd xs)"
  by (induction xs) auto

lemma map_snd_filter: "map snd (filter (\<lambda>(_, x). P x) xs) = filter P (map snd xs)"
  by (induction xs) auto

lemma eloop_reregister_ok:
  assumes "eloop_inv g D xs s"
  shows "returns (\<lambda>(r, t). \<exists>ys. eloop_inv g D ys t \<and> same_tables s t \<and> r = 1 \<and>
      (let rest = filter (\<lambda>x. \<not> cancel_match h ed ud x) (map snd xs) in
       map snd ys = timer_insert (new_timer secs usecs h ed ud s) rest \<or> map snd ys = rest))
    (do { (_, s) \<leftarrow> eloop_cancel_timeout h ed ud s;
          (_, s) \<leftarrow> eloop_register_timeout secs usecs h ed ud s;
          Some (1 :: int, s) })"
proof -
  let ?xs = "filter (\<lambda>(_, x). \<not> cancel_match h ed ud x) xs"
  obtain n t where t: "eloop_cancel_timeout h ed ud s = Some (n, t)" "eloop_inv g D ?xs t" "same_tables s t"
    using eloop_cancel_ok [OF assms, of h ed ud] by (elim returns_pairE) auto
  have x: "new_timer secs usecs h ed ud t = new_timer secs usecs h ed ud s"
    using same_tables_now [OF t(3)] by (simp add: new_timer_def)
  obtain r u where u: "eloop_register_timeout secs usecs h ed ud t = Some (r, u)" "same_tables t u"
    "(\<exists>ys. eloop_inv g D ys u \<and> map snd ys = timer_insert (new_timer secs usecs h ed ud s) (map snd ?xs)) \<or> eloop_inv g D ?xs u"
    using eloop_register_ok [OF t(2), of secs usecs h ed ud]
    by (elim returns_pairE) (auto simp: x split: if_splits)
  from same_tables_trans [OF t(3) u(2)] u(3) show ?thesis
    by (auto simp: t(1) u(1) Let_def map_snd_filter)
qed

lemma eloop_deplete_ok:
  assumes "eloop_inv g D xs s"
  shows "returns (\<lambda>(r, t). \<exists>ys. eloop_inv g D ys t \<and> same_tables s t) (eloop_deplete_timeout secs usecs h ed ud s)"
  using eloop_find_ok [OF assms, of h ed ud] eloop_reregister_ok [OF assms, of h ed ud secs usecs] assms
  by (auto simp: eloop_deplete_timeout_def wp Let_def elim!: returns_mono)

lemma eloop_replenish_ok:
  assumes "eloop_inv g D xs s"
  shows "returns (\<lambda>(r, t). \<exists>ys. eloop_inv g D ys t \<and> same_tables s t) (eloop_replenish_timeout secs usecs h ed ud s)"
  using eloop_find_ok [OF assms, of h ed ud] eloop_reregister_ok [OF assms, of h ed ud secs usecs] assms
  by (auto simp: eloop_replenish_timeout_def wp Let_def elim!: returns_mono)

section \<open>Every call keeps the invariant\<close>

lemma sock_index_le: "sock_index xs sock \<le> length xs"
  by (induction xs) auto

lemma remove_sock_ok: "table_ok t \<Longrightarrow> returns table_ok (eloop_sock_table_remove_sock t sock)"
  using sock_index_le [of "take (st_count t) (the (st_table t))" sock]
  by (auto simp: eloop_sock_table_remove_sock_def table_ok_def Let_def wp split: option.split)

lemma add_sock_ok: "table_ok t \<Longrightarrow> table_ok (fst (snd (eloop_sock_table_add_sock ok t k mx)))"
  by (auto simp: eloop_sock_table_add_sock_def table_ok_def split: option.split)

lemma eloop_inv_fields [simp]:
  "eloop_inv g D xs (s\<lparr>max_sock := i\<rparr>) = eloop_inv g D xs s"
  "eloop_inv g D xs (s\<lparr>terminate := b\<rparr>) = eloop_inv g D xs s"
  "eloop_inv g D xs (s\<lparr>el_ticks := k\<rparr>) = eloop_inv g D xs s"
  "eloop_inv g D xs (s\<lparr>el_signals := sg\<rparr>) = eloop_inv g D xs s"
  "eloop_inv g D xs (s\<lparr>signal_count := n\<rparr>) = eloop_inv g D xs s"
  by (simp_all add: eloop_inv_def)

lemma eloop_put_table_ok:
  "eloop_inv g D xs s \<Longrightarrow> table_ok t \<Longrightarrow> eloop_inv g D xs (eloop_put_sock_table type t s)"
  by (cases type) (simp_all add: eloop_inv_def)

lemma eloop_get_table_ok: "eloop_inv g D xs s \<Longrightarrow> table_ok (eloop_get_sock_table type s)"
  by (cases type) (simp_all add: eloop_inv_def)

lemma eloop_call_ok:
  assumes "eloop_inv g D xs s"
  shows "returns (\<lambda>t. \<exists>ys. eloop_inv g D ys t) (eloop_call c s)"
proof (cases c)
  case (Register_timeout secs usecs h ed ud)
  with eloop_register_ok [OF assms, of secs usecs h ed ud] show ?thesis
    by (auto simp: wp elim!: returns_mono split: if_splits)
next
  case (Cancel_timeout h ed ud)
  with eloop_cancel_ok [OF assms, of h ed ud] show ?thesis by (auto simp: wp elim!: returns_mono)
next
  case (Cancel_timeout_one h ed ud)
  with eloop_cancel_one_ok [OF assms, of h ed ud] show ?thesis by (auto simp: wp elim!: returns_mono)
next
  case (Deplete_timeout secs usecs h ed ud)
  with eloop_deplete_ok [OF assms, of secs usecs h ed ud] show ?thesis by (auto simp: wp elim!: returns_mono)
next
  case (Replenish_timeout secs usecs h ed ud)
  with eloop_replenish_ok [OF assms, of secs usecs h ed ud] show ?thesis by (auto simp: wp elim!: returns_mono)
next
  case (Is_timeout_registered h ed ud)
  with eloop_find_ok [OF assms, of h ed ud] assms show ?thesis
    by (auto simp: eloop_is_timeout_registered_def wp elim!: returns_mono)
next
  case (Register_sock ok sock type h ed ud)
  with assms eloop_get_table_ok [OF assms, of type] show ?thesis
    by (auto simp: eloop_register_sock_def Let_def split_beta intro!: exI [of _ xs] eloop_put_table_ok add_sock_ok)
next
  case (Unregister_sock sock type)
  with remove_sock_ok [OF eloop_get_table_ok [OF assms, of type], of sock] assms show ?thesis
    by (auto simp: eloop_unregister_sock_def wp elim!: returns_mono intro!: exI [of _ xs] eloop_put_table_ok)
next
  case (Register_signal ok sig h ud)
  with assms show ?thesis by (auto simp: eloop_register_signal_def)
qed (use assms in \<open>auto simp: eloop_terminate_def\<close>)

lemma eloop_calls_ok:
  "eloop_inv g D xs s \<Longrightarrow> returns (\<lambda>t. \<exists>ys. eloop_inv g D ys t) (eloop_calls cs s)"
proof (induction cs arbitrary: xs s)
  case (Cons c cs)
  then show ?case using eloop_call_ok [OF Cons.prems, of c]
    by (auto simp: wp elim!: returns_mono)
qed auto

section \<open>The loop\<close>

lemma wait_time_ok: "eloop_inv g D xs s \<Longrightarrow> returns (\<lambda>_. True) (wait_time s)"
  by (cases xs) (auto simp: wait_time_def eloop_inv_def Let_def wp)

text \<open>Taking the first timeout out of the list before its handler is called.\<close>

lemma eloop_inv_pop:
  assumes "eloop_inv g D ((q, x) # xs) s"
  shows "eloop_inv g (insert q D) xs (s\<lparr>el_timeout := hd_addr xs 0\<rparr>)"
  using eloop_unlink_ok [of g D "[]" q x xs s] assms by (simp add: eloop_unlink_def)

lemma eloop_run_timeout_ok:
  assumes "eloop_inv g {} xs s"
  shows "returns (\<lambda>t. \<exists>ys. eloop_inv g {} ys t) (eloop_run_timeout cl s)"
proof (cases xs)
  case Nil
  with assms show ?thesis by (auto simp: eloop_run_timeout_def eloop_inv_def)
next
  case (Cons a zs)
  obtain q x where a: "a = (q, x)" by force
  have inv: "eloop_inv g {} ([] @ (q, x) # zs) s" using assms by (simp add: Cons a)
  note mem = eloop_inv_mem [OF inv]
  have first: "el_timeout s = q" using inv by (simp add: eloop_inv_def)
  let ?s = "el_emit (Timeout_handler (et_handler x) (et_eloop_data x) (et_user_data x)) (s\<lparr>el_timeout := hd_addr zs 0\<rparr>)"
  have pop: "eloop_inv g (insert q {}) zs ?s" using eloop_inv_pop [of g "{}" q x zs s] inv by simp
  show ?thesis
    using assms mem first
    by (auto simp: eloop_run_timeout_def wp elim!: returns_mono intro!: returns_mono [OF eloop_calls_ok [OF pop]]
        returns_mono [OF eloop_free_ok])
qed

lemma eloop_run_iteration_ok:
  assumes "eloop_inv g {} xs s"
  shows "returns (\<lambda>t. \<exists>ys. eloop_inv g {} ys t) (eloop_run_iteration cl flags ticks s)"
proof -
  obtain w where w: "wait_time s = Some w" using wait_time_ok [OF assms] by (auto simp: returns_iff)
  have "eloop_inv g {} xs ((el_emit (Wait w) s)\<lparr>el_ticks := ticks\<rparr>)" using assms by simp
  from eloop_run_timeout_ok [OF this, of cl] show ?thesis
    by (auto simp: eloop_run_iteration_def w Let_def wp elim!: returns_mono intro: eloop_calls_ok)
qed


text \<open>What happens to the event loop: a call from another component or an iteration of \<open>eloop_run\<close>.\<close>

datatype el_event = Call el_call | Iteration u32 u64

fun eloop_step :: "eloop_client \<Rightarrow> eloop_data option \<Rightarrow> el_event \<Rightarrow> eloop_data option" where
  "eloop_step cl r (Call c) = r \<bind> eloop_call c"
| "eloop_step cl r (Iteration flags ticks) =
     do { s \<leftarrow> r; if eloop_running s then eloop_run_iteration cl flags ticks s else Some s }"

definition eloop_ok :: "bool \<Rightarrow> eloop_data \<Rightarrow> bool" where
  "eloop_ok g s \<longleftrightarrow> (\<exists>xs. eloop_inv g {} xs s)"

interpretation el: event_machine "eloop_step cl" "\<lambda>_. True" "returns (eloop_ok g)"
proof (unfold_locales)
  fix r e
  assume "returns (eloop_ok g) r"
  then obtain s xs where s: "r = Some s" "eloop_inv g {} xs s" by (auto simp: returns_iff eloop_ok_def)
  have ok: "eloop_ok g = (\<lambda>t. \<exists>ys. eloop_inv g {} ys t)" by (simp add: fun_eq_iff eloop_ok_def)
  show "returns (eloop_ok g) (eloop_step cl r e)"
    using eloop_call_ok [OF s(2)] eloop_run_iteration_ok [OF s(2)] s
    by (cases e) (auto simp: ok wp)
qed

lemma eloop_init_ok:
  assumes "eloop_init buf z1 status z2 locks s0 = Some (0, s)" "\<not> eloop_init_done s0" "el_mem s0 = Map.empty"
  shows "eloop_inv (list_all id locks) {} [] s"
proof -
  obtain p where p: "ba_pool_create z1 status z2 locks 32 buf 3200 = Some (Some p)" "eloop_pool s = Some p"
    "el_mem s = Map.empty" "el_timeout s = 0" "readers s = empty_table" "writers s = empty_table" "exceptions s = empty_table"
    using assms
    by (auto simp: eloop_init_def eloop_alloc_init_def Let_def split: if_splits bind_splits option.splits)
  have "pool_mutex p = locks" using p(1) by (auto simp: ba_pool_create_def split: if_splits)
  with p ba_pool_create_wf [OF p(1)] show ?thesis
    by (simp add: eloop_inv_def pool_rep_def table_ok_def empty_table_def)
qed

text \<open>C35. Memory safety of the event loop. After its initialisation, whatever calls other components make, also from the handlers of
  timeouts and from the processing of events, and however the waits end, no operation reads or writes a block that is not allocated, every
  loop ends, and the timeouts form a list of distinct blocks of the pool that is sorted by time. When no call of the mutex
  fails, the allocated blocks are exactly the blocks of that list: none is lost.\<close>

theorem eloop_safe:
  assumes "eloop_init buf z1 status z2 locks s0 = Some (0, s)" "\<not> eloop_init_done s0" "el_mem s0 = Map.empty"
  shows "returns (\<lambda>t. \<exists>xs b. eloop_pool t = Some b \<and> linked (el_mem t) xs 0 \<and> el_timeout t = hd_addr xs 0 \<and>
      distinct (map fst xs) \<and> dom (el_mem t) = addrs xs \<and> sorted_wrt not_later (map snd xs) \<and>
      addrs xs \<subseteq> block_addr b ` used_blocks b \<and>
      (list_all id locks \<longrightarrow> addrs xs = block_addr b ` used_blocks b))
    (foldl (eloop_step cl) (Some s) es)"
proof -
  have "returns (eloop_ok (list_all id locks)) (foldl (eloop_step cl) (Some s) es)"
    using eloop_init_ok [OF assms] by (intro el.run_inv) (auto simp: eloop_ok_def list_all_length)
  then show ?thesis
    by (auto simp: eloop_ok_def eloop_inv_def pool_rep_def returns_iff)
qed


text \<open>An idle event loop, as an example: ten ticks per second, no client.\<close>

definition demo_eloop0 :: eloop_data where
  "demo_eloop0 = \<lparr>max_sock = 0, readers = empty_table, writers = empty_table, exceptions = empty_table, el_timeout = 0,
     signal_count = 0, el_signals = None, terminate = False, eloop_init_done = False, eloop_pool = None,
     eloop_timeout_pool_buf = 0, el_mem = Map.empty, el_hz = 10, el_ticks = 0, el_trace = []\<rparr>"

definition demo_pool :: pool_info where
  "demo_pool = \<lparr>pool_head = 4, bitmap = replicate 4 0, max_block_count = 100, block_size = 32, pool_mutex = []\<rparr>"

definition demo_eloop :: eloop_data where
  "demo_eloop = demo_eloop0\<lparr>eloop_pool := Some demo_pool, eloop_timeout_pool_buf := 4, eloop_init_done := True\<rparr>"

definition idle_client :: eloop_client where
  "idle_client = \<lparr>on_timeout = (\<lambda>_ _ _ _. []), on_event = (\<lambda>_. [])\<rparr>"

lemma demo_eloop_init: "eloop_init 4 True True True [] demo_eloop0 = Some (0, demo_eloop)"
  by (simp add: eloop_init_def eloop_alloc_init_def ba_pool_create_def ba_align32_words demo_eloop0_def demo_eloop_def
      demo_pool_def)

theorem eloop_safe_witness:
  "returns (\<lambda>t. \<exists>xs b. eloop_pool t = Some b \<and> linked (el_mem t) xs 0 \<and> el_timeout t = hd_addr xs 0 \<and>
      distinct (map fst xs) \<and> dom (el_mem t) = addrs xs \<and> sorted_wrt not_later (map snd xs) \<and>
      addrs xs \<subseteq> block_addr b ` used_blocks b \<and>
      (list_all id [] \<longrightarrow> addrs xs = block_addr b ` used_blocks b))
    (foldl (eloop_step idle_client) (Some demo_eloop)
      [Call (Register_timeout 5 0 7 1 2), Call (Register_timeout 3 0 7 1 3), Iteration 0 40, Call (Cancel_timeout 7 1 2)])"
  by (rule eloop_safe [OF demo_eloop_init]) (simp_all add: demo_eloop0_def)

section \<open>Refinement\<close>

text \<open>\<open>eloop_rep g s ts\<close>: in state \<open>s\<close> the timeouts are \<open>ts\<close>.\<close>

definition eloop_rep :: "bool \<Rightarrow> eloop_data \<Rightarrow> eloop_timeout list \<Rightarrow> bool" where
  "eloop_rep g s ts \<longleftrightarrow> (\<exists>xs. eloop_inv g {} xs s \<and> map snd xs = ts)"

text \<open>C36. The operations on timeouts, which work on the linked list in the pool, refine operations on a list of timeouts. Registering
  inserts the timeout behind those of an earlier or the same time, and fails only when the mutex fails or 100 timeouts exist.
  Cancelling takes out all matches, with the wildcard, and counts them. Cancelling one takes out the first exact match and
  gives its remaining time. The query answers whether an exact match exists.\<close>

theorem eloop_timeouts_refine:
  assumes "eloop_rep g s ts"
  shows "returns (\<lambda>(r, t). if r = 0 then eloop_rep g t (timer_insert (new_timer secs usecs h ed ud s) ts)
        else r = -1 \<and> eloop_rep g t ts \<and> (g \<longrightarrow> MAX_ELOOP_TIMEOUTS \<le> length ts)) (eloop_register_timeout secs usecs h ed ud s) \<and>
      returns (\<lambda>(n, t). eloop_rep g t (filter (\<lambda>x. \<not> cancel_match h ed ud x) ts) \<and>
        n = int (length (filter (cancel_match h ed ud) ts))) (eloop_cancel_timeout h ed ud s) \<and>
      returns (\<lambda>(n, r, t). eloop_rep g t (remove_first (timeout_match h ed ud) ts) \<and>
        (case List.find (timeout_match h ed ud) ts of
           None \<Rightarrow> n = 0
         | Some x \<Rightarrow> n = 1 \<and> r = time_left (el_now s) (et_time x))) (eloop_cancel_timeout_one h ed ud s) \<and>
      eloop_is_timeout_registered h ed ud s = Some (if \<exists>x \<in> set ts. timeout_match h ed ud x then 1 else 0)"
proof (intro conjI)
  obtain xs where xs: "eloop_inv g {} xs s" "ts = map snd xs" using assms by (auto simp: eloop_rep_def)
  show "returns (\<lambda>(r, t). if r = 0 then eloop_rep g t (timer_insert (new_timer secs usecs h ed ud s) ts)
      else r = -1 \<and> eloop_rep g t ts \<and> (g \<longrightarrow> MAX_ELOOP_TIMEOUTS \<le> length ts)) (eloop_register_timeout secs usecs h ed ud s)"
    using eloop_register_ok [OF xs(1), of secs usecs h ed ud]
    by (auto simp: eloop_rep_def xs(2) elim!: returns_mono split: if_splits)
  show "returns (\<lambda>(n, t). eloop_rep g t (filter (\<lambda>x. \<not> cancel_match h ed ud x) ts) \<and>
      n = int (length (filter (cancel_match h ed ud) ts))) (eloop_cancel_timeout h ed ud s)"
    using eloop_cancel_ok [OF xs(1), of h ed ud] map_snd_filter [of "\<lambda>x. \<not> cancel_match h ed ud x" xs]
      arg_cong [OF map_snd_filter [of "cancel_match h ed ud" xs], of length]
    by (auto simp: eloop_rep_def xs(2) simp del: length_filter_map elim!: returns_mono)
  show "returns (\<lambda>(n, r, t). eloop_rep g t (remove_first (timeout_match h ed ud) ts) \<and>
      (case List.find (timeout_match h ed ud) ts of
         None \<Rightarrow> n = 0
       | Some x \<Rightarrow> n = 1 \<and> r = time_left (el_now s) (et_time x))) (eloop_cancel_timeout_one h ed ud s)"
    using eloop_cancel_one_ok [OF xs(1), of h ed ud] map_snd_remove_first [of "timeout_match h ed ud" xs]
    by (auto simp: eloop_rep_def xs(2) elim!: returns_mono split: option.splits)
  show "eloop_is_timeout_registered h ed ud s = Some (if \<exists>x \<in> set ts. timeout_match h ed ud x then 1 else 0)"
    using eloop_find_ok [OF xs(1), of h ed ud] find_None_iff [of "timeout_match h ed ud" ts]
    by (auto simp: eloop_is_timeout_registered_def xs(2) returns_iff)
qed


lemma eloop_inv_rep: "eloop_inv g {} xs s \<Longrightarrow> eloop_rep g s (map snd xs)"
  by (auto simp: eloop_rep_def)

lemma demo_eloop_rep: "eloop_rep True demo_eloop []"
  using eloop_inv_rep [OF eloop_init_ok [OF demo_eloop_init]] by (simp add: demo_eloop0_def)

theorem eloop_timeouts_refine_witness:
  "returns (\<lambda>(r, t). if r = 0 then eloop_rep True t (timer_insert (new_timer 5 0 7 1 2 demo_eloop) [])
        else r = -1 \<and> eloop_rep True t [] \<and> (True \<longrightarrow> MAX_ELOOP_TIMEOUTS \<le> length ([] :: eloop_timeout list)))
      (eloop_register_timeout 5 0 7 1 2 demo_eloop)"
  using eloop_timeouts_refine [OF demo_eloop_rep, of 5 0 7 1 2] by (rule conjunct1)

section \<open>Dispatching\<close>

definition handler_call :: "eloop_timeout \<Rightarrow> eloop_effect" where
  "handler_call x = Timeout_handler (et_handler x) (et_eloop_data x) (et_user_data x)"

fun is_handler_call :: "eloop_effect \<Rightarrow> bool" where
  "is_handler_call (Timeout_handler _ _ _) = True"
| "is_handler_call _ = False"

definition dispatched :: "eloop_data \<Rightarrow> eloop_effect list" where
  "dispatched s = filter is_handler_call (el_trace s)"

definition is_due :: "os_time \<Rightarrow> eloop_timeout \<Rightarrow> bool" where
  "is_due now x \<longleftrightarrow> \<not> os_time_before now (et_time x)"

lemma due_prefix:
  "sorted_wrt not_later ts \<Longrightarrow> takeWhile (is_due now) ts = filter (is_due now) ts \<and>
     dropWhile (is_due now) ts = filter (\<lambda>x. \<not> is_due now x) ts"
proof (induction ts)
  case (Cons x ts)
  show ?case
  proof (cases "is_due now x")
    case True
    with Cons show ?thesis by simp
  next
    case False
    then have "os_time_before now (et_time y)" if "y \<in> set ts" for y
      using Cons.prems that os_time_not_before_trans [of "et_time y" "et_time x" now] by (auto simp: is_due_def)
    with False show ?thesis by (auto simp: is_due_def filter_empty_conv filter_id_conv)
  qed
qed simp

lemma eloop_idle_iteration:
  fixes ticks :: u64
  assumes "eloop_inv g {} xs s" "on_timeout cl = (\<lambda>_ _ _ _. [])"
  defines "now \<equiv> os_get_time (el_hz s) ticks"
  defines "n \<equiv> length (take 1 (takeWhile (is_due now) (map snd xs)))"
  shows "returns (\<lambda>t. eloop_inv g {} (drop n xs) t \<and>
      dispatched t = dispatched s @ map handler_call (take n (map snd xs)) \<and> el_hz t = el_hz s \<and> terminate t = terminate s)
    (eloop_run_iteration cl 0 ticks s)"
proof -
  obtain w where w: "wait_time s = Some w" using wait_time_ok [OF assms(1)] by (auto simp: returns_iff)
  let ?s = "(el_emit (Wait w) s)\<lparr>el_ticks := ticks\<rparr>"
  have s: "eloop_inv g {} xs ?s" "dispatched ?s = dispatched s" "el_now ?s = now" "el_hz ?s = el_hz s" "terminate ?s = terminate s"
    using assms(1) by (simp, simp_all add: dispatched_def el_emit_def now_def)
  have "returns (\<lambda>t. eloop_inv g {} (drop n xs) t \<and>
      dispatched t = dispatched s @ map handler_call (take n (map snd xs)) \<and> el_hz t = el_hz s \<and> terminate t = terminate s)
    (eloop_run_timeout cl ?s)"
  proof (cases xs)
    case Nil
    with s show ?thesis by (simp add: eloop_run_timeout_def n_def eloop_inv_def)
  next
    case (Cons a zs)
    obtain q x where a: "a = (q, x)" by force
    have inv: "eloop_inv g {} ([] @ (q, x) # zs) ?s" using s(1) by (simp add: Cons a)
    note mem = eloop_inv_mem [OF inv]
    have first: "el_timeout ?s = q" using inv by (simp add: eloop_inv_def)
    let ?t = "el_emit (handler_call x) (?s\<lparr>el_timeout := hd_addr zs 0\<rparr>)"
    have pop: "eloop_inv g (insert q {}) zs ?t" using eloop_inv_pop [of g "{}" q x zs ?s] inv by simp
    show ?thesis
    proof (cases "is_due now x")
      case True
      have "eloop_run_timeout cl ?s = eloop_remove_timeout q ?t"
        using True mem first s(3)
        by (simp add: eloop_run_timeout_def assms(2) is_due_def handler_call_def)
      moreover have "n = 1" using True by (simp add: n_def Cons a)
      ultimately show ?thesis using eloop_free_ok [OF pop] s
        by (auto simp: Cons a dispatched_def el_emit_def handler_call_def same_tables_def elim!: returns_mono)
    next
      case False
      have "eloop_run_timeout cl ?s = Some ?s"
        using False mem first s(3) by (simp add: eloop_run_timeout_def is_due_def)
      moreover have "n = 0" using False by (simp add: n_def Cons a)
      ultimately show ?thesis using s by simp
    qed
  qed
  then show ?thesis by (simp add: eloop_run_iteration_def w Let_def wp)
qed


lemma eloop_idle_run:
  assumes "eloop_inv g {} xs s" "on_timeout cl = (\<lambda>_ _ _ _. [])" "\<not> terminate s"
  shows "returns (\<lambda>t. let n = length (take k (takeWhile (is_due (os_get_time (el_hz s) ticks)) (map snd xs))) in
      eloop_inv g {} (drop n xs) t \<and> dispatched t = dispatched s @ map handler_call (take n (map snd xs)))
    (eloop_run cl (replicate k (0, ticks)) s)"
  using assms(1,3)
proof (induction k arbitrary: xs s)
  case 0
  then show ?case by simp
next
  case (Suc k)
  let ?now = "os_get_time (el_hz s) ticks"
  show ?case
  proof (cases "eloop_running s")
    case False
    then have "xs = []" using Suc.prems by (cases xs) (auto simp: eloop_running_def eloop_inv_def)
    with False Suc.prems show ?thesis by simp
  next
    case True
    let ?n = "length (take 1 (takeWhile (is_due ?now) (map snd xs)))"
    obtain t where t: "eloop_run_iteration cl 0 ticks s = Some t" "eloop_inv g {} (drop ?n xs) t"
      "dispatched t = dispatched s @ map handler_call (take ?n (map snd xs))" "el_hz t = el_hz s" "terminate t = terminate s"
      using eloop_idle_iteration [OF Suc.prems(1) assms(2), of ticks] by (auto simp: returns_iff)
    have "\<not> terminate t" using t(5) Suc.prems by simp
    note IH = Suc.IH [OF t(2) this]
    show ?thesis
    proof (cases xs)
      case Nil
      with IH t True show ?thesis by (auto simp: Let_def elim!: returns_mono)
    next
      case (Cons a zs)
      show ?thesis
      proof (cases "is_due ?now (snd a)")
        case True
        then have "?n = 1" by (simp add: Cons)
        with IH t True \<open>eloop_running s\<close> show ?thesis
          by (auto simp: Let_def Cons drop_map elim!: returns_mono)
      next
        case False
        then have "?n = 0" by (simp add: Cons)
        with IH t False \<open>eloop_running s\<close> show ?thesis
          by (auto simp: Let_def Cons elim!: returns_mono)
      qed
    qed
  qed
qed


definition demo_timer :: "u32 \<Rightarrow> eloop_timeout" where
  "demo_timer secs = new_timer secs 0 7 8 9 demo_eloop"

lemma demo_timer_time: "et_time (demo_timer 3) = \<lparr>tsec = 3, tusec = 0\<rparr>" "et_time (demo_timer 5) = \<lparr>tsec = 5, tusec = 0\<rparr>"
  by (code_simp, code_simp)

lemma demo_two_timers:
  "\<exists>s. eloop_rep True s [demo_timer 3, demo_timer 5] \<and> \<not> terminate s \<and> el_hz s = 10"
proof -
  obtain xs where xs: "eloop_inv True {} xs demo_eloop" "map snd xs = []"
    using demo_eloop_rep by (auto simp: eloop_rep_def)
  obtain r t where t: "same_tables demo_eloop t" "\<exists>q. eloop_inv True {} [(q, demo_timer 5)] t"
    using eloop_register_ok [OF xs(1), of 5 0 7 8 9] xs(2)
    by (elim returns_pairE) (auto simp: timer_insert_def demo_timer_def [symmetric] map_eq_Cons_conv split: if_splits)
  then obtain ys where ys: "eloop_inv True {} ys t" "map snd ys = [demo_timer 5]" by auto
  have n: "new_timer 3 0 7 8 9 t = demo_timer 3" using same_tables_now [OF t(1)] by (simp add: demo_timer_def new_timer_def)
  have i: "timer_insert (demo_timer 3) [demo_timer 5] = [demo_timer 3, demo_timer 5]"
    by (simp add: timer_insert_def demo_timer_time os_time_before_def)
  obtain r u where u: "same_tables t u" "\<exists>p q. eloop_inv True {} [(p, demo_timer 3), (q, demo_timer 5)] u"
    using eloop_register_ok [OF ys(1), of 3 0 7 8 9] ys(2)
    by (elim returns_pairE) (auto simp: n i map_eq_Cons_conv split: if_splits)
  have "\<not> terminate u \<and> el_hz u = 10"
    using t(1) u(1) by (simp add: same_tables_def demo_eloop_def demo_eloop0_def)
  moreover have "eloop_rep True u [demo_timer 3, demo_timer 5]" using u(2) by (force simp: eloop_rep_def)
  ultimately show ?thesis by blast
qed


section \<open>Limits of the clock\<close>

text \<open>The clock of the port counts milliseconds in 32 bits.\<close>

lemma os_get_time_bound: "tsec (os_get_time hz tick) \<le> 4294967"
proof -
  let ?m = "unat (TICKS_TO_MSEC hz tick)"
  have "?m < 2 ^ 32" using unsigned_less [of "TICKS_TO_MSEC hz tick", where ?'a = nat] by simp
  then have "unat (ucast (TICKS_TO_MSEC hz tick) div 1000 :: u64) \<le> 4294967"
    by (simp add: unat_div unsigned_ucast_eq take_bit_word_eq_self take_bit_nat_eq_self)
  then show ?thesis by (simp add: os_get_time_def word_le_nat_alt)
qed

lemma time_normalise_done: "tusec t < 1000000 \<Longrightarrow> time_normalise t = t"
  by (subst time_normalise.simps) simp

text \<open>C40. A timeout whose time lies behind the last second that the clock of the port can show (about 49.7 days after the start,
  when the 32-bit count of milliseconds wraps to 0) is never due, at no tick and for no tick rate: the event loop never calls its
  handler. Timeouts registered shortly before the wrap are such timeouts.\<close>

theorem eloop_timeout_lost:
  assumes "tsec (el_now s) + ucast secs > 4294967" "tusec (el_now s) + ucast usecs < 1000000"
  shows "\<not> is_due (os_get_time hz tick) (new_timer secs usecs h ed ud s)"
proof -
  have "et_time (new_timer secs usecs h ed ud s) = \<lparr>tsec = tsec (el_now s) + ucast secs, tusec = tusec (el_now s) + ucast usecs\<rparr>"
    using assms(2) by (simp add: new_timer_def timeout_time_def time_normalise_done)
  with assms(1) os_get_time_bound [of hz tick] show ?thesis
    by (auto simp: is_due_def os_time_before_def)
qed

theorem eloop_timeout_lost_witness:
  "\<not> is_due (os_get_time 1000 4294967296) (new_timer 1 0 7 1 2 (demo_eloop\<lparr>el_hz := 1000, el_ticks := 4294967000\<rparr>))"
proof (rule eloop_timeout_lost)
  have now: "el_now (demo_eloop\<lparr>el_hz := 1000, el_ticks := 4294967000\<rparr>) = \<lparr>tsec = 4294967, tusec = 0\<rparr>"
    by (simp add: os_get_time_def TICKS_TO_MSEC_def)
  show "4294967 < tsec (el_now (demo_eloop\<lparr>el_hz := 1000, el_ticks := 4294967000\<rparr>)) + ucast (1 :: u32)"
    "tusec (el_now (demo_eloop\<lparr>el_hz := 1000, el_ticks := 4294967000\<rparr>)) + ucast (0 :: u32) < 1000000"
    by (simp_all only: now) simp_all
qed


section \<open>Time that has passed\<close>

lemma overdue_remaining:
  assumes "tsec t < tsec (os_get_time hz tick)"
  shows "os_time_before \<lparr>tsec = ucast (secs :: u32), tusec = us\<rparr> (os_reltime_sub t (os_get_time hz tick))"
    and "\<not> os_time_before (os_reltime_sub t (os_get_time hz tick)) \<lparr>tsec = ucast (secs :: u32), tusec = us\<rparr>"
proof -
  let ?now = "os_get_time hz tick"
  have r: "tsec (os_reltime_sub t ?now) = tsec t - tsec ?now"
    by (simp add: os_reltime_sub_def os_get_time_def)
  have b: "unat (tsec ?now) \<le> 4294967" using os_get_time_bound [of hz tick] by (simp add: word_le_nat_alt)
  have "unat (tsec t - tsec ?now) = unat (tsec t) + 2 ^ 64 - unat (tsec ?now)"
    using assms by (simp add: unat_sub_if' word_less_nat_alt)
  moreover have "unat (ucast secs :: u64) < 2 ^ 32"
    using unsigned_less [of secs, where ?'a = nat]
    by (simp add: unsigned_ucast_eq take_bit_nat_eq_self)
  ultimately have "ucast secs < tsec t - tsec ?now" using b by (simp add: word_less_nat_alt)
  then show "os_time_before \<lparr>tsec = ucast secs, tusec = us\<rparr> (os_reltime_sub t ?now)"
    "\<not> os_time_before (os_reltime_sub t ?now) \<lparr>tsec = ucast secs, tusec = us\<rparr>"
    using r by (auto simp: os_time_before_def)
qed

text \<open>C39. The remaining time of a timeout is computed in unsigned arithmetic, so that for a timeout that is overdue it is a number of seconds
  near \<open>2 ^ 64\<close>: \<open>eloop_deplete_timeout\<close>, which is to shorten a timeout, postpones the overdue timeout to the
  requested time from now, and \<open>eloop_replenish_timeout\<close>, which is to extend a timeout that has less than the requested time left,
  changes nothing.\<close>

theorem eloop_overdue_postponed:
  assumes "eloop_rep g s ts" "List.find (timeout_match h ed ud) ts = Some x" "tsec (et_time x) < tsec (el_now s)"
  shows "returns (\<lambda>(r, t). r = 1 \<and>
        (let rest = filter (\<lambda>y. \<not> cancel_match h ed ud y) ts in
         eloop_rep g t (timer_insert (new_timer secs usecs h ed ud s) rest) \<or> eloop_rep g t rest))
      (eloop_deplete_timeout secs usecs h ed ud s) \<and>
    eloop_replenish_timeout secs usecs h ed ud s = Some (0, s)"
proof -
  obtain xs where xs: "eloop_inv g {} xs s" "map snd xs = ts" using assms(1) by (auto simp: eloop_rep_def)
  obtain n where n: "find_timeout (el_mem s) h ed ud (el_timeout s) = Some (Some n)" "et_time n = et_time x"
  proof -
    obtain r where r: "find_timeout (el_mem s) h ed ud (el_timeout s) = Some r"
      "map_option (\<lambda>n. n\<lparr>et_next := 0\<rparr>) r = Some x"
      using eloop_find_ok [OF xs(1), of h ed ud] assms(2) xs(2) by (auto simp: returns_iff)
    then obtain m where "r = Some m" "m\<lparr>et_next := 0\<rparr> = x" by (cases r) auto
    then show thesis using that [of m] r(1) by (cases m) auto
  qed
  note late = overdue_remaining [OF assms(3) [folded n(2)], of secs "ucast usecs"]
  show ?thesis
    using eloop_reregister_ok [OF xs(1), of h ed ud secs usecs]
    by (auto simp: eloop_deplete_timeout_def eloop_replenish_timeout_def n(1) late Let_def eloop_rep_def xs(2)
        elim!: returns_mono)
qed


theorem eloop_overdue_postponed_witness:
  "\<exists>s. eloop_rep True s [demo_timer 3, demo_timer 5] \<and> el_now s = \<lparr>tsec = 5, tusec = 0\<rparr> \<and>
     returns (\<lambda>(r, t). r = 1 \<and> (eloop_rep True t [new_timer 60 0 7 8 9 s] \<or> eloop_rep True t []))
       (eloop_deplete_timeout 60 0 7 8 9 s) \<and>
     eloop_replenish_timeout 60 0 7 8 9 s = Some (0, s)"
proof -
  obtain s0 where s0: "eloop_rep True s0 [demo_timer 3, demo_timer 5]" "el_hz s0 = 10"
    using demo_two_timers by blast
  let ?s = "s0\<lparr>el_ticks := 50\<rparr>"
  have rep: "eloop_rep True ?s [demo_timer 3, demo_timer 5]" using s0(1) by (simp add: eloop_rep_def)
  have "os_get_time 10 50 = \<lparr>tsec = 5, tusec = 0\<rparr>" by code_simp
  then have now: "el_now ?s = \<lparr>tsec = 5, tusec = 0\<rparr>" by (simp add: s0(2))
  have find: "List.find (timeout_match 7 8 9) [demo_timer 3, demo_timer 5] = Some (demo_timer 3)"
    and rest: "filter (\<lambda>y. \<not> cancel_match 7 8 9 y) [demo_timer 3, demo_timer 5] = []"
    by (simp_all add: timeout_match_def cancel_match_def demo_timer_def new_timer_def)
  have late: "tsec (et_time (demo_timer 3)) < tsec (el_now ?s)" unfolding now demo_timer_time by simp
  have "timer_insert z [] = [z]" for z by (simp add: timer_insert_def)
  with eloop_overdue_postponed [OF rep find late, of 60 0] rep now show ?thesis
    unfolding rest Let_def by (intro exI [of _ ?s]) simp
qed

end
