(* ===== verification/Spec2Isabelle.thy ===== *)
theory Spec2Isabelle
  imports Base64 Eapol_props Pmksa_spec Wpa_sm_wpa1 Wpa_sm_safe Rsn_ie_props Eloop_props
begin

text \<open>
  A verification development for the supplicant of \<open>wpa_supplicant\<close> in its FreeRTOS port: the code
  that authenticates a station to a Wi-Fi network and negotiates its keys.

  \<^bold>\<open>The program and its parts.\<close> Frames of EtherType 0x888E reach the supplicant through the driver. EAP packets go to the
  EAPOL state machines (\<open>src/src/eapol_supp\<close>), which drive the EAP peer state machine
  (\<open>src/src/eap_peer/eap.c\<close>) and through it an EAP method; the key that the method derives becomes
  the PMK. EAPOL-Key frames go to the RSN state machine (\<open>src/src/rsn_supp/wpa.c\<close>), which takes the PMK
  from the EAPOL machines, from the configuration or from the PMKSA cache
  (\<open>src/src/rsn_supp/pmksa_cache.c\<close>), runs the 4-way and the group key handshake, and hands the
  keys to the driver. The parts share the buffers (\<open>src/src/utils/wpabuf.c\<close>), the byte order macros and the
  functions of \<open>src/src/common/wpa_common.c\<close> for suites, elements, MICs and key derivation.

  \<^bold>\<open>Theories.\<close>
  \<^item> \<open>Prelude\<close>: byte arrays with checked reads and writes (\<open>rd8\<close>, \<open>rdn\<close>, \<open>wrn\<close>: \<^const>\<open>None\<close> for an access
    outside the object), the predicates \<open>returns\<close> (total correctness) and \<open>yields\<close> (partial correctness) with their
    rule collections \<open>wp\<close> and \<open>wlp\<close>, \<open>os_memcmp\<close>, and the locale \<open>event_machine\<close>: an invariant that
    every event keeps holds after every run.
  \<^item> \<open>Byteorder\<close>, \<open>Wpabuf\<close>, \<open>Base64\<close>: \<open>utils/common.h\<close>, \<open>utils/wpabuf.[ch]\<close> and \<open>utils/base64.c\<close>.
  \<^item> \<open>Eap_common\<close>: \<open>eap_common/eap_common.c\<close>, headers, ERP TLVs and messages.
  \<^item> \<open>Eapol_vars\<close>, \<open>Eap_peer\<close>, \<open>Eap_peer_props\<close>: the variables that EAP and EAPOL share and
    \<open>eap_peer/eap.c\<close>. A state of the machine is a value of \<open>eap_states\<close>, \<open>SM_STEP_EAP\<close> is one transition with the
    entry action, \<open>eap_peer_sm_step\<close> the loop until no state changes. A method is a parameter.
  \<^item> \<open>Rc4\<close>, \<open>Eapol_supp\<close>, \<open>Eapol_props\<close>: \<open>crypto/rc4.c\<close> and \<open>eapol_supp/eapol_supp_sm.c\<close> with its
    Supplicant PAE, key reception and backend machines, timers and key frames.
  \<^item> \<open>Wpa_defs\<close>: the suite bits and predicates of \<open>common/defs.h\<close>.
  \<^item> \<open>Pmksa_cache\<close>, \<open>Pmksa_props\<close>, \<open>Pmksa_spec\<close>: \<open>rsn_supp/pmksa_cache.c\<close>. Entries live in a heap
    (\<open>pmksa_heap\<close>), so that use after free is an access to an address that is not allocated; the
    list is the order of \<open>pmksa->pmksa\<close>. \<open>Pmksa_spec\<close> is the abstract map that the cache implements.
  \<^item> \<open>Kdf\<close>, \<open>Aes_wrap\<close>: the PRFs and KDFs of \<open>crypto/sha*-prf.c\<close> and the key wrap of
    \<open>crypto/aes-wrap.c\<close> and \<open>aes-unwrap.c\<close>, over the hashes and the block cipher of the crypto backend.
  \<^item> \<open>Wpa_common\<close>, \<open>Wpa_kde\<close>: the parts of \<open>common/wpa_common.c\<close> that the handshake calls: lengths, selectors, PMKIDs,
    the MIC, the PTK, and the parser for key data.
  \<^item> \<open>Wpa_sm\<close>: \<open>rsn_supp/wpa.c\<close>. The record \<open>wpa_sm\<close> extends the state of the PMKSA cache by the fields of
    \<open>struct wpa_sm\<close>; one function per handler, \<open>wpa_sm_rx_eapol\<close> for a received frame. \<open>Wpa_sm_frame\<close> holds what each part leaves
    alone, \<open>Wpa_sm_props\<close> the invariant of key installation, \<open>Wpa_sm_run\<close> the events and runs with a
    complete handshake as an example, \<open>Wpa_sm_auth\<close> authentication and replay protection, \<open>Wpa_sm_wpa1\<close> the group
    message of WPA version 1, \<open>Wpa_sm_safe\<close> the memory safety of the reception of a frame.
  \<^item> \<open>Rsn_ie\<close>, \<open>Rsn_ie_props\<close>: the parsers of the WPA and RSN elements in \<open>common/wpa_common.c\<close> and their generators in
    \<open>rsn_supp/wpa_ie.c\<close>.
  \<^item> \<open>Block_alloc\<close>, \<open>Eloop\<close>, \<open>Eloop_props\<close>: the block allocator \<open>utils/block_alloc.c\<close>, the clock of \<open>utils/os_freertos.c\<close> and the event
    loop \<open>utils/eloop_freertos.c\<close>, with its linked list of timeouts in the memory of the pool. The timers of the other components are
    fields of their states: their handlers run as events.

  \<^bold>\<open>Conventions.\<close> A C function becomes a function that returns \<^const>\<open>None\<close> where the code would read or write
  outside an object, use freed memory or reach undefined behaviour; its error codes are values. Integers keep
  their width where the code computes with them. Calls that leave the modelled parts are recorded in
  a trace (\<open>rsn_trace\<close>, the effects of the EAP and EAPOL records) and answered from a stream that is
  part of the state (\<open>rsn_answers\<close>, \<open>rsn_ask\<close>), so that every failure of an allocation, of the driver or of a timer
  is covered. The clock is constant within an operation. Callbacks that re-enter a machine are later events.

  \<^bold>\<open>Configuration.\<close> The model is of the port's build: \<open>CONFIG_WEP\<close>, \<open>CONFIG_WPS\<close>, \<open>CONFIG_WNM\<close>, \<open>CONFIG_SAE\<close>,
  \<open>CONFIG_SUITEB\<close> and \<open>CONFIG_SUITEB192\<close> are set; \<open>CONFIG_ERP\<close>, \<open>CONFIG_EAP_PROXY\<close>, \<open>PCSC_FUNCS\<close>, \<open>CONFIG_FIPS\<close>, \<open>CONFIG_FILS\<close>,
  \<open>CONFIG_IEEE80211R\<close>, \<open>CONFIG_OWE\<close>, \<open>CONFIG_DPP\<close>, \<open>CONFIG_OCV\<close>, \<open>CONFIG_TDLS\<close>, \<open>CONFIG_P2P\<close> and \<open>WPA_TRACE\<close> are not.

  \<^bold>\<open>What the theorems show.\<close> Buffers: what is appended is read back and nothing is written outside them; Base64 decodes
  what it encodes. EAP: headers and TLVs are read inside the message; the peer machine stops on every input;
  success needs the decision of the method; duplicates are retransmitted; the Nak lists the allowed methods.
  EAPOL: the port status follows the PAE state over all runs, the port opens exactly when the standard says, key
  frames are authenticated and fresh. PMKSA cache: memory safety over all runs, refinement of the abstract map, expiry. Keys: the
  KDF loops equal their definition in IEEE 802.11, unwrap inverts wrap, the PTK derivation splits the KDF
  output in the same way on both sides. Key data: the parser stays inside it, with the exact exception. Handshake:
  only authenticated frames set keys, a pairwise key is installed once per SNonce, replays have no effect,
  and no received frame makes a handler leave a buffer or use freed memory, except through the parser for key data. Elements: the
  parsers stay inside the element, a generated RSN element is parsed back to the suites it was made of, and the length check
  of the generator is one field too weak. Event loop: the pool stays well formed, no released block is used and none is lost over all
  runs, the list refines a sorted list of timeouts, due handlers are called in order; the 32-bit clock and unsigned
  remaining times break this at their limits.

  \<^bold>\<open>Bounds and fuel.\<close> The loop of \<open>eap_peer_sm_step\<close> is proved to end within the 100 iterations that the
  code allows; lists of methods have at most 8000 entries and identities at most 60000 octets, far above what a
  frame can carry, so that sizes do not wrap. All other loops recurse on a list or on a measure and need no fuel.

  \<^bold>\<open>Not modelled.\<close> Drivers, operating system and vendor ports (system calls and hardware), the crypto backends and TLS (the
  primitives are parameters with their documented lengths), control interfaces, configuration files and programs (text input and output),
  the access point side, P2P, WPS, DPP, MACsec, FT and TDLS (separate or compiled-out protocols), and the glue of \<open>wpa_supplicant/*.c\<close> around
  scan results, whose effect on the modelled machines are their events.
\<close>

end
